(* ===== verification/Prelude.thy ===== *)
theory Prelude
  imports Main "HOL-Library.Word" "HOL-Library.Sublist" "HOL-Library.List_Lexorder"
    "HOL-Library.Char_ord"
begin

text \<open>
  Shared vocabulary of the SIL Kit development: the error values that model the exceptions of
  the C++ sources, the result type of fallible operations and its sequencing, bytes and the
  little-endian image of integers in memory, ordered association lists for \<^verbatim>\<open>std::map\<close>, and
  the collections of facts the component theories extend.
\<close>

section \<open>Collections\<close>

named_theorems codec_rules
  \<open>introduction rules that compose encoders and decoders field by field\<close>
named_theorems message_rules
  \<open>introduction rules for whole messages, whose last part may be missing\<close>
named_theorems bounded_rules
  \<open>introduction rules that show a decoder stays inside its buffer\<close>
named_theorems codec_defs
  \<open>definitions of encoders, decoders, wire formats and value ranges\<close>

section \<open>Errors and results\<close>

text \<open>
  The exceptions the modelled code throws. \<open>End_of_buffer\<close> is \<^verbatim>\<open>end_of_buffer\<close> of
  \<^verbatim>\<open>MessageBuffer.hpp\<close>; the others are the exception classes of
  \<^verbatim>\<open>silkit/participant/exception.hpp\<close> with their message. \<open>Undefined_behaviour\<close> is no exception:
  it marks a step to which the language gives no meaning, such as a read outside a vector.
\<close>

datatype error =
    End_of_buffer
  | SilKitError string
  | ProtocolError string
  | AssertionError string
  | StateError string
  | LogicError string
  | ConfigurationError string
  | OutOfRangeError string
  | Undefined_behaviour string

type_synonym 'a result = "error + 'a"

definition res_bind :: "'a result \<Rightarrow> ('a \<Rightarrow> 'b result) \<Rightarrow> 'b result" where
  "res_bind r f = (case r of Inl e \<Rightarrow> Inl e | Inr x \<Rightarrow> f x)"

lemma res_bind_simps [simp]:
  "res_bind (Inl e) f = Inl e"
  "res_bind (Inr x) f = f x"
  by (simp_all add: res_bind_def)

lemma res_bind_Inr_iff: "res_bind r f = Inr y \<longleftrightarrow> (\<exists>x. r = Inr x \<and> f x = Inr y)"
  by (cases r) simp_all

section \<open>Bytes and little-endian integers\<close>

type_synonym byte = "8 word"

primrec nat_le :: "nat \<Rightarrow> nat \<Rightarrow> byte list" where
  "nat_le 0 v = []"
| "nat_le (Suc n) v = of_nat (v mod 256) # nat_le n (v div 256)"

primrec le_nat :: "byte list \<Rightarrow> nat" where
  "le_nat [] = 0"
| "le_nat (b # bs) = unat b + 256 * le_nat bs"

lemma nat_le_numeral: "nat_le (numeral k) v = of_nat (v mod 256) # nat_le (pred_numeral k) (v div 256)"
  by (subst numeral_eq_Suc) (rule nat_le.simps(2))

lemma length_nat_le [simp]: "length (nat_le n v) = n"
  by (induction n arbitrary: v) simp_all

lemma unat_byte_of_nat [simp]: "unat (of_nat (v mod 256) :: byte) = v mod 256"
  by (simp add: unat_of_nat)

lemma le_nat_nat_le: "v < 256 ^ n \<Longrightarrow> le_nat (nat_le n v) = v"
proof (induction n arbitrary: v)
  case 0
  then show ?case by simp
next
  case (Suc n)
  from Suc.prems have "v div 256 < 256 ^ n"
    by (simp add: less_mult_imp_div_less mult.commute)
  then have "le_nat (nat_le n (v div 256)) = v div 256"
    by (rule Suc.IH)
  then show ?case by simp
qed

lemma le_nat_bound: "le_nat bs < 256 ^ length bs"
proof (induction bs)
  case Nil
  then show ?case by simp
next
  case (Cons b bs)
  have "unat b < 256" using unsigned_less [of b] by simp
  with Cons show ?case by simp
qed

lemma nat_le_le_nat: "nat_le (length bs) (le_nat bs) = bs"
proof (induction bs)
  case Nil
  then show ?case by simp
next
  case (Cons b bs)
  have b: "unat b < 256" using unsigned_less [of b] by simp
  then have "(unat b + 256 * le_nat bs) mod 256 = unat b"
    and "(unat b + 256 * le_nat bs) div 256 = le_nat bs"
    by simp_all
  with Cons show ?case by simp
qed

text \<open>The object representation of an unsigned integer of \<open>8 * n\<close> bits on a little-endian host.\<close>

definition word_sizeof :: "'a::len word itself \<Rightarrow> nat" where
  "word_sizeof _ = LENGTH('a) div 8"

definition word_le :: "'a::len word \<Rightarrow> byte list" where
  "word_le w = nat_le (word_sizeof TYPE('a word)) (unat w)"

definition le_word :: "byte list \<Rightarrow> 'a::len word" where
  "le_word bs = of_nat (le_nat bs)"

lemma length_word_le [simp]: "length (word_le (w::'a::len word)) = word_sizeof TYPE('a word)"
  by (simp add: word_le_def)

lemma word_sizeof_8_16_32_64 [simp]:
  "word_sizeof TYPE(8 word) = 1"
  "word_sizeof TYPE(16 word) = 2"
  "word_sizeof TYPE(32 word) = 4"
  "word_sizeof TYPE(64 word) = 8"
  by (simp_all add: word_sizeof_def)

lemma le_word_word_le:
  assumes "8 dvd LENGTH('a::len)"
  shows "le_word (word_le w) = (w :: 'a word)"
proof -
  from assms have "(256::nat) ^ (LENGTH('a) div 8) = 2 ^ LENGTH('a)"
    by (auto simp: power_mult)
  moreover have "unat w < 2 ^ LENGTH('a)" by (rule unsigned_less)
  ultimately have "le_nat (word_le w) = unat w"
    by (simp add: word_le_def word_sizeof_def le_nat_nat_le)
  then show ?thesis by (simp add: le_word_def)
qed

lemma word_le_le_word:
  assumes "8 dvd LENGTH('a::len)" and "length bs = word_sizeof TYPE('a word)"
  shows "word_le (le_word bs :: 'a word) = bs"
proof -
  from assms(1) have "(256::nat) ^ (LENGTH('a) div 8) = 2 ^ LENGTH('a)"
    by (auto simp: power_mult)
  with assms(2) le_nat_bound [of bs] have "unat (of_nat (le_nat bs) :: 'a word) = le_nat bs"
    by (simp add: unat_of_nat word_sizeof_def)
  then show ?thesis using nat_le_le_nat [of bs] assms(2) by (simp add: word_le_def le_word_def)
qed

section \<open>Characters as bytes\<close>

definition byte_of_char :: "char \<Rightarrow> byte" where
  "byte_of_char c = of_nat (of_char c)"

definition char_of_byte :: "byte \<Rightarrow> char" where
  "char_of_byte b = char_of (unat b)"

lemma char_of_byte_of_char [simp]: "char_of_byte (byte_of_char c) = c"
proof -
  have "unat (of_nat (of_char c) :: byte) = of_char c"
    by (simp add: unat_of_nat)
  then show ?thesis by (simp add: char_of_byte_def byte_of_char_def)
qed

lemma map_char_of_byte_of_char [simp]: "map (char_of_byte \<circ> byte_of_char) s = s"
  by (induction s) simp_all

section \<open>Lists\<close>

lemma strict_prefix_appendE:
  assumes "strict_prefix bs (xs @ ys)"
  obtains "strict_prefix bs xs" | zs where "bs = xs @ zs" "strict_prefix zs ys"
proof (cases "prefix xs bs")
  case True
  then obtain zs where zs: "bs = xs @ zs" by (auto simp: prefix_def)
  with assms have "strict_prefix zs ys" by (auto simp: strict_prefix_def)
  with zs that(2) show ?thesis by blast
next
  case False
  with assms have "strict_prefix bs xs"
    by (metis prefix_same_cases prefix_order.less_imp_le prefixI prefix_order.le_less)
  with that(1) show ?thesis by blast
qed

lemma strict_prefix_length: "strict_prefix bs xs \<Longrightarrow> length bs < length xs"
  by (rule prefix_length_less)

lemma bex_snd: "(\<exists>p \<in> S. P (snd p)) \<longleftrightarrow> (\<exists>a b. (a, b) \<in> S \<and> P b)"
  by force

section \<open>Ordered association lists for std::map\<close>

text \<open>
  A \<^verbatim>\<open>std::map\<close> is the list of its pairs in the order of its iteration, that is by ascending
  key. \<open>map_assign k v m\<close> is \<^verbatim>\<open>m[k] = v\<close>.
\<close>

type_synonym ('k, 'v) omap = "('k \<times> 'v) list"

fun map_assign :: "'k::linorder \<Rightarrow> 'v \<Rightarrow> ('k, 'v) omap \<Rightarrow> ('k, 'v) omap" where
  "map_assign k v [] = [(k, v)]"
| "map_assign k v ((a, b) # m) =
     (if k < a then (k, v) # (a, b) # m
      else if k = a then (k, v) # m
      else (a, b) # map_assign k v m)"

definition map_erase :: "'k \<Rightarrow> ('k, 'v) omap \<Rightarrow> ('k, 'v) omap" where
  "map_erase k m = filter (\<lambda>(a, _). a \<noteq> k) m"

definition omap_ok :: "('k::linorder, 'v) omap \<Rightarrow> bool" where
  "omap_ok m \<longleftrightarrow> sorted_wrt (<) (map fst m)"

lemma omap_ok_Nil [simp]: "omap_ok []"
  by (simp add: omap_ok_def)

lemma omap_ok_Cons: "omap_ok (p # m) \<longleftrightarrow> (\<forall>q \<in> set m. fst p < fst q) \<and> omap_ok m"
  by (auto simp: omap_ok_def)

lemma set_map_assign_keys: "fst ` set (map_assign k v m) = insert k (fst ` set m)"
  by (induction k v m rule: map_assign.induct) auto

lemma map_assign_ok: "omap_ok m \<Longrightarrow> omap_ok (map_assign k v m)"
proof (induction k v m rule: map_assign.induct)
  case (1 k v)
  then show ?case by (simp add: omap_ok_Cons)
next
  case (2 k v a b m)
  show ?case
  proof (cases "k < a \<or> k = a")
    case True
    with "2.prems" show ?thesis by (auto simp: omap_ok_Cons)
  next
    case False
    with "2" have IH: "omap_ok (map_assign k v m)" by (simp add: omap_ok_Cons)
    have "a < fst q" if "q \<in> set (map_assign k v m)" for q
    proof -
      from that have "fst q \<in> insert k (fst ` set m)"
        by (metis image_eqI set_map_assign_keys)
      with "2.prems" False show ?thesis by (auto simp: omap_ok_Cons)
    qed
    with False IH show ?thesis by (auto simp: omap_ok_Cons)
  qed
qed

lemma map_of_map_assign: "map_of (map_assign k v m) = (map_of m)(k \<mapsto> v)"
  by (induction k v m rule: map_assign.induct) auto

lemma map_assign_last: "\<forall>q \<in> set m. fst q < k \<Longrightarrow> map_assign k v m = m @ [(k, v)]"
  by (induction k v m rule: map_assign.induct) auto

lemma map_erase_ok: "omap_ok m \<Longrightarrow> omap_ok (map_erase k m)"
  by (induction m) (auto simp: map_erase_def omap_ok_Cons)

lemma map_of_map_erase: "map_of (map_erase k m) = (map_of m)(k := None)"
  by (induction m) (auto simp: map_erase_def fun_eq_iff)

lemma omap_ok_append: "omap_ok (m @ n) \<longleftrightarrow>
   omap_ok m \<and> omap_ok n \<and> (\<forall>p \<in> set m. \<forall>q \<in> set n. fst p < fst q)"
  by (induction m) (auto simp: omap_ok_Cons)

lemma omap_ok_distinct: "omap_ok m \<Longrightarrow> distinct (map fst m)"
  by (induction m) (auto simp: omap_ok_Cons)

lemma map_filter_append [simp]: "List.map_filter f (xs @ ys) = List.map_filter f xs @ List.map_filter f ys"
  by (simp add: List.map_filter_def)

end
