(* ===== verification/MessageBuffer.thy ===== *)
theory MessageBuffer
  imports Prelude
begin

text \<open>
  The serialisation buffer of \<^verbatim>\<open>core/internal/MessageBuffer.hpp\<close>: its state, the streaming
  operators \<^verbatim>\<open><<\<close> and \<^verbatim>\<open>>>\<close> of every elementary type, and the contract that each pair of
  operators keeps (\<open>codec\<close>). Integers are stored with \<^verbatim>\<open>memcpy\<close>; the model is that of a
  little-endian host. \<^verbatim>\<open>IncreaseCapacity\<close> only reserves memory and has no counterpart. Positions
  and sizes are natural numbers: \<^verbatim>\<open>size_t\<close> sums of a position in an existing vector and a
  32-bit length do not wrap on a 64-bit host.
\<close>

section \<open>State\<close>

record protocol_version =
  pv_major :: "16 word"
  pv_minor :: "16 word"

definition CurrentProtocolVersion :: protocol_version where
  "CurrentProtocolVersion = \<lparr>pv_major = 3, pv_minor = 1\<rparr>"

definition pv_less :: "protocol_version \<Rightarrow> protocol_version \<Rightarrow> bool" where
  "pv_less l r \<longleftrightarrow>
     pv_major l < pv_major r \<or> (pv_major l = pv_major r \<and> pv_minor l < pv_minor r)"

record message_buffer =
  mb_protocolVersion :: protocol_version
  mb_storage :: "byte list"
  mb_wPos :: nat
  mb_rPos :: nat

type_synonym 'a reader = "message_buffer \<Rightarrow> ('a \<times> message_buffer) result"
type_synonym writer = "message_buffer \<Rightarrow> message_buffer result"

definition MessageBuffer_empty :: message_buffer where
  "MessageBuffer_empty =
     \<lparr>mb_protocolVersion = CurrentProtocolVersion, mb_storage = [], mb_wPos = 0, mb_rPos = 0\<rparr>"

definition MessageBuffer_from :: "byte list \<Rightarrow> message_buffer" where
  "MessageBuffer_from data =
     \<lparr>mb_protocolVersion = CurrentProtocolVersion, mb_storage = data,
      mb_wPos = length data, mb_rPos = 0\<rparr>"

definition mb_ReleaseStorage :: "message_buffer \<Rightarrow> byte list \<times> message_buffer" where
  "mb_ReleaseStorage mb =
     (mb_storage mb, mb\<lparr>mb_storage := [], mb_wPos := 0, mb_rPos := 0\<rparr>)"

definition RemainingBytesLeft :: "message_buffer \<Rightarrow> nat" where
  "RemainingBytesLeft mb =
     (if mb_rPos mb > length (mb_storage mb) then 0 else length (mb_storage mb) - mb_rPos mb)"

definition mb_SetProtocolVersion :: "protocol_version \<Rightarrow> message_buffer \<Rightarrow> message_buffer" where
  "mb_SetProtocolVersion v mb = mb\<lparr>mb_protocolVersion := v\<rparr>"

text \<open>\<open>peeking g\<close> runs \<open>g\<close> under a \<^verbatim>\<open>MessageBufferPeeker\<close>, whose destructor restores \<^verbatim>\<open>_rPos\<close>.\<close>

definition peeking :: "'a reader \<Rightarrow> 'a reader" where
  "peeking g mb =
     (case g mb of Inl e \<Rightarrow> Inl e | Inr (x, mb') \<Rightarrow> Inr (x, mb'\<lparr>mb_rPos := mb_rPos mb\<rparr>))"

section \<open>Chaining of the streaming operators\<close>

definition rd_return :: "'a \<Rightarrow> 'a reader" where
  "rd_return x mb = Inr (x, mb)"

definition rd_bind :: "'a reader \<Rightarrow> ('a \<Rightarrow> 'b reader) \<Rightarrow> 'b reader" where
  "rd_bind g f mb = (case g mb of Inl e \<Rightarrow> Inl e | Inr (x, mb') \<Rightarrow> f x mb')"

text \<open>\<open>write_all [w\<^sub>1, \<dots>, w\<^sub>n]\<close> is \<^verbatim>\<open>buffer << x1 << ... << xn\<close>.\<close>

fun write_all :: "writer list \<Rightarrow> writer" where
  "write_all [] mb = Inr mb"
| "write_all (w # ws) mb = res_bind (w mb) (write_all ws)"

section \<open>Raw storage access\<close>

text \<open>
  \<open>grow\<close> is \<^verbatim>\<open>_storage.resize\<close> to a larger size (new bytes are zero), \<open>overwrite\<close> the
  \<^verbatim>\<open>memcpy\<close>/\<^verbatim>\<open>std::copy\<close> into the storage.
\<close>

definition grow :: "nat \<Rightarrow> byte list \<Rightarrow> byte list" where
  "grow n xs = xs @ replicate (n - length xs) 0"

definition overwrite :: "nat \<Rightarrow> byte list \<Rightarrow> byte list \<Rightarrow> byte list" where
  "overwrite p bs xs = take p xs @ bs @ drop (p + length bs) xs"

definition put_raw :: "byte list \<Rightarrow> writer" where
  "put_raw bs mb =
     (let s = mb_storage mb; p = mb_wPos mb;
          s' = (if p + length bs > length s then grow (p + length bs) s else s)
      in Inr (mb\<lparr>mb_storage := overwrite p bs s', mb_wPos := p + length bs\<rparr>))"

definition get_raw :: "nat \<Rightarrow> byte list reader" where
  "get_raw n mb =
     (if mb_rPos mb + n > length (mb_storage mb) then Inl End_of_buffer
      else Inr (take n (drop (mb_rPos mb) (mb_storage mb)), mb\<lparr>mb_rPos := mb_rPos mb + n\<rparr>))"

section \<open>Integral types, enums and floating point\<close>

text \<open>
  The integer operator grows the storage by the size of the integer whenever the write does
  not fit, not up to the end of the write. An enum is streamed as its underlying integer
  (lines 159-168) and a \<^verbatim>\<open>double\<close> as its 64-bit pattern (lines 126-155), so both use these
  definitions at the width of their representation.
\<close>

definition put_word :: "'a::len word \<Rightarrow> writer" where
  "put_word t mb =
     (let n = word_sizeof TYPE('a word); s = mb_storage mb; p = mb_wPos mb;
          s' = (if p + n > length s then grow (length s + n) s else s)
      in Inr (mb\<lparr>mb_storage := overwrite p (word_le t) s', mb_wPos := p + n\<rparr>))"

definition get_word :: "'a::len word reader" where
  "get_word mb =
     (let n = word_sizeof TYPE('a word) in
      if mb_rPos mb + n > length (mb_storage mb) then Inl End_of_buffer
      else Inr (le_word (take n (drop (mb_rPos mb) (mb_storage mb))),
                mb\<lparr>mb_rPos := mb_rPos mb + n\<rparr>))"

text \<open>A \<^verbatim>\<open>bool\<close> is an integral type of one byte; any byte other than 0 reads as true.\<close>

definition put_bool :: "bool \<Rightarrow> writer" where
  "put_bool b = put_word (if b then 1 else 0 :: 8 word)"

definition get_bool :: "bool reader" where
  "get_bool = rd_bind get_word (\<lambda>b :: 8 word. rd_return (b \<noteq> 0))"

section \<open>Strings, byte vectors and byte arrays\<close>

definition uint32_max :: nat where
  "uint32_max = 2 ^ 32 - 1"

definition put_string :: "string \<Rightarrow> writer" where
  "put_string str mb =
     (if length str > uint32_max then Inl End_of_buffer
      else write_all [put_word (of_nat (length str) :: 32 word), put_raw (map byte_of_char str)] mb)"

definition get_string :: "string reader" where
  "get_string =
     rd_bind get_word (\<lambda>strLength :: 32 word.
     rd_bind (get_raw (unat strLength)) (\<lambda>bs.
     rd_return (map char_of_byte bs)))"

definition put_bytes :: "byte list \<Rightarrow> writer" where
  "put_bytes span mb =
     (if length span > uint32_max then Inl End_of_buffer
      else write_all [put_word (of_nat (length span) :: 32 word), put_raw span] mb)"

definition get_bytes :: "byte list reader" where
  "get_bytes = rd_bind get_word (\<lambda>vectorSize :: 32 word. get_raw (unat vectorSize))"

text \<open>A \<^verbatim>\<open>std::array<uint8_t, SIZE>\<close> has no length prefix; \<open>n\<close> is the template argument \<^verbatim>\<open>SIZE\<close>.\<close>

definition put_array :: "byte list \<Rightarrow> writer" where
  "put_array array mb =
     (if length array > uint32_max then Inl End_of_buffer else put_raw array mb)"

definition get_array :: "nat \<Rightarrow> byte list reader" where
  "get_array n = get_raw n"

section \<open>Vectors\<close>

definition put_vector :: "('a \<Rightarrow> writer) \<Rightarrow> 'a list \<Rightarrow> writer" where
  "put_vector put vector mb =
     (if length vector > uint32_max then Inl End_of_buffer
      else write_all (put_word (of_nat (length vector) :: 32 word) # map put vector) mb)"

primrec get_times :: "nat \<Rightarrow> 'a reader \<Rightarrow> 'a list reader" where
  "get_times 0 get = rd_return []"
| "get_times (Suc n) get =
     rd_bind get (\<lambda>x. rd_bind (get_times n get) (\<lambda>xs. rd_return (x # xs)))"

definition get_vector :: "'a reader \<Rightarrow> 'a list reader" where
  "get_vector get =
     rd_bind get_word (\<lambda>vectorSize :: 32 word. \<lambda>mb.
       if mb_rPos mb + unat vectorSize > length (mb_storage mb) then Inl End_of_buffer
       else get_times (unat vectorSize) get mb)"

section \<open>Durations, time points, pointers, pairs, maps and UUIDs\<close>

text \<open>
  A \<^verbatim>\<open>std::chrono::nanoseconds\<close> is streamed as its 64-bit count. A \<^verbatim>\<open>system_clock\<close> time point
  has nanosecond resolution (libstdc++) and is cut to microseconds, towards zero, on the wire.
\<close>

definition trunc_div :: "int \<Rightarrow> int \<Rightarrow> int" where
  "trunc_div a b = sgn a * sgn b * (\<bar>a\<bar> div \<bar>b\<bar>)"

definition put_duration :: "int \<Rightarrow> writer" where
  "put_duration d = put_word (word_of_int d :: 64 word)"

definition get_duration :: "int reader" where
  "get_duration = rd_bind get_word (\<lambda>count :: 64 word. rd_return (sint count))"

definition put_time_point :: "int \<Rightarrow> writer" where
  "put_time_point t = put_duration (trunc_div t 1000)"

definition get_time_point :: "int reader" where
  "get_time_point = rd_bind get_duration (\<lambda>us. rd_return (us * 1000))"

definition put_ptr :: "64 word \<Rightarrow> writer" where
  "put_ptr t = put_word t"

definition get_ptr :: "64 word reader" where
  "get_ptr = get_word"

definition put_pair :: "('a \<Rightarrow> writer) \<Rightarrow> ('b \<Rightarrow> writer) \<Rightarrow> 'a \<times> 'b \<Rightarrow> writer" where
  "put_pair p q xy = write_all [p (fst xy), q (snd xy)]"

definition get_pair :: "'a reader \<Rightarrow> 'b reader \<Rightarrow> ('a \<times> 'b) reader" where
  "get_pair g h = rd_bind g (\<lambda>x. rd_bind h (\<lambda>y. rd_return (x, y)))"

definition put_map :: "(string, string) omap \<Rightarrow> writer" where
  "put_map msg =
     write_all (put_word (of_nat (length msg) :: 32 word)
       # map (\<lambda>kv. write_all [put_string (fst kv), put_string (snd kv)]) msg)"

primrec get_map_loop :: "nat \<Rightarrow> (string, string) omap \<Rightarrow> (string, string) omap reader" where
  "get_map_loop 0 tmp = rd_return tmp"
| "get_map_loop (Suc i) tmp =
     rd_bind get_string (\<lambda>key. rd_bind get_string (\<lambda>val. get_map_loop i (map_assign key val tmp)))"

definition get_map :: "(string, string) omap reader" where
  "get_map =
     rd_bind get_word (\<lambda>numElements :: 32 word.
     rd_bind (get_map_loop (unat numElements) []) (\<lambda>tmp mb.
       if unat numElements \<noteq> length tmp
       then Inl (SilKitError ''MessageBuffer unable to deserialize std::map<std::string, std::string>'')
       else Inr (tmp, mb)))"

text \<open>
  A \<^verbatim>\<open>std::unordered_map\<close> is the list of its pairs in the order of its iteration, which the
  language leaves open: a new key is put at the end here, and statements about the result
  compare the maps (\<open>map_of\<close>), not the lists.
\<close>

fun umap_assign :: "'k \<Rightarrow> 'v \<Rightarrow> ('k \<times> 'v) list \<Rightarrow> ('k \<times> 'v) list" where
  "umap_assign k v [] = [(k, v)]"
| "umap_assign k v ((a, b) # m) =
     (if k = a then (k, v) # m else (a, b) # umap_assign k v m)"

definition put_umap :: "(string \<times> string) list \<Rightarrow> writer" where
  "put_umap msg =
     write_all (put_word (of_nat (length msg) :: 32 word)
       # map (\<lambda>kv. write_all [put_string (fst kv), put_string (snd kv)]) msg)"

primrec get_umap_loop :: "nat \<Rightarrow> (string \<times> string) list \<Rightarrow> (string \<times> string) list reader" where
  "get_umap_loop 0 tmp = rd_return tmp"
| "get_umap_loop (Suc i) tmp =
     rd_bind get_string (\<lambda>key. rd_bind get_string (\<lambda>val. get_umap_loop i (umap_assign key val tmp)))"

definition get_umap :: "(string \<times> string) list reader" where
  "get_umap =
     rd_bind get_word (\<lambda>numElements :: 32 word.
     rd_bind (get_umap_loop (unat numElements) []) (\<lambda>tmp mb.
       if unat numElements \<noteq> length tmp
       then Inl (SilKitError ''MessageBuffer unable to deserialize std::unordered_map<std::string, std::string>'')
       else Inr (tmp, mb)))"

record uuid =
  uuid_ab :: "64 word"
  uuid_cd :: "64 word"

definition put_uuid :: "uuid \<Rightarrow> writer" where
  "put_uuid u = write_all [put_word (uuid_ab u), put_word (uuid_cd u)]"

definition get_uuid :: "uuid reader" where
  "get_uuid = rd_bind get_word (\<lambda>ab. rd_bind get_word (\<lambda>cd. rd_return \<lparr>uuid_ab = ab, uuid_cd = cd\<rparr>))"

end
