(* ===== verification/Codec.thy ===== *)
theory Codec
  imports MessageBuffer
begin

text \<open>
  The contract between the \<^verbatim>\<open><<\<close> and \<^verbatim>\<open>>>\<close> operators of one type, as the locale \<open>codec\<close>: what
  the writer appends is the wire format of the value, the reader gets the value back and stops
  right behind it, and a message cut short is rejected. The rules in \<open>codec_rules\<close> compose the
  contract along \<^verbatim>\<open>buffer << a << b << c\<close>; the elementary types interpret the locale here, the
  message types in the theories of their serialisers. \<open>bounded\<close> is the safety half of a
  reader: on arbitrary bytes it never leaves the storage.
\<close>

section \<open>Buffers while writing and while reading\<close>

definition writing :: "protocol_version \<Rightarrow> nat \<Rightarrow> byte list \<Rightarrow> message_buffer" where
  "writing v r s = \<lparr>mb_protocolVersion = v, mb_storage = s, mb_wPos = length s, mb_rPos = r\<rparr>"

definition reading :: "protocol_version \<Rightarrow> nat \<Rightarrow> byte list \<Rightarrow> byte list \<Rightarrow> message_buffer" where
  "reading v w pre rest =
     \<lparr>mb_protocolVersion = v, mb_storage = pre @ rest, mb_wPos = w, mb_rPos = length pre\<rparr>"

lemma reading_sel [simp]:
  "mb_protocolVersion (reading v w pre rest) = v"
  "mb_storage (reading v w pre rest) = pre @ rest"
  "mb_rPos (reading v w pre rest) = length pre"
  "RemainingBytesLeft (reading v w pre rest) = length rest"
  by (simp_all add: reading_def RemainingBytesLeft_def)

lemma writing_sel [simp]:
  "mb_protocolVersion (writing v r s) = v"
  "mb_storage (writing v r s) = s"
  "mb_SetProtocolVersion v' (writing v r s) = writing v' r s"
  by (simp_all add: writing_def mb_SetProtocolVersion_def)

lemma empty_writing: "mb_SetProtocolVersion v MessageBuffer_empty = writing v 0 []"
  by (simp add: writing_def MessageBuffer_empty_def mb_SetProtocolVersion_def)

lemma from_reading: "mb_SetProtocolVersion v (MessageBuffer_from bs) = reading v (length bs) [] bs"
  by (simp add: reading_def MessageBuffer_from_def mb_SetProtocolVersion_def)

section \<open>The contract\<close>

definition writes :: "protocol_version \<Rightarrow> writer \<Rightarrow> byte list \<Rightarrow> bool" where
  "writes v p b \<longleftrightarrow> (\<forall>r s. p (writing v r s) = Inr (writing v r (s @ b)))"

definition reads :: "protocol_version \<Rightarrow> 'a reader \<Rightarrow> 'a \<Rightarrow> byte list \<Rightarrow> bool" where
  "reads v g x b \<longleftrightarrow>
     (\<forall>w pre rest. g (reading v w pre (b @ rest)) = Inr (x, reading v w (pre @ b) rest))"

definition rejects_short :: "protocol_version \<Rightarrow> 'a reader \<Rightarrow> byte list \<Rightarrow> bool" where
  "rejects_short v g b \<longleftrightarrow>
     (\<forall>w pre bs. strict_prefix bs b \<longrightarrow> g (reading v w pre bs) = Inl End_of_buffer)"

definition transfers :: "protocol_version \<Rightarrow> writer \<Rightarrow> 'a reader \<Rightarrow> 'a \<Rightarrow> byte list \<Rightarrow> bool" where
  "transfers v p g x b \<longleftrightarrow> writes v p b \<and> reads v g x b \<and> rejects_short v g b"

lemma readsD: "reads v g x b \<Longrightarrow> g (reading v w pre (b @ rest)) = Inr (x, reading v w (pre @ b) rest)"
  by (simp add: reads_def)

lemma readsD0: "reads v g x b \<Longrightarrow> g (reading v w pre b) = Inr (x, reading v w (pre @ b) [])"
  using readsD [of v g x b w pre "[]"] by simp

lemma writesD: "writes v p b \<Longrightarrow> p (writing v r s) = Inr (writing v r (s @ b))"
  by (simp add: writes_def)

lemma transfersD:
  assumes "transfers v p g x b"
  shows "writes v p b" and "reads v g x b" and "rejects_short v g b"
  using assms by (simp_all add: transfers_def)

lemma transfersI: "writes v p b \<Longrightarrow> reads v g x b \<Longrightarrow> rejects_short v g b \<Longrightarrow> transfers v p g x b"
  by (simp add: transfers_def)

section \<open>Composition\<close>

lemma writes_all_Nil: "writes v (write_all []) []"
  by (simp add: writes_def)

lemma writes_all_Cons: "writes v p b \<Longrightarrow> writes v (write_all ps) c \<Longrightarrow> writes v (write_all (p # ps)) (b @ c)"
  by (simp add: writes_def)

lemma reads_return: "reads v (rd_return x) x []"
  by (simp add: reads_def rd_return_def)

lemma reads_bind: "reads v g x b \<Longrightarrow> reads v (f x) y c \<Longrightarrow> reads v (rd_bind g f) y (b @ c)"
  by (simp add: reads_def rd_bind_def)

lemma rejects_short_Nil: "rejects_short v g []"
  by (simp add: rejects_short_def)

lemma rejects_short_bind:
  assumes "rejects_short v g b" and "reads v g x b" and "rejects_short v (f x) c"
  shows "rejects_short v (rd_bind g f) (b @ c)"
  unfolding rejects_short_def
proof (intro allI impI)
  fix w pre bs
  assume "strict_prefix bs (b @ c)"
  then show "rd_bind g f (reading v w pre bs) = Inl End_of_buffer"
    by (cases rule: strict_prefix_appendE)
       (use assms in \<open>auto simp: rejects_short_def rd_bind_def readsD\<close>)
qed

lemma transfers_Nil [codec_rules]: "y = z \<Longrightarrow> transfers v (write_all []) (rd_return y) z (concat [])"
  by (simp add: transfers_def writes_def reads_def rd_return_def rejects_short_def)

lemma transfers_Cons [codec_rules]:
  assumes "transfers v p g x b" and "transfers v (write_all ps) (f x) y (concat bs)"
  shows "transfers v (write_all (p # ps)) (rd_bind g f) y (concat (b # bs))"
  using assms
  by (auto simp: transfers_def writes_def reads_def rd_bind_def intro!: rejects_short_bind)

lemma transfers_map:
  assumes "transfers v p g x b" and "f x = y"
  shows "transfers v p (rd_bind g (\<lambda>x. rd_return (f x))) y b"
proof -
  have "rejects_short v (rd_bind g (\<lambda>x. rd_return (f x))) (b @ [])"
    using assms(1) by (intro rejects_short_bind [of v g b x]) (simp_all add: transfers_def rejects_short_Nil)
  with assms show ?thesis
    by (simp add: transfers_def reads_def rd_bind_def rd_return_def)
qed

section \<open>Elementary operators\<close>

lemma overwrite_at_end: "overwrite (length s) bs (s @ replicate (length bs) 0) = s @ bs"
  by (simp add: overwrite_def)

lemma transfers_word [codec_rules]:
  assumes "8 dvd LENGTH('a::len)"
  shows "transfers v (put_word w) get_word (w :: 'a word) (word_le w)"
proof (rule transfersI)
  have "0 < word_sizeof TYPE('a word)"
    using dvd_imp_le [OF assms len_gt_0] by (simp add: word_sizeof_def div_greater_zero_iff)
  then show "writes v (put_word w) (word_le w)"
    using overwrite_at_end [of _ "word_le w"]
    by (simp add: writes_def put_word_def writing_def grow_def Let_def)
  show "reads v get_word w (word_le w)"
    using assms by (simp add: reads_def get_word_def reading_def Let_def le_word_word_le)
  show "rejects_short v (get_word :: 'a word reader) (word_le w)"
    by (auto simp: rejects_short_def get_word_def reading_def Let_def dest: strict_prefix_length)
qed

lemma transfers_raw: "length bs = n \<Longrightarrow> transfers v (put_raw bs) (get_raw n) bs bs"
  using overwrite_at_end [of _ bs]
  by (auto simp: transfers_def writes_def reads_def rejects_short_def put_raw_def get_raw_def
      writing_def reading_def grow_def Let_def dest: strict_prefix_length)

definition ok_length :: "'a list \<Rightarrow> bool" where
  "ok_length xs \<longleftrightarrow> length xs \<le> uint32_max"

lemma unat_of_nat_length: "ok_length xs \<Longrightarrow> unat (of_nat (length xs) :: 32 word) = length xs"
  by (simp add: ok_length_def uint32_max_def unat_of_nat)

definition string_bytes :: "string \<Rightarrow> byte list" where
  "string_bytes s = concat [word_le (of_nat (length s) :: 32 word), map byte_of_char s]"

lemma transfers_write_guard:
  "\<not> c \<Longrightarrow> transfers v p g x b \<Longrightarrow> transfers v (\<lambda>mb. if c then Inl e else p mb) g x b"
  by simp

lemma transfers_string [codec_rules]: "ok_length s \<Longrightarrow> transfers v (put_string s) get_string s (string_bytes s)"
  unfolding put_string_def [abs_def] get_string_def string_bytes_def
  by (rule transfers_write_guard, simp add: ok_length_def)
     (rule codec_rules transfers_raw | simp add: unat_of_nat_length)+

definition bytes_bytes :: "byte list \<Rightarrow> byte list" where
  "bytes_bytes s = concat [word_le (of_nat (length s) :: 32 word), s]"

lemma transfers_raw_last: "length bs = n \<Longrightarrow> transfers v (write_all [put_raw bs]) (get_raw n) bs (concat [bs])"
  using transfers_raw [of bs n v] by (simp add: transfers_def writes_def)

lemma transfers_bytes [codec_rules]: "ok_length s \<Longrightarrow> transfers v (put_bytes s) get_bytes s (bytes_bytes s)"
  unfolding put_bytes_def [abs_def] get_bytes_def bytes_bytes_def
  by (rule transfers_write_guard, simp add: ok_length_def)
     (rule transfers_Cons transfers_word transfers_raw_last | simp add: unat_of_nat_length)+

lemma transfers_array [codec_rules]:
  "length s = n \<Longrightarrow> n \<le> uint32_max \<Longrightarrow> transfers v (put_array s) (get_array n) s s"
  using transfers_raw [of s n v] by (simp add: put_array_def [abs_def] get_array_def)

section \<open>Vectors\<close>

definition vector_bytes :: "('a \<Rightarrow> byte list) \<Rightarrow> 'a list \<Rightarrow> byte list" where
  "vector_bytes f xs = word_le (of_nat (length xs) :: 32 word) @ concat (map f xs)"

lemma writes_all_map:
  "(\<And>x. x \<in> set xs \<Longrightarrow> writes v (put x) (f x)) \<Longrightarrow> writes v (write_all (map put xs)) (concat (map f xs))"
  by (induction xs) (simp_all add: writes_all_Nil [simplified] writes_all_Cons)

lemma reads_times:
  "(\<And>x. x \<in> set xs \<Longrightarrow> reads v get x (f x)) \<Longrightarrow> reads v (get_times (length xs) get) xs (concat (map f xs))"
proof (induction xs)
  case Nil
  show ?case by (simp add: reads_return)
next
  case (Cons x xs)
  then have "reads v (get_times (length xs) get) xs (concat (map f xs))" by simp
  then have "reads v (rd_bind (get_times (length xs) get) (\<lambda>xs. rd_return (x # xs))) (x # xs) (concat (map f xs) @ [])"
    by (rule reads_bind) (rule reads_return)
  with Cons.prems show ?case by (auto intro: reads_bind)
qed

lemma rejects_short_times:
  "(\<And>x. x \<in> set xs \<Longrightarrow> transfers v (put x) get x (f x)) \<Longrightarrow>
   rejects_short v (get_times (length xs) get) (concat (map f xs))"
proof (induction xs)
  case Nil
  show ?case by (simp add: rejects_short_Nil)
next
  case (Cons x xs)
  then have "rejects_short v (get_times (length xs) get) (concat (map f xs))"
    and "reads v (get_times (length xs) get) xs (concat (map f xs))"
    by (auto intro: reads_times simp: transfers_def)
  then have "rejects_short v (rd_bind (get_times (length xs) get) (\<lambda>xs. rd_return (x # xs))) (concat (map f xs) @ [])"
    by (rule rejects_short_bind) (rule rejects_short_Nil)
  with Cons.prems [of x] show ?case
    by (auto intro!: rejects_short_bind simp: transfers_def)
qed

text \<open>
  \<^verbatim>\<open>operator>>(std::vector<ValueT>&)\<close> compares the number of elements with the number of bytes
  left. The check never refuses a valid vector because every element takes a byte at least.
\<close>

lemma length_le_concat: "(\<And>x. x \<in> set xs \<Longrightarrow> f x \<noteq> []) \<Longrightarrow> length xs \<le> length (concat (map f xs))"
proof (induction xs)
  case Nil
  show ?case by simp
next
  case (Cons x xs)
  then have "f x \<noteq> []" and "length xs \<le> length (concat (map f xs))" by simp_all
  then show ?case by (cases "f x") simp_all
qed

lemma transfers_vector [codec_rules]:
  assumes len: "ok_length xs"
    and tr: "\<And>x. x \<in> set xs \<Longrightarrow> transfers v (put x) get x (f x)"
    and ne: "\<And>x. x \<in> set xs \<Longrightarrow> f x \<noteq> []"
  shows "transfers v (put_vector put xs) (get_vector get) xs (vector_bytes f xs)"
proof (rule transfersI)
  let ?n = "of_nat (length xs) :: 32 word" and ?c = "concat (map f xs)"
  let ?loop = "\<lambda>n :: 32 word. \<lambda>mb. if mb_rPos mb + unat n > length (mb_storage mb) then Inl End_of_buffer
       else get_times (unat n) get mb"
  have n: "unat ?n = length xs" using len by (rule unat_of_nat_length)
  have wd: "transfers v (put_word ?n) get_word ?n (word_le ?n)" by (rule transfers_word) simp
  have rt: "reads v (get_times (length xs) get) xs ?c"
    using tr by (intro reads_times) (simp add: transfers_def)
  show "writes v (put_vector put xs) (vector_bytes f xs)"
  proof -
    have "writes v (write_all (put_word ?n # map put xs)) (vector_bytes f xs)"
      unfolding vector_bytes_def using wd tr by (intro writes_all_Cons writes_all_map) (auto simp: transfers_def)
    with len show ?thesis by (simp add: put_vector_def writes_def ok_length_def)
  qed
  have "reads v (?loop ?n) xs ?c"
    using rt length_le_concat [of xs f, OF ne] by (auto simp: reads_def n not_less trans_le_add1)
  then show "reads v (get_vector get) xs (vector_bytes f xs)"
    unfolding get_vector_def vector_bytes_def using wd by (intro reads_bind) (simp_all add: transfers_def)
  have "rejects_short v (?loop ?n) ?c"
    using rejects_short_times [OF tr] by (simp add: rejects_short_def n)
  then show "rejects_short v (get_vector get) (vector_bytes f xs)"
    unfolding get_vector_def vector_bytes_def using wd by (intro rejects_short_bind) (simp_all add: transfers_def)
qed

section \<open>Durations, time points, pointers, pairs and UUIDs\<close>

definition ok_int64 :: "int \<Rightarrow> bool" where
  "ok_int64 d \<longleftrightarrow> - (2 ^ 63) \<le> d \<and> d < 2 ^ 63"

lemma sint_word_of_int64: "ok_int64 d \<Longrightarrow> sint (word_of_int d :: 64 word) = d"
  by (simp add: ok_int64_def signed_take_bit_int_eq_self sint_sbintrunc')

definition duration_bytes :: "int \<Rightarrow> byte list" where
  "duration_bytes d = word_le (word_of_int d :: 64 word)"

lemma transfers_duration [codec_rules]:
  "ok_int64 d \<Longrightarrow> transfers v (put_duration d) get_duration d (duration_bytes d)"
  unfolding put_duration_def get_duration_def duration_bytes_def
  by (rule transfers_map, rule transfers_word) (simp_all add: sint_word_of_int64)

text \<open>
  A time point survives the wire exactly when it is a whole number of microseconds; any other
  is cut towards zero.
\<close>

definition ok_time_point :: "int \<Rightarrow> bool" where
  "ok_time_point t \<longleftrightarrow> ok_int64 t \<and> 1000 dvd t"

definition time_point_bytes :: "int \<Rightarrow> byte list" where
  "time_point_bytes t = duration_bytes (trunc_div t 1000)"

lemma trunc_div_1000: "trunc_div t 1000 * 1000 = t - sgn t * (\<bar>t\<bar> mod 1000)"
proof -
  have "\<bar>t\<bar> div 1000 * 1000 = \<bar>t\<bar> - \<bar>t\<bar> mod 1000" by (simp add: minus_mod_eq_div_mult)
  then have "sgn t * (\<bar>t\<bar> div 1000 * 1000) = sgn t * \<bar>t\<bar> - sgn t * (\<bar>t\<bar> mod 1000)"
    by (simp add: right_diff_distrib)
  then show ?thesis by (simp add: trunc_div_def sgn_mult_abs mult.assoc)
qed

lemma ok_int64_trunc_div: "ok_int64 t \<Longrightarrow> ok_int64 (trunc_div t 1000)"
  by (cases t "0 :: int" rule: linorder_cases) (auto simp: ok_int64_def trunc_div_def)

lemma transfers_time_point_cut:
  "ok_int64 t \<Longrightarrow>
   transfers v (put_time_point t) get_time_point (t - sgn t * (\<bar>t\<bar> mod 1000)) (time_point_bytes t)"
  unfolding put_time_point_def get_time_point_def time_point_bytes_def
  by (rule transfers_map, rule transfers_duration) (simp_all add: ok_int64_trunc_div trunc_div_1000)

lemma transfers_time_point [codec_rules]:
  assumes "ok_time_point t"
  shows "transfers v (put_time_point t) get_time_point t (time_point_bytes t)"
proof -
  from assms have "\<bar>t\<bar> mod 1000 = 0" by (simp add: ok_time_point_def)
  with assms show ?thesis using transfers_time_point_cut [of t v] by (simp add: ok_time_point_def)
qed

lemma transfers_ptr [codec_rules]: "transfers v (put_ptr t) get_ptr t (word_le t)"
  unfolding put_ptr_def get_ptr_def by (rule transfers_word) simp

definition bool_bytes :: "bool \<Rightarrow> byte list" where
  "bool_bytes b = word_le (if b then 1 else 0 :: 8 word)"

lemma transfers_bool [codec_rules]: "transfers v (put_bool b) get_bool b (bool_bytes b)"
  unfolding put_bool_def get_bool_def bool_bytes_def
  by (rule transfers_map, rule transfers_word) simp_all

definition pair_bytes :: "('a \<Rightarrow> byte list) \<Rightarrow> ('b \<Rightarrow> byte list) \<Rightarrow> 'a \<times> 'b \<Rightarrow> byte list" where
  "pair_bytes f g xy = concat [f (fst xy), g (snd xy)]"

lemma transfers_pair [codec_rules]:
  assumes "transfers v (p (fst xy)) g (fst xy) (f (fst xy))"
    and "transfers v (q (snd xy)) h (snd xy) (k (snd xy))"
  shows "transfers v (put_pair p q xy) (get_pair g h) xy (pair_bytes f k xy)"
  unfolding put_pair_def get_pair_def pair_bytes_def
  by (rule transfers_Cons, rule assms, rule transfers_Cons, rule assms, rule transfers_Nil) simp

definition uuid_bytes :: "uuid \<Rightarrow> byte list" where
  "uuid_bytes u = concat [word_le (uuid_ab u), word_le (uuid_cd u)]"

lemma transfers_uuid [codec_rules]: "transfers v (put_uuid u) get_uuid u (uuid_bytes u)"
  unfolding put_uuid_def get_uuid_def uuid_bytes_def by (rule codec_rules | simp)+

section \<open>Maps\<close>

definition map_bytes :: "(string \<times> string) list \<Rightarrow> byte list" where
  "map_bytes m = vector_bytes (\<lambda>kv. concat [string_bytes (fst kv), string_bytes (snd kv)]) m"

definition ok_strings :: "(string \<times> string) list \<Rightarrow> bool" where
  "ok_strings m \<longleftrightarrow> ok_length m \<and> (\<forall>kv \<in> set m. ok_length (fst kv) \<and> ok_length (snd kv))"

definition ok_map :: "(string, string) omap \<Rightarrow> bool" where
  "ok_map m \<longleftrightarrow> ok_strings m \<and> omap_ok m"

definition ok_umap :: "(string \<times> string) list \<Rightarrow> bool" where
  "ok_umap m \<longleftrightarrow> ok_strings m \<and> distinct (map fst m)"

text \<open>
  Both map readers are one loop over pairs of strings; \<open>assign\<close> is the insertion of the
  container. As long as every key is new to the container, the loop returns the pairs read.
\<close>

primrec pairs_loop :: "(string \<Rightarrow> string \<Rightarrow> 'm \<Rightarrow> 'm) \<Rightarrow> nat \<Rightarrow> 'm \<Rightarrow> 'm reader" where
  "pairs_loop assign 0 tmp = rd_return tmp"
| "pairs_loop assign (Suc i) tmp =
     rd_bind get_string (\<lambda>key. rd_bind get_string (\<lambda>val. pairs_loop assign i (assign key val tmp)))"

lemma get_map_loop_pairs: "get_map_loop n tmp = pairs_loop map_assign n tmp"
  by (induction n arbitrary: tmp) simp_all

lemma get_umap_loop_pairs: "get_umap_loop n tmp = pairs_loop umap_assign n tmp"
  by (induction n arbitrary: tmp) simp_all

lemma writes_pairs:
  "\<forall>kv \<in> set m. ok_length (fst kv) \<and> ok_length (snd kv) \<Longrightarrow>
   writes v (write_all (map (\<lambda>kv. write_all [put_string (fst kv), put_string (snd kv)]) m))
     (concat (map (\<lambda>kv. concat [string_bytes (fst kv), string_bytes (snd kv)]) m))"
proof (rule writes_all_map)
  fix kv :: "string \<times> string"
  assume "kv \<in> set m" and "\<forall>kv \<in> set m. ok_length (fst kv) \<and> ok_length (snd kv)"
  then have "transfers v (write_all [put_string (fst kv), put_string (snd kv)])
      (rd_bind get_string (\<lambda>k. rd_bind get_string (\<lambda>w. rd_return (k, w)))) kv
      (concat [string_bytes (fst kv), string_bytes (snd kv)])"
    by - (rule codec_rules | simp)+
  then show "writes v (write_all [put_string (fst kv), put_string (snd kv)])
      (concat [string_bytes (fst kv), string_bytes (snd kv)])"
    by (simp add: transfers_def)
qed

lemma reads_pairs_loop:
  assumes "\<forall>kv \<in> set m. ok_length (fst kv) \<and> ok_length (snd kv)"
  shows "reads v (pairs_loop assign (length m) tmp) (fold (\<lambda>kv. assign (fst kv) (snd kv)) m tmp)
           (concat (map (\<lambda>kv. concat [string_bytes (fst kv), string_bytes (snd kv)]) m))
       \<and> rejects_short v (pairs_loop assign (length m) tmp)
           (concat (map (\<lambda>kv. concat [string_bytes (fst kv), string_bytes (snd kv)]) m))"
  using assms
proof (induction m arbitrary: tmp)
  case Nil
  show ?case by (simp add: reads_return rejects_short_Nil)
next
  case (Cons kv m)
  then have str: "transfers v (put_string (fst kv)) get_string (fst kv) (string_bytes (fst kv))"
    "transfers v (put_string (snd kv)) get_string (snd kv) (string_bytes (snd kv))"
    by (auto intro: transfers_string)
  note IH = Cons.IH [of "assign (fst kv) (snd kv) tmp"]
  from Cons.prems str IH show ?case
    by (auto simp: transfers_def intro!: reads_bind rejects_short_bind)
qed

lemma fold_map_assign:
  "omap_ok (tmp @ m) \<Longrightarrow> fold (\<lambda>kv. map_assign (fst kv) (snd kv)) m tmp = tmp @ m"
proof (induction m arbitrary: tmp)
  case Nil
  then show ?case by simp
next
  case (Cons kv m)
  then have "map_assign (fst kv) (snd kv) tmp = tmp @ [kv]"
    by (simp add: map_assign_last omap_ok_append)
  with Cons show ?case by simp
qed

lemma umap_assign_last: "k \<notin> fst ` set m \<Longrightarrow> umap_assign k v m = m @ [(k, v)]"
  by (induction k v m rule: umap_assign.induct) auto

lemma fold_umap_assign:
  "distinct (map fst (tmp @ m)) \<Longrightarrow> fold (\<lambda>kv. umap_assign (fst kv) (snd kv)) m tmp = tmp @ m"
proof (induction m arbitrary: tmp)
  case Nil
  then show ?case by simp
next
  case (Cons kv m)
  then have "umap_assign (fst kv) (snd kv) tmp = tmp @ [kv]"
    by (simp add: umap_assign_last)
  with Cons show ?case by simp
qed

text \<open>The frame both map readers share: a count, the loop, and the check of the final size.\<close>

lemma transfers_pairs:
  assumes ok: "ok_strings m"
    and result: "fold (\<lambda>kv. assign (fst kv) (snd kv)) m tmp = y" and size: "check y = length m"
  shows "transfers v
      (write_all (put_word (of_nat (length m) :: 32 word)
         # map (\<lambda>kv. write_all [put_string (fst kv), put_string (snd kv)]) m))
      (rd_bind get_word (\<lambda>n :: 32 word.
         rd_bind (pairs_loop assign (unat n) tmp) (\<lambda>tmp mb.
           if unat n \<noteq> check tmp then Inl e else Inr (tmp, mb))))
      y (map_bytes m)"
proof (rule transfersI)
  let ?n = "of_nat (length m) :: 32 word"
  let ?c = "concat (map (\<lambda>kv. concat [string_bytes (fst kv), string_bytes (snd kv)]) m)"
  let ?finish = "\<lambda>n tmp mb. if n \<noteq> check tmp then Inl e else Inr (tmp, mb)"
  have n: "unat ?n = length m" using ok by (intro unat_of_nat_length) (simp add: ok_strings_def)
  have wd: "transfers v (put_word ?n) get_word ?n (word_le ?n)" by (rule transfers_word) simp
  have loop: "reads v (pairs_loop assign (unat ?n) tmp) y ?c"
    "rejects_short v (pairs_loop assign (unat ?n) tmp) ?c"
    using reads_pairs_loop [of m v assign tmp] ok result n by (auto simp: ok_strings_def)
  have fin: "reads v (?finish (unat ?n) y) y []" by (simp add: reads_def n size)
  show "writes v (write_all (put_word ?n # map (\<lambda>kv. write_all [put_string (fst kv), put_string (snd kv)]) m)) (map_bytes m)"
    unfolding map_bytes_def vector_bytes_def using wd ok
    by (intro writes_all_Cons writes_pairs) (auto simp: transfers_def ok_strings_def)
  have r: "reads v (rd_bind (pairs_loop assign (unat ?n) tmp) (?finish (unat ?n))) y (?c @ [])"
    by (rule reads_bind) (rule loop fin)+
  have s: "rejects_short v (rd_bind (pairs_loop assign (unat ?n) tmp) (?finish (unat ?n))) (?c @ [])"
    by (rule rejects_short_bind) (rule loop rejects_short_Nil)+
  show "reads v (rd_bind get_word (\<lambda>n :: 32 word. rd_bind (pairs_loop assign (unat n) tmp) (?finish (unat n)))) y (map_bytes m)"
    unfolding map_bytes_def vector_bytes_def using wd r
    by (intro reads_bind [where x = ?n]) (simp_all add: transfers_def)
  show "rejects_short v (rd_bind get_word (\<lambda>n :: 32 word. rd_bind (pairs_loop assign (unat n) tmp) (?finish (unat n)))) (map_bytes m)"
    unfolding map_bytes_def vector_bytes_def using wd s
    by (intro rejects_short_bind [where x = ?n]) (simp_all add: transfers_def)
qed

lemma transfers_omap [codec_rules]: "ok_map m \<Longrightarrow> transfers v (put_map m) get_map m (map_bytes m)"
  unfolding put_map_def get_map_def get_map_loop_pairs
  by (rule transfers_pairs) (simp_all add: ok_map_def fold_map_assign)

lemma transfers_umap [codec_rules]: "ok_umap m \<Longrightarrow> transfers v (put_umap m) get_umap m (map_bytes m)"
  unfolding put_umap_def get_umap_def get_umap_loop_pairs
  by (rule transfers_pairs) (simp_all add: ok_umap_def fold_umap_assign)

section \<open>Readers on arbitrary bytes\<close>

text \<open>
  Started inside its storage, a reader that returns has only moved the read position forward,
  and not past the end of the storage.
\<close>

definition bounded :: "'a reader \<Rightarrow> bool" where
  "bounded g \<longleftrightarrow>
     (\<forall>mb x mb'. mb_rPos mb \<le> length (mb_storage mb) \<longrightarrow> g mb = Inr (x, mb') \<longrightarrow>
        mb_rPos mb \<le> mb_rPos mb' \<and> mb_rPos mb' \<le> length (mb_storage mb) \<and>
        mb' = mb\<lparr>mb_rPos := mb_rPos mb'\<rparr>)"

lemma boundedI:
  "(\<And>mb x mb'. mb_rPos mb \<le> length (mb_storage mb) \<Longrightarrow> g mb = Inr (x, mb') \<Longrightarrow>
      mb_rPos mb \<le> mb_rPos mb' \<and> mb_rPos mb' \<le> length (mb_storage mb) \<and>
      mb' = mb\<lparr>mb_rPos := mb_rPos mb'\<rparr>) \<Longrightarrow> bounded g"
  by (auto simp: bounded_def)

lemma boundedD:
  assumes "bounded g" and "mb_rPos mb \<le> length (mb_storage mb)" and "g mb = Inr (x, mb')"
  shows "mb_rPos mb \<le> mb_rPos mb'" and "mb_rPos mb' \<le> length (mb_storage mb)"
    and "mb' = mb\<lparr>mb_rPos := mb_rPos mb'\<rparr>" and "mb_storage mb' = mb_storage mb"
proof -
  from assms have "mb_rPos mb \<le> mb_rPos mb' \<and> mb_rPos mb' \<le> length (mb_storage mb) \<and>
      mb' = mb\<lparr>mb_rPos := mb_rPos mb'\<rparr>"
    unfolding bounded_def by blast
  then show "mb_rPos mb \<le> mb_rPos mb'" and "mb_rPos mb' \<le> length (mb_storage mb)"
    and eq: "mb' = mb\<lparr>mb_rPos := mb_rPos mb'\<rparr>" by blast+
  show "mb_storage mb' = mb_storage mb" by (subst eq) simp
qed

lemma bounded_return [bounded_rules]: "bounded (rd_return x)"
  by (rule boundedI) (auto simp: rd_return_def)

lemma bounded_bind [bounded_rules]:
  assumes g: "bounded g" and f: "\<And>x. bounded (f x)"
  shows "bounded (rd_bind g f)"
proof (rule boundedI)
  fix mb y mb'
  assume le: "mb_rPos mb \<le> length (mb_storage mb)" and "rd_bind g f mb = Inr (y, mb')"
  then obtain x mb1 where 1: "g mb = Inr (x, mb1)" and 2: "f x mb1 = Inr (y, mb')"
    by (auto simp: rd_bind_def split: sum.splits prod.splits)
  note b1 = boundedD [OF g le 1]
  from b1(2,4) have "mb_rPos mb1 \<le> length (mb_storage mb1)" by simp
  note b2 = boundedD [OF f this 2]
  have "mb' = mb\<lparr>mb_rPos := mb_rPos mb'\<rparr>" by (subst b2(3), subst b1(3)) simp
  with b1 b2 show "mb_rPos mb \<le> mb_rPos mb' \<and> mb_rPos mb' \<le> length (mb_storage mb) \<and>
      mb' = mb\<lparr>mb_rPos := mb_rPos mb'\<rparr>" by auto
qed

lemma bounded_if [bounded_rules]: "bounded g \<Longrightarrow> bounded h \<Longrightarrow> bounded (\<lambda>mb. if c mb then g mb else h mb)"
  by (rule boundedI) (auto dest: boundedD split: if_splits)

lemma bounded_fail [bounded_rules]: "bounded (\<lambda>mb. Inl e)"
  by (rule boundedI) simp

lemma bounded_done [bounded_rules]: "bounded (\<lambda>mb. Inr (x, mb))"
  by (rule boundedI) simp

lemma bounded_word [bounded_rules]: "bounded get_word"
  by (rule boundedI) (auto simp: get_word_def Let_def split: if_splits)

lemma bounded_raw [bounded_rules]: "bounded (get_raw n)"
  by (rule boundedI) (auto simp: get_raw_def split: if_splits)

lemma bounded_times [bounded_rules]: "bounded g \<Longrightarrow> bounded (get_times n g)"
  by (induction n) (auto intro!: bounded_rules)

lemma bounded_vector [bounded_rules]: "bounded g \<Longrightarrow> bounded (get_vector g)"
  unfolding get_vector_def by (intro bounded_rules)

lemma bounded_bool [bounded_rules]: "bounded get_bool"
  unfolding get_bool_def by (intro bounded_rules)

lemma bounded_pair [bounded_rules]: "bounded g \<Longrightarrow> bounded h \<Longrightarrow> bounded (get_pair g h)"
  unfolding get_pair_def by (intro bounded_rules)

lemma bounded_string [bounded_rules]: "bounded get_string"
  unfolding get_string_def by (intro bounded_rules)

lemma bounded_bytes [bounded_rules]: "bounded get_bytes"
  unfolding get_bytes_def by (intro bounded_rules)

lemma bounded_array [bounded_rules]: "bounded (get_array n)"
  unfolding get_array_def by (intro bounded_rules)

lemma bounded_duration [bounded_rules]: "bounded get_duration"
  unfolding get_duration_def by (intro bounded_rules)

lemma bounded_time_point [bounded_rules]: "bounded get_time_point"
  unfolding get_time_point_def by (intro bounded_rules)

lemma bounded_ptr [bounded_rules]: "bounded get_ptr"
  unfolding get_ptr_def by (intro bounded_rules)

lemma bounded_uuid [bounded_rules]: "bounded get_uuid"
  unfolding get_uuid_def by (intro bounded_rules)

lemma bounded_pairs_loop [bounded_rules]: "bounded (pairs_loop assign n tmp)"
  by (induction n arbitrary: tmp) (auto intro!: bounded_rules)

lemma bounded_map [bounded_rules]: "bounded get_map"
  unfolding get_map_def get_map_loop_pairs by (intro bounded_rules)

lemma bounded_umap [bounded_rules]: "bounded get_umap"
  unfolding get_umap_def get_umap_loop_pairs by (intro bounded_rules)

section \<open>The interface\<close>

text \<open>
  One transmission: the value is serialised into a fresh buffer, the storage is released and
  travels, and the receiver reads it from a buffer made of the blob. The result carries the
  number of bytes the receiver left unread.
\<close>

definition transmit :: "protocol_version \<Rightarrow> ('a \<Rightarrow> writer) \<Rightarrow> 'a reader \<Rightarrow> 'a \<Rightarrow> ('a \<times> nat) result" where
  "transmit v put get x =
     res_bind (put x (mb_SetProtocolVersion v MessageBuffer_empty)) (\<lambda>mb.
     res_bind (get (mb_SetProtocolVersion v (MessageBuffer_from (fst (mb_ReleaseStorage mb)))))
       (\<lambda>(y, mb'). Inr (y, RemainingBytesLeft mb')))"

text \<open>
  The last part of some messages was added in a later release: the reader takes it only if
  bytes are left. Such a message is followed by nothing, so its reader is only run at the end
  of a buffer; \<open>message_codec\<close> is the contract of a whole message, \<open>codec\<close> the stronger one of a
  value that may be followed by others.
\<close>

definition reads_end :: "protocol_version \<Rightarrow> 'a reader \<Rightarrow> 'a \<Rightarrow> byte list \<Rightarrow> bool" where
  "reads_end v g x b \<longleftrightarrow> (\<forall>w pre. g (reading v w pre b) = Inr (x, reading v w (pre @ b) []))"

lemma reads_end_bind:
  "reads v g x b \<Longrightarrow> reads_end v (f x) y c \<Longrightarrow> reads_end v (rd_bind g f) y (b @ c)"
  by (simp add: reads_end_def reads_def rd_bind_def)

lemma reads_imp_reads_end: "reads v g x b \<Longrightarrow> reads_end v g x b"
  by (simp add: reads_end_def readsD0)

lemma writes_Nil [message_rules]: "writes v (write_all []) (concat [])"
  by (simp add: writes_def)

lemma writes_Cons [message_rules]:
  "transfers v p g x b \<Longrightarrow> writes v (write_all ps) (concat bs) \<Longrightarrow>
   writes v (write_all (p # ps)) (concat (b # bs))"
  by (simp add: writes_def transfers_def)

lemma reads_end_return [message_rules]: "y = z \<Longrightarrow> reads_end v (rd_return y) z (concat [])"
  by (simp add: reads_end_def rd_return_def)

lemma reads_end_Cons [message_rules]:
  "transfers v p g x b \<Longrightarrow> reads_end v (f x) y (concat bs) \<Longrightarrow>
   reads_end v (rd_bind g f) y (concat (b # bs))"
  by (auto simp: transfers_def intro: reads_end_bind)

lemma reads_end_if_true:
  "(\<And>w pre. c (reading v w pre b)) \<Longrightarrow> reads_end v g x b \<Longrightarrow>
   reads_end v (\<lambda>mb. if c mb then g mb else h mb) x b"
  by (simp add: reads_end_def)

lemma reads_end_if_false:
  "(\<And>w pre. \<not> c (reading v w pre b)) \<Longrightarrow> reads_end v h x b \<Longrightarrow>
   reads_end v (\<lambda>mb. if c mb then g mb else h mb) x b"
  by (simp add: reads_end_def)

locale message_codec =
  fixes put :: "'a \<Rightarrow> writer"
    and get :: "'a reader"
    and bytes :: "'a \<Rightarrow> byte list"
    and ok :: "protocol_version \<Rightarrow> 'a \<Rightarrow> bool"
  assumes put_writes: "ok v x \<Longrightarrow> writes v (put x) (bytes x)"
    and get_reads_end: "ok v x \<Longrightarrow> reads_end v get x (bytes x)"
    and get_bounded: "bounded get"
begin

lemma put_appends: "ok v x \<Longrightarrow> put x (writing v r s) = Inr (writing v r (s @ bytes x))"
  by (rule writesD) (rule put_writes)

lemma roundtrip: "ok v x \<Longrightarrow> transmit v put get x = Inr (x, 0)"
  using put_appends [of v x 0 "[]"] get_reads_end [of v x]
  by (simp add: transmit_def empty_writing from_reading mb_ReleaseStorage_def reads_end_def)

lemma bytes_injective:
  assumes "ok v x" and "ok v y" and "bytes x = bytes y"
  shows "x = y"
  using get_reads_end [OF assms(1)] get_reads_end [OF assms(2)] assms(3) by (simp add: reads_end_def)

lemma stays_inside:
  assumes "get (MessageBuffer_from bs) = Inr (x, mb')"
  shows "mb_storage mb' = bs \<and> mb_rPos mb' \<le> length bs"
  using boundedD [OF get_bounded _ assms] by (simp add: MessageBuffer_from_def)

end

locale codec =
  fixes put :: "'a \<Rightarrow> writer"
    and get :: "'a reader"
    and bytes :: "'a \<Rightarrow> byte list"
    and ok :: "protocol_version \<Rightarrow> 'a \<Rightarrow> bool"
  assumes transfers: "ok v x \<Longrightarrow> transfers v (put x) get x (bytes x)"
    and bytes_nonempty: "ok v x \<Longrightarrow> bytes x \<noteq> []"
    and reader_bounded: "bounded get"

sublocale codec \<subseteq> message_codec put get bytes ok
  by unfold_locales
    (auto intro: transfersD(1) [OF transfers] reads_imp_reads_end transfersD(2) [OF transfers] reader_bounded)

context codec
begin

lemma get_consumes:
  "ok v x \<Longrightarrow> get (reading v w pre (bytes x @ rest)) = Inr (x, reading v w (pre @ bytes x) rest)"
  by (rule readsD) (rule transfersD(2) [OF transfers])

lemma truncated:
  assumes "ok v x" and "strict_prefix bs (bytes x)"
  shows "get (mb_SetProtocolVersion v (MessageBuffer_from bs)) = Inl End_of_buffer"
  using transfersD(3) [OF transfers [OF assms(1)]] assms(2)
  by (simp add: from_reading rejects_short_def)

lemma prefix_free:
  assumes "ok v x" and "ok v y" and "prefix (bytes x) (bytes y)"
  shows "x = y"
proof -
  from assms(3) obtain rest where "bytes y = bytes x @ rest" by (auto simp: prefix_def)
  then show ?thesis
    using get_consumes [OF assms(1), of 0 "[]" rest] get_consumes [OF assms(2), of 0 "[]" "[]"]
    by simp
qed

lemma stream:
  assumes "\<forall>x \<in> set xs. ok v x"
  shows "write_all (map put xs) (writing v r s) = Inr (writing v r (s @ concat (map bytes xs)))"
    and "get_times (length xs) get (reading v w pre (concat (map bytes xs) @ rest))
       = Inr (xs, reading v w (pre @ concat (map bytes xs)) rest)"
proof -
  from assms have tr: "transfers v (put x) get x (bytes x)" if "x \<in> set xs" for x
    using that by (auto intro: transfers)
  show "write_all (map put xs) (writing v r s) = Inr (writing v r (s @ concat (map bytes xs)))"
    by (intro writesD writes_all_map transfersD(1) [OF tr])
  show "get_times (length xs) get (reading v w pre (concat (map bytes xs) @ rest))
      = Inr (xs, reading v w (pre @ concat (map bytes xs)) rest)"
    by (intro readsD reads_times transfersD(2) [OF tr])
qed

lemma vector_codec:
  "codec (put_vector put) (get_vector get) (vector_bytes bytes)
     (\<lambda>v xs. ok_length xs \<and> (\<forall>x \<in> set xs. ok v x))"
proof
  show "transfers v (put_vector put xs) (get_vector get) xs (vector_bytes bytes xs)"
    if "ok_length xs \<and> (\<forall>x \<in> set xs. ok v x)" for v xs
    using that by (intro transfers_vector) (auto intro: transfers dest: bytes_nonempty)
  show "vector_bytes bytes xs \<noteq> []" for xs
    by (auto simp: vector_bytes_def dest!: arg_cong [where f = length])
  show "bounded (get_vector get)" by (intro bounded_rules reader_bounded)
qed

end

lemma word_le_nonempty [simp]: "8 dvd LENGTH('a::len) \<Longrightarrow> word_le (w :: 'a word) \<noteq> []"
  using dvd_imp_le [of 8 "LENGTH('a)"]
  by (auto simp: word_sizeof_def div_greater_zero_iff dest!: arg_cong [where f = length])

lemma bytes_nonempty_simps [simp]:
  "string_bytes s \<noteq> []" "bytes_bytes b \<noteq> []" "duration_bytes d \<noteq> []" "time_point_bytes t \<noteq> []"
  "uuid_bytes u \<noteq> []" "bool_bytes c \<noteq> []" "map_bytes m \<noteq> []" "vector_bytes f xs \<noteq> []"
  by (simp_all add: string_bytes_def bytes_bytes_def duration_bytes_def time_point_bytes_def
      uuid_bytes_def bool_bytes_def map_bytes_def vector_bytes_def)

section \<open>Interpretations for the elementary types\<close>

interpretation string_codec: codec put_string get_string string_bytes "\<lambda>_. ok_length"
  by unfold_locales (auto intro: codec_rules bounded_rules)

interpretation bytes_codec: codec put_bytes get_bytes bytes_bytes "\<lambda>_. ok_length"
  by unfold_locales (auto intro: codec_rules bounded_rules)

interpretation duration_codec: codec put_duration get_duration duration_bytes "\<lambda>_. ok_int64"
  by unfold_locales (auto intro: codec_rules bounded_rules)

interpretation time_point_codec: codec put_time_point get_time_point time_point_bytes "\<lambda>_. ok_time_point"
  by unfold_locales (auto intro: codec_rules bounded_rules)

interpretation uuid_codec: codec put_uuid get_uuid uuid_bytes "\<lambda>_ _. True"
  by unfold_locales (auto intro: codec_rules bounded_rules)

interpretation map_codec: codec put_map get_map map_bytes "\<lambda>_. ok_map"
  by unfold_locales (auto intro: codec_rules bounded_rules)

interpretation umap_codec: codec put_umap get_umap map_bytes "\<lambda>_. ok_umap"
  by unfold_locales (auto intro: codec_rules bounded_rules)

end
