(* ===== verification/CanSerdes.thy ===== *)
theory CanSerdes
  imports Codec
begin

text \<open>
  Wire messages of the CAN service (\<^verbatim>\<open>wire/can/WireCanMessages.hpp\<close>,
  \<^verbatim>\<open>silkit/services/can/CanDatatypes.hpp\<close>) and their serialisers
  (\<^verbatim>\<open>services/can/CanSerdes.cpp\<close>). An enumeration is the value of its underlying integer type: the
  operators stream it as such and accept any value.
\<close>

section \<open>CAN\<close>

record WireCanFrame =
  wcf_canId :: "32 word"
  wcf_flags :: "32 word"
  wcf_dlc :: "16 word"
  wcf_sdt :: "8 word"
  wcf_vcid :: "8 word"
  wcf_af :: "32 word"
  wcf_dataField :: "byte list"

record WireCanFrameEvent =
  wcfe_timestamp :: "int"
  wcfe_frame :: "WireCanFrame"
  wcfe_direction :: "8 word"
  wcfe_userContext :: "64 word"

definition put_WireCanFrameEvent :: "WireCanFrameEvent \<Rightarrow> writer" where
  "put_WireCanFrameEvent msg = write_all
      [put_duration (wcfe_timestamp msg),
       put_word (wcf_canId (wcfe_frame msg)),
       put_word (wcf_flags (wcfe_frame msg)),
       put_word (wcf_dlc (wcfe_frame msg)),
       put_word (wcf_sdt (wcfe_frame msg)),
       put_word (wcf_vcid (wcfe_frame msg)),
       put_word (wcf_af (wcfe_frame msg)),
       put_bytes (wcf_dataField (wcfe_frame msg)),
       put_word (wcfe_direction msg),
       put_ptr (wcfe_userContext msg)]"

definition get_WireCanFrameEvent :: "WireCanFrameEvent reader" where
  "get_WireCanFrameEvent =
     rd_bind get_duration (\<lambda>timestamp.
     rd_bind get_word (\<lambda>canId.
     rd_bind get_word (\<lambda>flags.
     rd_bind get_word (\<lambda>dlc.
     rd_bind get_word (\<lambda>sdt.
     rd_bind get_word (\<lambda>vcid.
     rd_bind get_word (\<lambda>af.
     rd_bind get_bytes (\<lambda>dataField.
     rd_bind get_word (\<lambda>direction.
     rd_bind get_ptr (\<lambda>userContext.
     rd_return \<lparr>wcfe_timestamp = timestamp, wcfe_frame = \<lparr>wcf_canId = canId, wcf_flags = flags, wcf_dlc = dlc, wcf_sdt = sdt, wcf_vcid = vcid, wcf_af = af, wcf_dataField = dataField\<rparr>, wcfe_direction = direction, wcfe_userContext = userContext\<rparr>))))))))))"

definition WireCanFrameEvent_bytes :: "WireCanFrameEvent \<Rightarrow> byte list" where
  "WireCanFrameEvent_bytes msg = concat
      [duration_bytes (wcfe_timestamp msg),
       word_le (wcf_canId (wcfe_frame msg)),
       word_le (wcf_flags (wcfe_frame msg)),
       word_le (wcf_dlc (wcfe_frame msg)),
       word_le (wcf_sdt (wcfe_frame msg)),
       word_le (wcf_vcid (wcfe_frame msg)),
       word_le (wcf_af (wcfe_frame msg)),
       bytes_bytes (wcf_dataField (wcfe_frame msg)),
       word_le (wcfe_direction msg),
       word_le (wcfe_userContext msg)]"

definition ok_WireCanFrameEvent :: "WireCanFrameEvent \<Rightarrow> bool" where
  "ok_WireCanFrameEvent msg \<longleftrightarrow> ok_int64 (wcfe_timestamp msg) \<and>
     ok_length (wcf_dataField (wcfe_frame msg))"

lemma transfers_WireCanFrameEvent [codec_rules]:
  "ok_WireCanFrameEvent msg \<Longrightarrow> transfers v (put_WireCanFrameEvent msg) get_WireCanFrameEvent msg (WireCanFrameEvent_bytes msg)"
  unfolding put_WireCanFrameEvent_def get_WireCanFrameEvent_def WireCanFrameEvent_bytes_def
  by (rule codec_rules | simp add: ok_WireCanFrameEvent_def uint32_max_def)+

lemma bounded_WireCanFrameEvent [bounded_rules]: "bounded get_WireCanFrameEvent"
  unfolding get_WireCanFrameEvent_def by (intro bounded_rules)

lemma WireCanFrameEvent_bytes_nonempty [simp]: "WireCanFrameEvent_bytes msg \<noteq> []"
  by (simp add: WireCanFrameEvent_bytes_def)

interpretation WireCanFrameEvent_codec: codec put_WireCanFrameEvent get_WireCanFrameEvent WireCanFrameEvent_bytes "\<lambda>_. ok_WireCanFrameEvent"
  by unfold_locales (auto intro: codec_rules bounded_rules)

record CanFrameTransmitEvent =
  cfte_canId :: "32 word"
  cfte_timestamp :: "int"
  cfte_status :: "32 word"
  cfte_userContext :: "64 word"

definition put_CanFrameTransmitEvent :: "CanFrameTransmitEvent \<Rightarrow> writer" where
  "put_CanFrameTransmitEvent msg = write_all
      [put_word (cfte_canId msg),
       put_duration (cfte_timestamp msg),
       put_word (cfte_status msg),
       put_ptr (cfte_userContext msg)]"

definition get_CanFrameTransmitEvent :: "CanFrameTransmitEvent reader" where
  "get_CanFrameTransmitEvent =
     rd_bind get_word (\<lambda>canId.
     rd_bind get_duration (\<lambda>timestamp.
     rd_bind get_word (\<lambda>status.
     rd_bind get_ptr (\<lambda>userContext.
     rd_return \<lparr>cfte_canId = canId, cfte_timestamp = timestamp, cfte_status = status, cfte_userContext = userContext\<rparr>))))"

definition CanFrameTransmitEvent_bytes :: "CanFrameTransmitEvent \<Rightarrow> byte list" where
  "CanFrameTransmitEvent_bytes msg = concat
      [word_le (cfte_canId msg),
       duration_bytes (cfte_timestamp msg),
       word_le (cfte_status msg),
       word_le (cfte_userContext msg)]"

definition ok_CanFrameTransmitEvent :: "CanFrameTransmitEvent \<Rightarrow> bool" where
  "ok_CanFrameTransmitEvent msg \<longleftrightarrow> ok_int64 (cfte_timestamp msg)"

lemma transfers_CanFrameTransmitEvent [codec_rules]:
  "ok_CanFrameTransmitEvent msg \<Longrightarrow> transfers v (put_CanFrameTransmitEvent msg) get_CanFrameTransmitEvent msg (CanFrameTransmitEvent_bytes msg)"
  unfolding put_CanFrameTransmitEvent_def get_CanFrameTransmitEvent_def CanFrameTransmitEvent_bytes_def
  by (rule codec_rules | simp add: ok_CanFrameTransmitEvent_def uint32_max_def)+

lemma bounded_CanFrameTransmitEvent [bounded_rules]: "bounded get_CanFrameTransmitEvent"
  unfolding get_CanFrameTransmitEvent_def by (intro bounded_rules)

lemma CanFrameTransmitEvent_bytes_nonempty [simp]: "CanFrameTransmitEvent_bytes msg \<noteq> []"
  by (simp add: CanFrameTransmitEvent_bytes_def)

interpretation CanFrameTransmitEvent_codec: codec put_CanFrameTransmitEvent get_CanFrameTransmitEvent CanFrameTransmitEvent_bytes "\<lambda>_. ok_CanFrameTransmitEvent"
  by unfold_locales (auto intro: codec_rules bounded_rules)

record CanControllerStatus =
  ccs_timestamp :: "int"
  ccs_controllerState :: "32 word"
  ccs_errorState :: "32 word"

definition put_CanControllerStatus :: "CanControllerStatus \<Rightarrow> writer" where
  "put_CanControllerStatus msg = write_all
      [put_duration (ccs_timestamp msg),
       put_word (ccs_controllerState msg),
       put_word (ccs_errorState msg)]"

definition get_CanControllerStatus :: "CanControllerStatus reader" where
  "get_CanControllerStatus =
     rd_bind get_duration (\<lambda>timestamp.
     rd_bind get_word (\<lambda>controllerState.
     rd_bind get_word (\<lambda>errorState.
     rd_return \<lparr>ccs_timestamp = timestamp, ccs_controllerState = controllerState, ccs_errorState = errorState\<rparr>)))"

definition CanControllerStatus_bytes :: "CanControllerStatus \<Rightarrow> byte list" where
  "CanControllerStatus_bytes msg = concat
      [duration_bytes (ccs_timestamp msg),
       word_le (ccs_controllerState msg),
       word_le (ccs_errorState msg)]"

definition ok_CanControllerStatus :: "CanControllerStatus \<Rightarrow> bool" where
  "ok_CanControllerStatus msg \<longleftrightarrow> ok_int64 (ccs_timestamp msg)"

lemma transfers_CanControllerStatus [codec_rules]:
  "ok_CanControllerStatus msg \<Longrightarrow> transfers v (put_CanControllerStatus msg) get_CanControllerStatus msg (CanControllerStatus_bytes msg)"
  unfolding put_CanControllerStatus_def get_CanControllerStatus_def CanControllerStatus_bytes_def
  by (rule codec_rules | simp add: ok_CanControllerStatus_def uint32_max_def)+

lemma bounded_CanControllerStatus [bounded_rules]: "bounded get_CanControllerStatus"
  unfolding get_CanControllerStatus_def by (intro bounded_rules)

lemma CanControllerStatus_bytes_nonempty [simp]: "CanControllerStatus_bytes msg \<noteq> []"
  by (simp add: CanControllerStatus_bytes_def)

interpretation CanControllerStatus_codec: codec put_CanControllerStatus get_CanControllerStatus CanControllerStatus_bytes "\<lambda>_. ok_CanControllerStatus"
  by unfold_locales (auto intro: codec_rules bounded_rules)

record CanConfigureBaudrate =
  ccb_baudRate :: "32 word"
  ccb_fdBaudRate :: "32 word"
  ccb_xlBaudRate :: "32 word"

definition put_CanConfigureBaudrate :: "CanConfigureBaudrate \<Rightarrow> writer" where
  "put_CanConfigureBaudrate msg = write_all
      [put_word (ccb_baudRate msg),
       put_word (ccb_fdBaudRate msg),
       put_word (ccb_xlBaudRate msg)]"

definition get_CanConfigureBaudrate :: "CanConfigureBaudrate reader" where
  "get_CanConfigureBaudrate =
     rd_bind get_word (\<lambda>baudRate.
     rd_bind get_word (\<lambda>fdBaudRate.
     rd_bind get_word (\<lambda>xlBaudRate.
     rd_return \<lparr>ccb_baudRate = baudRate, ccb_fdBaudRate = fdBaudRate, ccb_xlBaudRate = xlBaudRate\<rparr>)))"

definition CanConfigureBaudrate_bytes :: "CanConfigureBaudrate \<Rightarrow> byte list" where
  "CanConfigureBaudrate_bytes msg = concat
      [word_le (ccb_baudRate msg),
       word_le (ccb_fdBaudRate msg),
       word_le (ccb_xlBaudRate msg)]"

lemma transfers_CanConfigureBaudrate [codec_rules]:
  "transfers v (put_CanConfigureBaudrate msg) get_CanConfigureBaudrate msg (CanConfigureBaudrate_bytes msg)"
  unfolding put_CanConfigureBaudrate_def get_CanConfigureBaudrate_def CanConfigureBaudrate_bytes_def
  by (rule codec_rules | simp)+

lemma bounded_CanConfigureBaudrate [bounded_rules]: "bounded get_CanConfigureBaudrate"
  unfolding get_CanConfigureBaudrate_def by (intro bounded_rules)

lemma CanConfigureBaudrate_bytes_nonempty [simp]: "CanConfigureBaudrate_bytes msg \<noteq> []"
  by (simp add: CanConfigureBaudrate_bytes_def)

interpretation CanConfigureBaudrate_codec: codec put_CanConfigureBaudrate get_CanConfigureBaudrate CanConfigureBaudrate_bytes "\<lambda>_ _. True"
  by unfold_locales (auto intro: codec_rules bounded_rules)

text \<open>
  The bit field \<^verbatim>\<open>Flags\<close> is streamed through its object representation, one byte.
\<close>

record CanSetControllerMode =
  cscm_flags :: "8 word"
  cscm_mode :: "32 word"

definition put_CanSetControllerMode :: "CanSetControllerMode \<Rightarrow> writer" where
  "put_CanSetControllerMode msg = write_all
      [put_word (cscm_flags msg),
       put_word (cscm_mode msg)]"

definition get_CanSetControllerMode :: "CanSetControllerMode reader" where
  "get_CanSetControllerMode =
     rd_bind get_word (\<lambda>flags.
     rd_bind get_word (\<lambda>mode.
     rd_return \<lparr>cscm_flags = flags, cscm_mode = mode\<rparr>))"

definition CanSetControllerMode_bytes :: "CanSetControllerMode \<Rightarrow> byte list" where
  "CanSetControllerMode_bytes msg = concat
      [word_le (cscm_flags msg),
       word_le (cscm_mode msg)]"

lemma transfers_CanSetControllerMode [codec_rules]:
  "transfers v (put_CanSetControllerMode msg) get_CanSetControllerMode msg (CanSetControllerMode_bytes msg)"
  unfolding put_CanSetControllerMode_def get_CanSetControllerMode_def CanSetControllerMode_bytes_def
  by (rule codec_rules | simp)+

lemma bounded_CanSetControllerMode [bounded_rules]: "bounded get_CanSetControllerMode"
  unfolding get_CanSetControllerMode_def by (intro bounded_rules)

lemma CanSetControllerMode_bytes_nonempty [simp]: "CanSetControllerMode_bytes msg \<noteq> []"
  by (simp add: CanSetControllerMode_bytes_def)

interpretation CanSetControllerMode_codec: codec put_CanSetControllerMode get_CanSetControllerMode CanSetControllerMode_bytes "\<lambda>_ _. True"
  by unfold_locales (auto intro: codec_rules bounded_rules)

end
