(* ===== verification/EthernetSerdes.thy ===== *)
theory EthernetSerdes
  imports Codec
begin

text \<open>
  Wire messages of the Ethernet service (\<^verbatim>\<open>wire/ethernet/WireEthernetMessages.hpp\<close>,
  \<^verbatim>\<open>silkit/services/ethernet/EthernetDatatypes.hpp\<close>) and their serialisers
  (\<^verbatim>\<open>services/ethernet/EthernetSerdes.cpp\<close>).
\<close>

section \<open>Ethernet\<close>

record WireEthernetFrame =
  wef_raw :: "byte list"

definition put_WireEthernetFrame :: "WireEthernetFrame \<Rightarrow> writer" where
  "put_WireEthernetFrame msg = write_all
      [put_bytes (wef_raw msg)]"

definition get_WireEthernetFrame :: "WireEthernetFrame reader" where
  "get_WireEthernetFrame =
     rd_bind get_bytes (\<lambda>raw.
     rd_return \<lparr>wef_raw = raw\<rparr>)"

definition WireEthernetFrame_bytes :: "WireEthernetFrame \<Rightarrow> byte list" where
  "WireEthernetFrame_bytes msg = concat
      [bytes_bytes (wef_raw msg)]"

definition ok_WireEthernetFrame :: "WireEthernetFrame \<Rightarrow> bool" where
  "ok_WireEthernetFrame msg \<longleftrightarrow> ok_length (wef_raw msg)"

lemma transfers_WireEthernetFrame [codec_rules]:
  "ok_WireEthernetFrame msg \<Longrightarrow> transfers v (put_WireEthernetFrame msg) get_WireEthernetFrame msg (WireEthernetFrame_bytes msg)"
  unfolding put_WireEthernetFrame_def get_WireEthernetFrame_def WireEthernetFrame_bytes_def
  by (rule codec_rules | simp add: ok_WireEthernetFrame_def uint32_max_def)+

lemma bounded_WireEthernetFrame [bounded_rules]: "bounded get_WireEthernetFrame"
  unfolding get_WireEthernetFrame_def by (intro bounded_rules)

lemma WireEthernetFrame_bytes_nonempty [simp]: "WireEthernetFrame_bytes msg \<noteq> []"
  by (simp add: WireEthernetFrame_bytes_def)

interpretation WireEthernetFrame_codec: codec put_WireEthernetFrame get_WireEthernetFrame WireEthernetFrame_bytes "\<lambda>_. ok_WireEthernetFrame"
  by unfold_locales (auto intro: codec_rules bounded_rules)

record WireEthernetFrameEvent =
  wefe_timestamp :: "int"
  wefe_frame :: "WireEthernetFrame"
  wefe_direction :: "8 word"
  wefe_userContext :: "64 word"

definition put_WireEthernetFrameEvent :: "WireEthernetFrameEvent \<Rightarrow> writer" where
  "put_WireEthernetFrameEvent msg = write_all
      [put_duration (wefe_timestamp msg),
       put_WireEthernetFrame (wefe_frame msg),
       put_word (wefe_direction msg),
       put_ptr (wefe_userContext msg)]"

definition get_WireEthernetFrameEvent :: "WireEthernetFrameEvent reader" where
  "get_WireEthernetFrameEvent =
     rd_bind get_duration (\<lambda>timestamp.
     rd_bind get_WireEthernetFrame (\<lambda>frame.
     rd_bind get_word (\<lambda>direction.
     rd_bind get_ptr (\<lambda>userContext.
     rd_return \<lparr>wefe_timestamp = timestamp, wefe_frame = frame, wefe_direction = direction, wefe_userContext = userContext\<rparr>))))"

definition WireEthernetFrameEvent_bytes :: "WireEthernetFrameEvent \<Rightarrow> byte list" where
  "WireEthernetFrameEvent_bytes msg = concat
      [duration_bytes (wefe_timestamp msg),
       WireEthernetFrame_bytes (wefe_frame msg),
       word_le (wefe_direction msg),
       word_le (wefe_userContext msg)]"

definition ok_WireEthernetFrameEvent :: "WireEthernetFrameEvent \<Rightarrow> bool" where
  "ok_WireEthernetFrameEvent msg \<longleftrightarrow> ok_int64 (wefe_timestamp msg) \<and>
     ok_WireEthernetFrame (wefe_frame msg)"

lemma transfers_WireEthernetFrameEvent [codec_rules]:
  "ok_WireEthernetFrameEvent msg \<Longrightarrow> transfers v (put_WireEthernetFrameEvent msg) get_WireEthernetFrameEvent msg (WireEthernetFrameEvent_bytes msg)"
  unfolding put_WireEthernetFrameEvent_def get_WireEthernetFrameEvent_def WireEthernetFrameEvent_bytes_def
  by (rule codec_rules | simp add: ok_WireEthernetFrameEvent_def uint32_max_def)+

lemma bounded_WireEthernetFrameEvent [bounded_rules]: "bounded get_WireEthernetFrameEvent"
  unfolding get_WireEthernetFrameEvent_def by (intro bounded_rules)

lemma WireEthernetFrameEvent_bytes_nonempty [simp]: "WireEthernetFrameEvent_bytes msg \<noteq> []"
  by (simp add: WireEthernetFrameEvent_bytes_def)

interpretation WireEthernetFrameEvent_codec: codec put_WireEthernetFrameEvent get_WireEthernetFrameEvent WireEthernetFrameEvent_bytes "\<lambda>_. ok_WireEthernetFrameEvent"
  by unfold_locales (auto intro: codec_rules bounded_rules)

record EthernetFrameTransmitEvent =
  efte_timestamp :: "int"
  efte_status :: "32 word"
  efte_userContext :: "64 word"

definition put_EthernetFrameTransmitEvent :: "EthernetFrameTransmitEvent \<Rightarrow> writer" where
  "put_EthernetFrameTransmitEvent msg = write_all
      [put_duration (efte_timestamp msg),
       put_word (efte_status msg),
       put_ptr (efte_userContext msg)]"

definition get_EthernetFrameTransmitEvent :: "EthernetFrameTransmitEvent reader" where
  "get_EthernetFrameTransmitEvent =
     rd_bind get_duration (\<lambda>timestamp.
     rd_bind get_word (\<lambda>status.
     rd_bind get_ptr (\<lambda>userContext.
     rd_return \<lparr>efte_timestamp = timestamp, efte_status = status, efte_userContext = userContext\<rparr>)))"

definition EthernetFrameTransmitEvent_bytes :: "EthernetFrameTransmitEvent \<Rightarrow> byte list" where
  "EthernetFrameTransmitEvent_bytes msg = concat
      [duration_bytes (efte_timestamp msg),
       word_le (efte_status msg),
       word_le (efte_userContext msg)]"

definition ok_EthernetFrameTransmitEvent :: "EthernetFrameTransmitEvent \<Rightarrow> bool" where
  "ok_EthernetFrameTransmitEvent msg \<longleftrightarrow> ok_int64 (efte_timestamp msg)"

lemma transfers_EthernetFrameTransmitEvent [codec_rules]:
  "ok_EthernetFrameTransmitEvent msg \<Longrightarrow> transfers v (put_EthernetFrameTransmitEvent msg) get_EthernetFrameTransmitEvent msg (EthernetFrameTransmitEvent_bytes msg)"
  unfolding put_EthernetFrameTransmitEvent_def get_EthernetFrameTransmitEvent_def EthernetFrameTransmitEvent_bytes_def
  by (rule codec_rules | simp add: ok_EthernetFrameTransmitEvent_def uint32_max_def)+

lemma bounded_EthernetFrameTransmitEvent [bounded_rules]: "bounded get_EthernetFrameTransmitEvent"
  unfolding get_EthernetFrameTransmitEvent_def by (intro bounded_rules)

lemma EthernetFrameTransmitEvent_bytes_nonempty [simp]: "EthernetFrameTransmitEvent_bytes msg \<noteq> []"
  by (simp add: EthernetFrameTransmitEvent_bytes_def)

interpretation EthernetFrameTransmitEvent_codec: codec put_EthernetFrameTransmitEvent get_EthernetFrameTransmitEvent EthernetFrameTransmitEvent_bytes "\<lambda>_. ok_EthernetFrameTransmitEvent"
  by unfold_locales (auto intro: codec_rules bounded_rules)

record EthernetStatus =
  es_timestamp :: "int"
  es_state :: "32 word"
  es_bitrate :: "32 word"

definition put_EthernetStatus :: "EthernetStatus \<Rightarrow> writer" where
  "put_EthernetStatus msg = write_all
      [put_duration (es_timestamp msg),
       put_word (es_state msg),
       put_word (es_bitrate msg)]"

definition get_EthernetStatus :: "EthernetStatus reader" where
  "get_EthernetStatus =
     rd_bind get_duration (\<lambda>timestamp.
     rd_bind get_word (\<lambda>state.
     rd_bind get_word (\<lambda>bitrate.
     rd_return \<lparr>es_timestamp = timestamp, es_state = state, es_bitrate = bitrate\<rparr>)))"

definition EthernetStatus_bytes :: "EthernetStatus \<Rightarrow> byte list" where
  "EthernetStatus_bytes msg = concat
      [duration_bytes (es_timestamp msg),
       word_le (es_state msg),
       word_le (es_bitrate msg)]"

definition ok_EthernetStatus :: "EthernetStatus \<Rightarrow> bool" where
  "ok_EthernetStatus msg \<longleftrightarrow> ok_int64 (es_timestamp msg)"

lemma transfers_EthernetStatus [codec_rules]:
  "ok_EthernetStatus msg \<Longrightarrow> transfers v (put_EthernetStatus msg) get_EthernetStatus msg (EthernetStatus_bytes msg)"
  unfolding put_EthernetStatus_def get_EthernetStatus_def EthernetStatus_bytes_def
  by (rule codec_rules | simp add: ok_EthernetStatus_def uint32_max_def)+

lemma bounded_EthernetStatus [bounded_rules]: "bounded get_EthernetStatus"
  unfolding get_EthernetStatus_def by (intro bounded_rules)

lemma EthernetStatus_bytes_nonempty [simp]: "EthernetStatus_bytes msg \<noteq> []"
  by (simp add: EthernetStatus_bytes_def)

interpretation EthernetStatus_codec: codec put_EthernetStatus get_EthernetStatus EthernetStatus_bytes "\<lambda>_. ok_EthernetStatus"
  by unfold_locales (auto intro: codec_rules bounded_rules)

record EthernetSetMode =
  esm_mode :: "8 word"

definition put_EthernetSetMode :: "EthernetSetMode \<Rightarrow> writer" where
  "put_EthernetSetMode msg = write_all
      [put_word (esm_mode msg)]"

definition get_EthernetSetMode :: "EthernetSetMode reader" where
  "get_EthernetSetMode =
     rd_bind get_word (\<lambda>mode.
     rd_return \<lparr>esm_mode = mode\<rparr>)"

definition EthernetSetMode_bytes :: "EthernetSetMode \<Rightarrow> byte list" where
  "EthernetSetMode_bytes msg = concat
      [word_le (esm_mode msg)]"

lemma transfers_EthernetSetMode [codec_rules]:
  "transfers v (put_EthernetSetMode msg) get_EthernetSetMode msg (EthernetSetMode_bytes msg)"
  unfolding put_EthernetSetMode_def get_EthernetSetMode_def EthernetSetMode_bytes_def
  by (rule codec_rules | simp)+

lemma bounded_EthernetSetMode [bounded_rules]: "bounded get_EthernetSetMode"
  unfolding get_EthernetSetMode_def by (intro bounded_rules)

lemma EthernetSetMode_bytes_nonempty [simp]: "EthernetSetMode_bytes msg \<noteq> []"
  by (simp add: EthernetSetMode_bytes_def)

interpretation EthernetSetMode_codec: codec put_EthernetSetMode get_EthernetSetMode EthernetSetMode_bytes "\<lambda>_ _. True"
  by unfold_locales (auto intro: codec_rules bounded_rules)

end
