(* ===== verification/LinSerdes.thy ===== *)
theory LinSerdes
  imports Codec
begin

text \<open>
  Wire messages of the LIN service (\<^verbatim>\<open>wire/lin/WireLinMessages.hpp\<close>,
  \<^verbatim>\<open>silkit/services/lin/LinDatatypes.hpp\<close>) and their serialisers
  (\<^verbatim>\<open>services/lin/LinSerdes.cpp\<close>), with the compatibility of the controller configuration with
  senders that do not know the simulation mode.
\<close>

section \<open>LIN\<close>

record LinFrame =
  lf_id :: "8 word"
  lf_checksumModel :: "8 word"
  lf_dataLength :: "8 word"
  lf_data :: "byte list"

definition put_LinFrame :: "LinFrame \<Rightarrow> writer" where
  "put_LinFrame msg = write_all
      [put_word (lf_id msg),
       put_word (lf_checksumModel msg),
       put_word (lf_dataLength msg),
       put_array (lf_data msg)]"

definition get_LinFrame :: "LinFrame reader" where
  "get_LinFrame =
     rd_bind get_word (\<lambda>id.
     rd_bind get_word (\<lambda>checksumModel.
     rd_bind get_word (\<lambda>dataLength.
     rd_bind (get_array 8) (\<lambda>data.
     rd_return \<lparr>lf_id = id, lf_checksumModel = checksumModel, lf_dataLength = dataLength, lf_data = data\<rparr>))))"

definition LinFrame_bytes :: "LinFrame \<Rightarrow> byte list" where
  "LinFrame_bytes msg = concat
      [word_le (lf_id msg),
       word_le (lf_checksumModel msg),
       word_le (lf_dataLength msg),
       lf_data msg]"

definition ok_LinFrame :: "LinFrame \<Rightarrow> bool" where
  "ok_LinFrame msg \<longleftrightarrow> length (lf_data msg) = 8"

lemma transfers_LinFrame [codec_rules]:
  "ok_LinFrame msg \<Longrightarrow> transfers v (put_LinFrame msg) get_LinFrame msg (LinFrame_bytes msg)"
  unfolding put_LinFrame_def get_LinFrame_def LinFrame_bytes_def
  by (rule codec_rules | simp add: ok_LinFrame_def uint32_max_def)+

lemma bounded_LinFrame [bounded_rules]: "bounded get_LinFrame"
  unfolding get_LinFrame_def by (intro bounded_rules)

lemma LinFrame_bytes_nonempty [simp]: "LinFrame_bytes msg \<noteq> []"
  by (simp add: LinFrame_bytes_def)

interpretation LinFrame_codec: codec put_LinFrame get_LinFrame LinFrame_bytes "\<lambda>_. ok_LinFrame"
  by unfold_locales (auto intro: codec_rules bounded_rules)

record LinSendFrameRequest =
  lsfr_frame :: "LinFrame"
  lsfr_responseType :: "8 word"

definition put_LinSendFrameRequest :: "LinSendFrameRequest \<Rightarrow> writer" where
  "put_LinSendFrameRequest msg = write_all
      [put_LinFrame (lsfr_frame msg),
       put_word (lsfr_responseType msg)]"

definition get_LinSendFrameRequest :: "LinSendFrameRequest reader" where
  "get_LinSendFrameRequest =
     rd_bind get_LinFrame (\<lambda>frame.
     rd_bind get_word (\<lambda>responseType.
     rd_return \<lparr>lsfr_frame = frame, lsfr_responseType = responseType\<rparr>))"

definition LinSendFrameRequest_bytes :: "LinSendFrameRequest \<Rightarrow> byte list" where
  "LinSendFrameRequest_bytes msg = concat
      [LinFrame_bytes (lsfr_frame msg),
       word_le (lsfr_responseType msg)]"

definition ok_LinSendFrameRequest :: "LinSendFrameRequest \<Rightarrow> bool" where
  "ok_LinSendFrameRequest msg \<longleftrightarrow> ok_LinFrame (lsfr_frame msg)"

lemma transfers_LinSendFrameRequest [codec_rules]:
  "ok_LinSendFrameRequest msg \<Longrightarrow> transfers v (put_LinSendFrameRequest msg) get_LinSendFrameRequest msg (LinSendFrameRequest_bytes msg)"
  unfolding put_LinSendFrameRequest_def get_LinSendFrameRequest_def LinSendFrameRequest_bytes_def
  by (rule codec_rules | simp add: ok_LinSendFrameRequest_def uint32_max_def)+

lemma bounded_LinSendFrameRequest [bounded_rules]: "bounded get_LinSendFrameRequest"
  unfolding get_LinSendFrameRequest_def by (intro bounded_rules)

lemma LinSendFrameRequest_bytes_nonempty [simp]: "LinSendFrameRequest_bytes msg \<noteq> []"
  by (simp add: LinSendFrameRequest_bytes_def)

interpretation LinSendFrameRequest_codec: codec put_LinSendFrameRequest get_LinSendFrameRequest LinSendFrameRequest_bytes "\<lambda>_. ok_LinSendFrameRequest"
  by unfold_locales (auto intro: codec_rules bounded_rules)

record LinSendFrameHeaderRequest =
  lsfhr_timestamp :: "int"
  lsfhr_id :: "8 word"

definition put_LinSendFrameHeaderRequest :: "LinSendFrameHeaderRequest \<Rightarrow> writer" where
  "put_LinSendFrameHeaderRequest msg = write_all
      [put_duration (lsfhr_timestamp msg),
       put_word (lsfhr_id msg)]"

definition get_LinSendFrameHeaderRequest :: "LinSendFrameHeaderRequest reader" where
  "get_LinSendFrameHeaderRequest =
     rd_bind get_duration (\<lambda>timestamp.
     rd_bind get_word (\<lambda>id.
     rd_return \<lparr>lsfhr_timestamp = timestamp, lsfhr_id = id\<rparr>))"

definition LinSendFrameHeaderRequest_bytes :: "LinSendFrameHeaderRequest \<Rightarrow> byte list" where
  "LinSendFrameHeaderRequest_bytes msg = concat
      [duration_bytes (lsfhr_timestamp msg),
       word_le (lsfhr_id msg)]"

definition ok_LinSendFrameHeaderRequest :: "LinSendFrameHeaderRequest \<Rightarrow> bool" where
  "ok_LinSendFrameHeaderRequest msg \<longleftrightarrow> ok_int64 (lsfhr_timestamp msg)"

lemma transfers_LinSendFrameHeaderRequest [codec_rules]:
  "ok_LinSendFrameHeaderRequest msg \<Longrightarrow> transfers v (put_LinSendFrameHeaderRequest msg) get_LinSendFrameHeaderRequest msg (LinSendFrameHeaderRequest_bytes msg)"
  unfolding put_LinSendFrameHeaderRequest_def get_LinSendFrameHeaderRequest_def LinSendFrameHeaderRequest_bytes_def
  by (rule codec_rules | simp add: ok_LinSendFrameHeaderRequest_def uint32_max_def)+

lemma bounded_LinSendFrameHeaderRequest [bounded_rules]: "bounded get_LinSendFrameHeaderRequest"
  unfolding get_LinSendFrameHeaderRequest_def by (intro bounded_rules)

lemma LinSendFrameHeaderRequest_bytes_nonempty [simp]: "LinSendFrameHeaderRequest_bytes msg \<noteq> []"
  by (simp add: LinSendFrameHeaderRequest_bytes_def)

interpretation LinSendFrameHeaderRequest_codec: codec put_LinSendFrameHeaderRequest get_LinSendFrameHeaderRequest LinSendFrameHeaderRequest_bytes "\<lambda>_. ok_LinSendFrameHeaderRequest"
  by unfold_locales (auto intro: codec_rules bounded_rules)

record LinTransmission =
  lt_timestamp :: "int"
  lt_frame :: "LinFrame"
  lt_status :: "8 word"

definition put_LinTransmission :: "LinTransmission \<Rightarrow> writer" where
  "put_LinTransmission msg = write_all
      [put_duration (lt_timestamp msg),
       put_LinFrame (lt_frame msg),
       put_word (lt_status msg)]"

definition get_LinTransmission :: "LinTransmission reader" where
  "get_LinTransmission =
     rd_bind get_duration (\<lambda>timestamp.
     rd_bind get_LinFrame (\<lambda>frame.
     rd_bind get_word (\<lambda>status.
     rd_return \<lparr>lt_timestamp = timestamp, lt_frame = frame, lt_status = status\<rparr>)))"

definition LinTransmission_bytes :: "LinTransmission \<Rightarrow> byte list" where
  "LinTransmission_bytes msg = concat
      [duration_bytes (lt_timestamp msg),
       LinFrame_bytes (lt_frame msg),
       word_le (lt_status msg)]"

definition ok_LinTransmission :: "LinTransmission \<Rightarrow> bool" where
  "ok_LinTransmission msg \<longleftrightarrow> ok_int64 (lt_timestamp msg) \<and>
     ok_LinFrame (lt_frame msg)"

lemma transfers_LinTransmission [codec_rules]:
  "ok_LinTransmission msg \<Longrightarrow> transfers v (put_LinTransmission msg) get_LinTransmission msg (LinTransmission_bytes msg)"
  unfolding put_LinTransmission_def get_LinTransmission_def LinTransmission_bytes_def
  by (rule codec_rules | simp add: ok_LinTransmission_def uint32_max_def)+

lemma bounded_LinTransmission [bounded_rules]: "bounded get_LinTransmission"
  unfolding get_LinTransmission_def by (intro bounded_rules)

lemma LinTransmission_bytes_nonempty [simp]: "LinTransmission_bytes msg \<noteq> []"
  by (simp add: LinTransmission_bytes_def)

interpretation LinTransmission_codec: codec put_LinTransmission get_LinTransmission LinTransmission_bytes "\<lambda>_. ok_LinTransmission"
  by unfold_locales (auto intro: codec_rules bounded_rules)

record LinWakeupPulse =
  lwp_timestamp :: "int"
  lwp_direction :: "8 word"

definition put_LinWakeupPulse :: "LinWakeupPulse \<Rightarrow> writer" where
  "put_LinWakeupPulse msg = write_all
      [put_duration (lwp_timestamp msg),
       put_word (lwp_direction msg)]"

definition get_LinWakeupPulse :: "LinWakeupPulse reader" where
  "get_LinWakeupPulse =
     rd_bind get_duration (\<lambda>timestamp.
     rd_bind get_word (\<lambda>direction.
     rd_return \<lparr>lwp_timestamp = timestamp, lwp_direction = direction\<rparr>))"

definition LinWakeupPulse_bytes :: "LinWakeupPulse \<Rightarrow> byte list" where
  "LinWakeupPulse_bytes msg = concat
      [duration_bytes (lwp_timestamp msg),
       word_le (lwp_direction msg)]"

definition ok_LinWakeupPulse :: "LinWakeupPulse \<Rightarrow> bool" where
  "ok_LinWakeupPulse msg \<longleftrightarrow> ok_int64 (lwp_timestamp msg)"

lemma transfers_LinWakeupPulse [codec_rules]:
  "ok_LinWakeupPulse msg \<Longrightarrow> transfers v (put_LinWakeupPulse msg) get_LinWakeupPulse msg (LinWakeupPulse_bytes msg)"
  unfolding put_LinWakeupPulse_def get_LinWakeupPulse_def LinWakeupPulse_bytes_def
  by (rule codec_rules | simp add: ok_LinWakeupPulse_def uint32_max_def)+

lemma bounded_LinWakeupPulse [bounded_rules]: "bounded get_LinWakeupPulse"
  unfolding get_LinWakeupPulse_def by (intro bounded_rules)

lemma LinWakeupPulse_bytes_nonempty [simp]: "LinWakeupPulse_bytes msg \<noteq> []"
  by (simp add: LinWakeupPulse_bytes_def)

interpretation LinWakeupPulse_codec: codec put_LinWakeupPulse get_LinWakeupPulse LinWakeupPulse_bytes "\<lambda>_. ok_LinWakeupPulse"
  by unfold_locales (auto intro: codec_rules bounded_rules)

record LinFrameResponse =
  lfr_frame :: "LinFrame"
  lfr_responseMode :: "8 word"

definition put_LinFrameResponse :: "LinFrameResponse \<Rightarrow> writer" where
  "put_LinFrameResponse msg = write_all
      [put_LinFrame (lfr_frame msg),
       put_word (lfr_responseMode msg)]"

definition get_LinFrameResponse :: "LinFrameResponse reader" where
  "get_LinFrameResponse =
     rd_bind get_LinFrame (\<lambda>frame.
     rd_bind get_word (\<lambda>responseMode.
     rd_return \<lparr>lfr_frame = frame, lfr_responseMode = responseMode\<rparr>))"

definition LinFrameResponse_bytes :: "LinFrameResponse \<Rightarrow> byte list" where
  "LinFrameResponse_bytes msg = concat
      [LinFrame_bytes (lfr_frame msg),
       word_le (lfr_responseMode msg)]"

definition ok_LinFrameResponse :: "LinFrameResponse \<Rightarrow> bool" where
  "ok_LinFrameResponse msg \<longleftrightarrow> ok_LinFrame (lfr_frame msg)"

lemma transfers_LinFrameResponse [codec_rules]:
  "ok_LinFrameResponse msg \<Longrightarrow> transfers v (put_LinFrameResponse msg) get_LinFrameResponse msg (LinFrameResponse_bytes msg)"
  unfolding put_LinFrameResponse_def get_LinFrameResponse_def LinFrameResponse_bytes_def
  by (rule codec_rules | simp add: ok_LinFrameResponse_def uint32_max_def)+

lemma bounded_LinFrameResponse [bounded_rules]: "bounded get_LinFrameResponse"
  unfolding get_LinFrameResponse_def by (intro bounded_rules)

lemma LinFrameResponse_bytes_nonempty [simp]: "LinFrameResponse_bytes msg \<noteq> []"
  by (simp add: LinFrameResponse_bytes_def)

interpretation LinFrameResponse_codec: codec put_LinFrameResponse get_LinFrameResponse LinFrameResponse_bytes "\<lambda>_. ok_LinFrameResponse"
  by unfold_locales (auto intro: codec_rules bounded_rules)

record LinControllerStatusUpdate =
  lcsu_timestamp :: "int"
  lcsu_status :: "32 word"

definition put_LinControllerStatusUpdate :: "LinControllerStatusUpdate \<Rightarrow> writer" where
  "put_LinControllerStatusUpdate msg = write_all
      [put_duration (lcsu_timestamp msg),
       put_word (lcsu_status msg)]"

definition get_LinControllerStatusUpdate :: "LinControllerStatusUpdate reader" where
  "get_LinControllerStatusUpdate =
     rd_bind get_duration (\<lambda>timestamp.
     rd_bind get_word (\<lambda>status.
     rd_return \<lparr>lcsu_timestamp = timestamp, lcsu_status = status\<rparr>))"

definition LinControllerStatusUpdate_bytes :: "LinControllerStatusUpdate \<Rightarrow> byte list" where
  "LinControllerStatusUpdate_bytes msg = concat
      [duration_bytes (lcsu_timestamp msg),
       word_le (lcsu_status msg)]"

definition ok_LinControllerStatusUpdate :: "LinControllerStatusUpdate \<Rightarrow> bool" where
  "ok_LinControllerStatusUpdate msg \<longleftrightarrow> ok_int64 (lcsu_timestamp msg)"

lemma transfers_LinControllerStatusUpdate [codec_rules]:
  "ok_LinControllerStatusUpdate msg \<Longrightarrow> transfers v (put_LinControllerStatusUpdate msg) get_LinControllerStatusUpdate msg (LinControllerStatusUpdate_bytes msg)"
  unfolding put_LinControllerStatusUpdate_def get_LinControllerStatusUpdate_def LinControllerStatusUpdate_bytes_def
  by (rule codec_rules | simp add: ok_LinControllerStatusUpdate_def uint32_max_def)+

lemma bounded_LinControllerStatusUpdate [bounded_rules]: "bounded get_LinControllerStatusUpdate"
  unfolding get_LinControllerStatusUpdate_def by (intro bounded_rules)

lemma LinControllerStatusUpdate_bytes_nonempty [simp]: "LinControllerStatusUpdate_bytes msg \<noteq> []"
  by (simp add: LinControllerStatusUpdate_bytes_def)

interpretation LinControllerStatusUpdate_codec: codec put_LinControllerStatusUpdate get_LinControllerStatusUpdate LinControllerStatusUpdate_bytes "\<lambda>_. ok_LinControllerStatusUpdate"
  by unfold_locales (auto intro: codec_rules bounded_rules)

record LinFrameResponseUpdate =
  lfru_frameResponses :: "LinFrameResponse list"

definition put_LinFrameResponseUpdate :: "LinFrameResponseUpdate \<Rightarrow> writer" where
  "put_LinFrameResponseUpdate msg = write_all
      [put_vector put_LinFrameResponse (lfru_frameResponses msg)]"

definition get_LinFrameResponseUpdate :: "LinFrameResponseUpdate reader" where
  "get_LinFrameResponseUpdate =
     rd_bind (get_vector get_LinFrameResponse) (\<lambda>frameResponses.
     rd_return \<lparr>lfru_frameResponses = frameResponses\<rparr>)"

definition LinFrameResponseUpdate_bytes :: "LinFrameResponseUpdate \<Rightarrow> byte list" where
  "LinFrameResponseUpdate_bytes msg = concat
      [vector_bytes LinFrameResponse_bytes (lfru_frameResponses msg)]"

definition ok_LinFrameResponseUpdate :: "LinFrameResponseUpdate \<Rightarrow> bool" where
  "ok_LinFrameResponseUpdate msg \<longleftrightarrow> ok_length (lfru_frameResponses msg) \<and> (\<forall>y \<in> set (lfru_frameResponses msg). ok_LinFrameResponse (y))"

lemma transfers_LinFrameResponseUpdate [codec_rules]:
  "ok_LinFrameResponseUpdate msg \<Longrightarrow> transfers v (put_LinFrameResponseUpdate msg) get_LinFrameResponseUpdate msg (LinFrameResponseUpdate_bytes msg)"
  unfolding put_LinFrameResponseUpdate_def get_LinFrameResponseUpdate_def LinFrameResponseUpdate_bytes_def
  by (rule codec_rules | simp add: ok_LinFrameResponseUpdate_def uint32_max_def)+

lemma bounded_LinFrameResponseUpdate [bounded_rules]: "bounded get_LinFrameResponseUpdate"
  unfolding get_LinFrameResponseUpdate_def by (intro bounded_rules)

lemma LinFrameResponseUpdate_bytes_nonempty [simp]: "LinFrameResponseUpdate_bytes msg \<noteq> []"
  by (simp add: LinFrameResponseUpdate_bytes_def)

interpretation LinFrameResponseUpdate_codec: codec put_LinFrameResponseUpdate get_LinFrameResponseUpdate LinFrameResponseUpdate_bytes "\<lambda>_. ok_LinFrameResponseUpdate"
  by unfold_locales (auto intro: codec_rules bounded_rules)

section \<open>Controller configuration\<close>

text \<open>
  \<^verbatim>\<open>simulationMode\<close> was appended to the message later: the reader takes it only when a byte is
  left, and keeps \<^verbatim>\<open>SimulationMode::Default\<close> (0) otherwise.
\<close>

record WireLinControllerConfig =
  wlcc_controllerMode :: "8 word"
  wlcc_baudRate :: "32 word"
  wlcc_frameResponses :: "LinFrameResponse list"
  wlcc_simulationMode :: "8 word"

definition put_WireLinControllerConfig :: "WireLinControllerConfig \<Rightarrow> writer" where
  "put_WireLinControllerConfig msg = write_all
      [put_word (wlcc_controllerMode msg),
       put_word (wlcc_baudRate msg),
       put_vector put_LinFrameResponse (wlcc_frameResponses msg),
       put_word (wlcc_simulationMode msg)]"

definition get_WireLinControllerConfig :: "WireLinControllerConfig reader" where
  "get_WireLinControllerConfig =
     rd_bind get_word (\<lambda>controllerMode.
     rd_bind get_word (\<lambda>baudRate.
     rd_bind (get_vector get_LinFrameResponse) (\<lambda>frameResponses mb.
       if RemainingBytesLeft mb \<ge> 1
       then rd_bind get_word (\<lambda>simulationMode.
              rd_return \<lparr>wlcc_controllerMode = controllerMode, wlcc_baudRate = baudRate,
                wlcc_frameResponses = frameResponses, wlcc_simulationMode = simulationMode\<rparr>) mb
       else rd_return \<lparr>wlcc_controllerMode = controllerMode, wlcc_baudRate = baudRate,
                wlcc_frameResponses = frameResponses, wlcc_simulationMode = 0\<rparr> mb)))"

text \<open>The part every release sends, and the whole message.\<close>

definition WireLinControllerConfig_old_bytes :: "WireLinControllerConfig \<Rightarrow> byte list" where
  "WireLinControllerConfig_old_bytes msg = concat
      [word_le (wlcc_controllerMode msg),
       word_le (wlcc_baudRate msg),
       vector_bytes LinFrameResponse_bytes (wlcc_frameResponses msg)]"

definition WireLinControllerConfig_bytes :: "WireLinControllerConfig \<Rightarrow> byte list" where
  "WireLinControllerConfig_bytes msg = concat
      [word_le (wlcc_controllerMode msg),
       word_le (wlcc_baudRate msg),
       vector_bytes LinFrameResponse_bytes (wlcc_frameResponses msg),
       word_le (wlcc_simulationMode msg)]"

definition ok_WireLinControllerConfig :: "WireLinControllerConfig \<Rightarrow> bool" where
  "ok_WireLinControllerConfig msg \<longleftrightarrow> ok_length (wlcc_frameResponses msg) \<and>
     (\<forall>y \<in> set (wlcc_frameResponses msg). ok_LinFrameResponse y)"

lemma writes_WireLinControllerConfig:
  "ok_WireLinControllerConfig msg \<Longrightarrow>
   writes v (put_WireLinControllerConfig msg) (WireLinControllerConfig_bytes msg)"
  unfolding put_WireLinControllerConfig_def WireLinControllerConfig_bytes_def
  by (rule message_rules codec_rules | simp add: ok_WireLinControllerConfig_def)+

lemma reads_end_WireLinControllerConfig_old:
  "ok_WireLinControllerConfig msg \<Longrightarrow>
   reads_end v get_WireLinControllerConfig (msg\<lparr>wlcc_simulationMode := 0\<rparr>)
     (WireLinControllerConfig_old_bytes msg)"
  unfolding get_WireLinControllerConfig_def WireLinControllerConfig_old_bytes_def
  by (rule message_rules codec_rules reads_end_if_false | simp add: ok_WireLinControllerConfig_def)+

lemma reads_end_WireLinControllerConfig:
  "ok_WireLinControllerConfig msg \<Longrightarrow>
   reads_end v get_WireLinControllerConfig msg (WireLinControllerConfig_bytes msg)"
  unfolding get_WireLinControllerConfig_def WireLinControllerConfig_bytes_def
  by (rule message_rules codec_rules reads_end_if_true | simp add: ok_WireLinControllerConfig_def)+

lemma bounded_WireLinControllerConfig [bounded_rules]: "bounded get_WireLinControllerConfig"
  unfolding get_WireLinControllerConfig_def by (intro bounded_rules)

interpretation WireLinControllerConfig_codec: message_codec put_WireLinControllerConfig
  get_WireLinControllerConfig WireLinControllerConfig_bytes "\<lambda>_. ok_WireLinControllerConfig"
  by unfold_locales
    (auto intro: writes_WireLinControllerConfig reads_end_WireLinControllerConfig bounded_rules)

end
