(* ===== verification/FlexraySerdes.thy ===== *)
theory FlexraySerdes
  imports Codec
begin

text \<open>
  Wire messages of the FlexRay service (\<^verbatim>\<open>wire/flexray/WireFlexrayMessages.hpp\<close>,
  \<^verbatim>\<open>silkit/services/flexray/FlexrayDatatypes.hpp\<close>) and their serialisers
  (\<^verbatim>\<open>services/flexray/FlexraySerdes.cpp\<close>). A \<^verbatim>\<open>FlexraySymbolTransmitEvent\<close> adds no member to
  \<^verbatim>\<open>FlexraySymbolEvent\<close> and is streamed as its base class.
\<close>

section \<open>FlexRay\<close>

record FlexrayHeader =
  fh_flags :: "8 word"
  fh_frameId :: "16 word"
  fh_payloadLength :: "8 word"
  fh_headerCrc :: "16 word"
  fh_cycleCount :: "8 word"

definition put_FlexrayHeader :: "FlexrayHeader \<Rightarrow> writer" where
  "put_FlexrayHeader msg = write_all
      [put_word (fh_flags msg),
       put_word (fh_frameId msg),
       put_word (fh_payloadLength msg),
       put_word (fh_headerCrc msg),
       put_word (fh_cycleCount msg)]"

definition get_FlexrayHeader :: "FlexrayHeader reader" where
  "get_FlexrayHeader =
     rd_bind get_word (\<lambda>flags.
     rd_bind get_word (\<lambda>frameId.
     rd_bind get_word (\<lambda>payloadLength.
     rd_bind get_word (\<lambda>headerCrc.
     rd_bind get_word (\<lambda>cycleCount.
     rd_return \<lparr>fh_flags = flags, fh_frameId = frameId, fh_payloadLength = payloadLength, fh_headerCrc = headerCrc, fh_cycleCount = cycleCount\<rparr>)))))"

definition FlexrayHeader_bytes :: "FlexrayHeader \<Rightarrow> byte list" where
  "FlexrayHeader_bytes msg = concat
      [word_le (fh_flags msg),
       word_le (fh_frameId msg),
       word_le (fh_payloadLength msg),
       word_le (fh_headerCrc msg),
       word_le (fh_cycleCount msg)]"

lemma transfers_FlexrayHeader [codec_rules]:
  "transfers v (put_FlexrayHeader msg) get_FlexrayHeader msg (FlexrayHeader_bytes msg)"
  unfolding put_FlexrayHeader_def get_FlexrayHeader_def FlexrayHeader_bytes_def
  by (rule codec_rules | simp)+

lemma bounded_FlexrayHeader [bounded_rules]: "bounded get_FlexrayHeader"
  unfolding get_FlexrayHeader_def by (intro bounded_rules)

lemma FlexrayHeader_bytes_nonempty [simp]: "FlexrayHeader_bytes msg \<noteq> []"
  by (simp add: FlexrayHeader_bytes_def)

interpretation FlexrayHeader_codec: codec put_FlexrayHeader get_FlexrayHeader FlexrayHeader_bytes "\<lambda>_ _. True"
  by unfold_locales (auto intro: codec_rules bounded_rules)

record WireFlexrayFrame =
  wff_header :: "FlexrayHeader"
  wff_payload :: "byte list"

definition put_WireFlexrayFrame :: "WireFlexrayFrame \<Rightarrow> writer" where
  "put_WireFlexrayFrame msg = write_all
      [put_FlexrayHeader (wff_header msg),
       put_bytes (wff_payload msg)]"

definition get_WireFlexrayFrame :: "WireFlexrayFrame reader" where
  "get_WireFlexrayFrame =
     rd_bind get_FlexrayHeader (\<lambda>header.
     rd_bind get_bytes (\<lambda>payload.
     rd_return \<lparr>wff_header = header, wff_payload = payload\<rparr>))"

definition WireFlexrayFrame_bytes :: "WireFlexrayFrame \<Rightarrow> byte list" where
  "WireFlexrayFrame_bytes msg = concat
      [FlexrayHeader_bytes (wff_header msg),
       bytes_bytes (wff_payload msg)]"

definition ok_WireFlexrayFrame :: "WireFlexrayFrame \<Rightarrow> bool" where
  "ok_WireFlexrayFrame msg \<longleftrightarrow> ok_length (wff_payload msg)"

lemma transfers_WireFlexrayFrame [codec_rules]:
  "ok_WireFlexrayFrame msg \<Longrightarrow> transfers v (put_WireFlexrayFrame msg) get_WireFlexrayFrame msg (WireFlexrayFrame_bytes msg)"
  unfolding put_WireFlexrayFrame_def get_WireFlexrayFrame_def WireFlexrayFrame_bytes_def
  by (rule codec_rules | simp add: ok_WireFlexrayFrame_def uint32_max_def)+

lemma bounded_WireFlexrayFrame [bounded_rules]: "bounded get_WireFlexrayFrame"
  unfolding get_WireFlexrayFrame_def by (intro bounded_rules)

lemma WireFlexrayFrame_bytes_nonempty [simp]: "WireFlexrayFrame_bytes msg \<noteq> []"
  by (simp add: WireFlexrayFrame_bytes_def)

interpretation WireFlexrayFrame_codec: codec put_WireFlexrayFrame get_WireFlexrayFrame WireFlexrayFrame_bytes "\<lambda>_. ok_WireFlexrayFrame"
  by unfold_locales (auto intro: codec_rules bounded_rules)

record WireFlexrayFrameEvent =
  wffe_timestamp :: "int"
  wffe_channel :: "32 word"
  wffe_frame :: "WireFlexrayFrame"

definition put_WireFlexrayFrameEvent :: "WireFlexrayFrameEvent \<Rightarrow> writer" where
  "put_WireFlexrayFrameEvent msg = write_all
      [put_duration (wffe_timestamp msg),
       put_word (wffe_channel msg),
       put_WireFlexrayFrame (wffe_frame msg)]"

definition get_WireFlexrayFrameEvent :: "WireFlexrayFrameEvent reader" where
  "get_WireFlexrayFrameEvent =
     rd_bind get_duration (\<lambda>timestamp.
     rd_bind get_word (\<lambda>channel.
     rd_bind get_WireFlexrayFrame (\<lambda>frame.
     rd_return \<lparr>wffe_timestamp = timestamp, wffe_channel = channel, wffe_frame = frame\<rparr>)))"

definition WireFlexrayFrameEvent_bytes :: "WireFlexrayFrameEvent \<Rightarrow> byte list" where
  "WireFlexrayFrameEvent_bytes msg = concat
      [duration_bytes (wffe_timestamp msg),
       word_le (wffe_channel msg),
       WireFlexrayFrame_bytes (wffe_frame msg)]"

definition ok_WireFlexrayFrameEvent :: "WireFlexrayFrameEvent \<Rightarrow> bool" where
  "ok_WireFlexrayFrameEvent msg \<longleftrightarrow> ok_int64 (wffe_timestamp msg) \<and>
     ok_WireFlexrayFrame (wffe_frame msg)"

lemma transfers_WireFlexrayFrameEvent [codec_rules]:
  "ok_WireFlexrayFrameEvent msg \<Longrightarrow> transfers v (put_WireFlexrayFrameEvent msg) get_WireFlexrayFrameEvent msg (WireFlexrayFrameEvent_bytes msg)"
  unfolding put_WireFlexrayFrameEvent_def get_WireFlexrayFrameEvent_def WireFlexrayFrameEvent_bytes_def
  by (rule codec_rules | simp add: ok_WireFlexrayFrameEvent_def uint32_max_def)+

lemma bounded_WireFlexrayFrameEvent [bounded_rules]: "bounded get_WireFlexrayFrameEvent"
  unfolding get_WireFlexrayFrameEvent_def by (intro bounded_rules)

lemma WireFlexrayFrameEvent_bytes_nonempty [simp]: "WireFlexrayFrameEvent_bytes msg \<noteq> []"
  by (simp add: WireFlexrayFrameEvent_bytes_def)

interpretation WireFlexrayFrameEvent_codec: codec put_WireFlexrayFrameEvent get_WireFlexrayFrameEvent WireFlexrayFrameEvent_bytes "\<lambda>_. ok_WireFlexrayFrameEvent"
  by unfold_locales (auto intro: codec_rules bounded_rules)

record WireFlexrayFrameTransmitEvent =
  wffte_timestamp :: "int"
  wffte_txBufferIndex :: "16 word"
  wffte_channel :: "32 word"
  wffte_frame :: "WireFlexrayFrame"

definition put_WireFlexrayFrameTransmitEvent :: "WireFlexrayFrameTransmitEvent \<Rightarrow> writer" where
  "put_WireFlexrayFrameTransmitEvent msg = write_all
      [put_duration (wffte_timestamp msg),
       put_word (wffte_txBufferIndex msg),
       put_word (wffte_channel msg),
       put_WireFlexrayFrame (wffte_frame msg)]"

definition get_WireFlexrayFrameTransmitEvent :: "WireFlexrayFrameTransmitEvent reader" where
  "get_WireFlexrayFrameTransmitEvent =
     rd_bind get_duration (\<lambda>timestamp.
     rd_bind get_word (\<lambda>txBufferIndex.
     rd_bind get_word (\<lambda>channel.
     rd_bind get_WireFlexrayFrame (\<lambda>frame.
     rd_return \<lparr>wffte_timestamp = timestamp, wffte_txBufferIndex = txBufferIndex, wffte_channel = channel, wffte_frame = frame\<rparr>))))"

definition WireFlexrayFrameTransmitEvent_bytes :: "WireFlexrayFrameTransmitEvent \<Rightarrow> byte list" where
  "WireFlexrayFrameTransmitEvent_bytes msg = concat
      [duration_bytes (wffte_timestamp msg),
       word_le (wffte_txBufferIndex msg),
       word_le (wffte_channel msg),
       WireFlexrayFrame_bytes (wffte_frame msg)]"

definition ok_WireFlexrayFrameTransmitEvent :: "WireFlexrayFrameTransmitEvent \<Rightarrow> bool" where
  "ok_WireFlexrayFrameTransmitEvent msg \<longleftrightarrow> ok_int64 (wffte_timestamp msg) \<and>
     ok_WireFlexrayFrame (wffte_frame msg)"

lemma transfers_WireFlexrayFrameTransmitEvent [codec_rules]:
  "ok_WireFlexrayFrameTransmitEvent msg \<Longrightarrow> transfers v (put_WireFlexrayFrameTransmitEvent msg) get_WireFlexrayFrameTransmitEvent msg (WireFlexrayFrameTransmitEvent_bytes msg)"
  unfolding put_WireFlexrayFrameTransmitEvent_def get_WireFlexrayFrameTransmitEvent_def WireFlexrayFrameTransmitEvent_bytes_def
  by (rule codec_rules | simp add: ok_WireFlexrayFrameTransmitEvent_def uint32_max_def)+

lemma bounded_WireFlexrayFrameTransmitEvent [bounded_rules]: "bounded get_WireFlexrayFrameTransmitEvent"
  unfolding get_WireFlexrayFrameTransmitEvent_def by (intro bounded_rules)

lemma WireFlexrayFrameTransmitEvent_bytes_nonempty [simp]: "WireFlexrayFrameTransmitEvent_bytes msg \<noteq> []"
  by (simp add: WireFlexrayFrameTransmitEvent_bytes_def)

interpretation WireFlexrayFrameTransmitEvent_codec: codec put_WireFlexrayFrameTransmitEvent get_WireFlexrayFrameTransmitEvent WireFlexrayFrameTransmitEvent_bytes "\<lambda>_. ok_WireFlexrayFrameTransmitEvent"
  by unfold_locales (auto intro: codec_rules bounded_rules)

record FlexraySymbolEvent =
  fse_timestamp :: "int"
  fse_channel :: "32 word"
  fse_pattern :: "8 word"

definition put_FlexraySymbolEvent :: "FlexraySymbolEvent \<Rightarrow> writer" where
  "put_FlexraySymbolEvent msg = write_all
      [put_duration (fse_timestamp msg),
       put_word (fse_channel msg),
       put_word (fse_pattern msg)]"

definition get_FlexraySymbolEvent :: "FlexraySymbolEvent reader" where
  "get_FlexraySymbolEvent =
     rd_bind get_duration (\<lambda>timestamp.
     rd_bind get_word (\<lambda>channel.
     rd_bind get_word (\<lambda>pattern.
     rd_return \<lparr>fse_timestamp = timestamp, fse_channel = channel, fse_pattern = pattern\<rparr>)))"

definition FlexraySymbolEvent_bytes :: "FlexraySymbolEvent \<Rightarrow> byte list" where
  "FlexraySymbolEvent_bytes msg = concat
      [duration_bytes (fse_timestamp msg),
       word_le (fse_channel msg),
       word_le (fse_pattern msg)]"

definition ok_FlexraySymbolEvent :: "FlexraySymbolEvent \<Rightarrow> bool" where
  "ok_FlexraySymbolEvent msg \<longleftrightarrow> ok_int64 (fse_timestamp msg)"

lemma transfers_FlexraySymbolEvent [codec_rules]:
  "ok_FlexraySymbolEvent msg \<Longrightarrow> transfers v (put_FlexraySymbolEvent msg) get_FlexraySymbolEvent msg (FlexraySymbolEvent_bytes msg)"
  unfolding put_FlexraySymbolEvent_def get_FlexraySymbolEvent_def FlexraySymbolEvent_bytes_def
  by (rule codec_rules | simp add: ok_FlexraySymbolEvent_def uint32_max_def)+

lemma bounded_FlexraySymbolEvent [bounded_rules]: "bounded get_FlexraySymbolEvent"
  unfolding get_FlexraySymbolEvent_def by (intro bounded_rules)

lemma FlexraySymbolEvent_bytes_nonempty [simp]: "FlexraySymbolEvent_bytes msg \<noteq> []"
  by (simp add: FlexraySymbolEvent_bytes_def)

interpretation FlexraySymbolEvent_codec: codec put_FlexraySymbolEvent get_FlexraySymbolEvent FlexraySymbolEvent_bytes "\<lambda>_. ok_FlexraySymbolEvent"
  by unfold_locales (auto intro: codec_rules bounded_rules)

record FlexrayCycleStartEvent =
  fcse_timestamp :: "int"
  fcse_cycleCounter :: "8 word"

definition put_FlexrayCycleStartEvent :: "FlexrayCycleStartEvent \<Rightarrow> writer" where
  "put_FlexrayCycleStartEvent msg = write_all
      [put_duration (fcse_timestamp msg),
       put_word (fcse_cycleCounter msg)]"

definition get_FlexrayCycleStartEvent :: "FlexrayCycleStartEvent reader" where
  "get_FlexrayCycleStartEvent =
     rd_bind get_duration (\<lambda>timestamp.
     rd_bind get_word (\<lambda>cycleCounter.
     rd_return \<lparr>fcse_timestamp = timestamp, fcse_cycleCounter = cycleCounter\<rparr>))"

definition FlexrayCycleStartEvent_bytes :: "FlexrayCycleStartEvent \<Rightarrow> byte list" where
  "FlexrayCycleStartEvent_bytes msg = concat
      [duration_bytes (fcse_timestamp msg),
       word_le (fcse_cycleCounter msg)]"

definition ok_FlexrayCycleStartEvent :: "FlexrayCycleStartEvent \<Rightarrow> bool" where
  "ok_FlexrayCycleStartEvent msg \<longleftrightarrow> ok_int64 (fcse_timestamp msg)"

lemma transfers_FlexrayCycleStartEvent [codec_rules]:
  "ok_FlexrayCycleStartEvent msg \<Longrightarrow> transfers v (put_FlexrayCycleStartEvent msg) get_FlexrayCycleStartEvent msg (FlexrayCycleStartEvent_bytes msg)"
  unfolding put_FlexrayCycleStartEvent_def get_FlexrayCycleStartEvent_def FlexrayCycleStartEvent_bytes_def
  by (rule codec_rules | simp add: ok_FlexrayCycleStartEvent_def uint32_max_def)+

lemma bounded_FlexrayCycleStartEvent [bounded_rules]: "bounded get_FlexrayCycleStartEvent"
  unfolding get_FlexrayCycleStartEvent_def by (intro bounded_rules)

lemma FlexrayCycleStartEvent_bytes_nonempty [simp]: "FlexrayCycleStartEvent_bytes msg \<noteq> []"
  by (simp add: FlexrayCycleStartEvent_bytes_def)

interpretation FlexrayCycleStartEvent_codec: codec put_FlexrayCycleStartEvent get_FlexrayCycleStartEvent FlexrayCycleStartEvent_bytes "\<lambda>_. ok_FlexrayCycleStartEvent"
  by unfold_locales (auto intro: codec_rules bounded_rules)

record FlexrayHostCommand =
  fhc_command :: "8 word"

definition put_FlexrayHostCommand :: "FlexrayHostCommand \<Rightarrow> writer" where
  "put_FlexrayHostCommand msg = write_all
      [put_word (fhc_command msg)]"

definition get_FlexrayHostCommand :: "FlexrayHostCommand reader" where
  "get_FlexrayHostCommand =
     rd_bind get_word (\<lambda>command.
     rd_return \<lparr>fhc_command = command\<rparr>)"

definition FlexrayHostCommand_bytes :: "FlexrayHostCommand \<Rightarrow> byte list" where
  "FlexrayHostCommand_bytes msg = concat
      [word_le (fhc_command msg)]"

lemma transfers_FlexrayHostCommand [codec_rules]:
  "transfers v (put_FlexrayHostCommand msg) get_FlexrayHostCommand msg (FlexrayHostCommand_bytes msg)"
  unfolding put_FlexrayHostCommand_def get_FlexrayHostCommand_def FlexrayHostCommand_bytes_def
  by (rule codec_rules | simp)+

lemma bounded_FlexrayHostCommand [bounded_rules]: "bounded get_FlexrayHostCommand"
  unfolding get_FlexrayHostCommand_def by (intro bounded_rules)

lemma FlexrayHostCommand_bytes_nonempty [simp]: "FlexrayHostCommand_bytes msg \<noteq> []"
  by (simp add: FlexrayHostCommand_bytes_def)

interpretation FlexrayHostCommand_codec: codec put_FlexrayHostCommand get_FlexrayHostCommand FlexrayHostCommand_bytes "\<lambda>_ _. True"
  by unfold_locales (auto intro: codec_rules bounded_rules)

record FlexrayClusterParameters =
  fcp_gColdstartAttempts :: "8 word"
  fcp_gCycleCountMax :: "8 word"
  fcp_gdActionPointOffset :: "16 word"
  fcp_gdDynamicSlotIdlePhase :: "16 word"
  fcp_gdMiniSlot :: "16 word"
  fcp_gdMiniSlotActionPointOffset :: "16 word"
  fcp_gdStaticSlot :: "16 word"
  fcp_gdSymbolWindow :: "16 word"
  fcp_gdSymbolWindowActionPointOffset :: "16 word"
  fcp_gdTSSTransmitter :: "16 word"
  fcp_gdWakeupTxActive :: "16 word"
  fcp_gdWakeupTxIdle :: "16 word"
  fcp_gListenNoise :: "8 word"
  fcp_gMacroPerCycle :: "16 word"
  fcp_gMaxWithoutClockCorrectionFatal :: "8 word"
  fcp_gMaxWithoutClockCorrectionPassive :: "8 word"
  fcp_gNumberOfMiniSlots :: "16 word"
  fcp_gNumberOfStaticSlots :: "16 word"
  fcp_gPayloadLengthStatic :: "16 word"
  fcp_gSyncFrameIDCountMax :: "8 word"

definition put_FlexrayClusterParameters :: "FlexrayClusterParameters \<Rightarrow> writer" where
  "put_FlexrayClusterParameters msg = write_all
      [put_word (fcp_gColdstartAttempts msg),
       put_word (fcp_gCycleCountMax msg),
       put_word (fcp_gdActionPointOffset msg),
       put_word (fcp_gdDynamicSlotIdlePhase msg),
       put_word (fcp_gdMiniSlot msg),
       put_word (fcp_gdMiniSlotActionPointOffset msg),
       put_word (fcp_gdStaticSlot msg),
       put_word (fcp_gdSymbolWindow msg),
       put_word (fcp_gdSymbolWindowActionPointOffset msg),
       put_word (fcp_gdTSSTransmitter msg),
       put_word (fcp_gdWakeupTxActive msg),
       put_word (fcp_gdWakeupTxIdle msg),
       put_word (fcp_gListenNoise msg),
       put_word (fcp_gMacroPerCycle msg),
       put_word (fcp_gMaxWithoutClockCorrectionFatal msg),
       put_word (fcp_gMaxWithoutClockCorrectionPassive msg),
       put_word (fcp_gNumberOfMiniSlots msg),
       put_word (fcp_gNumberOfStaticSlots msg),
       put_word (fcp_gPayloadLengthStatic msg),
       put_word (fcp_gSyncFrameIDCountMax msg)]"

definition get_FlexrayClusterParameters :: "FlexrayClusterParameters reader" where
  "get_FlexrayClusterParameters =
     rd_bind get_word (\<lambda>gColdstartAttempts.
     rd_bind get_word (\<lambda>gCycleCountMax.
     rd_bind get_word (\<lambda>gdActionPointOffset.
     rd_bind get_word (\<lambda>gdDynamicSlotIdlePhase.
     rd_bind get_word (\<lambda>gdMiniSlot.
     rd_bind get_word (\<lambda>gdMiniSlotActionPointOffset.
     rd_bind get_word (\<lambda>gdStaticSlot.
     rd_bind get_word (\<lambda>gdSymbolWindow.
     rd_bind get_word (\<lambda>gdSymbolWindowActionPointOffset.
     rd_bind get_word (\<lambda>gdTSSTransmitter.
     rd_bind get_word (\<lambda>gdWakeupTxActive.
     rd_bind get_word (\<lambda>gdWakeupTxIdle.
     rd_bind get_word (\<lambda>gListenNoise.
     rd_bind get_word (\<lambda>gMacroPerCycle.
     rd_bind get_word (\<lambda>gMaxWithoutClockCorrectionFatal.
     rd_bind get_word (\<lambda>gMaxWithoutClockCorrectionPassive.
     rd_bind get_word (\<lambda>gNumberOfMiniSlots.
     rd_bind get_word (\<lambda>gNumberOfStaticSlots.
     rd_bind get_word (\<lambda>gPayloadLengthStatic.
     rd_bind get_word (\<lambda>gSyncFrameIDCountMax.
     rd_return \<lparr>fcp_gColdstartAttempts = gColdstartAttempts, fcp_gCycleCountMax = gCycleCountMax, fcp_gdActionPointOffset = gdActionPointOffset, fcp_gdDynamicSlotIdlePhase = gdDynamicSlotIdlePhase, fcp_gdMiniSlot = gdMiniSlot, fcp_gdMiniSlotActionPointOffset = gdMiniSlotActionPointOffset, fcp_gdStaticSlot = gdStaticSlot, fcp_gdSymbolWindow = gdSymbolWindow, fcp_gdSymbolWindowActionPointOffset = gdSymbolWindowActionPointOffset, fcp_gdTSSTransmitter = gdTSSTransmitter, fcp_gdWakeupTxActive = gdWakeupTxActive, fcp_gdWakeupTxIdle = gdWakeupTxIdle, fcp_gListenNoise = gListenNoise, fcp_gMacroPerCycle = gMacroPerCycle, fcp_gMaxWithoutClockCorrectionFatal = gMaxWithoutClockCorrectionFatal, fcp_gMaxWithoutClockCorrectionPassive = gMaxWithoutClockCorrectionPassive, fcp_gNumberOfMiniSlots = gNumberOfMiniSlots, fcp_gNumberOfStaticSlots = gNumberOfStaticSlots, fcp_gPayloadLengthStatic = gPayloadLengthStatic, fcp_gSyncFrameIDCountMax = gSyncFrameIDCountMax\<rparr>))))))))))))))))))))"

definition FlexrayClusterParameters_bytes :: "FlexrayClusterParameters \<Rightarrow> byte list" where
  "FlexrayClusterParameters_bytes msg = concat
      [word_le (fcp_gColdstartAttempts msg),
       word_le (fcp_gCycleCountMax msg),
       word_le (fcp_gdActionPointOffset msg),
       word_le (fcp_gdDynamicSlotIdlePhase msg),
       word_le (fcp_gdMiniSlot msg),
       word_le (fcp_gdMiniSlotActionPointOffset msg),
       word_le (fcp_gdStaticSlot msg),
       word_le (fcp_gdSymbolWindow msg),
       word_le (fcp_gdSymbolWindowActionPointOffset msg),
       word_le (fcp_gdTSSTransmitter msg),
       word_le (fcp_gdWakeupTxActive msg),
       word_le (fcp_gdWakeupTxIdle msg),
       word_le (fcp_gListenNoise msg),
       word_le (fcp_gMacroPerCycle msg),
       word_le (fcp_gMaxWithoutClockCorrectionFatal msg),
       word_le (fcp_gMaxWithoutClockCorrectionPassive msg),
       word_le (fcp_gNumberOfMiniSlots msg),
       word_le (fcp_gNumberOfStaticSlots msg),
       word_le (fcp_gPayloadLengthStatic msg),
       word_le (fcp_gSyncFrameIDCountMax msg)]"

lemma transfers_FlexrayClusterParameters [codec_rules]:
  "transfers v (put_FlexrayClusterParameters msg) get_FlexrayClusterParameters msg (FlexrayClusterParameters_bytes msg)"
  unfolding put_FlexrayClusterParameters_def get_FlexrayClusterParameters_def FlexrayClusterParameters_bytes_def
  by (rule codec_rules | simp)+

lemma bounded_FlexrayClusterParameters [bounded_rules]: "bounded get_FlexrayClusterParameters"
  unfolding get_FlexrayClusterParameters_def by (intro bounded_rules)

lemma FlexrayClusterParameters_bytes_nonempty [simp]: "FlexrayClusterParameters_bytes msg \<noteq> []"
  by (simp add: FlexrayClusterParameters_bytes_def)

interpretation FlexrayClusterParameters_codec: codec put_FlexrayClusterParameters get_FlexrayClusterParameters FlexrayClusterParameters_bytes "\<lambda>_ _. True"
  by unfold_locales (auto intro: codec_rules bounded_rules)

record FlexrayNodeParameters =
  fnp_pAllowHaltDueToClock :: "8 word"
  fnp_pAllowPassiveToActive :: "8 word"
  fnp_pChannels :: "32 word"
  fnp_pClusterDriftDamping :: "8 word"
  fnp_pdAcceptedStartupRange :: "32 word"
  fnp_pdListenTimeout :: "32 word"
  fnp_pKeySlotId :: "16 word"
  fnp_pKeySlotOnlyEnabled :: "8 word"
  fnp_pKeySlotUsedForStartup :: "8 word"
  fnp_pKeySlotUsedForSync :: "8 word"
  fnp_pLatestTx :: "16 word"
  fnp_pMacroInitialOffsetA :: "8 word"
  fnp_pMacroInitialOffsetB :: "8 word"
  fnp_pMicroInitialOffsetA :: "32 word"
  fnp_pMicroInitialOffsetB :: "32 word"
  fnp_pMicroPerCycle :: "32 word"
  fnp_pOffsetCorrectionOut :: "32 word"
  fnp_pOffsetCorrectionStart :: "16 word"
  fnp_pRateCorrectionOut :: "32 word"
  fnp_pWakeupChannel :: "32 word"
  fnp_pWakeupPattern :: "8 word"
  fnp_pdMicrotick :: "32 word"
  fnp_pSamplesPerMicrotick :: "8 word"
  fnp_pSecondKeySlotId :: "16 word"
  fnp_pTwoKeySlotMode :: "8 word"

text \<open>
  The streaming operators leave out the two members that version 2 of the structure added; the
  reader works on a value-initialised structure, so they are 0 in its result.
\<close>

definition put_FlexrayNodeParameters :: "FlexrayNodeParameters \<Rightarrow> writer" where
  "put_FlexrayNodeParameters msg = write_all
      [put_word (fnp_pAllowHaltDueToClock msg),
       put_word (fnp_pAllowPassiveToActive msg),
       put_word (fnp_pChannels msg),
       put_word (fnp_pClusterDriftDamping msg),
       put_word (fnp_pdAcceptedStartupRange msg),
       put_word (fnp_pdListenTimeout msg),
       put_word (fnp_pKeySlotId msg),
       put_word (fnp_pKeySlotOnlyEnabled msg),
       put_word (fnp_pKeySlotUsedForStartup msg),
       put_word (fnp_pKeySlotUsedForSync msg),
       put_word (fnp_pLatestTx msg),
       put_word (fnp_pMacroInitialOffsetA msg),
       put_word (fnp_pMacroInitialOffsetB msg),
       put_word (fnp_pMicroInitialOffsetA msg),
       put_word (fnp_pMicroInitialOffsetB msg),
       put_word (fnp_pMicroPerCycle msg),
       put_word (fnp_pOffsetCorrectionOut msg),
       put_word (fnp_pOffsetCorrectionStart msg),
       put_word (fnp_pRateCorrectionOut msg),
       put_word (fnp_pWakeupChannel msg),
       put_word (fnp_pWakeupPattern msg),
       put_word (fnp_pdMicrotick msg),
       put_word (fnp_pSamplesPerMicrotick msg)]"

definition get_FlexrayNodeParameters :: "FlexrayNodeParameters reader" where
  "get_FlexrayNodeParameters =
     rd_bind get_word (\<lambda>pAllowHaltDueToClock.
     rd_bind get_word (\<lambda>pAllowPassiveToActive.
     rd_bind get_word (\<lambda>pChannels.
     rd_bind get_word (\<lambda>pClusterDriftDamping.
     rd_bind get_word (\<lambda>pdAcceptedStartupRange.
     rd_bind get_word (\<lambda>pdListenTimeout.
     rd_bind get_word (\<lambda>pKeySlotId.
     rd_bind get_word (\<lambda>pKeySlotOnlyEnabled.
     rd_bind get_word (\<lambda>pKeySlotUsedForStartup.
     rd_bind get_word (\<lambda>pKeySlotUsedForSync.
     rd_bind get_word (\<lambda>pLatestTx.
     rd_bind get_word (\<lambda>pMacroInitialOffsetA.
     rd_bind get_word (\<lambda>pMacroInitialOffsetB.
     rd_bind get_word (\<lambda>pMicroInitialOffsetA.
     rd_bind get_word (\<lambda>pMicroInitialOffsetB.
     rd_bind get_word (\<lambda>pMicroPerCycle.
     rd_bind get_word (\<lambda>pOffsetCorrectionOut.
     rd_bind get_word (\<lambda>pOffsetCorrectionStart.
     rd_bind get_word (\<lambda>pRateCorrectionOut.
     rd_bind get_word (\<lambda>pWakeupChannel.
     rd_bind get_word (\<lambda>pWakeupPattern.
     rd_bind get_word (\<lambda>pdMicrotick.
     rd_bind get_word (\<lambda>pSamplesPerMicrotick.
     rd_return \<lparr>fnp_pAllowHaltDueToClock = pAllowHaltDueToClock, fnp_pAllowPassiveToActive = pAllowPassiveToActive, fnp_pChannels = pChannels, fnp_pClusterDriftDamping = pClusterDriftDamping, fnp_pdAcceptedStartupRange = pdAcceptedStartupRange, fnp_pdListenTimeout = pdListenTimeout, fnp_pKeySlotId = pKeySlotId, fnp_pKeySlotOnlyEnabled = pKeySlotOnlyEnabled, fnp_pKeySlotUsedForStartup = pKeySlotUsedForStartup, fnp_pKeySlotUsedForSync = pKeySlotUsedForSync, fnp_pLatestTx = pLatestTx, fnp_pMacroInitialOffsetA = pMacroInitialOffsetA, fnp_pMacroInitialOffsetB = pMacroInitialOffsetB, fnp_pMicroInitialOffsetA = pMicroInitialOffsetA, fnp_pMicroInitialOffsetB = pMicroInitialOffsetB, fnp_pMicroPerCycle = pMicroPerCycle, fnp_pOffsetCorrectionOut = pOffsetCorrectionOut, fnp_pOffsetCorrectionStart = pOffsetCorrectionStart, fnp_pRateCorrectionOut = pRateCorrectionOut, fnp_pWakeupChannel = pWakeupChannel, fnp_pWakeupPattern = pWakeupPattern, fnp_pdMicrotick = pdMicrotick, fnp_pSamplesPerMicrotick = pSamplesPerMicrotick, fnp_pSecondKeySlotId = 0, fnp_pTwoKeySlotMode = 0\<rparr>)))))))))))))))))))))))"

definition FlexrayNodeParameters_bytes :: "FlexrayNodeParameters \<Rightarrow> byte list" where
  "FlexrayNodeParameters_bytes msg = concat
      [word_le (fnp_pAllowHaltDueToClock msg),
       word_le (fnp_pAllowPassiveToActive msg),
       word_le (fnp_pChannels msg),
       word_le (fnp_pClusterDriftDamping msg),
       word_le (fnp_pdAcceptedStartupRange msg),
       word_le (fnp_pdListenTimeout msg),
       word_le (fnp_pKeySlotId msg),
       word_le (fnp_pKeySlotOnlyEnabled msg),
       word_le (fnp_pKeySlotUsedForStartup msg),
       word_le (fnp_pKeySlotUsedForSync msg),
       word_le (fnp_pLatestTx msg),
       word_le (fnp_pMacroInitialOffsetA msg),
       word_le (fnp_pMacroInitialOffsetB msg),
       word_le (fnp_pMicroInitialOffsetA msg),
       word_le (fnp_pMicroInitialOffsetB msg),
       word_le (fnp_pMicroPerCycle msg),
       word_le (fnp_pOffsetCorrectionOut msg),
       word_le (fnp_pOffsetCorrectionStart msg),
       word_le (fnp_pRateCorrectionOut msg),
       word_le (fnp_pWakeupChannel msg),
       word_le (fnp_pWakeupPattern msg),
       word_le (fnp_pdMicrotick msg),
       word_le (fnp_pSamplesPerMicrotick msg)]"

lemma transfers_FlexrayNodeParameters [codec_rules]:
  "transfers v (put_FlexrayNodeParameters msg) get_FlexrayNodeParameters
     (msg\<lparr>fnp_pSecondKeySlotId := 0, fnp_pTwoKeySlotMode := 0\<rparr>) (FlexrayNodeParameters_bytes msg)"
  unfolding put_FlexrayNodeParameters_def get_FlexrayNodeParameters_def FlexrayNodeParameters_bytes_def
  by (rule codec_rules | simp)+

lemma bounded_FlexrayNodeParameters [bounded_rules]: "bounded get_FlexrayNodeParameters"
  unfolding get_FlexrayNodeParameters_def by (intro bounded_rules)

lemma FlexrayNodeParameters_bytes_nonempty [simp]: "FlexrayNodeParameters_bytes msg \<noteq> []"
  by (simp add: FlexrayNodeParameters_bytes_def)


record FlexrayTxBufferConfig =
  ftbc_channels :: "32 word"
  ftbc_slotId :: "16 word"
  ftbc_offset :: "8 word"
  ftbc_repetition :: "8 word"
  ftbc_hasPayloadPreambleIndicator :: "bool"
  ftbc_headerCrc :: "16 word"
  ftbc_transmissionMode :: "8 word"

definition put_FlexrayTxBufferConfig :: "FlexrayTxBufferConfig \<Rightarrow> writer" where
  "put_FlexrayTxBufferConfig msg = write_all
      [put_word (ftbc_channels msg),
       put_word (ftbc_slotId msg),
       put_word (ftbc_offset msg),
       put_word (ftbc_repetition msg),
       put_bool (ftbc_hasPayloadPreambleIndicator msg),
       put_word (ftbc_headerCrc msg),
       put_word (ftbc_transmissionMode msg)]"

definition get_FlexrayTxBufferConfig :: "FlexrayTxBufferConfig reader" where
  "get_FlexrayTxBufferConfig =
     rd_bind get_word (\<lambda>channels.
     rd_bind get_word (\<lambda>slotId.
     rd_bind get_word (\<lambda>offset.
     rd_bind get_word (\<lambda>repetition.
     rd_bind get_bool (\<lambda>hasPayloadPreambleIndicator.
     rd_bind get_word (\<lambda>headerCrc.
     rd_bind get_word (\<lambda>transmissionMode.
     rd_return \<lparr>ftbc_channels = channels, ftbc_slotId = slotId, ftbc_offset = offset, ftbc_repetition = repetition, ftbc_hasPayloadPreambleIndicator = hasPayloadPreambleIndicator, ftbc_headerCrc = headerCrc, ftbc_transmissionMode = transmissionMode\<rparr>)))))))"

definition FlexrayTxBufferConfig_bytes :: "FlexrayTxBufferConfig \<Rightarrow> byte list" where
  "FlexrayTxBufferConfig_bytes msg = concat
      [word_le (ftbc_channels msg),
       word_le (ftbc_slotId msg),
       word_le (ftbc_offset msg),
       word_le (ftbc_repetition msg),
       bool_bytes (ftbc_hasPayloadPreambleIndicator msg),
       word_le (ftbc_headerCrc msg),
       word_le (ftbc_transmissionMode msg)]"

lemma transfers_FlexrayTxBufferConfig [codec_rules]:
  "transfers v (put_FlexrayTxBufferConfig msg) get_FlexrayTxBufferConfig msg (FlexrayTxBufferConfig_bytes msg)"
  unfolding put_FlexrayTxBufferConfig_def get_FlexrayTxBufferConfig_def FlexrayTxBufferConfig_bytes_def
  by (rule codec_rules | simp)+

lemma bounded_FlexrayTxBufferConfig [bounded_rules]: "bounded get_FlexrayTxBufferConfig"
  unfolding get_FlexrayTxBufferConfig_def by (intro bounded_rules)

lemma FlexrayTxBufferConfig_bytes_nonempty [simp]: "FlexrayTxBufferConfig_bytes msg \<noteq> []"
  by (simp add: FlexrayTxBufferConfig_bytes_def)

interpretation FlexrayTxBufferConfig_codec: codec put_FlexrayTxBufferConfig get_FlexrayTxBufferConfig FlexrayTxBufferConfig_bytes "\<lambda>_ _. True"
  by unfold_locales (auto intro: codec_rules bounded_rules)

record FlexrayTxBufferConfigUpdate =
  ftbcu_txBufferIndex :: "16 word"
  ftbcu_txBufferConfig :: "FlexrayTxBufferConfig"

definition put_FlexrayTxBufferConfigUpdate :: "FlexrayTxBufferConfigUpdate \<Rightarrow> writer" where
  "put_FlexrayTxBufferConfigUpdate msg = write_all
      [put_word (ftbcu_txBufferIndex msg),
       put_FlexrayTxBufferConfig (ftbcu_txBufferConfig msg)]"

definition get_FlexrayTxBufferConfigUpdate :: "FlexrayTxBufferConfigUpdate reader" where
  "get_FlexrayTxBufferConfigUpdate =
     rd_bind get_word (\<lambda>txBufferIndex.
     rd_bind get_FlexrayTxBufferConfig (\<lambda>txBufferConfig.
     rd_return \<lparr>ftbcu_txBufferIndex = txBufferIndex, ftbcu_txBufferConfig = txBufferConfig\<rparr>))"

definition FlexrayTxBufferConfigUpdate_bytes :: "FlexrayTxBufferConfigUpdate \<Rightarrow> byte list" where
  "FlexrayTxBufferConfigUpdate_bytes msg = concat
      [word_le (ftbcu_txBufferIndex msg),
       FlexrayTxBufferConfig_bytes (ftbcu_txBufferConfig msg)]"

lemma transfers_FlexrayTxBufferConfigUpdate [codec_rules]:
  "transfers v (put_FlexrayTxBufferConfigUpdate msg) get_FlexrayTxBufferConfigUpdate msg (FlexrayTxBufferConfigUpdate_bytes msg)"
  unfolding put_FlexrayTxBufferConfigUpdate_def get_FlexrayTxBufferConfigUpdate_def FlexrayTxBufferConfigUpdate_bytes_def
  by (rule codec_rules | simp)+

lemma bounded_FlexrayTxBufferConfigUpdate [bounded_rules]: "bounded get_FlexrayTxBufferConfigUpdate"
  unfolding get_FlexrayTxBufferConfigUpdate_def by (intro bounded_rules)

lemma FlexrayTxBufferConfigUpdate_bytes_nonempty [simp]: "FlexrayTxBufferConfigUpdate_bytes msg \<noteq> []"
  by (simp add: FlexrayTxBufferConfigUpdate_bytes_def)

interpretation FlexrayTxBufferConfigUpdate_codec: codec put_FlexrayTxBufferConfigUpdate get_FlexrayTxBufferConfigUpdate FlexrayTxBufferConfigUpdate_bytes "\<lambda>_ _. True"
  by unfold_locales (auto intro: codec_rules bounded_rules)

record WireFlexrayTxBufferUpdate =
  wftbu_txBufferIndex :: "16 word"
  wftbu_payloadDataValid :: "bool"
  wftbu_payload :: "byte list"

definition put_WireFlexrayTxBufferUpdate :: "WireFlexrayTxBufferUpdate \<Rightarrow> writer" where
  "put_WireFlexrayTxBufferUpdate msg = write_all
      [put_word (wftbu_txBufferIndex msg),
       put_bool (wftbu_payloadDataValid msg),
       put_bytes (wftbu_payload msg)]"

definition get_WireFlexrayTxBufferUpdate :: "WireFlexrayTxBufferUpdate reader" where
  "get_WireFlexrayTxBufferUpdate =
     rd_bind get_word (\<lambda>txBufferIndex.
     rd_bind get_bool (\<lambda>payloadDataValid.
     rd_bind get_bytes (\<lambda>payload.
     rd_return \<lparr>wftbu_txBufferIndex = txBufferIndex, wftbu_payloadDataValid = payloadDataValid, wftbu_payload = payload\<rparr>)))"

definition WireFlexrayTxBufferUpdate_bytes :: "WireFlexrayTxBufferUpdate \<Rightarrow> byte list" where
  "WireFlexrayTxBufferUpdate_bytes msg = concat
      [word_le (wftbu_txBufferIndex msg),
       bool_bytes (wftbu_payloadDataValid msg),
       bytes_bytes (wftbu_payload msg)]"

definition ok_WireFlexrayTxBufferUpdate :: "WireFlexrayTxBufferUpdate \<Rightarrow> bool" where
  "ok_WireFlexrayTxBufferUpdate msg \<longleftrightarrow> ok_length (wftbu_payload msg)"

lemma transfers_WireFlexrayTxBufferUpdate [codec_rules]:
  "ok_WireFlexrayTxBufferUpdate msg \<Longrightarrow> transfers v (put_WireFlexrayTxBufferUpdate msg) get_WireFlexrayTxBufferUpdate msg (WireFlexrayTxBufferUpdate_bytes msg)"
  unfolding put_WireFlexrayTxBufferUpdate_def get_WireFlexrayTxBufferUpdate_def WireFlexrayTxBufferUpdate_bytes_def
  by (rule codec_rules | simp add: ok_WireFlexrayTxBufferUpdate_def uint32_max_def)+

lemma bounded_WireFlexrayTxBufferUpdate [bounded_rules]: "bounded get_WireFlexrayTxBufferUpdate"
  unfolding get_WireFlexrayTxBufferUpdate_def by (intro bounded_rules)

lemma WireFlexrayTxBufferUpdate_bytes_nonempty [simp]: "WireFlexrayTxBufferUpdate_bytes msg \<noteq> []"
  by (simp add: WireFlexrayTxBufferUpdate_bytes_def)

interpretation WireFlexrayTxBufferUpdate_codec: codec put_WireFlexrayTxBufferUpdate get_WireFlexrayTxBufferUpdate WireFlexrayTxBufferUpdate_bytes "\<lambda>_. ok_WireFlexrayTxBufferUpdate"
  by unfold_locales (auto intro: codec_rules bounded_rules)

record FlexrayPocStatusEvent =
  fpse_timestamp :: "int"
  fpse_state :: "8 word"
  fpse_chiHaltRequest :: "bool"
  fpse_coldstartNoise :: "bool"
  fpse_freeze :: "bool"
  fpse_chiReadyRequest :: "bool"
  fpse_errorMode :: "8 word"
  fpse_slotMode :: "8 word"
  fpse_startupState :: "8 word"
  fpse_wakeupStatus :: "8 word"

definition put_FlexrayPocStatusEvent :: "FlexrayPocStatusEvent \<Rightarrow> writer" where
  "put_FlexrayPocStatusEvent msg = write_all
      [put_duration (fpse_timestamp msg),
       put_bool (fpse_chiHaltRequest msg),
       put_bool (fpse_coldstartNoise msg),
       put_word (fpse_errorMode msg),
       put_bool (fpse_freeze msg),
       put_word (fpse_slotMode msg),
       put_word (fpse_startupState msg),
       put_word (fpse_state msg),
       put_word (fpse_wakeupStatus msg),
       put_bool (fpse_chiReadyRequest msg)]"

definition get_FlexrayPocStatusEvent :: "FlexrayPocStatusEvent reader" where
  "get_FlexrayPocStatusEvent =
     rd_bind get_duration (\<lambda>timestamp.
     rd_bind get_bool (\<lambda>chiHaltRequest.
     rd_bind get_bool (\<lambda>coldstartNoise.
     rd_bind get_word (\<lambda>errorMode.
     rd_bind get_bool (\<lambda>freeze.
     rd_bind get_word (\<lambda>slotMode.
     rd_bind get_word (\<lambda>startupState.
     rd_bind get_word (\<lambda>state.
     rd_bind get_word (\<lambda>wakeupStatus.
     rd_bind get_bool (\<lambda>chiReadyRequest.
     rd_return \<lparr>fpse_timestamp = timestamp, fpse_state = state, fpse_chiHaltRequest = chiHaltRequest, fpse_coldstartNoise = coldstartNoise, fpse_freeze = freeze, fpse_chiReadyRequest = chiReadyRequest, fpse_errorMode = errorMode, fpse_slotMode = slotMode, fpse_startupState = startupState, fpse_wakeupStatus = wakeupStatus\<rparr>))))))))))"

definition FlexrayPocStatusEvent_bytes :: "FlexrayPocStatusEvent \<Rightarrow> byte list" where
  "FlexrayPocStatusEvent_bytes msg = concat
      [duration_bytes (fpse_timestamp msg),
       bool_bytes (fpse_chiHaltRequest msg),
       bool_bytes (fpse_coldstartNoise msg),
       word_le (fpse_errorMode msg),
       bool_bytes (fpse_freeze msg),
       word_le (fpse_slotMode msg),
       word_le (fpse_startupState msg),
       word_le (fpse_state msg),
       word_le (fpse_wakeupStatus msg),
       bool_bytes (fpse_chiReadyRequest msg)]"

definition ok_FlexrayPocStatusEvent :: "FlexrayPocStatusEvent \<Rightarrow> bool" where
  "ok_FlexrayPocStatusEvent msg \<longleftrightarrow> ok_int64 (fpse_timestamp msg)"

lemma transfers_FlexrayPocStatusEvent [codec_rules]:
  "ok_FlexrayPocStatusEvent msg \<Longrightarrow> transfers v (put_FlexrayPocStatusEvent msg) get_FlexrayPocStatusEvent msg (FlexrayPocStatusEvent_bytes msg)"
  unfolding put_FlexrayPocStatusEvent_def get_FlexrayPocStatusEvent_def FlexrayPocStatusEvent_bytes_def
  by (rule codec_rules | simp add: ok_FlexrayPocStatusEvent_def uint32_max_def)+

lemma bounded_FlexrayPocStatusEvent [bounded_rules]: "bounded get_FlexrayPocStatusEvent"
  unfolding get_FlexrayPocStatusEvent_def by (intro bounded_rules)

lemma FlexrayPocStatusEvent_bytes_nonempty [simp]: "FlexrayPocStatusEvent_bytes msg \<noteq> []"
  by (simp add: FlexrayPocStatusEvent_bytes_def)

interpretation FlexrayPocStatusEvent_codec: codec put_FlexrayPocStatusEvent get_FlexrayPocStatusEvent FlexrayPocStatusEvent_bytes "\<lambda>_. ok_FlexrayPocStatusEvent"
  by unfold_locales (auto intro: codec_rules bounded_rules)

section \<open>Controller configuration\<close>

record FlexrayControllerConfig =
  fcc_clusterParams :: FlexrayClusterParameters
  fcc_nodeParams :: FlexrayNodeParameters
  fcc_bufferConfigs :: "FlexrayTxBufferConfig list"

definition put_FlexrayControllerConfig :: "FlexrayControllerConfig \<Rightarrow> writer" where
  "put_FlexrayControllerConfig msg = write_all
      [put_FlexrayClusterParameters (fcc_clusterParams msg),
       put_FlexrayNodeParameters (fcc_nodeParams msg),
       put_vector put_FlexrayTxBufferConfig (fcc_bufferConfigs msg),
       put_word (fnp_pSecondKeySlotId (fcc_nodeParams msg)),
       put_word (fnp_pTwoKeySlotMode (fcc_nodeParams msg))]"

definition get_FlexrayControllerConfig :: "FlexrayControllerConfig reader" where
  "get_FlexrayControllerConfig =
     rd_bind get_FlexrayClusterParameters (\<lambda>clusterParams.
     rd_bind get_FlexrayNodeParameters (\<lambda>nodeParams.
     rd_bind (get_vector get_FlexrayTxBufferConfig) (\<lambda>bufferConfigs mb.
       if RemainingBytesLeft mb > 0
       then rd_bind get_word (\<lambda>pSecondKeySlotId.
            rd_bind get_word (\<lambda>pTwoKeySlotMode.
            rd_return \<lparr>fcc_clusterParams = clusterParams,
              fcc_nodeParams = nodeParams\<lparr>fnp_pSecondKeySlotId := pSecondKeySlotId,
                fnp_pTwoKeySlotMode := pTwoKeySlotMode\<rparr>,
              fcc_bufferConfigs = bufferConfigs\<rparr>)) mb
       else rd_return \<lparr>fcc_clusterParams = clusterParams, fcc_nodeParams = nodeParams,
              fcc_bufferConfigs = bufferConfigs\<rparr> mb)))"

text \<open>The first version of the message ends behind the buffer configurations.\<close>

definition FlexrayControllerConfig_old_bytes :: "FlexrayControllerConfig \<Rightarrow> byte list" where
  "FlexrayControllerConfig_old_bytes msg = concat
      [FlexrayClusterParameters_bytes (fcc_clusterParams msg),
       FlexrayNodeParameters_bytes (fcc_nodeParams msg),
       vector_bytes FlexrayTxBufferConfig_bytes (fcc_bufferConfigs msg)]"

definition FlexrayControllerConfig_bytes :: "FlexrayControllerConfig \<Rightarrow> byte list" where
  "FlexrayControllerConfig_bytes msg = concat
      [FlexrayClusterParameters_bytes (fcc_clusterParams msg),
       FlexrayNodeParameters_bytes (fcc_nodeParams msg),
       vector_bytes FlexrayTxBufferConfig_bytes (fcc_bufferConfigs msg),
       word_le (fnp_pSecondKeySlotId (fcc_nodeParams msg)),
       word_le (fnp_pTwoKeySlotMode (fcc_nodeParams msg))]"

definition ok_FlexrayControllerConfig :: "FlexrayControllerConfig \<Rightarrow> bool" where
  "ok_FlexrayControllerConfig msg \<longleftrightarrow> ok_length (fcc_bufferConfigs msg)"

lemma writes_FlexrayControllerConfig:
  "ok_FlexrayControllerConfig msg \<Longrightarrow>
   writes v (put_FlexrayControllerConfig msg) (FlexrayControllerConfig_bytes msg)"
  unfolding put_FlexrayControllerConfig_def FlexrayControllerConfig_bytes_def
  by (rule message_rules codec_rules | simp add: ok_FlexrayControllerConfig_def)+

lemma reads_end_FlexrayControllerConfig_old:
  "ok_FlexrayControllerConfig msg \<Longrightarrow>
   reads_end v get_FlexrayControllerConfig
     (msg\<lparr>fcc_nodeParams := (fcc_nodeParams msg)\<lparr>fnp_pSecondKeySlotId := 0, fnp_pTwoKeySlotMode := 0\<rparr>\<rparr>)
     (FlexrayControllerConfig_old_bytes msg)"
  unfolding get_FlexrayControllerConfig_def FlexrayControllerConfig_old_bytes_def
  by (rule message_rules codec_rules reads_end_if_false | simp add: ok_FlexrayControllerConfig_def)+

lemma reads_end_FlexrayControllerConfig:
  "ok_FlexrayControllerConfig msg \<Longrightarrow>
   reads_end v get_FlexrayControllerConfig msg (FlexrayControllerConfig_bytes msg)"
  unfolding get_FlexrayControllerConfig_def FlexrayControllerConfig_bytes_def
  by (rule message_rules codec_rules reads_end_if_true | simp add: ok_FlexrayControllerConfig_def)+

lemma bounded_FlexrayControllerConfig [bounded_rules]: "bounded get_FlexrayControllerConfig"
  unfolding get_FlexrayControllerConfig_def by (intro bounded_rules)

interpretation FlexrayControllerConfig_codec: message_codec put_FlexrayControllerConfig
  get_FlexrayControllerConfig FlexrayControllerConfig_bytes "\<lambda>_. ok_FlexrayControllerConfig"
  by unfold_locales
    (auto intro: writes_FlexrayControllerConfig reads_end_FlexrayControllerConfig bounded_rules)

end
