(* ===== verification/OrchestrationDatatypes.thy ===== *)
theory OrchestrationDatatypes
  imports Codec
begin

text \<open>
  The enumerations and structures of
  \<^verbatim>\<open>silkit/services/orchestration/OrchestrationDatatypes.hpp\<close> and
  \<^verbatim>\<open>core/internal/OrchestrationDatatypes.hpp\<close>. \<^verbatim>\<open>ParticipantState\<close> arrives from the network as a
  16-bit integer that is not checked, so the type has a case for the values without a name.
\<close>

section \<open>States\<close>

datatype participant_state =
    PS_Invalid
  | PS_ServicesCreated
  | PS_CommunicationInitializing
  | PS_CommunicationInitialized
  | PS_ReadyToRun
  | PS_Running
  | PS_Paused
  | PS_Stopping
  | PS_Stopped
  | PS_Error
  | PS_ShuttingDown
  | PS_Shutdown
  | PS_Aborting
  | PS_Other "16 word"

datatype system_state =
    SS_Invalid
  | SS_ServicesCreated
  | SS_CommunicationInitializing
  | SS_CommunicationInitialized
  | SS_ReadyToRun
  | SS_Running
  | SS_Paused
  | SS_Stopping
  | SS_Stopped
  | SS_Error
  | SS_ShuttingDown
  | SS_Shutdown
  | SS_Aborting

datatype operation_mode = OM_Invalid | OM_Coordinated | OM_Autonomous

text \<open>The numbers of \<^verbatim>\<open>silkit/capi/Orchestration.h\<close>.\<close>

fun ParticipantState_code :: "participant_state \<Rightarrow> 16 word" where
  "ParticipantState_code PS_Invalid = 0"
| "ParticipantState_code PS_ServicesCreated = 10"
| "ParticipantState_code PS_CommunicationInitializing = 20"
| "ParticipantState_code PS_CommunicationInitialized = 30"
| "ParticipantState_code PS_ReadyToRun = 40"
| "ParticipantState_code PS_Running = 50"
| "ParticipantState_code PS_Paused = 60"
| "ParticipantState_code PS_Stopping = 70"
| "ParticipantState_code PS_Stopped = 80"
| "ParticipantState_code PS_Error = 90"
| "ParticipantState_code PS_ShuttingDown = 100"
| "ParticipantState_code PS_Shutdown = 110"
| "ParticipantState_code PS_Aborting = 120"
| "ParticipantState_code (PS_Other w) = w"

definition named_participant_states :: "participant_state list" where
  "named_participant_states =
     [PS_Invalid, PS_ServicesCreated, PS_CommunicationInitializing, PS_CommunicationInitialized,
      PS_ReadyToRun, PS_Running, PS_Paused, PS_Stopping, PS_Stopped, PS_Error, PS_ShuttingDown,
      PS_Shutdown, PS_Aborting]"

definition ParticipantState_of_code :: "16 word \<Rightarrow> participant_state" where
  "ParticipantState_of_code w =
     (case find (\<lambda>s. ParticipantState_code s = w) named_participant_states of
        None \<Rightarrow> PS_Other w | Some s \<Rightarrow> s)"

lemma ParticipantState_code_of_code [simp]:
  "ParticipantState_code (ParticipantState_of_code w) = w"
  by (auto simp: ParticipantState_of_code_def find_Some_iff split: option.splits)

definition ok_ParticipantState :: "participant_state \<Rightarrow> bool" where
  "ok_ParticipantState s \<longleftrightarrow> (\<forall>w. s = PS_Other w \<longrightarrow> ParticipantState_of_code w = s)"

lemma ParticipantState_of_code_code:
  "ok_ParticipantState s \<Longrightarrow> ParticipantState_of_code (ParticipantState_code s) = s"
  by (cases s) (simp_all add: ok_ParticipantState_def ParticipantState_of_code_def named_participant_states_def)

section \<open>Messages\<close>

record NextSimTask =
  nst_timePoint :: int
  nst_duration :: int

datatype system_command_kind = SC_Invalid | SC_AbortSimulation | SC_Other "8 word"

fun SystemCommand_code :: "system_command_kind \<Rightarrow> 8 word" where
  "SystemCommand_code SC_Invalid = 0"
| "SystemCommand_code SC_AbortSimulation = 1"
| "SystemCommand_code (SC_Other w) = w"

definition SystemCommand_of_code :: "8 word \<Rightarrow> system_command_kind" where
  "SystemCommand_of_code w = (if w = 0 then SC_Invalid else if w = 1 then SC_AbortSimulation else SC_Other w)"

record ParticipantStatus =
  pst_participantName :: string
  pst_state :: participant_state
  pst_enterReason :: string
  pst_enterTime :: int
  pst_refreshTime :: int

record WorkflowConfiguration =
  wc_requiredParticipantNames :: "string list"

end
