(* ===== verification/SyncSerdes.thy ===== *)
theory SyncSerdes
  imports OrchestrationDatatypes
begin

text \<open>
  The serialisers of the orchestration messages (\<^verbatim>\<open>services/orchestration/SyncSerdes.cpp\<close>). The
  times of a \<^verbatim>\<open>ParticipantStatus\<close> are cut to microseconds on the wire.
\<close>

section \<open>Enumerations\<close>

definition put_ParticipantState :: "participant_state \<Rightarrow> writer" where
  "put_ParticipantState s = put_word (ParticipantState_code s)"

definition get_ParticipantState :: "participant_state reader" where
  "get_ParticipantState = rd_bind get_word (\<lambda>w. rd_return (ParticipantState_of_code w))"

definition ParticipantState_bytes :: "participant_state \<Rightarrow> byte list" where
  "ParticipantState_bytes s = word_le (ParticipantState_code s)"

lemma transfers_ParticipantState [codec_rules]:
  "ok_ParticipantState s \<Longrightarrow> transfers v (put_ParticipantState s) get_ParticipantState s (ParticipantState_bytes s)"
  unfolding put_ParticipantState_def get_ParticipantState_def ParticipantState_bytes_def
  by (rule transfers_map, rule transfers_word) (simp_all add: ParticipantState_of_code_code)

lemma bounded_ParticipantState [bounded_rules]: "bounded get_ParticipantState"
  unfolding get_ParticipantState_def by (intro bounded_rules)

definition put_SystemCommand :: "system_command_kind \<Rightarrow> writer" where
  "put_SystemCommand kind = write_all [put_word (SystemCommand_code kind)]"

definition get_SystemCommand :: "system_command_kind reader" where
  "get_SystemCommand = rd_bind get_word (\<lambda>w. rd_return (SystemCommand_of_code w))"

definition SystemCommand_bytes :: "system_command_kind \<Rightarrow> byte list" where
  "SystemCommand_bytes kind = concat [word_le (SystemCommand_code kind)]"

definition ok_SystemCommand :: "system_command_kind \<Rightarrow> bool" where
  "ok_SystemCommand kind \<longleftrightarrow> SystemCommand_of_code (SystemCommand_code kind) = kind"

lemma transfers_SystemCommand [codec_rules]:
  "ok_SystemCommand kind \<Longrightarrow> transfers v (put_SystemCommand kind) get_SystemCommand kind (SystemCommand_bytes kind)"
  unfolding put_SystemCommand_def get_SystemCommand_def SystemCommand_bytes_def
  by (rule codec_rules | simp add: ok_SystemCommand_def)+

lemma bounded_SystemCommand [bounded_rules]: "bounded get_SystemCommand"
  unfolding get_SystemCommand_def by (intro bounded_rules)

lemma SystemCommand_bytes_nonempty [simp]: "SystemCommand_bytes kind \<noteq> []"
  by (simp add: SystemCommand_bytes_def)

interpretation SystemCommand_codec: codec put_SystemCommand get_SystemCommand SystemCommand_bytes "\<lambda>_. ok_SystemCommand"
  by unfold_locales (auto intro: codec_rules bounded_rules)

section \<open>Messages\<close>

definition put_NextSimTask :: "NextSimTask \<Rightarrow> writer" where
  "put_NextSimTask msg = write_all
      [put_duration (nst_timePoint msg),
       put_duration (nst_duration msg)]"

definition get_NextSimTask :: "NextSimTask reader" where
  "get_NextSimTask =
     rd_bind get_duration (\<lambda>timePoint.
     rd_bind get_duration (\<lambda>duration.
     rd_return \<lparr>nst_timePoint = timePoint, nst_duration = duration\<rparr>))"

definition NextSimTask_bytes :: "NextSimTask \<Rightarrow> byte list" where
  "NextSimTask_bytes msg = concat
      [duration_bytes (nst_timePoint msg),
       duration_bytes (nst_duration msg)]"

definition ok_NextSimTask :: "NextSimTask \<Rightarrow> bool" where
  "ok_NextSimTask msg \<longleftrightarrow> ok_int64 (nst_timePoint msg) \<and>
     ok_int64 (nst_duration msg)"

lemma transfers_NextSimTask [codec_rules]:
  "ok_NextSimTask msg \<Longrightarrow> transfers v (put_NextSimTask msg) get_NextSimTask msg (NextSimTask_bytes msg)"
  unfolding put_NextSimTask_def get_NextSimTask_def NextSimTask_bytes_def
  by (rule codec_rules | simp add: ok_NextSimTask_def uint32_max_def)+

lemma bounded_NextSimTask [bounded_rules]: "bounded get_NextSimTask"
  unfolding get_NextSimTask_def by (intro bounded_rules)

lemma NextSimTask_bytes_nonempty [simp]: "NextSimTask_bytes msg \<noteq> []"
  by (simp add: NextSimTask_bytes_def)

interpretation NextSimTask_codec: codec put_NextSimTask get_NextSimTask NextSimTask_bytes "\<lambda>_. ok_NextSimTask"
  by unfold_locales (auto intro: codec_rules bounded_rules)

definition put_ParticipantStatus :: "ParticipantStatus \<Rightarrow> writer" where
  "put_ParticipantStatus msg = write_all
      [put_string (pst_participantName msg),
       put_ParticipantState (pst_state msg),
       put_string (pst_enterReason msg),
       put_time_point (pst_enterTime msg),
       put_time_point (pst_refreshTime msg)]"

definition get_ParticipantStatus :: "ParticipantStatus reader" where
  "get_ParticipantStatus =
     rd_bind get_string (\<lambda>participantName.
     rd_bind get_ParticipantState (\<lambda>state.
     rd_bind get_string (\<lambda>enterReason.
     rd_bind get_time_point (\<lambda>enterTime.
     rd_bind get_time_point (\<lambda>refreshTime.
     rd_return \<lparr>pst_participantName = participantName, pst_state = state, pst_enterReason = enterReason, pst_enterTime = enterTime, pst_refreshTime = refreshTime\<rparr>)))))"

definition ParticipantStatus_bytes :: "ParticipantStatus \<Rightarrow> byte list" where
  "ParticipantStatus_bytes msg = concat
      [string_bytes (pst_participantName msg),
       ParticipantState_bytes (pst_state msg),
       string_bytes (pst_enterReason msg),
       time_point_bytes (pst_enterTime msg),
       time_point_bytes (pst_refreshTime msg)]"

definition ok_ParticipantStatus :: "ParticipantStatus \<Rightarrow> bool" where
  "ok_ParticipantStatus msg \<longleftrightarrow> ok_length (pst_participantName msg) \<and>
     ok_ParticipantState (pst_state msg) \<and>
     ok_length (pst_enterReason msg) \<and>
     ok_time_point (pst_enterTime msg) \<and>
     ok_time_point (pst_refreshTime msg)"

lemma transfers_ParticipantStatus [codec_rules]:
  "ok_ParticipantStatus msg \<Longrightarrow> transfers v (put_ParticipantStatus msg) get_ParticipantStatus msg (ParticipantStatus_bytes msg)"
  unfolding put_ParticipantStatus_def get_ParticipantStatus_def ParticipantStatus_bytes_def
  by (rule codec_rules | simp add: ok_ParticipantStatus_def uint32_max_def)+

lemma bounded_ParticipantStatus [bounded_rules]: "bounded get_ParticipantStatus"
  unfolding get_ParticipantStatus_def by (intro bounded_rules)

lemma ParticipantStatus_bytes_nonempty [simp]: "ParticipantStatus_bytes msg \<noteq> []"
  by (simp add: ParticipantStatus_bytes_def)

interpretation ParticipantStatus_codec: codec put_ParticipantStatus get_ParticipantStatus ParticipantStatus_bytes "\<lambda>_. ok_ParticipantStatus"
  by unfold_locales (auto intro: codec_rules bounded_rules)

definition put_WorkflowConfiguration :: "WorkflowConfiguration \<Rightarrow> writer" where
  "put_WorkflowConfiguration msg = write_all
      [put_vector put_string (wc_requiredParticipantNames msg)]"

definition get_WorkflowConfiguration :: "WorkflowConfiguration reader" where
  "get_WorkflowConfiguration =
     rd_bind (get_vector get_string) (\<lambda>requiredParticipantNames.
     rd_return \<lparr>wc_requiredParticipantNames = requiredParticipantNames\<rparr>)"

definition WorkflowConfiguration_bytes :: "WorkflowConfiguration \<Rightarrow> byte list" where
  "WorkflowConfiguration_bytes msg = concat
      [vector_bytes string_bytes (wc_requiredParticipantNames msg)]"

definition ok_WorkflowConfiguration :: "WorkflowConfiguration \<Rightarrow> bool" where
  "ok_WorkflowConfiguration msg \<longleftrightarrow> ok_length (wc_requiredParticipantNames msg) \<and> (\<forall>y \<in> set (wc_requiredParticipantNames msg). ok_length (y))"

lemma transfers_WorkflowConfiguration [codec_rules]:
  "ok_WorkflowConfiguration msg \<Longrightarrow> transfers v (put_WorkflowConfiguration msg) get_WorkflowConfiguration msg (WorkflowConfiguration_bytes msg)"
  unfolding put_WorkflowConfiguration_def get_WorkflowConfiguration_def WorkflowConfiguration_bytes_def
  by (rule codec_rules | simp add: ok_WorkflowConfiguration_def uint32_max_def)+

lemma bounded_WorkflowConfiguration [bounded_rules]: "bounded get_WorkflowConfiguration"
  unfolding get_WorkflowConfiguration_def by (intro bounded_rules)

lemma WorkflowConfiguration_bytes_nonempty [simp]: "WorkflowConfiguration_bytes msg \<noteq> []"
  by (simp add: WorkflowConfiguration_bytes_def)

interpretation WorkflowConfiguration_codec: codec put_WorkflowConfiguration get_WorkflowConfiguration WorkflowConfiguration_bytes "\<lambda>_. ok_WorkflowConfiguration"
  by unfold_locales (auto intro: codec_rules bounded_rules)

end
