(* ===== verification/DataRpcSerdes.thy ===== *)
theory DataRpcSerdes
  imports Codec
begin

text \<open>
  Wire messages of publish/subscribe (\<^verbatim>\<open>services/pubsub/DataSerdes.cpp\<close>) and of remote procedure
  calls (\<^verbatim>\<open>services/rpc/RpcSerdes.cpp\<close>).
\<close>

section \<open>Publish/subscribe\<close>

record WireDataMessageEvent =
  wdme_timestamp :: "int"
  wdme_data :: "byte list"

definition put_WireDataMessageEvent :: "WireDataMessageEvent \<Rightarrow> writer" where
  "put_WireDataMessageEvent msg = write_all
      [put_bytes (wdme_data msg),
       put_duration (wdme_timestamp msg)]"

definition get_WireDataMessageEvent :: "WireDataMessageEvent reader" where
  "get_WireDataMessageEvent =
     rd_bind get_bytes (\<lambda>data.
     rd_bind get_duration (\<lambda>timestamp.
     rd_return \<lparr>wdme_timestamp = timestamp, wdme_data = data\<rparr>))"

definition WireDataMessageEvent_bytes :: "WireDataMessageEvent \<Rightarrow> byte list" where
  "WireDataMessageEvent_bytes msg = concat
      [bytes_bytes (wdme_data msg),
       duration_bytes (wdme_timestamp msg)]"

definition ok_WireDataMessageEvent :: "WireDataMessageEvent \<Rightarrow> bool" where
  "ok_WireDataMessageEvent msg \<longleftrightarrow> ok_length (wdme_data msg) \<and>
     ok_int64 (wdme_timestamp msg)"

lemma transfers_WireDataMessageEvent [codec_rules]:
  "ok_WireDataMessageEvent msg \<Longrightarrow> transfers v (put_WireDataMessageEvent msg) get_WireDataMessageEvent msg (WireDataMessageEvent_bytes msg)"
  unfolding put_WireDataMessageEvent_def get_WireDataMessageEvent_def WireDataMessageEvent_bytes_def
  by (rule codec_rules | simp add: ok_WireDataMessageEvent_def uint32_max_def)+

lemma bounded_WireDataMessageEvent [bounded_rules]: "bounded get_WireDataMessageEvent"
  unfolding get_WireDataMessageEvent_def by (intro bounded_rules)

lemma WireDataMessageEvent_bytes_nonempty [simp]: "WireDataMessageEvent_bytes msg \<noteq> []"
  by (simp add: WireDataMessageEvent_bytes_def)

interpretation WireDataMessageEvent_codec: codec put_WireDataMessageEvent get_WireDataMessageEvent WireDataMessageEvent_bytes "\<lambda>_. ok_WireDataMessageEvent"
  by unfold_locales (auto intro: codec_rules bounded_rules)

section \<open>Remote procedure calls\<close>

record FunctionCall =
  fc_timestamp :: "int"
  fc_callUuid :: "uuid"
  fc_data :: "byte list"

definition put_FunctionCall :: "FunctionCall \<Rightarrow> writer" where
  "put_FunctionCall msg = write_all
      [put_duration (fc_timestamp msg),
       put_uuid (fc_callUuid msg),
       put_bytes (fc_data msg)]"

definition get_FunctionCall :: "FunctionCall reader" where
  "get_FunctionCall =
     rd_bind get_duration (\<lambda>timestamp.
     rd_bind get_uuid (\<lambda>callUuid.
     rd_bind get_bytes (\<lambda>data.
     rd_return \<lparr>fc_timestamp = timestamp, fc_callUuid = callUuid, fc_data = data\<rparr>)))"

definition FunctionCall_bytes :: "FunctionCall \<Rightarrow> byte list" where
  "FunctionCall_bytes msg = concat
      [duration_bytes (fc_timestamp msg),
       uuid_bytes (fc_callUuid msg),
       bytes_bytes (fc_data msg)]"

definition ok_FunctionCall :: "FunctionCall \<Rightarrow> bool" where
  "ok_FunctionCall msg \<longleftrightarrow> ok_int64 (fc_timestamp msg) \<and>
     ok_length (fc_data msg)"

lemma transfers_FunctionCall [codec_rules]:
  "ok_FunctionCall msg \<Longrightarrow> transfers v (put_FunctionCall msg) get_FunctionCall msg (FunctionCall_bytes msg)"
  unfolding put_FunctionCall_def get_FunctionCall_def FunctionCall_bytes_def
  by (rule codec_rules | simp add: ok_FunctionCall_def uint32_max_def)+

lemma bounded_FunctionCall [bounded_rules]: "bounded get_FunctionCall"
  unfolding get_FunctionCall_def by (intro bounded_rules)

lemma FunctionCall_bytes_nonempty [simp]: "FunctionCall_bytes msg \<noteq> []"
  by (simp add: FunctionCall_bytes_def)

interpretation FunctionCall_codec: codec put_FunctionCall get_FunctionCall FunctionCall_bytes "\<lambda>_. ok_FunctionCall"
  by unfold_locales (auto intro: codec_rules bounded_rules)

record FunctionCallResponse =
  fcr_timestamp :: "int"
  fcr_callUuid :: "uuid"
  fcr_data :: "byte list"
  fcr_status :: "32 word"

definition put_FunctionCallResponse :: "FunctionCallResponse \<Rightarrow> writer" where
  "put_FunctionCallResponse msg = write_all
      [put_duration (fcr_timestamp msg),
       put_uuid (fcr_callUuid msg),
       put_bytes (fcr_data msg),
       put_word (fcr_status msg)]"

definition get_FunctionCallResponse :: "FunctionCallResponse reader" where
  "get_FunctionCallResponse =
     rd_bind get_duration (\<lambda>timestamp.
     rd_bind get_uuid (\<lambda>callUuid.
     rd_bind get_bytes (\<lambda>data.
     rd_bind get_word (\<lambda>status.
     rd_return \<lparr>fcr_timestamp = timestamp, fcr_callUuid = callUuid, fcr_data = data, fcr_status = status\<rparr>))))"

definition FunctionCallResponse_bytes :: "FunctionCallResponse \<Rightarrow> byte list" where
  "FunctionCallResponse_bytes msg = concat
      [duration_bytes (fcr_timestamp msg),
       uuid_bytes (fcr_callUuid msg),
       bytes_bytes (fcr_data msg),
       word_le (fcr_status msg)]"

definition ok_FunctionCallResponse :: "FunctionCallResponse \<Rightarrow> bool" where
  "ok_FunctionCallResponse msg \<longleftrightarrow> ok_int64 (fcr_timestamp msg) \<and>
     ok_length (fcr_data msg)"

lemma transfers_FunctionCallResponse [codec_rules]:
  "ok_FunctionCallResponse msg \<Longrightarrow> transfers v (put_FunctionCallResponse msg) get_FunctionCallResponse msg (FunctionCallResponse_bytes msg)"
  unfolding put_FunctionCallResponse_def get_FunctionCallResponse_def FunctionCallResponse_bytes_def
  by (rule codec_rules | simp add: ok_FunctionCallResponse_def uint32_max_def)+

lemma bounded_FunctionCallResponse [bounded_rules]: "bounded get_FunctionCallResponse"
  unfolding get_FunctionCallResponse_def by (intro bounded_rules)

lemma FunctionCallResponse_bytes_nonempty [simp]: "FunctionCallResponse_bytes msg \<noteq> []"
  by (simp add: FunctionCallResponse_bytes_def)

interpretation FunctionCallResponse_codec: codec put_FunctionCallResponse get_FunctionCallResponse FunctionCallResponse_bytes "\<lambda>_. ok_FunctionCallResponse"
  by unfold_locales (auto intro: codec_rules bounded_rules)

end
