(* ===== verification/ServiceSerdes.thy ===== *)
theory ServiceSerdes
  imports Codec
begin

text \<open>
  Messages of the service discovery (\<^verbatim>\<open>core/service/ServiceSerdes.cpp\<close>) and of the internal
  request/reply service (\<^verbatim>\<open>core/requests/RequestReplySerdes.cpp\<close>). The simulation name of a
  \<^verbatim>\<open>ServiceDescriptor\<close> is an item of its supplemental data.
\<close>

section \<open>Service discovery\<close>

record ServiceDescriptor =
  sd_participantName :: "string"
  sd_participantId :: "64 word"
  sd_serviceType :: "8 word"
  sd_networkName :: "string"
  sd_networkType :: "32 word"
  sd_serviceName :: "string"
  sd_serviceId :: "64 word"
  sd_supplementalData :: "(string, string) omap"

definition put_ServiceDescriptor :: "ServiceDescriptor \<Rightarrow> writer" where
  "put_ServiceDescriptor msg = write_all
      [put_string (sd_participantName msg),
       put_word (sd_serviceType msg),
       put_string (sd_networkName msg),
       put_word (sd_networkType msg),
       put_string (sd_serviceName msg),
       put_word (sd_serviceId msg),
       put_map (sd_supplementalData msg),
       put_word (sd_participantId msg)]"

definition get_ServiceDescriptor :: "ServiceDescriptor reader" where
  "get_ServiceDescriptor =
     rd_bind get_string (\<lambda>participantName.
     rd_bind get_word (\<lambda>serviceType.
     rd_bind get_string (\<lambda>networkName.
     rd_bind get_word (\<lambda>networkType.
     rd_bind get_string (\<lambda>serviceName.
     rd_bind get_word (\<lambda>serviceId.
     rd_bind get_map (\<lambda>supplementalData.
     rd_bind get_word (\<lambda>participantId.
     rd_return \<lparr>sd_participantName = participantName, sd_participantId = participantId, sd_serviceType = serviceType, sd_networkName = networkName, sd_networkType = networkType, sd_serviceName = serviceName, sd_serviceId = serviceId, sd_supplementalData = supplementalData\<rparr>))))))))"

definition ServiceDescriptor_bytes :: "ServiceDescriptor \<Rightarrow> byte list" where
  "ServiceDescriptor_bytes msg = concat
      [string_bytes (sd_participantName msg),
       word_le (sd_serviceType msg),
       string_bytes (sd_networkName msg),
       word_le (sd_networkType msg),
       string_bytes (sd_serviceName msg),
       word_le (sd_serviceId msg),
       map_bytes (sd_supplementalData msg),
       word_le (sd_participantId msg)]"

definition ok_ServiceDescriptor :: "ServiceDescriptor \<Rightarrow> bool" where
  "ok_ServiceDescriptor msg \<longleftrightarrow> ok_length (sd_participantName msg) \<and>
     ok_length (sd_networkName msg) \<and>
     ok_length (sd_serviceName msg) \<and>
     ok_map (sd_supplementalData msg)"

lemma transfers_ServiceDescriptor [codec_rules]:
  "ok_ServiceDescriptor msg \<Longrightarrow> transfers v (put_ServiceDescriptor msg) get_ServiceDescriptor msg (ServiceDescriptor_bytes msg)"
  unfolding put_ServiceDescriptor_def get_ServiceDescriptor_def ServiceDescriptor_bytes_def
  by (rule codec_rules | simp add: ok_ServiceDescriptor_def uint32_max_def)+

lemma bounded_ServiceDescriptor [bounded_rules]: "bounded get_ServiceDescriptor"
  unfolding get_ServiceDescriptor_def by (intro bounded_rules)

lemma ServiceDescriptor_bytes_nonempty [simp]: "ServiceDescriptor_bytes msg \<noteq> []"
  by (simp add: ServiceDescriptor_bytes_def)

interpretation ServiceDescriptor_codec: codec put_ServiceDescriptor get_ServiceDescriptor ServiceDescriptor_bytes "\<lambda>_. ok_ServiceDescriptor"
  by unfold_locales (auto intro: codec_rules bounded_rules)

record ParticipantDiscoveryEvent =
  pde_participantName :: "string"
  pde_version :: "64 word"
  pde_services :: "ServiceDescriptor list"

definition put_ParticipantDiscoveryEvent :: "ParticipantDiscoveryEvent \<Rightarrow> writer" where
  "put_ParticipantDiscoveryEvent msg = write_all
      [put_string (pde_participantName msg),
       put_word (pde_version msg),
       put_vector put_ServiceDescriptor (pde_services msg)]"

definition get_ParticipantDiscoveryEvent :: "ParticipantDiscoveryEvent reader" where
  "get_ParticipantDiscoveryEvent =
     rd_bind get_string (\<lambda>participantName.
     rd_bind get_word (\<lambda>version.
     rd_bind (get_vector get_ServiceDescriptor) (\<lambda>services.
     rd_return \<lparr>pde_participantName = participantName, pde_version = version, pde_services = services\<rparr>)))"

definition ParticipantDiscoveryEvent_bytes :: "ParticipantDiscoveryEvent \<Rightarrow> byte list" where
  "ParticipantDiscoveryEvent_bytes msg = concat
      [string_bytes (pde_participantName msg),
       word_le (pde_version msg),
       vector_bytes ServiceDescriptor_bytes (pde_services msg)]"

definition ok_ParticipantDiscoveryEvent :: "ParticipantDiscoveryEvent \<Rightarrow> bool" where
  "ok_ParticipantDiscoveryEvent msg \<longleftrightarrow> ok_length (pde_participantName msg) \<and>
     ok_length (pde_services msg) \<and> (\<forall>y \<in> set (pde_services msg). ok_ServiceDescriptor (y))"

lemma transfers_ParticipantDiscoveryEvent [codec_rules]:
  "ok_ParticipantDiscoveryEvent msg \<Longrightarrow> transfers v (put_ParticipantDiscoveryEvent msg) get_ParticipantDiscoveryEvent msg (ParticipantDiscoveryEvent_bytes msg)"
  unfolding put_ParticipantDiscoveryEvent_def get_ParticipantDiscoveryEvent_def ParticipantDiscoveryEvent_bytes_def
  by (rule codec_rules | simp add: ok_ParticipantDiscoveryEvent_def uint32_max_def)+

lemma bounded_ParticipantDiscoveryEvent [bounded_rules]: "bounded get_ParticipantDiscoveryEvent"
  unfolding get_ParticipantDiscoveryEvent_def by (intro bounded_rules)

lemma ParticipantDiscoveryEvent_bytes_nonempty [simp]: "ParticipantDiscoveryEvent_bytes msg \<noteq> []"
  by (simp add: ParticipantDiscoveryEvent_bytes_def)

interpretation ParticipantDiscoveryEvent_codec: codec put_ParticipantDiscoveryEvent get_ParticipantDiscoveryEvent ParticipantDiscoveryEvent_bytes "\<lambda>_. ok_ParticipantDiscoveryEvent"
  by unfold_locales (auto intro: codec_rules bounded_rules)

record ServiceDiscoveryEvent =
  sde_type :: "32 word"
  sde_serviceDescriptor :: "ServiceDescriptor"

definition put_ServiceDiscoveryEvent :: "ServiceDiscoveryEvent \<Rightarrow> writer" where
  "put_ServiceDiscoveryEvent msg = write_all
      [put_word (sde_type msg),
       put_ServiceDescriptor (sde_serviceDescriptor msg)]"

definition get_ServiceDiscoveryEvent :: "ServiceDiscoveryEvent reader" where
  "get_ServiceDiscoveryEvent =
     rd_bind get_word (\<lambda>type.
     rd_bind get_ServiceDescriptor (\<lambda>serviceDescriptor.
     rd_return \<lparr>sde_type = type, sde_serviceDescriptor = serviceDescriptor\<rparr>))"

definition ServiceDiscoveryEvent_bytes :: "ServiceDiscoveryEvent \<Rightarrow> byte list" where
  "ServiceDiscoveryEvent_bytes msg = concat
      [word_le (sde_type msg),
       ServiceDescriptor_bytes (sde_serviceDescriptor msg)]"

definition ok_ServiceDiscoveryEvent :: "ServiceDiscoveryEvent \<Rightarrow> bool" where
  "ok_ServiceDiscoveryEvent msg \<longleftrightarrow> ok_ServiceDescriptor (sde_serviceDescriptor msg)"

lemma transfers_ServiceDiscoveryEvent [codec_rules]:
  "ok_ServiceDiscoveryEvent msg \<Longrightarrow> transfers v (put_ServiceDiscoveryEvent msg) get_ServiceDiscoveryEvent msg (ServiceDiscoveryEvent_bytes msg)"
  unfolding put_ServiceDiscoveryEvent_def get_ServiceDiscoveryEvent_def ServiceDiscoveryEvent_bytes_def
  by (rule codec_rules | simp add: ok_ServiceDiscoveryEvent_def uint32_max_def)+

lemma bounded_ServiceDiscoveryEvent [bounded_rules]: "bounded get_ServiceDiscoveryEvent"
  unfolding get_ServiceDiscoveryEvent_def by (intro bounded_rules)

lemma ServiceDiscoveryEvent_bytes_nonempty [simp]: "ServiceDiscoveryEvent_bytes msg \<noteq> []"
  by (simp add: ServiceDiscoveryEvent_bytes_def)

interpretation ServiceDiscoveryEvent_codec: codec put_ServiceDiscoveryEvent get_ServiceDiscoveryEvent ServiceDiscoveryEvent_bytes "\<lambda>_. ok_ServiceDiscoveryEvent"
  by unfold_locales (auto intro: codec_rules bounded_rules)

section \<open>Request and reply\<close>

record RequestReplyCall =
  rrc_callUuid :: "uuid"
  rrc_functionType :: "16 word"
  rrc_callData :: "byte list"

definition put_RequestReplyCall :: "RequestReplyCall \<Rightarrow> writer" where
  "put_RequestReplyCall msg = write_all
      [put_uuid (rrc_callUuid msg),
       put_word (rrc_functionType msg),
       put_bytes (rrc_callData msg)]"

definition get_RequestReplyCall :: "RequestReplyCall reader" where
  "get_RequestReplyCall =
     rd_bind get_uuid (\<lambda>callUuid.
     rd_bind get_word (\<lambda>functionType.
     rd_bind get_bytes (\<lambda>callData.
     rd_return \<lparr>rrc_callUuid = callUuid, rrc_functionType = functionType, rrc_callData = callData\<rparr>)))"

definition RequestReplyCall_bytes :: "RequestReplyCall \<Rightarrow> byte list" where
  "RequestReplyCall_bytes msg = concat
      [uuid_bytes (rrc_callUuid msg),
       word_le (rrc_functionType msg),
       bytes_bytes (rrc_callData msg)]"

definition ok_RequestReplyCall :: "RequestReplyCall \<Rightarrow> bool" where
  "ok_RequestReplyCall msg \<longleftrightarrow> ok_length (rrc_callData msg)"

lemma transfers_RequestReplyCall [codec_rules]:
  "ok_RequestReplyCall msg \<Longrightarrow> transfers v (put_RequestReplyCall msg) get_RequestReplyCall msg (RequestReplyCall_bytes msg)"
  unfolding put_RequestReplyCall_def get_RequestReplyCall_def RequestReplyCall_bytes_def
  by (rule codec_rules | simp add: ok_RequestReplyCall_def uint32_max_def)+

lemma bounded_RequestReplyCall [bounded_rules]: "bounded get_RequestReplyCall"
  unfolding get_RequestReplyCall_def by (intro bounded_rules)

lemma RequestReplyCall_bytes_nonempty [simp]: "RequestReplyCall_bytes msg \<noteq> []"
  by (simp add: RequestReplyCall_bytes_def)

interpretation RequestReplyCall_codec: codec put_RequestReplyCall get_RequestReplyCall RequestReplyCall_bytes "\<lambda>_. ok_RequestReplyCall"
  by unfold_locales (auto intro: codec_rules bounded_rules)

record RequestReplyCallReturn =
  rrr_callUuid :: "uuid"
  rrr_functionType :: "16 word"
  rrr_callReturnData :: "byte list"
  rrr_callReturnStatus :: "16 word"

definition put_RequestReplyCallReturn :: "RequestReplyCallReturn \<Rightarrow> writer" where
  "put_RequestReplyCallReturn msg = write_all
      [put_uuid (rrr_callUuid msg),
       put_word (rrr_functionType msg),
       put_bytes (rrr_callReturnData msg),
       put_word (rrr_callReturnStatus msg)]"

definition get_RequestReplyCallReturn :: "RequestReplyCallReturn reader" where
  "get_RequestReplyCallReturn =
     rd_bind get_uuid (\<lambda>callUuid.
     rd_bind get_word (\<lambda>functionType.
     rd_bind get_bytes (\<lambda>callReturnData.
     rd_bind get_word (\<lambda>callReturnStatus.
     rd_return \<lparr>rrr_callUuid = callUuid, rrr_functionType = functionType, rrr_callReturnData = callReturnData, rrr_callReturnStatus = callReturnStatus\<rparr>))))"

definition RequestReplyCallReturn_bytes :: "RequestReplyCallReturn \<Rightarrow> byte list" where
  "RequestReplyCallReturn_bytes msg = concat
      [uuid_bytes (rrr_callUuid msg),
       word_le (rrr_functionType msg),
       bytes_bytes (rrr_callReturnData msg),
       word_le (rrr_callReturnStatus msg)]"

definition ok_RequestReplyCallReturn :: "RequestReplyCallReturn \<Rightarrow> bool" where
  "ok_RequestReplyCallReturn msg \<longleftrightarrow> ok_length (rrr_callReturnData msg)"

lemma transfers_RequestReplyCallReturn [codec_rules]:
  "ok_RequestReplyCallReturn msg \<Longrightarrow> transfers v (put_RequestReplyCallReturn msg) get_RequestReplyCallReturn msg (RequestReplyCallReturn_bytes msg)"
  unfolding put_RequestReplyCallReturn_def get_RequestReplyCallReturn_def RequestReplyCallReturn_bytes_def
  by (rule codec_rules | simp add: ok_RequestReplyCallReturn_def uint32_max_def)+

lemma bounded_RequestReplyCallReturn [bounded_rules]: "bounded get_RequestReplyCallReturn"
  unfolding get_RequestReplyCallReturn_def by (intro bounded_rules)

lemma RequestReplyCallReturn_bytes_nonempty [simp]: "RequestReplyCallReturn_bytes msg \<noteq> []"
  by (simp add: RequestReplyCallReturn_bytes_def)

interpretation RequestReplyCallReturn_codec: codec put_RequestReplyCallReturn get_RequestReplyCallReturn RequestReplyCallReturn_bytes "\<lambda>_. ok_RequestReplyCallReturn"
  by unfold_locales (auto intro: codec_rules bounded_rules)

end
