(* ===== verification/LoggingSerdes.thy ===== *)
theory LoggingSerdes
  imports Codec
begin

text \<open>
  Log messages (\<^verbatim>\<open>services/logging/LoggingSerdes.cpp\<close>), whose key/value pairs older releases do not
  send, and metrics (\<^verbatim>\<open>services/metrics/MetricsSerdes.cpp\<close>).
\<close>

section \<open>Metrics\<close>

record MetricData =
  md_timestamp :: "64 word"
  md_name :: "string"
  md_kind :: "32 word"
  md_value :: "string"

definition put_MetricData :: "MetricData \<Rightarrow> writer" where
  "put_MetricData msg = write_all
      [put_word (md_timestamp msg),
       put_string (md_name msg),
       put_word (md_kind msg),
       put_string (md_value msg)]"

definition get_MetricData :: "MetricData reader" where
  "get_MetricData =
     rd_bind get_word (\<lambda>timestamp.
     rd_bind get_string (\<lambda>name.
     rd_bind get_word (\<lambda>kind.
     rd_bind get_string (\<lambda>value.
     rd_return \<lparr>md_timestamp = timestamp, md_name = name, md_kind = kind, md_value = value\<rparr>))))"

definition MetricData_bytes :: "MetricData \<Rightarrow> byte list" where
  "MetricData_bytes msg = concat
      [word_le (md_timestamp msg),
       string_bytes (md_name msg),
       word_le (md_kind msg),
       string_bytes (md_value msg)]"

definition ok_MetricData :: "MetricData \<Rightarrow> bool" where
  "ok_MetricData msg \<longleftrightarrow> ok_length (md_name msg) \<and>
     ok_length (md_value msg)"

lemma transfers_MetricData [codec_rules]:
  "ok_MetricData msg \<Longrightarrow> transfers v (put_MetricData msg) get_MetricData msg (MetricData_bytes msg)"
  unfolding put_MetricData_def get_MetricData_def MetricData_bytes_def
  by (rule codec_rules | simp add: ok_MetricData_def uint32_max_def)+

lemma bounded_MetricData [bounded_rules]: "bounded get_MetricData"
  unfolding get_MetricData_def by (intro bounded_rules)

lemma MetricData_bytes_nonempty [simp]: "MetricData_bytes msg \<noteq> []"
  by (simp add: MetricData_bytes_def)

interpretation MetricData_codec: codec put_MetricData get_MetricData MetricData_bytes "\<lambda>_. ok_MetricData"
  by unfold_locales (auto intro: codec_rules bounded_rules)

record MetricsUpdate =
  mu_metrics :: "MetricData list"

definition put_MetricsUpdate :: "MetricsUpdate \<Rightarrow> writer" where
  "put_MetricsUpdate msg = write_all
      [put_vector put_MetricData (mu_metrics msg)]"

definition get_MetricsUpdate :: "MetricsUpdate reader" where
  "get_MetricsUpdate =
     rd_bind (get_vector get_MetricData) (\<lambda>metrics.
     rd_return \<lparr>mu_metrics = metrics\<rparr>)"

definition MetricsUpdate_bytes :: "MetricsUpdate \<Rightarrow> byte list" where
  "MetricsUpdate_bytes msg = concat
      [vector_bytes MetricData_bytes (mu_metrics msg)]"

definition ok_MetricsUpdate :: "MetricsUpdate \<Rightarrow> bool" where
  "ok_MetricsUpdate msg \<longleftrightarrow> ok_length (mu_metrics msg) \<and> (\<forall>y \<in> set (mu_metrics msg). ok_MetricData (y))"

lemma transfers_MetricsUpdate [codec_rules]:
  "ok_MetricsUpdate msg \<Longrightarrow> transfers v (put_MetricsUpdate msg) get_MetricsUpdate msg (MetricsUpdate_bytes msg)"
  unfolding put_MetricsUpdate_def get_MetricsUpdate_def MetricsUpdate_bytes_def
  by (rule codec_rules | simp add: ok_MetricsUpdate_def uint32_max_def)+

lemma bounded_MetricsUpdate [bounded_rules]: "bounded get_MetricsUpdate"
  unfolding get_MetricsUpdate_def by (intro bounded_rules)

lemma MetricsUpdate_bytes_nonempty [simp]: "MetricsUpdate_bytes msg \<noteq> []"
  by (simp add: MetricsUpdate_bytes_def)

interpretation MetricsUpdate_codec: codec put_MetricsUpdate get_MetricsUpdate MetricsUpdate_bytes "\<lambda>_. ok_MetricsUpdate"
  by unfold_locales (auto intro: codec_rules bounded_rules)

section \<open>Log messages\<close>

record SourceLoc =
  sl_filename :: "string"
  sl_line :: "32 word"
  sl_funcname :: "string"

definition put_SourceLoc :: "SourceLoc \<Rightarrow> writer" where
  "put_SourceLoc msg = write_all
      [put_string (sl_filename msg),
       put_word (sl_line msg),
       put_string (sl_funcname msg)]"

definition get_SourceLoc :: "SourceLoc reader" where
  "get_SourceLoc =
     rd_bind get_string (\<lambda>filename.
     rd_bind get_word (\<lambda>line.
     rd_bind get_string (\<lambda>funcname.
     rd_return \<lparr>sl_filename = filename, sl_line = line, sl_funcname = funcname\<rparr>)))"

definition SourceLoc_bytes :: "SourceLoc \<Rightarrow> byte list" where
  "SourceLoc_bytes msg = concat
      [string_bytes (sl_filename msg),
       word_le (sl_line msg),
       string_bytes (sl_funcname msg)]"

definition ok_SourceLoc :: "SourceLoc \<Rightarrow> bool" where
  "ok_SourceLoc msg \<longleftrightarrow> ok_length (sl_filename msg) \<and>
     ok_length (sl_funcname msg)"

lemma transfers_SourceLoc [codec_rules]:
  "ok_SourceLoc msg \<Longrightarrow> transfers v (put_SourceLoc msg) get_SourceLoc msg (SourceLoc_bytes msg)"
  unfolding put_SourceLoc_def get_SourceLoc_def SourceLoc_bytes_def
  by (rule codec_rules | simp add: ok_SourceLoc_def uint32_max_def)+

lemma bounded_SourceLoc [bounded_rules]: "bounded get_SourceLoc"
  unfolding get_SourceLoc_def by (intro bounded_rules)

lemma SourceLoc_bytes_nonempty [simp]: "SourceLoc_bytes msg \<noteq> []"
  by (simp add: SourceLoc_bytes_def)

interpretation SourceLoc_codec: codec put_SourceLoc get_SourceLoc SourceLoc_bytes "\<lambda>_. ok_SourceLoc"
  by unfold_locales (auto intro: codec_rules bounded_rules)

record LogMsg =
  lm_loggerName :: string
  lm_level :: "32 word"
  lm_time :: int
  lm_source :: SourceLoc
  lm_payload :: string
  lm_keyValues :: "(string \<times> string) list"

definition put_LogMsg :: "LogMsg \<Rightarrow> writer" where
  "put_LogMsg msg = write_all
      [put_string (lm_loggerName msg),
       put_word (lm_level msg),
       put_time_point (lm_time msg),
       put_SourceLoc (lm_source msg),
       put_string (lm_payload msg),
       put_vector (put_pair put_string put_string) (lm_keyValues msg)]"

definition get_LogMsg :: "LogMsg reader" where
  "get_LogMsg =
     rd_bind get_string (\<lambda>loggerName.
     rd_bind get_word (\<lambda>level.
     rd_bind get_time_point (\<lambda>time.
     rd_bind get_SourceLoc (\<lambda>source.
     rd_bind get_string (\<lambda>payload mb.
       if RemainingBytesLeft mb > 0
       then rd_bind (get_vector (get_pair get_string get_string)) (\<lambda>keyValues.
            rd_return \<lparr>lm_loggerName = loggerName, lm_level = level, lm_time = time,
              lm_source = source, lm_payload = payload, lm_keyValues = keyValues\<rparr>) mb
       else rd_return \<lparr>lm_loggerName = loggerName, lm_level = level, lm_time = time,
              lm_source = source, lm_payload = payload, lm_keyValues = []\<rparr> mb)))))"

text \<open>Older senders stop behind the payload.\<close>

definition LogMsg_old_bytes :: "LogMsg \<Rightarrow> byte list" where
  "LogMsg_old_bytes msg = concat
      [string_bytes (lm_loggerName msg), word_le (lm_level msg), time_point_bytes (lm_time msg),
       SourceLoc_bytes (lm_source msg), string_bytes (lm_payload msg)]"

definition LogMsg_bytes :: "LogMsg \<Rightarrow> byte list" where
  "LogMsg_bytes msg = concat
      [string_bytes (lm_loggerName msg), word_le (lm_level msg), time_point_bytes (lm_time msg),
       SourceLoc_bytes (lm_source msg), string_bytes (lm_payload msg),
       vector_bytes (pair_bytes string_bytes string_bytes) (lm_keyValues msg)]"

definition ok_LogMsg :: "LogMsg \<Rightarrow> bool" where
  "ok_LogMsg msg \<longleftrightarrow> ok_length (lm_loggerName msg) \<and> ok_time_point (lm_time msg) \<and>
     ok_SourceLoc (lm_source msg) \<and> ok_length (lm_payload msg) \<and> ok_strings (lm_keyValues msg)"

lemma writes_LogMsg: "ok_LogMsg msg \<Longrightarrow> writes v (put_LogMsg msg) (LogMsg_bytes msg)"
  unfolding put_LogMsg_def LogMsg_bytes_def
  by (rule message_rules codec_rules | simp add: ok_LogMsg_def ok_strings_def pair_bytes_def)+

lemma reads_end_LogMsg_old:
  "ok_LogMsg msg \<Longrightarrow> reads_end v get_LogMsg (msg\<lparr>lm_keyValues := []\<rparr>) (LogMsg_old_bytes msg)"
  unfolding get_LogMsg_def LogMsg_old_bytes_def
  by (rule message_rules codec_rules reads_end_if_false | simp add: ok_LogMsg_def)+

lemma reads_end_LogMsg: "ok_LogMsg msg \<Longrightarrow> reads_end v get_LogMsg msg (LogMsg_bytes msg)"
  unfolding get_LogMsg_def LogMsg_bytes_def
  by (rule message_rules codec_rules reads_end_if_true
      | simp add: ok_LogMsg_def ok_strings_def pair_bytes_def)+

lemma bounded_LogMsg [bounded_rules]: "bounded get_LogMsg"
  unfolding get_LogMsg_def by (intro bounded_rules)

interpretation LogMsg_codec: message_codec put_LogMsg get_LogMsg LogMsg_bytes "\<lambda>_. ok_LogMsg"
  by unfold_locales (auto intro: writes_LogMsg reads_end_LogMsg bounded_rules)

end
