(* ===== verification/VAsioSerdes.thy ===== *)
theory VAsioSerdes
  imports Codec
begin

text \<open>
  The messages of the connection handshake (\<^verbatim>\<open>core/vasio/VAsioDatatypes.hpp\<close>,
  \<^verbatim>\<open>core/vasio/VAsioPeerInfo.hpp\<close>) with their serialisers (\<^verbatim>\<open>core/vasio/VAsioSerdes.cpp\<close>) and the
  message formats of protocol version 3.0 (\<^verbatim>\<open>core/vasio/VAsioSerdes_Protocol30.cpp\<close>).
\<close>

section \<open>Handshake and subscription messages\<close>

record RegistryMsgHeader =
  rmh_preamble :: "32 word"
  rmh_versionHigh :: "16 word"
  rmh_versionLow :: "16 word"

definition put_RegistryMsgHeader :: "RegistryMsgHeader \<Rightarrow> writer" where
  "put_RegistryMsgHeader msg = write_all
      [put_word (rmh_preamble msg),
       put_word (rmh_versionHigh msg),
       put_word (rmh_versionLow msg)]"

definition get_RegistryMsgHeader :: "RegistryMsgHeader reader" where
  "get_RegistryMsgHeader =
     rd_bind get_word (\<lambda>preamble.
     rd_bind get_word (\<lambda>versionHigh.
     rd_bind get_word (\<lambda>versionLow.
     rd_return \<lparr>rmh_preamble = preamble, rmh_versionHigh = versionHigh, rmh_versionLow = versionLow\<rparr>)))"

definition RegistryMsgHeader_bytes :: "RegistryMsgHeader \<Rightarrow> byte list" where
  "RegistryMsgHeader_bytes msg = concat
      [word_le (rmh_preamble msg),
       word_le (rmh_versionHigh msg),
       word_le (rmh_versionLow msg)]"

lemma transfers_RegistryMsgHeader [codec_rules]:
  "transfers v (put_RegistryMsgHeader msg) get_RegistryMsgHeader msg (RegistryMsgHeader_bytes msg)"
  unfolding put_RegistryMsgHeader_def get_RegistryMsgHeader_def RegistryMsgHeader_bytes_def
  by (rule codec_rules | simp)+

lemma bounded_RegistryMsgHeader [bounded_rules]: "bounded get_RegistryMsgHeader"
  unfolding get_RegistryMsgHeader_def by (intro bounded_rules)

lemma RegistryMsgHeader_bytes_nonempty [simp]: "RegistryMsgHeader_bytes msg \<noteq> []"
  by (simp add: RegistryMsgHeader_bytes_def)

interpretation RegistryMsgHeader_codec: codec put_RegistryMsgHeader get_RegistryMsgHeader RegistryMsgHeader_bytes "\<lambda>_ _. True"
  by unfold_locales (auto intro: codec_rules bounded_rules)

record VAsioPeerInfo =
  vpi_participantName :: "string"
  vpi_participantId :: "64 word"
  vpi_acceptorUris :: "string list"
  vpi_capabilities :: "string"

definition put_VAsioPeerInfo :: "VAsioPeerInfo \<Rightarrow> writer" where
  "put_VAsioPeerInfo msg = write_all
      [put_string (vpi_participantName msg),
       put_word (vpi_participantId msg),
       put_vector put_string (vpi_acceptorUris msg),
       put_string (vpi_capabilities msg)]"

definition get_VAsioPeerInfo :: "VAsioPeerInfo reader" where
  "get_VAsioPeerInfo =
     rd_bind get_string (\<lambda>participantName.
     rd_bind get_word (\<lambda>participantId.
     rd_bind (get_vector get_string) (\<lambda>acceptorUris.
     rd_bind get_string (\<lambda>capabilities.
     rd_return \<lparr>vpi_participantName = participantName, vpi_participantId = participantId, vpi_acceptorUris = acceptorUris, vpi_capabilities = capabilities\<rparr>))))"

definition VAsioPeerInfo_bytes :: "VAsioPeerInfo \<Rightarrow> byte list" where
  "VAsioPeerInfo_bytes msg = concat
      [string_bytes (vpi_participantName msg),
       word_le (vpi_participantId msg),
       vector_bytes string_bytes (vpi_acceptorUris msg),
       string_bytes (vpi_capabilities msg)]"

definition ok_VAsioPeerInfo :: "VAsioPeerInfo \<Rightarrow> bool" where
  "ok_VAsioPeerInfo msg \<longleftrightarrow> ok_length (vpi_participantName msg) \<and>
     ok_length (vpi_acceptorUris msg) \<and> (\<forall>y \<in> set (vpi_acceptorUris msg). ok_length (y)) \<and>
     ok_length (vpi_capabilities msg)"

lemma transfers_VAsioPeerInfo [codec_rules]:
  "ok_VAsioPeerInfo msg \<Longrightarrow> transfers v (put_VAsioPeerInfo msg) get_VAsioPeerInfo msg (VAsioPeerInfo_bytes msg)"
  unfolding put_VAsioPeerInfo_def get_VAsioPeerInfo_def VAsioPeerInfo_bytes_def
  by (rule codec_rules | simp add: ok_VAsioPeerInfo_def uint32_max_def)+

lemma bounded_VAsioPeerInfo [bounded_rules]: "bounded get_VAsioPeerInfo"
  unfolding get_VAsioPeerInfo_def by (intro bounded_rules)

lemma VAsioPeerInfo_bytes_nonempty [simp]: "VAsioPeerInfo_bytes msg \<noteq> []"
  by (simp add: VAsioPeerInfo_bytes_def)

interpretation VAsioPeerInfo_codec: codec put_VAsioPeerInfo get_VAsioPeerInfo VAsioPeerInfo_bytes "\<lambda>_. ok_VAsioPeerInfo"
  by unfold_locales (auto intro: codec_rules bounded_rules)

record VAsioMsgSubscriber =
  vms_receiverIdx :: "64 word"
  vms_networkName :: "string"
  vms_msgTypeName :: "string"
  vms_version :: "32 word"

definition put_VAsioMsgSubscriber :: "VAsioMsgSubscriber \<Rightarrow> writer" where
  "put_VAsioMsgSubscriber msg = write_all
      [put_word (vms_receiverIdx msg),
       put_string (vms_networkName msg),
       put_string (vms_msgTypeName msg),
       put_word (vms_version msg)]"

definition get_VAsioMsgSubscriber :: "VAsioMsgSubscriber reader" where
  "get_VAsioMsgSubscriber =
     rd_bind get_word (\<lambda>receiverIdx.
     rd_bind get_string (\<lambda>networkName.
     rd_bind get_string (\<lambda>msgTypeName.
     rd_bind get_word (\<lambda>version.
     rd_return \<lparr>vms_receiverIdx = receiverIdx, vms_networkName = networkName, vms_msgTypeName = msgTypeName, vms_version = version\<rparr>))))"

definition VAsioMsgSubscriber_bytes :: "VAsioMsgSubscriber \<Rightarrow> byte list" where
  "VAsioMsgSubscriber_bytes msg = concat
      [word_le (vms_receiverIdx msg),
       string_bytes (vms_networkName msg),
       string_bytes (vms_msgTypeName msg),
       word_le (vms_version msg)]"

definition ok_VAsioMsgSubscriber :: "VAsioMsgSubscriber \<Rightarrow> bool" where
  "ok_VAsioMsgSubscriber msg \<longleftrightarrow> ok_length (vms_networkName msg) \<and>
     ok_length (vms_msgTypeName msg)"

lemma transfers_VAsioMsgSubscriber [codec_rules]:
  "ok_VAsioMsgSubscriber msg \<Longrightarrow> transfers v (put_VAsioMsgSubscriber msg) get_VAsioMsgSubscriber msg (VAsioMsgSubscriber_bytes msg)"
  unfolding put_VAsioMsgSubscriber_def get_VAsioMsgSubscriber_def VAsioMsgSubscriber_bytes_def
  by (rule codec_rules | simp add: ok_VAsioMsgSubscriber_def uint32_max_def)+

lemma bounded_VAsioMsgSubscriber [bounded_rules]: "bounded get_VAsioMsgSubscriber"
  unfolding get_VAsioMsgSubscriber_def by (intro bounded_rules)

lemma VAsioMsgSubscriber_bytes_nonempty [simp]: "VAsioMsgSubscriber_bytes msg \<noteq> []"
  by (simp add: VAsioMsgSubscriber_bytes_def)

interpretation VAsioMsgSubscriber_codec: codec put_VAsioMsgSubscriber get_VAsioMsgSubscriber VAsioMsgSubscriber_bytes "\<lambda>_. ok_VAsioMsgSubscriber"
  by unfold_locales (auto intro: codec_rules bounded_rules)

record SubscriptionAcknowledge =
  sa_status :: "8 word"
  sa_subscriber :: "VAsioMsgSubscriber"

definition put_SubscriptionAcknowledge :: "SubscriptionAcknowledge \<Rightarrow> writer" where
  "put_SubscriptionAcknowledge msg = write_all
      [put_word (sa_status msg),
       put_VAsioMsgSubscriber (sa_subscriber msg)]"

definition get_SubscriptionAcknowledge :: "SubscriptionAcknowledge reader" where
  "get_SubscriptionAcknowledge =
     rd_bind get_word (\<lambda>status.
     rd_bind get_VAsioMsgSubscriber (\<lambda>subscriber.
     rd_return \<lparr>sa_status = status, sa_subscriber = subscriber\<rparr>))"

definition SubscriptionAcknowledge_bytes :: "SubscriptionAcknowledge \<Rightarrow> byte list" where
  "SubscriptionAcknowledge_bytes msg = concat
      [word_le (sa_status msg),
       VAsioMsgSubscriber_bytes (sa_subscriber msg)]"

definition ok_SubscriptionAcknowledge :: "SubscriptionAcknowledge \<Rightarrow> bool" where
  "ok_SubscriptionAcknowledge msg \<longleftrightarrow> ok_VAsioMsgSubscriber (sa_subscriber msg)"

lemma transfers_SubscriptionAcknowledge [codec_rules]:
  "ok_SubscriptionAcknowledge msg \<Longrightarrow> transfers v (put_SubscriptionAcknowledge msg) get_SubscriptionAcknowledge msg (SubscriptionAcknowledge_bytes msg)"
  unfolding put_SubscriptionAcknowledge_def get_SubscriptionAcknowledge_def SubscriptionAcknowledge_bytes_def
  by (rule codec_rules | simp add: ok_SubscriptionAcknowledge_def uint32_max_def)+

lemma bounded_SubscriptionAcknowledge [bounded_rules]: "bounded get_SubscriptionAcknowledge"
  unfolding get_SubscriptionAcknowledge_def by (intro bounded_rules)

lemma SubscriptionAcknowledge_bytes_nonempty [simp]: "SubscriptionAcknowledge_bytes msg \<noteq> []"
  by (simp add: SubscriptionAcknowledge_bytes_def)

interpretation SubscriptionAcknowledge_codec: codec put_SubscriptionAcknowledge get_SubscriptionAcknowledge SubscriptionAcknowledge_bytes "\<lambda>_. ok_SubscriptionAcknowledge"
  by unfold_locales (auto intro: codec_rules bounded_rules)

record RemoteParticipantConnectRequest =
  rpcr_messageHeader :: "RegistryMsgHeader"
  rpcr_requestOrigin :: "VAsioPeerInfo"
  rpcr_requestTarget :: "VAsioPeerInfo"
  rpcr_status :: "8 word"

definition put_RemoteParticipantConnectRequest :: "RemoteParticipantConnectRequest \<Rightarrow> writer" where
  "put_RemoteParticipantConnectRequest msg = write_all
      [put_RegistryMsgHeader (rpcr_messageHeader msg),
       put_VAsioPeerInfo (rpcr_requestOrigin msg),
       put_VAsioPeerInfo (rpcr_requestTarget msg),
       put_word (rpcr_status msg)]"

definition get_RemoteParticipantConnectRequest :: "RemoteParticipantConnectRequest reader" where
  "get_RemoteParticipantConnectRequest =
     rd_bind get_RegistryMsgHeader (\<lambda>messageHeader.
     rd_bind get_VAsioPeerInfo (\<lambda>requestOrigin.
     rd_bind get_VAsioPeerInfo (\<lambda>requestTarget.
     rd_bind get_word (\<lambda>status.
     rd_return \<lparr>rpcr_messageHeader = messageHeader, rpcr_requestOrigin = requestOrigin, rpcr_requestTarget = requestTarget, rpcr_status = status\<rparr>))))"

definition RemoteParticipantConnectRequest_bytes :: "RemoteParticipantConnectRequest \<Rightarrow> byte list" where
  "RemoteParticipantConnectRequest_bytes msg = concat
      [RegistryMsgHeader_bytes (rpcr_messageHeader msg),
       VAsioPeerInfo_bytes (rpcr_requestOrigin msg),
       VAsioPeerInfo_bytes (rpcr_requestTarget msg),
       word_le (rpcr_status msg)]"

definition ok_RemoteParticipantConnectRequest :: "RemoteParticipantConnectRequest \<Rightarrow> bool" where
  "ok_RemoteParticipantConnectRequest msg \<longleftrightarrow> ok_VAsioPeerInfo (rpcr_requestOrigin msg) \<and>
     ok_VAsioPeerInfo (rpcr_requestTarget msg)"

lemma transfers_RemoteParticipantConnectRequest [codec_rules]:
  "ok_RemoteParticipantConnectRequest msg \<Longrightarrow> transfers v (put_RemoteParticipantConnectRequest msg) get_RemoteParticipantConnectRequest msg (RemoteParticipantConnectRequest_bytes msg)"
  unfolding put_RemoteParticipantConnectRequest_def get_RemoteParticipantConnectRequest_def RemoteParticipantConnectRequest_bytes_def
  by (rule codec_rules | simp add: ok_RemoteParticipantConnectRequest_def uint32_max_def)+

lemma bounded_RemoteParticipantConnectRequest [bounded_rules]: "bounded get_RemoteParticipantConnectRequest"
  unfolding get_RemoteParticipantConnectRequest_def by (intro bounded_rules)

lemma RemoteParticipantConnectRequest_bytes_nonempty [simp]: "RemoteParticipantConnectRequest_bytes msg \<noteq> []"
  by (simp add: RemoteParticipantConnectRequest_bytes_def)

interpretation RemoteParticipantConnectRequest_codec: codec put_RemoteParticipantConnectRequest get_RemoteParticipantConnectRequest RemoteParticipantConnectRequest_bytes "\<lambda>_. ok_RemoteParticipantConnectRequest"
  by unfold_locales (auto intro: codec_rules bounded_rules)

record EndpointAddress =
  ea_participant :: "64 word"
  ea_endpoint :: "64 word"

definition put_EndpointAddress :: "EndpointAddress \<Rightarrow> writer" where
  "put_EndpointAddress msg = write_all
      [put_word (ea_participant msg),
       put_word (ea_endpoint msg)]"

definition get_EndpointAddress :: "EndpointAddress reader" where
  "get_EndpointAddress =
     rd_bind get_word (\<lambda>participant.
     rd_bind get_word (\<lambda>endpoint.
     rd_return \<lparr>ea_participant = participant, ea_endpoint = endpoint\<rparr>))"

definition EndpointAddress_bytes :: "EndpointAddress \<Rightarrow> byte list" where
  "EndpointAddress_bytes msg = concat
      [word_le (ea_participant msg),
       word_le (ea_endpoint msg)]"

lemma transfers_EndpointAddress [codec_rules]:
  "transfers v (put_EndpointAddress msg) get_EndpointAddress msg (EndpointAddress_bytes msg)"
  unfolding put_EndpointAddress_def get_EndpointAddress_def EndpointAddress_bytes_def
  by (rule codec_rules | simp)+

lemma bounded_EndpointAddress [bounded_rules]: "bounded get_EndpointAddress"
  unfolding get_EndpointAddress_def by (intro bounded_rules)

lemma EndpointAddress_bytes_nonempty [simp]: "EndpointAddress_bytes msg \<noteq> []"
  by (simp add: EndpointAddress_bytes_def)

interpretation EndpointAddress_codec: codec put_EndpointAddress get_EndpointAddress EndpointAddress_bytes "\<lambda>_ _. True"
  by unfold_locales (auto intro: codec_rules bounded_rules)

section \<open>Protocol versions\<close>

definition default_preamble :: "32 word" where
  "default_preamble = 0x2d424956"

definition RegistryMsgHeader_default :: RegistryMsgHeader where
  "RegistryMsgHeader_default = \<lparr>rmh_preamble = default_preamble,
     rmh_versionHigh = pv_major CurrentProtocolVersion, rmh_versionLow = pv_minor CurrentProtocolVersion\<rparr>"

definition ExtractProtocolVersion :: "RegistryMsgHeader \<Rightarrow> protocol_version" where
  "ExtractProtocolVersion header = \<lparr>pv_major = rmh_versionHigh header, pv_minor = rmh_versionLow header\<rparr>"

definition MakeRegistryMsgHeader :: "protocol_version \<Rightarrow> RegistryMsgHeader" where
  "MakeRegistryMsgHeader version = RegistryMsgHeader_default\<lparr>rmh_versionHigh := pv_major version,
     rmh_versionLow := pv_minor version\<rparr>"

definition pv30 :: protocol_version where
  "pv30 = \<lparr>pv_major = 3, pv_minor = 0\<rparr>"

definition pv31 :: protocol_version where
  "pv31 = \<lparr>pv_major = 3, pv_minor = 1\<rparr>"

definition ProtocolVersionSupported :: "RegistryMsgHeader \<Rightarrow> bool" where
  "ProtocolVersionSupported header \<longleftrightarrow>
     (let version = ExtractProtocolVersion header in
      if version = pv30 then True else if version = pv31 then True else False)"

section \<open>Proxy messages\<close>

definition proxy_unsupported :: error where
  "proxy_unsupported = ProtocolError ''ProxyMessage is not supported in protocol versions < 3.1''"

type_synonym ProxyMessageHeader = "8 word"

definition put_ProxyMessageHeader :: "ProxyMessageHeader \<Rightarrow> writer" where
  "put_ProxyMessageHeader version mb =
     (if pv_less (mb_protocolVersion mb) pv31 then Inl proxy_unsupported else put_word version mb)"

definition get_ProxyMessageHeader :: "ProxyMessageHeader reader" where
  "get_ProxyMessageHeader mb =
     (if pv_less (mb_protocolVersion mb) pv31 then Inl proxy_unsupported else get_word mb)"

record ProxyMessage =
  pm_header :: ProxyMessageHeader
  pm_source :: string
  pm_destination :: string
  pm_payload :: "byte list"

definition put_ProxyMessage :: "ProxyMessage \<Rightarrow> writer" where
  "put_ProxyMessage msg mb =
     (if pv_less (mb_protocolVersion mb) pv31 then Inl proxy_unsupported
      else write_all [put_ProxyMessageHeader (pm_header msg), put_string (pm_source msg),
             put_string (pm_destination msg), put_bytes (pm_payload msg)] mb)"

definition get_ProxyMessage :: "ProxyMessage reader" where
  "get_ProxyMessage mb =
     (if pv_less (mb_protocolVersion mb) pv31 then Inl proxy_unsupported
      else rd_bind get_ProxyMessageHeader (\<lambda>header.
           rd_bind get_string (\<lambda>source.
           rd_bind get_string (\<lambda>destination.
           rd_bind get_bytes (\<lambda>payload.
           rd_return \<lparr>pm_header = header, pm_source = source, pm_destination = destination,
             pm_payload = payload\<rparr>)))) mb)"

definition ProxyMessage_bytes :: "ProxyMessage \<Rightarrow> byte list" where
  "ProxyMessage_bytes msg = concat
      [word_le (pm_header msg), string_bytes (pm_source msg), string_bytes (pm_destination msg),
       bytes_bytes (pm_payload msg)]"

definition ok_ProxyMessage :: "protocol_version \<Rightarrow> ProxyMessage \<Rightarrow> bool" where
  "ok_ProxyMessage v msg \<longleftrightarrow> \<not> pv_less v pv31 \<and> ok_length (pm_source msg) \<and>
     ok_length (pm_destination msg) \<and> ok_length (pm_payload msg)"

lemma transfers_versioned:
  assumes "\<not> bad v" and "transfers v p g x b"
  shows "transfers v (\<lambda>mb. if bad (mb_protocolVersion mb) then Inl e else p mb)
           (\<lambda>mb. if bad (mb_protocolVersion mb) then Inl e else g mb) x b"
  using assms by (simp add: transfers_def writes_def reads_def rejects_short_def)

lemma transfers_ProxyMessageHeader [codec_rules]:
  "\<not> pv_less v pv31 \<Longrightarrow> transfers v (put_ProxyMessageHeader w) get_ProxyMessageHeader w (word_le w)"
  unfolding put_ProxyMessageHeader_def [abs_def] get_ProxyMessageHeader_def [abs_def]
  by (rule transfers_versioned [where bad = "\<lambda>v. pv_less v pv31"]) (rule codec_rules | simp)+

lemma transfers_ProxyMessage [codec_rules]:
  "ok_ProxyMessage v msg \<Longrightarrow> transfers v (put_ProxyMessage msg) get_ProxyMessage msg (ProxyMessage_bytes msg)"
  unfolding put_ProxyMessage_def [abs_def] get_ProxyMessage_def [abs_def] ProxyMessage_bytes_def
  by (rule transfers_versioned [where bad = "\<lambda>v. pv_less v pv31"])
     (rule codec_rules | simp add: ok_ProxyMessage_def)+

lemma bounded_ProxyMessageHeader [bounded_rules]: "bounded get_ProxyMessageHeader"
  unfolding get_ProxyMessageHeader_def [abs_def] by (intro bounded_rules)

lemma bounded_ProxyMessage [bounded_rules]: "bounded get_ProxyMessage"
  unfolding get_ProxyMessage_def [abs_def] by (intro bounded_rules)

lemma ProxyMessage_bytes_nonempty [simp]: "ProxyMessage_bytes msg \<noteq> []"
  by (simp add: ProxyMessage_bytes_def)

interpretation ProxyMessage_codec: codec put_ProxyMessage get_ProxyMessage ProxyMessage_bytes ok_ProxyMessage
  by unfold_locales (auto intro: codec_rules bounded_rules)

section \<open>Messages of protocol version 3.0\<close>

record V30_RegistryMsgHeader =
  h30_preambel :: "byte list"
  h30_versionHigh :: "16 word"
  h30_versionLow :: "16 word"

definition put_V30_RegistryMsgHeader :: "V30_RegistryMsgHeader \<Rightarrow> writer" where
  "put_V30_RegistryMsgHeader msg = write_all
      [put_array (h30_preambel msg),
       put_word (h30_versionHigh msg),
       put_word (h30_versionLow msg)]"

definition get_V30_RegistryMsgHeader :: "V30_RegistryMsgHeader reader" where
  "get_V30_RegistryMsgHeader =
     rd_bind (get_array 4) (\<lambda>preambel.
     rd_bind get_word (\<lambda>versionHigh.
     rd_bind get_word (\<lambda>versionLow.
     rd_return \<lparr>h30_preambel = preambel, h30_versionHigh = versionHigh, h30_versionLow = versionLow\<rparr>)))"

definition V30_RegistryMsgHeader_bytes :: "V30_RegistryMsgHeader \<Rightarrow> byte list" where
  "V30_RegistryMsgHeader_bytes msg = concat
      [h30_preambel msg,
       word_le (h30_versionHigh msg),
       word_le (h30_versionLow msg)]"

definition ok_V30_RegistryMsgHeader :: "V30_RegistryMsgHeader \<Rightarrow> bool" where
  "ok_V30_RegistryMsgHeader msg \<longleftrightarrow> length (h30_preambel msg) = 4"

lemma transfers_V30_RegistryMsgHeader [codec_rules]:
  "ok_V30_RegistryMsgHeader msg \<Longrightarrow> transfers v (put_V30_RegistryMsgHeader msg) get_V30_RegistryMsgHeader msg (V30_RegistryMsgHeader_bytes msg)"
  unfolding put_V30_RegistryMsgHeader_def get_V30_RegistryMsgHeader_def V30_RegistryMsgHeader_bytes_def
  by (rule codec_rules | simp add: ok_V30_RegistryMsgHeader_def uint32_max_def)+

lemma bounded_V30_RegistryMsgHeader [bounded_rules]: "bounded get_V30_RegistryMsgHeader"
  unfolding get_V30_RegistryMsgHeader_def by (intro bounded_rules)

lemma V30_RegistryMsgHeader_bytes_nonempty [simp]: "V30_RegistryMsgHeader_bytes msg \<noteq> []"
  by (simp add: V30_RegistryMsgHeader_bytes_def)

interpretation V30_RegistryMsgHeader_codec: codec put_V30_RegistryMsgHeader get_V30_RegistryMsgHeader V30_RegistryMsgHeader_bytes "\<lambda>_. ok_V30_RegistryMsgHeader"
  by unfold_locales (auto intro: codec_rules bounded_rules)

record V30_VAsioMsgSubscriber =
  s30_receiverIdx :: "64 word"
  s30_networkName :: "string"
  s30_msgTypeName :: "string"

definition put_V30_VAsioMsgSubscriber :: "V30_VAsioMsgSubscriber \<Rightarrow> writer" where
  "put_V30_VAsioMsgSubscriber msg = write_all
      [put_word (s30_receiverIdx msg),
       put_string (s30_networkName msg),
       put_string (s30_msgTypeName msg)]"

definition get_V30_VAsioMsgSubscriber :: "V30_VAsioMsgSubscriber reader" where
  "get_V30_VAsioMsgSubscriber =
     rd_bind get_word (\<lambda>receiverIdx.
     rd_bind get_string (\<lambda>networkName.
     rd_bind get_string (\<lambda>msgTypeName.
     rd_return \<lparr>s30_receiverIdx = receiverIdx, s30_networkName = networkName, s30_msgTypeName = msgTypeName\<rparr>)))"

definition V30_VAsioMsgSubscriber_bytes :: "V30_VAsioMsgSubscriber \<Rightarrow> byte list" where
  "V30_VAsioMsgSubscriber_bytes msg = concat
      [word_le (s30_receiverIdx msg),
       string_bytes (s30_networkName msg),
       string_bytes (s30_msgTypeName msg)]"

definition ok_V30_VAsioMsgSubscriber :: "V30_VAsioMsgSubscriber \<Rightarrow> bool" where
  "ok_V30_VAsioMsgSubscriber msg \<longleftrightarrow> ok_length (s30_networkName msg) \<and>
     ok_length (s30_msgTypeName msg)"

lemma transfers_V30_VAsioMsgSubscriber [codec_rules]:
  "ok_V30_VAsioMsgSubscriber msg \<Longrightarrow> transfers v (put_V30_VAsioMsgSubscriber msg) get_V30_VAsioMsgSubscriber msg (V30_VAsioMsgSubscriber_bytes msg)"
  unfolding put_V30_VAsioMsgSubscriber_def get_V30_VAsioMsgSubscriber_def V30_VAsioMsgSubscriber_bytes_def
  by (rule codec_rules | simp add: ok_V30_VAsioMsgSubscriber_def uint32_max_def)+

lemma bounded_V30_VAsioMsgSubscriber [bounded_rules]: "bounded get_V30_VAsioMsgSubscriber"
  unfolding get_V30_VAsioMsgSubscriber_def by (intro bounded_rules)

lemma V30_VAsioMsgSubscriber_bytes_nonempty [simp]: "V30_VAsioMsgSubscriber_bytes msg \<noteq> []"
  by (simp add: V30_VAsioMsgSubscriber_bytes_def)

interpretation V30_VAsioMsgSubscriber_codec: codec put_V30_VAsioMsgSubscriber get_V30_VAsioMsgSubscriber V30_VAsioMsgSubscriber_bytes "\<lambda>_. ok_V30_VAsioMsgSubscriber"
  by unfold_locales (auto intro: codec_rules bounded_rules)

record V30_VAsioPeerInfo =
  i30_participantName :: "string"
  i30_participantId :: "64 word"
  i30_acceptorHost :: "string"
  i30_acceptorPort :: "16 word"

definition put_V30_VAsioPeerInfo :: "V30_VAsioPeerInfo \<Rightarrow> writer" where
  "put_V30_VAsioPeerInfo msg = write_all
      [put_string (i30_participantName msg),
       put_word (i30_participantId msg),
       put_string (i30_acceptorHost msg),
       put_word (i30_acceptorPort msg)]"

definition get_V30_VAsioPeerInfo :: "V30_VAsioPeerInfo reader" where
  "get_V30_VAsioPeerInfo =
     rd_bind get_string (\<lambda>participantName.
     rd_bind get_word (\<lambda>participantId.
     rd_bind get_string (\<lambda>acceptorHost.
     rd_bind get_word (\<lambda>acceptorPort.
     rd_return \<lparr>i30_participantName = participantName, i30_participantId = participantId, i30_acceptorHost = acceptorHost, i30_acceptorPort = acceptorPort\<rparr>))))"

definition V30_VAsioPeerInfo_bytes :: "V30_VAsioPeerInfo \<Rightarrow> byte list" where
  "V30_VAsioPeerInfo_bytes msg = concat
      [string_bytes (i30_participantName msg),
       word_le (i30_participantId msg),
       string_bytes (i30_acceptorHost msg),
       word_le (i30_acceptorPort msg)]"

definition ok_V30_VAsioPeerInfo :: "V30_VAsioPeerInfo \<Rightarrow> bool" where
  "ok_V30_VAsioPeerInfo msg \<longleftrightarrow> ok_length (i30_participantName msg) \<and>
     ok_length (i30_acceptorHost msg)"

lemma transfers_V30_VAsioPeerInfo [codec_rules]:
  "ok_V30_VAsioPeerInfo msg \<Longrightarrow> transfers v (put_V30_VAsioPeerInfo msg) get_V30_VAsioPeerInfo msg (V30_VAsioPeerInfo_bytes msg)"
  unfolding put_V30_VAsioPeerInfo_def get_V30_VAsioPeerInfo_def V30_VAsioPeerInfo_bytes_def
  by (rule codec_rules | simp add: ok_V30_VAsioPeerInfo_def uint32_max_def)+

lemma bounded_V30_VAsioPeerInfo [bounded_rules]: "bounded get_V30_VAsioPeerInfo"
  unfolding get_V30_VAsioPeerInfo_def by (intro bounded_rules)

lemma V30_VAsioPeerInfo_bytes_nonempty [simp]: "V30_VAsioPeerInfo_bytes msg \<noteq> []"
  by (simp add: V30_VAsioPeerInfo_bytes_def)

interpretation V30_VAsioPeerInfo_codec: codec put_V30_VAsioPeerInfo get_V30_VAsioPeerInfo V30_VAsioPeerInfo_bytes "\<lambda>_. ok_V30_VAsioPeerInfo"
  by unfold_locales (auto intro: codec_rules bounded_rules)

record V30_VAsioPeerUri =
  u30_participantName :: "string"
  u30_participantId :: "64 word"
  u30_acceptorUris :: "string list"

definition put_V30_VAsioPeerUri :: "V30_VAsioPeerUri \<Rightarrow> writer" where
  "put_V30_VAsioPeerUri msg = write_all
      [put_string (u30_participantName msg),
       put_word (u30_participantId msg),
       put_vector put_string (u30_acceptorUris msg)]"

definition get_V30_VAsioPeerUri :: "V30_VAsioPeerUri reader" where
  "get_V30_VAsioPeerUri =
     rd_bind get_string (\<lambda>participantName.
     rd_bind get_word (\<lambda>participantId.
     rd_bind (get_vector get_string) (\<lambda>acceptorUris.
     rd_return \<lparr>u30_participantName = participantName, u30_participantId = participantId, u30_acceptorUris = acceptorUris\<rparr>)))"

definition V30_VAsioPeerUri_bytes :: "V30_VAsioPeerUri \<Rightarrow> byte list" where
  "V30_VAsioPeerUri_bytes msg = concat
      [string_bytes (u30_participantName msg),
       word_le (u30_participantId msg),
       vector_bytes string_bytes (u30_acceptorUris msg)]"

definition ok_V30_VAsioPeerUri :: "V30_VAsioPeerUri \<Rightarrow> bool" where
  "ok_V30_VAsioPeerUri msg \<longleftrightarrow> ok_length (u30_participantName msg) \<and>
     ok_length (u30_acceptorUris msg) \<and> (\<forall>y \<in> set (u30_acceptorUris msg). ok_length (y))"

lemma transfers_V30_VAsioPeerUri [codec_rules]:
  "ok_V30_VAsioPeerUri msg \<Longrightarrow> transfers v (put_V30_VAsioPeerUri msg) get_V30_VAsioPeerUri msg (V30_VAsioPeerUri_bytes msg)"
  unfolding put_V30_VAsioPeerUri_def get_V30_VAsioPeerUri_def V30_VAsioPeerUri_bytes_def
  by (rule codec_rules | simp add: ok_V30_VAsioPeerUri_def uint32_max_def)+

lemma bounded_V30_VAsioPeerUri [bounded_rules]: "bounded get_V30_VAsioPeerUri"
  unfolding get_V30_VAsioPeerUri_def by (intro bounded_rules)

lemma V30_VAsioPeerUri_bytes_nonempty [simp]: "V30_VAsioPeerUri_bytes msg \<noteq> []"
  by (simp add: V30_VAsioPeerUri_bytes_def)

interpretation V30_VAsioPeerUri_codec: codec put_V30_VAsioPeerUri get_V30_VAsioPeerUri V30_VAsioPeerUri_bytes "\<lambda>_. ok_V30_VAsioPeerUri"
  by unfold_locales (auto intro: codec_rules bounded_rules)

record V30_ParticipantAnnouncement =
  a30_messageHeader :: "V30_RegistryMsgHeader"
  a30_peerInfo :: "V30_VAsioPeerInfo"
  a30_peerUri :: "V30_VAsioPeerUri"

definition put_V30_ParticipantAnnouncement :: "V30_ParticipantAnnouncement \<Rightarrow> writer" where
  "put_V30_ParticipantAnnouncement msg = write_all
      [put_V30_RegistryMsgHeader (a30_messageHeader msg),
       put_V30_VAsioPeerInfo (a30_peerInfo msg),
       put_V30_VAsioPeerUri (a30_peerUri msg)]"

definition get_V30_ParticipantAnnouncement :: "V30_ParticipantAnnouncement reader" where
  "get_V30_ParticipantAnnouncement =
     rd_bind get_V30_RegistryMsgHeader (\<lambda>messageHeader.
     rd_bind get_V30_VAsioPeerInfo (\<lambda>peerInfo.
     rd_bind get_V30_VAsioPeerUri (\<lambda>peerUri.
     rd_return \<lparr>a30_messageHeader = messageHeader, a30_peerInfo = peerInfo, a30_peerUri = peerUri\<rparr>)))"

definition V30_ParticipantAnnouncement_bytes :: "V30_ParticipantAnnouncement \<Rightarrow> byte list" where
  "V30_ParticipantAnnouncement_bytes msg = concat
      [V30_RegistryMsgHeader_bytes (a30_messageHeader msg),
       V30_VAsioPeerInfo_bytes (a30_peerInfo msg),
       V30_VAsioPeerUri_bytes (a30_peerUri msg)]"

definition ok_V30_ParticipantAnnouncement :: "V30_ParticipantAnnouncement \<Rightarrow> bool" where
  "ok_V30_ParticipantAnnouncement msg \<longleftrightarrow> ok_V30_RegistryMsgHeader (a30_messageHeader msg) \<and>
     ok_V30_VAsioPeerInfo (a30_peerInfo msg) \<and>
     ok_V30_VAsioPeerUri (a30_peerUri msg)"

lemma transfers_V30_ParticipantAnnouncement [codec_rules]:
  "ok_V30_ParticipantAnnouncement msg \<Longrightarrow> transfers v (put_V30_ParticipantAnnouncement msg) get_V30_ParticipantAnnouncement msg (V30_ParticipantAnnouncement_bytes msg)"
  unfolding put_V30_ParticipantAnnouncement_def get_V30_ParticipantAnnouncement_def V30_ParticipantAnnouncement_bytes_def
  by (rule codec_rules | simp add: ok_V30_ParticipantAnnouncement_def uint32_max_def)+

lemma bounded_V30_ParticipantAnnouncement [bounded_rules]: "bounded get_V30_ParticipantAnnouncement"
  unfolding get_V30_ParticipantAnnouncement_def by (intro bounded_rules)

lemma V30_ParticipantAnnouncement_bytes_nonempty [simp]: "V30_ParticipantAnnouncement_bytes msg \<noteq> []"
  by (simp add: V30_ParticipantAnnouncement_bytes_def)

interpretation V30_ParticipantAnnouncement_codec: codec put_V30_ParticipantAnnouncement get_V30_ParticipantAnnouncement V30_ParticipantAnnouncement_bytes "\<lambda>_. ok_V30_ParticipantAnnouncement"
  by unfold_locales (auto intro: codec_rules bounded_rules)

record V30_ParticipantAnnouncementReply =
  r30_subscribers :: "V30_VAsioMsgSubscriber list"

definition put_V30_ParticipantAnnouncementReply :: "V30_ParticipantAnnouncementReply \<Rightarrow> writer" where
  "put_V30_ParticipantAnnouncementReply msg = write_all
      [put_vector put_V30_VAsioMsgSubscriber (r30_subscribers msg)]"

definition get_V30_ParticipantAnnouncementReply :: "V30_ParticipantAnnouncementReply reader" where
  "get_V30_ParticipantAnnouncementReply =
     rd_bind (get_vector get_V30_VAsioMsgSubscriber) (\<lambda>subscribers.
     rd_return \<lparr>r30_subscribers = subscribers\<rparr>)"

definition V30_ParticipantAnnouncementReply_bytes :: "V30_ParticipantAnnouncementReply \<Rightarrow> byte list" where
  "V30_ParticipantAnnouncementReply_bytes msg = concat
      [vector_bytes V30_VAsioMsgSubscriber_bytes (r30_subscribers msg)]"

definition ok_V30_ParticipantAnnouncementReply :: "V30_ParticipantAnnouncementReply \<Rightarrow> bool" where
  "ok_V30_ParticipantAnnouncementReply msg \<longleftrightarrow> ok_length (r30_subscribers msg) \<and> (\<forall>y \<in> set (r30_subscribers msg). ok_V30_VAsioMsgSubscriber (y))"

lemma transfers_V30_ParticipantAnnouncementReply [codec_rules]:
  "ok_V30_ParticipantAnnouncementReply msg \<Longrightarrow> transfers v (put_V30_ParticipantAnnouncementReply msg) get_V30_ParticipantAnnouncementReply msg (V30_ParticipantAnnouncementReply_bytes msg)"
  unfolding put_V30_ParticipantAnnouncementReply_def get_V30_ParticipantAnnouncementReply_def V30_ParticipantAnnouncementReply_bytes_def
  by (rule codec_rules | simp add: ok_V30_ParticipantAnnouncementReply_def uint32_max_def)+

lemma bounded_V30_ParticipantAnnouncementReply [bounded_rules]: "bounded get_V30_ParticipantAnnouncementReply"
  unfolding get_V30_ParticipantAnnouncementReply_def by (intro bounded_rules)

lemma V30_ParticipantAnnouncementReply_bytes_nonempty [simp]: "V30_ParticipantAnnouncementReply_bytes msg \<noteq> []"
  by (simp add: V30_ParticipantAnnouncementReply_bytes_def)

interpretation V30_ParticipantAnnouncementReply_codec: codec put_V30_ParticipantAnnouncementReply get_V30_ParticipantAnnouncementReply V30_ParticipantAnnouncementReply_bytes "\<lambda>_. ok_V30_ParticipantAnnouncementReply"
  by unfold_locales (auto intro: codec_rules bounded_rules)

record V30_KnownParticipants =
  k30_messageHeader :: V30_RegistryMsgHeader
  k30_peerInfos :: "V30_VAsioPeerInfo list"
  k30_peerUris :: "V30_VAsioPeerUri list"

definition put_V30_KnownParticipants :: "V30_KnownParticipants \<Rightarrow> writer" where
  "put_V30_KnownParticipants msg = write_all
      [put_V30_RegistryMsgHeader (k30_messageHeader msg),
       put_vector put_V30_VAsioPeerInfo (k30_peerInfos msg),
       put_vector put_V30_VAsioPeerUri (k30_peerUris msg)]"

definition get_V30_KnownParticipants :: "V30_KnownParticipants reader" where
  "get_V30_KnownParticipants =
     rd_bind get_V30_RegistryMsgHeader (\<lambda>messageHeader.
     rd_bind (get_vector get_V30_VAsioPeerInfo) (\<lambda>peerInfos mb.
       if RemainingBytesLeft mb > 0
       then rd_bind (get_vector get_V30_VAsioPeerUri) (\<lambda>peerUris.
            rd_return \<lparr>k30_messageHeader = messageHeader, k30_peerInfos = peerInfos,
              k30_peerUris = peerUris\<rparr>) mb
       else rd_return \<lparr>k30_messageHeader = messageHeader, k30_peerInfos = peerInfos,
              k30_peerUris = []\<rparr> mb))"

definition V30_RegistryMsgHeader_default :: V30_RegistryMsgHeader where
  "V30_RegistryMsgHeader_default =
     \<lparr>h30_preambel = map byte_of_char ''VIB-'', h30_versionHigh = 3, h30_versionLow = 0\<rparr>"

end
