(* ===== verification/VAsioHandshake.thy ===== *)
theory VAsioHandshake
  imports VAsioSerdes
begin

text \<open>
  The three handshake messages whose format depends on the protocol version of the peer
  (\<^verbatim>\<open>core/vasio/VAsioSerdes.cpp\<close> lines 67-167) with the conversions from and to protocol version
  3.0 (\<^verbatim>\<open>core/vasio/VAsioSerdes_Protocol30.cpp\<close> lines 168-267), and the primitives that extract
  or peek at the head of a message. A \<^verbatim>\<open>Deserialize\<close> fills an object its caller has made;
  the conversions take that object as \<open>out\<close>, and the \<^verbatim>\<open>>>\<close> operators are run on a fresh one, as
  \<^verbatim>\<open>SerializedMessage::Deserialize\<close> does.
\<close>

section \<open>Conversions from and to protocol version 3.0\<close>

record ParticipantAnnouncement =
  pa_messageHeader :: RegistryMsgHeader
  pa_peerInfo :: VAsioPeerInfo
  pa_simulationName :: string

definition VAsioPeerInfo_default :: VAsioPeerInfo where
  "VAsioPeerInfo_default = \<lparr>vpi_participantName = [], vpi_participantId = 0, vpi_acceptorUris = [],
     vpi_capabilities = []\<rparr>"

definition ParticipantAnnouncement_default :: ParticipantAnnouncement where
  "ParticipantAnnouncement_default = \<lparr>pa_messageHeader = RegistryMsgHeader_default,
     pa_peerInfo = VAsioPeerInfo_default, pa_simulationName = []\<rparr>"

definition V30_VAsioPeerInfo_default :: V30_VAsioPeerInfo where
  "V30_VAsioPeerInfo_default = \<lparr>i30_participantName = [], i30_participantId = 0,
     i30_acceptorHost = [], i30_acceptorPort = 0\<rparr>"

definition V30_VAsioPeerUri_of :: "VAsioPeerInfo \<Rightarrow> V30_VAsioPeerUri" where
  "V30_VAsioPeerUri_of info = \<lparr>u30_participantName = vpi_participantName info,
     u30_participantId = vpi_participantId info, u30_acceptorUris = vpi_acceptorUris info\<rparr>"

definition SerializeV30_ParticipantAnnouncement :: "ParticipantAnnouncement \<Rightarrow> writer" where
  "SerializeV30_ParticipantAnnouncement announcement =
     put_V30_ParticipantAnnouncement \<lparr>a30_messageHeader = V30_RegistryMsgHeader_default,
       a30_peerInfo = V30_VAsioPeerInfo_default,
       a30_peerUri = V30_VAsioPeerUri_of (pa_peerInfo announcement)\<rparr>"

definition update_peerInfo :: "V30_VAsioPeerUri \<Rightarrow> VAsioPeerInfo \<Rightarrow> VAsioPeerInfo" where
  "update_peerInfo oldUri info = info\<lparr>vpi_participantName := u30_participantName oldUri,
     vpi_participantId := u30_participantId oldUri, vpi_acceptorUris := u30_acceptorUris oldUri\<rparr>"

definition update_version :: "16 word \<Rightarrow> 16 word \<Rightarrow> RegistryMsgHeader \<Rightarrow> RegistryMsgHeader" where
  "update_version high low header = header\<lparr>rmh_versionHigh := high, rmh_versionLow := low\<rparr>"

definition DeserializeV30_ParticipantAnnouncement ::
    "ParticipantAnnouncement \<Rightarrow> ParticipantAnnouncement reader" where
  "DeserializeV30_ParticipantAnnouncement out =
     rd_bind get_V30_ParticipantAnnouncement (\<lambda>oldAnnouncement.
     rd_return (out
       \<lparr>pa_messageHeader := update_version (h30_versionHigh (a30_messageHeader oldAnnouncement))
          (h30_versionLow (a30_messageHeader oldAnnouncement)) (pa_messageHeader out),
        pa_peerInfo := update_peerInfo (a30_peerUri oldAnnouncement) (pa_peerInfo out)\<rparr>))"

record ParticipantAnnouncementReply =
  par_remoteHeader :: RegistryMsgHeader
  par_status :: "8 word"
  par_subscribers :: "VAsioMsgSubscriber list"
  par_diagnostic :: string

definition ParticipantAnnouncementReply_default :: ParticipantAnnouncementReply where
  "ParticipantAnnouncementReply_default = \<lparr>par_remoteHeader = RegistryMsgHeader_default,
     par_status = 0, par_subscribers = [], par_diagnostic = []\<rparr>"

definition V30_VAsioMsgSubscriber_of :: "VAsioMsgSubscriber \<Rightarrow> V30_VAsioMsgSubscriber" where
  "V30_VAsioMsgSubscriber_of subscriber = \<lparr>s30_receiverIdx = vms_receiverIdx subscriber,
     s30_networkName = vms_networkName subscriber, s30_msgTypeName = vms_msgTypeName subscriber\<rparr>"

definition VAsioMsgSubscriber_of_V30 :: "V30_VAsioMsgSubscriber \<Rightarrow> VAsioMsgSubscriber" where
  "VAsioMsgSubscriber_of_V30 subscriber = \<lparr>vms_receiverIdx = s30_receiverIdx subscriber,
     vms_networkName = s30_networkName subscriber, vms_msgTypeName = s30_msgTypeName subscriber,
     vms_version = 0\<rparr>"

definition SerializeV30_ParticipantAnnouncementReply :: "ParticipantAnnouncementReply \<Rightarrow> writer" where
  "SerializeV30_ParticipantAnnouncementReply reply =
     put_V30_ParticipantAnnouncementReply
       \<lparr>r30_subscribers = map V30_VAsioMsgSubscriber_of (par_subscribers reply)\<rparr>"

definition DeserializeV30_ParticipantAnnouncementReply ::
    "ParticipantAnnouncementReply \<Rightarrow> ParticipantAnnouncementReply reader" where
  "DeserializeV30_ParticipantAnnouncementReply out =
     rd_bind get_V30_ParticipantAnnouncementReply (\<lambda>oldReply.
     rd_return (out\<lparr>par_remoteHeader := update_version 3 0 (par_remoteHeader out),
       par_status := 1,
       par_subscribers := par_subscribers out
         @ map VAsioMsgSubscriber_of_V30 (r30_subscribers oldReply)\<rparr>))"

record KnownParticipants =
  kp_messageHeader :: RegistryMsgHeader
  kp_peerInfos :: "VAsioPeerInfo list"

definition KnownParticipants_default :: KnownParticipants where
  "KnownParticipants_default = \<lparr>kp_messageHeader = RegistryMsgHeader_default, kp_peerInfos = []\<rparr>"

definition SerializeV30_KnownParticipants :: "KnownParticipants \<Rightarrow> writer" where
  "SerializeV30_KnownParticipants participants =
     put_V30_KnownParticipants \<lparr>k30_messageHeader = V30_RegistryMsgHeader_default,
       k30_peerInfos = [],
       k30_peerUris = map V30_VAsioPeerUri_of (kp_peerInfos participants)\<rparr>"

definition DeserializeV30_KnownParticipants :: "KnownParticipants \<Rightarrow> KnownParticipants reader" where
  "DeserializeV30_KnownParticipants out =
     rd_bind get_V30_KnownParticipants (\<lambda>oldParticipants.
     rd_return (out\<lparr>kp_messageHeader := update_version 3 0 (kp_messageHeader out),
       kp_peerInfos := kp_peerInfos out
         @ map (\<lambda>peerUri. update_peerInfo peerUri VAsioPeerInfo_default) (k30_peerUris oldParticipants)\<rparr>))"

section \<open>The serialisers\<close>

definition put_ParticipantAnnouncement :: "ParticipantAnnouncement \<Rightarrow> writer" where
  "put_ParticipantAnnouncement announcement mb0 =
     (let mb = mb_SetProtocolVersion (ExtractProtocolVersion (pa_messageHeader announcement)) mb0
      in if mb_protocolVersion mb = pv30
         then SerializeV30_ParticipantAnnouncement announcement mb
         else write_all [put_RegistryMsgHeader (pa_messageHeader announcement),
                put_VAsioPeerInfo (pa_peerInfo announcement),
                put_string (pa_simulationName announcement)] mb)"

definition get_ParticipantAnnouncement :: "ParticipantAnnouncement reader" where
  "get_ParticipantAnnouncement mb =
     (if mb_protocolVersion mb = pv30
      then DeserializeV30_ParticipantAnnouncement ParticipantAnnouncement_default mb
      else rd_bind get_RegistryMsgHeader (\<lambda>messageHeader.
           rd_bind get_VAsioPeerInfo (\<lambda>peerInfo mb.
             if RemainingBytesLeft mb = 0
             then rd_return (ParticipantAnnouncement_default
               \<lparr>pa_messageHeader := messageHeader, pa_peerInfo := peerInfo\<rparr>) mb
             else rd_bind get_string (\<lambda>simulationName.
               rd_return \<lparr>pa_messageHeader = messageHeader, pa_peerInfo = peerInfo,
                 pa_simulationName = simulationName\<rparr>) mb)) mb)"

definition put_ParticipantAnnouncementReply :: "ParticipantAnnouncementReply \<Rightarrow> writer" where
  "put_ParticipantAnnouncementReply reply mb =
     (if mb_protocolVersion mb = pv30
      then SerializeV30_ParticipantAnnouncementReply reply mb
      else write_all [put_RegistryMsgHeader (par_remoteHeader reply), put_word (par_status reply),
             put_vector put_VAsioMsgSubscriber (par_subscribers reply),
             put_string (par_diagnostic reply)] mb)"

definition get_ParticipantAnnouncementReply :: "ParticipantAnnouncementReply reader" where
  "get_ParticipantAnnouncementReply mb =
     (if mb_protocolVersion mb = pv30
      then DeserializeV30_ParticipantAnnouncementReply ParticipantAnnouncementReply_default mb
      else rd_bind get_RegistryMsgHeader (\<lambda>remoteHeader.
           rd_bind get_word (\<lambda>status.
           rd_bind (get_vector get_VAsioMsgSubscriber) (\<lambda>subscribers mb.
             if RemainingBytesLeft mb > 0
             then rd_bind get_string (\<lambda>diagnostic.
               rd_return \<lparr>par_remoteHeader = remoteHeader, par_status = status,
                 par_subscribers = subscribers, par_diagnostic = diagnostic\<rparr>) mb
             else rd_return (ParticipantAnnouncementReply_default
               \<lparr>par_remoteHeader := remoteHeader, par_status := status,
                par_subscribers := subscribers\<rparr>) mb))) mb)"

definition put_KnownParticipants :: "KnownParticipants \<Rightarrow> writer" where
  "put_KnownParticipants participants mb =
     (if mb_protocolVersion mb = pv30
      then SerializeV30_KnownParticipants participants mb
      else write_all [put_RegistryMsgHeader (kp_messageHeader participants),
             put_vector put_VAsioPeerInfo (kp_peerInfos participants)] mb)"

definition get_KnownParticipants :: "KnownParticipants reader" where
  "get_KnownParticipants mb =
     (if mb_protocolVersion mb = pv30
      then DeserializeV30_KnownParticipants KnownParticipants_default mb
      else rd_bind get_RegistryMsgHeader (\<lambda>messageHeader.
           rd_bind (get_vector get_VAsioPeerInfo) (\<lambda>peerInfos.
           rd_return \<lparr>kp_messageHeader = messageHeader, kp_peerInfos = peerInfos\<rparr>)) mb)"

section \<open>Handshake primitives\<close>

definition ExtractMessageSize :: "32 word reader" where
  "ExtractMessageSize = get_word"

definition ExtractMessageKind :: "8 word reader" where
  "ExtractMessageKind = get_word"

definition ExtractRegistryMessageKind :: "8 word reader" where
  "ExtractRegistryMessageKind = get_word"

definition ExtractEndpointId :: "64 word reader" where
  "ExtractEndpointId = get_word"

definition ExtractEndpointAddress :: "EndpointAddress reader" where
  "ExtractEndpointAddress = get_EndpointAddress"

definition PeekProxyMessageHeader :: "ProxyMessageHeader reader" where
  "PeekProxyMessageHeader = peeking get_ProxyMessageHeader"

text \<open>
  \<^verbatim>\<open>PeekRegistryMessageHeader\<close> copies \<^verbatim>\<open>sizeof(RegistryMsgHeader)\<close> = 8 bytes from the read position
  without asking how many there are, so it reads outside the storage of a shorter message.
\<close>

definition PeekRegistryMessageHeader :: "RegistryMsgHeader reader" where
  "PeekRegistryMessageHeader mb =
     (if mb_rPos mb + 8 > length (mb_storage mb)
      then Inl (Undefined_behaviour ''memcpy reads past the end of the message storage'')
      else let rawHeader = take 8 (drop (mb_rPos mb) (mb_storage mb)) in
           res_bind (get_RegistryMsgHeader (MessageBuffer_from rawHeader)) (\<lambda>(header, _).
           Inr (header, mb)))"

section \<open>What each side sees\<close>

text \<open>
  \<open>v30_view\<close> of a message is what is left of it after a transfer with protocol version 3.0:
  the capabilities of a peer, the name of the simulation, the versions of the subscribers, the
  status and the diagnostic message have no place in the old formats.
\<close>

definition v30_header :: RegistryMsgHeader where
  "v30_header = MakeRegistryMsgHeader pv30"

definition v30_view_PeerInfo :: "VAsioPeerInfo \<Rightarrow> VAsioPeerInfo" where
  "v30_view_PeerInfo info = info\<lparr>vpi_capabilities := []\<rparr>"

definition v30_view_Subscriber :: "VAsioMsgSubscriber \<Rightarrow> VAsioMsgSubscriber" where
  "v30_view_Subscriber subscriber = subscriber\<lparr>vms_version := 0\<rparr>"

definition v30_view_Announcement :: "ParticipantAnnouncement \<Rightarrow> ParticipantAnnouncement" where
  "v30_view_Announcement a = \<lparr>pa_messageHeader = v30_header,
     pa_peerInfo = v30_view_PeerInfo (pa_peerInfo a), pa_simulationName = []\<rparr>"

definition v30_view_Reply :: "ParticipantAnnouncementReply \<Rightarrow> ParticipantAnnouncementReply" where
  "v30_view_Reply r = \<lparr>par_remoteHeader = v30_header, par_status = 1,
     par_subscribers = map v30_view_Subscriber (par_subscribers r), par_diagnostic = []\<rparr>"

definition v30_view_Known :: "KnownParticipants \<Rightarrow> KnownParticipants" where
  "v30_view_Known k = \<lparr>kp_messageHeader = v30_header,
     kp_peerInfos = map v30_view_PeerInfo (kp_peerInfos k)\<rparr>"

lemmas v30_defs = v30_header_def v30_view_PeerInfo_def v30_view_Subscriber_def
  MakeRegistryMsgHeader_def update_version_def update_peerInfo_def VAsioMsgSubscriber_of_V30_def
  V30_VAsioMsgSubscriber_of_def V30_VAsioPeerUri_of_def VAsioPeerInfo_default_def pv30_def
  V30_RegistryMsgHeader_default_def RegistryMsgHeader_default_def

lemma update_peerInfo_of [simp]:
  "update_peerInfo (V30_VAsioPeerUri_of info) VAsioPeerInfo_default = v30_view_PeerInfo info"
  by (simp add: v30_defs)

lemma subscriber_of_V30_of [simp]:
  "VAsioMsgSubscriber_of_V30 (V30_VAsioMsgSubscriber_of s) = v30_view_Subscriber s"
  by (simp add: v30_defs)

lemma update_version_30 [simp]: "update_version 3 0 RegistryMsgHeader_default = v30_header"
  by (simp add: v30_defs)

lemma V30_RegistryMsgHeader_default_sel [simp]:
  "h30_versionHigh V30_RegistryMsgHeader_default = 3"
  "h30_versionLow V30_RegistryMsgHeader_default = 0"
  "ok_V30_RegistryMsgHeader V30_RegistryMsgHeader_default"
  by (simp_all add: V30_RegistryMsgHeader_default_def ok_V30_RegistryMsgHeader_def)

lemma ok_V30_VAsioPeerInfo_default [simp]: "ok_V30_VAsioPeerInfo V30_VAsioPeerInfo_default"
  by (simp add: V30_VAsioPeerInfo_default_def ok_V30_VAsioPeerInfo_def ok_length_def)

lemma ok_V30_VAsioPeerUri_of [simp]: "ok_VAsioPeerInfo info \<Longrightarrow> ok_V30_VAsioPeerUri (V30_VAsioPeerUri_of info)"
  by (simp add: V30_VAsioPeerUri_of_def ok_V30_VAsioPeerUri_def ok_VAsioPeerInfo_def)

lemma ok_V30_VAsioMsgSubscriber_of [simp]:
  "ok_VAsioMsgSubscriber s \<Longrightarrow> ok_V30_VAsioMsgSubscriber (V30_VAsioMsgSubscriber_of s)"
  by (simp add: V30_VAsioMsgSubscriber_of_def ok_V30_VAsioMsgSubscriber_def ok_VAsioMsgSubscriber_def)

lemma ok_length_map [simp]: "ok_length (map f xs) \<longleftrightarrow> ok_length xs"
  by (simp add: ok_length_def)

section \<open>The version decides the format\<close>

lemma writes_version_True: "c v \<Longrightarrow> writes v p b \<Longrightarrow> writes v (\<lambda>mb. if c (mb_protocolVersion mb) then p mb else q mb) b"
  by (simp add: writes_def)

lemma writes_version_False: "\<not> c v \<Longrightarrow> writes v q b \<Longrightarrow> writes v (\<lambda>mb. if c (mb_protocolVersion mb) then p mb else q mb) b"
  by (simp add: writes_def)

lemma reads_end_version_True:
  "c v \<Longrightarrow> reads_end v g x b \<Longrightarrow> reads_end v (\<lambda>mb. if c (mb_protocolVersion mb) then g mb else h mb) x b"
  by (simp add: reads_end_def)

lemma reads_end_version_False:
  "\<not> c v \<Longrightarrow> reads_end v h x b \<Longrightarrow> reads_end v (\<lambda>mb. if c (mb_protocolVersion mb) then g mb else h mb) x b"
  by (simp add: reads_end_def)

lemmas old_version =
  writes_version_True [where c = "\<lambda>v. v = pv30"] reads_end_version_True [where c = "\<lambda>v. v = pv30"]

lemmas new_version =
  writes_version_False [where c = "\<lambda>v. v = pv30"] reads_end_version_False [where c = "\<lambda>v. v = pv30"]

subsection \<open>ParticipantAnnouncement\<close>

definition ParticipantAnnouncement_bytes :: "ParticipantAnnouncement \<Rightarrow> byte list" where
  "ParticipantAnnouncement_bytes a =
     (if ExtractProtocolVersion (pa_messageHeader a) = pv30
      then V30_ParticipantAnnouncement_bytes \<lparr>a30_messageHeader = V30_RegistryMsgHeader_default,
             a30_peerInfo = V30_VAsioPeerInfo_default, a30_peerUri = V30_VAsioPeerUri_of (pa_peerInfo a)\<rparr>
      else concat [RegistryMsgHeader_bytes (pa_messageHeader a), VAsioPeerInfo_bytes (pa_peerInfo a),
             string_bytes (pa_simulationName a)])"

definition ok_ParticipantAnnouncement :: "ParticipantAnnouncement \<Rightarrow> bool" where
  "ok_ParticipantAnnouncement a \<longleftrightarrow> ok_VAsioPeerInfo (pa_peerInfo a) \<and> ok_length (pa_simulationName a)"

definition received_Announcement :: "ParticipantAnnouncement \<Rightarrow> ParticipantAnnouncement" where
  "received_Announcement a =
     (if ExtractProtocolVersion (pa_messageHeader a) = pv30 then v30_view_Announcement a else a)"

lemma transfers_V30_announcement_of:
  assumes "ok_ParticipantAnnouncement a" and "old = \<lparr>a30_messageHeader = V30_RegistryMsgHeader_default,
             a30_peerInfo = V30_VAsioPeerInfo_default, a30_peerUri = V30_VAsioPeerUri_of (pa_peerInfo a)\<rparr>"
  shows "transfers v (put_V30_ParticipantAnnouncement old) get_V30_ParticipantAnnouncement old
           (V30_ParticipantAnnouncement_bytes old)"
  using assms by (auto intro!: transfers_V30_ParticipantAnnouncement
      simp: ok_ParticipantAnnouncement_def ok_V30_ParticipantAnnouncement_def)

lemma put_ParticipantAnnouncement_appends:
  assumes "ok_ParticipantAnnouncement a"
  shows "put_ParticipantAnnouncement a (writing v r s) =
    Inr (writing (ExtractProtocolVersion (pa_messageHeader a)) r (s @ ParticipantAnnouncement_bytes a))"
proof -
  let ?v = "ExtractProtocolVersion (pa_messageHeader a)"
  have new: "writes ?v (write_all [put_RegistryMsgHeader (pa_messageHeader a),
      put_VAsioPeerInfo (pa_peerInfo a), put_string (pa_simulationName a)])
      (concat [RegistryMsgHeader_bytes (pa_messageHeader a), VAsioPeerInfo_bytes (pa_peerInfo a),
             string_bytes (pa_simulationName a)])"
    using assms unfolding ok_ParticipantAnnouncement_def
    by - (rule message_rules codec_rules | simp)+
  show ?thesis
    using writesD [OF new, of r s]
      writesD [OF transfersD(1) [OF transfers_V30_announcement_of [OF assms refl]], of ?v r s]
    by (auto simp: put_ParticipantAnnouncement_def Let_def SerializeV30_ParticipantAnnouncement_def
        ParticipantAnnouncement_bytes_def)
qed

lemma writes_ParticipantAnnouncement:
  "ok_ParticipantAnnouncement a \<Longrightarrow>
   writes (ExtractProtocolVersion (pa_messageHeader a)) (put_ParticipantAnnouncement a) (ParticipantAnnouncement_bytes a)"
  by (simp add: writes_def put_ParticipantAnnouncement_appends)

lemma reads_end_ParticipantAnnouncement:
  assumes "ok_ParticipantAnnouncement a"
  shows "reads_end (ExtractProtocolVersion (pa_messageHeader a)) get_ParticipantAnnouncement
           (received_Announcement a) (ParticipantAnnouncement_bytes a)"
proof (cases "ExtractProtocolVersion (pa_messageHeader a) = pv30")
  case True
  have "reads_end pv30 (DeserializeV30_ParticipantAnnouncement ParticipantAnnouncement_default)
      (v30_view_Announcement a)
      (V30_ParticipantAnnouncement_bytes \<lparr>a30_messageHeader = V30_RegistryMsgHeader_default,
             a30_peerInfo = V30_VAsioPeerInfo_default, a30_peerUri = V30_VAsioPeerUri_of (pa_peerInfo a)\<rparr> @ [])"
    unfolding DeserializeV30_ParticipantAnnouncement_def
    by (rule reads_end_bind [OF transfersD(2) [OF transfers_V30_announcement_of [OF assms refl]]])
       (simp add: reads_end_def rd_return_def v30_view_Announcement_def ParticipantAnnouncement_default_def)
  with True show ?thesis
    by (simp add: reads_end_def get_ParticipantAnnouncement_def received_Announcement_def
        ParticipantAnnouncement_bytes_def)
next
  case False
  with assms show ?thesis
    unfolding get_ParticipantAnnouncement_def [abs_def] received_Announcement_def
      ParticipantAnnouncement_bytes_def ok_ParticipantAnnouncement_def
    by (simp only: if_False) (rule new_version message_rules codec_rules reads_end_if_false | simp)+
qed

text \<open>An announcement without the trailing name of the simulation, as sent by earlier releases.\<close>

lemma reads_end_ParticipantAnnouncement_old:
  assumes "v \<noteq> pv30" and "ok_VAsioPeerInfo info"
  shows "reads_end v get_ParticipantAnnouncement
      \<lparr>pa_messageHeader = header, pa_peerInfo = info, pa_simulationName = []\<rparr>
      (concat [RegistryMsgHeader_bytes header, VAsioPeerInfo_bytes info])"
  using assms unfolding get_ParticipantAnnouncement_def [abs_def]
  by - (rule new_version message_rules codec_rules reads_end_if_true
      | simp add: ParticipantAnnouncement_default_def)+

lemma bounded_ParticipantAnnouncement [bounded_rules]: "bounded get_ParticipantAnnouncement"
  unfolding get_ParticipantAnnouncement_def [abs_def] DeserializeV30_ParticipantAnnouncement_def
  by (intro bounded_rules)

lemma ParticipantAnnouncement_bytes_nonempty [simp]: "ParticipantAnnouncement_bytes a \<noteq> []"
  by (simp add: ParticipantAnnouncement_bytes_def)

interpretation ParticipantAnnouncement_codec: message_codec put_ParticipantAnnouncement
    get_ParticipantAnnouncement ParticipantAnnouncement_bytes
    "\<lambda>v a. ok_ParticipantAnnouncement a \<and> v = ExtractProtocolVersion (pa_messageHeader a)
       \<and> received_Announcement a = a"
proof unfold_locales
  fix v a
  assume ok: "ok_ParticipantAnnouncement a \<and> v = ExtractProtocolVersion (pa_messageHeader a)
       \<and> received_Announcement a = a"
  then show "writes v (put_ParticipantAnnouncement a) (ParticipantAnnouncement_bytes a)"
    by (auto intro: writes_ParticipantAnnouncement)
  from ok show "reads_end v get_ParticipantAnnouncement a (ParticipantAnnouncement_bytes a)"
    using reads_end_ParticipantAnnouncement [of a] by simp
qed (rule bounded_rules)

subsection \<open>ParticipantAnnouncementReply\<close>

definition ParticipantAnnouncementReply_bytes :: "protocol_version \<Rightarrow> ParticipantAnnouncementReply \<Rightarrow> byte list" where
  "ParticipantAnnouncementReply_bytes v r =
     (if v = pv30 then V30_ParticipantAnnouncementReply_bytes
            \<lparr>r30_subscribers = map V30_VAsioMsgSubscriber_of (par_subscribers r)\<rparr>
      else concat [RegistryMsgHeader_bytes (par_remoteHeader r), word_le (par_status r),
             vector_bytes VAsioMsgSubscriber_bytes (par_subscribers r), string_bytes (par_diagnostic r)])"

definition ok_ParticipantAnnouncementReply :: "ParticipantAnnouncementReply \<Rightarrow> bool" where
  "ok_ParticipantAnnouncementReply r \<longleftrightarrow> ok_length (par_subscribers r) \<and>
     (\<forall>s \<in> set (par_subscribers r). ok_VAsioMsgSubscriber s) \<and> ok_length (par_diagnostic r)"

definition received_Reply :: "protocol_version \<Rightarrow> ParticipantAnnouncementReply \<Rightarrow> ParticipantAnnouncementReply" where
  "received_Reply v r = (if v = pv30 then v30_view_Reply r else r)"

lemma transfers_V30_reply_of:
  assumes "ok_ParticipantAnnouncementReply r"
    and "old = \<lparr>r30_subscribers = map V30_VAsioMsgSubscriber_of (par_subscribers r)\<rparr>"
  shows "transfers v (put_V30_ParticipantAnnouncementReply old) get_V30_ParticipantAnnouncementReply old
           (V30_ParticipantAnnouncementReply_bytes old)"
  using assms by (auto intro!: transfers_V30_ParticipantAnnouncementReply
      simp: ok_ParticipantAnnouncementReply_def ok_V30_ParticipantAnnouncementReply_def)

lemma writes_ParticipantAnnouncementReply:
  assumes "ok_ParticipantAnnouncementReply r"
  shows "writes v (put_ParticipantAnnouncementReply r) (ParticipantAnnouncementReply_bytes v r)"
proof (cases "v = pv30")
  case True
  then show ?thesis
    unfolding put_ParticipantAnnouncementReply_def [abs_def] ParticipantAnnouncementReply_bytes_def
      SerializeV30_ParticipantAnnouncementReply_def
    using transfersD(1) [OF transfers_V30_reply_of [OF assms refl]] by (simp add: writes_def)
next
  case False
  with assms show ?thesis
    unfolding put_ParticipantAnnouncementReply_def [abs_def] ParticipantAnnouncementReply_bytes_def
      ok_ParticipantAnnouncementReply_def
    by (simp only: if_False) (rule new_version message_rules codec_rules | simp)+
qed

lemma reads_end_ParticipantAnnouncementReply:
  assumes "ok_ParticipantAnnouncementReply r"
  shows "reads_end v get_ParticipantAnnouncementReply (received_Reply v r) (ParticipantAnnouncementReply_bytes v r)"
proof (cases "v = pv30")
  case True
  have "reads_end pv30 (DeserializeV30_ParticipantAnnouncementReply ParticipantAnnouncementReply_default)
      (v30_view_Reply r) (V30_ParticipantAnnouncementReply_bytes
         \<lparr>r30_subscribers = map V30_VAsioMsgSubscriber_of (par_subscribers r)\<rparr> @ [])"
    unfolding DeserializeV30_ParticipantAnnouncementReply_def
    by (rule reads_end_bind [OF transfersD(2) [OF transfers_V30_reply_of [OF assms refl]]])
       (simp add: reads_end_def rd_return_def v30_view_Reply_def ParticipantAnnouncementReply_default_def)
  with True show ?thesis
    by (simp add: reads_end_def get_ParticipantAnnouncementReply_def received_Reply_def
        ParticipantAnnouncementReply_bytes_def)
next
  case False
  with assms show ?thesis
    unfolding get_ParticipantAnnouncementReply_def [abs_def] received_Reply_def
      ParticipantAnnouncementReply_bytes_def ok_ParticipantAnnouncementReply_def
    by (simp only: if_False) (rule new_version message_rules codec_rules reads_end_if_true | simp)+
qed

lemma bounded_ParticipantAnnouncementReply [bounded_rules]: "bounded get_ParticipantAnnouncementReply"
  unfolding get_ParticipantAnnouncementReply_def [abs_def] DeserializeV30_ParticipantAnnouncementReply_def
  by (intro bounded_rules)

interpretation ParticipantAnnouncementReply_codec: message_codec put_ParticipantAnnouncementReply
    get_ParticipantAnnouncementReply "ParticipantAnnouncementReply_bytes CurrentProtocolVersion"
    "\<lambda>v r. ok_ParticipantAnnouncementReply r \<and> v = CurrentProtocolVersion"
proof unfold_locales
  fix v r
  assume ok: "ok_ParticipantAnnouncementReply r \<and> v = CurrentProtocolVersion"
  then show "writes v (put_ParticipantAnnouncementReply r)
      (ParticipantAnnouncementReply_bytes CurrentProtocolVersion r)"
    by (simp add: writes_ParticipantAnnouncementReply)
  from ok show "reads_end v get_ParticipantAnnouncementReply r
      (ParticipantAnnouncementReply_bytes CurrentProtocolVersion r)"
    using reads_end_ParticipantAnnouncementReply [of r v]
    by (simp add: received_Reply_def CurrentProtocolVersion_def pv30_def)
qed (rule bounded_rules)

subsection \<open>KnownParticipants\<close>

definition V30_KnownParticipants_bytes :: "V30_KnownParticipants \<Rightarrow> byte list" where
  "V30_KnownParticipants_bytes k = concat [V30_RegistryMsgHeader_bytes (k30_messageHeader k),
     vector_bytes V30_VAsioPeerInfo_bytes (k30_peerInfos k),
     vector_bytes V30_VAsioPeerUri_bytes (k30_peerUris k)]"

definition ok_V30_KnownParticipants :: "V30_KnownParticipants \<Rightarrow> bool" where
  "ok_V30_KnownParticipants k \<longleftrightarrow> ok_V30_RegistryMsgHeader (k30_messageHeader k) \<and>
     ok_length (k30_peerInfos k) \<and> (\<forall>i \<in> set (k30_peerInfos k). ok_V30_VAsioPeerInfo i) \<and>
     ok_length (k30_peerUris k) \<and> (\<forall>i \<in> set (k30_peerUris k). ok_V30_VAsioPeerUri i)"

lemma bounded_V30_KnownParticipants [bounded_rules]: "bounded get_V30_KnownParticipants"
  unfolding get_V30_KnownParticipants_def by (intro bounded_rules)

interpretation V30_KnownParticipants_codec: message_codec put_V30_KnownParticipants
    get_V30_KnownParticipants V30_KnownParticipants_bytes "\<lambda>_. ok_V30_KnownParticipants"
proof unfold_locales
  fix v k
  assume ok: "ok_V30_KnownParticipants k"
  then show "writes v (put_V30_KnownParticipants k) (V30_KnownParticipants_bytes k)"
    unfolding put_V30_KnownParticipants_def V30_KnownParticipants_bytes_def ok_V30_KnownParticipants_def
    by - (rule message_rules codec_rules | simp)+
  from ok show "reads_end v get_V30_KnownParticipants k (V30_KnownParticipants_bytes k)"
    unfolding get_V30_KnownParticipants_def V30_KnownParticipants_bytes_def ok_V30_KnownParticipants_def
    by - (rule message_rules codec_rules reads_end_if_true | simp)+
qed (rule bounded_rules)

definition V30_KnownParticipants_of :: "KnownParticipants \<Rightarrow> V30_KnownParticipants" where
  "V30_KnownParticipants_of k = \<lparr>k30_messageHeader = V30_RegistryMsgHeader_default,
      k30_peerInfos = [], k30_peerUris = map V30_VAsioPeerUri_of (kp_peerInfos k)\<rparr>"

definition KnownParticipants_bytes :: "protocol_version \<Rightarrow> KnownParticipants \<Rightarrow> byte list" where
  "KnownParticipants_bytes v k =
     (if v = pv30 then V30_KnownParticipants_bytes (V30_KnownParticipants_of k)
      else concat [RegistryMsgHeader_bytes (kp_messageHeader k),
             vector_bytes VAsioPeerInfo_bytes (kp_peerInfos k)])"

definition ok_KnownParticipants :: "KnownParticipants \<Rightarrow> bool" where
  "ok_KnownParticipants k \<longleftrightarrow> ok_length (kp_peerInfos k) \<and> (\<forall>i \<in> set (kp_peerInfos k). ok_VAsioPeerInfo i)"

definition received_Known :: "protocol_version \<Rightarrow> KnownParticipants \<Rightarrow> KnownParticipants" where
  "received_Known v k = (if v = pv30 then v30_view_Known k else k)"

lemma ok_V30_KnownParticipants_of: "ok_KnownParticipants k \<Longrightarrow> ok_V30_KnownParticipants (V30_KnownParticipants_of k)"
  by (auto simp: ok_KnownParticipants_def ok_V30_KnownParticipants_def V30_KnownParticipants_of_def ok_length_def)

lemma writes_KnownParticipants:
  assumes "ok_KnownParticipants k"
  shows "writes v (put_KnownParticipants k) (KnownParticipants_bytes v k)"
proof (cases "v = pv30")
  case True
  then show ?thesis
    using V30_KnownParticipants_codec.put_writes [OF ok_V30_KnownParticipants_of [OF assms]]
    by (simp add: writes_def put_KnownParticipants_def KnownParticipants_bytes_def
        SerializeV30_KnownParticipants_def V30_KnownParticipants_of_def)
next
  case False
  with assms show ?thesis
    unfolding put_KnownParticipants_def [abs_def] KnownParticipants_bytes_def ok_KnownParticipants_def
    by (simp only: if_False) (rule new_version message_rules codec_rules | simp)+
qed

lemma reads_end_map: "reads_end v g x b \<Longrightarrow> reads_end v (rd_bind g (\<lambda>x. rd_return (f x))) (f x) b"
  by (simp add: reads_end_def rd_bind_def rd_return_def)

lemma reads_end_KnownParticipants:
  assumes "ok_KnownParticipants k"
  shows "reads_end v get_KnownParticipants (received_Known v k) (KnownParticipants_bytes v k)"
proof (cases "v = pv30")
  case True
  have "v30_view_Known k = KnownParticipants_default
      \<lparr>kp_messageHeader := update_version 3 0 (kp_messageHeader KnownParticipants_default),
       kp_peerInfos := kp_peerInfos KnownParticipants_default
         @ map (\<lambda>peerUri. update_peerInfo peerUri VAsioPeerInfo_default)
             (k30_peerUris (V30_KnownParticipants_of k))\<rparr>"
    by (simp add: v30_view_Known_def KnownParticipants_default_def comp_def V30_KnownParticipants_of_def)
  then have "reads_end pv30 (DeserializeV30_KnownParticipants KnownParticipants_default) (v30_view_Known k)
      (V30_KnownParticipants_bytes (V30_KnownParticipants_of k))"
    unfolding DeserializeV30_KnownParticipants_def
    using V30_KnownParticipants_codec.get_reads_end [OF ok_V30_KnownParticipants_of [OF assms]]
    by (simp only:) (rule reads_end_map)
  with True show ?thesis
    by (simp add: reads_end_def get_KnownParticipants_def received_Known_def KnownParticipants_bytes_def)
next
  case False
  with assms show ?thesis
    unfolding get_KnownParticipants_def [abs_def] received_Known_def
      KnownParticipants_bytes_def ok_KnownParticipants_def
    by (simp only: if_False) (rule new_version message_rules codec_rules | simp)+
qed

lemma bounded_KnownParticipants [bounded_rules]: "bounded get_KnownParticipants"
  unfolding get_KnownParticipants_def [abs_def] DeserializeV30_KnownParticipants_def
  by (intro bounded_rules)

interpretation KnownParticipants_codec: message_codec put_KnownParticipants
    get_KnownParticipants "KnownParticipants_bytes CurrentProtocolVersion"
    "\<lambda>v r. ok_KnownParticipants r \<and> v = CurrentProtocolVersion"
proof unfold_locales
  fix v r
  assume ok: "ok_KnownParticipants r \<and> v = CurrentProtocolVersion"
  then show "writes v (put_KnownParticipants r) (KnownParticipants_bytes CurrentProtocolVersion r)"
    by (simp add: writes_KnownParticipants)
  from ok show "reads_end v get_KnownParticipants r (KnownParticipants_bytes CurrentProtocolVersion r)"
    using reads_end_KnownParticipants [of r v]
    by (simp add: received_Known_def CurrentProtocolVersion_def pv30_def)
qed (rule bounded_rules)

section \<open>The head of a message is readable in every version\<close>

lemma V30_header_bytes: "V30_RegistryMsgHeader_bytes V30_RegistryMsgHeader_default = RegistryMsgHeader_bytes v30_header"
  by (simp add: v30_defs V30_RegistryMsgHeader_bytes_def RegistryMsgHeader_bytes_def default_preamble_def
      word_le_def nat_le_numeral byte_of_char_def)

lemma length_RegistryMsgHeader_bytes [simp]: "length (RegistryMsgHeader_bytes h) = 8"
  by (simp add: RegistryMsgHeader_bytes_def)

lemma PeekRegistryMessageHeader_reading:
  "PeekRegistryMessageHeader (reading v w pre (RegistryMsgHeader_bytes h @ rest)) =
     Inr (h, reading v w pre (RegistryMsgHeader_bytes h @ rest))"
  using readsD0 [OF transfersD(2) [OF transfers_RegistryMsgHeader], of CurrentProtocolVersion 8 "[]" h]
  by (simp add: PeekRegistryMessageHeader_def reading_def MessageBuffer_from_def Let_def)

lemma ParticipantAnnouncement_bytes_head:
  assumes "rmh_preamble (pa_messageHeader a) = default_preamble"
  obtains rest where "ParticipantAnnouncement_bytes a = RegistryMsgHeader_bytes (pa_messageHeader a) @ rest"
proof (cases "ExtractProtocolVersion (pa_messageHeader a) = pv30")
  case True
  with assms have "pa_messageHeader a = v30_header"
    by (cases "pa_messageHeader a") (simp add: v30_defs ExtractProtocolVersion_def)
  with True that show ?thesis
    by (simp add: ParticipantAnnouncement_bytes_def V30_ParticipantAnnouncement_bytes_def V30_header_bytes)
next
  case False
  with that show ?thesis by (simp add: ParticipantAnnouncement_bytes_def)
qed

end
