(* ===== verification/SerializedMessage.thy ===== *)
theory SerializedMessage
  imports VAsioHandshake
begin

text \<open>
  The envelope of every message on the wire: \<^verbatim>\<open>core/vasio/SerializedMessage.{hpp,cpp}\<close> with the
  message kinds of \<^verbatim>\<open>VAsioMsgKind.hpp\<close> and \<^verbatim>\<open>VAsioDatatypes.hpp\<close> and the traits that attach a
  kind to a type (\<^verbatim>\<open>SerializedMessageTraits.hpp\<close>, \<^verbatim>\<open>AggregationMessageTraits.hpp\<close>). The class
  templates over \<^verbatim>\<open>MessageT\<close> take the type's name (for the traits) and its serialiser as arguments.
  \<^verbatim>\<open>SerializedSize\<close> and \<^verbatim>\<open>IncreaseCapacity\<close> only reserve memory and have no counterpart.
\<close>

section \<open>Message kinds and traits\<close>

text \<open>
  The kinds are enums over \<^verbatim>\<open>uint8_t\<close>: a kind read from the network may be any byte, so the model
  keeps the byte and names the enumerators.
\<close>

type_synonym VAsioMsgKind = "8 word"
type_synonym RegistryMessageKind = "8 word"

abbreviation MK_Invalid :: VAsioMsgKind where "MK_Invalid \<equiv> 0"
abbreviation MK_SubscriptionAnnouncement :: VAsioMsgKind where "MK_SubscriptionAnnouncement \<equiv> 1"
abbreviation MK_SubscriptionAcknowledge :: VAsioMsgKind where "MK_SubscriptionAcknowledge \<equiv> 2"
abbreviation MK_SilKitMwMsg :: VAsioMsgKind where "MK_SilKitMwMsg \<equiv> 3"
abbreviation MK_SilKitSimMsg :: VAsioMsgKind where "MK_SilKitSimMsg \<equiv> 4"
abbreviation MK_SilKitRegistryMessage :: VAsioMsgKind where "MK_SilKitRegistryMessage \<equiv> 5"
abbreviation MK_SilKitProxyMessage :: VAsioMsgKind where "MK_SilKitProxyMessage \<equiv> 6"

abbreviation RK_Invalid :: RegistryMessageKind where "RK_Invalid \<equiv> 0"
abbreviation RK_ParticipantAnnouncement :: RegistryMessageKind where "RK_ParticipantAnnouncement \<equiv> 1"
abbreviation RK_ParticipantAnnouncementReply :: RegistryMessageKind where
  "RK_ParticipantAnnouncementReply \<equiv> 2"
abbreviation RK_KnownParticipants :: RegistryMessageKind where "RK_KnownParticipants \<equiv> 3"
abbreviation RK_RemoteParticipantConnectRequest :: RegistryMessageKind where
  "RK_RemoteParticipantConnectRequest \<equiv> 4"

datatype MessageAggregationKind = UserDataMessage | FlushAggregationMessage | AggregationOther

datatype message_type =
    T_ParticipantAnnouncement | T_ParticipantAnnouncementReply | T_KnownParticipants
  | T_RemoteParticipantConnectRequest | T_SubscriptionAcknowledge | T_VAsioMsgSubscriber
  | T_ProxyMessage | T_NextSimTask | T_ParticipantStatus | T_WireDataMessageEvent
  | T_FunctionCall | T_FunctionCallResponse | T_WireCanFrameEvent | T_WireEthernetFrameEvent
  | T_service string

fun messageKind :: "message_type \<Rightarrow> VAsioMsgKind" where
  "messageKind T_ParticipantAnnouncement = MK_SilKitRegistryMessage"
| "messageKind T_ParticipantAnnouncementReply = MK_SilKitRegistryMessage"
| "messageKind T_KnownParticipants = MK_SilKitRegistryMessage"
| "messageKind T_RemoteParticipantConnectRequest = MK_SilKitRegistryMessage"
| "messageKind T_SubscriptionAcknowledge = MK_SubscriptionAcknowledge"
| "messageKind T_VAsioMsgSubscriber = MK_SubscriptionAnnouncement"
| "messageKind T_ProxyMessage = MK_SilKitProxyMessage"
| "messageKind _ = MK_SilKitMwMsg"

fun registryMessageKind :: "message_type \<Rightarrow> RegistryMessageKind" where
  "registryMessageKind T_ParticipantAnnouncement = RK_ParticipantAnnouncement"
| "registryMessageKind T_ParticipantAnnouncementReply = RK_ParticipantAnnouncementReply"
| "registryMessageKind T_KnownParticipants = RK_KnownParticipants"
| "registryMessageKind T_RemoteParticipantConnectRequest = RK_RemoteParticipantConnectRequest"
| "registryMessageKind _ = RK_Invalid"

fun aggregationKind :: "message_type \<Rightarrow> MessageAggregationKind" where
  "aggregationKind T_NextSimTask = FlushAggregationMessage"
| "aggregationKind T_ParticipantStatus = FlushAggregationMessage"
| "aggregationKind T_WireDataMessageEvent = UserDataMessage"
| "aggregationKind T_FunctionCall = UserDataMessage"
| "aggregationKind T_FunctionCallResponse = UserDataMessage"
| "aggregationKind T_WireCanFrameEvent = UserDataMessage"
| "aggregationKind T_WireEthernetFrameEvent = UserDataMessage"
| "aggregationKind _ = AggregationOther"

definition IsMwOrSim :: "VAsioMsgKind \<Rightarrow> bool" where
  "IsMwOrSim kind \<longleftrightarrow> kind = MK_SilKitMwMsg \<or> kind = MK_SilKitSimMsg"

section \<open>State\<close>

text \<open>\<^verbatim>\<open>_proxyMessageHeader\<close> has no initialiser; it starts as 0 here and is only read when it was set.\<close>

record SerializedMessage =
  sm_messageSize :: "32 word"
  sm_messageKind :: VAsioMsgKind
  sm_registryKind :: RegistryMessageKind
  sm_aggregationKind :: MessageAggregationKind
  sm_endpointAddress :: EndpointAddress
  sm_remoteIndex :: "64 word"
  sm_registryMessageHeader :: RegistryMsgHeader
  sm_proxyMessageHeader :: ProxyMessageHeader
  sm_buffer :: message_buffer

definition SerializedMessage_default :: SerializedMessage where
  "SerializedMessage_default = \<lparr>sm_messageSize = 0, sm_messageKind = MK_Invalid,
     sm_registryKind = RK_Invalid, sm_aggregationKind = AggregationOther,
     sm_endpointAddress = \<lparr>ea_participant = 0, ea_endpoint = 0\<rparr>, sm_remoteIndex = 0,
     sm_registryMessageHeader = RegistryMsgHeader_default, sm_proxyMessageHeader = 0,
     sm_buffer = MessageBuffer_empty\<rparr>"

definition sm_ReleaseStorage :: "SerializedMessage \<Rightarrow> (byte list \<times> SerializedMessage) result" where
  "sm_ReleaseStorage m =
     (let (buffer, mb) = mb_ReleaseStorage (sm_buffer m); m' = m\<lparr>sm_buffer := mb\<rparr> in
      if length buffer > uint32_max
      then Inl (SilKitError ''SerializedMessage::Serialize: message buffer is too large'')
      else if length buffer < 4
      then Inl (Undefined_behaviour ''memcpy writes past the end of the released storage'')
      else Inr (overwrite 0 (word_le (of_nat (length buffer) :: 32 word)) buffer, m'))"

definition GetRemoteIndex :: "SerializedMessage \<Rightarrow> (64 word) result" where
  "GetRemoteIndex m =
     (if \<not> IsMwOrSim (sm_messageKind m)
      then Inl (SilKitError ''SerializedMessage::GetEndpointAddress called on wrong message kind'')
      else Inr (sm_remoteIndex m))"

definition GetEndpointAddress :: "SerializedMessage \<Rightarrow> EndpointAddress result" where
  "GetEndpointAddress m =
     (if \<not> IsMwOrSim (sm_messageKind m)
      then Inl (SilKitError ''SerializedMessage::GetEndpointAddress called on wrong message kind'')
      else Inr (sm_endpointAddress m))"

definition sm_SetProtocolVersion :: "protocol_version \<Rightarrow> SerializedMessage \<Rightarrow> SerializedMessage" where
  "sm_SetProtocolVersion version m = m\<lparr>sm_buffer := mb_SetProtocolVersion version (sm_buffer m)\<rparr>"

section \<open>Network headers\<close>

definition WriteNetworkHeaders :: "SerializedMessage \<Rightarrow> SerializedMessage result" where
  "WriteNetworkHeaders m =
     res_bind (write_all
       [put_word (sm_messageSize m),
        put_word (sm_messageKind m),
        write_all (if sm_messageKind m = MK_SilKitRegistryMessage then [put_word (sm_registryKind m)] else []),
        write_all (if IsMwOrSim (sm_messageKind m)
                   then [put_word (sm_remoteIndex m), put_EndpointAddress (sm_endpointAddress m)] else [])]
       (sm_buffer m)) (\<lambda>mb. Inr (m\<lparr>sm_buffer := mb\<rparr>))"

definition ReadRegistryHeader :: "SerializedMessage \<Rightarrow> SerializedMessage result" where
  "ReadRegistryHeader m0 =
     res_bind (ExtractRegistryMessageKind (sm_buffer m0)) (\<lambda>(kind, mb).
     let m = m0\<lparr>sm_registryKind := kind, sm_buffer := mb\<rparr>;
         peek = res_bind (PeekRegistryMessageHeader mb) (\<lambda>(h, mb').
                  Inr (m\<lparr>sm_registryMessageHeader := h, sm_buffer := mb'\<rparr>)) in
     if kind = RK_ParticipantAnnouncement \<or> kind = RK_KnownParticipants
        \<or> kind = RK_RemoteParticipantConnectRequest then peek
     else if kind = RK_ParticipantAnnouncementReply then
       (if mb_protocolVersion mb = pv31 then peek
        else if mb_protocolVersion mb = pv30
        then Inr (m\<lparr>sm_registryMessageHeader := update_version 3 0 RegistryMsgHeader_default\<rparr>)
        else Inl (ProtocolError ''SerializedMessage: Unsupported protocol version encountered during handshake''))
     else if kind = RK_Invalid
     then Inl (ProtocolError ''SerializedMessage: ReadNetworkHeaders() encountered RegistryMessageKind::Invalid'')
     else Inr m)"

definition ReadNetworkHeaders :: "SerializedMessage \<Rightarrow> SerializedMessage result" where
  "ReadNetworkHeaders m0 =
     res_bind (ExtractMessageSize (sm_buffer m0)) (\<lambda>(size, mb1).
     res_bind (ExtractMessageKind mb1) (\<lambda>(kind, mb2).
     let m2 = m0\<lparr>sm_messageSize := size, sm_messageKind := kind, sm_buffer := mb2\<rparr> in
     res_bind (if kind = MK_SilKitRegistryMessage then ReadRegistryHeader m2 else Inr m2) (\<lambda>m3.
     res_bind (if kind = MK_SilKitProxyMessage
               then res_bind (PeekProxyMessageHeader (sm_buffer m3)) (\<lambda>(h, mb).
                      Inr (m3\<lparr>sm_proxyMessageHeader := h, sm_buffer := mb\<rparr>))
               else Inr m3) (\<lambda>m4.
     if IsMwOrSim kind
     then res_bind (ExtractEndpointId (sm_buffer m4)) (\<lambda>(remoteIndex, mb5).
          res_bind (ExtractEndpointAddress mb5) (\<lambda>(endpointAddress, mb6).
          Inr (m4\<lparr>sm_remoteIndex := remoteIndex, sm_endpointAddress := endpointAddress, sm_buffer := mb6\<rparr>)))
     else Inr m4))))"

section \<open>Construction and deserialisation\<close>

definition SerializedMessage_send ::
    "protocol_version \<Rightarrow> message_type \<Rightarrow> ('a \<Rightarrow> writer) \<Rightarrow> 'a \<Rightarrow> EndpointAddress \<Rightarrow> 64 word
     \<Rightarrow> SerializedMessage result" where
  "SerializedMessage_send version t put message endpointAddress remoteIndex =
     res_bind (WriteNetworkHeaders (SerializedMessage_default
       \<lparr>sm_remoteIndex := remoteIndex, sm_endpointAddress := endpointAddress,
        sm_messageKind := messageKind t, sm_registryKind := registryMessageKind t,
        sm_aggregationKind := aggregationKind t,
        sm_buffer := mb_SetProtocolVersion version MessageBuffer_empty\<rparr>)) (\<lambda>m.
     res_bind (put message (sm_buffer m)) (\<lambda>mb.
     ReadNetworkHeaders (m\<lparr>sm_buffer := mb\<rparr>)))"

definition SerializedMessage_of :: "message_type \<Rightarrow> ('a \<Rightarrow> writer) \<Rightarrow> 'a \<Rightarrow> SerializedMessage result" where
  "SerializedMessage_of t put message = SerializedMessage_send CurrentProtocolVersion t put message
     (sm_endpointAddress SerializedMessage_default) (sm_remoteIndex SerializedMessage_default)"

definition SerializedMessage_version ::
    "protocol_version \<Rightarrow> message_type \<Rightarrow> ('a \<Rightarrow> writer) \<Rightarrow> 'a \<Rightarrow> SerializedMessage result" where
  "SerializedMessage_version version t put message = SerializedMessage_send version t put message
     (sm_endpointAddress SerializedMessage_default) (sm_remoteIndex SerializedMessage_default)"

definition SerializedMessage_sim ::
    "message_type \<Rightarrow> ('a \<Rightarrow> writer) \<Rightarrow> 'a \<Rightarrow> EndpointAddress \<Rightarrow> 64 word \<Rightarrow> SerializedMessage result" where
  "SerializedMessage_sim = SerializedMessage_send CurrentProtocolVersion"

definition SerializedMessage_from :: "byte list \<Rightarrow> SerializedMessage result" where
  "SerializedMessage_from blob =
     ReadNetworkHeaders (SerializedMessage_default\<lparr>sm_buffer := MessageBuffer_from blob\<rparr>)"

definition sm_Deserialize :: "'a reader \<Rightarrow> SerializedMessage \<Rightarrow> ('a \<times> SerializedMessage) result" where
  "sm_Deserialize get m =
     res_bind (get (sm_buffer m)) (\<lambda>(value, mb). Inr (value, m\<lparr>sm_buffer := mb\<rparr>))"

section \<open>The envelope on the wire\<close>

definition network_header :: "32 word \<Rightarrow> VAsioMsgKind \<Rightarrow> RegistryMessageKind \<Rightarrow> 64 word \<Rightarrow> EndpointAddress
    \<Rightarrow> byte list" where
  "network_header msize kind rkind remoteIndex endpointAddress =
     word_le msize @ word_le kind
     @ (if kind = MK_SilKitRegistryMessage then word_le rkind else [])
     @ (if IsMwOrSim kind then word_le remoteIndex @ EndpointAddress_bytes endpointAddress else [])"

lemma length_EndpointAddress_bytes [simp]: "length (EndpointAddress_bytes ea) = 16"
  by (simp add: EndpointAddress_bytes_def)

lemma length_network_header_le: "length (network_header msize kind rkind idx ep) \<le> 30"
  by (simp add: network_header_def IsMwOrSim_def)

lemma reading_SetProtocolVersion [simp]:
  "mb_SetProtocolVersion v (reading v' w pre rest) = reading v w pre rest"
  by (simp add: mb_SetProtocolVersion_def reading_def)

lemma get_word_reading [simp]:
  "8 dvd LENGTH('a::len) \<Longrightarrow>
   get_word (reading v w pre (word_le (x :: 'a word) @ rest)) = Inr (x, reading v w (pre @ word_le x) rest)"
  by (rule readsD [OF transfersD(2) [OF transfers_word]])

lemma put_word_writing [simp]:
  "8 dvd LENGTH('a::len) \<Longrightarrow> put_word (x :: 'a word) (writing v r s) = Inr (writing v r (s @ word_le x))"
  by (rule writesD [OF transfersD(1) [OF transfers_word]])

lemma writing_eq_reading: "writing v 0 s = reading v (length s) [] s"
  by (simp add: writing_def reading_def)

lemmas header_reads = ExtractMessageSize_def ExtractMessageKind_def ExtractRegistryMessageKind_def
  ExtractEndpointId_def ExtractEndpointAddress_def EndpointAddress_codec.get_consumes

lemma WriteNetworkHeaders_writing:
  assumes "sm_buffer m = writing v r s"
  shows "WriteNetworkHeaders m = Inr (m\<lparr>sm_buffer := writing v r (s @ network_header (sm_messageSize m)
    (sm_messageKind m) (sm_registryKind m) (sm_remoteIndex m) (sm_endpointAddress m))\<rparr>)"
  using assms
  by (auto simp: WriteNetworkHeaders_def network_header_def EndpointAddress_codec.put_appends IsMwOrSim_def)

lemma ReadNetworkHeaders_sim:
  assumes "IsMwOrSim kind"
    and "sm_buffer m = reading v w pre (network_header msize kind rkind idx ep @ body)"
  shows "ReadNetworkHeaders m = Inr (m\<lparr>sm_messageSize := msize, sm_messageKind := kind,
    sm_remoteIndex := idx, sm_endpointAddress := ep,
    sm_buffer := reading v w (pre @ network_header msize kind rkind idx ep) body\<rparr>)"
proof -
  from assms(1) have "kind \<noteq> MK_SilKitRegistryMessage" "kind \<noteq> MK_SilKitProxyMessage"
    by (auto simp: IsMwOrSim_def)
  with assms show ?thesis by (simp add: ReadNetworkHeaders_def network_header_def header_reads)
qed

lemma ReadNetworkHeaders_subscription:
  assumes "kind = MK_SubscriptionAnnouncement \<or> kind = MK_SubscriptionAcknowledge"
    and "sm_buffer m = reading v w pre (network_header msize kind rkind idx ep @ body)"
  shows "ReadNetworkHeaders m = Inr (m\<lparr>sm_messageSize := msize, sm_messageKind := kind,
    sm_buffer := reading v w (pre @ network_header msize kind rkind idx ep) body\<rparr>)"
  using assms by (auto simp: ReadNetworkHeaders_def network_header_def header_reads IsMwOrSim_def)

text \<open>
  A registry message other than a reply carries a \<^verbatim>\<open>RegistryMsgHeader\<close> in front of its body in every
  version; it is peeked at, not consumed.
\<close>

lemma ReadNetworkHeaders_registry:
  assumes "rkind \<in> {RK_ParticipantAnnouncement, RK_KnownParticipants, RK_RemoteParticipantConnectRequest}
      \<or> rkind = RK_ParticipantAnnouncementReply \<and> v = pv31"
    and "sm_buffer m = reading v w pre (network_header msize MK_SilKitRegistryMessage rkind idx ep @ body)"
    and "body = RegistryMsgHeader_bytes h @ rest"
  shows "ReadNetworkHeaders m = Inr (m\<lparr>sm_messageSize := msize, sm_messageKind := MK_SilKitRegistryMessage,
    sm_registryKind := rkind, sm_registryMessageHeader := h,
    sm_buffer := reading v w (pre @ network_header msize MK_SilKitRegistryMessage rkind idx ep) body\<rparr>)"
  using assms
  by (auto simp: ReadNetworkHeaders_def network_header_def header_reads IsMwOrSim_def
      ReadRegistryHeader_def PeekRegistryMessageHeader_reading)

lemma ReadNetworkHeaders_reply30:
  assumes "sm_buffer m = reading pv30 w pre
    (network_header msize MK_SilKitRegistryMessage RK_ParticipantAnnouncementReply idx ep @ body)"
  shows "ReadNetworkHeaders m = Inr (m\<lparr>sm_messageSize := msize, sm_messageKind := MK_SilKitRegistryMessage,
    sm_registryKind := RK_ParticipantAnnouncementReply, sm_registryMessageHeader := v30_header,
    sm_buffer := reading pv30 w
      (pre @ network_header msize MK_SilKitRegistryMessage RK_ParticipantAnnouncementReply idx ep) body\<rparr>)"
proof -
  have "pv30 \<noteq> pv31" by (simp add: pv30_def pv31_def)
  with assms show ?thesis
    by (simp add: ReadNetworkHeaders_def network_header_def header_reads IsMwOrSim_def ReadRegistryHeader_def)
qed

lemma SerializedMessage_send_writing:
  fixes t idx ep
  defines "hdr \<equiv> network_header 0 (messageKind t) (registryMessageKind t) idx ep"
  assumes "put x (writing v 0 hdr) = Inr (writing v 0 (hdr @ body))"
  shows "SerializedMessage_send v t put x ep idx = ReadNetworkHeaders (SerializedMessage_default
       \<lparr>sm_remoteIndex := idx, sm_endpointAddress := ep, sm_messageKind := messageKind t,
        sm_registryKind := registryMessageKind t, sm_aggregationKind := aggregationKind t,
        sm_buffer := reading v (length (hdr @ body)) [] (hdr @ body)\<rparr>)"
proof -
  let ?m0 = "SerializedMessage_default
       \<lparr>sm_remoteIndex := idx, sm_endpointAddress := ep, sm_messageKind := messageKind t,
        sm_registryKind := registryMessageKind t, sm_aggregationKind := aggregationKind t,
        sm_buffer := writing v 0 []\<rparr>"
  have "WriteNetworkHeaders ?m0 = Inr (?m0\<lparr>sm_buffer := writing v 0 hdr\<rparr>)"
    by (subst WriteNetworkHeaders_writing [where s = "[]"]) (simp_all add: hdr_def SerializedMessage_default_def)
  with assms(2) show ?thesis
    by (simp add: SerializedMessage_send_def empty_writing writing_eq_reading)
qed

lemma sm_ReleaseStorage_header:
  assumes "mb_storage (sm_buffer m) = network_header 0 kind rkind idx ep @ body"
    and "length (network_header 0 kind rkind idx ep @ body) \<le> uint32_max"
  shows "\<exists>m'. sm_ReleaseStorage m = Inr (network_header
      (of_nat (length (network_header 0 kind rkind idx ep @ body))) kind rkind idx ep @ body, m')"
  using assms
  by (auto simp: sm_ReleaseStorage_def mb_ReleaseStorage_def network_header_def overwrite_def)

section \<open>From sender to receiver\<close>

text \<open>
  The way of one message: constructed by the sender with the version of the peer, released to
  the socket, constructed again from the received bytes (with the current version, as
  \<^verbatim>\<open>VAsioPeer::DispatchBuffer\<close> does before it sets the version of the peer) and deserialised.
  The result is the value, the receiver's message and the bytes that travelled.
\<close>

definition deliver :: "protocol_version \<Rightarrow> message_type \<Rightarrow> ('a \<Rightarrow> writer) \<Rightarrow> 'a reader \<Rightarrow> 'a
    \<Rightarrow> EndpointAddress \<Rightarrow> 64 word \<Rightarrow> ('a \<times> SerializedMessage \<times> byte list) result" where
  "deliver v t put get x ep idx =
     res_bind (SerializedMessage_send v t put x ep idx) (\<lambda>m.
     res_bind (sm_ReleaseStorage m) (\<lambda>(blob, _).
     res_bind (SerializedMessage_from blob) (\<lambda>r.
     res_bind (sm_Deserialize get (sm_SetProtocolVersion v r)) (\<lambda>(y, r').
     Inr (y, r', blob)))))"

definition announces_size :: "byte list \<Rightarrow> bool" where
  "announces_size blob \<longleftrightarrow> 4 \<le> length blob \<and> le_word (take 4 blob) = (of_nat (length blob) :: 32 word)"

lemma announces_size_network_header:
  "announces_size (network_header (of_nat (length (network_header 0 kind rkind idx ep @ body))) kind rkind idx ep @ body)"
  by (simp add: announces_size_def network_header_def le_word_word_le)

text \<open>
  What \<open>deliver\<close> needs of the two ends: the body the sender appends, the version it leaves behind,
  and that both header readers accept the envelope.
\<close>

lemma deliverI:
  fixes t idx ep
  defines "kind \<equiv> messageKind t" and "rkind \<equiv> registryMessageKind t"
  defines "hdr \<equiv> \<lambda>msize. network_header msize kind rkind idx ep"
  assumes put: "\<And>s. put x (writing v 0 s) = Inr (writing v 0 (s @ body))"
    and get: "reads_end v get y body"
    and small: "length body + 30 \<le> uint32_max"
    and header: "\<And>m v' w msize. v' = v \<or> v' = CurrentProtocolVersion \<Longrightarrow>
        sm_buffer m = reading v' w [] (hdr msize @ body) \<Longrightarrow>
        \<exists>m'. ReadNetworkHeaders m = Inr m' \<and> sm_buffer m' = reading v' w (hdr msize) body \<and> R m'"
    and stable: "\<And>m b. R m \<Longrightarrow> R (m\<lparr>sm_buffer := b\<rparr>)"
  shows "\<exists>r blob. deliver v t put get x ep idx = Inr (y, r, blob) \<and> R r
      \<and> RemainingBytesLeft (sm_buffer r) = 0 \<and> announces_size blob"
proof -
  let ?msize = "of_nat (length (hdr 0 @ body)) :: 32 word"
  let ?blob = "hdr ?msize @ body"
  obtain m where send: "SerializedMessage_send v t put x ep idx = Inr m"
    and m: "sm_buffer m = reading v (length (hdr 0 @ body)) (hdr 0) body"
    using header [of v "SerializedMessage_default
       \<lparr>sm_remoteIndex := idx, sm_endpointAddress := ep, sm_messageKind := kind,
        sm_registryKind := rkind, sm_aggregationKind := aggregationKind t,
        sm_buffer := reading v (length (hdr 0 @ body)) [] (hdr 0 @ body)\<rparr>" "length (hdr 0 @ body)" 0]
      SerializedMessage_send_writing [of put x v t idx ep body] put
    by (auto simp: hdr_def kind_def rkind_def)
  have "length (hdr 0 @ body) \<le> uint32_max"
    using small length_network_header_le [of 0 kind rkind idx ep] by (simp add: hdr_def)
  with m obtain m1 where rel: "sm_ReleaseStorage m = Inr (?blob, m1)"
    using sm_ReleaseStorage_header [of m kind rkind idx ep body] by (auto simp: hdr_def)
  have "\<exists>m'. ReadNetworkHeaders (SerializedMessage_default\<lparr>sm_buffer := MessageBuffer_from ?blob\<rparr>) = Inr m'
      \<and> sm_buffer m' = reading CurrentProtocolVersion (length ?blob) (hdr ?msize) body \<and> R m'"
    by (rule header) (simp_all add: MessageBuffer_from_def reading_def)
  then obtain r where rcv: "SerializedMessage_from ?blob = Inr r"
    and r: "sm_buffer r = reading CurrentProtocolVersion (length ?blob) (hdr ?msize) body" "R r"
    by (auto simp: SerializedMessage_from_def)
  let ?b = "reading v (length ?blob) (hdr ?msize @ body) []"
  have "sm_Deserialize get (sm_SetProtocolVersion v r) = Inr (y, (sm_SetProtocolVersion v r)\<lparr>sm_buffer := ?b\<rparr>)"
    using get r by (simp add: sm_Deserialize_def sm_SetProtocolVersion_def reads_end_def)
  with send rel rcv stable [OF r(2), of ?b] show ?thesis
    using announces_size_network_header [of kind rkind idx ep body]
    by (simp add: deliver_def hdr_def sm_SetProtocolVersion_def)
qed

context message_codec
begin

lemma sim_delivery:
  assumes "ok v x" and kind: "IsMwOrSim (messageKind t)" and "length (bytes x) + 30 \<le> uint32_max"
  shows "\<exists>r blob. deliver v t put get x ep idx = Inr (x, r, blob)
      \<and> (sm_messageKind r = messageKind t \<and> GetRemoteIndex r = Inr idx \<and> GetEndpointAddress r = Inr ep)
      \<and> RemainingBytesLeft (sm_buffer r) = 0 \<and> announces_size blob"
  using assms
  by (intro deliverI [where body = "bytes x"])
     (auto simp: put_appends get_reads_end ReadNetworkHeaders_sim [OF kind] GetRemoteIndex_def GetEndpointAddress_def)

lemma subscription_delivery:
  assumes "ok v x" and kind: "messageKind t = MK_SubscriptionAnnouncement \<or> messageKind t = MK_SubscriptionAcknowledge"
    and "length (bytes x) + 30 \<le> uint32_max"
  shows "\<exists>r blob. deliver v t put get x ep idx = Inr (x, r, blob)
      \<and> sm_messageKind r = messageKind t
      \<and> RemainingBytesLeft (sm_buffer r) = 0 \<and> announces_size blob"
  using assms
  by (intro deliverI [where body = "bytes x"])
     (auto simp: put_appends get_reads_end ReadNetworkHeaders_subscription [OF kind])

end

lemma registry_kinds:
  "messageKind T_ParticipantAnnouncement = MK_SilKitRegistryMessage"
  "messageKind T_ParticipantAnnouncementReply = MK_SilKitRegistryMessage"
  "messageKind T_KnownParticipants = MK_SilKitRegistryMessage"
  "messageKind T_RemoteParticipantConnectRequest = MK_SilKitRegistryMessage"
  by simp_all

definition received_as :: "RegistryMessageKind \<Rightarrow> RegistryMsgHeader \<Rightarrow> SerializedMessage \<Rightarrow> bool" where
  "received_as rkind h r \<longleftrightarrow> sm_messageKind r = MK_SilKitRegistryMessage \<and> sm_registryKind r = rkind
     \<and> sm_registryMessageHeader r = h"

lemma registry_delivery:
  assumes t: "messageKind t = MK_SilKitRegistryMessage"
    and rkind: "registryMessageKind t
      \<in> {RK_ParticipantAnnouncement, RK_KnownParticipants, RK_RemoteParticipantConnectRequest}
      \<or> registryMessageKind t = RK_ParticipantAnnouncementReply \<and> v = pv31"
    and put: "writes v (put x) body" and get: "reads_end v get y body"
    and body: "body = RegistryMsgHeader_bytes h @ rest" and "length body + 30 \<le> uint32_max"
  shows "\<exists>r blob. deliver v t put get x ep idx = Inr (y, r, blob)
      \<and> received_as (registryMessageKind t) h r
      \<and> RemainingBytesLeft (sm_buffer r) = 0 \<and> announces_size blob"
proof (rule deliverI [where body = body])
  fix m :: SerializedMessage and v' w msize
  assume "v' = v \<or> v' = CurrentProtocolVersion" and buf: "sm_buffer m = reading v' w []
     (network_header msize (messageKind t) (registryMessageKind t) idx ep @ body)"
  with rkind have rk: "registryMessageKind t
      \<in> {RK_ParticipantAnnouncement, RK_KnownParticipants, RK_RemoteParticipantConnectRequest}
      \<or> registryMessageKind t = RK_ParticipantAnnouncementReply \<and> v' = pv31"
    by (auto simp: CurrentProtocolVersion_def pv31_def)
  show "\<exists>m'. ReadNetworkHeaders m = Inr m' \<and> sm_buffer m' = reading v' w
       (network_header msize (messageKind t) (registryMessageKind t) idx ep) body
       \<and> received_as (registryMessageKind t) h m'"
    using ReadNetworkHeaders_registry [OF rk buf [unfolded t] body] by (simp add: t received_as_def)
qed (use assms in \<open>auto simp: writesD received_as_def\<close>)

text \<open>Any 8 bytes are the image of some header, so peeking at a body that has none is harmless if it is long enough.\<close>

lemma RegistryMsgHeader_bytes_surj:
  assumes "8 \<le> length body"
  obtains h rest where "body = RegistryMsgHeader_bytes h @ rest"
proof
  let ?h = "\<lparr>rmh_preamble = le_word (take 4 body), rmh_versionHigh = le_word (take 2 (drop 4 body)),
    rmh_versionLow = le_word (take 2 (drop 6 body))\<rparr>"
  have "RegistryMsgHeader_bytes ?h = take 4 body @ take 2 (drop 4 body) @ take 2 (drop 6 body)"
    using assms by (simp add: RegistryMsgHeader_bytes_def word_le_le_word)
  also have "\<dots> = take 8 body"
    using take_add [of 4 4 body] take_add [of 2 2 "drop 4 body"] by simp
  finally show "body = RegistryMsgHeader_bytes ?h @ drop 8 body" by simp
qed

lemma reply30_body_length:
  assumes "par_subscribers r \<noteq> []"
  shows "8 \<le> length (ParticipantAnnouncementReply_bytes pv30 r)"
proof -
  from assms obtain s ss where "par_subscribers r = s # ss" by (cases "par_subscribers r") auto
  then show ?thesis
    by (simp add: ParticipantAnnouncementReply_bytes_def V30_ParticipantAnnouncementReply_bytes_def
        vector_bytes_def V30_VAsioMsgSubscriber_bytes_def)
qed

section \<open>Properties\<close>

lemma uint32_max_ge [simp]: "30 \<le> uint32_max"
  by (simp add: uint32_max_def)

text \<open>
  C15: a participant announcement sent in protocol version 3.0 or 3.1 reaches the peer. The
  receiver, which does not know the version yet, finds the sender's header in front of both
  formats, and the announcement it then decodes with the announced version is the one sent,
  less the fields the old format does not have.
\<close>

theorem announcement_delivery:
  assumes "ok_ParticipantAnnouncement a" and "rmh_preamble (pa_messageHeader a) = default_preamble"
    and "length (ParticipantAnnouncement_bytes a) + 30 \<le> uint32_max"
  shows "\<exists>r blob. deliver (ExtractProtocolVersion (pa_messageHeader a)) T_ParticipantAnnouncement
        put_ParticipantAnnouncement get_ParticipantAnnouncement a ep idx
        = Inr (received_Announcement a, r, blob)
      \<and> received_as RK_ParticipantAnnouncement (pa_messageHeader a) r
      \<and> RemainingBytesLeft (sm_buffer r) = 0 \<and> announces_size blob"
proof -
  obtain rest where "ParticipantAnnouncement_bytes a = RegistryMsgHeader_bytes (pa_messageHeader a) @ rest"
    using assms(2) by (rule ParticipantAnnouncement_bytes_head)
  from registry_delivery [where t = T_ParticipantAnnouncement and put = put_ParticipantAnnouncement, simplified,
      OF writes_ParticipantAnnouncement [OF assms(1)] reads_end_ParticipantAnnouncement [OF assms(1)] this assms(3)]
  show ?thesis .
qed

definition example_peer :: VAsioPeerInfo where
  "example_peer = \<lparr>vpi_participantName = ''P1'', vpi_participantId = 7,
     vpi_acceptorUris = [''tcp://host:1''], vpi_capabilities = ''proxy-message''\<rparr>"

lemma ok_example_peer [simp]: "ok_VAsioPeerInfo example_peer"
  by (simp add: ok_VAsioPeerInfo_def example_peer_def ok_length_def uint32_max_def)

definition example_announcement :: ParticipantAnnouncement where
  "example_announcement = \<lparr>pa_messageHeader = MakeRegistryMsgHeader pv30, pa_peerInfo = example_peer,
     pa_simulationName = ''sim''\<rparr>"

theorem announcement_delivery_witness:
  "\<exists>r blob. deliver pv30 T_ParticipantAnnouncement put_ParticipantAnnouncement
        get_ParticipantAnnouncement example_announcement \<lparr>ea_participant = 1, ea_endpoint = 2\<rparr> 3
        = Inr (\<lparr>pa_messageHeader = MakeRegistryMsgHeader pv30,
            pa_peerInfo = example_peer\<lparr>vpi_capabilities := []\<rparr>, pa_simulationName = []\<rparr>, r, blob)
      \<and> received_as RK_ParticipantAnnouncement (MakeRegistryMsgHeader pv30) r
      \<and> RemainingBytesLeft (sm_buffer r) = 0 \<and> announces_size blob"
proof -
  have v: "ExtractProtocolVersion (pa_messageHeader example_announcement) = pv30"
    by (simp add: example_announcement_def ExtractProtocolVersion_def MakeRegistryMsgHeader_def pv30_def)
  have len: "length (ParticipantAnnouncement_bytes example_announcement) + 30 \<le> uint32_max"
    unfolding ParticipantAnnouncement_bytes_def v
    by (simp add: V30_ParticipantAnnouncement_bytes_def
        V30_header_bytes V30_VAsioPeerInfo_bytes_def V30_VAsioPeerUri_bytes_def V30_VAsioPeerUri_of_def
        V30_VAsioPeerInfo_default_def example_announcement_def example_peer_def string_bytes_def
        vector_bytes_def uint32_max_def)
  have "received_Announcement example_announcement = \<lparr>pa_messageHeader = MakeRegistryMsgHeader pv30,
            pa_peerInfo = example_peer\<lparr>vpi_capabilities := []\<rparr>, pa_simulationName = []\<rparr>"
    unfolding received_Announcement_def v
    by (simp add: v30_view_Announcement_def v30_header_def v30_view_PeerInfo_def example_announcement_def)
  moreover have "ok_ParticipantAnnouncement example_announcement"
    "rmh_preamble (pa_messageHeader example_announcement) = default_preamble"
    "pa_messageHeader example_announcement = MakeRegistryMsgHeader pv30"
    by (simp_all add: ok_ParticipantAnnouncement_def example_announcement_def MakeRegistryMsgHeader_def
        RegistryMsgHeader_default_def ok_length_def uint32_max_def)
  ultimately show ?thesis using announcement_delivery [of example_announcement] len v by simp
qed


definition example_reply :: ParticipantAnnouncementReply where
  "example_reply = \<lparr>par_remoteHeader = MakeRegistryMsgHeader pv31, par_status = 0,
     par_subscribers = [\<lparr>vms_receiverIdx = 5, vms_networkName = ''CAN1'', vms_msgTypeName = ''FRAME'', vms_version = 2\<rparr>],
     par_diagnostic = ''no''\<rparr>"


text \<open>
  C17: the list of known participants reaches a peer of either version, with the header it needs to
  tell the version; a peer of version 3.0 does not get the capabilities.
\<close>

theorem known_participants_delivery:
  assumes "ok_KnownParticipants k" and "length (KnownParticipants_bytes v k) + 30 \<le> uint32_max"
  shows "\<exists>r blob. deliver v T_KnownParticipants put_KnownParticipants get_KnownParticipants k ep idx
        = Inr (received_Known v k, r, blob)
      \<and> received_as RK_KnownParticipants (if v = pv30 then v30_header else kp_messageHeader k) r
      \<and> RemainingBytesLeft (sm_buffer r) = 0 \<and> announces_size blob"
proof -
  obtain rest where "KnownParticipants_bytes v k
      = RegistryMsgHeader_bytes (if v = pv30 then v30_header else kp_messageHeader k) @ rest"
    by (cases "v = pv30") (simp_all add: KnownParticipants_bytes_def V30_KnownParticipants_bytes_def
        V30_KnownParticipants_of_def V30_header_bytes)
  from registry_delivery [where t = T_KnownParticipants and put = put_KnownParticipants, simplified,
      OF writes_KnownParticipants [OF assms(1)] reads_end_KnownParticipants [OF assms(1)] this assms(2)]
  show ?thesis .
qed

theorem known_participants_delivery_witness:
  "\<exists>r blob. deliver pv30 T_KnownParticipants put_KnownParticipants get_KnownParticipants
        \<lparr>kp_messageHeader = MakeRegistryMsgHeader pv31, kp_peerInfos = [example_peer]\<rparr>
        \<lparr>ea_participant = 1, ea_endpoint = 2\<rparr> 3
      = Inr (\<lparr>kp_messageHeader = v30_header, kp_peerInfos = [example_peer\<lparr>vpi_capabilities := []\<rparr>]\<rparr>, r, blob)
      \<and> received_as RK_KnownParticipants v30_header r
      \<and> RemainingBytesLeft (sm_buffer r) = 0 \<and> announces_size blob"
  using known_participants_delivery [of "\<lparr>kp_messageHeader = MakeRegistryMsgHeader pv31,
      kp_peerInfos = [example_peer]\<rparr>" pv30 "\<lparr>ea_participant = 1, ea_endpoint = 2\<rparr>" 3]
  by (simp add: ok_KnownParticipants_def ok_VAsioPeerInfo_def ok_length_def uint32_max_def KnownParticipants_bytes_def
      V30_KnownParticipants_bytes_def V30_KnownParticipants_of_def V30_header_bytes vector_bytes_def
      V30_VAsioPeerUri_bytes_def V30_VAsioPeerUri_of_def string_bytes_def example_peer_def
      received_Known_def v30_view_Known_def v30_view_PeerInfo_def)

text \<open>
  C18: an answer to the announcement of a peer that speaks protocol version 3.0 has no header.
  If it lists no subscribers, its body is the 4 bytes of the count alone, and constructing
  the message from the received bytes copies 8 bytes from there: the read leaves the storage.
\<close>

theorem empty_v30_reply_overread:
  "deliver pv30 T_ParticipantAnnouncementReply put_ParticipantAnnouncementReply
     get_ParticipantAnnouncementReply (reply\<lparr>par_subscribers := []\<rparr>) ep idx
   = Inl (Undefined_behaviour ''memcpy reads past the end of the message storage'')"
proof -
  let ?t = T_ParticipantAnnouncementReply and ?reply = "reply\<lparr>par_subscribers := []\<rparr>"
  let ?hdr = "\<lambda>msize. network_header msize MK_SilKitRegistryMessage RK_ParticipantAnnouncementReply idx ep"
    and ?body = "word_le (0 :: 32 word)"
  have put: "put_ParticipantAnnouncementReply ?reply (writing pv30 r s)
      = Inr (writing pv30 r (s @ ?body))" for r s
    by (simp add: put_ParticipantAnnouncementReply_def SerializeV30_ParticipantAnnouncementReply_def
        put_V30_ParticipantAnnouncementReply_def put_vector_def)
  obtain m where send: "SerializedMessage_send pv30 ?t put_ParticipantAnnouncementReply ?reply ep idx = Inr m"
    and m: "mb_storage (sm_buffer m) = ?hdr 0 @ ?body"
    using SerializedMessage_send_writing [of put_ParticipantAnnouncementReply ?reply pv30 ?t idx ep ?body] put
    by (simp add: ReadNetworkHeaders_reply30)
  then obtain m' where rel: "sm_ReleaseStorage m = Inr (?hdr (of_nat (length (?hdr 0 @ ?body))) @ ?body, m')"
    using sm_ReleaseStorage_header [OF m] by (auto simp: network_header_def IsMwOrSim_def uint32_max_def)
  have "MessageBuffer_from (?hdr msize @ ?body) = reading pv31 10 [] (?hdr msize @ ?body)" for msize
    by (simp add: MessageBuffer_from_def reading_def network_header_def IsMwOrSim_def
        CurrentProtocolVersion_def pv31_def)
  then have "SerializedMessage_from (?hdr msize @ ?body)
      = Inl (Undefined_behaviour ''memcpy reads past the end of the message storage'')" for msize
    by (simp add: SerializedMessage_from_def ReadNetworkHeaders_def ReadRegistryHeader_def
        network_header_def header_reads IsMwOrSim_def PeekRegistryMessageHeader_def)
  with send rel show ?thesis by (simp add: deliver_def)
qed

end
