(* ===== verification/RingBuffer.thy ===== *)
theory RingBuffer
  imports Prelude
begin

text \<open>
  The receive buffer of a connection, \<^verbatim>\<open>core/vasio/RingBuffer.{hpp,cpp}\<close>: a circular array into
  which the socket writes through the one or two free regions and from which whole messages are
  read. The locale \<open>byte_queue\<close> is what its client \<^verbatim>\<open>VAsioPeer\<close> relies on, a bounded first-in
  first-out queue of bytes; the ring buffer interprets it.
\<close>

section \<open>The ring buffer\<close>

record ring_buffer =
  rb_buffer :: "byte list"
  rb_size :: nat
  rb_wPos :: nat
  rb_rPos :: nat

definition RingBuffer_new :: "nat \<Rightarrow> ring_buffer" where
  "RingBuffer_new capacity = \<lparr>rb_buffer = replicate capacity 0, rb_size = 0, rb_wPos = 0, rb_rPos = 0\<rparr>"

definition rb_Capacity :: "ring_buffer \<Rightarrow> nat" where
  "rb_Capacity rb = length (rb_buffer rb)"

definition rb_Empty :: "ring_buffer \<Rightarrow> bool" where
  "rb_Empty rb \<longleftrightarrow> rb_size rb = 0"

definition SizeCheck :: "ring_buffer \<Rightarrow> ring_buffer result" where
  "SizeCheck rb =
     (if rb_size rb > rb_Capacity rb then Inl (SilKitError ''Buffer size must not exceed capacity!'')
      else Inr rb)"

text \<open>
  Both positions are reduced modulo the capacity, which has no meaning for a buffer of capacity
  0; \<^verbatim>\<open>_size -= numBytes\<close> wraps at 64 bits.
\<close>

definition AdvanceWPos :: "nat \<Rightarrow> ring_buffer \<Rightarrow> ring_buffer result" where
  "AdvanceWPos numBytes rb =
     (if rb_Capacity rb = 0 then Inl (Undefined_behaviour ''remainder by zero'')
      else SizeCheck (rb\<lparr>rb_wPos := (rb_wPos rb + numBytes) mod rb_Capacity rb,
                         rb_size := rb_size rb + numBytes\<rparr>))"

definition AdvanceRPos :: "nat \<Rightarrow> ring_buffer \<Rightarrow> ring_buffer result" where
  "AdvanceRPos numBytes rb =
     (if rb_Capacity rb = 0 then Inl (Undefined_behaviour ''remainder by zero'')
      else SizeCheck (rb\<lparr>rb_rPos := (rb_rPos rb + numBytes) mod rb_Capacity rb,
                         rb_size := (if numBytes \<le> rb_size rb then rb_size rb - numBytes
                                     else rb_size rb + 2 ^ 64 - numBytes)\<rparr>))"

text \<open>\<open>None\<close> is the result \<^verbatim>\<open>false\<close>; \<open>n\<close> is the size of the vector to be filled.\<close>

definition Peek :: "nat \<Rightarrow> ring_buffer \<Rightarrow> byte list option" where
  "Peek n rb =
     (if n > rb_size rb then None
      else let numBytesArrayOne = min (rb_Capacity rb - rb_rPos rb) n in
        Some (take numBytesArrayOne (drop (rb_rPos rb) (rb_buffer rb))
          @ (if numBytesArrayOne < n then take (n - numBytesArrayOne) (rb_buffer rb) else [])))"

definition Read :: "nat \<Rightarrow> ring_buffer \<Rightarrow> (byte list option \<times> ring_buffer) result" where
  "Read n rb =
     (case Peek n rb of
        None \<Rightarrow> Inr (None, rb)
      | Some elem \<Rightarrow> res_bind (AdvanceRPos n rb) (\<lambda>rb'. Inr (Some elem, rb')))"

definition GetFreeMemorySizeArrayOne :: "ring_buffer \<Rightarrow> nat" where
  "GetFreeMemorySizeArrayOne rb =
     (if rb_Empty rb then rb_Capacity rb - rb_wPos rb
      else min (rb_Capacity rb - rb_wPos rb) (rb_Capacity rb - rb_size rb))"

definition GetFreeMemorySizeArrayTwo :: "ring_buffer \<Rightarrow> nat" where
  "GetFreeMemorySizeArrayTwo rb =
     (if rb_Empty rb then rb_wPos rb
      else (rb_Capacity rb - rb_size rb) - GetFreeMemorySizeArrayOne rb)"

text \<open>A \<^verbatim>\<open>MutableBuffer\<close> into the array is its offset and length.\<close>

definition GetWritingBuffers :: "ring_buffer \<Rightarrow> (nat \<times> nat) list" where
  "GetWritingBuffers rb =
     (let arrayOne = (rb_wPos rb, GetFreeMemorySizeArrayOne rb);
          arrayTwo = (0, GetFreeMemorySizeArrayTwo rb)
      in (if snd arrayOne > 0 then [arrayOne] else []) @ (if snd arrayTwo > 0 then [arrayTwo] else []))"

definition Reserve :: "nat \<Rightarrow> ring_buffer \<Rightarrow> ring_buffer" where
  "Reserve newCapacity rb =
     (if newCapacity \<le> rb_Capacity rb then rb
      else let newBuffer = (case Peek (rb_size rb) rb of Some elem \<Rightarrow> elem | None \<Rightarrow> replicate (rb_size rb) 0) in
        rb\<lparr>rb_buffer := newBuffer @ replicate (newCapacity - length newBuffer) 0,
           rb_rPos := 0, rb_wPos := rb_size rb\<rparr>)"

section \<open>What the socket does with the regions\<close>

text \<open>
  \<^verbatim>\<open>IRawByteStream::AsyncReadSome\<close> fills the buffers of the sequence in order and reports how many
  bytes it transferred; \<^verbatim>\<open>VAsioPeer::OnAsyncReadSomeDone\<close> then advances the write position.
\<close>

definition overwrite_at :: "nat \<Rightarrow> byte list \<Rightarrow> byte list \<Rightarrow> byte list" where
  "overwrite_at p bs xs = take p xs @ bs @ drop (p + length bs) xs"

fun scatter :: "(nat \<times> nat) list \<Rightarrow> byte list \<Rightarrow> byte list \<Rightarrow> byte list" where
  "scatter [] bs buffer = buffer"
| "scatter ((off, len) # regions) bs buffer =
     scatter regions (drop len bs) (overwrite_at off (take len bs) buffer)"

definition socket_transfer :: "byte list \<Rightarrow> ring_buffer \<Rightarrow> ring_buffer result" where
  "socket_transfer bs rb =
     AdvanceWPos (length bs) (rb\<lparr>rb_buffer := scatter (GetWritingBuffers rb) bs (rb_buffer rb)\<rparr>)"

section \<open>Invariant and contents\<close>

definition rb_inv :: "ring_buffer \<Rightarrow> bool" where
  "rb_inv rb \<longleftrightarrow> 0 < rb_Capacity rb \<and> rb_rPos rb < rb_Capacity rb \<and> rb_size rb \<le> rb_Capacity rb
     \<and> rb_wPos rb = (rb_rPos rb + rb_size rb) mod rb_Capacity rb"

definition rb_contents :: "ring_buffer \<Rightarrow> byte list" where
  "rb_contents rb = map (\<lambda>i. rb_buffer rb ! ((rb_rPos rb + i) mod rb_Capacity rb)) [0..<rb_size rb]"

lemma length_rb_contents [simp]: "length (rb_contents rb) = rb_size rb"
  by (simp add: rb_contents_def)

lemma rb_contents_nth:
  "i < rb_size rb \<Longrightarrow> rb_contents rb ! i = rb_buffer rb ! ((rb_rPos rb + i) mod rb_Capacity rb)"
  by (simp add: rb_contents_def)

lemma rb_inv_new: "0 < capacity \<Longrightarrow> rb_inv (RingBuffer_new capacity)"
  by (simp add: rb_inv_def RingBuffer_new_def rb_Capacity_def)

lemma rb_contents_new [simp]: "rb_contents (RingBuffer_new capacity) = []"
  by (simp add: rb_contents_def RingBuffer_new_def)

lemma mod_once: "a < 2 * c \<Longrightarrow> a mod c = (if a < c then a else a - c)" for a c :: nat
  by (simp add: le_mod_geq)

lemma length_overwrite_at [simp]: "p + length bs \<le> length xs \<Longrightarrow> length (overwrite_at p bs xs) = length xs"
  by (simp add: overwrite_at_def)

lemma overwrite_at_nth:
  "p + length bs \<le> length xs \<Longrightarrow> i < length xs \<Longrightarrow>
   overwrite_at p bs xs ! i = (if p \<le> i \<and> i < p + length bs then bs ! (i - p) else xs ! i)"
  by (auto simp: overwrite_at_def nth_append)

lemma overwrite_at_Nil [simp]: "overwrite_at p [] xs = xs"
  by (simp add: overwrite_at_def)

lemma scatter_skip:
  "scatter ((if 0 < len then [(off, len)] else []) @ regions) bs b = scatter ((off, len) # regions) bs b"
  "scatter ((off', len') # (if 0 < len then [(off, len)] else [])) bs b = scatter [(off', len'), (off, len)] bs b"
  by simp_all

text \<open>The two regions are the free part of the circle, in order.\<close>

lemma writing_buffers_scatter:
  assumes "rb_inv rb" and "length bs + rb_size rb \<le> rb_Capacity rb"
  defines "one \<equiv> rb_Capacity rb - rb_wPos rb"
  shows "scatter (GetWritingBuffers rb) bs (rb_buffer rb)
       = overwrite_at 0 (drop one bs) (overwrite_at (rb_wPos rb) (take one bs) (rb_buffer rb))"
proof -
  from assms(1) have w: "rb_wPos rb < rb_Capacity rb" by (simp add: rb_inv_def)
  let ?free = "rb_Capacity rb - rb_size rb"
  have one: "GetFreeMemorySizeArrayOne rb = min one ?free"
    by (auto simp: GetFreeMemorySizeArrayOne_def one_def rb_Empty_def)
  have two: "GetFreeMemorySizeArrayTwo rb = ?free - min one ?free"
    using w by (auto simp: GetFreeMemorySizeArrayTwo_def one rb_Empty_def) (simp add: one_def)
  have len: "length bs \<le> ?free" using assms(2) by simp
  then have t: "take (min one ?free) bs = take one bs" "drop (min one ?free) bs = drop one bs"
    by (auto simp: min_def)
  have rest: "take (?free - min one ?free) (drop one bs) = drop one bs" using len by (auto simp: min_def)
  have "scatter (GetWritingBuffers rb) bs (rb_buffer rb)
      = scatter [(rb_wPos rb, min one ?free), (0, ?free - min one ?free)] bs (rb_buffer rb)"
    unfolding GetWritingBuffers_def Let_def one two by (simp only: scatter_skip snd_conv append_Cons append_Nil)
  also have "\<dots> = overwrite_at 0 (drop one bs) (overwrite_at (rb_wPos rb) (take one bs) (rb_buffer rb))"
    by (simp only: scatter.simps t rest)
  finally show ?thesis .
qed

lemma rb_contents_transfer:
  assumes inv: "rb_inv rb" and len: "length bs + rb_size rb \<le> rb_Capacity rb"
  defines "buf \<equiv> scatter (GetWritingBuffers rb) bs (rb_buffer rb)"
  shows "length buf = rb_Capacity rb"
    and "rb_contents (rb\<lparr>rb_buffer := buf, rb_size := rb_size rb + length bs\<rparr>) = rb_contents rb @ bs"
proof -
  let ?cap = "rb_Capacity rb" and ?w = "rb_wPos rb" and ?r = "rb_rPos rb" and ?n = "rb_size rb"
  let ?one = "?cap - ?w"
  from inv have pos: "?r < ?cap" "?w < ?cap" "?n \<le> ?cap" and w: "?w = (?r + ?n) mod ?cap"
    by (simp_all add: rb_inv_def)
  have weq: "?w = (if ?r + ?n < ?cap then ?r + ?n else ?r + ?n - ?cap)"
    unfolding w using pos by (intro mod_once) simp
  have buf: "buf = overwrite_at 0 (drop ?one bs) (overwrite_at ?w (take ?one bs) (rb_buffer rb))"
    unfolding buf_def by (rule writing_buffers_scatter [OF inv len])
  have b1: "?w + length (take ?one bs) \<le> length (rb_buffer rb)"
    using pos by (simp add: rb_Capacity_def)
  have b2: "0 + length (drop ?one bs) \<le> length (overwrite_at ?w (take ?one bs) (rb_buffer rb))"
    using len pos by (subst length_overwrite_at [OF b1]) (simp add: rb_Capacity_def)
  show lb: "length buf = ?cap" unfolding buf using b1 b2 by (simp add: rb_Capacity_def)
  have nth: "buf ! j = (if ?w \<le> j then if j - ?w < length bs then bs ! (j - ?w) else rb_buffer rb ! j
       else if j + ?one < length bs then bs ! (j + ?one) else rb_buffer rb ! j)" if "j < ?cap" for j
    using that b1 b2 pos len unfolding buf
    by (auto simp: overwrite_at_nth rb_Capacity_def add.commute)
  show "rb_contents (rb\<lparr>rb_buffer := buf, rb_size := ?n + length bs\<rparr>) = rb_contents rb @ bs"
  proof (rule nth_equalityI)
    fix i
    assume "i < length (rb_contents (rb\<lparr>rb_buffer := buf, rb_size := ?n + length bs\<rparr>))"
    then have i: "i < ?n + length bs" by simp
    let ?j = "(?r + i) mod ?cap"
    have j: "?j = (if ?r + i < ?cap then ?r + i else ?r + i - ?cap)" "?j < ?cap"
      using i len pos mod_once [of "?r + i" ?cap] by (linarith, auto)
    have "rb_contents (rb\<lparr>rb_buffer := buf, rb_size := ?n + length bs\<rparr>) ! i = buf ! ?j"
      using i lb by (simp add: rb_contents_nth rb_Capacity_def)
    also have "\<dots> = (rb_contents rb @ bs) ! i"
    proof (cases "i < ?n")
      case True
      then have "buf ! ?j = rb_buffer rb ! ?j"
        using nth [OF j(2)] j(1) weq pos len by (auto split: if_splits)
      with True show ?thesis by (simp add: nth_append rb_contents_nth)
    next
      case False
      with i have k: "i - ?n < length bs" by simp
      have "(?w \<le> ?j \<and> ?j - ?w = i - ?n) \<or> (?j < ?w \<and> ?j + ?one = i - ?n)"
        using j(1) weq pos len i False by (auto split: if_splits)
      with k have "buf ! ?j = bs ! (i - ?n)" using nth [OF j(2)] by auto
      with False show ?thesis by (simp add: nth_append)
    qed
    finally show "rb_contents (rb\<lparr>rb_buffer := buf, rb_size := ?n + length bs\<rparr>) ! i = (rb_contents rb @ bs) ! i" .
  qed simp
qed

lemma rb_Capacity_update [simp]:
  "rb_Capacity (rb\<lparr>rb_size := n\<rparr>) = rb_Capacity rb"
  "rb_Capacity (rb\<lparr>rb_wPos := n\<rparr>) = rb_Capacity rb"
  "rb_Capacity (rb\<lparr>rb_rPos := n\<rparr>) = rb_Capacity rb"
  "rb_Capacity (rb\<lparr>rb_buffer := b\<rparr>) = length b"
  by (simp_all add: rb_Capacity_def)

lemma rb_contents_wPos [simp]: "rb_contents (rb\<lparr>rb_wPos := n\<rparr>) = rb_contents rb"
  by (simp add: rb_contents_def)

lemma socket_transfer_queue:
  assumes inv: "rb_inv rb" and len: "length bs + rb_size rb \<le> rb_Capacity rb"
  shows "\<exists>rb'. socket_transfer bs rb = Inr rb' \<and> rb_inv rb' \<and> rb_contents rb' = rb_contents rb @ bs
      \<and> rb_Capacity rb' = rb_Capacity rb"
proof -
  let ?buf = "scatter (GetWritingBuffers rb) bs (rb_buffer rb)"
  let ?rb = "rb\<lparr>rb_buffer := ?buf, rb_wPos := (rb_wPos rb + length bs) mod rb_Capacity rb,
      rb_size := rb_size rb + length bs\<rparr>"
  note tr = rb_contents_transfer [OF inv len]
  have "socket_transfer bs rb = Inr ?rb"
    using inv len tr(1) by (simp add: socket_transfer_def AdvanceWPos_def SizeCheck_def rb_inv_def)
  moreover have "rb_contents ?rb = rb_contents rb @ bs"
    using tr(2) by (simp add: rb_contents_def)
  moreover have "rb_inv ?rb"
    using inv len tr(1) by (simp add: rb_inv_def mod_simps add.assoc)
  ultimately show ?thesis using tr(1) by simp
qed

lemma Peek_contents:
  assumes inv: "rb_inv rb"
  shows "Peek n rb = (if n \<le> rb_size rb then Some (take n (rb_contents rb)) else None)"
proof (cases "n \<le> rb_size rb")
  case True
  let ?cap = "rb_Capacity rb" and ?r = "rb_rPos rb"
  let ?one = "min (?cap - ?r) n"
  from inv True have pos: "?r < ?cap" "n \<le> ?cap" by (auto simp: rb_inv_def)
  have "take ?one (drop ?r (rb_buffer rb)) @ (if ?one < n then take (n - ?one) (rb_buffer rb) else [])
      = take n (rb_contents rb)" (is "?l = _")
  proof (rule nth_equalityI)
    show "length ?l = length (take n (rb_contents rb))"
      using pos True by (auto simp: rb_Capacity_def min_def)
  next
    fix i
    assume "i < length ?l"
    then have i: "i < n" using pos by (auto simp: rb_Capacity_def min_def split: if_splits)
    have j: "(?r + i) mod ?cap = (if ?r + i < ?cap then ?r + i else ?r + i - ?cap)"
      using i pos by (intro mod_once) simp
    show "?l ! i = take n (rb_contents rb) ! i"
      using i True pos j by (auto simp: rb_contents_nth nth_append rb_Capacity_def min_def add.commute)
  qed
  with True show ?thesis by (simp add: Peek_def Let_def)
qed (simp add: Peek_def)

lemma AdvanceRPos_queue:
  assumes inv: "rb_inv rb" and n: "n \<le> rb_size rb"
  shows "\<exists>rb'. AdvanceRPos n rb = Inr rb' \<and> rb_inv rb' \<and> rb_contents rb' = drop n (rb_contents rb)
      \<and> rb_Capacity rb' = rb_Capacity rb"
proof -
  let ?rb = "rb\<lparr>rb_rPos := (rb_rPos rb + n) mod rb_Capacity rb, rb_size := rb_size rb - n\<rparr>"
  have "AdvanceRPos n rb = Inr ?rb"
    using inv n by (auto simp: AdvanceRPos_def SizeCheck_def rb_inv_def)
  moreover have "rb_contents ?rb = drop n (rb_contents rb)"
    by (rule nth_equalityI) (simp_all add: rb_contents_nth mod_simps add.assoc)
  moreover have "((rb_rPos rb + n) mod rb_Capacity rb + (rb_size rb - n)) mod rb_Capacity rb
      = (rb_rPos rb + rb_size rb) mod rb_Capacity rb"
    using n by (simp only: mod_add_left_eq) simp
  then have "rb_inv ?rb" using inv n by (auto simp: rb_inv_def)
  ultimately show ?thesis by simp
qed

lemma Read_queue:
  assumes inv: "rb_inv rb" and n: "n \<le> rb_size rb"
  shows "\<exists>rb'. Read n rb = Inr (Some (take n (rb_contents rb)), rb') \<and> rb_inv rb'
      \<and> rb_contents rb' = drop n (rb_contents rb) \<and> rb_Capacity rb' = rb_Capacity rb"
  using AdvanceRPos_queue [OF inv n] by (auto simp: Read_def Peek_contents [OF inv] n)

lemma Reserve_queue:
  assumes inv: "rb_inv rb"
  shows "rb_inv (Reserve n rb) \<and> rb_contents (Reserve n rb) = rb_contents rb
    \<and> rb_Capacity (Reserve n rb) = max n (rb_Capacity rb)"
proof (cases "n \<le> rb_Capacity rb")
  case True
  with inv show ?thesis by (simp add: Reserve_def)
next
  case False
  let ?c = "rb_contents rb"
  let ?rb = "rb\<lparr>rb_buffer := ?c @ replicate (n - rb_size rb) 0, rb_rPos := 0, rb_wPos := rb_size rb\<rparr>"
  from False have r: "Reserve n rb = ?rb" by (simp add: Reserve_def Peek_contents [OF inv])
  from inv False have len: "rb_size rb < n" by (simp add: rb_inv_def)
  then have cap: "rb_Capacity ?rb = n" by (simp add: rb_Capacity_def)
  have "rb_contents ?rb = ?c"
    by (rule nth_equalityI) (use len cap in \<open>simp_all add: rb_contents_nth nth_append rb_Capacity_def\<close>)
  with False inv len cap show ?thesis by (simp add: r rb_inv_def)
qed

section \<open>The interface\<close>

locale byte_queue =
  fixes inv :: "'q \<Rightarrow> bool"
    and contents :: "'q \<Rightarrow> byte list"
    and capacity :: "'q \<Rightarrow> nat"
    and transfer :: "byte list \<Rightarrow> 'q \<Rightarrow> 'q result"
    and peek :: "nat \<Rightarrow> 'q \<Rightarrow> byte list option"
    and read :: "nat \<Rightarrow> 'q \<Rightarrow> (byte list option \<times> 'q) result"
    and reserve :: "nat \<Rightarrow> 'q \<Rightarrow> 'q"
  assumes fits: "inv q \<Longrightarrow> length (contents q) \<le> capacity q"
    and transfer_spec: "inv q \<Longrightarrow> length bs + length (contents q) \<le> capacity q \<Longrightarrow>
      \<exists>q'. transfer bs q = Inr q' \<and> inv q' \<and> contents q' = contents q @ bs \<and> capacity q' = capacity q"
    and peek_spec: "inv q \<Longrightarrow>
      peek n q = (if n \<le> length (contents q) then Some (take n (contents q)) else None)"
    and read_spec: "inv q \<Longrightarrow> n \<le> length (contents q) \<Longrightarrow>
      \<exists>q'. read n q = Inr (Some (take n (contents q)), q') \<and> inv q'
        \<and> contents q' = drop n (contents q) \<and> capacity q' = capacity q"
    and reserve_spec: "inv q \<Longrightarrow> inv (reserve n q) \<and> contents (reserve n q) = contents q
      \<and> capacity (reserve n q) = max n (capacity q)"
begin

text \<open>What goes in comes out, unchanged and in order, however the transfer is split.\<close>

lemma fifo:
  assumes "inv q" and "contents q = []" and "length (xs @ ys) \<le> capacity q"
  shows "\<exists>q1 q2 q3. transfer xs q = Inr q1 \<and> transfer ys q1 = Inr q2
    \<and> read (length (xs @ ys)) q2 = Inr (Some (xs @ ys), q3) \<and> inv q3 \<and> contents q3 = []"
proof -
  obtain q1 where 1: "transfer xs q = Inr q1" "inv q1" "contents q1 = xs" "capacity q1 = capacity q"
    using transfer_spec [of q xs] assms by auto
  obtain q2 where 2: "transfer ys q1 = Inr q2" "inv q2" "contents q2 = xs @ ys"
    using transfer_spec [of q1 ys] 1 assms(3) by auto
  obtain q3 where "read (length (xs @ ys)) q2 = Inr (Some (xs @ ys), q3)" "inv q3" "contents q3 = []"
    using read_spec [of q2 "length (xs @ ys)"] 2 by auto
  with 1 2 show ?thesis by blast
qed

lemma reserve_makes_room:
  "inv q \<Longrightarrow> length (contents q) < n \<Longrightarrow> length (contents (reserve n q)) < capacity (reserve n q)"
  using reserve_spec [of q n] by simp

end

interpretation ring: byte_queue rb_inv rb_contents rb_Capacity socket_transfer Peek Read Reserve
  by unfold_locales
    (simp_all add: socket_transfer_queue Peek_contents Read_queue Reserve_queue rb_inv_def [THEN iffD1])

section \<open>Refinement\<close>

text \<open>
  The operations of the ring buffer as its client uses them, and the queue of bytes they stand for:
  a list with a capacity. The queue has no answer where the socket would transfer more bytes than
  were offered to it.
\<close>

datatype rb_op = Op_transfer "byte list" | Op_peek nat | Op_read nat | Op_reserve nat

fun ring_step :: "rb_op \<Rightarrow> ring_buffer \<Rightarrow> (byte list option \<times> ring_buffer) result" where
  "ring_step (Op_transfer bs) rb = res_bind (socket_transfer bs rb) (\<lambda>rb'. Inr (None, rb'))"
| "ring_step (Op_peek n) rb = Inr (Peek n rb, rb)"
| "ring_step (Op_read n) rb = Read n rb"
| "ring_step (Op_reserve n) rb = Inr (None, Reserve n rb)"

fun queue_step :: "rb_op \<Rightarrow> byte list \<times> nat \<Rightarrow> (byte list option \<times> byte list \<times> nat) option" where
  "queue_step (Op_transfer bs) (q, cap) =
     (if length bs + length q \<le> cap then Some (None, q @ bs, cap) else None)"
| "queue_step (Op_peek n) (q, cap) = Some (if n \<le> length q then Some (take n q) else None, q, cap)"
| "queue_step (Op_read n) (q, cap) =
     (if n \<le> length q then Some (Some (take n q), drop n q, cap) else Some (None, q, cap))"
| "queue_step (Op_reserve n) (q, cap) = Some (None, q, max n cap)"

primrec ring_run :: "rb_op list \<Rightarrow> ring_buffer \<Rightarrow> (byte list option list \<times> ring_buffer) result" where
  "ring_run [] rb = Inr ([], rb)"
| "ring_run (op # ops) rb =
     res_bind (ring_step op rb) (\<lambda>(r, rb'). res_bind (ring_run ops rb') (\<lambda>(rs, rb''). Inr (r # rs, rb'')))"

primrec queue_run :: "rb_op list \<Rightarrow> byte list \<times> nat \<Rightarrow> (byte list option list \<times> byte list \<times> nat) option" where
  "queue_run [] q = Some ([], q)"
| "queue_run (op # ops) q =
     (case queue_step op q of None \<Rightarrow> None
      | Some (r, q') \<Rightarrow> (case queue_run ops q' of None \<Rightarrow> None | Some (rs, q'') \<Rightarrow> Some (r # rs, q'')))"

definition rb_abs :: "ring_buffer \<Rightarrow> byte list \<times> nat" where
  "rb_abs rb = (rb_contents rb, rb_Capacity rb)"

lemma ring_step_simulates:
  assumes inv: "rb_inv rb" and "queue_step op (rb_abs rb) = Some (r, q)"
  shows "\<exists>rb'. ring_step op rb = Inr (r, rb') \<and> rb_inv rb' \<and> rb_abs rb' = q"
proof (cases op)
  case (Op_transfer bs)
  with assms show ?thesis
    using ring.transfer_spec [OF inv, of bs] by (auto simp: rb_abs_def split: if_splits)
next
  case (Op_peek n)
  with assms show ?thesis by (auto simp: rb_abs_def ring.peek_spec)
next
  case (Op_read n)
  show ?thesis
  proof (cases "n \<le> rb_size rb")
    case True
    with Op_read assms show ?thesis using ring.read_spec [OF inv, of n] by (auto simp: rb_abs_def)
  next
    case False
    with Op_read assms show ?thesis by (auto simp: rb_abs_def Read_def Peek_def)
  qed
next
  case (Op_reserve n)
  with assms show ?thesis using ring.reserve_spec [OF inv, of n] by (auto simp: rb_abs_def)
qed

lemma ring_run_simulates:
  "rb_inv rb \<Longrightarrow> queue_run ops (rb_abs rb) = Some (rs, q) \<Longrightarrow>
   \<exists>rb'. ring_run ops rb = Inr (rs, rb') \<and> rb_inv rb' \<and> rb_abs rb' = q"
proof (induction ops arbitrary: rb rs)
  case (Cons op ops)
  from Cons.prems(2) obtain r q' rs' where 1: "queue_step op (rb_abs rb) = Some (r, q')"
      and 2: "queue_run ops q' = Some (rs', q)" and rs: "rs = r # rs'"
    by (auto split: option.splits)
  obtain rb1 where rb1: "ring_step op rb = Inr (r, rb1)" "rb_inv rb1" "rb_abs rb1 = q'"
    using ring_step_simulates [OF Cons.prems(1) 1] by auto
  with Cons.IH [of rb1 rs'] 2 rs show ?case by auto
qed simp

text \<open>
  C4: the ring buffer is a first-in first-out queue of bytes: whatever sequence of transfers, peeks,
  reads and reservations is run on a fresh buffer, it gives the answers of the queue and ends with
  its contents, and the positions stay consistent; no operation fails as long as no transfer is
  larger than the free space.
\<close>

theorem ring_buffer_refines_queue:
  assumes "0 < cap" and "queue_run ops ([], cap) = Some (rs, q, cap')"
  shows "\<exists>rb. ring_run ops (RingBuffer_new cap) = Inr (rs, rb) \<and> rb_inv rb
    \<and> rb_contents rb = q \<and> rb_Capacity rb = cap'"
proof -
  have "rb_abs (RingBuffer_new cap) = ([], cap)"
    by (simp add: rb_abs_def rb_Capacity_def RingBuffer_new_def rb_contents_def)
  with ring_run_simulates [OF rb_inv_new [OF assms(1)]] assms(2) show ?thesis
    by (auto simp: rb_abs_def)
qed

theorem ring_buffer_refines_queue_witness:
  "\<exists>rb. ring_run [Op_transfer [1, 2, 3], Op_read 2, Op_transfer [4, 5, 6], Op_peek 4, Op_reserve 9, Op_read 4]
      (RingBuffer_new 4) = Inr ([None, Some [1, 2], None, Some [3, 4, 5, 6], None, Some [3, 4, 5, 6]], rb)
    \<and> rb_inv rb \<and> rb_contents rb = [] \<and> rb_Capacity rb = 9"
  by (rule ring_buffer_refines_queue) simp_all

end
