(* ===== verification/VAsioPeer.thy ===== *)
theory VAsioPeer
  imports SerializedMessage RingBuffer
begin

text \<open>
  One connection to another participant, \<^verbatim>\<open>core/vasio/VAsioPeer.{hpp,cpp}\<close>: the receive path from
  chunks of the byte stream to messages and the send path with its queue, its partial writes and
  the optional aggregation of messages. An operation returns the new state, the calls it made to
  the I/O context, the socket, the timer and the listener, and the exception it ended with, if any.
  Metrics and logging are left out. The listener (\<^verbatim>\<open>VAsioConnection\<close>) is a parameter: what it does to
  the peer while it handles a message is a list of calls of the peer's own interface.
\<close>

section \<open>State\<close>

record VAsioPeer =
  vp_protocolVersion :: protocol_version
  vp_isShuttingDown :: bool
  vp_currentMsgSize :: "32 word"
  vp_msgBuffer :: ring_buffer
  vp_sendingQueue :: "byte list list"
  vp_currentSendingBuffer :: "byte list"
  vp_aggregatedMessages :: "byte list"
  vp_sending :: bool
  vp_useAggregation :: bool
  vp_initialTimerStarted :: bool

datatype peer_event =
    Ev_Dispatch_StartAsyncWrite
  | Ev_AsyncWriteSome "byte list"
  | Ev_AsyncReadSome "(nat \<times> nat) list"
  | Ev_OnSocketData SerializedMessage
  | Ev_Socket_Shutdown
  | Ev_Timer_AsyncWaitFor
  | Ev_Timer_Shutdown

type_synonym outcome = "VAsioPeer \<times> peer_event list \<times> error option"

definition VAsioPeer_new :: VAsioPeer where
  "VAsioPeer_new = \<lparr>vp_protocolVersion = \<lparr>pv_major = 0, pv_minor = 0\<rparr>, vp_isShuttingDown = False,
     vp_currentMsgSize = 0, vp_msgBuffer = RingBuffer_new 4096, vp_sendingQueue = [],
     vp_currentSendingBuffer = [], vp_aggregatedMessages = [], vp_sending = False,
     vp_useAggregation = False, vp_initialTimerStarted = False\<rparr>"

definition emit :: "peer_event list \<Rightarrow> outcome \<Rightarrow> outcome" where
  "emit evs out = (case out of (p, evs', err) \<Rightarrow> (p, evs @ evs', err))"

definition and_then :: "outcome \<Rightarrow> (VAsioPeer \<Rightarrow> outcome) \<Rightarrow> outcome" where
  "and_then out f =
     (case out of (p, evs, None) \<Rightarrow> emit evs (f p) | (p, evs, Some e) \<Rightarrow> (p, evs, Some e))"

section \<open>Sending\<close>

definition vp_Shutdown :: "VAsioPeer \<Rightarrow> outcome" where
  "vp_Shutdown p =
     (p\<lparr>vp_isShuttingDown := True, vp_sendingQueue := []\<rparr>, [Ev_Socket_Shutdown, Ev_Timer_Shutdown], None)"

definition SendSilKitMsgInternal :: "byte list \<Rightarrow> VAsioPeer \<Rightarrow> outcome" where
  "SendSilKitMsgInternal blob p =
     (if \<not> vp_isShuttingDown p
      then (p\<lparr>vp_sendingQueue := vp_sendingQueue p @ [blob]\<rparr>, [Ev_Dispatch_StartAsyncWrite], None)
      else (p, [], None))"

definition Flush :: "VAsioPeer \<Rightarrow> outcome" where
  "Flush p =
     and_then (SendSilKitMsgInternal (vp_aggregatedMessages p) (p\<lparr>vp_aggregatedMessages := []\<rparr>))
       (\<lambda>p. (p, [Ev_Timer_AsyncWaitFor], None))"

definition aggregationBufferThreshold :: nat where
  "aggregationBufferThreshold = 100 * 1000"

definition Aggregate :: "byte list \<Rightarrow> VAsioPeer \<Rightarrow> outcome" where
  "Aggregate blob p =
     and_then (if \<not> vp_initialTimerStarted p
               then (p\<lparr>vp_initialTimerStarted := True\<rparr>, [Ev_Timer_AsyncWaitFor], None) else (p, [], None))
     (\<lambda>p. let p' = p\<lparr>vp_aggregatedMessages := vp_aggregatedMessages p @ blob\<rparr> in
        if length (vp_aggregatedMessages p') > aggregationBufferThreshold then Flush p' else (p', [], None))"

definition SendSilKitMsg :: "SerializedMessage \<Rightarrow> VAsioPeer \<Rightarrow> outcome" where
  "SendSilKitMsg buffer p =
     (case sm_ReleaseStorage buffer of
        Inl e \<Rightarrow> (p, [], Some e)
      | Inr (blob, buffer') \<Rightarrow>
          if vp_useAggregation p \<and> sm_aggregationKind buffer' = UserDataMessage then Aggregate blob p
          else if vp_useAggregation p \<and> sm_aggregationKind buffer' = FlushAggregationMessage
          then and_then (Aggregate blob p) Flush
          else SendSilKitMsgInternal blob p)"

definition WriteSomeAsync :: "VAsioPeer \<Rightarrow> outcome" where
  "WriteSomeAsync p = (p, [Ev_AsyncWriteSome (vp_currentSendingBuffer p)], None)"

definition StartAsyncWrite :: "VAsioPeer \<Rightarrow> outcome" where
  "StartAsyncWrite p =
     (if vp_sending p then (p, [], None)
      else case vp_sendingQueue p of
        [] \<Rightarrow> (p, [], None)
      | blob # rest \<Rightarrow> WriteSomeAsync
          (p\<lparr>vp_sending := True, vp_sendingQueue := rest, vp_currentSendingBuffer := blob\<rparr>))"

definition OnAsyncWriteSomeDone :: "nat \<Rightarrow> VAsioPeer \<Rightarrow> outcome" where
  "OnAsyncWriteSomeDone bytesTransferred p =
     (if bytesTransferred < length (vp_currentSendingBuffer p)
      then WriteSomeAsync (p\<lparr>vp_currentSendingBuffer := drop bytesTransferred (vp_currentSendingBuffer p)\<rparr>)
      else StartAsyncWrite (p\<lparr>vp_sending := False\<rparr>))"

definition OnTimerExpired :: "VAsioPeer \<Rightarrow> outcome" where
  "OnTimerExpired p = (if vp_aggregatedMessages p \<noteq> [] then Flush p else (p, [], None))"

definition EnableAggregation :: "VAsioPeer \<Rightarrow> VAsioPeer" where
  "EnableAggregation p = p\<lparr>vp_useAggregation := True\<rparr>"

definition vp_Subscribe :: "VAsioMsgSubscriber \<Rightarrow> VAsioPeer \<Rightarrow> outcome" where
  "vp_Subscribe subscriber p =
     (case SerializedMessage_of T_VAsioMsgSubscriber put_VAsioMsgSubscriber subscriber of
        Inl e \<Rightarrow> (p, [], Some e) | Inr m \<Rightarrow> SendSilKitMsg m p)"

section \<open>Receiving\<close>

text \<open>The calls the listener makes on the peer during \<^verbatim>\<open>OnSocketData\<close>.\<close>

datatype listener_action =
    Act_SetProtocolVersion protocol_version
  | Act_Send SerializedMessage
  | Act_Subscribe VAsioMsgSubscriber
  | Act_EnableAggregation
  | Act_Shutdown

fun perform :: "listener_action \<Rightarrow> VAsioPeer \<Rightarrow> outcome" where
  "perform (Act_SetProtocolVersion v) p = (p\<lparr>vp_protocolVersion := v\<rparr>, [], None)"
| "perform (Act_Send m) p = SendSilKitMsg m p"
| "perform (Act_Subscribe s) p = vp_Subscribe s p"
| "perform Act_EnableAggregation p = (EnableAggregation p, [], None)"
| "perform Act_Shutdown p = vp_Shutdown p"

fun perform_all :: "listener_action list \<Rightarrow> VAsioPeer \<Rightarrow> outcome" where
  "perform_all [] p = (p, [], None)"
| "perform_all (a # as) p = and_then (perform a p) (perform_all as)"

definition ReadSomeAsync :: "VAsioPeer \<Rightarrow> outcome" where
  "ReadSomeAsync p =
     (if rb_Capacity (vp_msgBuffer p) = rb_size (vp_msgBuffer p)
      then (p, [], Some (AssertionError ''_msgBuffer.Capacity() - _msgBuffer.Size() > 0''))
      else (p, [Ev_AsyncReadSome (GetWritingBuffers (vp_msgBuffer p))], None))"

definition StartAsyncRead :: "VAsioPeer \<Rightarrow> outcome" where
  "StartAsyncRead p = ReadSomeAsync (p\<lparr>vp_currentMsgSize := 0\<rparr>)"

text \<open>
  The first part of \<^verbatim>\<open>DispatchBuffer\<close> (lines 226-248): \<open>Inl\<close> where the function returns,
  \<open>Inr\<close> where it goes on with a message size.
\<close>

definition DetermineMsgSize :: "VAsioPeer \<Rightarrow> outcome + VAsioPeer" where
  "DetermineMsgSize p =
     (if vp_currentMsgSize p \<noteq> 0 then Inr p
      else if vp_isShuttingDown p then Inl (p, [], None)
      else if rb_size (vp_msgBuffer p) \<ge> 4
      then (case Peek 4 (vp_msgBuffer p) of
              None \<Rightarrow> Inl (p, [], Some (SilKitError ''Reading message size from ring buffer failed.''))
            | Some msgSizeInBytes \<Rightarrow> Inr (p\<lparr>vp_currentMsgSize := le_word msgSizeInBytes\<rparr>))
      else Inl (ReadSomeAsync p))"

definition max_message_size :: nat where
  "max_message_size = 1024 * 1024 * 1024"

text \<open>
  Lines 250-255 validate the size; the function goes on after \<^verbatim>\<open>Shutdown\<close>, also with a size of 0
  or of more than a gigabyte.
\<close>

definition ValidateMsgSize :: "VAsioPeer \<Rightarrow> outcome" where
  "ValidateMsgSize p =
     (if vp_currentMsgSize p = 0 \<or> unat (vp_currentMsgSize p) > max_message_size then vp_Shutdown p
      else (p, [], None))"

lemma SerializedMessage_from_Nil [simp]: "SerializedMessage_from [] = Inl End_of_buffer"
  by (simp add: SerializedMessage_from_def ReadNetworkHeaders_def ExtractMessageSize_def
      MessageBuffer_from_def get_word_def)

lemma and_then_simps [simp]:
  "and_then (p, evs, None) f = emit evs (f p)"
  "and_then (p, evs, Some e) f = (p, evs, Some e)"
  by (simp_all add: and_then_def)

lemma emit_simps [simp]: "emit evs (p, evs', err) = (p, evs @ evs', err)"
  by (simp add: emit_def)

lemma fst_emit [simp]: "fst (emit evs out) = fst out"
  by (cases out) simp

lemma vp_msgBuffer_and_then:
  assumes "vp_msgBuffer (fst out) = rb" and "\<And>q. vp_msgBuffer (fst (f q)) = vp_msgBuffer q"
  shows "vp_msgBuffer (fst (and_then out f)) = rb"
  using assms by (cases out rule: prod_cases3) (auto simp: and_then_def split: option.splits)

lemma vp_msgBuffer_send [simp]:
  "vp_msgBuffer (fst (vp_Shutdown p)) = vp_msgBuffer p"
  "vp_msgBuffer (fst (SendSilKitMsgInternal blob p)) = vp_msgBuffer p"
  "vp_msgBuffer (fst (Flush p)) = vp_msgBuffer p"
  by (simp_all add: vp_Shutdown_def SendSilKitMsgInternal_def Flush_def)

lemma vp_msgBuffer_Aggregate [simp]: "vp_msgBuffer (fst (Aggregate blob p)) = vp_msgBuffer p"
  unfolding Aggregate_def by (rule vp_msgBuffer_and_then) (simp_all add: Let_def)

lemma vp_msgBuffer_SendSilKitMsg [simp]: "vp_msgBuffer (fst (SendSilKitMsg m p)) = vp_msgBuffer p"
  by (auto simp: SendSilKitMsg_def intro: vp_msgBuffer_and_then split: sum.splits)

lemma vp_msgBuffer_perform_all [simp]: "vp_msgBuffer (fst (perform_all as p)) = vp_msgBuffer p"
proof (induction as arbitrary: p)
  case (Cons a as)
  have "vp_msgBuffer (fst (perform a p)) = vp_msgBuffer p"
    by (cases a) (simp_all add: EnableAggregation_def vp_Subscribe_def split: sum.split)
  with Cons.IH show ?case by (simp add: vp_msgBuffer_and_then)
qed simp

lemma Read_size:
  assumes "Read n rb = Inr (Some elem, rb')"
  shows "rb_size rb' = rb_size rb - n" and "n \<le> rb_size rb" and "n = 0 \<Longrightarrow> elem = []"
proof -
  from assms show n: "n \<le> rb_size rb"
    by (auto simp: Read_def Peek_def Let_def split: option.splits if_splits)
  with assms show "rb_size rb' = rb_size rb - n"
    by (auto simp: Read_def AdvanceRPos_def SizeCheck_def res_bind_Inr_iff split: option.splits if_splits)
qed (use assms in \<open>auto simp: Read_def Peek_def res_bind_Inr_iff\<close>)

function DispatchBuffer :: "(SerializedMessage \<Rightarrow> listener_action list) \<Rightarrow> VAsioPeer \<Rightarrow> outcome" where
  "DispatchBuffer listener p0 =
     (case DetermineMsgSize p0 of Inl out \<Rightarrow> out | Inr p1 \<Rightarrow>
      (case ValidateMsgSize p1 of (p2, evs, _) \<Rightarrow>
       (let n = unat (vp_currentMsgSize p2) in
        if rb_size (vp_msgBuffer p2) < n
        then emit evs (ReadSomeAsync
               (if rb_Capacity (vp_msgBuffer p2) < n
                then p2\<lparr>vp_msgBuffer := Reserve n (vp_msgBuffer p2)\<rparr> else p2))
        else (case Read n (vp_msgBuffer p2) of
            Inl e \<Rightarrow> (p2, evs, Some e)
          | Inr (None, rb) \<Rightarrow> (p2, evs, Some (SilKitError ''Reading data from ring buffer failed.''))
          | Inr (Some currentMsg, rb) \<Rightarrow>
             (case SerializedMessage_from currentMsg of
                Inl e \<Rightarrow> (p2\<lparr>vp_msgBuffer := rb\<rparr>, evs, Some e)
              | Inr m \<Rightarrow>
                 (let message = sm_SetProtocolVersion (vp_protocolVersion p2) m in
                  case perform_all (listener message) (p2\<lparr>vp_msgBuffer := rb\<rparr>) of
                    (p3, evs3, Some e) \<Rightarrow> (p3, evs @ Ev_OnSocketData message # evs3, Some e)
                  | (p3, evs3, None) \<Rightarrow>
                      emit (evs @ Ev_OnSocketData message # evs3)
                        (DispatchBuffer listener (p3\<lparr>vp_currentMsgSize := 0\<rparr>))))))))"
  by pat_completeness auto

lemma DetermineMsgSize_buffer: "DetermineMsgSize p = Inr p' \<Longrightarrow> vp_msgBuffer p' = vp_msgBuffer p"
  by (auto simp: DetermineMsgSize_def split: if_splits option.splits)

lemma ValidateMsgSize_buffer: "ValidateMsgSize p = (p', evs, err) \<Longrightarrow> vp_msgBuffer p' = vp_msgBuffer p"
  by (auto simp: ValidateMsgSize_def vp_Shutdown_def split: if_splits)

lemma dispatch_decreases:
  assumes "DetermineMsgSize p0 = Inr p1" and "ValidateMsgSize p1 = (p2, evs, err)"
    and r: "Read n (vp_msgBuffer p2) = Inr (Some currentMsg, rb)"
    and "SerializedMessage_from currentMsg = Inr m"
    and "perform_all as (p2\<lparr>vp_msgBuffer := rb\<rparr>) = (p3, out)"
  shows "rb_size (vp_msgBuffer p3) < rb_size (vp_msgBuffer p0)"
proof -
  have "vp_msgBuffer p2 = vp_msgBuffer p0"
    using assms(1,2) DetermineMsgSize_buffer ValidateMsgSize_buffer by metis
  moreover have "vp_msgBuffer p3 = rb"
    using vp_msgBuffer_perform_all [of as "p2\<lparr>vp_msgBuffer := rb\<rparr>"] assms(5) by simp
  moreover have "n \<noteq> 0"
  proof
    assume "n = 0"
    then have "currentMsg = []" by (rule Read_size(3) [OF r])
    with assms(4) show False by simp
  qed
  ultimately show ?thesis using Read_size(1,2) [OF r] by simp
qed

termination DispatchBuffer
  by (relation "measure (\<lambda>(_, p). rb_size (vp_msgBuffer p))")
     (auto dest: sym [of "(_, _)"] intro: dispatch_decreases)

declare DispatchBuffer.simps [simp del]

definition OnAsyncReadSomeDone ::
    "(SerializedMessage \<Rightarrow> listener_action list) \<Rightarrow> byte list \<Rightarrow> VAsioPeer \<Rightarrow> outcome" where
  "OnAsyncReadSomeDone listener transferred p =
     (case socket_transfer transferred (vp_msgBuffer p) of
        Inl e \<Rightarrow> (p, [], Some e)
      | Inr rb \<Rightarrow> DispatchBuffer listener (p\<lparr>vp_msgBuffer := rb\<rparr>))"

section \<open>Framing\<close>

text \<open>
  A frame is what \<^verbatim>\<open>SerializedMessage::ReleaseStorage\<close> produces: its first four bytes are its
  length, and the receiver can read its network headers.
\<close>

definition frame_ok :: "byte list \<Rightarrow> bool" where
  "frame_ok blob \<longleftrightarrow> announces_size blob \<and> length blob \<le> max_message_size
     \<and> (\<exists>m. SerializedMessage_from blob = Inr m)"

definition parse_frame :: "byte list \<Rightarrow> SerializedMessage" where
  "parse_frame blob = (case SerializedMessage_from blob of Inr m \<Rightarrow> m | Inl _ \<Rightarrow> SerializedMessage_default)"

definition partial_frame :: "byte list \<Rightarrow> bool" where
  "partial_frame part \<longleftrightarrow> (\<exists>blob. frame_ok blob \<and> strict_prefix part blob)"

fun delivered :: "peer_event list \<Rightarrow> SerializedMessage list" where
  "delivered [] = []"
| "delivered (Ev_OnSocketData m # evs) = m # delivered evs"
| "delivered (_ # evs) = delivered evs"

text \<open>The version of the connection is stamped on a message before it is handed over; \<open>same_message\<close> ignores it.\<close>

definition same_message :: "SerializedMessage \<Rightarrow> SerializedMessage \<Rightarrow> bool" where
  "same_message m m' \<longleftrightarrow> (\<exists>v. m = sm_SetProtocolVersion v m')"

fun well_behaved :: "listener_action \<Rightarrow> bool" where
  "well_behaved (Act_Send m) = (\<exists>r. sm_ReleaseStorage m = Inr r)"
| "well_behaved (Act_Subscribe s) =
     (\<exists>m r. SerializedMessage_of T_VAsioMsgSubscriber put_VAsioMsgSubscriber s = Inr m \<and> sm_ReleaseStorage m = Inr r)"
| "well_behaved Act_Shutdown = False"
| "well_behaved _ = True"

lemma delivered_append [simp]: "delivered (xs @ ys) = delivered xs @ delivered ys"
  by (induction xs rule: delivered.induct) simp_all

definition quiet :: "VAsioPeer \<Rightarrow> outcome \<Rightarrow> bool" where
  "quiet p out \<longleftrightarrow> (case out of (p', evs, err) \<Rightarrow>
     err = None \<and> vp_isShuttingDown p' = vp_isShuttingDown p \<and> delivered evs = [])"

lemma quiet_done [simp]: "quiet p (p', evs, err) \<longleftrightarrow>
    err = None \<and> vp_isShuttingDown p' = vp_isShuttingDown p \<and> delivered evs = []"
  by (simp add: quiet_def)

lemma quiet_and_then:
  assumes "quiet p out" and "\<And>q. vp_isShuttingDown q = vp_isShuttingDown p \<Longrightarrow> quiet q (f q)"
  shows "quiet p (and_then out f)"
proof -
  obtain q evs where out: "out = (q, evs, None)" "vp_isShuttingDown q = vp_isShuttingDown p" "delivered evs = []"
    using assms(1) by (cases out rule: prod_cases3) simp
  moreover have "quiet q (f q)" using assms(2) out(2) .
  ultimately show ?thesis by (cases "f q" rule: prod_cases3) simp
qed

lemma quiet_send [simp]:
  "quiet p (SendSilKitMsgInternal blob p)"
  "quiet p (Flush p)"
  by (simp_all add: SendSilKitMsgInternal_def Flush_def)

lemma quiet_Aggregate [simp]: "quiet p (Aggregate blob p)"
proof -
  have "quiet q (let p' = q\<lparr>vp_aggregatedMessages := vp_aggregatedMessages q @ blob\<rparr> in
        if length (vp_aggregatedMessages p') > aggregationBufferThreshold then Flush p' else (p', [], None))" for q
    using quiet_send(2) [of "q\<lparr>vp_aggregatedMessages := vp_aggregatedMessages q @ blob\<rparr>"]
    by (simp add: Let_def quiet_def)
  then show ?thesis unfolding Aggregate_def by (intro quiet_and_then) simp_all
qed

lemma quiet_SendSilKitMsg: "sm_ReleaseStorage m = Inr r \<Longrightarrow> quiet p (SendSilKitMsg m p)"
  by (cases r) (auto simp: SendSilKitMsg_def intro: quiet_and_then)

lemma quiet_perform: "well_behaved a \<Longrightarrow> quiet p (perform a p)"
  by (cases a) (auto simp: EnableAggregation_def vp_Subscribe_def intro: quiet_SendSilKitMsg)

lemma quiet_perform_all: "\<forall>a \<in> set as. well_behaved a \<Longrightarrow> quiet p (perform_all as p)"
  by (induction as arbitrary: p) (auto intro: quiet_and_then quiet_perform)

section \<open>The receive invariant\<close>

definition recv_inv :: "VAsioPeer \<Rightarrow> byte list \<Rightarrow> bool" where
  "recv_inv p rest \<longleftrightarrow> rb_inv (vp_msgBuffer p) \<and> 4 < rb_Capacity (vp_msgBuffer p)
     \<and> rb_contents (vp_msgBuffer p) = rest \<and> \<not> vp_isShuttingDown p
     \<and> (vp_currentMsgSize p = 0 \<or> 4 \<le> length rest \<and> vp_currentMsgSize p = le_word (take 4 rest))"

lemma recv_inv_size: "recv_inv p rest \<Longrightarrow> rb_size (vp_msgBuffer p) = length rest"
  by (metis recv_inv_def length_rb_contents)

lemma frame_size:
  assumes "frame_ok blob"
  shows "4 \<le> length blob" and "unat (le_word (take 4 blob) :: 32 word) = length blob"
    and "(le_word (take 4 blob) :: 32 word) \<noteq> 0"
proof -
  from assms have a: "announces_size blob" "length blob \<le> max_message_size" by (simp_all add: frame_ok_def)
  then show 4: "4 \<le> length blob" by (simp add: announces_size_def)
  from a show eq: "unat (le_word (take 4 blob) :: 32 word) = length blob"
    by (simp add: announces_size_def unat_of_nat max_message_size_def)
  show "(le_word (take 4 blob) :: 32 word) \<noteq> 0"
  proof
    assume "(le_word (take 4 blob) :: 32 word) = 0"
    with eq 4 show False by simp
  qed
qed

lemma frame_length: "frame_ok blob \<Longrightarrow> length blob \<le> max_message_size"
  by (simp add: frame_ok_def)

lemma DetermineMsgSize_known:
  assumes "recv_inv p rest" and "4 \<le> length rest"
  shows "DetermineMsgSize p = Inr (p\<lparr>vp_currentMsgSize := le_word (take 4 rest)\<rparr>)"
proof -
  have sz: "rb_size (vp_msgBuffer p) = length rest" using assms(1) by (rule recv_inv_size)
  from assms(1) have p: "Peek 4 (vp_msgBuffer p) = Some (take 4 rest)" "\<not> vp_isShuttingDown p"
    "vp_currentMsgSize p \<noteq> 0 \<Longrightarrow> vp_currentMsgSize p = le_word (take 4 rest)"
    using assms(2) sz unfolding recv_inv_def by (simp_all add: Peek_contents)
  show ?thesis
  proof (cases "vp_currentMsgSize p = 0")
    case True
    with p sz assms(2) show ?thesis by (simp add: DetermineMsgSize_def)
  next
    case False
    then have "p\<lparr>vp_currentMsgSize := le_word (take 4 rest)\<rparr> = p" by (subst p(3) [symmetric]) simp_all
    with False show ?thesis by (simp add: DetermineMsgSize_def)
  qed
qed

lemma dispatch_waits:
  assumes inv: "recv_inv p part" and part: "partial_frame part"
  shows "\<exists>p' evs. DispatchBuffer listener p = (p', evs, None) \<and> recv_inv p' part \<and> delivered evs = []
      \<and> rb_size (vp_msgBuffer p') < rb_Capacity (vp_msgBuffer p')"
proof (cases "4 \<le> length part")
  case False
  then have "vp_currentMsgSize p = 0" "\<not> vp_isShuttingDown p" "\<not> 4 \<le> rb_size (vp_msgBuffer p)"
    using inv recv_inv_size [OF inv] unfolding recv_inv_def by simp_all
  then have "DetermineMsgSize p = Inl (ReadSomeAsync p)" by (simp add: DetermineMsgSize_def)
  moreover have room: "rb_size (vp_msgBuffer p) < rb_Capacity (vp_msgBuffer p)"
    using recv_inv_size [OF inv] inv False by (simp add: recv_inv_def)
  ultimately have "DispatchBuffer listener p = (p, [Ev_AsyncReadSome (GetWritingBuffers (vp_msgBuffer p))], None)"
    by (subst DispatchBuffer.simps) (simp add: ReadSomeAsync_def)
  with inv room show ?thesis by simp
next
  case True
  from part obtain blob where blob: "frame_ok blob" "strict_prefix part blob" by (auto simp: partial_frame_def)
  then have lt: "length part < length blob" by (auto dest: strict_prefix_length)
  from blob(2) True have head: "take 4 part = take 4 blob"
    by (auto simp: strict_prefix_def prefix_def)
  let ?p = "p\<lparr>vp_currentMsgSize := le_word (take 4 blob)\<rparr>"
  let ?n = "unat (vp_currentMsgSize ?p)"
  note sz = frame_size [OF blob(1)]
  have n: "?n = length blob" using sz(2) by simp
  let ?q = "if rb_Capacity (vp_msgBuffer ?p) < ?n then ?p\<lparr>vp_msgBuffer := Reserve ?n (vp_msgBuffer ?p)\<rparr> else ?p"
  have det: "DetermineMsgSize p = Inr ?p" using DetermineMsgSize_known [OF inv True] head by simp
  have val: "ValidateMsgSize ?p = (?p, [], None)"
    using sz frame_length [OF blob(1)] by (simp add: ValidateMsgSize_def)
  have q: "recv_inv ?q part" "length part < rb_Capacity (vp_msgBuffer ?q)"
    using inv True head lt n ring.reserve_spec [of "vp_msgBuffer p" ?n] by (auto simp: recv_inv_def)
  have "DispatchBuffer listener p = ReadSomeAsync ?q"
    using lt recv_inv_size [OF inv] n
    by (subst DispatchBuffer.simps) (simp add: det val Let_def emit_def split: prod.split)
  then show ?thesis
    using q recv_inv_size [OF q(1)] by (auto simp: ReadSomeAsync_def)
qed

lemma dispatch_frame:
  assumes inv: "recv_inv p (blob @ rest)" and blob: "frame_ok blob"
    and wb: "\<forall>m. \<forall>a \<in> set (listener m). well_behaved a"
  shows "\<exists>p' evs m. DispatchBuffer listener p = emit evs (DispatchBuffer listener p')
      \<and> recv_inv p' rest \<and> delivered evs = [m] \<and> same_message m (parse_frame blob)"
proof -
  note sz = frame_size [OF blob]
  let ?p = "p\<lparr>vp_currentMsgSize := le_word (take 4 blob)\<rparr>"
  let ?n = "unat (vp_currentMsgSize ?p)"
  have n: "?n = length blob" using sz(2) by simp
  have det: "DetermineMsgSize p = Inr ?p" using DetermineMsgSize_known [OF inv] sz(1) by simp
  have val: "ValidateMsgSize ?p = (?p, [], None)"
    using sz frame_length [OF blob] by (simp add: ValidateMsgSize_def)
  obtain m where m: "SerializedMessage_from blob = Inr m" using blob by (auto simp: frame_ok_def)
  obtain rb where rb: "Read ?n (vp_msgBuffer p) = Inr (Some blob, rb)" "rb_inv rb" "rb_contents rb = rest"
      "rb_Capacity rb = rb_Capacity (vp_msgBuffer p)"
    using ring.read_spec [of "vp_msgBuffer p" ?n] recv_inv_size [OF inv] inv n by (auto simp: recv_inv_def)
  let ?m = "sm_SetProtocolVersion (vp_protocolVersion p) m"
  obtain p3 evs3 where act: "perform_all (listener ?m) (?p\<lparr>vp_msgBuffer := rb\<rparr>) = (p3, evs3, None)"
      "vp_isShuttingDown p3 = vp_isShuttingDown p" "delivered evs3 = []"
    using quiet_perform_all [of "listener ?m" "?p\<lparr>vp_msgBuffer := rb\<rparr>"] wb
    by (cases "perform_all (listener ?m) (?p\<lparr>vp_msgBuffer := rb\<rparr>)" rule: prod_cases3) auto
  have p3: "vp_msgBuffer p3 = rb"
    using vp_msgBuffer_perform_all [of "listener ?m" "?p\<lparr>vp_msgBuffer := rb\<rparr>"] act(1) by simp
  have "DispatchBuffer listener p = emit (Ev_OnSocketData ?m # evs3)
      (DispatchBuffer listener (p3\<lparr>vp_currentMsgSize := 0\<rparr>))"
    using recv_inv_size [OF inv] n rb(1) act(1)
    by (subst DispatchBuffer.simps) (simp add: det val m)
  moreover have "recv_inv (p3\<lparr>vp_currentMsgSize := 0\<rparr>) rest"
    using inv rb p3 act(2) by (simp add: recv_inv_def)
  moreover have "delivered (Ev_OnSocketData ?m # evs3) = [?m]" using act(3) by simp
  moreover have "same_message ?m (parse_frame blob)" using m by (auto simp: same_message_def parse_frame_def)
  ultimately show ?thesis by blast
qed

lemma dispatch_stream:
  assumes "\<forall>b \<in> set blobs. frame_ok b" and "partial_frame part"
    and wb: "\<forall>m. \<forall>a \<in> set (listener m). well_behaved a"
    and "recv_inv p (concat blobs @ part)"
  shows "\<exists>p' evs. DispatchBuffer listener p = (p', evs, None) \<and> recv_inv p' part
      \<and> list_all2 same_message (delivered evs) (map parse_frame blobs)
      \<and> rb_size (vp_msgBuffer p') < rb_Capacity (vp_msgBuffer p')"
  using assms
proof (induction blobs arbitrary: p)
  case Nil
  then show ?case using dispatch_waits [of p part listener] by auto
next
  case (Cons blob blobs)
  obtain p1 evs1 m where 1: "DispatchBuffer listener p = emit evs1 (DispatchBuffer listener p1)"
      "recv_inv p1 (concat blobs @ part)" "delivered evs1 = [m]" "same_message m (parse_frame blob)"
    using dispatch_frame [of p blob "concat blobs @ part" listener] Cons.prems by auto
  obtain p2 evs2 where "DispatchBuffer listener p1 = (p2, evs2, None)" "recv_inv p2 part"
      "list_all2 same_message (delivered evs2) (map parse_frame blobs)"
      "rb_size (vp_msgBuffer p2) < rb_Capacity (vp_msgBuffer p2)"
    using Cons.IH [of p1] Cons.prems 1(2) by auto
  with 1 show ?case by simp
qed

lemma partial_frame_Nil: "frame_ok b \<Longrightarrow> partial_frame []"
  using frame_size(1) [of b] by (auto simp: partial_frame_def strict_prefix_def)

text \<open>Every prefix of a stream of frames is a stream of frames and a partial one.\<close>

lemma stream_prefix:
  assumes "prefix bs (concat blobs @ part)" and "\<forall>b \<in> set blobs. frame_ok b" and "partial_frame part"
  obtains blobs1 blobs2 part1 where "blobs = blobs1 @ blobs2" and "bs = concat blobs1 @ part1"
    and "partial_frame part1"
  using assms
proof (induction blobs arbitrary: bs thesis)
  case Nil
  then have "partial_frame bs"
    by (auto simp: partial_frame_def intro: prefix_order.le_less_trans)
  with Nil.prems(1) [of "[]" "[]" bs] show ?case by simp
next
  case (Cons b blobs)
  show ?case
  proof (cases "strict_prefix bs b")
    case True
    with Cons.prems(3) have "partial_frame bs" by (auto simp: partial_frame_def)
    with Cons.prems(1) [of "[]" "b # blobs" bs] show ?thesis by simp
  next
    case False
    have "prefix b bs" using Cons.prems(2) False
      by (metis append.assoc concat.simps(2) prefix_def prefix_order.le_less prefix_same_cases)
    then obtain cs where cs: "bs = b @ cs" by (auto simp: prefix_def)
    with Cons.prems(2) have "prefix cs (concat blobs @ part)" by simp
    then obtain blobs1 blobs2 part1 where "blobs = blobs1 @ blobs2" "cs = concat blobs1 @ part1" "partial_frame part1"
      using Cons.IH [of cs] Cons.prems(3,4) by auto
    with cs Cons.prems(1) [of "b # blobs1" blobs2 part1] show ?thesis by simp
  qed
qed

section \<open>Receiving a stream in chunks\<close>

text \<open>
  \<open>receives listener bs ms p err\<close>: starting from a new connection whose reading was started, the
  socket has delivered the bytes \<open>bs\<close> in some chunks, each of them not larger than the free space
  offered to it; \<open>ms\<close> are the messages handed to the listener, \<open>p\<close> is the state of the peer and \<open>err\<close>
  the exception that ended the reading, if one did.
\<close>

inductive receives :: "(SerializedMessage \<Rightarrow> listener_action list) \<Rightarrow> byte list \<Rightarrow> SerializedMessage list
    \<Rightarrow> VAsioPeer \<Rightarrow> error option \<Rightarrow> bool"
  for listener where
  start: "StartAsyncRead VAsioPeer_new = (p, evs, err) \<Longrightarrow> receives listener [] [] p err"
| chunk: "receives listener bs ms p None \<Longrightarrow>
    length c \<le> rb_Capacity (vp_msgBuffer p) - rb_size (vp_msgBuffer p) \<Longrightarrow>
    OnAsyncReadSomeDone listener c p = (p', evs, err) \<Longrightarrow>
    receives listener (bs @ c) (ms @ delivered evs) p' err"

lemma start_inv: "StartAsyncRead VAsioPeer_new = (p, evs, err) \<Longrightarrow>
    err = None \<and> recv_inv p [] \<and> rb_size (vp_msgBuffer p) < rb_Capacity (vp_msgBuffer p)"
  by (auto simp: StartAsyncRead_def ReadSomeAsync_def VAsioPeer_new_def recv_inv_def rb_inv_new
      RingBuffer_new_def rb_Capacity_def rb_inv_def rb_contents_def)

lemma receive_chunk:
  assumes inv: "recv_inv p part" and "part @ c = concat blobs @ part'"
    and "length c \<le> rb_Capacity (vp_msgBuffer p) - rb_size (vp_msgBuffer p)"
    and "\<forall>b \<in> set blobs. frame_ok b" and "partial_frame part'"
    and "\<forall>m. \<forall>a \<in> set (listener m). well_behaved a"
  shows "\<exists>p' evs. OnAsyncReadSomeDone listener c p = (p', evs, None) \<and> recv_inv p' part'
      \<and> list_all2 same_message (delivered evs) (map parse_frame blobs)
      \<and> rb_size (vp_msgBuffer p') < rb_Capacity (vp_msgBuffer p')"
proof -
  have "length c + length part \<le> rb_Capacity (vp_msgBuffer p)"
    using assms(3) recv_inv_size [OF inv] inv ring.fits [of "vp_msgBuffer p"]
    unfolding recv_inv_def by simp
  then obtain rb where rb: "socket_transfer c (vp_msgBuffer p) = Inr rb" "rb_inv rb"
      "rb_contents rb = part @ c" "rb_Capacity rb = rb_Capacity (vp_msgBuffer p)"
    using ring.transfer_spec [of "vp_msgBuffer p" c] inv recv_inv_size [OF inv]
    unfolding recv_inv_def by auto
  have "recv_inv (p\<lparr>vp_msgBuffer := rb\<rparr>) (concat blobs @ part')"
    using inv rb assms(2) [symmetric] by (auto simp: recv_inv_def)
  with dispatch_stream [OF assms(4,5,6) this] rb(1) show ?thesis
    by (simp add: OnAsyncReadSomeDone_def)
qed

lemma receives_stream:
  assumes "receives listener bs ms p err"
    and "\<forall>m. \<forall>a \<in> set (listener m). well_behaved a"
    and "bs = concat blobs @ part" and "\<forall>b \<in> set blobs. frame_ok b" and "partial_frame part"
  shows "err = None \<and> recv_inv p part \<and> list_all2 same_message ms (map parse_frame blobs)
    \<and> rb_size (vp_msgBuffer p) < rb_Capacity (vp_msgBuffer p)"
  using assms
proof (induction arbitrary: blobs part rule: receives.induct)
  case (start p evs err)
  have "blobs = []"
  proof (rule ccontr)
    assume "blobs \<noteq> []"
    then have "hd blobs \<in> set blobs" by simp
    with start.prems(2,3) frame_size(1) [of "hd blobs"] show False by auto
  qed
  with start start_inv [OF start.hyps] show ?case by simp
next
  case (chunk bs ms p c p' evs err)
  obtain blobs1 blobs2 part1 where s: "blobs = blobs1 @ blobs2" "bs = concat blobs1 @ part1" "partial_frame part1"
    using stream_prefix [of bs blobs part] chunk.prems by (metis prefixI)
  have IH: "recv_inv p part1" "list_all2 same_message ms (map parse_frame blobs1)"
    using chunk.IH [of blobs1 part1] chunk.prems s by auto
  have "part1 @ c = concat blobs2 @ part" using chunk.prems(2) s by simp
  then obtain q evs' where "OnAsyncReadSomeDone listener c p = (q, evs', None)" "recv_inv q part"
      "list_all2 same_message (delivered evs') (map parse_frame blobs2)"
      "rb_size (vp_msgBuffer q) < rb_Capacity (vp_msgBuffer q)"
    using receive_chunk [OF IH(1) _ chunk.hyps(2), of blobs2 part listener] chunk.prems s by auto
  with chunk.hyps(3) s(1) IH(2) show ?case by (auto intro: list_all2_appendI)
qed

section \<open>The send path\<close>

text \<open>
  What a peer still has to write: the rest of the buffer being written and the queue. The
  aggregated messages are appended to the queue by a later flush.
\<close>

definition unsent :: "VAsioPeer \<Rightarrow> byte list" where
  "unsent p = (if vp_sending p then vp_currentSendingBuffer p else []) @ concat (vp_sendingQueue p)"

definition wire_image :: "VAsioPeer \<Rightarrow> byte list" where
  "wire_image p = unsent p @ vp_aggregatedMessages p"

datatype send_input =
    In_Send SerializedMessage
  | In_StartAsyncWrite
  | In_WriteDone nat
  | In_TimerExpired

text \<open>
  One step of the send path with the bytes it takes to the wire. The I/O layer reports the end
  of a write only while one is under way, and not more bytes than it was given.
\<close>

inductive sends :: "VAsioPeer \<Rightarrow> send_input \<Rightarrow> byte list \<Rightarrow> VAsioPeer \<Rightarrow> bool" where
  send: "SendSilKitMsg m p = (p', evs, None) \<Longrightarrow> sends p (In_Send m) [] p'"
| start_write: "StartAsyncWrite p = (p', evs, None) \<Longrightarrow> sends p In_StartAsyncWrite [] p'"
| write_done: "vp_sending p \<Longrightarrow> k \<le> length (vp_currentSendingBuffer p) \<Longrightarrow>
    OnAsyncWriteSomeDone k p = (p', evs, None) \<Longrightarrow>
    sends p (In_WriteDone k) (take k (vp_currentSendingBuffer p)) p'"
| timer: "OnTimerExpired p = (p', evs, None) \<Longrightarrow> sends p In_TimerExpired [] p'"

inductive sends_all :: "VAsioPeer \<Rightarrow> send_input list \<Rightarrow> byte list \<Rightarrow> VAsioPeer \<Rightarrow> bool" where
  none: "sends_all p [] [] p"
| more: "sends_all p is bs q \<Longrightarrow> sends q i cs r \<Longrightarrow> sends_all p (is @ [i]) (bs @ cs) r"

definition released :: "SerializedMessage \<Rightarrow> byte list" where
  "released m = (case sm_ReleaseStorage m of Inr (blob, _) \<Rightarrow> blob | Inl _ \<Rightarrow> [])"

fun sent_bytes :: "send_input list \<Rightarrow> byte list" where
  "sent_bytes [] = []"
| "sent_bytes (In_Send m # is) = released m @ sent_bytes is"
| "sent_bytes (_ # is) = sent_bytes is"

lemma sent_bytes_append [simp]: "sent_bytes (xs @ ys) = sent_bytes xs @ sent_bytes ys"
  by (induction xs rule: sent_bytes.induct) simp_all

inductive_cases sendsE: "sends p i bs p'"

lemma wire_image_Flush:
  "\<not> vp_isShuttingDown p \<Longrightarrow> Flush p = (p', evs, err) \<Longrightarrow>
   wire_image p' = wire_image p \<and> vp_aggregatedMessages p' = []
   \<and> vp_isShuttingDown p' = vp_isShuttingDown p \<and> vp_useAggregation p' = vp_useAggregation p"
  by (auto simp: Flush_def SendSilKitMsgInternal_def wire_image_def unsent_def)

lemma wire_image_Aggregate:
  assumes "\<not> vp_isShuttingDown p" and "Aggregate blob p = (p', evs, err)"
  shows "err = None \<and> wire_image p' = wire_image p @ blob
   \<and> vp_isShuttingDown p' = vp_isShuttingDown p \<and> vp_useAggregation p' = vp_useAggregation p"
  using assms
  by (auto simp: Aggregate_def Flush_def SendSilKitMsgInternal_def wire_image_def unsent_def Let_def
      split: if_splits)

lemma wire_image_StartAsyncWrite:
  "StartAsyncWrite p = (p', evs, err) \<Longrightarrow>
   wire_image p' = wire_image p \<and> vp_aggregatedMessages p' = vp_aggregatedMessages p
   \<and> vp_isShuttingDown p' = vp_isShuttingDown p \<and> vp_useAggregation p' = vp_useAggregation p"
  by (auto simp: StartAsyncWrite_def WriteSomeAsync_def wire_image_def unsent_def split: if_splits list.splits)

lemma wire_image_WriteDone:
  assumes "vp_sending p" and "k \<le> length (vp_currentSendingBuffer p)"
    and "OnAsyncWriteSomeDone k p = (p', evs, err)"
  shows "take k (vp_currentSendingBuffer p) @ wire_image p' = wire_image p
   \<and> vp_aggregatedMessages p' = vp_aggregatedMessages p
   \<and> vp_isShuttingDown p' = vp_isShuttingDown p \<and> vp_useAggregation p' = vp_useAggregation p"
proof (cases "k < length (vp_currentSendingBuffer p)")
  case True
  with assms show ?thesis
    by (auto simp: OnAsyncWriteSomeDone_def WriteSomeAsync_def wire_image_def unsent_def)
next
  case False
  with assms wire_image_StartAsyncWrite [of "p\<lparr>vp_sending := False\<rparr>" p' evs err] show ?thesis
    by (simp add: OnAsyncWriteSomeDone_def) (simp add: wire_image_def unsent_def)
qed

lemma wire_image_Timer:
  "\<not> vp_isShuttingDown p \<Longrightarrow> OnTimerExpired p = (p', evs, err) \<Longrightarrow>
   wire_image p' = wire_image p \<and> vp_isShuttingDown p' = vp_isShuttingDown p
   \<and> vp_useAggregation p' = vp_useAggregation p \<and> (vp_aggregatedMessages p = [] \<longrightarrow> vp_aggregatedMessages p' = [])"
  using wire_image_Flush [of p p' evs err] by (auto simp: OnTimerExpired_def split: if_splits)

text \<open>
  A message keeps its place in the stream unless it is sent past the aggregated ones: with
  aggregation on, a message of the kind \<open>AggregationOther\<close> goes straight to the queue.
\<close>

definition in_order :: "VAsioPeer \<Rightarrow> SerializedMessage \<Rightarrow> bool" where
  "in_order p m \<longleftrightarrow> (vp_useAggregation p \<longrightarrow> sm_aggregationKind m \<noteq> AggregationOther)
     \<and> (\<not> vp_useAggregation p \<longrightarrow> vp_aggregatedMessages p = [])"

lemma sm_ReleaseStorage_kind: "sm_ReleaseStorage m = Inr (blob, m') \<Longrightarrow> sm_aggregationKind m' = sm_aggregationKind m"
  by (auto simp: sm_ReleaseStorage_def mb_ReleaseStorage_def Let_def split: if_splits)

lemma wire_image_send:
  assumes live: "\<not> vp_isShuttingDown p" and ord: "in_order p m" and s: "SendSilKitMsg m p = (p', evs, None)"
  shows "wire_image p' = wire_image p @ released m
   \<and> vp_isShuttingDown p' = vp_isShuttingDown p \<and> vp_useAggregation p' = vp_useAggregation p
   \<and> (\<not> vp_useAggregation p \<longrightarrow> vp_aggregatedMessages p' = vp_aggregatedMessages p)"
proof -
  from s obtain blob m' where rel: "sm_ReleaseStorage m = Inr (blob, m')"
    by (auto simp: SendSilKitMsg_def split: sum.splits)
  note kind = sm_ReleaseStorage_kind [OF rel]
  obtain p1 evs1 err1 where agg: "Aggregate blob p = (p1, evs1, err1)" by (cases "Aggregate blob p" rule: prod_cases3)
  note a = wire_image_Aggregate [OF live agg]
  obtain p2 evs2 err2 where fl: "Flush p1 = (p2, evs2, err2)" by (cases "Flush p1" rule: prod_cases3)
  have f: "wire_image p2 = wire_image p1" "vp_isShuttingDown p2 = vp_isShuttingDown p1"
      "vp_useAggregation p2 = vp_useAggregation p1"
    using wire_image_Flush [OF _ fl] a live by auto
  consider (off) "\<not> vp_useAggregation p" | (user) "vp_useAggregation p" "sm_aggregationKind m = UserDataMessage"
    | (flush) "vp_useAggregation p" "sm_aggregationKind m = FlushAggregationMessage"
    using ord by (cases "sm_aggregationKind m") (auto simp: in_order_def)
  then show ?thesis
  proof cases
    case off
    with s live ord rel show ?thesis
      by (auto simp: SendSilKitMsg_def SendSilKitMsgInternal_def wire_image_def unsent_def in_order_def released_def)
  next
    case user
    with s rel kind agg a show ?thesis by (simp add: SendSilKitMsg_def released_def)
  next
    case flush
    with s rel kind agg a fl f show ?thesis by (auto simp: SendSilKitMsg_def released_def)
  qed
qed

definition orderly :: "VAsioPeer \<Rightarrow> send_input list \<Rightarrow> bool" where
  "orderly p is \<longleftrightarrow> \<not> vp_isShuttingDown p \<and> (\<not> vp_useAggregation p \<longrightarrow> vp_aggregatedMessages p = [])
     \<and> (\<forall>m. In_Send m \<in> set is \<longrightarrow> vp_useAggregation p \<longrightarrow> sm_aggregationKind m \<noteq> AggregationOther)"

lemma sends_step:
  assumes "sends p i bs p'" and "\<not> vp_isShuttingDown p" and "\<not> vp_useAggregation p \<longrightarrow> vp_aggregatedMessages p = []"
    and "\<And>m. i = In_Send m \<Longrightarrow> vp_useAggregation p \<longrightarrow> sm_aggregationKind m \<noteq> AggregationOther"
  shows "bs @ wire_image p' = wire_image p @ sent_bytes [i] \<and> vp_isShuttingDown p' = vp_isShuttingDown p
    \<and> vp_useAggregation p' = vp_useAggregation p \<and> (\<not> vp_useAggregation p' \<longrightarrow> vp_aggregatedMessages p' = [])"
  using assms(1)
proof cases
  case (send m evs)
  then show ?thesis using wire_image_send [of p m p' evs] assms by (simp add: in_order_def)
next
  case (start_write evs)
  then show ?thesis using wire_image_StartAsyncWrite [of p p' evs None] assms by simp
next
  case (write_done k evs)
  then show ?thesis using wire_image_WriteDone [of p k p' evs None] assms by simp
next
  case (timer evs)
  then show ?thesis using wire_image_Timer [of p p' evs None] assms by simp
qed

lemma sends_all_wire:
  assumes "sends_all p is bs q" and "orderly p is"
  shows "bs @ wire_image q = wire_image p @ sent_bytes is \<and> vp_isShuttingDown q = vp_isShuttingDown p
    \<and> vp_useAggregation q = vp_useAggregation p \<and> (\<not> vp_useAggregation q \<longrightarrow> vp_aggregatedMessages q = [])"
  using assms
proof (induction rule: sends_all.induct)
  case (none p)
  then show ?case by (simp add: orderly_def)
next
  case (more p "is" bs q i cs r)
  then have IH: "bs @ wire_image q = wire_image p @ sent_bytes is" "vp_isShuttingDown q = vp_isShuttingDown p"
      "vp_useAggregation q = vp_useAggregation p" "\<not> vp_useAggregation q \<longrightarrow> vp_aggregatedMessages q = []"
    by (auto simp: orderly_def)
  have "cs @ wire_image r = wire_image q @ sent_bytes [i] \<and> vp_isShuttingDown r = vp_isShuttingDown q
      \<and> vp_useAggregation r = vp_useAggregation q \<and> (\<not> vp_useAggregation r \<longrightarrow> vp_aggregatedMessages r = [])"
    using IH more.prems by (intro sends_step [OF more.hyps(2)]) (auto simp: orderly_def)
  with IH show ?case by (metis append.assoc sent_bytes_append)
qed

section \<open>Frames of the messages of the services\<close>

context message_codec
begin

lemma sim_frame:
  assumes "ok v x" and kind: "IsMwOrSim (messageKind t)" and small: "length (bytes x) + 30 \<le> max_message_size"
  shows "\<exists>m. SerializedMessage_send v t put x ep idx = Inr m \<and> frame_ok (released m)
      \<and> sm_aggregationKind m = aggregationKind t"
proof -
  let ?hdr = "\<lambda>msize. network_header msize (messageKind t) (registryMessageKind t) idx ep"
  let ?size = "of_nat (length (?hdr 0 @ bytes x)) :: 32 word"
  have "max_message_size \<le> uint32_max" by (simp add: max_message_size_def uint32_max_def)
  with small have len: "length (?hdr 0 @ bytes x) \<le> uint32_max" "length (?hdr 0 @ bytes x) \<le> max_message_size"
    using length_network_header_le [of 0 "messageKind t" "registryMessageKind t" idx ep] by simp_all
  let ?m0 = "SerializedMessage_default
       \<lparr>sm_remoteIndex := idx, sm_endpointAddress := ep, sm_messageKind := messageKind t,
        sm_registryKind := registryMessageKind t, sm_aggregationKind := aggregationKind t,
        sm_buffer := reading v (length (?hdr 0 @ bytes x)) [] (?hdr 0 @ bytes x)\<rparr>"
  have "SerializedMessage_send v t put x ep idx = ReadNetworkHeaders ?m0"
    by (rule SerializedMessage_send_writing) (simp add: put_appends assms(1))
  also have "\<dots> = Inr (?m0\<lparr>sm_messageSize := 0, sm_messageKind := messageKind t,
    sm_remoteIndex := idx, sm_endpointAddress := ep,
    sm_buffer := reading v (length (?hdr 0 @ bytes x)) ([] @ ?hdr 0) (bytes x)\<rparr>)" (is "_ = Inr ?m")
    by (rule ReadNetworkHeaders_sim [OF kind]) simp
  finally have send: "SerializedMessage_send v t put x ep idx = Inr ?m" .
  obtain m' where "sm_ReleaseStorage ?m = Inr (?hdr ?size @ bytes x, m')"
    using sm_ReleaseStorage_header [of ?m "messageKind t" "registryMessageKind t" idx ep "bytes x"] len(1) by auto
  then have rel: "released ?m = ?hdr ?size @ bytes x" by (simp add: released_def)
  have "length (?hdr ?size @ bytes x) = length (?hdr 0 @ bytes x)" by (simp add: network_header_def)
  moreover have "MessageBuffer_from (?hdr ?size @ bytes x)
      = reading CurrentProtocolVersion (length (?hdr ?size @ bytes x)) [] (?hdr ?size @ bytes x)"
    by (simp add: MessageBuffer_from_def reading_def)
  then have "\<exists>m. SerializedMessage_from (?hdr ?size @ bytes x) = Inr m"
    unfolding SerializedMessage_from_def by (subst ReadNetworkHeaders_sim [OF kind]) simp_all
  ultimately have "frame_ok (released ?m)"
    using len(2) announces_size_network_header [of "messageKind t" "registryMessageKind t" idx ep "bytes x"]
    by (simp only: frame_ok_def rel)
  with send show ?thesis by simp
qed

end

section \<open>Properties\<close>

text \<open>
  C2: framing. However the socket cuts a stream of messages into chunks, the listener gets exactly
  the complete messages of the stream, in order; the rest stays in the buffer, no exception is
  raised, and there is always room for more bytes.
\<close>

theorem framing:
  assumes "receives listener bs ms p err"
    and "\<forall>m. \<forall>a \<in> set (listener m). well_behaved a"
    and "bs = concat blobs @ part" and "\<forall>b \<in> set blobs. frame_ok b" and "partial_frame part"
  shows "err = None \<and> rb_contents (vp_msgBuffer p) = part
    \<and> list_all2 same_message ms (map parse_frame blobs)
    \<and> rb_size (vp_msgBuffer p) < rb_Capacity (vp_msgBuffer p)"
  using receives_stream [OF assms] by (simp add: recv_inv_def)

definition example_ack :: "byte list" where
  "example_ack = [5, 0, 0, 0, 2]"

lemma frame_ok_example_ack: "frame_ok example_ack"
  by (simp add: frame_ok_def example_ack_def announces_size_def le_word_def max_message_size_def
      SerializedMessage_from_def ReadNetworkHeaders_def MessageBuffer_from_def get_word_def
      ExtractMessageSize_def ExtractMessageKind_def IsMwOrSim_def)

lemma receives_example:
  "\<exists>ms p err. receives (\<lambda>_. []) (take 3 example_ack @ drop 3 example_ack @ take 2 example_ack) ms p err"
proof -
  obtain p evs err where s: "StartAsyncRead VAsioPeer_new = (p, evs, err)"
    by (cases "StartAsyncRead VAsioPeer_new" rule: prod_cases3)
  have p: "err = None" "p = VAsioPeer_new" "rb_Capacity (vp_msgBuffer p) = 4096" "rb_size (vp_msgBuffer p) = 0"
    using s by (auto simp: StartAsyncRead_def ReadSomeAsync_def VAsioPeer_new_def rb_Capacity_def RingBuffer_new_def
        split: if_splits)
  have b: "receives (\<lambda>_. []) [] [] p None" using receives.start [OF s] p(1) by simp
  obtain p' evs' err' where o: "OnAsyncReadSomeDone (\<lambda>_. [])
      (take 3 example_ack @ drop 3 example_ack @ take 2 example_ack) p = (p', evs', err')"
    by (cases "OnAsyncReadSomeDone (\<lambda>_. []) (take 3 example_ack @ drop 3 example_ack @ take 2 example_ack) p"
        rule: prod_cases3)
  have "receives (\<lambda>_. []) ([] @ take 3 example_ack @ drop 3 example_ack @ take 2 example_ack)
      ([] @ delivered evs') p' err'"
    by (rule receives.chunk [OF b _ o]) (simp add: p(3,4) example_ack_def)
  then show ?thesis by auto
qed

theorem framing_witness:
  "\<exists>ms p. receives (\<lambda>_. []) (example_ack @ take 2 example_ack) ms p None
     \<and> rb_contents (vp_msgBuffer p) = take 2 example_ack
     \<and> list_all2 same_message ms [parse_frame example_ack]"
proof -
  obtain ms p err where r: "receives (\<lambda>_. []) (example_ack @ take 2 example_ack) ms p err"
    using receives_example by (auto simp: append_assoc [symmetric] simp del: append_assoc)
  have "partial_frame (take 2 example_ack)"
    using frame_ok_example_ack
    by (auto simp: partial_frame_def example_ack_def strict_prefix_def intro!: exI [of _ "[5, 0, 0, 0, 2]"])
  with framing [OF r, of "[example_ack]" "take 2 example_ack"] frame_ok_example_ack r show ?thesis
    by auto
qed


definition example_message :: SerializedMessage where
  "example_message = SerializedMessage_default\<lparr>sm_aggregationKind := UserDataMessage,
     sm_buffer := MessageBuffer_from example_ack\<rparr>"

lemma released_example:
  "\<exists>m. sm_ReleaseStorage example_message = Inr (example_ack, m)"
  "sm_aggregationKind example_message = UserDataMessage"
  by (simp_all add: example_message_def sm_ReleaseStorage_def mb_ReleaseStorage_def MessageBuffer_from_def
      example_ack_def overwrite_def uint32_max_def word_le_def nat_le_numeral)

lemma sends_example:
  "\<exists>q. sends_all (EnableAggregation VAsioPeer_new)
      [In_Send example_message, In_TimerExpired, In_StartAsyncWrite, In_WriteDone 3] (take 3 example_ack) q"
proof -
  let ?p0 = "EnableAggregation VAsioPeer_new"
  let ?p1 = "?p0\<lparr>vp_initialTimerStarted := True, vp_aggregatedMessages := example_ack\<rparr>"
  let ?p2 = "?p1\<lparr>vp_aggregatedMessages := [], vp_sendingQueue := [example_ack]\<rparr>"
  let ?p3 = "?p2\<lparr>vp_sending := True, vp_sendingQueue := [], vp_currentSendingBuffer := example_ack\<rparr>"
  let ?p4 = "?p3\<lparr>vp_currentSendingBuffer := drop 3 example_ack\<rparr>"
  note defs = EnableAggregation_def VAsioPeer_new_def
  obtain m where "sm_ReleaseStorage example_message = Inr (example_ack, m)" using released_example by blast
  then have "SendSilKitMsg example_message ?p0 = (?p1, [Ev_Timer_AsyncWaitFor], None)"
    using sm_ReleaseStorage_kind released_example(2)
    by (simp add: SendSilKitMsg_def Aggregate_def defs aggregationBufferThreshold_def example_ack_def)
  then have 1: "sends ?p0 (In_Send example_message) [] ?p1" by (rule sends.send)
  have "OnTimerExpired ?p1 = (?p2, [Ev_Dispatch_StartAsyncWrite, Ev_Timer_AsyncWaitFor], None)"
    by (simp add: OnTimerExpired_def Flush_def SendSilKitMsgInternal_def defs) (simp add: example_ack_def)
  then have 2: "sends ?p1 In_TimerExpired [] ?p2" by (rule sends.timer)
  have "StartAsyncWrite ?p2 = (?p3, [Ev_AsyncWriteSome example_ack], None)"
    by (simp add: StartAsyncWrite_def WriteSomeAsync_def defs)
  then have 3: "sends ?p2 In_StartAsyncWrite [] ?p3" by (rule sends.start_write)
  have "OnAsyncWriteSomeDone 3 ?p3 = (?p4, [Ev_AsyncWriteSome (drop 3 example_ack)], None)"
    by (simp add: OnAsyncWriteSomeDone_def WriteSomeAsync_def defs) (simp add: example_ack_def)
  then have "sends ?p3 (In_WriteDone 3) (take 3 (vp_currentSendingBuffer ?p3)) ?p4"
    by (intro sends.write_done) (simp_all add: example_ack_def)
  then have 4: "sends ?p3 (In_WriteDone 3) (take 3 example_ack) ?p4" by simp
  from sends_all.more [OF sends_all.more [OF sends_all.more [OF sends_all.more [OF sends_all.none 1] 2] 3] 4]
  show ?thesis by auto
qed


text \<open>
  C19: with aggregation on, a message that is neither user data nor a time step message overtakes
  the user data aggregated before it: it is queued at once, the older messages wait for a flush.
\<close>

theorem other_messages_overtake:
  assumes "vp_useAggregation p" and "\<not> vp_isShuttingDown p" and "sm_aggregationKind m = AggregationOther"
    and "sm_ReleaseStorage m = Inr (blob, m')"
  shows "\<exists>p' evs. SendSilKitMsg m p = (p', evs, None) \<and> unsent p' = unsent p @ blob
    \<and> vp_aggregatedMessages p' = vp_aggregatedMessages p"
  using assms sm_ReleaseStorage_kind [OF assms(4)]
  by (simp add: SendSilKitMsg_def SendSilKitMsgInternal_def unsent_def)

theorem other_messages_overtake_witness:
  "\<exists>p' evs. SendSilKitMsg (example_message\<lparr>sm_aggregationKind := AggregationOther\<rparr>)
      (VAsioPeer_new\<lparr>vp_useAggregation := True, vp_aggregatedMessages := [1, 2, 3]\<rparr>) = (p', evs, None)
    \<and> unsent p' = example_ack \<and> vp_aggregatedMessages p' = [1, 2, 3]"
proof -
  let ?m = "example_message\<lparr>sm_aggregationKind := AggregationOther\<rparr>"
    and ?p = "VAsioPeer_new\<lparr>vp_useAggregation := True, vp_aggregatedMessages := [1, 2, 3]\<rparr>"
  obtain m' where "sm_ReleaseStorage ?m = Inr (example_ack, m')"
    using released_example(1) by (auto simp: sm_ReleaseStorage_def Let_def split: prod.splits if_splits)
  then have "\<exists>p' evs. SendSilKitMsg ?m ?p = (p', evs, None) \<and> unsent p' = unsent ?p @ example_ack
    \<and> vp_aggregatedMessages p' = vp_aggregatedMessages ?p"
    by (intro other_messages_overtake) (simp_all add: VAsioPeer_new_def)
  then show ?thesis by (simp add: unsent_def VAsioPeer_new_def)
qed

text \<open>
  a message size of zero is reported and the connection is shut down, but the handler goes on:
  it builds a message from no bytes, and the exception \<^verbatim>\<open>end_of_buffer\<close> leaves \<^verbatim>\<open>DispatchBuffer\<close>.
\<close>

theorem zero_size_throws:
  assumes "recv_inv p ([0, 0, 0, 0] @ rest)" and "vp_currentMsgSize p = 0"
  shows "\<exists>p'. DispatchBuffer listener p = (p', [Ev_Socket_Shutdown, Ev_Timer_Shutdown], Some End_of_buffer)
    \<and> vp_isShuttingDown p'"
proof -
  have sz: "rb_size (vp_msgBuffer p) = 4 + length rest" using recv_inv_size [OF assms(1)] by simp
  have inv: "rb_inv (vp_msgBuffer p)" using assms(1) by (simp add: recv_inv_def)
  have det: "DetermineMsgSize p = Inr (p\<lparr>vp_currentMsgSize := 0\<rparr>)"
    using DetermineMsgSize_known [OF assms(1)] by (simp add: le_word_def)
  obtain rb where "Read 0 (vp_msgBuffer p) = Inr (Some [], rb)"
    using ring.read_spec [OF inv, of 0] by auto
  then show ?thesis
    by (subst DispatchBuffer.simps) (simp add: det ValidateMsgSize_def vp_Shutdown_def)
qed

theorem zero_size_throws_witness:
  "\<exists>p'. DispatchBuffer (\<lambda>_. []) (VAsioPeer_new\<lparr>vp_msgBuffer :=
        \<lparr>rb_buffer = [0, 0, 0, 0, 0, 0, 0, 0], rb_size = 4, rb_wPos = 4, rb_rPos = 0\<rparr>\<rparr>)
      = (p', [Ev_Socket_Shutdown, Ev_Timer_Shutdown], Some End_of_buffer) \<and> vp_isShuttingDown p'"
  by (rule zero_size_throws [where rest = "[]"])
     (simp_all add: recv_inv_def VAsioPeer_new_def rb_inv_def rb_Capacity_def rb_contents_def upt_rec)

end
