(* ===== verification/TimeConfiguration.thy ===== *)
theory TimeConfiguration
  imports OrchestrationDatatypes
begin

text \<open>
  The bookkeeping of the distributed time algorithm, \<^verbatim>\<open>services/orchestration/TimeConfiguration.cpp\<close>:
  the current and the next simulation step of this participant and the announced next steps of
  the others. Times are counts of nanoseconds; the 64-bit counters of \<^verbatim>\<open>std::chrono\<close> do not
  overflow before 292 years of simulated time. Every method takes the mutex for its whole body, so
  one method is one step. Logging is left out.
\<close>

section \<open>State and operations\<close>

record time_configuration =
  tc_currentTask :: NextSimTask
  tc_myNextTask :: NextSimTask
  tc_otherNextTasks :: "(string, NextSimTask) omap"
  tc_blocking :: bool
  tc_hoppedOn :: bool

definition tc_Initialize :: "time_configuration \<Rightarrow> time_configuration" where
  "tc_Initialize tc = tc\<lparr>tc_currentTask := \<lparr>nst_timePoint = -1, nst_duration = 0\<rparr>,
     tc_myNextTask := (tc_myNextTask tc)\<lparr>nst_timePoint := 0\<rparr>, tc_hoppedOn := False\<rparr>"

definition TimeConfiguration_new :: time_configuration where
  "TimeConfiguration_new =
     (let tc = tc_Initialize \<lparr>tc_currentTask = \<lparr>nst_timePoint = 0, nst_duration = 0\<rparr>,
        tc_myNextTask = \<lparr>nst_timePoint = 0, nst_duration = 0\<rparr>, tc_otherNextTasks = [],
        tc_blocking = False, tc_hoppedOn = False\<rparr>
      in tc\<lparr>tc_myNextTask := (tc_myNextTask tc)\<lparr>nst_duration := 1000000\<rparr>\<rparr>)"

definition SetBlockingMode :: "bool \<Rightarrow> time_configuration \<Rightarrow> time_configuration" where
  "SetBlockingMode blocking tc = tc\<lparr>tc_blocking := blocking\<rparr>"

definition AddSynchronizedParticipant :: "string \<Rightarrow> time_configuration \<Rightarrow> time_configuration" where
  "AddSynchronizedParticipant name tc =
     (case map_of (tc_otherNextTasks tc) name of
        Some _ \<Rightarrow> tc
      | None \<Rightarrow> tc\<lparr>tc_otherNextTasks :=
          map_assign name \<lparr>nst_timePoint = -1, nst_duration = 0\<rparr> (tc_otherNextTasks tc)\<rparr>)"

definition RemoveSynchronizedParticipant :: "string \<Rightarrow> time_configuration \<Rightarrow> bool \<times> time_configuration" where
  "RemoveSynchronizedParticipant name tc =
     (case map_of (tc_otherNextTasks tc) name of
        Some _ \<Rightarrow> (True, tc\<lparr>tc_otherNextTasks := map_erase name (tc_otherNextTasks tc)\<rparr>)
      | None \<Rightarrow> (False, tc))"

definition GetSynchronizedParticipantNames :: "time_configuration \<Rightarrow> string list" where
  "GetSynchronizedParticipantNames tc = map fst (tc_otherNextTasks tc)"

definition OnReceiveNextSimStep :: "string \<Rightarrow> NextSimTask \<Rightarrow> time_configuration \<Rightarrow> time_configuration" where
  "OnReceiveNextSimStep name nextStep tc =
     (case map_of (tc_otherNextTasks tc) name of
        None \<Rightarrow> tc
      | Some _ \<Rightarrow> tc\<lparr>tc_otherNextTasks := map_assign name nextStep (tc_otherNextTasks tc)\<rparr>)"

text \<open>The condition of \<^verbatim>\<open>SynchronizedParticipantRemoved\<close> is the wrong way round: a known participant is reported as unknown.\<close>

definition SynchronizedParticipantRemoved :: "string \<Rightarrow> time_configuration \<Rightarrow> time_configuration result" where
  "SynchronizedParticipantRemoved name tc =
     (if map_of (tc_otherNextTasks tc) name \<noteq> None
      then Inl (SilKitError (''Participant '' @ name @ '' unknown.''))
      else case map_of (tc_otherNextTasks tc) name of
        Some _ \<Rightarrow> Inr (tc\<lparr>tc_otherNextTasks := map_erase name (tc_otherNextTasks tc)\<rparr>)
      | None \<Rightarrow> Inr tc)"

definition SetStepDuration :: "int \<Rightarrow> time_configuration \<Rightarrow> time_configuration" where
  "SetStepDuration duration tc = tc\<lparr>tc_myNextTask := (tc_myNextTask tc)\<lparr>nst_duration := duration\<rparr>\<rparr>"

definition AdvanceTimeStep :: "time_configuration \<Rightarrow> time_configuration" where
  "AdvanceTimeStep tc =
     (let current = tc_myNextTask tc in
      tc\<lparr>tc_currentTask := current,
         tc_myNextTask := current\<lparr>nst_timePoint := nst_timePoint current + nst_duration current\<rparr>\<rparr>)"

definition OtherParticipantHasLowerTimepoint :: "time_configuration \<Rightarrow> bool" where
  "OtherParticipantHasLowerTimepoint tc \<longleftrightarrow>
     (\<exists>otherTask \<in> set (tc_otherNextTasks tc).
        nst_timePoint (tc_myNextTask tc) > nst_timePoint (snd otherTask))"

text \<open>\<open>min_advanced\<close> is the loop of \<^verbatim>\<open>IsHopOn\<close> over the other tasks.\<close>

fun min_advanced :: "(string \<times> NextSimTask) list \<Rightarrow> bool \<times> int \<Rightarrow> bool \<times> int" where
  "min_advanced [] acc = acc"
| "min_advanced ((_, task) # others) (hoppedOn, minimalOtherTime) =
     min_advanced others
       (if nst_timePoint task > nst_duration task
        then (True, if nst_timePoint task < minimalOtherTime then nst_timePoint task else minimalOtherTime)
        else (hoppedOn, minimalOtherTime))"

definition nanoseconds_max :: int where
  "nanoseconds_max = 2 ^ 63 - 1"

definition IsHopOn :: "time_configuration \<Rightarrow> bool \<times> time_configuration" where
  "IsHopOn tc =
     (if nst_timePoint (tc_currentTask tc) = -1
      then let (hoppedOn, minimalOtherTime) =
                 min_advanced (tc_otherNextTasks tc) (tc_hoppedOn tc, nanoseconds_max)
           in if hoppedOn
              then (True, tc\<lparr>tc_hoppedOn := True,
                      tc_myNextTask := (tc_myNextTask tc)\<lparr>nst_timePoint := minimalOtherTime\<rparr>\<rparr>)
              else (False, tc\<lparr>tc_hoppedOn := hoppedOn\<rparr>)
      else (False, tc))"

section \<open>Lemmas\<close>

abbreviation my_next :: "time_configuration \<Rightarrow> int" where
  "my_next tc \<equiv> nst_timePoint (tc_myNextTask tc)"

abbreviation my_now :: "time_configuration \<Rightarrow> int" where
  "my_now tc \<equiv> nst_timePoint (tc_currentTask tc)"

definition known_next :: "time_configuration \<Rightarrow> string \<Rightarrow> NextSimTask option" where
  "known_next tc name = map_of (tc_otherNextTasks tc) name"

definition tc_ok :: "time_configuration \<Rightarrow> bool" where
  "tc_ok tc \<longleftrightarrow> omap_ok (tc_otherNextTasks tc)"

lemma omap_ok_map_of: "omap_ok m \<Longrightarrow> (k, v) \<in> set m \<longleftrightarrow> map_of m k = Some v"
  using omap_ok_distinct [of m] by (auto intro: map_of_is_SomeI dest: map_of_SomeD)

lemma OtherParticipantHasLowerTimepoint_iff:
  assumes "tc_ok tc"
  shows "OtherParticipantHasLowerTimepoint tc \<longleftrightarrow>
     (\<exists>name task. known_next tc name = Some task \<and> nst_timePoint task < my_next tc)"
proof -
  have "(\<exists>p \<in> set (tc_otherNextTasks tc). nst_timePoint (snd p) < my_next tc)
      \<longleftrightarrow> (\<exists>name task. (name, task) \<in> set (tc_otherNextTasks tc) \<and> nst_timePoint task < my_next tc)"
    by (rule bex_snd)
  with assms show ?thesis
    by (simp add: OtherParticipantHasLowerTimepoint_def known_next_def tc_ok_def omap_ok_map_of)
qed

lemma tc_ok_preserved:
  assumes "tc_ok tc"
  shows "tc_ok (AddSynchronizedParticipant name tc)" and "tc_ok (snd (RemoveSynchronizedParticipant name tc))"
    and "tc_ok (OnReceiveNextSimStep name task tc)" and "tc_ok (SetStepDuration d tc)"
    and "tc_ok (AdvanceTimeStep tc)" and "tc_ok (snd (IsHopOn tc))" and "tc_ok (SetBlockingMode b tc)"
    and "tc_ok (tc_Initialize tc)"
  using assms
  by (auto simp: tc_ok_def AddSynchronizedParticipant_def RemoveSynchronizedParticipant_def
      OnReceiveNextSimStep_def SetStepDuration_def AdvanceTimeStep_def IsHopOn_def SetBlockingMode_def
      tc_Initialize_def Let_def map_assign_ok map_erase_ok split: option.splits prod.splits)

lemma known_next_simps [simp]:
  "known_next (SetStepDuration d tc) = known_next tc"
  "known_next (AdvanceTimeStep tc) = known_next tc"
  "known_next (snd (IsHopOn tc)) = known_next tc"
  "known_next (SetBlockingMode b tc) = known_next tc"
  "known_next (tc_Initialize tc) = known_next tc"
  "known_next (OnReceiveNextSimStep name task tc) =
     (if known_next tc name = None then known_next tc else (known_next tc)(name \<mapsto> task))"
  "known_next (AddSynchronizedParticipant name tc) =
     (if known_next tc name = None then (known_next tc)(name \<mapsto> \<lparr>nst_timePoint = -1, nst_duration = 0\<rparr>)
      else known_next tc)"
  "known_next (snd (RemoveSynchronizedParticipant name tc)) = (known_next tc)(name := None)"
  by (auto simp: known_next_def fun_eq_iff SetStepDuration_def AdvanceTimeStep_def IsHopOn_def SetBlockingMode_def
      tc_Initialize_def OnReceiveNextSimStep_def AddSynchronizedParticipant_def RemoveSynchronizedParticipant_def
      Let_def map_of_map_assign map_of_map_erase split: option.splits prod.splits)

lemma my_next_simps [simp]:
  "my_next (SetStepDuration d tc) = my_next tc"
  "my_next (AdvanceTimeStep tc) = my_next tc + nst_duration (tc_myNextTask tc)"
  "my_next (SetBlockingMode b tc) = my_next tc"
  "my_next (OnReceiveNextSimStep name task tc) = my_next tc"
  "my_next (AddSynchronizedParticipant name tc) = my_next tc"
  "my_next (snd (RemoveSynchronizedParticipant name tc)) = my_next tc"
  "my_next (tc_Initialize tc) = 0"
  "tc_currentTask (AdvanceTimeStep tc) = tc_myNextTask tc"
  by (auto simp: SetStepDuration_def AdvanceTimeStep_def SetBlockingMode_def OnReceiveNextSimStep_def
      AddSynchronizedParticipant_def RemoveSynchronizedParticipant_def tc_Initialize_def Let_def
      split: option.splits)

text \<open>The loop finds the least time point among the participants that are past their first step.\<close>

lemma min_advanced_spec:
  "min_advanced others (h, m) = (h', m') \<Longrightarrow>
     h' = (h \<or> (\<exists>p \<in> set others. nst_timePoint (snd p) > nst_duration (snd p)))
     \<and> m' \<le> m \<and> (\<forall>p \<in> set others. nst_timePoint (snd p) > nst_duration (snd p) \<longrightarrow> m' \<le> nst_timePoint (snd p))
     \<and> (m' = m \<or> (\<exists>p \<in> set others. nst_timePoint (snd p) > nst_duration (snd p) \<and> m' = nst_timePoint (snd p)))"
proof (induction others arbitrary: h m)
  case (Cons p others)
  obtain name task where p: "p = (name, task)" by (cases p)
  show ?case
  proof (cases "nst_timePoint task > nst_duration task")
    case True
    let ?m = "if nst_timePoint task < m then nst_timePoint task else m"
    have "min_advanced others (True, ?m) = (h', m')" using Cons.prems True p by simp
    from Cons.IH [OF this] True p show ?thesis by (auto split: if_splits)
  next
    case False
    with Cons.prems p Cons.IH [of h m] show ?thesis by auto
  qed
qed simp

section \<open>Properties\<close>

text \<open>
  \<^verbatim>\<open>SynchronizedParticipantRemoved\<close> never removes anybody: for a participant that is synchronised
  it throws the error that the participant is unknown, for any other it does nothing.
\<close>

theorem SynchronizedParticipantRemoved_never_removes:
  "SynchronizedParticipantRemoved name tc =
     (if known_next tc name = None then Inr tc
      else Inl (SilKitError (''Participant '' @ name @ '' unknown.'')))"
  by (auto simp: SynchronizedParticipantRemoved_def known_next_def)

end
