(* ===== verification/TimeSync.thy ===== *)
theory TimeSync
  imports TimeConfiguration
begin

text \<open>
  The distributed time synchronisation, \<^verbatim>\<open>services/orchestration/TimeSyncService.cpp\<close>: the two
  policies, the service that owns them, and the handler of the service discovery. What the service
  sees of the participant through its pointers (life cycle state, requests, system state) is the
  record \<open>lifecycle_view\<close>. The simulation step handler is user code and a parameter: it may change
  the life cycle (request a stop or a pause) and call back into the service. An operation returns
  the new state, its effects in order and the exception it ended with. Measurements, logging and the
  watch dog are left out.
\<close>

section \<open>State\<close>

record lifecycle_view =
  lv_state :: participant_state
  lv_stopRequested :: bool
  lv_pauseRequested :: bool
  lv_operationMode :: operation_mode
  lv_systemState :: system_state
  lv_isTimeSyncActive :: bool

datatype time_sync_policy = UnsynchronizedPolicy | SynchronizedPolicy

record time_sync =
  ts_lifecycle :: lifecycle_view
  ts_participantName :: string
  ts_config :: time_configuration
  ts_policy :: "time_sync_policy option"
  ts_timeSyncConfigured :: bool
  ts_isSynchronizingVirtualTime :: bool
  ts_simTaskSet :: bool
  ts_isExecutingSimStep :: bool
  ts_lastSentNextSimTask :: int
  ts_hopOnEvaluated :: bool
  ts_isCoupledToWallClock :: bool
  ts_wallClockReachedBeforeCompletion :: bool
  ts_currentWallClockSyncPointNs :: int

datatype deferred_task = D_ProcessSimulationTimeUpdate | D_RequestNextStep | D_CompleteSimulationStep

datatype time_effect =
    TE_SendMsg NextSimTask
  | TE_Deferred deferred_task
  | TE_SetTime int int
  | TE_SimTask int int
  | TE_InvokeOtherSimulationStepsCompletedHandlers
  | TE_AbortSimulation
  | TE_ReportError participant_state
  | TE_StartWallClockCouplingThread int
  | TE_SetTimeSyncActive bool

type_synonym time_outcome = "time_sync \<times> time_effect list \<times> error option"

datatype user_call = UC_SetPeriod int | UC_CompleteSimulationStep

type_synonym sim_handler = "int \<Rightarrow> int \<Rightarrow> lifecycle_view \<Rightarrow> lifecycle_view \<times> user_call list"

definition TimeSyncService_new :: "string \<Rightarrow> lifecycle_view \<Rightarrow> bool \<Rightarrow> time_sync" where
  "TimeSyncService_new name lifecycle coupled = \<lparr>ts_lifecycle = lifecycle, ts_participantName = name,
     ts_config = TimeConfiguration_new, ts_policy = None, ts_timeSyncConfigured = False,
     ts_isSynchronizingVirtualTime = False, ts_simTaskSet = False, ts_isExecutingSimStep = False,
     ts_lastSentNextSimTask = -1, ts_hopOnEvaluated = False, ts_isCoupledToWallClock = coupled,
     ts_wallClockReachedBeforeCompletion = False, ts_currentWallClockSyncPointNs = 0\<rparr>"

definition t_emit :: "time_effect list \<Rightarrow> time_outcome \<Rightarrow> time_outcome" where
  "t_emit evs out = (case out of (ts, evs', err) \<Rightarrow> (ts, evs @ evs', err))"

definition t_then :: "time_outcome \<Rightarrow> (time_sync \<Rightarrow> time_outcome) \<Rightarrow> time_outcome" where
  "t_then out f =
     (case out of (ts, evs, None) \<Rightarrow> t_emit evs (f ts) | (ts, evs, Some e) \<Rightarrow> (ts, evs, Some e))"

definition no_policy :: "time_sync \<Rightarrow> time_outcome" where
  "no_policy ts = (ts, [], Some (Undefined_behaviour ''call through a null TimeSyncPolicy''))"

section \<open>The synchronized policy\<close>

definition sync_RequestNextStep :: "time_sync \<Rightarrow> time_outcome" where
  "sync_RequestNextStep ts =
     (if lv_state (ts_lifecycle ts) = PS_Running \<and> \<not> lv_stopRequested (ts_lifecycle ts)
         \<and> \<not> lv_pauseRequested (ts_lifecycle ts)
      then let next = tc_myNextTask (ts_config ts) in
        if ts_lastSentNextSimTask ts \<noteq> nst_timePoint next
        then (ts\<lparr>ts_lastSentNextSimTask := nst_timePoint next\<rparr>,
              [TE_SendMsg next, TE_Deferred D_ProcessSimulationTimeUpdate], None)
        else (ts, [TE_Deferred D_ProcessSimulationTimeUpdate], None)
      else (ts, [], None))"

definition IsTimeAdvancePossible :: "time_sync \<Rightarrow> bool" where
  "IsTimeAdvancePossible ts =
     (let lv = ts_lifecycle ts in
      if lv_state lv \<noteq> PS_Running then False
      else if lv_stopRequested lv \<or> lv_pauseRequested lv then False
      else if lv_operationMode lv = OM_Coordinated \<and> lv_systemState lv = SS_Error then False
      else if OtherParticipantHasLowerTimepoint (ts_config ts) then False
      else if ts_isCoupledToWallClock ts
              \<and> my_next (ts_config ts) > ts_currentWallClockSyncPointNs ts then False
      else True)"

section \<open>Executing a simulation step\<close>

definition CompleteSimulationStep :: "time_sync \<Rightarrow> time_outcome" where
  "CompleteSimulationStep ts =
     (if ts_policy ts = None then no_policy ts
      else (ts, [TE_Deferred D_CompleteSimulationStep], None))"

definition SetPeriod :: "int \<Rightarrow> time_sync \<Rightarrow> time_outcome" where
  "SetPeriod period ts = (ts\<lparr>ts_config := SetStepDuration period (ts_config ts)\<rparr>, [], None)"

fun user_calls :: "user_call list \<Rightarrow> time_sync \<Rightarrow> time_outcome" where
  "user_calls [] ts = (ts, [], None)"
| "user_calls (UC_SetPeriod d # calls) ts = t_then (SetPeriod d ts) (user_calls calls)"
| "user_calls (UC_CompleteSimulationStep # calls) ts = t_then (CompleteSimulationStep ts) (user_calls calls)"

definition ExecuteSimStep :: "sim_handler \<Rightarrow> int \<Rightarrow> int \<Rightarrow> time_sync \<Rightarrow> time_outcome" where
  "ExecuteSimStep simTask timePoint duration ts =
     (if \<not> ts_simTaskSet ts then (ts, [], Some (AssertionError ''_simTask''))
      else case simTask timePoint duration (ts_lifecycle ts) of (lv, calls) \<Rightarrow>
        t_emit [TE_SetTime timePoint duration, TE_SimTask timePoint duration]
          (user_calls calls (ts\<lparr>ts_lifecycle := lv\<rparr>)))"

definition AbortHopOnForCoordinatedParticipants :: "time_sync \<Rightarrow> bool" where
  "AbortHopOnForCoordinatedParticipants ts \<longleftrightarrow> lv_operationMode (ts_lifecycle ts) = OM_Coordinated"

definition StartWallClockCouplingThread :: "int \<Rightarrow> time_sync \<Rightarrow> time_outcome" where
  "StartWallClockCouplingThread startTimeOffset ts =
     (ts\<lparr>ts_currentWallClockSyncPointNs := startTimeOffset\<rparr>, [TE_StartWallClockCouplingThread startTimeOffset], None)"

text \<open>
  Lines 254-270: the first step decides whether the participant hops on to a running simulation.
  \<open>Inl\<close> is the early return of an aborted hop-on.
\<close>

definition EvaluateHopOn :: "time_sync \<Rightarrow> time_outcome + (time_sync \<times> time_effect list)" where
  "EvaluateHopOn ts =
     (if ts_hopOnEvaluated ts then Inr (ts, [])
      else let (hopOn, tc) = IsHopOn (ts_config ts);
               ts1 = ts\<lparr>ts_hopOnEvaluated := True, ts_config := tc\<rparr>
        in if hopOn \<and> AbortHopOnForCoordinatedParticipants ts1 then Inl (ts1, [TE_AbortSimulation], None)
           else if ts_isCoupledToWallClock ts1
           then (case StartWallClockCouplingThread (my_next tc) ts1 of (ts2, evs, _) \<Rightarrow> Inr (ts2, evs))
           else Inr (ts1, []))"

definition AdvanceTimeAndExecuteSimStep :: "sim_handler \<Rightarrow> time_sync \<Rightarrow> time_outcome" where
  "AdvanceTimeAndExecuteSimStep simTask ts =
     (if lv_state (ts_lifecycle ts) = PS_Paused \<or> lv_state (ts_lifecycle ts) = PS_Running
      then case EvaluateHopOn ts of
          Inl out \<Rightarrow> out
        | Inr (ts1, evs) \<Rightarrow>
            let tc = AdvanceTimeStep (ts_config ts1); currentStep = tc_currentTask tc
            in t_emit evs (ExecuteSimStep simTask (nst_timePoint currentStep) (nst_duration currentStep)
                 (ts1\<lparr>ts_config := tc\<rparr>))
      else (ts, [], None))"

definition AdvanceTimeSimStepSync :: "sim_handler \<Rightarrow> time_sync \<Rightarrow> time_outcome" where
  "AdvanceTimeSimStepSync simTask ts =
     t_then (AdvanceTimeAndExecuteSimStep simTask ts) (\<lambda>ts.
       if \<not> lv_pauseRequested (ts_lifecycle ts) \<and> \<not> ts_isCoupledToWallClock ts
       then sync_RequestNextStep ts else (ts, [], None))"

definition AdvanceTimeSimStepAsync :: "sim_handler \<Rightarrow> time_sync \<Rightarrow> time_outcome" where
  "AdvanceTimeSimStepAsync simTask ts =
     (if ts_isExecutingSimStep ts then (ts, [TE_InvokeOtherSimulationStepsCompletedHandlers], None)
      else AdvanceTimeAndExecuteSimStep simTask (ts\<lparr>ts_isExecutingSimStep := True\<rparr>))"

definition sync_ProcessSimulationTimeUpdate :: "sim_handler \<Rightarrow> time_sync \<Rightarrow> time_outcome" where
  "sync_ProcessSimulationTimeUpdate simTask ts =
     (if IsTimeAdvancePossible ts
      then if tc_blocking (ts_config ts) then AdvanceTimeSimStepSync simTask ts
           else AdvanceTimeSimStepAsync simTask ts
      else (ts, [], None))"

definition sync_ReceiveNextSimTask :: "sim_handler \<Rightarrow> string \<Rightarrow> NextSimTask \<Rightarrow> time_sync \<Rightarrow> time_outcome" where
  "sync_ReceiveNextSimTask simTask from task ts0 =
     (let ts = ts0\<lparr>ts_config := OnReceiveNextSimStep from task (ts_config ts0)\<rparr> in
      case lv_state (ts_lifecycle ts) of
        PS_Invalid \<Rightarrow> (ts, [], None)
      | PS_ServicesCreated \<Rightarrow> (ts, [], None)
      | PS_CommunicationInitializing \<Rightarrow> (ts, [], None)
      | PS_CommunicationInitialized \<Rightarrow> (ts, [], None)
      | PS_ReadyToRun \<Rightarrow> (ts, [], None)
      | PS_Paused \<Rightarrow> sync_ProcessSimulationTimeUpdate simTask ts
      | PS_Running \<Rightarrow> sync_ProcessSimulationTimeUpdate simTask ts
      | PS_Stopping \<Rightarrow> (ts, [], None)
      | PS_Stopped \<Rightarrow> (ts, [], None)
      | PS_Error \<Rightarrow> (ts, [], None)
      | PS_ShuttingDown \<Rightarrow> (ts, [], None)
      | PS_Shutdown \<Rightarrow> (ts, [], None)
      | s \<Rightarrow> (ts, [TE_ReportError s], None))"

section \<open>Dispatch to the policy\<close>

definition ts_RequestNextStep :: "time_sync \<Rightarrow> time_outcome" where
  "ts_RequestNextStep ts =
     (case ts_policy ts of
        None \<Rightarrow> no_policy ts
      | Some UnsynchronizedPolicy \<Rightarrow> (ts, [], None)
      | Some SynchronizedPolicy \<Rightarrow> sync_RequestNextStep ts)"

definition ProcessSimulationTimeUpdate :: "sim_handler \<Rightarrow> time_sync \<Rightarrow> time_outcome" where
  "ProcessSimulationTimeUpdate simTask ts =
     (case ts_policy ts of
        None \<Rightarrow> no_policy ts
      | Some UnsynchronizedPolicy \<Rightarrow> (ts, [], None)
      | Some SynchronizedPolicy \<Rightarrow> sync_ProcessSimulationTimeUpdate simTask ts)"

definition SetSimStepCompleted :: "time_sync \<Rightarrow> time_sync" where
  "SetSimStepCompleted ts =
     (if ts_policy ts = Some SynchronizedPolicy then ts\<lparr>ts_isExecutingSimStep := False\<rparr> else ts)"

definition IsExecutingSimStep :: "time_sync \<Rightarrow> bool" where
  "IsExecutingSimStep ts \<longleftrightarrow> ts_policy ts = Some SynchronizedPolicy \<and> ts_isExecutingSimStep ts"

definition ts_ReceiveMsg :: "sim_handler \<Rightarrow> string \<Rightarrow> NextSimTask \<Rightarrow> time_sync \<Rightarrow> time_outcome" where
  "ts_ReceiveMsg simTask from task ts =
     (case ts_policy ts of
        None \<Rightarrow> (ts, [], None)
      | Some UnsynchronizedPolicy \<Rightarrow> (ts, [], None)
      | Some SynchronizedPolicy \<Rightarrow> sync_ReceiveNextSimTask simTask from task ts)"

text \<open>The body of the task deferred by \<^verbatim>\<open>CompleteSimulationStep\<close> (lines 576-597).\<close>

definition SimulationStepCompleted :: "time_sync \<Rightarrow> time_outcome" where
  "SimulationStepCompleted ts0 =
     (if ts_policy ts0 = None then no_policy ts0
      else let ts = SetSimStepCompleted ts0 in
        if \<not> ts_isCoupledToWallClock ts \<or> ts_wallClockReachedBeforeCompletion ts
        then ts_RequestNextStep (ts\<lparr>ts_wallClockReachedBeforeCompletion := False\<rparr>)
        else (ts, [], None))"

definition run_deferred :: "sim_handler \<Rightarrow> deferred_task \<Rightarrow> time_sync \<Rightarrow> time_outcome" where
  "run_deferred simTask task ts =
     (case task of
        D_ProcessSimulationTimeUpdate \<Rightarrow> ProcessSimulationTimeUpdate simTask ts
      | D_RequestNextStep \<Rightarrow> ts_RequestNextStep ts
      | D_CompleteSimulationStep \<Rightarrow> SimulationStepCompleted ts)"

text \<open>\<^verbatim>\<open>TimeSyncService::RequestNextStep\<close>, called when a paused participant continues.\<close>

definition RequestNextStep :: "time_sync \<Rightarrow> time_outcome" where
  "RequestNextStep ts = (ts, [TE_Deferred D_RequestNextStep], None)"

section \<open>Configuration and start\<close>

definition SetSimulationStepHandler :: "int \<Rightarrow> time_sync \<Rightarrow> time_sync" where
  "SetSimulationStepHandler initialStepSize ts = ts\<lparr>ts_simTaskSet := True,
     ts_config := SetStepDuration initialStepSize (SetBlockingMode True (ts_config ts))\<rparr>"

definition SetSimulationStepHandlerAsync :: "int \<Rightarrow> time_sync \<Rightarrow> time_sync" where
  "SetSimulationStepHandlerAsync initialStepSize ts = ts\<lparr>ts_simTaskSet := True,
     ts_config := SetStepDuration initialStepSize (SetBlockingMode False (ts_config ts))\<rparr>"

definition SetupTimeSyncPolicy :: "bool \<Rightarrow> time_sync \<Rightarrow> bool \<times> time_sync" where
  "SetupTimeSyncPolicy isSynchronizingVirtualTime ts =
     (if ts_policy ts \<noteq> None then (False, ts)
      else (True, ts\<lparr>ts_timeSyncConfigured := True,
              ts_policy := Some (if isSynchronizingVirtualTime then SynchronizedPolicy else UnsynchronizedPolicy)\<rparr>))"

definition ResetTime :: "time_sync \<Rightarrow> time_outcome" where
  "ResetTime ts =
     (case ts_policy ts of
        None \<Rightarrow> no_policy ts
      | Some UnsynchronizedPolicy \<Rightarrow> (ts, [], None)
      | Some SynchronizedPolicy \<Rightarrow> (ts\<lparr>ts_config := tc_Initialize (ts_config ts)\<rparr>, [], None))"

definition InitializeTimeSyncPolicy :: "bool \<Rightarrow> time_sync \<Rightarrow> time_outcome" where
  "InitializeTimeSyncPolicy isSynchronizingVirtualTime ts0 =
     (let (created, ts) = SetupTimeSyncPolicy isSynchronizingVirtualTime
            (ts0\<lparr>ts_isSynchronizingVirtualTime := isSynchronizingVirtualTime\<rparr>)
      in if \<not> created then (ts, [], None)
         else t_emit [TE_SetTimeSyncActive isSynchronizingVirtualTime] (ResetTime ts))"

definition ParticipantHasAutonomousSynchronousCapability :: "(string \<Rightarrow> bool) \<Rightarrow> string \<Rightarrow> time_sync \<Rightarrow> bool" where
  "ParticipantHasAutonomousSynchronousCapability hasCapability name ts \<longleftrightarrow>
     \<not> (lv_operationMode (ts_lifecycle ts) = OM_Autonomous \<and> lv_isTimeSyncActive (ts_lifecycle ts)
        \<and> \<not> hasCapability name)"

definition StartTime :: "(string \<Rightarrow> bool) \<Rightarrow> time_sync \<Rightarrow> time_outcome" where
  "StartTime hasCapability ts =
     (if ts_timeSyncConfigured ts
      then if ts_policy ts = None then (ts, [], Some (AssertionError ''timeSyncPolicy''))
        else t_emit
          (if ts_isSynchronizingVirtualTime ts
              \<and> (\<exists>name \<in> set (GetSynchronizedParticipantNames (ts_config ts)).
                   \<not> ParticipantHasAutonomousSynchronousCapability hasCapability name ts)
           then [TE_AbortSimulation] else [])
          (ts_RequestNextStep ts)
      else (ts, [], None))"

section \<open>Discovery and wall clock\<close>

text \<open>
  The handler of lines 325-404, for a descriptor of another participant's time synchronisation
  service with its supplemental item \<^verbatim>\<open>timeSyncActive\<close>.
\<close>

datatype discovery_event = ServiceCreated | ServiceRemoved

definition OnTimeSyncServiceDiscovery ::
    "sim_handler \<Rightarrow> (string \<Rightarrow> bool) \<Rightarrow> discovery_event \<Rightarrow> string \<Rightarrow> string \<Rightarrow> time_sync \<Rightarrow> time_outcome" where
  "OnTimeSyncServiceDiscovery simTask hasCapability ev name timeSyncActive ts =
     (if name = ts_participantName ts then (ts, [], None)
      else if timeSyncActive = ''1''
      then case ev of
          ServiceCreated \<Rightarrow>
            if \<not> ParticipantHasAutonomousSynchronousCapability hasCapability name ts
            then (ts, [TE_AbortSimulation], None)
            else let ts1 = ts\<lparr>ts_config := AddSynchronizedParticipant name (ts_config ts)\<rparr> in
              if my_now (ts_config ts1) \<ge> 0
              then if ts_policy ts1 = None then no_policy ts1
                else (ts1, [TE_SendMsg (if IsExecutingSimStep ts1 then tc_currentTask (ts_config ts1)
                                        else tc_myNextTask (ts_config ts1))], None)
              else (ts1, [], None)
        | ServiceRemoved \<Rightarrow>
            let (removed, tc) = RemoveSynchronizedParticipant name (ts_config ts);
                ts1 = ts\<lparr>ts_config := tc\<rparr>
            in if removed \<and> ts_policy ts1 \<noteq> None then ProcessSimulationTimeUpdate simTask ts1
               else (ts1, [], None)
      else (ts, [], None))"

text \<open>One round of the wall clock thread after its wait (lines 775-796).\<close>

definition WallClockTick :: "time_sync \<Rightarrow> time_outcome" where
  "WallClockTick ts0 =
     (if lv_state (ts_lifecycle ts0) = PS_Running
      then let ts = ts0\<lparr>ts_currentWallClockSyncPointNs := ts_currentWallClockSyncPointNs ts0
                 + nst_duration (tc_myNextTask (ts_config ts0))\<rparr>
        in if ts_policy ts = None then no_policy ts
           else if IsExecutingSimStep ts then (ts\<lparr>ts_wallClockReachedBeforeCompletion := True\<rparr>, [], None)
           else (ts, [TE_Deferred D_RequestNextStep], None)
      else (ts0, [], None))"

section \<open>Invariant of one participant\<close>

definition ts_inv :: "time_sync \<Rightarrow> bool" where
  "ts_inv ts \<longleftrightarrow> tc_ok (ts_config ts) \<and> 0 \<le> nst_duration (tc_myNextTask (ts_config ts))
     \<and> 0 \<le> my_next (ts_config ts) \<and> my_now (ts_config ts) \<le> my_next (ts_config ts)
     \<and> (ts_hopOnEvaluated ts \<or>
        \<not> tc_hoppedOn (ts_config ts) \<and> my_now (ts_config ts) = -1 \<and> my_next (ts_config ts) = 0)
     \<and> (ts_policy ts \<noteq> Some SynchronizedPolicy \<longrightarrow> \<not> ts_hopOnEvaluated ts)"

text \<open>
  \<open>keeps ts out\<close>: an operation started in \<open>ts\<close> keeps the invariant, never moves the next step back,
  announces no later step than its own next one and leaves the knowledge of the others alone.
\<close>

definition keeps :: "time_sync \<Rightarrow> time_outcome \<Rightarrow> bool" where
  "keeps ts out \<longleftrightarrow> (case out of (ts', evs, _) \<Rightarrow> ts_inv ts' \<and> my_next (ts_config ts) \<le> my_next (ts_config ts')
     \<and> (\<forall>m. TE_SendMsg m \<in> set evs \<longrightarrow> nst_timePoint m \<le> my_next (ts_config ts'))
     \<and> known_next (ts_config ts') = known_next (ts_config ts))"

lemma keepsI:
  "ts_inv ts' \<Longrightarrow> my_next (ts_config ts) \<le> my_next (ts_config ts') \<Longrightarrow>
   (\<And>m. TE_SendMsg m \<in> set evs \<Longrightarrow> nst_timePoint m \<le> my_next (ts_config ts')) \<Longrightarrow>
   known_next (ts_config ts') = known_next (ts_config ts) \<Longrightarrow> keeps ts (ts', evs, err)"
  by (simp add: keeps_def)

lemma t_emit_simps [simp]: "t_emit evs (ts, evs', err) = (ts, evs @ evs', err)"
  by (simp add: t_emit_def)

lemma t_then_simps [simp]:
  "t_then (ts, evs, None) f = t_emit evs (f ts)"
  "t_then (ts, evs, Some e) f = (ts, evs, Some e)"
  by (simp_all add: t_then_def)

lemma keeps_emit:
  assumes "keeps ts1 out" and "my_next (ts_config ts) \<le> my_next (ts_config ts1)"
    and "\<And>m. TE_SendMsg m \<in> set evs \<Longrightarrow> nst_timePoint m \<le> my_next (ts_config ts1)"
    and "known_next (ts_config ts1) = known_next (ts_config ts)"
  shows "keeps ts (t_emit evs out)"
  using assms by (cases out rule: prod_cases3) (force simp: keeps_def)

lemma keeps_then:
  assumes "keeps ts out" and "\<And>ts1. ts_inv ts1 \<Longrightarrow> keeps ts1 (f ts1)"
  shows "keeps ts (t_then out f)"
proof (cases out rule: prod_cases3)
  case (fields ts1 evs err)
  show ?thesis
  proof (cases err)
    case None
    with fields assms(1) have "ts_inv ts1" by (simp add: keeps_def)
    then have "keeps ts1 (f ts1)" by (rule assms(2))
    moreover have "my_next (ts_config ts) \<le> my_next (ts_config ts1)"
      "\<And>m. TE_SendMsg m \<in> set evs \<Longrightarrow> nst_timePoint m \<le> my_next (ts_config ts1)"
      "known_next (ts_config ts1) = known_next (ts_config ts)"
      using fields assms(1) by (simp_all add: keeps_def)
    ultimately have "keeps ts (t_emit evs (f ts1))" by (rule keeps_emit)
    with None fields show ?thesis by simp
  qed (use fields assms(1) in simp)
qed

lemma keeps_refl: "ts_inv ts \<Longrightarrow> keeps ts (ts, evs, err) \<longleftrightarrow>
    (\<forall>m. TE_SendMsg m \<in> set evs \<longrightarrow> nst_timePoint m \<le> my_next (ts_config ts))"
  by (simp add: keeps_def)

text \<open>User code gives no negative periods.\<close>

definition handler_ok :: "sim_handler \<Rightarrow> bool" where
  "handler_ok simTask \<longleftrightarrow>
     (\<forall>t d lv lv' calls p. simTask t d lv = (lv', calls) \<longrightarrow> UC_SetPeriod p \<in> set calls \<longrightarrow> 0 \<le> p)"

lemma ts_inv_config_cong:
  "ts_inv ts \<Longrightarrow> ts_config ts' = ts_config ts \<Longrightarrow> ts_hopOnEvaluated ts' = ts_hopOnEvaluated ts \<Longrightarrow>
   ts_policy ts' = ts_policy ts \<Longrightarrow> ts_inv ts'"
  by (simp add: ts_inv_def)

lemma ts_inv_SetStepDuration:
  "ts_inv ts \<Longrightarrow> 0 \<le> d \<Longrightarrow> ts_inv (ts\<lparr>ts_config := SetStepDuration d (ts_config ts)\<rparr>)"
  by (auto simp: ts_inv_def tc_ok_preserved) (simp_all add: SetStepDuration_def)

lemma keeps_RequestNextStep: "ts_inv ts \<Longrightarrow> keeps ts (sync_RequestNextStep ts)"
  by (auto simp: sync_RequestNextStep_def Let_def keeps_def intro: ts_inv_config_cong)

lemma keeps_user_calls:
  "ts_inv ts \<Longrightarrow> \<forall>p. UC_SetPeriod p \<in> set calls \<longrightarrow> 0 \<le> p \<Longrightarrow> keeps ts (user_calls calls ts)"
proof (induction calls ts rule: user_calls.induct)
  case (2 d calls ts)
  then show ?case
    by (simp add: SetPeriod_def)
       (rule keeps_emit [of "ts\<lparr>ts_config := SetStepDuration d (ts_config ts)\<rparr>"], auto intro: ts_inv_SetStepDuration)
next
  case (3 calls ts)
  then show ?case
    by (auto simp: CompleteSimulationStep_def no_policy_def keeps_refl intro: keeps_emit [of ts])
qed (simp add: keeps_refl)

lemma keeps_ExecuteSimStep:
  assumes "ts_inv ts" and "handler_ok simTask"
  shows "keeps ts (ExecuteSimStep simTask t d ts)"
proof -
  obtain lv calls where h: "simTask t d (ts_lifecycle ts) = (lv, calls)" by (cases "simTask t d (ts_lifecycle ts)")
  let ?ts = "ts\<lparr>ts_lifecycle := lv\<rparr>"
  have "ts_inv ?ts" using assms(1) by (rule ts_inv_config_cong) simp_all
  then have "keeps ?ts (user_calls calls ?ts)"
    using assms(2) h by (intro keeps_user_calls) (auto simp: handler_ok_def)
  then have "keeps ts (t_emit [TE_SetTime t d, TE_SimTask t d] (user_calls calls ?ts))"
    by (rule keeps_emit) simp_all
  with h assms(1) show ?thesis by (simp add: ExecuteSimStep_def keeps_refl)
qed

text \<open>The hop-on moves the next step to the least of the steps of the others that are under way.\<close>

lemma IsHopOn_spec:
  assumes "ts_inv ts" and "\<not> ts_hopOnEvaluated ts" and "\<not> OtherParticipantHasLowerTimepoint (ts_config ts)"
    and "IsHopOn (ts_config ts) = (b, tc)"
  shows "my_next (ts_config ts) \<le> my_next tc" and "known_next tc = known_next (ts_config ts)"
    and "\<And>name task. known_next tc name = Some task \<Longrightarrow> my_next tc \<le> nst_timePoint task \<or> nst_timePoint task \<le> nst_duration task"
    and "ts_policy ts = Some SynchronizedPolicy \<Longrightarrow> ts_inv (ts\<lparr>ts_hopOnEvaluated := True, ts_config := tc\<rparr>)"
proof -
  let ?tc = "ts_config ts"
  have init: "my_now ?tc = -1" "\<not> tc_hoppedOn ?tc" "my_next ?tc = 0" "tc_ok ?tc"
    using assms(1,2) by (simp_all add: ts_inv_def)
  obtain h m where hm: "min_advanced (tc_otherNextTasks ?tc) (False, nanoseconds_max) = (h, m)"
    by (cases "min_advanced (tc_otherNextTasks ?tc) (False, nanoseconds_max)")
  note spec = min_advanced_spec [OF hm]
  have low: "my_next ?tc \<le> nst_timePoint (snd p)" if "p \<in> set (tc_otherNextTasks ?tc)" for p
    using assms(3) that by (force simp: OtherParticipantHasLowerTimepoint_def)
  have tc: "tc = (if h then ?tc\<lparr>tc_hoppedOn := True, tc_myNextTask := (tc_myNextTask ?tc)\<lparr>nst_timePoint := m\<rparr>\<rparr>
      else ?tc\<lparr>tc_hoppedOn := h\<rparr>)"
    using assms(4) init hm by (auto simp: IsHopOn_def split: if_splits)
  have m: "0 \<le> m" using spec low init by (auto simp: nanoseconds_max_def)
  then show nx: "my_next ?tc \<le> my_next tc" using init tc by simp
  show k: "known_next tc = known_next ?tc" using known_next_simps(3) [of ?tc] assms(4) by simp
  show "my_next tc \<le> nst_timePoint task \<or> nst_timePoint task \<le> nst_duration task"
    if "known_next tc name = Some task" for name task
  proof -
    from that k have "(name, task) \<in> set (tc_otherNextTasks ?tc)" by (simp add: known_next_def map_of_SomeD)
    with spec low [of "(name, task)"] tc show ?thesis by (cases h) fastforce+
  qed
  show "ts_inv (ts\<lparr>ts_hopOnEvaluated := True, ts_config := tc\<rparr>)" if "ts_policy ts = Some SynchronizedPolicy"
    using assms(1) that tc m init by (auto simp: ts_inv_def tc_ok_def)
qed

lemma my_next_AdvanceTimeStep_inv:
  "ts_inv ts \<Longrightarrow> ts_policy ts = Some SynchronizedPolicy \<Longrightarrow> ts_hopOnEvaluated ts \<Longrightarrow>
   ts_inv (ts\<lparr>ts_config := AdvanceTimeStep (ts_config ts)\<rparr>)"
  by (auto simp: ts_inv_def tc_ok_preserved) (simp_all add: AdvanceTimeStep_def Let_def)

lemma EvaluateHopOn_keeps:
  assumes inv: "ts_inv ts" and pol: "ts_policy ts = Some SynchronizedPolicy"
    and low: "\<not> OtherParticipantHasLowerTimepoint (ts_config ts)"
  shows "case EvaluateHopOn ts of
      Inl out \<Rightarrow> keeps ts out
    | Inr (ts1, evs) \<Rightarrow> keeps ts (ts1, evs, None) \<and> ts_hopOnEvaluated ts1 \<and> ts_policy ts1 = Some SynchronizedPolicy
        \<and> (\<forall>m. TE_SendMsg m \<notin> set evs) \<and> (\<forall>t d. TE_SimTask t d \<notin> set evs)
        \<and> (ts_hopOnEvaluated ts \<longrightarrow> ts_config ts1 = ts_config ts)
        \<and> (\<forall>name task. known_next (ts_config ts) name = Some task \<longrightarrow>
             my_next (ts_config ts1) \<le> nst_timePoint task
             \<or> \<not> ts_hopOnEvaluated ts \<and> nst_timePoint task \<le> nst_duration task)"
proof (cases "ts_hopOnEvaluated ts")
  case True
  have "my_next (ts_config ts) \<le> nst_timePoint task" if "known_next (ts_config ts) name = Some task" for name task
    using low that inv by (force simp: ts_inv_def OtherParticipantHasLowerTimepoint_iff)
  with True inv pol show ?thesis by (simp add: EvaluateHopOn_def keeps_refl)
next
  case False
  obtain b tc where hop: "IsHopOn (ts_config ts) = (b, tc)" by (cases "IsHopOn (ts_config ts)")
  let ?ts1 = "ts\<lparr>ts_hopOnEvaluated := True, ts_config := tc\<rparr>"
  note spec = IsHopOn_spec [OF inv False low hop]
  have inv1: "ts_inv ?ts1" using spec(4) pol by blast
  have inv2: "ts_inv (?ts1\<lparr>ts_currentWallClockSyncPointNs := x\<rparr>)" for x
    using inv1 by (rule ts_inv_config_cong) simp_all
  show ?thesis
    using False hop inv1 inv2 spec(1-3) pol
    by (auto simp: EvaluateHopOn_def StartWallClockCouplingThread_def keeps_def Let_def)
qed

text \<open>
  \<open>allowed ts t\<close>: as far as the participant knows, no other one has a step before \<open>t\<close>. Only the
  first step of a participant that hops on disregards those that have not passed their first step.
\<close>

definition allowed :: "time_sync \<Rightarrow> int \<Rightarrow> bool" where
  "allowed ts t \<longleftrightarrow> (\<forall>name task. known_next (ts_config ts) name = Some task \<longrightarrow>
     t \<le> nst_timePoint task \<or> \<not> ts_hopOnEvaluated ts \<and> nst_timePoint task \<le> nst_duration task)"

definition executes :: "time_sync \<Rightarrow> time_outcome \<Rightarrow> bool" where
  "executes ts out \<longleftrightarrow> (case out of (ts', evs, _) \<Rightarrow>
     \<forall>t d. TE_SimTask t d \<in> set evs \<longrightarrow>
       allowed ts t \<and> my_next (ts_config ts) \<le> t \<and> (ts_hopOnEvaluated ts \<longrightarrow> t = my_next (ts_config ts))
       \<and> my_now (ts_config ts') = t \<and> my_next (ts_config ts') = t + d \<and> 0 \<le> d)"

definition idle :: "time_sync \<Rightarrow> time_outcome \<Rightarrow> bool" where
  "idle ts out \<longleftrightarrow> (case out of (ts', evs, _) \<Rightarrow> (\<forall>t d. TE_SimTask t d \<notin> set evs)
     \<and> my_now (ts_config ts') = my_now (ts_config ts) \<and> my_next (ts_config ts') = my_next (ts_config ts))"

lemma idle_done [simp]: "idle ts (ts', evs, err) \<longleftrightarrow> (\<forall>t d. TE_SimTask t d \<notin> set evs)
     \<and> my_now (ts_config ts') = my_now (ts_config ts) \<and> my_next (ts_config ts') = my_next (ts_config ts)"
  by (simp add: idle_def)

lemma idle_executes: "idle ts out \<Longrightarrow> executes ts out"
  by (auto simp: idle_def executes_def split: prod.splits)

lemma idle_emit:
  "idle ts1 out \<Longrightarrow> \<forall>t d. TE_SimTask t d \<notin> set evs \<Longrightarrow> my_now (ts_config ts1) = my_now (ts_config ts) \<Longrightarrow>
   my_next (ts_config ts1) = my_next (ts_config ts) \<Longrightarrow> idle ts (t_emit evs out)"
  by (cases out rule: prod_cases3) simp

lemma executes_then:
  assumes "executes ts out" and "\<And>ts1. idle ts1 (f ts1)"
  shows "executes ts (t_then out f)"
proof (cases out rule: prod_cases3)
  case (fields ts1 evs err)
  show ?thesis
  proof (cases err)
    case None
    with fields assms show ?thesis
      using assms(2) [of ts1] by (cases "f ts1" rule: prod_cases3) (auto simp: executes_def)
  qed (use fields assms(1) in simp)
qed

lemma my_now_SetStepDuration [simp]: "tc_currentTask (SetStepDuration d tc) = tc_currentTask tc"
  by (simp add: SetStepDuration_def)

lemma idle_user_calls: "idle ts (user_calls calls ts)"
proof (induction calls ts rule: user_calls.induct)
  case (2 d calls ts)
  then show ?case
    using idle_emit [of "ts\<lparr>ts_config := SetStepDuration d (ts_config ts)\<rparr>" _ "[]" ts] by (simp add: SetPeriod_def)
next
  case (3 calls ts)
  then show ?case by (auto simp: CompleteSimulationStep_def no_policy_def intro: idle_emit [of ts])
qed simp

lemma idle_RequestNextStep: "idle ts (sync_RequestNextStep ts)"
  by (auto simp: sync_RequestNextStep_def Let_def)

lemma AdvanceTimeAndExecuteSimStep_correct:
  assumes inv: "ts_inv ts" and pol: "ts_policy ts = Some SynchronizedPolicy"
    and low: "\<not> OtherParticipantHasLowerTimepoint (ts_config ts)" and h: "handler_ok simTask"
  shows "keeps ts (AdvanceTimeAndExecuteSimStep simTask ts)" and "executes ts (AdvanceTimeAndExecuteSimStep simTask ts)"
proof -
  note hop = EvaluateHopOn_keeps [OF inv pol low]
  have "keeps ts (AdvanceTimeAndExecuteSimStep simTask ts) \<and> executes ts (AdvanceTimeAndExecuteSimStep simTask ts)"
  proof (cases "EvaluateHopOn ts")
    case (Inl out)
    moreover have "executes ts out"
      using Inl by (auto simp: EvaluateHopOn_def executes_def StartWallClockCouplingThread_def Let_def
          split: if_splits prod.splits)
    ultimately show ?thesis
      using hop inv by (simp add: AdvanceTimeAndExecuteSimStep_def keeps_refl executes_def)
  next
    case (Inr r)
    then obtain ts1 evs where e: "EvaluateHopOn ts = Inr (ts1, evs)" by (cases r) simp
    let ?tc = "AdvanceTimeStep (ts_config ts1)" and ?t = "my_next (ts_config ts1)"
      and ?d = "nst_duration (tc_myNextTask (ts_config ts1))"
    let ?ts2 = "ts1\<lparr>ts_config := ?tc\<rparr>"
    let ?out = "ExecuteSimStep simTask ?t ?d ?ts2"
    from e hop have 1: "keeps ts (ts1, evs, None)" "ts_hopOnEvaluated ts1" "ts_policy ts1 = Some SynchronizedPolicy"
        "\<forall>m. TE_SendMsg m \<notin> set evs" "\<forall>t d. TE_SimTask t d \<notin> set evs"
        "ts_hopOnEvaluated ts \<longrightarrow> ts_config ts1 = ts_config ts" "allowed ts ?t"
      by (simp_all add: allowed_def)
    then have inv1: "ts_inv ts1" "my_next (ts_config ts) \<le> ?t" "known_next (ts_config ts1) = known_next (ts_config ts)"
      by (simp_all add: keeps_def)
    then have d: "0 \<le> ?d" by (simp add: ts_inv_def)
    have inv2: "ts_inv ?ts2" using inv1(1) 1 by (intro my_next_AdvanceTimeStep_inv)
    have "keeps ?ts2 ?out" using inv2 h by (rule keeps_ExecuteSimStep)
    then have k: "keeps ts (t_emit evs ?out)"
      by (rule keeps_emit) (use 1 inv1 d in simp_all)
    have x: "executes ts (t_emit evs ?out)"
    proof (cases "ts_simTaskSet ?ts2")
      case False
      with 1(5) show ?thesis by (simp add: ExecuteSimStep_def executes_def)
    next
      case True
      obtain lv calls where "simTask ?t ?d (ts_lifecycle ?ts2) = (lv, calls)"
        by (cases "simTask ?t ?d (ts_lifecycle ?ts2)")
      moreover obtain ts3 evs3 err where u: "user_calls calls (?ts2\<lparr>ts_lifecycle := lv\<rparr>) = (ts3, evs3, err)"
        by (cases "user_calls calls (?ts2\<lparr>ts_lifecycle := lv\<rparr>)" rule: prod_cases3)
      ultimately have out: "t_emit evs ?out
          = (ts3, evs @ TE_SetTime ?t ?d # TE_SimTask ?t ?d # evs3, err)"
        using True by (simp add: ExecuteSimStep_def)
      have "idle (?ts2\<lparr>ts_lifecycle := lv\<rparr>) (ts3, evs3, err)"
        using idle_user_calls [of "?ts2\<lparr>ts_lifecycle := lv\<rparr>" calls] u by simp
      with 1 inv1 d show ?thesis unfolding out executes_def by auto
    qed
    have "AdvanceTimeAndExecuteSimStep simTask ts \<in> {t_emit evs ?out, (ts, [], None)}"
      by (simp add: AdvanceTimeAndExecuteSimStep_def e Let_def)
    with k x inv show ?thesis by (auto simp: keeps_refl executes_def)
  qed
  then show "keeps ts (AdvanceTimeAndExecuteSimStep simTask ts)"
    and "executes ts (AdvanceTimeAndExecuteSimStep simTask ts)" by simp_all
qed

definition correct :: "time_sync \<Rightarrow> time_outcome \<Rightarrow> bool" where
  "correct ts out \<longleftrightarrow> keeps ts out \<and> executes ts out"

lemma correct_done:
  "ts_inv ts' \<Longrightarrow> ts_config ts' = ts_config ts \<Longrightarrow> \<forall>m. TE_SendMsg m \<in> set evs \<longrightarrow> nst_timePoint m \<le> my_next (ts_config ts) \<Longrightarrow>
   \<forall>t d. TE_SimTask t d \<notin> set evs \<Longrightarrow> correct ts (ts', evs, err)"
  by (auto simp: correct_def keeps_def executes_def)

lemma correct_cong:
  assumes "correct ts1 out" and "ts_config ts1 = ts_config ts" and "ts_hopOnEvaluated ts1 = ts_hopOnEvaluated ts"
  shows "correct ts out"
  using assms by (auto simp: correct_def keeps_def executes_def allowed_def split: prod.splits)

lemma correct_RequestNextStep: "ts_inv ts \<Longrightarrow> correct ts (sync_RequestNextStep ts)"
  by (simp add: correct_def keeps_RequestNextStep idle_executes idle_RequestNextStep)

lemma correct_ProcessSimulationTimeUpdate:
  assumes inv: "ts_inv ts" and pol: "ts_policy ts = Some SynchronizedPolicy" and h: "handler_ok simTask"
  shows "correct ts (sync_ProcessSimulationTimeUpdate simTask ts)"
proof (cases "IsTimeAdvancePossible ts")
  case False
  with inv show ?thesis by (simp add: sync_ProcessSimulationTimeUpdate_def correct_done)
next
  case True
  then have low: "\<not> OtherParticipantHasLowerTimepoint (ts_config ts)"
    by (auto simp: IsTimeAdvancePossible_def Let_def split: if_splits)
  have "correct ts (AdvanceTimeSimStepSync simTask ts)"
    unfolding AdvanceTimeSimStepSync_def correct_def
    using AdvanceTimeAndExecuteSimStep_correct [OF inv pol low h]
    by (auto intro!: keeps_then executes_then simp: keeps_RequestNextStep keeps_refl idle_RequestNextStep)
  moreover have "correct ts (AdvanceTimeSimStepAsync simTask ts)"
  proof (cases "ts_isExecutingSimStep ts")
    case True
    with inv show ?thesis by (simp add: AdvanceTimeSimStepAsync_def correct_done)
  next
    case False
    let ?ts = "ts\<lparr>ts_isExecutingSimStep := True\<rparr>"
    have "ts_inv ?ts" using inv by (rule ts_inv_config_cong) simp_all
    then have "correct ?ts (AdvanceTimeAndExecuteSimStep simTask ?ts)"
      using AdvanceTimeAndExecuteSimStep_correct [of ?ts simTask] pol low h by (simp add: correct_def)
    then have "correct ts (AdvanceTimeAndExecuteSimStep simTask ?ts)" by (rule correct_cong) simp_all
    with False show ?thesis by (simp add: AdvanceTimeSimStepAsync_def)
  qed
  ultimately show ?thesis using True by (simp add: sync_ProcessSimulationTimeUpdate_def)
qed

lemma correct_ReceiveMsg:
  fixes "from" task
  assumes inv: "ts_inv ts" and h: "handler_ok simTask"
  defines "ts' \<equiv> if ts_policy ts = Some SynchronizedPolicy
      then ts\<lparr>ts_config := OnReceiveNextSimStep from task (ts_config ts)\<rparr> else ts"
  shows "correct ts' (ts_ReceiveMsg simTask from task ts)"
proof -
  let ?ts = "ts\<lparr>ts_config := OnReceiveNextSimStep from task (ts_config ts)\<rparr>"
  have inv': "ts_inv ?ts"
    using inv tc_ok_preserved(3) [of "ts_config ts" "from" task]
    by (auto simp: ts_inv_def OnReceiveNextSimStep_def split: option.splits)
  show ?thesis
  proof (cases "ts_policy ts = Some SynchronizedPolicy")
    case True
    with inv' h correct_ProcessSimulationTimeUpdate [of ?ts simTask] show ?thesis
      by (simp add: ts'_def ts_ReceiveMsg_def sync_ReceiveNextSimTask_def Let_def correct_done split: participant_state.split)
  next
    case False
    with inv show ?thesis
      by (auto simp: ts'_def ts_ReceiveMsg_def correct_done split: option.split time_sync_policy.split)
  qed
qed

lemma correct_dispatch:
  assumes "ts_inv ts"
  shows "correct ts (ts_RequestNextStep ts)"
    and "handler_ok simTask \<Longrightarrow> correct ts (ProcessSimulationTimeUpdate simTask ts)"
  using assms
  by (auto simp: ts_RequestNextStep_def ProcessSimulationTimeUpdate_def no_policy_def correct_done
      correct_RequestNextStep correct_ProcessSimulationTimeUpdate split: option.split time_sync_policy.split)

lemma correct_SimulationStepCompleted:
  assumes "ts_inv ts"
  shows "correct ts (SimulationStepCompleted ts)"
proof -
  let ?ts = "(SetSimStepCompleted ts)\<lparr>ts_wallClockReachedBeforeCompletion := False\<rparr>"
  have inv: "ts_inv (SetSimStepCompleted ts)" "ts_inv ?ts"
    using assms by (auto simp: SetSimStepCompleted_def intro: ts_inv_config_cong)
  have same: "ts_config (SetSimStepCompleted ts) = ts_config ts"
      "ts_hopOnEvaluated (SetSimStepCompleted ts) = ts_hopOnEvaluated ts"
    by (simp_all add: SetSimStepCompleted_def)
  have "correct ts (ts_RequestNextStep ?ts)"
    using correct_dispatch(1) [OF inv(2)] by (rule correct_cong) (simp_all add: same)
  with assms inv same show ?thesis
    by (simp add: SimulationStepCompleted_def no_policy_def correct_done Let_def)
qed

lemma correct_run_deferred:
  "ts_inv ts \<Longrightarrow> handler_ok simTask \<Longrightarrow> correct ts (run_deferred simTask task ts)"
  by (cases task) (simp_all add: run_deferred_def correct_dispatch correct_SimulationStepCompleted)

end
