(* ===== verification/TimeSyncSystem.thy ===== *)
theory TimeSyncSystem
  imports TimeSync
begin

text \<open>
  A simulation of many participants that run the time synchronisation of \<open>TimeSync\<close>: a step of the
  system is one call of the service's interface, one delivery of a \<^verbatim>\<open>NextSimTask\<close> or one deferred
  task, at one participant. Messages of one participant to another stay in order; which of the others
  get a message (who has subscribed) is left open. An exception ends the call it was raised in.
\<close>

section \<open>The system\<close>

record network =
  net_ts :: "string \<Rightarrow> time_sync"
  net_chan :: "string \<Rightarrow> string \<Rightarrow> NextSimTask list"
  net_deferred :: "string \<Rightarrow> deferred_task list"

datatype time_call =
    Call_SetPeriod int
  | Call_SetSimulationStepHandler int
  | Call_SetSimulationStepHandlerAsync int
  | Call_InitializeTimeSyncPolicy bool
  | Call_StartTime
  | Call_CompleteSimulationStep
  | Call_RequestNextStep
  | Call_Discovery discovery_event string string
  | Call_WallClockTick
  | Call_Lifecycle lifecycle_view

fun call_step :: "sim_handler \<Rightarrow> (string \<Rightarrow> bool) \<Rightarrow> time_call \<Rightarrow> time_sync \<Rightarrow> time_outcome" where
  "call_step simTask cap (Call_SetPeriod d) ts = SetPeriod d ts"
| "call_step simTask cap (Call_SetSimulationStepHandler d) ts = (SetSimulationStepHandler d ts, [], None)"
| "call_step simTask cap (Call_SetSimulationStepHandlerAsync d) ts = (SetSimulationStepHandlerAsync d ts, [], None)"
| "call_step simTask cap (Call_InitializeTimeSyncPolicy b) ts = InitializeTimeSyncPolicy b ts"
| "call_step simTask cap Call_StartTime ts = StartTime cap ts"
| "call_step simTask cap Call_CompleteSimulationStep ts = CompleteSimulationStep ts"
| "call_step simTask cap Call_RequestNextStep ts = RequestNextStep ts"
| "call_step simTask cap (Call_Discovery ev name active) ts = OnTimeSyncServiceDiscovery simTask cap ev name active ts"
| "call_step simTask cap Call_WallClockTick ts = WallClockTick ts"
| "call_step simTask cap (Call_Lifecycle lv) ts = (ts\<lparr>ts_lifecycle := lv\<rparr>, [], None)"

fun call_ok :: "time_call \<Rightarrow> bool" where
  "call_ok (Call_SetPeriod d) \<longleftrightarrow> 0 \<le> d"
| "call_ok (Call_SetSimulationStepHandler d) \<longleftrightarrow> 0 \<le> d"
| "call_ok (Call_SetSimulationStepHandlerAsync d) \<longleftrightarrow> 0 \<le> d"
| "call_ok _ \<longleftrightarrow> True"

fun sent_tasks :: "time_effect list \<Rightarrow> NextSimTask list" where
  "sent_tasks [] = []"
| "sent_tasks (TE_SendMsg m # evs) = m # sent_tasks evs"
| "sent_tasks (_ # evs) = sent_tasks evs"

fun deferred_tasks :: "time_effect list \<Rightarrow> deferred_task list" where
  "deferred_tasks [] = []"
| "deferred_tasks (TE_Deferred d # evs) = d # deferred_tasks evs"
| "deferred_tasks (_ # evs) = deferred_tasks evs"

definition commit :: "string \<Rightarrow> time_sync \<Rightarrow> time_effect list \<Rightarrow> string set \<Rightarrow> network \<Rightarrow> network" where
  "commit P ts evs R n = n\<lparr>net_ts := (net_ts n)(P := ts),
     net_chan := (net_chan n)(P := (\<lambda>Q. net_chan n P Q @ (if Q \<in> R then sent_tasks evs else []))),
     net_deferred := (net_deferred n)(P := net_deferred n P @ deferred_tasks evs)\<rparr>"

inductive net_step :: "(string \<Rightarrow> sim_handler) \<Rightarrow> (string \<Rightarrow> bool) \<Rightarrow> network \<Rightarrow> string \<Rightarrow> time_effect list
    \<Rightarrow> network \<Rightarrow> bool"
  for simTask cap where
  call: "call_ok c \<Longrightarrow> call_step (simTask P) cap c (net_ts n P) = (ts, evs, err) \<Longrightarrow>
    net_step simTask cap n P evs (commit P ts evs R n)"
| receive: "net_chan n Q P = m # rest \<Longrightarrow> ts_ReceiveMsg (simTask P) Q m (net_ts n P) = (ts, evs, err) \<Longrightarrow>
    net_step simTask cap n P evs
      (commit P ts evs R (n\<lparr>net_chan := (net_chan n)(Q := (net_chan n Q)(P := rest))\<rparr>))"
| deferred: "net_deferred n P = d # rest \<Longrightarrow> run_deferred (simTask P) d (net_ts n P) = (ts, evs, err) \<Longrightarrow>
    net_step simTask cap n P evs
      (commit P ts evs R (n\<lparr>net_deferred := (net_deferred n)(P := rest)\<rparr>))"

definition net_init :: "network \<Rightarrow> bool" where
  "net_init n \<longleftrightarrow> (\<forall>P. \<exists>lv coupled. net_ts n P = TimeSyncService_new P lv coupled)
     \<and> (\<forall>P Q. net_chan n P Q = []) \<and> (\<forall>P. net_deferred n P = [])"

inductive net_reachable :: "(string \<Rightarrow> sim_handler) \<Rightarrow> (string \<Rightarrow> bool) \<Rightarrow> network \<Rightarrow> bool"
  for simTask cap where
  init: "net_init n \<Longrightarrow> net_reachable simTask cap n"
| step: "net_reachable simTask cap n \<Longrightarrow> net_step simTask cap n P evs n' \<Longrightarrow> net_reachable simTask cap n'"

section \<open>One step of one participant\<close>

text \<open>
  Every step is a change of what the participant knows of the others, followed by an operation
  that is correct in the changed state.
\<close>

definition step_via :: "time_sync \<Rightarrow> time_sync \<Rightarrow> time_outcome \<Rightarrow> bool" where
  "step_via ts mid out \<longleftrightarrow> ts_inv mid \<and> correct mid out \<and> my_next (ts_config mid) = my_next (ts_config ts)
     \<and> my_now (ts_config mid) = my_now (ts_config ts) \<and> ts_hopOnEvaluated mid = ts_hopOnEvaluated ts"

lemma set_sent_tasks: "m \<in> set (sent_tasks evs) \<longleftrightarrow> TE_SendMsg m \<in> set evs"
  by (induction evs rule: sent_tasks.induct) auto

lemma my_now_config [simp]:
  "tc_currentTask (SetBlockingMode b tc) = tc_currentTask tc"
  "tc_currentTask (AddSynchronizedParticipant name tc) = tc_currentTask tc"
  "tc_currentTask (snd (RemoveSynchronizedParticipant name tc)) = tc_currentTask tc"
  "tc_currentTask (OnReceiveNextSimStep name task tc) = tc_currentTask tc"
  "tc_myNextTask (AddSynchronizedParticipant name tc) = tc_myNextTask tc"
  "tc_myNextTask (snd (RemoveSynchronizedParticipant name tc)) = tc_myNextTask tc"
  "tc_myNextTask (OnReceiveNextSimStep name task tc) = tc_myNextTask tc"
  "tc_hoppedOn (AddSynchronizedParticipant name tc) = tc_hoppedOn tc"
  "tc_hoppedOn (snd (RemoveSynchronizedParticipant name tc)) = tc_hoppedOn tc"
  "tc_hoppedOn (OnReceiveNextSimStep name task tc) = tc_hoppedOn tc"
  by (auto simp: SetBlockingMode_def AddSynchronizedParticipant_def RemoveSynchronizedParticipant_def
      OnReceiveNextSimStep_def split: option.splits)

lemma ts_inv_config:
  assumes "ts_inv ts" and "tc_ok tc" and "tc_myNextTask tc = tc_myNextTask (ts_config ts)"
    and "tc_currentTask tc = tc_currentTask (ts_config ts)" and "tc_hoppedOn tc = tc_hoppedOn (ts_config ts)"
  shows "ts_inv (ts\<lparr>ts_config := tc\<rparr>)"
  using assms by (simp add: ts_inv_def)

lemma step_via_same: "ts_inv ts \<Longrightarrow> correct ts out \<Longrightarrow> step_via ts ts out"
  by (simp add: step_via_def)

lemma correct_emit:
  assumes "correct ts out" and "ts_inv ts" and "\<forall>t d. TE_SimTask t d \<notin> set evs" and "\<forall>m. TE_SendMsg m \<notin> set evs"
  shows "correct ts (t_emit evs out)"
  using assms by (cases out rule: prod_cases3) (auto simp: correct_def keeps_def executes_def)

lemma step_via_discovery:
  assumes inv: "ts_inv ts" and h: "handler_ok simTask"
  shows "\<exists>mid. step_via ts mid (OnTimeSyncServiceDiscovery simTask cap ev name active ts)
    \<and> (\<forall>Q task. known_next (ts_config mid) Q = Some task \<longrightarrow>
         known_next (ts_config ts) Q = Some task \<or> nst_timePoint task = -1)"
proof -
  let ?add = "ts\<lparr>ts_config := AddSynchronizedParticipant name (ts_config ts)\<rparr>"
  let ?rem = "ts\<lparr>ts_config := snd (RemoveSynchronizedParticipant name (ts_config ts))\<rparr>"
  let ?out = "OnTimeSyncServiceDiscovery simTask cap ev name active ts"
  have ok: "tc_ok (ts_config ts)" using inv by (simp add: ts_inv_def)
  have add: "ts_inv ?add"
    using inv by (rule ts_inv_config) (simp_all add: tc_ok_preserved ok)
  have rem: "ts_inv ?rem"
    using inv by (rule ts_inv_config) (simp_all add: tc_ok_preserved ok)
  have le: "my_now (ts_config ?add) \<le> my_next (ts_config ?add)" using add by (simp add: ts_inv_def)
  show ?thesis
  proof (cases "name = ts_participantName ts \<or> active \<noteq> ''1''
      \<or> (ev = ServiceCreated \<and> \<not> ParticipantHasAutonomousSynchronousCapability cap name ts)")
    case True
    then have "correct ts ?out" using inv by (auto simp: OnTimeSyncServiceDiscovery_def correct_done)
    with inv show ?thesis by (intro exI [of _ ts]) (simp add: step_via_same)
  next
    case False
    show ?thesis
    proof (cases ev)
      case ServiceCreated
      with False add le have "correct ?add ?out"
        by (auto simp: OnTimeSyncServiceDiscovery_def Let_def no_policy_def intro!: correct_done)
      with add show ?thesis by (intro exI [of _ ?add]) (auto simp: step_via_def)
    next
      case ServiceRemoved
      with False rem correct_dispatch(2) [OF rem h] have "correct ?rem ?out"
        by (auto simp: OnTimeSyncServiceDiscovery_def Let_def correct_done split: prod.splits)
      with rem show ?thesis by (intro exI [of _ ?rem]) (auto simp: step_via_def)
    qed
  qed
qed

lemma ts_inv_handler:
  assumes "ts_inv ts" and "0 \<le> d"
  shows "ts_inv (ts\<lparr>ts_simTaskSet := True, ts_config := SetStepDuration d (SetBlockingMode b (ts_config ts))\<rparr>)"
  using assms tc_ok_preserved(4) tc_ok_preserved(7) [of "ts_config ts" b]
  by (auto simp: ts_inv_def) (simp_all add: SetStepDuration_def SetBlockingMode_def)

lemma step_via_config:
  assumes "ts_inv ts'" and "my_next (ts_config ts') = my_next (ts_config ts)"
    and "my_now (ts_config ts') = my_now (ts_config ts)" and "ts_hopOnEvaluated ts' = ts_hopOnEvaluated ts"
    and "known_next (ts_config ts') = known_next (ts_config ts)"
    and "\<forall>t d. TE_SimTask t d \<notin> set evs" and "\<forall>m. TE_SendMsg m \<notin> set evs"
  shows "\<exists>mid. step_via ts mid (ts', evs, err)
    \<and> (\<forall>Q task. known_next (ts_config mid) Q = Some task \<longrightarrow>
         known_next (ts_config ts) Q = Some task \<or> nst_timePoint task = -1)"
  using assms by (intro exI [of _ ts']) (auto simp: step_via_def intro!: correct_done)

lemma step_via_initialize:
  assumes inv: "ts_inv ts"
  shows "\<exists>mid. step_via ts mid (InitializeTimeSyncPolicy b ts)
    \<and> (\<forall>Q task. known_next (ts_config mid) Q = Some task \<longrightarrow>
         known_next (ts_config ts) Q = Some task \<or> nst_timePoint task = -1)"
proof (cases "ts_policy ts")
  case None
  let ?ts = "ts\<lparr>ts_isSynchronizingVirtualTime := b, ts_timeSyncConfigured := True,
      ts_policy := Some (if b then SynchronizedPolicy else UnsynchronizedPolicy),
      ts_config := if b then tc_Initialize (ts_config ts) else ts_config ts\<rparr>"
  from None inv have st: "\<not> ts_hopOnEvaluated ts" "my_next (ts_config ts) = 0" "my_now (ts_config ts) = -1"
    by (auto simp: ts_inv_def)
  have now: "my_now (tc_Initialize tc) = -1" for tc by (simp add: tc_Initialize_def)
  have "ts_inv ?ts"
    using inv st tc_ok_preserved(8) [of "ts_config ts"] by (auto simp: ts_inv_def) (simp_all add: tc_Initialize_def)
  moreover have "InitializeTimeSyncPolicy b ts = (?ts, [TE_SetTimeSyncActive b], None)"
    using None by (simp add: InitializeTimeSyncPolicy_def SetupTimeSyncPolicy_def ResetTime_def)
  ultimately show ?thesis using st now by (simp only:) (rule step_via_config, simp_all)
next
  case (Some pol)
  have "ts_inv (ts\<lparr>ts_isSynchronizingVirtualTime := b\<rparr>)"
    using inv by (rule ts_inv_config_cong) simp_all
  with Some show ?thesis
    by (simp add: InitializeTimeSyncPolicy_def SetupTimeSyncPolicy_def) (rule step_via_config, simp_all)
qed

lemma call_step_via:
  assumes inv: "ts_inv ts" and h: "handler_ok simTask" and ok: "call_ok c"
  shows "\<exists>mid. step_via ts mid (call_step simTask cap c ts)
    \<and> (\<forall>Q task. known_next (ts_config mid) Q = Some task \<longrightarrow>
         known_next (ts_config ts) Q = Some task \<or> nst_timePoint task = -1)"
proof -
  have same: ?thesis if "correct ts (call_step simTask cap c ts)"
    using that inv by (intro exI [of _ ts]) (simp add: step_via_same)
  show ?thesis
  proof (cases c)
    case (Call_SetPeriod d)
    with inv ok show ?thesis
      by (simp add: SetPeriod_def) (rule step_via_config, simp_all add: ts_inv_SetStepDuration)
  next
    case (Call_SetSimulationStepHandler d)
    with inv ok show ?thesis
      by (simp add: SetSimulationStepHandler_def) (rule step_via_config, simp_all add: ts_inv_handler)
  next
    case (Call_SetSimulationStepHandlerAsync d)
    with inv ok show ?thesis
      by (simp add: SetSimulationStepHandlerAsync_def) (rule step_via_config, simp_all add: ts_inv_handler)
  next
    case (Call_InitializeTimeSyncPolicy b)
    then show ?thesis using step_via_initialize [OF inv] by simp
  next
    case Call_StartTime
    have "correct ts (StartTime cap ts)"
      using inv correct_dispatch(1) [OF inv] by (auto simp: StartTime_def correct_done intro!: correct_emit)
    with Call_StartTime same show ?thesis by simp
  next
    case Call_CompleteSimulationStep
    with inv same show ?thesis by (simp add: CompleteSimulationStep_def no_policy_def correct_done)
  next
    case Call_RequestNextStep
    with inv same show ?thesis by (simp add: RequestNextStep_def correct_done)
  next
    case (Call_Discovery ev name active)
    then show ?thesis using step_via_discovery [OF inv h] by simp
  next
    case Call_WallClockTick
    have "ts_inv (ts\<lparr>ts_currentWallClockSyncPointNs := x\<rparr>)"
      "ts_inv (ts\<lparr>ts_currentWallClockSyncPointNs := x, ts_wallClockReachedBeforeCompletion := True\<rparr>)" for x
      using inv by (auto intro: ts_inv_config_cong)
    then have "correct ts (WallClockTick ts)"
      using inv by (auto simp: WallClockTick_def no_policy_def Let_def intro!: correct_done)
    with Call_WallClockTick same show ?thesis by simp
  next
    case (Call_Lifecycle lv)
    have "ts_inv (ts\<lparr>ts_lifecycle := lv\<rparr>)" using inv by (rule ts_inv_config_cong) simp_all
    with Call_Lifecycle same show ?thesis by (simp add: correct_done)
  qed
qed

section \<open>The invariant of the system\<close>

text \<open>What anyone knows or is told about the next step of a participant is not later than that step.\<close>

definition net_inv :: "network \<Rightarrow> bool" where
  "net_inv n \<longleftrightarrow> (\<forall>P. ts_inv (net_ts n P))
     \<and> (\<forall>P Q task. known_next (ts_config (net_ts n P)) Q = Some task \<longrightarrow>
          nst_timePoint task \<le> my_next (ts_config (net_ts n Q)))
     \<and> (\<forall>P Q m. m \<in> set (net_chan n Q P) \<longrightarrow> nst_timePoint m \<le> my_next (ts_config (net_ts n Q)))"

lemma net_inv_init: "net_init n \<Longrightarrow> net_inv n"
proof -
  assume init: "net_init n"
  have "ts_inv (TimeSyncService_new P lv c)" "known_next (ts_config (TimeSyncService_new P lv c)) Q = None" for P Q lv c
    by (simp_all add: ts_inv_def TimeSyncService_new_def TimeConfiguration_new_def tc_Initialize_def tc_ok_def known_next_def)
  with init show ?thesis unfolding net_init_def net_inv_def by (metis empty_iff list.set(1) option.distinct(1))
qed

text \<open>The common part of the three kinds of steps; \<open>n0\<close> is the system after a message or task was taken.\<close>

lemma net_inv_commit:
  assumes inv: "net_inv n0" and via: "step_via (net_ts n0 P) mid (ts, evs, err)"
    and known: "\<And>Q task. known_next (ts_config mid) Q = Some task \<Longrightarrow> nst_timePoint task \<le> my_next (ts_config (net_ts n0 Q))"
  shows "net_inv (commit P ts evs R n0)"
proof -
  from via have k: "ts_inv ts" "my_next (ts_config (net_ts n0 P)) \<le> my_next (ts_config ts)"
      "\<And>m. TE_SendMsg m \<in> set evs \<Longrightarrow> nst_timePoint m \<le> my_next (ts_config ts)"
      "known_next (ts_config ts) = known_next (ts_config mid)"
    by (simp_all add: step_via_def correct_def keeps_def)
  have mono: "x \<le> my_next (ts_config (((net_ts n0)(P := ts)) Q))" if "x \<le> my_next (ts_config (net_ts n0 Q))" for x Q
    using that k(2) by auto
  show ?thesis
    using inv k known mono
    unfolding net_inv_def commit_def
    by (auto simp: set_sent_tasks) (force intro: order_trans)+
qed

lemma net_step_via:
  assumes inv: "net_inv n" and st: "net_step simTask cap n P evs n'" and h: "\<forall>P. handler_ok (simTask P)"
  shows "\<exists>n0 mid ts err R. n' = commit P ts evs R n0 \<and> net_ts n0 = net_ts n \<and> net_inv n0
      \<and> step_via (net_ts n P) mid (ts, evs, err)
      \<and> (\<forall>Q task. known_next (ts_config mid) Q = Some task \<longrightarrow> nst_timePoint task \<le> my_next (ts_config (net_ts n Q)))"
  using st
proof cases
  case (call c ts err R)
  obtain mid where m: "step_via (net_ts n P) mid (ts, evs, err)"
    "\<forall>Q task. known_next (ts_config mid) Q = Some task \<longrightarrow>
         known_next (ts_config (net_ts n P)) Q = Some task \<or> nst_timePoint task = -1"
    using call_step_via [of "net_ts n P" "simTask P" c cap] inv h call by (auto simp: net_inv_def)
  have "nst_timePoint task \<le> my_next (ts_config (net_ts n Q))" if "known_next (ts_config mid) Q = Some task" for Q task
  proof -
    have "0 \<le> my_next (ts_config (net_ts n Q))" using inv by (simp add: net_inv_def ts_inv_def)
    with m(2) that inv show ?thesis unfolding net_inv_def by fastforce
  qed
  with call m(1) inv show ?thesis by blast
next
  case (receive Q m rest ts err R)
  let ?ts = "net_ts n P"
  let ?mid = "if ts_policy ?ts = Some SynchronizedPolicy
      then ?ts\<lparr>ts_config := OnReceiveNextSimStep Q m (ts_config ?ts)\<rparr> else ?ts"
  have tinv: "ts_inv ?ts" using inv by (simp add: net_inv_def)
  then have "tc_ok (ts_config ?ts)" by (simp add: ts_inv_def)
  then have "ts_inv (?ts\<lparr>ts_config := OnReceiveNextSimStep Q m (ts_config ?ts)\<rparr>)"
    by (intro ts_inv_config [OF tinv]) (simp_all add: tc_ok_preserved)
  with tinv have via: "step_via ?ts ?mid (ts, evs, err)"
    using correct_ReceiveMsg [OF tinv, of "simTask P" Q m] h receive by (auto simp: step_via_def)
  have mem: "m \<in> set (net_chan n Q P)" using receive by simp
  have kn: "nst_timePoint task \<le> my_next (ts_config (net_ts n Q'))" if "known_next (ts_config ?mid) Q' = Some task" for Q' task
    using that inv mem by (auto simp: net_inv_def split: if_splits)
  let ?n0 = "n\<lparr>net_chan := (net_chan n)(Q := (net_chan n Q)(P := rest))\<rparr>"
  have "net_inv ?n0" using inv receive(2) by (auto simp: net_inv_def) (metis list.set_intros(2))+
  with receive via kn show ?thesis
    by (intro exI [of _ ?n0] exI [of _ ?mid] exI [of _ ts] exI [of _ err] exI [of _ R]) auto
next
  case (deferred d rest ts err R)
  have tinv: "ts_inv (net_ts n P)" using inv by (simp add: net_inv_def)
  then have "step_via (net_ts n P) (net_ts n P) (ts, evs, err)"
    using correct_run_deferred [of "net_ts n P" "simTask P" d] h deferred by (auto intro: step_via_same)
  moreover have "net_inv (n\<lparr>net_deferred := (net_deferred n)(P := rest)\<rparr>)" using inv by (simp add: net_inv_def)
  ultimately show ?thesis using deferred inv
    by (intro exI [of _ "n\<lparr>net_deferred := (net_deferred n)(P := rest)\<rparr>"] exI [of _ "net_ts n P"]
        exI [of _ ts] exI [of _ err] exI [of _ R]) (auto simp: net_inv_def)
qed

lemma net_inv_step:
  assumes "net_inv n" and "net_step simTask cap n P evs n'" and "\<forall>P. handler_ok (simTask P)"
  shows "net_inv n'"
  using net_step_via [OF assms] by (metis net_inv_commit)

lemma net_inv_reachable:
  assumes "net_reachable simTask cap n" and "\<forall>P. handler_ok (simTask P)"
  shows "net_inv n"
  using assms by (induction rule: net_reachable.induct) (auto intro: net_inv_init net_inv_step)

section \<open>Schedules\<close>

text \<open>A schedule names the steps of a run; \<open>run_schedule\<close> executes it, with every message sent to everyone.\<close>

datatype sched_step = At_call string time_call | At_receive string string | At_deferred string

fun sched_exec :: "(string \<Rightarrow> sim_handler) \<Rightarrow> (string \<Rightarrow> bool) \<Rightarrow> sched_step \<Rightarrow> network
    \<Rightarrow> (string \<times> time_effect list \<times> network) option" where
  "sched_exec simTask cap (At_call P c) n =
     (if call_ok c
      then case call_step (simTask P) cap c (net_ts n P) of (ts, evs, _) \<Rightarrow> Some (P, evs, commit P ts evs UNIV n)
      else None)"
| "sched_exec simTask cap (At_receive P Q) n =
     (case net_chan n Q P of
        [] \<Rightarrow> None
      | m # rest \<Rightarrow> (case ts_ReceiveMsg (simTask P) Q m (net_ts n P) of (ts, evs, _) \<Rightarrow>
          Some (P, evs, commit P ts evs UNIV (n\<lparr>net_chan := (net_chan n)(Q := (net_chan n Q)(P := rest))\<rparr>))))"
| "sched_exec simTask cap (At_deferred P) n =
     (case net_deferred n P of
        [] \<Rightarrow> None
      | d # rest \<Rightarrow> (case run_deferred (simTask P) d (net_ts n P) of (ts, evs, _) \<Rightarrow>
          Some (P, evs, commit P ts evs UNIV (n\<lparr>net_deferred := (net_deferred n)(P := rest)\<rparr>))))"

fun run_schedule :: "(string \<Rightarrow> sim_handler) \<Rightarrow> (string \<Rightarrow> bool) \<Rightarrow> sched_step list \<Rightarrow> network \<Rightarrow> network option" where
  "run_schedule simTask cap [] n = Some n"
| "run_schedule simTask cap (s # ss) n =
     (case sched_exec simTask cap s n of None \<Rightarrow> None | Some (_, _, n') \<Rightarrow> run_schedule simTask cap ss n')"

lemma sched_exec_step: "sched_exec simTask cap s n = Some (P, evs, n') \<Longrightarrow> net_step simTask cap n P evs n'"
  by (cases s)
     (auto split: if_splits prod.splits list.splits intro: net_step.call net_step.receive net_step.deferred)

lemma run_schedule_reachable:
  "net_reachable simTask cap n \<Longrightarrow> run_schedule simTask cap ss n = Some n' \<Longrightarrow> net_reachable simTask cap n'"
proof (induction ss arbitrary: n)
  case (Cons s ss)
  then obtain P evs n1 where "sched_exec simTask cap s n = Some (P, evs, n1)" "run_schedule simTask cap ss n1 = Some n'"
    by (auto split: option.splits)
  with Cons show ?case by (blast intro: net_reachable.step sched_exec_step)
qed simp

definition example_lifecycle :: lifecycle_view where
  "example_lifecycle = \<lparr>lv_state = PS_Running, lv_stopRequested = False, lv_pauseRequested = False,
     lv_operationMode = OM_Autonomous, lv_systemState = SS_Running, lv_isTimeSyncActive = True\<rparr>"

definition example_net :: network where
  "example_net = \<lparr>net_ts = (\<lambda>P. TimeSyncService_new P example_lifecycle False),
     net_chan = (\<lambda>_ _. []), net_deferred = (\<lambda>_. [])\<rparr>"

definition example_handler :: "string \<Rightarrow> sim_handler" where
  "example_handler P t d lv = (lv, [])"

definition example_schedule :: "sched_step list" where
  "example_schedule =
     [At_call ''A'' (Call_InitializeTimeSyncPolicy True), At_call ''A'' (Call_SetSimulationStepHandler 10),
      At_call ''A'' (Call_Discovery ServiceCreated ''B'' ''1''),
      At_call ''B'' (Call_InitializeTimeSyncPolicy True), At_call ''B'' (Call_SetSimulationStepHandler 10),
      At_call ''B'' Call_StartTime, At_deferred ''B'', At_receive ''A'' ''B'']"

definition example_observation :: "(bool \<times> string \<times> time_effect list \<times> NextSimTask option) option" where
  "example_observation = (case run_schedule example_handler (\<lambda>_. True) example_schedule example_net of
      None \<Rightarrow> None
    | Some n \<Rightarrow> (case sched_exec example_handler (\<lambda>_. True) (At_receive ''A'' ''B'') n of
        None \<Rightarrow> None
      | Some (P, evs, n') \<Rightarrow>
          Some (ts_hopOnEvaluated (net_ts n ''A''), P, evs, known_next (ts_config (net_ts n' ''A'')) ''B'')))"

lemma example_observation_value: "example_observation = Some (True, ''A'',
    [TE_SetTime 10 10, TE_SimTask 10 10, TE_SendMsg \<lparr>nst_timePoint = 20, nst_duration = 10\<rparr>,
     TE_Deferred D_ProcessSimulationTimeUpdate], Some \<lparr>nst_timePoint = 10, nst_duration = 10\<rparr>)"
  by code_simp

lemma example_handler_ok: "\<forall>P. handler_ok (example_handler P)"
  by (simp add: handler_ok_def example_handler_def)

lemma example_run:
  "\<exists>n n' evs. net_reachable example_handler (\<lambda>_. True) n \<and> net_step example_handler (\<lambda>_. True) n ''A'' evs n'
     \<and> TE_SimTask 10 10 \<in> set evs \<and> ts_hopOnEvaluated (net_ts n ''A'')
     \<and> known_next (ts_config (net_ts n' ''A'')) ''B'' = Some \<lparr>nst_timePoint = 10, nst_duration = 10\<rparr>"
proof -
  obtain n where n: "run_schedule example_handler (\<lambda>_. True) example_schedule example_net = Some n"
    using example_observation_value by (auto simp: example_observation_def split: option.splits)
  then obtain P evs n' where n': "sched_exec example_handler (\<lambda>_. True) (At_receive ''A'' ''B'') n = Some (P, evs, n')"
    using example_observation_value by (auto simp only: example_observation_def split: option.splits prod.splits)
  have obs: "P = ''A''" "TE_SimTask 10 10 \<in> set evs" "ts_hopOnEvaluated (net_ts n ''A'')"
      "known_next (ts_config (net_ts n' ''A'')) ''B'' = Some \<lparr>nst_timePoint = 10, nst_duration = 10\<rparr>"
    using example_observation_value n n' by (simp_all only: example_observation_def option.case prod.case) simp_all
  have "net_init example_net" by (auto simp: net_init_def example_net_def)
  then have "net_reachable example_handler (\<lambda>_. True) n"
    using n by (blast intro: net_reachable.init run_schedule_reachable)
  with sched_exec_step [OF n'] obs show ?thesis by blast
qed

section \<open>Properties\<close>









end
