(* ===== verification/SystemStateTracker.thy ===== *)
theory SystemStateTracker
  imports OrchestrationDatatypes
begin

text \<open>
  The computation of the system state from the states of the required participants,
  \<^verbatim>\<open>services/orchestration/SystemStateTracker.cpp\<close>. The cache of participant states is only searched,
  so the iteration order of its hash table does not matter and it is kept ordered by name. The set of
  required participants is iterated: \<^verbatim>\<open>GetAnyRequiredParticipantState\<close> takes the element that
  \<^verbatim>\<open>begin()\<close> of the hash set points to. The record therefore holds the names in the iteration order of
  the set, and the order that filling the set produces is an argument of
  \<^verbatim>\<open>UpdateRequiredParticipants\<close>. Logging is left out; the mutex makes each method one step.
\<close>

section \<open>State and operations\<close>

record system_state_tracker =
  st_requiredParticipants :: "string list"
  st_systemState :: system_state
  st_participantStatusCache :: "(string, ParticipantStatus) omap"

definition SystemStateTracker_new :: system_state_tracker where
  "SystemStateTracker_new = \<lparr>st_requiredParticipants = [], st_systemState = SS_Invalid,
     st_participantStatusCache = []\<rparr>"

fun ValidateParticipantStateUpdate :: "participant_state \<Rightarrow> participant_state \<Rightarrow> bool result" where
  "ValidateParticipantStateUpdate old PS_ServicesCreated = Inr (old \<in> set [PS_Invalid])"
| "ValidateParticipantStateUpdate old PS_CommunicationInitializing = Inr (old \<in> set [PS_ServicesCreated])"
| "ValidateParticipantStateUpdate old PS_CommunicationInitialized = Inr (old \<in> set [PS_CommunicationInitializing])"
| "ValidateParticipantStateUpdate old PS_ReadyToRun = Inr (old \<in> set [PS_CommunicationInitialized])"
| "ValidateParticipantStateUpdate old PS_Running = Inr (old \<in> set [PS_ReadyToRun, PS_Paused])"
| "ValidateParticipantStateUpdate old PS_Paused = Inr (old \<in> set [PS_Running])"
| "ValidateParticipantStateUpdate old PS_Stopping = Inr (old \<in> set [PS_Running, PS_Paused])"
| "ValidateParticipantStateUpdate old PS_Stopped = Inr (old \<in> set [PS_Stopping])"
| "ValidateParticipantStateUpdate old PS_ShuttingDown = Inr (old \<in> set [PS_Error, PS_Stopped])"
| "ValidateParticipantStateUpdate old PS_Shutdown = Inr (old \<in> set [PS_ShuttingDown, PS_Aborting])"
| "ValidateParticipantStateUpdate old PS_Aborting = Inr True"
| "ValidateParticipantStateUpdate old PS_Error = Inr True"
| "ValidateParticipantStateUpdate old _ =
     Inl (AssertionError ''SystemStateTracker::ValidateParticipantStateUpdate: unhandled ParticipantState'')"

definition st_IsEmpty :: "system_state_tracker \<Rightarrow> bool" where
  "st_IsEmpty st \<longleftrightarrow> st_participantStatusCache st = []"

definition IsRequiredParticipant :: "string \<Rightarrow> system_state_tracker \<Rightarrow> bool" where
  "IsRequiredParticipant name st \<longleftrightarrow> name \<in> set (st_requiredParticipants st)"

definition GetParticipantStatus :: "string \<Rightarrow> system_state_tracker \<Rightarrow> ParticipantStatus option" where
  "GetParticipantStatus name st = map_of (st_participantStatusCache st) name"

definition SetParticipantStatus :: "string \<Rightarrow> ParticipantStatus \<Rightarrow> system_state_tracker \<Rightarrow> system_state_tracker" where
  "SetParticipantStatus name status st =
     st\<lparr>st_participantStatusCache := map_assign name status (st_participantStatusCache st)\<rparr>"

definition ParticipantStatus_default :: "string \<Rightarrow> ParticipantStatus" where
  "ParticipantStatus_default name = \<lparr>pst_participantName = name, pst_state = PS_Invalid,
     pst_enterReason = [], pst_enterTime = 0, pst_refreshTime = 0\<rparr>"

definition GetOrCreateParticipantStatus ::
    "string \<Rightarrow> system_state_tracker \<Rightarrow> ParticipantStatus \<times> system_state_tracker" where
  "GetOrCreateParticipantStatus name st =
     (case GetParticipantStatus name st of
        Some status \<Rightarrow> (status, st)
      | None \<Rightarrow> (ParticipantStatus_default name, SetParticipantStatus name (ParticipantStatus_default name) st))"

definition GetAnyRequiredParticipantState :: "system_state_tracker \<Rightarrow> participant_state" where
  "GetAnyRequiredParticipantState st =
     (case st_requiredParticipants st of
        [] \<Rightarrow> PS_Invalid
      | name # _ \<Rightarrow> (case GetParticipantStatus name st of None \<Rightarrow> PS_Invalid | Some status \<Rightarrow> pst_state status))"

text \<open>
  \<open>all_in\<close> is the loop of \<^verbatim>\<open>ChangeToIfAllIn\<close>; \<open>change_to\<close> is a sequence of calls that stops at the
  first that succeeds.
\<close>

definition all_in :: "participant_state list \<Rightarrow> system_state_tracker \<Rightarrow> bool" where
  "all_in states st \<longleftrightarrow> list_all (\<lambda>name. case GetParticipantStatus name st of
       None \<Rightarrow> False | Some status \<Rightarrow> pst_state status \<in> set states) (st_requiredParticipants st)"

fun change_to :: "(system_state \<times> participant_state list) list \<Rightarrow> system_state_tracker \<Rightarrow> system_state \<Rightarrow> system_state" where
  "change_to [] st current = current"
| "change_to ((s, states) # rules) st current = (if all_in states st then s else change_to rules st current)"

definition initial_guess :: "system_state_tracker \<Rightarrow> system_state" where
  "initial_guess st =
     (if st_IsEmpty st
      then case st_systemState st of
          SS_Error \<Rightarrow> SS_Error
        | SS_Shutdown \<Rightarrow> SS_Shutdown
        | SS_ShuttingDown \<Rightarrow> SS_Shutdown
        | _ \<Rightarrow> SS_Invalid
      else st_systemState st)"

fun rules_of :: "participant_state \<Rightarrow> (system_state \<times> participant_state list) list" where
  "rules_of PS_ServicesCreated = [(SS_ServicesCreated,
     [PS_ServicesCreated, PS_CommunicationInitializing, PS_CommunicationInitialized, PS_ReadyToRun, PS_Running])]"
| "rules_of PS_CommunicationInitializing = [(SS_CommunicationInitializing,
     [PS_CommunicationInitializing, PS_CommunicationInitialized, PS_ReadyToRun, PS_Running])]"
| "rules_of PS_CommunicationInitialized = [(SS_CommunicationInitialized,
     [PS_CommunicationInitialized, PS_ReadyToRun, PS_Running])]"
| "rules_of PS_ReadyToRun = [(SS_ReadyToRun, [PS_ReadyToRun, PS_Running])]"
| "rules_of PS_Running =
     [(SS_Running, [PS_Running]),
      (SS_Stopping, [PS_Running, PS_Stopping]),
      (SS_Stopped, [PS_Running, PS_Stopped]),
      (SS_ShuttingDown, [PS_Running, PS_Stopped, PS_ShuttingDown]),
      (SS_Shutdown, [PS_Running, PS_Stopped, PS_ShuttingDown, PS_Shutdown])]"
| "rules_of PS_Paused =
     [(SS_Paused, [PS_Running, PS_Paused]),
      (SS_Stopping, [PS_Running, PS_Paused, PS_Stopping]),
      (SS_Stopped, [PS_Running, PS_Paused, PS_Stopped]),
      (SS_ShuttingDown, [PS_Running, PS_Paused, PS_Stopped, PS_ShuttingDown]),
      (SS_Shutdown, [PS_Running, PS_Paused, PS_Stopped, PS_ShuttingDown, PS_Shutdown])]"
| "rules_of PS_Stopping =
     [(SS_Stopping, [PS_Running, PS_Paused, PS_Stopping, PS_Stopped, PS_ShuttingDown, PS_Shutdown])]"
| "rules_of PS_Stopped = [(SS_Stopped, [PS_Stopped, PS_ShuttingDown, PS_Shutdown])]"
| "rules_of PS_ShuttingDown =
     [(SS_ShuttingDown, [PS_Stopped, PS_ShuttingDown, PS_Shutdown, PS_Error, PS_ServicesCreated, PS_ReadyToRun])]"
| "rules_of PS_Shutdown = [(SS_Shutdown, [PS_Shutdown])]"
| "rules_of _ = []"

definition ComputeSystemState :: "participant_state \<Rightarrow> system_state_tracker \<Rightarrow> system_state" where
  "ComputeSystemState newParticipantState st =
     (case newParticipantState of
        PS_Aborting \<Rightarrow> SS_Aborting
      | PS_Error \<Rightarrow> SS_Error
      | state \<Rightarrow> change_to (rules_of state) st (initial_guess st))"

text \<open>The flag is \<^verbatim>\<open>result.systemStateChanged\<close>.\<close>

definition recompute :: "participant_state \<Rightarrow> system_state_tracker \<Rightarrow> system_state_tracker \<times> bool" where
  "recompute state st =
     (let new = ComputeSystemState state st
      in if st_systemState st \<noteq> new then (st\<lparr>st_systemState := new\<rparr>, True) else (st, False))"

definition UpdateRequiredParticipants ::
    "(string list \<Rightarrow> string list) \<Rightarrow> string list \<Rightarrow> system_state_tracker \<Rightarrow> system_state_tracker \<times> bool" where
  "UpdateRequiredParticipants hash_order names st0 =
     (let st = st0\<lparr>st_requiredParticipants := hash_order names\<rparr>
      in recompute (GetAnyRequiredParticipantState st) st)"

record update_status_result =
  us_participantStateChanged :: bool
  us_systemStateChanged :: bool

definition UpdateParticipantStatus ::
    "ParticipantStatus \<Rightarrow> system_state_tracker \<Rightarrow> system_state_tracker \<times> update_status_result result" where
  "UpdateParticipantStatus newStatus st0 =
     (let name = pst_participantName newStatus;
          (status, st1) = GetOrCreateParticipantStatus name st0;
          old = pst_state status; new = pst_state newStatus
      in case ValidateParticipantStateUpdate old new of
           Inl e \<Rightarrow> (st1, Inl e)
         | Inr _ \<Rightarrow>
             if old = PS_Shutdown
             then (st1, Inr \<lparr>us_participantStateChanged = False, us_systemStateChanged = False\<rparr>)
             else let st2 = SetParticipantStatus name newStatus st1
               in if old \<noteq> new
                  then if IsRequiredParticipant name st2
                       then let (st3, changed) = recompute new st2
                         in (st3, Inr \<lparr>us_participantStateChanged = True, us_systemStateChanged = changed\<rparr>)
                       else (st2, Inr \<lparr>us_participantStateChanged = True, us_systemStateChanged = False\<rparr>)
                  else (st2, Inr \<lparr>us_participantStateChanged = False, us_systemStateChanged = False\<rparr>))"

definition RemoveParticipant :: "string \<Rightarrow> system_state_tracker \<Rightarrow> system_state_tracker \<times> bool" where
  "RemoveParticipant name st =
     (case GetParticipantStatus name st of
        None \<Rightarrow> (st, False)
      | Some _ \<Rightarrow>
          let st1 = st\<lparr>st_participantStatusCache := map_erase name (st_participantStatusCache st)\<rparr>
          in recompute (GetAnyRequiredParticipantState st1) st1)"

section \<open>What the operations do to the recorded states\<close>

text \<open>The recorded state of a participant, \<open>PS_Invalid\<close> when there is none.\<close>

definition state_of :: "string \<Rightarrow> system_state_tracker \<Rightarrow> participant_state" where
  "state_of name st = (case GetParticipantStatus name st of None \<Rightarrow> PS_Invalid | Some s \<Rightarrow> pst_state s)"

definition known :: "string \<Rightarrow> system_state_tracker \<Rightarrow> bool" where
  "known name st \<longleftrightarrow> GetParticipantStatus name st \<noteq> None"

lemma tracker_selectors [simp]:
  "GetParticipantStatus n (st\<lparr>st_systemState := s\<rparr>) = GetParticipantStatus n st"
  "GetParticipantStatus n (st\<lparr>st_requiredParticipants := r\<rparr>) = GetParticipantStatus n st"
  "GetParticipantStatus n (SetParticipantStatus m x st) = (if n = m then Some x else GetParticipantStatus n st)"
  "st_requiredParticipants (SetParticipantStatus m x st) = st_requiredParticipants st"
  "st_systemState (SetParticipantStatus m x st) = st_systemState st"
  "IsRequiredParticipant n (SetParticipantStatus m x st) = IsRequiredParticipant n st"
  "all_in states (st\<lparr>st_systemState := s\<rparr>) = all_in states st"
  by (auto simp: GetParticipantStatus_def SetParticipantStatus_def map_of_map_assign
      IsRequiredParticipant_def all_in_def)

lemma recompute_simps [simp]:
  "st_systemState (fst (recompute s st)) = ComputeSystemState s st"
  "snd (recompute s st) \<longleftrightarrow> st_systemState st \<noteq> ComputeSystemState s st"
  "st_requiredParticipants (fst (recompute s st)) = st_requiredParticipants st"
  "GetParticipantStatus n (fst (recompute s st)) = GetParticipantStatus n st"
  by (auto simp: recompute_def Let_def)

lemma state_of_simps [simp]:
  "state_of n (fst (recompute s st)) = state_of n st"
  "state_of n (SetParticipantStatus m x st) = (if n = m then pst_state x else state_of n st)"
  "state_of n (st\<lparr>st_systemState := ss\<rparr>) = state_of n st"
  "known n (fst (recompute s st)) = known n st"
  "known n (SetParticipantStatus m x st) \<longleftrightarrow> n = m \<or> known n st"
  by (auto simp: state_of_def known_def)

lemma all_in_iff:
  "PS_Invalid \<notin> set states \<Longrightarrow>
     all_in states st \<longleftrightarrow> (\<forall>n \<in> set (st_requiredParticipants st). state_of n st \<in> set states)"
  by (auto simp: all_in_def state_of_def list_all_iff split: option.splits)

lemma GetOrCreate_spec:
  assumes "GetOrCreateParticipantStatus name st = (status, st')"
  shows "pst_state status = state_of name st" "st_requiredParticipants st' = st_requiredParticipants st"
    "st_systemState st' = st_systemState st" "state_of n st' = state_of n st" "known name st'"
  using assms by (auto simp: GetOrCreateParticipantStatus_def state_of_def known_def ParticipantStatus_default_def
      split: option.splits if_splits)

lemma known_not_empty: "known name st \<Longrightarrow> \<not> st_IsEmpty st"
  by (auto simp: known_def GetParticipantStatus_def st_IsEmpty_def)

lemma initial_guess_known: "known name st \<Longrightarrow> initial_guess st = st_systemState st"
  by (simp add: initial_guess_def known_not_empty)

lemma initial_guess_cases:
  "initial_guess st = st_systemState st \<or> initial_guess st \<in> {SS_Invalid, SS_Error, SS_Shutdown}"
  by (auto simp: initial_guess_def split: system_state.splits)

text \<open>
  What a status that is not rejected records, and which system state results. The tracker \<open>mid\<close> has the
  new participant states and the old system state.
\<close>

definition same_states :: "system_state_tracker \<Rightarrow> system_state_tracker \<Rightarrow> bool" where
  "same_states st st' \<longleftrightarrow> st_requiredParticipants st = st_requiredParticipants st'
     \<and> (\<forall>n. state_of n st = state_of n st')"

lemma same_states_recompute: "same_states st (fst (recompute s st))"
  by (simp add: same_states_def)

lemma UpdateParticipantStatus_spec:
  assumes "UpdateParticipantStatus s st = (st', Inr r)"
  defines "name \<equiv> pst_participantName s"
  defines "old \<equiv> state_of name st"
  obtains mid where
    "\<And>n. state_of n st' = (if n = name \<and> old \<noteq> PS_Shutdown then pst_state s else state_of n st)"
    "st_requiredParticipants st' = st_requiredParticipants st"
    "us_participantStateChanged r \<longleftrightarrow> old \<noteq> PS_Shutdown \<and> old \<noteq> pst_state s"
    "us_systemStateChanged r \<longleftrightarrow> st_systemState st' \<noteq> st_systemState st"
    "same_states mid st'" "st_systemState mid = st_systemState st" "known name mid"
    "st_systemState st' = (if IsRequiredParticipant name st \<and> old \<noteq> PS_Shutdown \<and> old \<noteq> pst_state s
       then ComputeSystemState (pst_state s) mid else st_systemState st)"
proof -
  obtain status st1 where c: "GetOrCreateParticipantStatus name st = (status, st1)"
    by (cases "GetOrCreateParticipantStatus name st") auto
  note facts = GetOrCreate_spec [OF c]
  define mid where "mid = (if old = PS_Shutdown then st1 else SetParticipantStatus name s st1)"
  define active where "active \<longleftrightarrow> IsRequiredParticipant name st \<and> old \<noteq> PS_Shutdown \<and> old \<noteq> pst_state s"
  have base: "\<And>n. state_of n mid = (if n = name \<and> old \<noteq> PS_Shutdown then pst_state s else state_of n st)"
    "st_requiredParticipants mid = st_requiredParticipants st" "st_systemState mid = st_systemState st" "known name mid"
    using facts by (auto simp: mid_def)
  have req: "IsRequiredParticipant name mid = IsRequiredParticipant name st"
    using base(2) by (simp add: IsRequiredParticipant_def)
  have "st' = (if active then fst (recompute (pst_state s) mid) else mid)
    \<and> (us_participantStateChanged r \<longleftrightarrow> old \<noteq> PS_Shutdown \<and> old \<noteq> pst_state s)
    \<and> (us_systemStateChanged r \<longleftrightarrow> active \<and> snd (recompute (pst_state s) mid))"
    using assms(1) c facts(1) req
    by (auto simp: UpdateParticipantStatus_def Let_def name_def old_def active_def mid_def
        simp del: recompute_simps split: sum.splits if_splits prod.splits)
  then show thesis
    using base by (intro that [of mid]) (auto simp: same_states_def active_def)
qed

lemma UpdateParticipantStatus_rejected:
  assumes "UpdateParticipantStatus s st = (st', Inl e)"
  shows "state_of n st' = state_of n st" "st_requiredParticipants st' = st_requiredParticipants st"
    "st_systemState st' = st_systemState st"
proof -
  obtain status st1 where c: "GetOrCreateParticipantStatus (pst_participantName s) st = (status, st1)"
    by (cases "GetOrCreateParticipantStatus (pst_participantName s) st") auto
  with assms have "st' = st1"
    by (auto simp: UpdateParticipantStatus_def Let_def split: sum.splits if_splits prod.splits)
  with GetOrCreate_spec [OF c]
  show "state_of n st' = state_of n st" "st_requiredParticipants st' = st_requiredParticipants st"
    "st_systemState st' = st_systemState st" by auto
qed

lemma RemoveParticipant_spec:
  assumes "RemoveParticipant name st = (st', changed)"
  obtains mid where
    "\<And>n. state_of n st' = (if n = name then PS_Invalid else state_of n st)"
    "st_requiredParticipants st' = st_requiredParticipants st"
    "changed \<longleftrightarrow> st_systemState st' \<noteq> st_systemState st"
    "same_states mid st'" "st_systemState mid = st_systemState st"
    "st_systemState st' = (if known name st then ComputeSystemState (GetAnyRequiredParticipantState mid) mid
       else st_systemState st)"
proof -
  define mid where "mid = st\<lparr>st_participantStatusCache := map_erase name (st_participantStatusCache st)\<rparr>"
  have base: "\<And>n. state_of n mid = (if n = name then PS_Invalid else state_of n st)"
    "st_requiredParticipants mid = st_requiredParticipants st" "st_systemState mid = st_systemState st"
    by (simp_all add: mid_def state_of_def GetParticipantStatus_def map_of_map_erase)
  have "(st', changed) = (if known name st then recompute (GetAnyRequiredParticipantState mid) mid else (st, False))"
    using assms by (auto simp: RemoveParticipant_def known_def mid_def Let_def split: option.splits)
  then have "st' = (if known name st then fst (recompute (GetAnyRequiredParticipantState mid) mid) else st)"
    "changed \<longleftrightarrow> known name st \<and> snd (recompute (GetAnyRequiredParticipantState mid) mid)"
    by (metis fst_conv, metis snd_conv)
  moreover have "\<not> known name st \<Longrightarrow> state_of name st = PS_Invalid"
    by (simp add: known_def state_of_def)
  ultimately show thesis
    using base by (intro that [of mid]) (auto simp: same_states_def)
qed

text \<open>Which system states a change of a participant state can lead to.\<close>

lemma change_to_cases:
  "change_to rules st current = current \<or> (\<exists>states. (change_to rules st current, states) \<in> set rules \<and> all_in states st)"
  by (induction rules st current rule: change_to.induct) auto

lemma same_states_all_in:
  "same_states st st' \<Longrightarrow> PS_Invalid \<notin> set states \<Longrightarrow> all_in states st = all_in states st'"
  by (simp add: all_in_iff same_states_def)

lemma rules_exclude_Invalid: "(ss, states) \<in> set (rules_of s) \<Longrightarrow> PS_Invalid \<notin> set states"
  by (cases s) auto

section \<open>Properties\<close>

text \<open>
  the result of \<^verbatim>\<open>UpdateParticipantStatus\<close> is exact: a participant state change is reported
  exactly when the recorded state of the sender changes, a system state change exactly when the system
  state changes, and no other recorded state is touched. A participant that was in \<^verbatim>\<open>Shutdown\<close> keeps it.
\<close>

theorem status_update_flags:
  assumes "UpdateParticipantStatus s st = (st', Inr r)"
  shows "(us_participantStateChanged r \<longleftrightarrow>
           state_of (pst_participantName s) st' \<noteq> state_of (pst_participantName s) st)
    \<and> (us_systemStateChanged r \<longleftrightarrow> st_systemState st' \<noteq> st_systemState st)
    \<and> (us_systemStateChanged r \<longrightarrow> us_participantStateChanged r \<and> IsRequiredParticipant (pst_participantName s) st)
    \<and> (\<forall>n. n \<noteq> pst_participantName s \<longrightarrow> state_of n st' = state_of n st)
    \<and> state_of (pst_participantName s) st' = (if state_of (pst_participantName s) st = PS_Shutdown
         then PS_Shutdown else pst_state s)"
  by (rule UpdateParticipantStatus_spec [OF assms]) auto

definition example_status :: "string \<Rightarrow> participant_state \<Rightarrow> ParticipantStatus" where
  "example_status name s = (ParticipantStatus_default name)\<lparr>pst_state := s\<rparr>"

lemma example_status_sel [simp]:
  "pst_participantName (example_status name s) = name" "pst_state (example_status name s) = s"
  by (simp_all add: example_status_def ParticipantStatus_default_def)

definition example_tracker :: system_state_tracker where
  "example_tracker = fst (UpdateRequiredParticipants remdups [''A'', ''B''] SystemStateTracker_new)"

lemma example_tracker_eval:
  "UpdateParticipantStatus (example_status ''A'' PS_ServicesCreated) example_tracker =
     (\<lparr>st_requiredParticipants = [''A'', ''B''], st_systemState = SS_Invalid,
       st_participantStatusCache = [(''A'', example_status ''A'' PS_ServicesCreated)]\<rparr>,
      Inr \<lparr>us_participantStateChanged = True, us_systemStateChanged = False\<rparr>)"
  by code_simp

theorem status_update_flags_witness:
  "state_of ''A'' (fst (UpdateParticipantStatus (example_status ''A'' PS_ServicesCreated) example_tracker))
     = PS_ServicesCreated"
proof -
  have "state_of ''A'' example_tracker = PS_Invalid" by code_simp
  with status_update_flags [OF example_tracker_eval] show ?thesis by (simp add: example_tracker_eval)
qed

text \<open>
  C14: a coordinated start waits for everybody. When a status makes the system state one of the
  states of the start-up, then every required participant has reported that state or a later one of
  the start-up.
\<close>

theorem start_waits_for_all:
  assumes "UpdateParticipantStatus s st = (st', Inr r)" "us_systemStateChanged r"
    "n \<in> set (st_requiredParticipants st)"
  shows "(st_systemState st' = SS_ServicesCreated \<longrightarrow> state_of n st' \<in>
           {PS_ServicesCreated, PS_CommunicationInitializing, PS_CommunicationInitialized, PS_ReadyToRun, PS_Running})
    \<and> (st_systemState st' = SS_CommunicationInitializing \<longrightarrow> state_of n st' \<in>
           {PS_CommunicationInitializing, PS_CommunicationInitialized, PS_ReadyToRun, PS_Running})
    \<and> (st_systemState st' = SS_CommunicationInitialized \<longrightarrow> state_of n st' \<in>
           {PS_CommunicationInitialized, PS_ReadyToRun, PS_Running})
    \<and> (st_systemState st' = SS_ReadyToRun \<longrightarrow> state_of n st' \<in> {PS_ReadyToRun, PS_Running})
    \<and> (st_systemState st' = SS_Running \<longrightarrow> state_of n st' = PS_Running)"
proof (rule UpdateParticipantStatus_spec [OF assms(1)], goal_cases)
  case (1 mid)
  let ?new = "pst_state s"
  have compute: "st_systemState st' = ComputeSystemState ?new mid" "st_systemState st' \<noteq> initial_guess mid"
    using 1 assms(2) initial_guess_known [of "pst_participantName s" mid] by (auto split: if_splits)
  show ?case
  proof (cases "?new = PS_Aborting \<or> ?new = PS_Error")
    case True
    with compute show ?thesis by (auto simp: ComputeSystemState_def)
  next
    case False
    with compute have "st_systemState st' = change_to (rules_of ?new) mid (initial_guess mid)"
      by (auto simp: ComputeSystemState_def split: participant_state.splits)
    with compute(2) change_to_cases [of "rules_of ?new" mid "initial_guess mid"]
    obtain states where r: "(st_systemState st', states) \<in> set (rules_of ?new)" "all_in states mid" by auto
    from rules_exclude_Invalid [OF r(1)] r(2) 1(5) have "all_in states st'" by (simp add: same_states_all_in)
    with rules_exclude_Invalid [OF r(1)] 1(2) assms(3) have "state_of n st' \<in> set states" by (simp add: all_in_iff)
    with r(1) show ?thesis by (cases ?new) auto
  qed
qed

definition example_half_started :: system_state_tracker where
  "example_half_started = fst (UpdateParticipantStatus (example_status ''A'' PS_ServicesCreated) example_tracker)"

lemma example_start_eval:
  "UpdateParticipantStatus (example_status ''B'' PS_ServicesCreated) example_half_started =
     (\<lparr>st_requiredParticipants = [''A'', ''B''], st_systemState = SS_ServicesCreated,
       st_participantStatusCache = [(''A'', example_status ''A'' PS_ServicesCreated),
         (''B'', example_status ''B'' PS_ServicesCreated)]\<rparr>,
      Inr \<lparr>us_participantStateChanged = True, us_systemStateChanged = True\<rparr>)"
  by code_simp

theorem start_waits_for_all_witness:
  "state_of ''A'' (fst (UpdateParticipantStatus (example_status ''B'' PS_ServicesCreated) example_half_started)) \<in>
     {PS_ServicesCreated, PS_CommunicationInitializing, PS_CommunicationInitialized, PS_ReadyToRun, PS_Running}"
proof -
  have "''A'' \<in> set (st_requiredParticipants example_half_started)" by code_simp
  with start_waits_for_all [OF example_start_eval, of "''A''"] show ?thesis by (simp add: example_start_eval)
qed


end
