(* ===== verification/Handlers.thy ===== *)
theory Handlers
  imports Main "HOL-Library.Word"
begin

text \<open>
  The handler lists of \<^verbatim>\<open>util/SynchronizedHandlers.hpp\<close>: a handler is known by its identifier, and handlers are called in the
  order of their identifiers.
\<close>

record handlers =
  h_entries :: "nat list"
  h_nextHandlerId :: nat

definition handlers_new :: handlers where
  "handlers_new = \<lparr>h_entries = [], h_nextHandlerId = 0\<rparr>"

definition h_Add :: "handlers \<Rightarrow> nat \<times> handlers" where
  "h_Add h = (h_nextHandlerId h, \<lparr>h_entries = h_entries h @ [h_nextHandlerId h], h_nextHandlerId = h_nextHandlerId h + 1\<rparr>)"

definition h_Remove :: "nat \<Rightarrow> handlers \<Rightarrow> bool \<times> handlers" where
  "h_Remove i h = (i \<in> set (h_entries h), h\<lparr>h_entries := filter (\<lambda>j. j \<noteq> i) (h_entries h)\<rparr>)"

definition h_InvokeAll :: "(nat \<Rightarrow> 'e) \<Rightarrow> handlers \<Rightarrow> 'e list" where
  "h_InvokeAll call h = map call (h_entries h)"

definition handlers_ok :: "handlers \<Rightarrow> bool" where
  "handlers_ok h \<longleftrightarrow> distinct (h_entries h) \<and> (\<forall>i \<in> set (h_entries h). i < h_nextHandlerId h)"

lemma handlers_ok_preserved [simp]:
  "handlers_ok handlers_new"
  "handlers_ok h \<Longrightarrow> handlers_ok (snd (h_Add h))"
  "handlers_ok h \<Longrightarrow> handlers_ok (snd (h_Remove i h))"
  by (auto simp: handlers_ok_def handlers_new_def h_Add_def h_Remove_def)

section \<open>Handlers with a mask\<close>

text \<open>
  A handler that is registered with a mask is called with the events one of whose flags is in the mask.
\<close>

record 'm masked_handlers =
  mh_entries :: "(nat \<times> 'm) list"
  mh_nextHandlerId :: nat

definition masked_new :: "'m masked_handlers" where
  "masked_new = \<lparr>mh_entries = [], mh_nextHandlerId = 0\<rparr>"

definition mh_Add :: "'m \<Rightarrow> 'm masked_handlers \<Rightarrow> nat \<times> 'm masked_handlers" where
  "mh_Add flagMask h = (mh_nextHandlerId h,
     \<lparr>mh_entries = mh_entries h @ [(mh_nextHandlerId h, flagMask)], mh_nextHandlerId = mh_nextHandlerId h + 1\<rparr>)"

definition mh_Remove :: "nat \<Rightarrow> 'm masked_handlers \<Rightarrow> bool \<times> 'm masked_handlers" where
  "mh_Remove i h = (i \<in> fst ` set (mh_entries h), h\<lparr>mh_entries := filter (\<lambda>(j, _). j \<noteq> i) (mh_entries h)\<rparr>)"

definition mh_InvokeAll :: "(nat \<Rightarrow> 'e) \<Rightarrow> 'w::len word \<Rightarrow> 'w word masked_handlers \<Rightarrow> 'e list" where
  "mh_InvokeAll call flags h = map (\<lambda>(i, _). call i) (filter (\<lambda>(_, flagMask). and flags flagMask \<noteq> 0) (mh_entries h))"

definition masked_ok :: "'m masked_handlers \<Rightarrow> bool" where
  "masked_ok h \<longleftrightarrow> distinct (map fst (mh_entries h)) \<and> (\<forall>e \<in> set (mh_entries h). fst e < mh_nextHandlerId h)"

lemma masked_ok_preserved [simp]:
  "masked_ok masked_new"
  "masked_ok h \<Longrightarrow> masked_ok (snd (mh_Add flagMask h))"
  "masked_ok h \<Longrightarrow> masked_ok (snd (mh_Remove i h))"
  by (auto simp: masked_ok_def masked_new_def mh_Add_def mh_Remove_def distinct_map inj_on_def split: prod.splits)

text \<open>A registered handler is called once with an event its mask lets through.\<close>

lemma mh_InvokeAll_once:
  assumes "masked_ok h" "(i, flagMask) \<in> set (mh_entries h)" "and flags flagMask \<noteq> 0"
    and "\<And>j. select (call j) = (if j = i then Some x else None)"
  shows "List.map_filter select (mh_InvokeAll call flags h) = [x]"
proof -
  have none: "List.map_filter select (mh_InvokeAll call flags h') = []" if "i \<notin> fst ` set (mh_entries h')" for h' :: "'a word masked_handlers"
    using that by (force simp: mh_InvokeAll_def List.map_filter_def filter_empty_conv assms(4))
  obtain xs ys where split: "mh_entries h = xs @ (i, flagMask) # ys" using assms(2) by (metis split_list)
  then have "i \<notin> fst ` set xs" "i \<notin> fst ` set ys" using assms(1) by (auto simp: masked_ok_def)
  then have "List.map_filter select (mh_InvokeAll call flags (h\<lparr>mh_entries := xs\<rparr>)) = []"
      "List.map_filter select (mh_InvokeAll call flags (h\<lparr>mh_entries := ys\<rparr>)) = []"
    by (auto intro!: none)
  with split assms(3) show ?thesis
    by (simp add: mh_InvokeAll_def assms(4) List.map_filter_def)
qed

lemma mh_InvokeAll_none: "(\<And>j. select (call j) = None) \<Longrightarrow> List.map_filter select (mh_InvokeAll call flags h) = []"
  by (auto simp: mh_InvokeAll_def List.map_filter_def filter_empty_conv split: prod.splits)

lemma h_InvokeAll_none: "(\<And>j. select (call j) = None) \<Longrightarrow> List.map_filter select (h_InvokeAll call h) = []"
  by (auto simp: h_InvokeAll_def List.map_filter_def filter_empty_conv)

end
