(* ===== verification/SystemMonitor.thy ===== *)
theory SystemMonitor
  imports SystemStateTracker Handlers
begin

text \<open>
  The system monitor of a participant, \<^verbatim>\<open>services/orchestration/SystemMonitor.cpp\<close>. A handler is known by its identifier; the calls an operation
  makes are the events it returns, in order. The hash table of connected participants is a list without
  duplicates. The clock is an argument. \<^verbatim>\<open>_invalidTransitionCount\<close> is a field that no method changes.
\<close>

section \<open>State and operations\<close>

record system_monitor =
  sm_systemStateTracker :: system_state_tracker
  sm_invalidTransitionCount :: "32 word"
  sm_participantStatusHandlers :: handlers
  sm_systemStateHandlers :: handlers
  sm_participantConnectedHandler :: bool
  sm_participantDisconnectedHandler :: bool
  sm_connectedParticipants :: "string list"

datatype monitor_event =
    ME_ParticipantStatus nat ParticipantStatus
  | ME_SystemState nat system_state
  | ME_ParticipantConnected string
  | ME_ParticipantDisconnected string
  | ME_SetWorkflowConfiguration WorkflowConfiguration
  | ME_Warn_unknown_handler

type_synonym monitor_outcome = "system_monitor \<times> monitor_event list \<times> error option"

definition SystemMonitor_new :: system_monitor where
  "SystemMonitor_new = \<lparr>sm_systemStateTracker = SystemStateTracker_new, sm_invalidTransitionCount = 0,
     sm_participantStatusHandlers = handlers_new, sm_systemStateHandlers = handlers_new,
     sm_participantConnectedHandler = False, sm_participantDisconnectedHandler = False,
     sm_connectedParticipants = []\<rparr>"

definition sm_SystemState :: "system_monitor \<Rightarrow> system_state" where
  "sm_SystemState m = st_systemState (sm_systemStateTracker m)"

definition sm_ParticipantStatus :: "string \<Rightarrow> system_monitor \<Rightarrow> ParticipantStatus result" where
  "sm_ParticipantStatus name m =
     (case GetParticipantStatus name (sm_systemStateTracker m) of
        None \<Rightarrow> Inl (SilKitError ''Unknown participant name'')
      | Some status \<Rightarrow> Inr status)"

definition InvokeSystemStateHandlers :: "bool \<Rightarrow> system_monitor \<Rightarrow> monitor_event list" where
  "InvokeSystemStateHandlers changed m =
     (if changed then h_InvokeAll (\<lambda>i. ME_SystemState i (sm_SystemState m)) (sm_systemStateHandlers m) else [])"

definition UpdateRequiredParticipantNames ::
    "(string list \<Rightarrow> string list) \<Rightarrow> string list \<Rightarrow> system_monitor \<Rightarrow> monitor_outcome" where
  "UpdateRequiredParticipantNames hash_order names m =
     (let (st, changed) = UpdateRequiredParticipants hash_order names (sm_systemStateTracker m);
          m1 = m\<lparr>sm_systemStateTracker := st\<rparr>
      in (m1, InvokeSystemStateHandlers changed m1, None))"

definition sm_ReceiveWorkflowConfiguration ::
    "(string list \<Rightarrow> string list) \<Rightarrow> WorkflowConfiguration \<Rightarrow> system_monitor \<Rightarrow> monitor_outcome" where
  "sm_ReceiveWorkflowConfiguration hash_order wc m =
     (case UpdateRequiredParticipantNames hash_order (wc_requiredParticipantNames wc) m of
        (m1, evs, e) \<Rightarrow> (m1, evs @ [ME_SetWorkflowConfiguration wc], e))"

definition AddSystemStateHandler :: "system_monitor \<Rightarrow> nat \<times> system_monitor \<times> monitor_event list" where
  "AddSystemStateHandler m =
     (let (i, h) = h_Add (sm_systemStateHandlers m)
      in (i, m\<lparr>sm_systemStateHandlers := h\<rparr>, [ME_SystemState i (sm_SystemState m)]))"

definition RemoveSystemStateHandler :: "nat \<Rightarrow> system_monitor \<Rightarrow> monitor_outcome" where
  "RemoveSystemStateHandler i m =
     (let (found, h) = h_Remove i (sm_systemStateHandlers m)
      in (m\<lparr>sm_systemStateHandlers := h\<rparr>, if found then [] else [ME_Warn_unknown_handler], None))"

definition AddParticipantStatusHandler :: "system_monitor \<Rightarrow> nat \<times> system_monitor \<times> monitor_event list" where
  "AddParticipantStatusHandler m =
     (let (i, h) = h_Add (sm_participantStatusHandlers m)
      in (i, m\<lparr>sm_participantStatusHandlers := h\<rparr>,
          List.map_filter (\<lambda>name. case GetParticipantStatus name (sm_systemStateTracker m) of
              None \<Rightarrow> None
            | Some status \<Rightarrow> if pst_state status = PS_Invalid then None else Some (ME_ParticipantStatus i status))
            (sm_connectedParticipants m)))"

definition RemoveParticipantStatusHandler :: "nat \<Rightarrow> system_monitor \<Rightarrow> monitor_outcome" where
  "RemoveParticipantStatusHandler i m =
     (let (found, h) = h_Remove i (sm_participantStatusHandlers m)
      in (m\<lparr>sm_participantStatusHandlers := h\<rparr>, if found then [] else [ME_Warn_unknown_handler], None))"

definition sm_ReceiveParticipantStatus :: "ParticipantStatus \<Rightarrow> system_monitor \<Rightarrow> monitor_outcome" where
  "sm_ReceiveParticipantStatus status m =
     (case UpdateParticipantStatus status (sm_systemStateTracker m) of
        (st, Inl e) \<Rightarrow> (m\<lparr>sm_systemStateTracker := st\<rparr>, [], Some e)
      | (st, Inr result) \<Rightarrow>
          let m1 = m\<lparr>sm_systemStateTracker := st\<rparr>
          in (m1,
              (if us_participantStateChanged result
               then h_InvokeAll (\<lambda>i. ME_ParticipantStatus i status) (sm_participantStatusHandlers m1) else [])
              @ InvokeSystemStateHandlers (us_systemStateChanged result) m1, None))"

definition SetParticipantConnectedHandler :: "system_monitor \<Rightarrow> monitor_outcome" where
  "SetParticipantConnectedHandler m =
     (m\<lparr>sm_participantConnectedHandler := True\<rparr>, map ME_ParticipantConnected (sm_connectedParticipants m), None)"

definition SetParticipantDisconnectedHandler :: "system_monitor \<Rightarrow> monitor_outcome" where
  "SetParticipantDisconnectedHandler m = (m\<lparr>sm_participantDisconnectedHandler := True\<rparr>, [], None)"

definition IsParticipantConnected :: "string \<Rightarrow> system_monitor \<Rightarrow> bool" where
  "IsParticipantConnected name m \<longleftrightarrow> name \<in> set (sm_connectedParticipants m)"

definition OnParticipantConnected :: "string \<Rightarrow> system_monitor \<Rightarrow> monitor_outcome" where
  "OnParticipantConnected name m =
     (let hasInserted = (name \<notin> set (sm_connectedParticipants m));
          m1 = (if hasInserted then m\<lparr>sm_connectedParticipants := sm_connectedParticipants m @ [name]\<rparr> else m)
      in (m1, if sm_participantConnectedHandler m1 \<and> hasInserted then [ME_ParticipantConnected name] else [], None))"

text \<open>The status that reports a lost connection, lines 182-187.\<close>

definition connection_lost :: "int \<Rightarrow> string \<Rightarrow> ParticipantStatus" where
  "connection_lost now name = \<lparr>pst_participantName = name, pst_state = PS_Error,
     pst_enterReason = ''Connection Lost'', pst_enterTime = now, pst_refreshTime = now\<rparr>"

definition OnParticipantDisconnected :: "int \<Rightarrow> string \<Rightarrow> system_monitor \<Rightarrow> monitor_outcome" where
  "OnParticipantDisconnected now name m =
     (let (m1, evs1, e) = (case GetParticipantStatus name (sm_systemStateTracker m) of
            Some status \<Rightarrow>
              if pst_state status = PS_Shutdown then (m, [], None)
              else if pst_state status \<noteq> PS_Invalid
              then sm_ReceiveParticipantStatus (connection_lost now name) m
              else (m, [], None)
          | None \<Rightarrow> (m, [], None))
      in if e \<noteq> None then (m1, evs1, e)
         else let m2 = m1\<lparr>sm_connectedParticipants := filter (\<lambda>n. n \<noteq> name) (sm_connectedParticipants m1)\<rparr>;
                  (st, changed) = RemoveParticipant name (sm_systemStateTracker m2);
                  m3 = m2\<lparr>sm_systemStateTracker := st\<rparr>
           in (m3, evs1 @ InvokeSystemStateHandlers changed m3
                 @ (if sm_participantDisconnectedHandler m3 then [ME_ParticipantDisconnected name] else []), None))"

section \<open>Runs\<close>

datatype monitor_input =
    MI_ParticipantStatus ParticipantStatus
  | MI_WorkflowConfiguration "string list \<Rightarrow> string list" WorkflowConfiguration
  | MI_Connected string
  | MI_Disconnected int string
  | MI_AddSystemStateHandler
  | MI_RemoveSystemStateHandler nat

fun monitor_step :: "monitor_input \<Rightarrow> system_monitor \<Rightarrow> monitor_outcome" where
  "monitor_step (MI_ParticipantStatus status) m = sm_ReceiveParticipantStatus status m"
| "monitor_step (MI_WorkflowConfiguration order wc) m = sm_ReceiveWorkflowConfiguration order wc m"
| "monitor_step (MI_Connected name) m = OnParticipantConnected name m"
| "monitor_step (MI_Disconnected now name) m = OnParticipantDisconnected now name m"
| "monitor_step MI_AddSystemStateHandler m = (case AddSystemStateHandler m of (i, m1, evs) \<Rightarrow> (m1, evs, None))"
| "monitor_step (MI_RemoveSystemStateHandler i) m = RemoveSystemStateHandler i m"

text \<open>The connection catches what a receiver throws and goes on with the next message.\<close>

fun monitor_run :: "monitor_input list \<Rightarrow> system_monitor \<Rightarrow> system_monitor \<times> monitor_event list" where
  "monitor_run [] m = (m, [])"
| "monitor_run (i # is) m =
     (case monitor_step i m of (m1, evs, _) \<Rightarrow> case monitor_run is m1 of (m2, evs2) \<Rightarrow> (m2, evs @ evs2))"

text \<open>The system states a handler is called with.\<close>

definition states_seen :: "nat \<Rightarrow> monitor_event list \<Rightarrow> system_state list" where
  "states_seen h evs = List.map_filter (\<lambda>ev. case ev of ME_SystemState i s \<Rightarrow> if i = h then Some s else None | _ \<Rightarrow> None) evs"

section \<open>Observers of the system state\<close>

text \<open>\<open>follows a xs b\<close>: from \<open>a\<close>, the successive changes \<open>xs\<close> lead to \<open>b\<close>.\<close>

definition follows :: "'a \<Rightarrow> 'a list \<Rightarrow> 'a \<Rightarrow> bool" where
  "follows a xs b \<longleftrightarrow> distinct_adj (a # xs) \<and> last (a # xs) = b"

lemma follows_Nil [simp]: "follows a [] b \<longleftrightarrow> a = b"
  by (simp add: follows_def)

lemma follows_Cons [simp]: "follows a (x # xs) b \<longleftrightarrow> a \<noteq> x \<and> follows x xs b"
  by (auto simp: follows_def distinct_adj_Cons)

lemma follows_append: "follows a xs b \<Longrightarrow> follows b ys c \<Longrightarrow> follows a (xs @ ys) c"
  by (induction xs arbitrary: a) auto

lemma states_seen_simps [simp]:
  "states_seen h [] = []"
  "states_seen h (xs @ ys) = states_seen h xs @ states_seen h ys"
  "states_seen h (ME_SystemState i s # xs) = (if i = h then s # states_seen h xs else states_seen h xs)"
  "states_seen h (ME_ParticipantDisconnected n # xs) = states_seen h xs"
  "states_seen h (ME_ParticipantConnected n # xs) = states_seen h xs"
  "states_seen h (ME_SetWorkflowConfiguration w # xs) = states_seen h xs"
  "states_seen h (ME_Warn_unknown_handler # xs) = states_seen h xs"
  by (simp_all add: states_seen_def List.map_filter_def)

lemma states_seen_status [simp]: "states_seen h (h_InvokeAll (\<lambda>i. ME_ParticipantStatus i x) hs) = []"
  by (simp add: states_seen_def List.map_filter_def h_InvokeAll_def filter_empty_conv)

lemma states_seen_invoke:
  assumes "handlers_ok (sm_systemStateHandlers m)" "h \<in> set (h_entries (sm_systemStateHandlers m))"
  shows "states_seen h (InvokeSystemStateHandlers changed m) = (if changed then [sm_SystemState m] else [])"
proof -
  have "distinct xs \<Longrightarrow> h \<in> set xs \<Longrightarrow>
      states_seen h (map (\<lambda>i. ME_SystemState i s) xs) = [s]" for xs s
  proof (induction xs)
    case (Cons x xs)
    have "h \<notin> set xs \<Longrightarrow> states_seen h (map (\<lambda>i. ME_SystemState i s) xs) = []"
      by (induction xs) auto
    with Cons show ?case by auto
  qed simp
  with assms show ?thesis
    by (auto simp: InvokeSystemStateHandlers_def h_InvokeAll_def handlers_ok_def)
qed

text \<open>What every step promises a handler that stays registered.\<close>

definition informs :: "nat \<Rightarrow> system_monitor \<Rightarrow> monitor_outcome \<Rightarrow> bool" where
  "informs h m out \<longleftrightarrow> (case out of (m', evs, _) \<Rightarrow>
     follows (sm_SystemState m) (states_seen h evs) (sm_SystemState m')
     \<and> sm_systemStateHandlers m' = sm_systemStateHandlers m)"

lemma informs_status:
  assumes "handlers_ok (sm_systemStateHandlers m)" "h \<in> set (h_entries (sm_systemStateHandlers m))"
  shows "informs h m (sm_ReceiveParticipantStatus status m)"
proof (cases "UpdateParticipantStatus status (sm_systemStateTracker m)")
  case (Pair st r)
  show ?thesis
  proof (cases r)
    case (Inl e)
    with Pair UpdateParticipantStatus_rejected [of status "sm_systemStateTracker m" st e] show ?thesis
      by (simp add: informs_def sm_ReceiveParticipantStatus_def sm_SystemState_def)
  next
    case (Inr res)
    with Pair have u: "UpdateParticipantStatus status (sm_systemStateTracker m) = (st, Inr res)" by simp
    let ?m = "m\<lparr>sm_systemStateTracker := st\<rparr>"
    have "us_systemStateChanged res \<longleftrightarrow> sm_SystemState m \<noteq> sm_SystemState ?m"
      by (rule UpdateParticipantStatus_spec [OF u]) (auto simp: sm_SystemState_def)
    then show ?thesis
      using u assms
      by (simp add: informs_def sm_ReceiveParticipantStatus_def Let_def states_seen_invoke)
  qed
qed

lemma informs_disconnected:
  assumes "handlers_ok (sm_systemStateHandlers m)" "h \<in> set (h_entries (sm_systemStateHandlers m))"
  shows "informs h m (OnParticipantDisconnected now name m)"
proof -
  define first where "first = (case GetParticipantStatus name (sm_systemStateTracker m) of
      Some status \<Rightarrow> if pst_state status = PS_Shutdown then (m, [], None)
        else if pst_state status \<noteq> PS_Invalid then sm_ReceiveParticipantStatus (connection_lost now name) m
        else (m, [], None)
    | None \<Rightarrow> (m, [], None))"
  obtain m1 evs1 e where f: "first = (m1, evs1, e)" by (cases first) auto
  have i1: "informs h m first"
    using informs_status [OF assms] by (auto simp: first_def informs_def split: option.splits)
  let ?m2 = "m1\<lparr>sm_connectedParticipants := filter (\<lambda>n. n \<noteq> name) (sm_connectedParticipants m1)\<rparr>"
  obtain st changed where r: "RemoveParticipant name (sm_systemStateTracker ?m2) = (st, changed)"
    by (cases "RemoveParticipant name (sm_systemStateTracker ?m2)") auto
  let ?m3 = "?m2\<lparr>sm_systemStateTracker := st\<rparr>"
  have c: "changed \<longleftrightarrow> sm_SystemState m1 \<noteq> sm_SystemState ?m3"
    by (rule RemoveParticipant_spec [OF r]) (auto simp: sm_SystemState_def)
  have "follows (sm_SystemState m1) (states_seen h (InvokeSystemStateHandlers changed ?m3)) (sm_SystemState ?m3)"
    using assms i1 f c
    by (simp add: states_seen_invoke informs_def)
  with i1 f have "informs h m (m1, evs1, e)"
    "follows (sm_SystemState m) (states_seen h evs1 @ states_seen h (InvokeSystemStateHandlers changed ?m3)) (sm_SystemState ?m3)"
    by (auto simp: informs_def intro: follows_append)
  with f r i1 show ?thesis
    by (simp add: OnParticipantDisconnected_def first_def [symmetric] Let_def informs_def)
qed

lemma informs_configuration:
  assumes "handlers_ok (sm_systemStateHandlers m)" "h \<in> set (h_entries (sm_systemStateHandlers m))"
  shows "informs h m (sm_ReceiveWorkflowConfiguration order wc m)"
proof -
  obtain st changed where r: "UpdateRequiredParticipants order (wc_requiredParticipantNames wc) (sm_systemStateTracker m) = (st, changed)"
    by (cases "UpdateRequiredParticipants order (wc_requiredParticipantNames wc) (sm_systemStateTracker m)") auto
  let ?m = "m\<lparr>sm_systemStateTracker := st\<rparr>"
  have "changed \<longleftrightarrow> sm_SystemState m \<noteq> sm_SystemState ?m"
    using r by (auto simp: UpdateRequiredParticipants_def recompute_def Let_def sm_SystemState_def split: if_splits)
  with r assms show ?thesis
    by (simp add: sm_ReceiveWorkflowConfiguration_def UpdateRequiredParticipantNames_def informs_def Let_def states_seen_invoke)
qed

lemma informs_step:
  assumes "handlers_ok (sm_systemStateHandlers m)" "h \<in> set (h_entries (sm_systemStateHandlers m))"
    "i \<noteq> MI_RemoveSystemStateHandler h" "monitor_step i m = (m', evs, e)"
  shows "follows (sm_SystemState m) (states_seen h evs) (sm_SystemState m')
    \<and> handlers_ok (sm_systemStateHandlers m') \<and> h \<in> set (h_entries (sm_systemStateHandlers m'))"
proof (cases i)
  case (MI_ParticipantStatus s)
  with assms informs_status [OF assms(1,2), of s] show ?thesis by (auto simp: informs_def)
next
  case (MI_WorkflowConfiguration order wc)
  with assms informs_configuration [OF assms(1,2), of order wc] show ?thesis by (auto simp: informs_def)
next
  case (MI_Connected n)
  with assms show ?thesis by (auto simp: OnParticipantConnected_def Let_def sm_SystemState_def split: if_splits)
next
  case (MI_Disconnected now n)
  with assms informs_disconnected [OF assms(1,2), of now n] show ?thesis by (auto simp: informs_def)
next
  case MI_AddSystemStateHandler
  with assms show ?thesis
    by (auto simp: AddSystemStateHandler_def h_Add_def Let_def sm_SystemState_def handlers_ok_def less_Suc_eq)
next
  case (MI_RemoveSystemStateHandler j)
  with assms show ?thesis
    by (auto simp: RemoveSystemStateHandler_def h_Remove_def Let_def sm_SystemState_def handlers_ok_def split: if_splits)
qed

lemma informs_run:
  "handlers_ok (sm_systemStateHandlers m) \<Longrightarrow> h \<in> set (h_entries (sm_systemStateHandlers m)) \<Longrightarrow>
     MI_RemoveSystemStateHandler h \<notin> set is \<Longrightarrow> monitor_run is m = (m', evs) \<Longrightarrow>
     follows (sm_SystemState m) (states_seen h evs) (sm_SystemState m')"
proof (induction "is" arbitrary: m evs)
  case (Cons i "is")
  obtain m1 evs1 e where s: "monitor_step i m = (m1, evs1, e)" by (cases "monitor_step i m") auto
  obtain evs2 where r: "monitor_run is m1 = (m', evs2)" "evs = evs1 @ evs2"
    using Cons.prems(4) s by (auto split: prod.splits)
  from informs_step [OF Cons.prems(1,2) _ s] Cons.prems(3)
  have "follows (sm_SystemState m) (states_seen h evs1) (sm_SystemState m1)"
    "handlers_ok (sm_systemStateHandlers m1)" "h \<in> set (h_entries (sm_systemStateHandlers m1))" by auto
  with Cons.IH [of m1 evs2] Cons.prems(3) r show ?case by (auto intro: follows_append)
qed simp

section \<open>Running exactly when all required participants run\<close>

text \<open>
  The required participants are fixed; the inputs are status messages that follow the participant
  life cycle, as \<^verbatim>\<open>ValidateParticipantStateUpdate\<close> describes it, and connections that come and go.
\<close>

definition valid_update :: "ParticipantStatus \<Rightarrow> system_monitor \<Rightarrow> bool" where
  "valid_update s m \<longleftrightarrow> ValidateParticipantStateUpdate
     (state_of (pst_participantName s) (sm_systemStateTracker m)) (pst_state s) = Inr True"

inductive monitored :: "string list \<Rightarrow> system_monitor \<Rightarrow> bool" for required where
  monitored_init: "st_requiredParticipants (sm_systemStateTracker m) = required \<Longrightarrow> required \<noteq> [] \<Longrightarrow>
     sm_SystemState m = SS_Invalid \<Longrightarrow> st_participantStatusCache (sm_systemStateTracker m) = [] \<Longrightarrow>
     monitored required m"
| monitored_status: "monitored required m \<Longrightarrow> valid_update s m \<Longrightarrow>
     monitored required (fst (sm_ReceiveParticipantStatus s m))"
| monitored_connected: "monitored required m \<Longrightarrow> monitored required (fst (OnParticipantConnected name m))"
| monitored_disconnected: "monitored required m \<Longrightarrow>
     monitored required (fst (OnParticipantDisconnected now name m))"

definition all_running :: "system_state_tracker \<Rightarrow> bool" where
  "all_running st \<longleftrightarrow> (\<forall>n \<in> set (st_requiredParticipants st). state_of n st = PS_Running)"

definition all_active :: "system_state_tracker \<Rightarrow> bool" where
  "all_active st \<longleftrightarrow> (\<forall>n \<in> set (st_requiredParticipants st). state_of n st \<in> {PS_Running, PS_Paused})"

definition tracker_inv :: "string list \<Rightarrow> system_state_tracker \<Rightarrow> bool" where
  "tracker_inv required st \<longleftrightarrow> st_requiredParticipants st = required \<and> required \<noteq> []
     \<and> (st_systemState st = SS_Running \<longleftrightarrow> all_running st)
     \<and> (st_systemState st = SS_Paused \<longrightarrow> all_active st)"

lemma all_in_running: "all_in [PS_Running] st = all_running st" "all_in [PS_Running, PS_Paused] st = all_active st"
  by (simp_all add: all_in_iff all_running_def all_active_def)

lemma same_states_running:
  "same_states st st' \<Longrightarrow> all_running st = all_running st'" "same_states st st' \<Longrightarrow> all_active st = all_active st'"
  by (simp_all add: same_states_def all_running_def all_active_def)

lemma compute_Running:
  "ComputeSystemState s st = SS_Running \<longleftrightarrow>
     (if s = PS_Running \<and> all_running st then True
      else initial_guess st = SS_Running \<and> ComputeSystemState s st = initial_guess st)"
  by (cases s) (auto simp: ComputeSystemState_def all_in_running)

lemma compute_Paused:
  "ComputeSystemState s st = SS_Paused \<Longrightarrow> all_active st \<or> initial_guess st = SS_Paused"
  by (cases s) (auto simp: ComputeSystemState_def all_in_running split: if_splits)

text \<open>A valid change of the state of a required participant; \<open>mid\<close> has the new states and the old system state.\<close>

lemma tracker_inv_change:
  assumes inv: "tracker_inv required st" and p: "p \<in> set (st_requiredParticipants st)" "state_of p st \<noteq> new"
    and valid: "ValidateParticipantStateUpdate (state_of p st) new = Inr True"
    and mid: "\<And>n. state_of n mid = (if n = p then new else state_of n st)"
    and req: "st_requiredParticipants mid = st_requiredParticipants st"
    and guess: "initial_guess mid = st_systemState st"
  shows "(ComputeSystemState new mid = SS_Running \<longleftrightarrow> all_running mid)
    \<and> (ComputeSystemState new mid = SS_Paused \<longrightarrow> all_active mid)"
proof -
  let ?active = "st_systemState st \<in> {SS_Running, SS_Paused}"
  have run: "all_running mid \<Longrightarrow> new = PS_Running" using p mid req by (auto simp: all_running_def)
  have active: "?active \<Longrightarrow> all_active st"
    using inv by (auto simp: tracker_inv_def all_running_def all_active_def)
  have old: "?active \<Longrightarrow> state_of p st \<in> {PS_Running, PS_Paused}"
    using active p by (auto simp: all_active_def)
  have new: "?active \<Longrightarrow> new \<in> {PS_Running, PS_Paused, PS_Stopping, PS_Aborting, PS_Error}"
    using valid old by (cases new) auto
  have stop: "?active \<Longrightarrow> new = PS_Stopping \<Longrightarrow> ComputeSystemState new mid = SS_Stopping"
    using active mid req by (auto simp: ComputeSystemState_def all_in_iff all_active_def)
  have keep: "?active \<Longrightarrow> new \<in> {PS_Running, PS_Paused} \<Longrightarrow> all_active mid"
    using active mid req by (auto simp: all_active_def)
  have "all_running mid" if c: "ComputeSystemState new mid = SS_Running"
  proof (rule ccontr)
    assume n: "\<not> all_running mid"
    with c guess have r: "st_systemState st = SS_Running" by (auto simp: compute_Running)
    with inv p have "state_of p st = PS_Running" by (auto simp: tracker_inv_def all_running_def)
    with new r p have "new \<in> {PS_Paused, PS_Stopping, PS_Aborting, PS_Error}" by auto
    with c r stop keep show False by (auto simp: ComputeSystemState_def all_in_running)
  qed
  moreover have "all_active mid" if c: "ComputeSystemState new mid = SS_Paused"
    using c compute_Paused [OF c] guess new stop keep by (auto simp: ComputeSystemState_def split: if_splits)
  moreover have "ComputeSystemState new mid = SS_Running" if "all_running mid"
    using that run by (simp add: ComputeSystemState_def all_in_running)
  ultimately show ?thesis by blast
qed

lemma tracker_inv_update:
  assumes inv: "tracker_inv required st" and upd: "UpdateParticipantStatus s st = (st', r)"
    and valid: "ValidateParticipantStateUpdate (state_of (pst_participantName s) st) (pst_state s) = Inr True"
  shows "tracker_inv required st'"
proof (cases r)
  case (Inl e)
  with upd valid show ?thesis
    by (auto simp: UpdateParticipantStatus_def Let_def dest: GetOrCreate_spec(1) split: prod.splits if_splits)
next
  case (Inr res)
  with upd have u: "UpdateParticipantStatus s st = (st', Inr res)" by simp
  let ?p = "pst_participantName s" and ?new = "pst_state s"
  show ?thesis
  proof (rule UpdateParticipantStatus_spec [OF u], goal_cases)
    case (1 mid)
    show ?case
    proof (cases "?p \<in> set (st_requiredParticipants st) \<and> state_of ?p st \<noteq> PS_Shutdown \<and> state_of ?p st \<noteq> ?new")
      case False
      with 1 have "all_running st' = all_running st" "all_active st' = all_active st" "st_systemState st' = st_systemState st"
        by (auto simp: all_running_def all_active_def IsRequiredParticipant_def)
      with inv 1(2) show ?thesis by (simp add: tracker_inv_def)
    next
      case True
      then have "st_systemState st' = ComputeSystemState ?new mid" using 1(8) by (simp add: IsRequiredParticipant_def)
      moreover have "initial_guess mid = st_systemState st" using 1(6,7) initial_guess_known by metis
      moreover have "state_of n mid = (if n = ?p then ?new else state_of n st)"
        "st_requiredParticipants mid = st_requiredParticipants st" for n
        using True 1(1,2,5) by (simp_all add: same_states_def)
      ultimately show ?thesis
        using tracker_inv_change [OF inv _ _ valid, of mid] True inv 1(2) same_states_running [OF 1(5)]
        by (simp add: tracker_inv_def)
    qed
  qed
qed

lemma tracker_inv_remove:
  assumes inv: "tracker_inv required st" and rem: "RemoveParticipant p st = (st', changed)"
    and gone: "state_of p st \<notin> {PS_Running, PS_Paused}"
  shows "tracker_inv required st'"
proof (rule RemoveParticipant_spec [OF rem], goal_cases)
  case (1 mid)
  have same: "all_running st' = all_running st" "all_active st' = all_active st"
    using 1(1,2) gone by (auto simp: all_running_def all_active_def)
  note mid = same_states_running [OF 1(4)]
  show ?case
  proof (cases "known p st")
    case False
    with 1 same inv show ?thesis by (simp add: tracker_inv_def)
  next
    case True
    let ?any = "GetAnyRequiredParticipantState mid"
    have ne: "st_requiredParticipants mid \<noteq> []" using inv 1(2,4) by (simp add: tracker_inv_def same_states_def)
    then have any: "?any = state_of (hd (st_requiredParticipants mid)) mid"
      by (cases "st_requiredParticipants mid") (auto simp: GetAnyRequiredParticipantState_def state_of_def)
    have run: "all_running mid \<Longrightarrow> ?any = PS_Running" using any ne by (auto simp: all_running_def)
    have guess: "initial_guess mid = SS_Running \<Longrightarrow> all_running mid" "initial_guess mid = SS_Paused \<Longrightarrow> all_active mid"
      using initial_guess_cases [of mid] 1(5) inv same mid by (auto simp: tracker_inv_def)
    have "st_systemState st' = ComputeSystemState ?any mid" using 1(6) True by simp
    with run guess compute_Paused [of ?any mid] mid inv 1(2) show ?thesis
      by (auto simp: tracker_inv_def compute_Running split: if_splits)
  qed
qed

lemma tracker_inv_status:
  "tracker_inv required (sm_systemStateTracker m) \<Longrightarrow> valid_update s m \<Longrightarrow>
     tracker_inv required (sm_systemStateTracker (fst (sm_ReceiveParticipantStatus s m)))"
  by (auto simp: sm_ReceiveParticipantStatus_def valid_update_def Let_def
      intro: tracker_inv_update split: prod.splits sum.splits)

lemma lost_state:
  assumes "sm_ReceiveParticipantStatus (connection_lost now name) m = (m', evs, e)"
    "state_of name (sm_systemStateTracker m) \<noteq> PS_Shutdown"
  shows "e = None" "state_of name (sm_systemStateTracker m') = PS_Error"
proof -
  obtain st r where u: "UpdateParticipantStatus (connection_lost now name) (sm_systemStateTracker m) = (st, r)"
    by (cases "UpdateParticipantStatus (connection_lost now name) (sm_systemStateTracker m)")
  have "pst_state (connection_lost now name) = PS_Error" by (simp add: connection_lost_def)
  with u obtain res where r: "r = Inr res"
    by (auto simp: UpdateParticipantStatus_def Let_def split: prod.splits if_splits)
  have "state_of name st = PS_Error"
    by (rule UpdateParticipantStatus_spec [OF u [unfolded r]]) (use assms(2) in \<open>auto simp: connection_lost_def\<close>)
  with assms(1) u r show "e = None" "state_of name (sm_systemStateTracker m') = PS_Error"
    by (auto simp: sm_ReceiveParticipantStatus_def Let_def)
qed

lemma tracker_inv_disconnected:
  assumes inv: "tracker_inv required (sm_systemStateTracker m)"
  shows "tracker_inv required (sm_systemStateTracker (fst (OnParticipantDisconnected now name m)))"
proof -
  define first where "first = (case GetParticipantStatus name (sm_systemStateTracker m) of
      Some status \<Rightarrow> if pst_state status = PS_Shutdown then (m, [], None)
        else if pst_state status \<noteq> PS_Invalid then sm_ReceiveParticipantStatus (connection_lost now name) m
        else (m, [], None)
    | None \<Rightarrow> (m, [], None))"
  obtain m1 evs1 e where f: "first = (m1, evs1, e)" by (cases first) auto
  have lost: "sm_ReceiveParticipantStatus (connection_lost now name) m = (m1, evs1, e) \<Longrightarrow>
      tracker_inv required (sm_systemStateTracker m1)"
    using tracker_inv_status [OF inv, of "connection_lost now name"]
    by (auto simp: valid_update_def connection_lost_def)
  have "tracker_inv required (sm_systemStateTracker m1) \<and> e = None
    \<and> state_of name (sm_systemStateTracker m1) \<notin> {PS_Running, PS_Paused}"
    using f inv lost lost_state [of now name m m1 evs1 e]
    by (auto simp: first_def state_of_def split: option.splits if_splits)
  then show ?thesis
    using f by (auto simp: OnParticipantDisconnected_def first_def [symmetric] Let_def
        intro: tracker_inv_remove split: prod.splits)
qed

lemma monitored_inv: "monitored required m \<Longrightarrow> tracker_inv required (sm_systemStateTracker m)"
proof (induction rule: monitored.induct)
  case (monitored_init m)
  then have "\<not> all_running (sm_systemStateTracker m)"
    by (auto simp: all_running_def state_of_def GetParticipantStatus_def)
  with monitored_init show ?case by (auto simp: tracker_inv_def sm_SystemState_def)
qed (auto simp: OnParticipantConnected_def Let_def intro: tracker_inv_status tracker_inv_disconnected)

section \<open>Properties\<close>

text \<open>
  C7: the system state is \<^verbatim>\<open>Running\<close> exactly while every required participant runs, and it is
  \<^verbatim>\<open>Paused\<close> only while every required participant runs or pauses. This holds in every state that
  participants with a valid life cycle, lost connections included, can bring the monitor to.
\<close>

theorem system_runs_iff_all_run:
  assumes "monitored required m"
  shows "(sm_SystemState m = SS_Running \<longleftrightarrow>
      (\<forall>n \<in> set required. state_of n (sm_systemStateTracker m) = PS_Running))
    \<and> (sm_SystemState m = SS_Paused \<longrightarrow>
      (\<forall>n \<in> set required. state_of n (sm_systemStateTracker m) \<in> {PS_Running, PS_Paused}))"
  using monitored_inv [OF assms]
  by (auto simp: tracker_inv_def sm_SystemState_def all_running_def all_active_def)

fun valid_inputs :: "monitor_input list \<Rightarrow> system_monitor \<Rightarrow> bool" where
  "valid_inputs [] m = True"
| "valid_inputs (i # is) m =
     ((case i of MI_ParticipantStatus s \<Rightarrow> valid_update s m | MI_Connected _ \<Rightarrow> True | MI_Disconnected _ _ \<Rightarrow> True | _ \<Rightarrow> False)
      \<and> valid_inputs is (fst (monitor_step i m)))"

lemma monitored_run: "monitored required m \<Longrightarrow> valid_inputs is m \<Longrightarrow> monitored required (fst (monitor_run is m))"
proof (induction "is" arbitrary: m)
  case (Cons i "is")
  then have "monitored required (fst (monitor_step i m))"
    by (cases i) (auto intro: monitored.intros)
  with Cons show ?case by (auto split: prod.splits) (metis fst_conv)
qed simp

definition example_monitor :: system_monitor where
  "example_monitor = fst (UpdateRequiredParticipantNames remdups [''A''] SystemMonitor_new)"

definition example_inputs :: "monitor_input list" where
  "example_inputs = map (\<lambda>s. MI_ParticipantStatus (example_status ''A'' s))
     [PS_ServicesCreated, PS_CommunicationInitializing, PS_CommunicationInitialized, PS_ReadyToRun, PS_Running]"

lemma example_monitored: "monitored [''A''] (fst (monitor_run example_inputs example_monitor))"
proof (rule monitored_run)
  show "monitored [''A''] example_monitor" by (rule monitored_init) code_simp+
  show "valid_inputs example_inputs example_monitor" by code_simp
qed

theorem system_runs_iff_all_run_witness:
  "state_of ''A'' (sm_systemStateTracker (fst (monitor_run example_inputs example_monitor))) = PS_Running"
proof -
  have "sm_SystemState (fst (monitor_run example_inputs example_monitor)) = SS_Running" by code_simp
  with system_runs_iff_all_run [OF example_monitored] show ?thesis by simp
qed

text \<open>
  C13: a handler for the system state sees every change and nothing else. From its registration,
  where it is called with the current state, the states it is called with differ from one call to the
  next and the last one is the state of the monitor, whatever statuses, configurations, connections
  and other handlers come and go.
\<close>

theorem state_handler_sees_every_change:
  assumes "handlers_ok (sm_systemStateHandlers m)" "AddSystemStateHandler m = (h, m1, evs1)"
    "MI_RemoveSystemStateHandler h \<notin> set inputs" "monitor_run inputs m1 = (m2, evs2)"
  shows "distinct_adj (states_seen h (evs1 @ evs2)) \<and> last (states_seen h (evs1 @ evs2)) = sm_SystemState m2
    \<and> hd (states_seen h (evs1 @ evs2)) = sm_SystemState m"
proof -
  have "handlers_ok (sm_systemStateHandlers m1)" "h \<in> set (h_entries (sm_systemStateHandlers m1))"
    "evs1 = [ME_SystemState h (sm_SystemState m)]" "sm_SystemState m1 = sm_SystemState m"
    using assms(1,2) by (auto simp: AddSystemStateHandler_def h_Add_def Let_def sm_SystemState_def handlers_ok_def less_Suc_eq)
  with informs_run [OF _ _ assms(3,4)] show ?thesis by (simp add: follows_def)
qed

theorem state_handler_sees_every_change_witness:
  "last (states_seen 0 (ME_SystemState 0 SS_Invalid # snd (monitor_run example_inputs
      (fst (snd (AddSystemStateHandler example_monitor)))))) = SS_Running"
proof -
  let ?m1 = "fst (snd (AddSystemStateHandler example_monitor))"
  have a: "handlers_ok (sm_systemStateHandlers example_monitor)" by code_simp
  have b: "AddSystemStateHandler example_monitor = (0, ?m1, [ME_SystemState 0 SS_Invalid])" by code_simp
  have c: "MI_RemoveSystemStateHandler 0 \<notin> set example_inputs" by (simp add: example_inputs_def)
  have d: "sm_SystemState (fst (monitor_run example_inputs ?m1)) = SS_Running" by code_simp
  from state_handler_sees_every_change [OF a b c surjective_pairing] d show ?thesis by simp
qed

end
