(* ===== verification/Lifecycle.thy ===== *)
theory Lifecycle
  imports SystemMonitor MessageBuffer
begin

text \<open>
  The life cycle of a participant: the states of \<^verbatim>\<open>services/orchestration/LifecycleStates.cpp\<close>, the manager
  of \<^verbatim>\<open>LifecycleManagement.cpp\<close>, the service of \<^verbatim>\<open>LifecycleService.cpp\<close>, the procedure
  \<^verbatim>\<open>core/requests/procs/ParticipantReplies.cpp\<close> and the subscription completion handlers of
  \<^verbatim>\<open>core/vasio/VAsioConnection.cpp\<close>, together with the system monitor of the same participant.

  All of it runs on the I/O thread. \<open>lc_stack\<close> holds what is left to be executed of the task that runs:
  a method that calls another one last pushes that call. \<open>lc_queue\<close> is the queue of posted tasks:
  \<^verbatim>\<open>ExecuteDeferred\<close> and \<^verbatim>\<open>SendMsg\<close> both end in \<^verbatim>\<open>asio::post\<close>, so a task never starts before the running one
  has ended. What the service does to the outside is recorded in \<open>lc_log\<close>. The callbacks of the user are
  parameters: which calls to the service a callback makes, whether it throws, and whether an abort
  reaches the state machine while it runs. The clock and the random identifiers are arguments. Debug
  logging is left out.
\<close>

section \<open>Data\<close>

datatype lifecycle_state =
    L_Invalid | L_ServicesCreated | L_CommunicationInitializing | L_CommunicationInitialized
  | L_ReadyToRun | L_Running | L_Paused | L_Stopping | L_Stopped | L_ShuttingDown | L_Shutdown
  | L_Aborting | L_Error

fun GetParticipantState :: "lifecycle_state \<Rightarrow> participant_state" where
  "GetParticipantState L_Invalid = PS_Invalid"
| "GetParticipantState L_ServicesCreated = PS_ServicesCreated"
| "GetParticipantState L_CommunicationInitializing = PS_CommunicationInitializing"
| "GetParticipantState L_CommunicationInitialized = PS_CommunicationInitialized"
| "GetParticipantState L_ReadyToRun = PS_ReadyToRun"
| "GetParticipantState L_Running = PS_Running"
| "GetParticipantState L_Paused = PS_Paused"
| "GetParticipantState L_Stopping = PS_Stopping"
| "GetParticipantState L_Stopped = PS_Stopped"
| "GetParticipantState L_ShuttingDown = PS_ShuttingDown"
| "GetParticipantState L_Shutdown = PS_Shutdown"
| "GetParticipantState L_Aborting = PS_Aborting"
| "GetParticipantState L_Error = PS_Error"

fun state_name :: "lifecycle_state \<Rightarrow> string" where
  "state_name L_Invalid = ''Invalid''"
| "state_name L_ServicesCreated = ''ServicesCreated''"
| "state_name L_CommunicationInitializing = ''CommunicationInitializing''"
| "state_name L_CommunicationInitialized = ''CommunicationInitialized''"
| "state_name L_ReadyToRun = ''ReadyToRun''"
| "state_name L_Running = ''Running''"
| "state_name L_Paused = ''Paused''"
| "state_name L_Stopping = ''Stopping''"
| "state_name L_Stopped = ''Stopped''"
| "state_name L_ShuttingDown = ''ShuttingDown''"
| "state_name L_Shutdown = ''Shutdown''"
| "state_name L_Aborting = ''Aborting''"
| "state_name L_Error = ''Error''"

text \<open>The methods of \<^verbatim>\<open>ILifecycleState\<close> and their names.\<close>

datatype lifecycle_op =
    O_Initialize | O_ServicesCreated | O_CommunicationInitializing | O_CommunicationInitialized
  | O_CompleteCommunicationReadyHandler | O_ReadyToRun | O_RunSimulation | O_PauseSimulation
  | O_ContinueSimulation | O_StopSimulation | O_RestartParticipant | O_ShutdownParticipant
  | O_Error | O_AbortSimulation | O_ResolveAbortSimulation

fun op_name :: "lifecycle_op \<Rightarrow> string" where
  "op_name O_Initialize = ''Initialize''"
| "op_name O_ServicesCreated = ''ServicesCreated''"
| "op_name O_CommunicationInitializing = ''CommunicationInitializing''"
| "op_name O_CommunicationInitialized = ''CommunicationInitialized''"
| "op_name O_CompleteCommunicationReadyHandler = ''CompleteCommunicationReadyHandler''"
| "op_name O_ReadyToRun = ''ReadyToRun''"
| "op_name O_RunSimulation = ''RunSimulation''"
| "op_name O_PauseSimulation = ''PauseSimulation''"
| "op_name O_ContinueSimulation = ''ContinueSimulation''"
| "op_name O_StopSimulation = ''StopSimulation''"
| "op_name O_RestartParticipant = ''RestartParticipant''"
| "op_name O_ShutdownParticipant = ''ShutdownParticipant''"
| "op_name O_Error = ''Error''"
| "op_name O_AbortSimulation = ''AbortSimulation''"
| "op_name O_ResolveAbortSimulation = ''ResolveAbortSimulation''"

text \<open>
  What is left to execute, and what is posted. \<open>T_Replies f\<close> is the deferred function of
  \<^verbatim>\<open>CallAfterAllParticipantsReplied\<close> with its completion function \<open>f\<close>; \<open>T_SetStateAndForwardIntent\<close> is the body
  of the two completion functions that change the state directly.
\<close>

datatype lifecycle_task =
    T_Call lifecycle_op string
  | T_SetStateAndForwardIntent lifecycle_state lifecycle_op string
  | T_FinishShutdown string
  | T_HandlerDone lifecycle_state
  | T_Replies lifecycle_task
  | T_BarrierDone
  | T_SubscriptionsDone
  | T_AbortSimulation string
  | T_WarnIfError
  | T_AbortedBeforeStart
  | T_StartLifecycle
  | T_ReportError string
  | T_Pause string
  | T_Continue
  | T_RequestNextStep
  | T_SendStatus ParticipantStatus
  | T_NewSystemState system_state
  | T_NewParticipantStatus ParticipantStatus
  | T_SetWorkflowConfiguration WorkflowConfiguration

datatype handler_kind = HK_CommunicationReady | HK_Starting | HK_Stop | HK_Shutdown | HK_Abort participant_state

datatype lifecycle_event =
    LE_Transmit ParticipantStatus
  | LE_Handler handler_kind
  | LE_StartTime
  | LE_StopTime
  | LE_RequestNextStep
  | LE_RequestReplyCall uuid
  | LE_CompletionDropped
  | LE_NotifyShutdown
  | LE_FinalState participant_state
  | LE_ShutdownFailed string
  | LE_EvaluateAggregationInfo bool
  | LE_ConfigureTimeProvider bool
  | LE_InitializeTimeSyncPolicy bool
  | LE_NotifyServiceCreated operation_mode
  | LE_NotifyTimeSyncServiceCreated
  | LE_RegisterTimeSyncService
  | LE_UserHandler monitor_event
  | LE_Warn string
  | LE_Thrown error

datatype lifecycle_call =
    LC_ReportError string
  | LC_Pause string
  | LC_Continue
  | LC_Stop string
  | LC_CompleteCommunicationReadyHandlerAsync
  | LC_AbortSimulation string

record user_handler =
  uh_calls :: "lifecycle_call list"
  uh_abort :: bool
  uh_throws :: bool

datatype callback_result = CR_Error | CR_Completed | CR_Deferred

record participant_replies =
  pr_barrierActive :: bool
  pr_expectedParticipantsToSendCallReturns :: "string list"
  pr_completionFunction :: "lifecycle_task option"
  pr_activeUuid :: uuid

record lifecycle =
  lc_participantName :: string
  lc_operationMode :: operation_mode
  lc_status :: ParticipantStatus
  lc_isLifecycleStarted :: bool
  lc_abortedBeforeLifecycleStart :: bool
  lc_timeSyncActive :: bool
  lc_timeSyncBlocking :: bool
  lc_finalState :: "participant_state option"
  lc_finalStateFuture :: bool
  lc_commReadyHandler :: "user_handler option"
  lc_commReadyHandlerIsAsync :: bool
  lc_commReadyHandlerInvoked :: bool
  lc_commReadyHandlerCompleted :: bool
  lc_startingHandler :: "user_handler option"
  lc_stopHandler :: "user_handler option"
  lc_shutdownHandler :: "user_handler option"
  lc_abortHandler :: "user_handler option"
  lc_requiredParticipantNames :: "string list"
  lc_stopRequested :: bool
  lc_pauseRequested :: bool
  lc_currentState :: lifecycle_state
  lc_lastBeforeAbortingState :: "lifecycle_state option"
  lc_abortRequested :: "lifecycle_state list"
  lc_handlerExecuting :: "lifecycle_state list"
  lc_replies :: participant_replies
  lc_remoteReceivers :: "string list"
  lc_hasPendingAsyncSubscriptions :: bool
  lc_subscriptionHandlers :: "lifecycle_task list"
  lc_monitor :: system_monitor
  lc_stateHandlerIds :: "nat list"
  lc_statusHandlerIds :: "nat list"
  lc_stack :: "lifecycle_task list"
  lc_queue :: "lifecycle_task list"
  lc_log :: "lifecycle_event list"

text \<open>The clock and the next random identifier.\<close>

record surroundings =
  sr_now :: int
  sr_uuid :: uuid

definition LifecycleService_new :: "string \<Rightarrow> lifecycle" where
  "LifecycleService_new name =
     \<lparr>lc_participantName = name, lc_operationMode = OM_Invalid,
      lc_status = ParticipantStatus_default [], lc_isLifecycleStarted = False,
      lc_abortedBeforeLifecycleStart = False, lc_timeSyncActive = False, lc_timeSyncBlocking = False,
      lc_finalState = None, lc_finalStateFuture = True,
      lc_commReadyHandler = None, lc_commReadyHandlerIsAsync = False, lc_commReadyHandlerInvoked = False,
      lc_commReadyHandlerCompleted = False, lc_startingHandler = None, lc_stopHandler = None,
      lc_shutdownHandler = None, lc_abortHandler = None, lc_requiredParticipantNames = [],
      lc_stopRequested = False, lc_pauseRequested = False,
      lc_currentState = L_Invalid, lc_lastBeforeAbortingState = None, lc_abortRequested = [],
      lc_handlerExecuting = [],
      lc_replies = \<lparr>pr_barrierActive = False, pr_expectedParticipantsToSendCallReturns = [],
        pr_completionFunction = None, pr_activeUuid = \<lparr>uuid_ab = 0, uuid_cd = 0\<rparr>\<rparr>,
      lc_remoteReceivers = [], lc_hasPendingAsyncSubscriptions = False, lc_subscriptionHandlers = [],
      lc_monitor = SystemMonitor_new, lc_stateHandlerIds = [], lc_statusHandlerIds = [],
      lc_stack = [], lc_queue = [], lc_log = []\<rparr>"

section \<open>Execution on the I/O thread\<close>

definition push :: "lifecycle_task list \<Rightarrow> lifecycle \<Rightarrow> lifecycle" where
  "push ts l = l\<lparr>lc_stack := ts @ lc_stack l\<rparr>"

definition ExecuteDeferred :: "lifecycle_task \<Rightarrow> lifecycle \<Rightarrow> lifecycle" where
  "ExecuteDeferred t l = l\<lparr>lc_queue := lc_queue l @ [t]\<rparr>"

definition emits :: "lifecycle_event \<Rightarrow> lifecycle \<Rightarrow> lifecycle" where
  "emits ev l = l\<lparr>lc_log := lc_log l @ [ev]\<rparr>"

text \<open>An exception ends the task that runs.\<close>

definition throw :: "error \<Rightarrow> lifecycle \<Rightarrow> lifecycle" where
  "throw e l = emits (LE_Thrown e) (l\<lparr>lc_stack := []\<rparr>)"

definition CallAfterAllParticipantsReplied :: "lifecycle_task \<Rightarrow> lifecycle \<Rightarrow> lifecycle" where
  "CallAfterAllParticipantsReplied completionFunction l = ExecuteDeferred (T_Replies completionFunction) l"

definition AddAsyncSubscriptionsCompletionHandler :: "lifecycle_task \<Rightarrow> lifecycle \<Rightarrow> lifecycle" where
  "AddAsyncSubscriptionsCompletionHandler handler l =
     (if lc_hasPendingAsyncSubscriptions l
      then l\<lparr>lc_subscriptionHandlers := lc_subscriptionHandlers l @ [handler]\<rparr>
      else push [handler] l)"

section \<open>LifecycleService, called by the user\<close>

definition State :: "lifecycle \<Rightarrow> participant_state" where
  "State l = pst_state (lc_status l)"

definition lc_ReportError :: "string \<Rightarrow> lifecycle \<Rightarrow> lifecycle" where
  "lc_ReportError errorMsg l = ExecuteDeferred (T_ReportError errorMsg) l"

definition lc_Pause :: "string \<Rightarrow> lifecycle \<Rightarrow> lifecycle" where
  "lc_Pause reason l = ExecuteDeferred (T_Pause reason) (l\<lparr>lc_pauseRequested := True\<rparr>)"

definition lc_Continue :: "lifecycle \<Rightarrow> lifecycle" where
  "lc_Continue l = ExecuteDeferred T_Continue (l\<lparr>lc_pauseRequested := False\<rparr>)"

definition lc_Stop :: "string \<Rightarrow> lifecycle \<Rightarrow> lifecycle" where
  "lc_Stop reason l = ExecuteDeferred (T_Call O_StopSimulation reason) (l\<lparr>lc_stopRequested := True\<rparr>)"

definition CompleteCommunicationReadyHandlerAsync :: "lifecycle \<Rightarrow> lifecycle" where
  "CompleteCommunicationReadyHandlerAsync l =
     (if \<not> lc_commReadyHandlerInvoked l then l
      else if lc_commReadyHandlerCompleted l then l
      else ExecuteDeferred (T_Call O_CompleteCommunicationReadyHandler
             ''LifecycleService::CompleteCommunicationReadyHandler: triggering communication ready transition.'')
             (l\<lparr>lc_commReadyHandlerCompleted := True\<rparr>))"

definition lc_AbortSimulation :: "string \<Rightarrow> lifecycle \<Rightarrow> lifecycle" where
  "lc_AbortSimulation reason l =
     (if \<not> lc_isLifecycleStarted l
      then emits (LE_Warn ''Received SystemCommand::AbortSimulation before LifecycleService::StartLifecycle(...) was called.'')
             (l\<lparr>lc_abortedBeforeLifecycleStart := True\<rparr>)
      else ExecuteDeferred (T_AbortSimulation reason) l)"

fun lifecycle_call_step :: "lifecycle_call \<Rightarrow> lifecycle \<Rightarrow> lifecycle" where
  "lifecycle_call_step (LC_ReportError msg) l = lc_ReportError msg l"
| "lifecycle_call_step (LC_Pause reason) l = lc_Pause reason l"
| "lifecycle_call_step LC_Continue l = lc_Continue l"
| "lifecycle_call_step (LC_Stop reason) l = lc_Stop reason l"
| "lifecycle_call_step LC_CompleteCommunicationReadyHandlerAsync l = CompleteCommunicationReadyHandlerAsync l"
| "lifecycle_call_step (LC_AbortSimulation reason) l = lc_AbortSimulation reason l"

section \<open>Callbacks\<close>

text \<open>
  What \<^verbatim>\<open>AbortSimulation\<close> of the current state does while one of its handlers runs: the states with a handler that
  can be aborted note the request, the others ignore it.
\<close>

definition abort_during_handler :: "lifecycle \<Rightarrow> lifecycle" where
  "abort_during_handler l =
     (if lc_currentState l \<in> {L_CommunicationInitialized, L_ReadyToRun, L_Stopping}
      then l\<lparr>lc_abortRequested := lc_currentState l # lc_abortRequested l\<rparr> else l)"

text \<open>A callback of the user; the flag is whether it throws.\<close>

definition run_handler :: "handler_kind \<Rightarrow> user_handler \<Rightarrow> lifecycle \<Rightarrow> lifecycle \<times> bool" where
  "run_handler kind h l =
     (let l1 = fold lifecycle_call_step (uh_calls h) (emits (LE_Handler kind) l)
      in (if uh_abort h then abort_during_handler l1 else l1, uh_throws h))"

definition trigger :: "handler_kind \<Rightarrow> user_handler option \<Rightarrow> lifecycle \<Rightarrow> lifecycle \<times> bool" where
  "trigger kind h l = (case h of None \<Rightarrow> (l, False) | Some h \<Rightarrow> run_handler kind h l)"

definition TriggerCommunicationReadyHandler :: "lifecycle \<Rightarrow> lifecycle \<times> unit option \<times> bool" where
  "TriggerCommunicationReadyHandler l =
     (case lc_commReadyHandler l of
        None \<Rightarrow> (l, Some (), True)
      | Some h \<Rightarrow>
          if lc_commReadyHandlerIsAsync l
          then if \<not> lc_commReadyHandlerInvoked l
               then case run_handler HK_CommunicationReady h
                      (l\<lparr>lc_commReadyHandlerInvoked := True, lc_commReadyHandlerCompleted := False\<rparr>) of
                    (l1, throws) \<Rightarrow> (l1, if throws then None else Some (), False)
               else (l, Some (), False)
          else case run_handler HK_CommunicationReady h l of
                 (l1, throws) \<Rightarrow> (l1, if throws then None else Some (), True))"

definition HandleCommunicationReady :: "lifecycle \<Rightarrow> lifecycle \<times> callback_result" where
  "HandleCommunicationReady l =
     (case TriggerCommunicationReadyHandler l of
        (l1, None, _) \<Rightarrow> (emits (LE_Warn ''Detected exception in callback'') l1, CR_Error)
      | (l1, Some _, handlerDone) \<Rightarrow> (l1, if handlerDone then CR_Completed else CR_Deferred))"

definition handled :: "lifecycle \<times> bool \<Rightarrow> lifecycle \<times> bool" where
  "handled r = (case r of (l, throws) \<Rightarrow>
     if throws then (emits (LE_Warn ''Detected exception in callback'') l, False) else (l, True))"

definition HandleStarting :: "lifecycle \<Rightarrow> lifecycle \<times> bool" where
  "HandleStarting l = handled (trigger HK_Starting (lc_startingHandler l) l)"

definition HandleStop :: "lifecycle \<Rightarrow> lifecycle \<times> bool" where
  "HandleStop l = handled (trigger HK_Stop (lc_stopHandler l) l)"

definition HandleShutdown :: "lifecycle \<Rightarrow> lifecycle \<times> bool" where
  "HandleShutdown l = handled (trigger HK_Shutdown (lc_shutdownHandler l) l)"

definition HandleAbort :: "lifecycle \<Rightarrow> (lifecycle \<times> bool) result" where
  "HandleAbort l =
     (case lc_lastBeforeAbortingState l of
        None \<Rightarrow> Inl (StateError (''Abort handler was about to be triggered without knowing which state was active ''
                 @ ''before abort was called.''))
      | Some lastState \<Rightarrow> Inr (handled (trigger (HK_Abort (GetParticipantState lastState)) (lc_abortHandler l) l)))"

section \<open>LifecycleManagement: changing the state\<close>

definition UpdateLifecycleState :: "lifecycle_state \<Rightarrow> lifecycle \<Rightarrow> lifecycle" where
  "UpdateLifecycleState newState l =
     (if newState = L_Aborting
      then l\<lparr>lc_lastBeforeAbortingState := Some (lc_currentState l), lc_currentState := newState\<rparr>
      else l\<lparr>lc_currentState := newState\<rparr>)"

text \<open>\<^verbatim>\<open>refreshTime\<close> is the time at which the previous status was entered. \<^verbatim>\<open>SendMsg\<close> posts.\<close>

definition ChangeParticipantState :: "surroundings \<Rightarrow> participant_state \<Rightarrow> string \<Rightarrow> lifecycle \<Rightarrow> lifecycle" where
  "ChangeParticipantState sr newState reason l =
     (let status = \<lparr>pst_participantName = lc_participantName l, pst_state = newState,
            pst_enterReason = reason, pst_enterTime = sr_now sr, pst_refreshTime = pst_enterTime (lc_status l)\<rparr>
      in ExecuteDeferred (T_SendStatus status) (l\<lparr>lc_status := status\<rparr>))"

definition UpdateParticipantState :: "surroundings \<Rightarrow> string \<Rightarrow> lifecycle \<Rightarrow> lifecycle" where
  "UpdateParticipantState sr reason l = ChangeParticipantState sr (GetParticipantState (lc_currentState l)) reason l"

definition SetState :: "surroundings \<Rightarrow> lifecycle_state \<Rightarrow> string \<Rightarrow> lifecycle \<Rightarrow> lifecycle" where
  "SetState sr newState reason l = UpdateParticipantState sr reason (UpdateLifecycleState newState l)"

definition SetStateAndForwardIntent ::
    "surroundings \<Rightarrow> lifecycle_state \<Rightarrow> lifecycle_op \<Rightarrow> string \<Rightarrow> lifecycle \<Rightarrow> lifecycle" where
  "SetStateAndForwardIntent sr newState intent reason l =
     push [T_Call intent reason] (UpdateParticipantState sr reason (UpdateLifecycleState newState l))"

section \<open>LifecycleStates\<close>

definition transition_message :: "lifecycle_state \<Rightarrow> lifecycle_op \<Rightarrow> string \<Rightarrow> string" where
  "transition_message s op reason =
     ''Detected invalid state transition.'' @ [CHR 0x0A] @ ''Current state: '' @ state_name s @ [CHR 0x0A]
     @ ''Requested transition: '' @ op_name op @ [CHR 0x0A] @ ''Original reason: '' @ reason"

definition InvalidStateTransition :: "lifecycle_op \<Rightarrow> bool \<Rightarrow> string \<Rightarrow> lifecycle \<Rightarrow> lifecycle" where
  "InvalidStateTransition op triggerErrorState reason l =
     (let msg = transition_message (lc_currentState l) op reason
      in if triggerErrorState then push [T_Call O_Error msg] l else emits (LE_Warn msg) l)"

definition ProcessAbortCommand :: "surroundings \<Rightarrow> string \<Rightarrow> lifecycle \<Rightarrow> lifecycle" where
  "ProcessAbortCommand sr reason l =
     SetStateAndForwardIntent sr L_Aborting O_ResolveAbortSimulation reason
       (l\<lparr>lc_abortRequested := removeAll (lc_currentState l) (lc_abortRequested l)\<rparr>)"

definition ProcessAbortCommandInCallback :: "surroundings \<Rightarrow> lifecycle \<Rightarrow> lifecycle" where
  "ProcessAbortCommandInCallback sr l =
     ProcessAbortCommand sr (''Received SystemCommand::AbortSimulation during '' @ state_name (lc_currentState l) @ '' callback'') l"

definition abortRequested :: "lifecycle \<Rightarrow> bool" where
  "abortRequested l \<longleftrightarrow> lc_currentState l \<in> set (lc_abortRequested l)"

definition begin_handler :: "lifecycle \<Rightarrow> lifecycle" where
  "begin_handler l = l\<lparr>lc_handlerExecuting := lc_currentState l # lc_handlerExecuting l\<rparr>"

definition handlerExecuting :: "lifecycle \<Rightarrow> bool" where
  "handlerExecuting l \<longleftrightarrow> lc_currentState l \<in> set (lc_handlerExecuting l)"

text \<open>The methods of the base class.\<close>

definition BaseState :: "surroundings \<Rightarrow> lifecycle_op \<Rightarrow> string \<Rightarrow> lifecycle \<Rightarrow> lifecycle" where
  "BaseState sr op reason l =
     (case op of
        O_StopSimulation \<Rightarrow> InvalidStateTransition op False reason l
      | O_Error \<Rightarrow> SetState sr L_Error reason l
      | _ \<Rightarrow> InvalidStateTransition op True reason l)"

definition InvalidState :: "surroundings \<Rightarrow> lifecycle_op \<Rightarrow> string \<Rightarrow> lifecycle \<Rightarrow> lifecycle" where
  "InvalidState sr op reason l =
     (case op of
        O_Initialize \<Rightarrow> SetState sr L_ServicesCreated reason l
      | O_AbortSimulation \<Rightarrow> SetStateAndForwardIntent sr L_Aborting O_ResolveAbortSimulation reason l
      | O_ResolveAbortSimulation \<Rightarrow> SetStateAndForwardIntent sr L_Aborting O_ResolveAbortSimulation reason l
      | _ \<Rightarrow> BaseState sr op reason l)"

definition ServicesCreatedState :: "surroundings \<Rightarrow> lifecycle_op \<Rightarrow> string \<Rightarrow> lifecycle \<Rightarrow> lifecycle" where
  "ServicesCreatedState sr op reason l =
     (case op of
        O_ServicesCreated \<Rightarrow>
          CallAfterAllParticipantsReplied
            (T_SetStateAndForwardIntent L_CommunicationInitializing O_ServicesCreated reason) l
      | O_AbortSimulation \<Rightarrow> SetStateAndForwardIntent sr L_Aborting O_ResolveAbortSimulation reason l
      | O_ResolveAbortSimulation \<Rightarrow> SetStateAndForwardIntent sr L_Aborting O_ResolveAbortSimulation reason l
      | _ \<Rightarrow> BaseState sr op reason l)"

definition CommunicationInitializingState :: "surroundings \<Rightarrow> lifecycle_op \<Rightarrow> string \<Rightarrow> lifecycle \<Rightarrow> lifecycle" where
  "CommunicationInitializingState sr op reason l =
     (case op of
        O_ServicesCreated \<Rightarrow> push [T_Call O_CommunicationInitializing reason] l
      | O_CommunicationInitializing \<Rightarrow>
          AddAsyncSubscriptionsCompletionHandler
            (T_SetStateAndForwardIntent L_CommunicationInitialized O_CommunicationInitializing reason) l
      | O_AbortSimulation \<Rightarrow> SetStateAndForwardIntent sr L_Aborting O_ResolveAbortSimulation reason l
      | O_ResolveAbortSimulation \<Rightarrow> SetStateAndForwardIntent sr L_Aborting O_ResolveAbortSimulation reason l
      | _ \<Rightarrow> BaseState sr op reason l)"

definition CommunicationInitializedState :: "surroundings \<Rightarrow> lifecycle_op \<Rightarrow> string \<Rightarrow> lifecycle \<Rightarrow> lifecycle" where
  "CommunicationInitializedState sr op reason l =
     (case op of
        O_CommunicationInitializing \<Rightarrow>
          if lc_operationMode l = OM_Autonomous
          then push [T_Call O_CommunicationInitialized ''CommunicationInitialized for autonomous participant.''] l
          else l
      | O_CommunicationInitialized \<Rightarrow>
          (let (l1, callbackResult) = HandleCommunicationReady (begin_handler l);
               l2 = push [T_HandlerDone L_CommunicationInitialized] l1
           in case callbackResult of
                CR_Error \<Rightarrow>
                  if abortRequested l2 then ProcessAbortCommandInCallback sr l2
                  else SetState sr L_Error ''Exception during CommunicationReadyHandle execution.'' l2
              | CR_Completed \<Rightarrow>
                  if abortRequested l2 then ProcessAbortCommandInCallback sr l2
                  else SetStateAndForwardIntent sr L_ReadyToRun O_CommunicationInitialized reason l2
              | CR_Deferred \<Rightarrow> l2)
      | O_CompleteCommunicationReadyHandler \<Rightarrow>
          SetStateAndForwardIntent sr L_ReadyToRun O_CommunicationInitialized reason l
      | O_AbortSimulation \<Rightarrow>
          if handlerExecuting l
          then l\<lparr>lc_abortRequested := lc_currentState l # lc_abortRequested l\<rparr>
          else ProcessAbortCommand sr ''Received SystemCommand::AbortSimulation.'' l
      | O_ResolveAbortSimulation \<Rightarrow> ProcessAbortCommand sr reason l
      | _ \<Rightarrow> BaseState sr op reason l)"

definition ReadyToRunState :: "surroundings \<Rightarrow> lifecycle_op \<Rightarrow> string \<Rightarrow> lifecycle \<Rightarrow> lifecycle" where
  "ReadyToRunState sr op reason l =
     (case op of
        O_CommunicationInitializing \<Rightarrow> l
      | O_CommunicationInitialized \<Rightarrow>
          if lc_operationMode l = OM_Autonomous
          then push [T_Call O_ReadyToRun ''ReadyToRun for autonomous participant.''] l else l
      | O_ReadyToRun \<Rightarrow>
          if \<not> lc_timeSyncActive l
          then let (l1, success) = HandleStarting (begin_handler l);
                   l2 = push [T_HandlerDone L_ReadyToRun] l1
            in if abortRequested l2 then ProcessAbortCommandInCallback sr l2
               else if success then SetState sr L_Running ''Finished StartingHandler execution.'' l2
               else SetState sr L_Error ''Exception during StartingHandler execution.'' l2
          else if abortRequested l then ProcessAbortCommandInCallback sr l
          else SetStateAndForwardIntent sr L_Running O_ReadyToRun reason l
      | O_AbortSimulation \<Rightarrow>
          if handlerExecuting l
          then l\<lparr>lc_abortRequested := lc_currentState l # lc_abortRequested l\<rparr>
          else ProcessAbortCommand sr reason l
      | O_ResolveAbortSimulation \<Rightarrow> ProcessAbortCommand sr reason l
      | _ \<Rightarrow> BaseState sr op reason l)"

definition RunningState :: "surroundings \<Rightarrow> lifecycle_op \<Rightarrow> string \<Rightarrow> lifecycle \<Rightarrow> lifecycle" where
  "RunningState sr op reason l =
     (case op of
        O_CommunicationInitializing \<Rightarrow> l
      | O_CommunicationInitialized \<Rightarrow> l
      | O_ReadyToRun \<Rightarrow> emits LE_StartTime l
      | O_PauseSimulation \<Rightarrow> SetState sr L_Paused reason l
      | O_ContinueSimulation \<Rightarrow> InvalidStateTransition op False reason l
      | O_StopSimulation \<Rightarrow> SetStateAndForwardIntent sr L_Stopping O_StopSimulation reason (emits LE_StopTime l)
      | O_AbortSimulation \<Rightarrow> ProcessAbortCommand sr reason (emits LE_StopTime l)
      | O_ResolveAbortSimulation \<Rightarrow> ProcessAbortCommand sr reason l
      | _ \<Rightarrow> BaseState sr op reason l)"

definition PausedState :: "surroundings \<Rightarrow> lifecycle_op \<Rightarrow> string \<Rightarrow> lifecycle \<Rightarrow> lifecycle" where
  "PausedState sr op reason l =
     (case op of
        O_PauseSimulation \<Rightarrow> InvalidStateTransition op True reason l
      | O_ContinueSimulation \<Rightarrow> SetState sr L_Running reason l
      | O_StopSimulation \<Rightarrow> SetStateAndForwardIntent sr L_Stopping O_StopSimulation reason l
      | O_AbortSimulation \<Rightarrow> ProcessAbortCommand sr ''Received abort simulation.'' l
      | O_ResolveAbortSimulation \<Rightarrow> ProcessAbortCommand sr reason l
      | _ \<Rightarrow> BaseState sr op reason l)"

definition StoppingState :: "surroundings \<Rightarrow> lifecycle_op \<Rightarrow> string \<Rightarrow> lifecycle \<Rightarrow> lifecycle" where
  "StoppingState sr op reason l =
     (case op of
        O_StopSimulation \<Rightarrow>
          (let (l1, success) = HandleStop l
           in if abortRequested l1 then ProcessAbortCommandInCallback sr l1
              else if success then SetStateAndForwardIntent sr L_Stopped O_StopSimulation reason l1
              else SetState sr L_Error ''Exception during StopHandler execution.'' l1)
      | O_AbortSimulation \<Rightarrow> l\<lparr>lc_abortRequested := lc_currentState l # lc_abortRequested l\<rparr>
      | O_ResolveAbortSimulation \<Rightarrow> ProcessAbortCommand sr reason l
      | _ \<Rightarrow> BaseState sr op reason l)"

definition StoppedState :: "surroundings \<Rightarrow> lifecycle_op \<Rightarrow> string \<Rightarrow> lifecycle \<Rightarrow> lifecycle" where
  "StoppedState sr op reason l =
     (case op of
        O_StopSimulation \<Rightarrow> CallAfterAllParticipantsReplied (T_Call O_ShutdownParticipant reason) l
      | O_RestartParticipant \<Rightarrow> throw (SilKitError ''Restart is currently not supported.'') l
      | O_ShutdownParticipant \<Rightarrow> SetStateAndForwardIntent sr L_ShuttingDown O_ShutdownParticipant reason l
      | O_AbortSimulation \<Rightarrow> ProcessAbortCommand sr reason l
      | O_ResolveAbortSimulation \<Rightarrow> ProcessAbortCommand sr reason l
      | _ \<Rightarrow> BaseState sr op reason l)"

definition ShuttingDownState :: "surroundings \<Rightarrow> lifecycle_op \<Rightarrow> string \<Rightarrow> lifecycle \<Rightarrow> lifecycle" where
  "ShuttingDownState sr op reason l =
     (case op of
        O_StopSimulation \<Rightarrow> l
      | O_ShutdownParticipant \<Rightarrow>
          (let (l1, success) = HandleShutdown l;
               l2 = (if success then l1 else emits (LE_Warn
                 ''ShutdownHandler threw an exception. This is ignored. The participant will now shut down.'') l1)
           in SetStateAndForwardIntent sr L_Shutdown O_ShutdownParticipant reason l2)
      | O_AbortSimulation \<Rightarrow> l
      | O_ResolveAbortSimulation \<Rightarrow> l
      | _ \<Rightarrow> BaseState sr op reason l)"

definition ShutdownState :: "surroundings \<Rightarrow> lifecycle_op \<Rightarrow> string \<Rightarrow> lifecycle \<Rightarrow> lifecycle" where
  "ShutdownState sr op reason l =
     (case op of
        O_Initialize \<Rightarrow> l
      | O_ReadyToRun \<Rightarrow> l
      | O_CommunicationInitialized \<Rightarrow> l
      | O_StopSimulation \<Rightarrow> l
      | O_Error \<Rightarrow> l
      | O_ShutdownParticipant \<Rightarrow> CallAfterAllParticipantsReplied (T_FinishShutdown reason) l
      | O_AbortSimulation \<Rightarrow> l
      | O_ResolveAbortSimulation \<Rightarrow> l
      | _ \<Rightarrow> BaseState sr op reason l)"

definition AbortingState :: "surroundings \<Rightarrow> lifecycle_op \<Rightarrow> string \<Rightarrow> lifecycle \<Rightarrow> lifecycle" where
  "AbortingState sr op reason l =
     (case op of
        O_Initialize \<Rightarrow> l
      | O_ShutdownParticipant \<Rightarrow> SetStateAndForwardIntent sr L_Shutdown O_ShutdownParticipant reason l
      | O_AbortSimulation \<Rightarrow> l
      | O_ResolveAbortSimulation \<Rightarrow>
          (case HandleAbort l of
             Inl e \<Rightarrow> throw e l
           | Inr (l1, success) \<Rightarrow>
               push [T_Call O_ShutdownParticipant reason]
                 (if success then l1 else emits (LE_Warn
                   ''ShutdownHandler threw an exception. This is ignored. The participant will now shut down.'') l1))
      | _ \<Rightarrow> BaseState sr op reason l)"

definition ErrorState :: "surroundings \<Rightarrow> lifecycle_op \<Rightarrow> string \<Rightarrow> lifecycle \<Rightarrow> lifecycle" where
  "ErrorState sr op reason l =
     (case op of
        O_Initialize \<Rightarrow> l
      | O_RestartParticipant \<Rightarrow> throw (SilKitError ''Restart feature is currently not supported.'') l
      | O_StopSimulation \<Rightarrow> push [T_Call O_ShutdownParticipant reason] l
      | O_ShutdownParticipant \<Rightarrow> SetStateAndForwardIntent sr L_ShuttingDown O_ShutdownParticipant reason l
      | O_AbortSimulation \<Rightarrow> ProcessAbortCommand sr reason l
      | O_ResolveAbortSimulation \<Rightarrow> ProcessAbortCommand sr reason l
      | O_Error \<Rightarrow> emits (LE_Warn (''Received error transition within error state. Original reason: '' @ reason)) l
      | _ \<Rightarrow> BaseState sr op reason l)"

text \<open>The virtual call \<^verbatim>\<open>_currentState->op(reason)\<close>.\<close>

definition call_state :: "surroundings \<Rightarrow> lifecycle_op \<Rightarrow> string \<Rightarrow> lifecycle \<Rightarrow> lifecycle" where
  "call_state sr op reason l =
     (case lc_currentState l of
        L_Invalid \<Rightarrow> InvalidState sr op reason l
      | L_ServicesCreated \<Rightarrow> ServicesCreatedState sr op reason l
      | L_CommunicationInitializing \<Rightarrow> CommunicationInitializingState sr op reason l
      | L_CommunicationInitialized \<Rightarrow> CommunicationInitializedState sr op reason l
      | L_ReadyToRun \<Rightarrow> ReadyToRunState sr op reason l
      | L_Running \<Rightarrow> RunningState sr op reason l
      | L_Paused \<Rightarrow> PausedState sr op reason l
      | L_Stopping \<Rightarrow> StoppingState sr op reason l
      | L_Stopped \<Rightarrow> StoppedState sr op reason l
      | L_ShuttingDown \<Rightarrow> ShuttingDownState sr op reason l
      | L_Shutdown \<Rightarrow> ShutdownState sr op reason l
      | L_Aborting \<Rightarrow> AbortingState sr op reason l
      | L_Error \<Rightarrow> ErrorState sr op reason l)"

section \<open>LifecycleService and its surroundings on the I/O thread\<close>

text \<open>The names of the states in \<^verbatim>\<open>string_utils.hpp\<close>; an unknown value is printed as a number, which is not modelled.\<close>

fun participant_state_name :: "participant_state \<Rightarrow> string" where
  "participant_state_name PS_Invalid = ''Invalid''"
| "participant_state_name PS_ServicesCreated = ''ServicesCreated''"
| "participant_state_name PS_CommunicationInitializing = ''CommunicationInitializing''"
| "participant_state_name PS_CommunicationInitialized = ''CommunicationInitialized''"
| "participant_state_name PS_ReadyToRun = ''ReadyToRun''"
| "participant_state_name PS_Running = ''Running''"
| "participant_state_name PS_Paused = ''Paused''"
| "participant_state_name PS_Stopping = ''Stopping''"
| "participant_state_name PS_Stopped = ''Stopped''"
| "participant_state_name PS_Error = ''Error''"
| "participant_state_name PS_ShuttingDown = ''ShuttingDown''"
| "participant_state_name PS_Shutdown = ''Shutdown''"
| "participant_state_name PS_Aborting = ''Aborting''"
| "participant_state_name (PS_Other _) = ''ParticipantState''"

fun system_state_name :: "system_state \<Rightarrow> string" where
  "system_state_name SS_Invalid = ''Invalid''"
| "system_state_name SS_ServicesCreated = ''ServicesCreated''"
| "system_state_name SS_CommunicationInitializing = ''CommunicationInitializing''"
| "system_state_name SS_CommunicationInitialized = ''CommunicationInitialized''"
| "system_state_name SS_ReadyToRun = ''ReadyToRun''"
| "system_state_name SS_Running = ''Running''"
| "system_state_name SS_Paused = ''Paused''"
| "system_state_name SS_Stopping = ''Stopping''"
| "system_state_name SS_Stopped = ''Stopped''"
| "system_state_name SS_Error = ''Error''"
| "system_state_name SS_ShuttingDown = ''ShuttingDown''"
| "system_state_name SS_Shutdown = ''Shutdown''"
| "system_state_name SS_Aborting = ''Aborting''"

definition CheckForValidConfiguration :: "lifecycle \<Rightarrow> lifecycle \<times> bool" where
  "CheckForValidConfiguration l =
     (if lc_operationMode l = OM_Coordinated \<and> lc_participantName l \<notin> set (lc_requiredParticipantNames l)
      then (lc_ReportError (lc_participantName l
              @ '': This participant is in OperationMode::Coordinated but it is not part of the ''
              @ ''set of \"required\" participants declared by the system controller. '') l, False)
      else (l, True))"

definition SetFinalStatePromise :: "lifecycle \<Rightarrow> lifecycle" where
  "SetFinalStatePromise l =
     (case lc_finalState l of
        Some _ \<Rightarrow> l
      | None \<Rightarrow> emits (LE_FinalState (State l)) (l\<lparr>lc_finalState := Some (State l)\<rparr>))"

definition NewSystemState :: "system_state \<Rightarrow> lifecycle \<Rightarrow> lifecycle" where
  "NewSystemState systemState l =
     (case lc_operationMode l of
        OM_Invalid \<Rightarrow> l
      | OM_Autonomous \<Rightarrow> l
      | OM_Coordinated \<Rightarrow>
          (let ss = ''Received new system state: '' @ system_state_name systemState
           in case systemState of
                SS_ServicesCreated \<Rightarrow> push [T_Call O_ServicesCreated ss] l
              | SS_CommunicationInitialized \<Rightarrow> push [T_Call O_CommunicationInitialized ss] l
              | SS_ReadyToRun \<Rightarrow> push [T_Call O_ReadyToRun ss] l
              | SS_Stopping \<Rightarrow>
                  if lc_currentState l = L_Running \<or> lc_currentState l = L_Paused
                  then push [T_Call O_StopSimulation ss] l else l
              | _ \<Rightarrow> l))"

definition NewParticipantStatus :: "ParticipantStatus \<Rightarrow> lifecycle \<Rightarrow> lifecycle" where
  "NewParticipantStatus status l =
     (if pst_participantName status = lc_participantName l \<and> pst_state status = PS_ReadyToRun \<and> lc_timeSyncActive l
      then emits (LE_EvaluateAggregationInfo (lc_timeSyncBlocking l)) l else l)"

definition SetWorkflowConfiguration :: "WorkflowConfiguration \<Rightarrow> lifecycle \<Rightarrow> lifecycle" where
  "SetWorkflowConfiguration configuration l =
     (let l1 = l\<lparr>lc_requiredParticipantNames := wc_requiredParticipantNames configuration\<rparr>
      in if lc_operationMode l1 \<noteq> OM_Invalid \<and> lc_isLifecycleStarted l1
         then fst (CheckForValidConfiguration l1) else l1)"

text \<open>The handlers the monitor calls: those of this service run next, the user's are outputs.\<close>

fun monitor_event_task :: "nat list \<Rightarrow> nat list \<Rightarrow> monitor_event \<Rightarrow> lifecycle_task option" where
  "monitor_event_task states statuses (ME_SystemState i s) = (if i \<in> set states then Some (T_NewSystemState s) else None)"
| "monitor_event_task states statuses (ME_ParticipantStatus i s) =
     (if i \<in> set statuses then Some (T_NewParticipantStatus s) else None)"
| "monitor_event_task states statuses (ME_SetWorkflowConfiguration wc) = Some (T_SetWorkflowConfiguration wc)"
| "monitor_event_task states statuses _ = None"

definition after_monitor :: "monitor_outcome \<Rightarrow> lifecycle \<Rightarrow> lifecycle" where
  "after_monitor out l =
     (case out of (m, evs, e) \<Rightarrow>
        let task = monitor_event_task (lc_stateHandlerIds l) (lc_statusHandlerIds l);
            l1 = push (List.map_filter task evs)
              (fold (\<lambda>ev. emits (LE_UserHandler ev)) (filter (\<lambda>ev. task ev = None) evs) (l\<lparr>lc_monitor := m\<rparr>))
        in case e of None \<Rightarrow> l1 | Some err \<Rightarrow> emits (LE_Warn ''Callback threw an exception'') l1)"

text \<open>\<^verbatim>\<open>SendMsg(status)\<close> on the I/O thread: first to the peers, then to the receivers of this participant.\<close>

definition DistributeStatus :: "ParticipantStatus \<Rightarrow> lifecycle \<Rightarrow> lifecycle" where
  "DistributeStatus status l =
     (let l1 = emits (LE_Transmit status) l
      in after_monitor (sm_ReceiveParticipantStatus status (lc_monitor l1)) l1)"

text \<open>The deferred function of \<^verbatim>\<open>CallAfterAllParticipantsReplied\<close>.\<close>

definition RequestReplies :: "surroundings \<Rightarrow> lifecycle_task \<Rightarrow> lifecycle \<Rightarrow> lifecycle" where
  "RequestReplies sr completionFunction l =
     (if pr_barrierActive (lc_replies l) then emits LE_CompletionDropped l
      else let expected = remdups (lc_remoteReceivers l);
               l1 = l\<lparr>lc_replies := (lc_replies l)\<lparr>pr_expectedParticipantsToSendCallReturns := expected\<rparr>\<rparr>
        in if expected = [] then push [completionFunction] l1
           else emits (LE_RequestReplyCall (sr_uuid sr))
             (l1\<lparr>lc_replies := (lc_replies l1)\<lparr>pr_barrierActive := True,
                pr_completionFunction := Some completionFunction, pr_activeUuid := sr_uuid sr\<rparr>\<rparr>))"

definition ReceiveCallReturn :: "string \<Rightarrow> uuid \<Rightarrow> lifecycle \<Rightarrow> lifecycle" where
  "ReceiveCallReturn fromParticipant callUuid l =
     (let pr = lc_replies l
      in if pr_barrierActive pr \<and> callUuid = pr_activeUuid pr
         then let expected = removeAll fromParticipant (pr_expectedParticipantsToSendCallReturns pr);
                  l1 = l\<lparr>lc_replies := pr\<lparr>pr_expectedParticipantsToSendCallReturns := expected\<rparr>\<rparr>
           in if expected = []
              then push ((case pr_completionFunction pr of None \<Rightarrow> [] | Some f \<Rightarrow> [f]) @ [T_BarrierDone]) l1
              else l1
         else l)"

definition AsyncSubscriptionsCompleted :: "lifecycle \<Rightarrow> lifecycle" where
  "AsyncSubscriptionsCompleted l = push (lc_subscriptionHandlers l @ [T_SubscriptionsDone]) l"

definition ReceiveSystemCommand :: "system_command_kind \<Rightarrow> lifecycle \<Rightarrow> lifecycle" where
  "ReceiveSystemCommand kind l =
     (case kind of
        SC_AbortSimulation \<Rightarrow> lc_AbortSimulation ''Received SystemCommand::AbortSimulation'' l
      | _ \<Rightarrow> lc_ReportError (''Received SystemCommand::'' @ (if kind = SC_Invalid then ''Invalid'' else ''Kind'')
               @ '' while in ParticipantState::'' @ participant_state_name (State l)) l)"

text \<open>
  \<^verbatim>\<open>StartLifecycle\<close> up to the registration of the handlers, which are called at once, and
  \<open>StartLifecycle_rest\<close>, its end. \<^verbatim>\<open>_finalStatePromise\<close> is never reset, so the test for a second call does
  not apply. The result is whether the returned future is valid.
\<close>

definition StartLifecycle :: "lifecycle \<Rightarrow> lifecycle \<times> bool" where
  "StartLifecycle l0 =
     (let l = l0\<lparr>lc_isLifecycleStarted := True\<rparr>;
          future = lc_finalStateFuture l;
          taken = (\<lambda>l. l\<lparr>lc_finalStateFuture := False\<rparr>)
      in if lc_abortedBeforeLifecycleStart l then (taken (ExecuteDeferred T_AbortedBeforeStart l), future)
         else let (l1, valid) = (if lc_requiredParticipantNames l \<noteq> [] then CheckForValidConfiguration l else (l, True))
           in if \<not> valid then (taken l1, future)
              else let l2 = emits LE_NotifyTimeSyncServiceCreated (emits (LE_NotifyServiceCreated (lc_operationMode l1))
                         (emits (LE_InitializeTimeSyncPolicy (lc_timeSyncActive l1))
                            (emits (LE_ConfigureTimeProvider (lc_timeSyncActive l1)) l1)));
                       (i, m1, evs1) = AddSystemStateHandler (lc_monitor l2);
                       (j, m2, evs2) = AddParticipantStatusHandler m1;
                       l3 = l2\<lparr>lc_stateHandlerIds := lc_stateHandlerIds l2 @ [i],
                               lc_statusHandlerIds := lc_statusHandlerIds l2 @ [j]\<rparr>
                in (taken (after_monitor (m2, evs1 @ evs2, None) (push [T_StartLifecycle] l3)), future))"

definition StartLifecycle_rest :: "lifecycle \<Rightarrow> lifecycle" where
  "StartLifecycle_rest l0 =
     (let l = ExecuteDeferred (T_Call O_Initialize ''LifecycleService::StartLifecycle was called.'') l0
      in case lc_operationMode l of
           OM_Invalid \<Rightarrow> throw (ConfigurationError ''OperationMode was not set. This is mandatory.'') l
         | OM_Coordinated \<Rightarrow> l
         | OM_Autonomous \<Rightarrow> ExecuteDeferred (T_Call O_ServicesCreated
             ''LifecycleService::StartLifecycle was called without start coordination.'') l)"

text \<open>The deferred functions of \<^verbatim>\<open>ReportError\<close>, \<^verbatim>\<open>Pause\<close> and \<^verbatim>\<open>Continue\<close>.\<close>

definition ReportError_deferred :: "string \<Rightarrow> lifecycle \<Rightarrow> lifecycle" where
  "ReportError_deferred errorMsg l =
     (if \<not> lc_isLifecycleStarted l
      then emits (LE_Warn ''LifecycleService::ReportError() was called before LifecycleService::StartLifecycle() was called'') l
      else if State l = PS_Shutdown
      then emits (LE_Warn ''LifecycleService::ReportError() was called in terminal state ParticipantState::Shutdown'') l
      else push [T_Call O_Error errorMsg] l)"

definition Pause_deferred :: "string \<Rightarrow> lifecycle \<Rightarrow> lifecycle" where
  "Pause_deferred reason l =
     (if State l \<noteq> PS_Running
      then let msg = ''LifecycleService::Pause() was called in state ParticipantState::'' @ participant_state_name (State l)
        in throw (SilKitError msg) (lc_ReportError msg l)
      else push [T_Call O_PauseSimulation reason] l)"

definition Continue_deferred :: "lifecycle \<Rightarrow> lifecycle" where
  "Continue_deferred l =
     (if State l \<noteq> PS_Paused
      then let msg = ''LifecycleService::Continue() was called in state ParticipantState::'' @ participant_state_name (State l)
        in throw (SilKitError msg) (lc_ReportError msg l)
      else push [T_Call O_ContinueSimulation ''Pause finished'', T_RequestNextStep] l)"

definition FinishShutdown :: "string \<Rightarrow> lifecycle \<Rightarrow> lifecycle" where
  "FinishShutdown reason l =
     (if lc_currentState l \<noteq> L_Error then SetFinalStatePromise (emits LE_NotifyShutdown l)
      else emits (LE_ShutdownFailed reason) l)"

definition lm_AbortSimulation :: "string \<Rightarrow> lifecycle \<Rightarrow> lifecycle" where
  "lm_AbortSimulation reason l = push [T_Call O_AbortSimulation reason, T_WarnIfError] l"

fun exec :: "surroundings \<Rightarrow> lifecycle_task \<Rightarrow> lifecycle \<Rightarrow> lifecycle" where
  "exec sr (T_Call op reason) l = call_state sr op reason l"
| "exec sr (T_SetStateAndForwardIntent s op reason) l = SetStateAndForwardIntent sr s op reason l"
| "exec sr (T_FinishShutdown reason) l = FinishShutdown reason l"
| "exec sr (T_HandlerDone s) l = l\<lparr>lc_handlerExecuting := removeAll s (lc_handlerExecuting l)\<rparr>"
| "exec sr (T_Replies f) l = RequestReplies sr f l"
| "exec sr T_BarrierDone l = l\<lparr>lc_replies := (lc_replies l)\<lparr>pr_barrierActive := False\<rparr>\<rparr>"
| "exec sr T_SubscriptionsDone l = l\<lparr>lc_subscriptionHandlers := [], lc_hasPendingAsyncSubscriptions := False\<rparr>"
| "exec sr (T_AbortSimulation reason) l = lm_AbortSimulation reason l"
| "exec sr T_WarnIfError l = (if lc_currentState l = L_Error
     then emits (LE_Warn ''AbortSimulation caused a transition to an error state'') l else l)"
| "exec sr T_AbortedBeforeStart l = lm_AbortSimulation ''Lifecycle was aborted by SystemCommand::AbortSimulation''
     (emits (LE_Warn ''LifecycleService::StartLifecycle(...) was called after receiving SystemCommand::AbortSimulation;'') l)"
| "exec sr T_StartLifecycle l = StartLifecycle_rest l"
| "exec sr (T_ReportError msg) l = ReportError_deferred msg l"
| "exec sr (T_Pause reason) l = Pause_deferred reason l"
| "exec sr T_Continue l = Continue_deferred l"
| "exec sr T_RequestNextStep l = emits LE_RequestNextStep l"
| "exec sr (T_SendStatus status) l = DistributeStatus status l"
| "exec sr (T_NewSystemState s) l = NewSystemState s l"
| "exec sr (T_NewParticipantStatus status) l = NewParticipantStatus status l"
| "exec sr (T_SetWorkflowConfiguration wc) l = SetWorkflowConfiguration wc l"

text \<open>One step of the I/O thread: the next call of the task that runs, or the next posted task.\<close>

definition io_step :: "surroundings \<Rightarrow> lifecycle \<Rightarrow> lifecycle" where
  "io_step sr l =
     (case lc_stack l of
        t # ts \<Rightarrow> exec sr t (l\<lparr>lc_stack := ts\<rparr>)
      | [] \<Rightarrow> (case lc_queue l of [] \<Rightarrow> l | t # q \<Rightarrow> l\<lparr>lc_stack := [t], lc_queue := q\<rparr>))"

section \<open>Configuration by the user\<close>

definition SetCommunicationReadyHandler :: "user_handler \<Rightarrow> lifecycle \<Rightarrow> lifecycle" where
  "SetCommunicationReadyHandler h l = l\<lparr>lc_commReadyHandlerIsAsync := False, lc_commReadyHandler := Some h\<rparr>"

definition SetCommunicationReadyHandlerAsync :: "user_handler \<Rightarrow> lifecycle \<Rightarrow> lifecycle" where
  "SetCommunicationReadyHandlerAsync h l = l\<lparr>lc_commReadyHandlerIsAsync := True, lc_commReadyHandler := Some h\<rparr>"

definition SetStartingHandler :: "user_handler \<Rightarrow> lifecycle \<Rightarrow> lifecycle" where
  "SetStartingHandler h l = l\<lparr>lc_startingHandler := Some h\<rparr>"

definition SetStopHandler :: "user_handler \<Rightarrow> lifecycle \<Rightarrow> lifecycle" where
  "SetStopHandler h l = l\<lparr>lc_stopHandler := Some h\<rparr>"

definition SetShutdownHandler :: "user_handler \<Rightarrow> lifecycle \<Rightarrow> lifecycle" where
  "SetShutdownHandler h l = l\<lparr>lc_shutdownHandler := Some h\<rparr>"

definition SetAbortHandler :: "user_handler \<Rightarrow> lifecycle \<Rightarrow> lifecycle" where
  "SetAbortHandler h l = l\<lparr>lc_abortHandler := Some h\<rparr>"

definition SetLifecycleConfiguration :: "operation_mode \<Rightarrow> lifecycle \<Rightarrow> lifecycle" where
  "SetLifecycleConfiguration mode l = l\<lparr>lc_operationMode := mode\<rparr>"

definition CreateTimeSyncService :: "lifecycle \<Rightarrow> lifecycle" where
  "CreateTimeSyncService l =
     (if \<not> lc_timeSyncActive l then emits LE_RegisterTimeSyncService (l\<lparr>lc_timeSyncActive := True\<rparr>)
      else emits (LE_Thrown (ConfigurationError ''You may not create the time synchronization service more than once.'')) l)"

datatype lifecycle_setting =
    LS_CommunicationReadyHandler user_handler
  | LS_CommunicationReadyHandlerAsync user_handler
  | LS_StartingHandler user_handler
  | LS_StopHandler user_handler
  | LS_ShutdownHandler user_handler
  | LS_AbortHandler user_handler
  | LS_CreateTimeSyncService
  | LS_TimeSyncBlocking bool

fun lifecycle_setting_step :: "lifecycle_setting \<Rightarrow> lifecycle \<Rightarrow> lifecycle" where
  "lifecycle_setting_step (LS_CommunicationReadyHandler h) l = SetCommunicationReadyHandler h l"
| "lifecycle_setting_step (LS_CommunicationReadyHandlerAsync h) l = SetCommunicationReadyHandlerAsync h l"
| "lifecycle_setting_step (LS_StartingHandler h) l = SetStartingHandler h l"
| "lifecycle_setting_step (LS_StopHandler h) l = SetStopHandler h l"
| "lifecycle_setting_step (LS_ShutdownHandler h) l = SetShutdownHandler h l"
| "lifecycle_setting_step (LS_AbortHandler h) l = SetAbortHandler h l"
| "lifecycle_setting_step LS_CreateTimeSyncService l = CreateTimeSyncService l"
| "lifecycle_setting_step (LS_TimeSyncBlocking b) l = l\<lparr>lc_timeSyncBlocking := b\<rparr>"

section \<open>What reaches the participant from outside\<close>

text \<open>
  The inputs that are handled while no task runs. \<open>LI_RemoteReceivers\<close> and
  \<open>LI_PendingSubscriptions\<close> are what the connection answers to \<^verbatim>\<open>GetParticipantNamesOfRemoteReceivers\<close> and keeps
  in \<^verbatim>\<open>_hasPendingAsyncSubscriptions\<close> when controllers are created.
\<close>

datatype lifecycle_input =
    LI_StartLifecycle
  | LI_ParticipantStatus ParticipantStatus
  | LI_WorkflowConfiguration "string list \<Rightarrow> string list" WorkflowConfiguration
  | LI_SystemCommand system_command_kind
  | LI_Connected string
  | LI_Disconnected int string
  | LI_CallReturn string uuid
  | LI_SubscriptionsCompleted
  | LI_RemoteReceivers "string list"
  | LI_PendingSubscriptions
  | LI_Setting lifecycle_setting

fun lifecycle_input_step :: "lifecycle_input \<Rightarrow> lifecycle \<Rightarrow> lifecycle" where
  "lifecycle_input_step LI_StartLifecycle l = fst (StartLifecycle l)"
| "lifecycle_input_step (LI_ParticipantStatus s) l = after_monitor (sm_ReceiveParticipantStatus s (lc_monitor l)) l"
| "lifecycle_input_step (LI_WorkflowConfiguration order wc) l =
     after_monitor (sm_ReceiveWorkflowConfiguration order wc (lc_monitor l)) l"
| "lifecycle_input_step (LI_SystemCommand kind) l = ReceiveSystemCommand kind l"
| "lifecycle_input_step (LI_Connected name) l = after_monitor (OnParticipantConnected name (lc_monitor l)) l"
| "lifecycle_input_step (LI_Disconnected now name) l = after_monitor (OnParticipantDisconnected now name (lc_monitor l)) l"
| "lifecycle_input_step (LI_CallReturn name uuid) l = ReceiveCallReturn name uuid l"
| "lifecycle_input_step LI_SubscriptionsCompleted l = AsyncSubscriptionsCompleted l"
| "lifecycle_input_step (LI_RemoteReceivers names) l = l\<lparr>lc_remoteReceivers := names\<rparr>"
| "lifecycle_input_step LI_PendingSubscriptions l = l\<lparr>lc_hasPendingAsyncSubscriptions := True\<rparr>"
| "lifecycle_input_step (LI_Setting s) l = lifecycle_setting_step s l"

end
