(* ===== verification/LifecycleSystem.thy ===== *)
theory LifecycleSystem
  imports Lifecycle
begin

text \<open>
  Runs of the life cycle of one participant and what holds in all of them: the state changes that
  can occur, the agreement of the published status with the state, the order of a coordinated start,
  and what start, stop and abort lead to.
\<close>

section \<open>Runs\<close>

text \<open>
  The I/O thread takes its steps; the user calls the service at any time; everything else is handled
  while no task runs. The list holds the tasks that were executed.
\<close>

inductive lc_step :: "lifecycle \<Rightarrow> lifecycle_task list \<Rightarrow> lifecycle \<Rightarrow> bool" where
  step_exec: "lc_stack l = t # ts \<Longrightarrow> lc_step l [t] (exec sr t (l\<lparr>lc_stack := ts\<rparr>))"
| step_take: "lc_stack l = [] \<Longrightarrow> lc_queue l = t # q \<Longrightarrow> lc_step l [] (l\<lparr>lc_stack := [t], lc_queue := q\<rparr>)"
| step_call: "lc_step l [] (lifecycle_call_step c l)"
| step_input: "lc_stack l = [] \<Longrightarrow> lc_step l [] (lifecycle_input_step i l)"

inductive lc_run :: "lifecycle \<Rightarrow> lifecycle_task list \<Rightarrow> lifecycle \<Rightarrow> bool" where
  run_init: "lc_run l [] l"
| run_step: "lc_run l ts l1 \<Longrightarrow> lc_step l1 us l2 \<Longrightarrow> lc_run l (ts @ us) l2"

definition lc_init :: "string \<Rightarrow> operation_mode \<Rightarrow> lifecycle" where
  "lc_init name mode = SetLifecycleConfiguration mode (LifecycleService_new name)"

inductive_cases lc_stepE: "lc_step l ts l'"

section \<open>Effects on the tasks and on the state\<close>

text \<open>All tasks that are still to be executed.\<close>

definition tasks_of :: "lifecycle \<Rightarrow> lifecycle_task set" where
  "tasks_of l = set (lc_stack l) \<union> set (lc_queue l) \<union> set (lc_subscriptionHandlers l)
     \<union> set_option (pr_completionFunction (lc_replies l))"

definition all_tasks :: "(lifecycle_task \<Rightarrow> bool) \<Rightarrow> lifecycle \<Rightarrow> bool" where
  "all_tasks P l \<longleftrightarrow> (\<forall>t \<in> tasks_of l. P t)"

lemma all_tasks_simps [simp]:
  "all_tasks P (push ts l) \<longleftrightarrow> (\<forall>t \<in> set ts. P t) \<and> all_tasks P l"
  "all_tasks P (ExecuteDeferred t l) \<longleftrightarrow> P t \<and> all_tasks P l"
  "all_tasks P (emits ev l) = all_tasks P l"
  "all_tasks P (l\<lparr>lc_status := x1\<rparr>) = all_tasks P l"
  "all_tasks P (l\<lparr>lc_currentState := x2\<rparr>) = all_tasks P l"
  "all_tasks P (l\<lparr>lc_lastBeforeAbortingState := x3\<rparr>) = all_tasks P l"
  "all_tasks P (l\<lparr>lc_abortRequested := x4\<rparr>) = all_tasks P l"
  "all_tasks P (l\<lparr>lc_handlerExecuting := x5\<rparr>) = all_tasks P l"
  "all_tasks P (l\<lparr>lc_pauseRequested := x6\<rparr>) = all_tasks P l"
  "all_tasks P (l\<lparr>lc_stopRequested := x6\<rparr>) = all_tasks P l"
  "all_tasks P (l\<lparr>lc_commReadyHandlerInvoked := x7\<rparr>) = all_tasks P l"
  "all_tasks P (l\<lparr>lc_commReadyHandlerCompleted := x7\<rparr>) = all_tasks P l"
  "all_tasks P (l\<lparr>lc_abortedBeforeLifecycleStart := x7\<rparr>) = all_tasks P l"
  "all_tasks P (l\<lparr>lc_isLifecycleStarted := x7\<rparr>) = all_tasks P l"
  "all_tasks P (l\<lparr>lc_finalState := x8\<rparr>) = all_tasks P l"
  "all_tasks P (l\<lparr>lc_finalStateFuture := x7\<rparr>) = all_tasks P l"
  "all_tasks P (l\<lparr>lc_requiredParticipantNames := x9\<rparr>) = all_tasks P l"
  "all_tasks P (l\<lparr>lc_remoteReceivers := x9\<rparr>) = all_tasks P l"
  "all_tasks P (l\<lparr>lc_hasPendingAsyncSubscriptions := x7\<rparr>) = all_tasks P l"
  "all_tasks P (l\<lparr>lc_monitor := m\<rparr>) = all_tasks P l"
  "all_tasks P (l\<lparr>lc_stateHandlerIds := ids\<rparr>) = all_tasks P l"
  "all_tasks P (l\<lparr>lc_statusHandlerIds := ids\<rparr>) = all_tasks P l"
  "all_tasks P (l\<lparr>lc_commReadyHandler := h\<rparr>) = all_tasks P l"
  "all_tasks P (l\<lparr>lc_commReadyHandlerIsAsync := x7\<rparr>) = all_tasks P l"
  "all_tasks P (l\<lparr>lc_startingHandler := h\<rparr>) = all_tasks P l"
  "all_tasks P (l\<lparr>lc_stopHandler := h\<rparr>) = all_tasks P l"
  "all_tasks P (l\<lparr>lc_shutdownHandler := h\<rparr>) = all_tasks P l"
  "all_tasks P (l\<lparr>lc_abortHandler := h\<rparr>) = all_tasks P l"
  "all_tasks P (l\<lparr>lc_timeSyncActive := x7\<rparr>) = all_tasks P l"
  "all_tasks P (l\<lparr>lc_timeSyncBlocking := x7\<rparr>) = all_tasks P l"
  "all_tasks P (l\<lparr>lc_replies := (lc_replies l)\<lparr>pr_barrierActive := x7\<rparr>\<rparr>) = all_tasks P l"
  "all_tasks P (l\<lparr>lc_replies := (lc_replies l)\<lparr>pr_expectedParticipantsToSendCallReturns := x9\<rparr>\<rparr>) = all_tasks P l"
  by (auto simp: all_tasks_def tasks_of_def push_def ExecuteDeferred_def emits_def)

named_theorems lifecycle_defs

lemmas [lifecycle_defs] = call_state_def InvalidState_def ServicesCreatedState_def CommunicationInitializingState_def
  CommunicationInitializedState_def ReadyToRunState_def RunningState_def PausedState_def StoppingState_def
  StoppedState_def ShuttingDownState_def ShutdownState_def AbortingState_def ErrorState_def BaseState_def
  InvalidStateTransition_def ProcessAbortCommand_def ProcessAbortCommandInCallback_def SetState_def
  SetStateAndForwardIntent_def UpdateParticipantState_def ChangeParticipantState_def UpdateLifecycleState_def
  CallAfterAllParticipantsReplied_def AddAsyncSubscriptionsCompletionHandler_def begin_handler_def Let_def

text \<open>The user's calls change neither the state nor the status.\<close>

definition identity :: "lifecycle \<Rightarrow> lifecycle_state \<times> ParticipantStatus \<times> operation_mode \<times> string \<times> lifecycle_state option" where
  "identity l = (lc_currentState l, lc_status l, lc_operationMode l, lc_participantName l, lc_lastBeforeAbortingState l)"

lemma identity_fields [simp]:
  "identity (l\<lparr>lc_isLifecycleStarted := x3\<rparr>) = identity l"
  "identity (l\<lparr>lc_abortedBeforeLifecycleStart := x4\<rparr>) = identity l"
  "identity (l\<lparr>lc_timeSyncActive := x5\<rparr>) = identity l"
  "identity (l\<lparr>lc_timeSyncBlocking := x6\<rparr>) = identity l"
  "identity (l\<lparr>lc_finalState := x7\<rparr>) = identity l"
  "identity (l\<lparr>lc_finalStateFuture := x8\<rparr>) = identity l"
  "identity (l\<lparr>lc_commReadyHandler := x9\<rparr>) = identity l"
  "identity (l\<lparr>lc_commReadyHandlerIsAsync := x10\<rparr>) = identity l"
  "identity (l\<lparr>lc_commReadyHandlerInvoked := x11\<rparr>) = identity l"
  "identity (l\<lparr>lc_commReadyHandlerCompleted := x12\<rparr>) = identity l"
  "identity (l\<lparr>lc_startingHandler := x13\<rparr>) = identity l"
  "identity (l\<lparr>lc_stopHandler := x14\<rparr>) = identity l"
  "identity (l\<lparr>lc_shutdownHandler := x15\<rparr>) = identity l"
  "identity (l\<lparr>lc_abortHandler := x16\<rparr>) = identity l"
  "identity (l\<lparr>lc_requiredParticipantNames := x17\<rparr>) = identity l"
  "identity (l\<lparr>lc_stopRequested := x18\<rparr>) = identity l"
  "identity (l\<lparr>lc_pauseRequested := x19\<rparr>) = identity l"
  "identity (l\<lparr>lc_abortRequested := x22\<rparr>) = identity l"
  "identity (l\<lparr>lc_handlerExecuting := x23\<rparr>) = identity l"
  "identity (l\<lparr>lc_replies := x24\<rparr>) = identity l"
  "identity (l\<lparr>lc_remoteReceivers := x25\<rparr>) = identity l"
  "identity (l\<lparr>lc_hasPendingAsyncSubscriptions := x26\<rparr>) = identity l"
  "identity (l\<lparr>lc_subscriptionHandlers := x27\<rparr>) = identity l"
  "identity (l\<lparr>lc_monitor := x28\<rparr>) = identity l"
  "identity (l\<lparr>lc_stateHandlerIds := x29\<rparr>) = identity l"
  "identity (l\<lparr>lc_statusHandlerIds := x30\<rparr>) = identity l"
  "identity (l\<lparr>lc_stack := x31\<rparr>) = identity l"
  "identity (l\<lparr>lc_queue := x32\<rparr>) = identity l"
  "identity (l\<lparr>lc_log := x33\<rparr>) = identity l"
  by (simp_all add: identity_def)

lemma identity_simps [simp]:
  "identity (push ts l) = identity l" "identity (ExecuteDeferred t l) = identity l" "identity (emits ev l) = identity l"
  "identity (throw e l) = identity l" "identity (abort_during_handler l) = identity l" "identity (begin_handler l) = identity l"
  by (auto simp: push_def ExecuteDeferred_def emits_def throw_def abort_during_handler_def begin_handler_def)

lemma identity_call [simp]: "identity (lifecycle_call_step c l) = identity l"
  by (cases c) (auto simp: identity_def ExecuteDeferred_def emits_def lc_ReportError_def lc_Pause_def
      lc_Continue_def lc_Stop_def CompleteCommunicationReadyHandlerAsync_def lc_AbortSimulation_def)

lemma identity_calls [simp]: "identity (fold lifecycle_call_step cs l) = identity l"
  by (induction cs arbitrary: l) simp_all

lemma identity_run_handler [simp]: "identity (fst (run_handler k h l)) = identity l"
  by (simp add: run_handler_def Let_def)

lemma identity_trigger [simp]: "identity (fst (trigger k h l)) = identity l"
  by (simp add: trigger_def split: option.splits)

lemma identity_handled [simp]: "identity (fst (handled r)) = identity (fst r)"
  by (simp add: handled_def split: prod.splits)

lemma identity_HandleCommunicationReady [simp]: "identity (fst (HandleCommunicationReady l)) = identity l"
proof -
  have "identity (fst (TriggerCommunicationReadyHandler l)) = identity l"
    by (simp add: TriggerCommunicationReadyHandler_def case_prod_beta split: option.splits)
  then show ?thesis
    by (auto simp: HandleCommunicationReady_def split: prod.splits option.splits)
qed

lemma identity_current: "identity l = identity l' \<Longrightarrow> lc_currentState l = lc_currentState l'"
  "identity l = identity l' \<Longrightarrow> lc_status l = lc_status l'"
  "identity l = identity l' \<Longrightarrow> lc_operationMode l = lc_operationMode l'"
  "identity l = identity l' \<Longrightarrow> lc_participantName l = lc_participantName l'"
  "identity l = identity l' \<Longrightarrow> lc_lastBeforeAbortingState l = lc_lastBeforeAbortingState l'"
  by (simp_all add: identity_def)

section \<open>State changes\<close>

text \<open>A change of the state: the new status is published under the new state.\<close>

definition moves :: "surroundings \<Rightarrow> lifecycle_state \<Rightarrow> lifecycle \<Rightarrow> lifecycle \<Rightarrow> bool" where
  "moves sr s l l' \<longleftrightarrow> lc_currentState l' = s \<and> State l' = GetParticipantState s
     \<and> pst_participantName (lc_status l') = lc_participantName l \<and> lc_operationMode l' = lc_operationMode l
     \<and> lc_participantName l' = lc_participantName l
     \<and> (lc_lastBeforeAbortingState l \<noteq> None \<or> s = L_Aborting \<longrightarrow> lc_lastBeforeAbortingState l' \<noteq> None)"

lemma moves_SetState [simp]: "identity l1 = identity l \<Longrightarrow> moves sr s l (SetState sr s reason l1)"
  by (auto simp: moves_def lifecycle_defs identity_def ExecuteDeferred_def State_def)

lemma moves_SetStateAndForwardIntent [simp]:
  "identity l1 = identity l \<Longrightarrow> moves sr s l (SetStateAndForwardIntent sr s op reason l1)"
  by (auto simp: moves_def lifecycle_defs identity_def ExecuteDeferred_def push_def State_def)

lemma moves_ProcessAbortCommand [simp]:
  "identity l1 = identity l \<Longrightarrow> moves sr L_Aborting l (ProcessAbortCommand sr reason l1)"
  "identity l1 = identity l \<Longrightarrow> moves sr L_Aborting l (ProcessAbortCommandInCallback sr l1)"
  by (simp_all add: ProcessAbortCommandInCallback_def ProcessAbortCommand_def)

text \<open>The state changes a method of a state object can cause.\<close>

fun successors :: "lifecycle_state \<Rightarrow> lifecycle_state list" where
  "successors L_Invalid = [L_ServicesCreated, L_Aborting, L_Error]"
| "successors L_ServicesCreated = [L_Aborting, L_Error]"
| "successors L_CommunicationInitializing = [L_Aborting, L_Error]"
| "successors L_CommunicationInitialized = [L_ReadyToRun, L_Aborting, L_Error]"
| "successors L_ReadyToRun = [L_Running, L_Aborting, L_Error]"
| "successors L_Running = [L_Paused, L_Stopping, L_Aborting, L_Error]"
| "successors L_Paused = [L_Running, L_Stopping, L_Aborting, L_Error]"
| "successors L_Stopping = [L_Stopped, L_Aborting, L_Error]"
| "successors L_Stopped = [L_ShuttingDown, L_Aborting, L_Error]"
| "successors L_ShuttingDown = [L_Shutdown, L_Error]"
| "successors L_Shutdown = []"
| "successors L_Aborting = [L_Shutdown, L_Error]"
| "successors L_Error = [L_ShuttingDown, L_Aborting]"

definition settles :: "surroundings \<Rightarrow> lifecycle \<Rightarrow> lifecycle \<Rightarrow> bool" where
  "settles sr l l' \<longleftrightarrow> identity l' = identity l \<or> (\<exists>s \<in> set (successors (lc_currentState l)). moves sr s l l')"

lemma settles_same [simp]: "identity l' = identity l \<Longrightarrow> settles sr l l'"
  by (simp add: settles_def)

lemma settles_moves [simp]:
  "identity l1 = identity l \<Longrightarrow> s \<in> set (successors (lc_currentState l)) \<Longrightarrow> settles sr l (SetState sr s reason l1)"
  "identity l1 = identity l \<Longrightarrow> s \<in> set (successors (lc_currentState l)) \<Longrightarrow>
     settles sr l (SetStateAndForwardIntent sr s op reason l1)"
  "identity l1 = identity l \<Longrightarrow> L_Aborting \<in> set (successors (lc_currentState l)) \<Longrightarrow>
     settles sr l (ProcessAbortCommand sr reason l1)"
  "identity l1 = identity l \<Longrightarrow> L_Aborting \<in> set (successors (lc_currentState l)) \<Longrightarrow>
     settles sr l (ProcessAbortCommandInCallback sr l1)"
  unfolding settles_def by (blast intro: moves_SetState moves_SetStateAndForwardIntent moves_ProcessAbortCommand)+

lemma settles_InvalidStateTransition [simp]: "settles sr l (InvalidStateTransition op b reason l)"
  by (simp add: InvalidStateTransition_def Let_def)

lemma settles_BaseState:
  "op \<noteq> O_Error \<or> L_Error \<in> set (successors (lc_currentState l)) \<Longrightarrow> settles sr l (BaseState sr op reason l)"
  by (cases op) (auto simp: BaseState_def)

lemma identity_barriers [simp]:
  "identity (CallAfterAllParticipantsReplied f l) = identity l"
  "identity (AddAsyncSubscriptionsCompletionHandler f l) = identity l"
  by (simp_all add: CallAfterAllParticipantsReplied_def AddAsyncSubscriptionsCompletionHandler_def)

lemma identity_handled_trigger: "handled (trigger k h l) = (l1, b) \<Longrightarrow> identity l1 = identity l"
  using identity_handled [of "trigger k h l"] by simp

lemma identity_Handle:
  "HandleCommunicationReady l = (l1, r) \<Longrightarrow> identity l1 = identity l"
  "HandleStarting l = (l1, b) \<Longrightarrow> identity l1 = identity l"
  "HandleStop l = (l1, b) \<Longrightarrow> identity l1 = identity l"
  "HandleShutdown l = (l1, b) \<Longrightarrow> identity l1 = identity l"
  "HandleAbort l = Inr (l1, b) \<Longrightarrow> identity l1 = identity l"
  using identity_HandleCommunicationReady [of l]
  by (auto simp: HandleStarting_def HandleStop_def HandleShutdown_def HandleAbort_def
      dest: identity_handled_trigger split: option.splits)

lemma settles_InvalidState: "lc_currentState l = L_Invalid \<Longrightarrow> settles sr l (InvalidState sr op reason l)"
  by (cases op) (auto simp: InvalidState_def settles_BaseState Let_def)

lemma settles_ServicesCreatedState: "lc_currentState l = L_ServicesCreated \<Longrightarrow> settles sr l (ServicesCreatedState sr op reason l)"
  by (cases op) (auto simp: ServicesCreatedState_def settles_BaseState Let_def)

lemma settles_CommunicationInitializingState: "lc_currentState l = L_CommunicationInitializing \<Longrightarrow> settles sr l (CommunicationInitializingState sr op reason l)"
  by (cases op) (auto simp: CommunicationInitializingState_def settles_BaseState Let_def)

lemma settles_CommunicationInitializedState: "lc_currentState l = L_CommunicationInitialized \<Longrightarrow> settles sr l (CommunicationInitializedState sr op reason l)"
  by (cases op) (auto simp: CommunicationInitializedState_def settles_BaseState Let_def
      dest!: identity_Handle split: prod.splits callback_result.splits sum.splits)

lemma settles_ReadyToRunState: "lc_currentState l = L_ReadyToRun \<Longrightarrow> settles sr l (ReadyToRunState sr op reason l)"
  by (cases op) (auto simp: ReadyToRunState_def settles_BaseState Let_def
      dest!: identity_Handle split: prod.splits callback_result.splits sum.splits)

lemma settles_RunningState: "lc_currentState l = L_Running \<Longrightarrow> settles sr l (RunningState sr op reason l)"
  by (cases op) (auto simp: RunningState_def settles_BaseState Let_def)

lemma settles_PausedState: "lc_currentState l = L_Paused \<Longrightarrow> settles sr l (PausedState sr op reason l)"
  by (cases op) (auto simp: PausedState_def settles_BaseState Let_def)

lemma settles_StoppingState: "lc_currentState l = L_Stopping \<Longrightarrow> settles sr l (StoppingState sr op reason l)"
  by (cases op) (auto simp: StoppingState_def settles_BaseState Let_def
      dest!: identity_Handle split: prod.splits callback_result.splits sum.splits)

lemma settles_StoppedState: "lc_currentState l = L_Stopped \<Longrightarrow> settles sr l (StoppedState sr op reason l)"
  by (cases op) (auto simp: StoppedState_def settles_BaseState Let_def)

lemma settles_ShuttingDownState: "lc_currentState l = L_ShuttingDown \<Longrightarrow> settles sr l (ShuttingDownState sr op reason l)"
  by (cases op) (auto simp: ShuttingDownState_def settles_BaseState Let_def
      dest!: identity_Handle split: prod.splits callback_result.splits sum.splits)

lemma settles_ShutdownState: "lc_currentState l = L_Shutdown \<Longrightarrow> settles sr l (ShutdownState sr op reason l)"
  by (cases op) (auto simp: ShutdownState_def settles_BaseState Let_def)

lemma settles_AbortingState: "lc_currentState l = L_Aborting \<Longrightarrow> settles sr l (AbortingState sr op reason l)"
  by (cases op) (auto simp: AbortingState_def settles_BaseState Let_def
      dest!: identity_Handle split: prod.splits callback_result.splits sum.splits)

lemma settles_ErrorState: "lc_currentState l = L_Error \<Longrightarrow> settles sr l (ErrorState sr op reason l)"
  by (cases op) (auto simp: ErrorState_def settles_BaseState Let_def)

lemma call_state_settles: "settles sr l (call_state sr op reason l)"
  by (cases "lc_currentState l") (simp_all add: call_state_def settles_InvalidState settles_ServicesCreatedState settles_CommunicationInitializingState settles_CommunicationInitializedState settles_ReadyToRunState settles_RunningState settles_PausedState settles_StoppingState settles_StoppedState settles_ShuttingDownState settles_ShutdownState settles_AbortingState settles_ErrorState)

lemma identity_emits_all [simp]: "identity (fold (\<lambda>ev. emits (f ev)) evs l) = identity l"
  by (induction evs arbitrary: l) simp_all

lemma identity_after_monitor [simp]: "identity (after_monitor out l) = identity l"
  by (auto simp: after_monitor_def Let_def split: prod.splits option.splits)

lemma identity_service [simp]:
  "identity (FinishShutdown reason l) = identity l" "identity (RequestReplies sr f l) = identity l"
  "identity (NewSystemState s l) = identity l" "identity (NewParticipantStatus st l) = identity l"
  "identity (SetWorkflowConfiguration wc l) = identity l" "identity (DistributeStatus st l) = identity l"
  "identity (StartLifecycle_rest l) = identity l" "identity (ReportError_deferred msg l) = identity l"
  "identity (Pause_deferred reason l) = identity l" "identity (Continue_deferred l) = identity l"
  "identity (lm_AbortSimulation reason l) = identity l"
  by (auto simp: FinishShutdown_def SetFinalStatePromise_def RequestReplies_def NewSystemState_def NewParticipantStatus_def
      SetWorkflowConfiguration_def CheckForValidConfiguration_def DistributeStatus_def StartLifecycle_rest_def
      ReportError_deferred_def Pause_deferred_def Continue_deferred_def lm_AbortSimulation_def lc_ReportError_def Let_def
      split: option.splits operation_mode.splits system_state.splits)

lemma identity_input [simp]: "identity (lifecycle_input_step i l) = identity l"
proof (cases i)
  case LI_StartLifecycle
  then show ?thesis
    by (auto simp: StartLifecycle_def CheckForValidConfiguration_def Let_def lc_ReportError_def split: prod.splits if_splits)
next
  case (LI_Setting setting)
  then show ?thesis
    by (cases setting) (auto simp: SetCommunicationReadyHandler_def SetCommunicationReadyHandlerAsync_def SetStartingHandler_def
        SetStopHandler_def SetShutdownHandler_def SetAbortHandler_def CreateTimeSyncService_def)
qed (auto simp: ReceiveSystemCommand_def lc_AbortSimulation_def lc_ReportError_def ReceiveCallReturn_def
    AsyncSubscriptionsCompleted_def Let_def split: system_command_kind.splits)

text \<open>Only two kinds of tasks change the state.\<close>

lemma exec_settles:
  "(\<And>s op reason. t \<noteq> T_SetStateAndForwardIntent s op reason) \<Longrightarrow> settles sr l (exec sr t l)"
  by (cases t) (auto simp: call_state_settles)

section \<open>Invariants of the pending tasks\<close>

text \<open>
  A predicate that holds of every task the life cycle generates by itself. Whether it holds of the
  call of \<^verbatim>\<open>ReadyToRun\<close> is left open: \<open>calm\<close> says that a task does not generate it.
\<close>

definition calm :: "lifecycle \<Rightarrow> lifecycle_task \<Rightarrow> bool" where
  "calm l t \<longleftrightarrow> lc_operationMode l \<noteq> OM_Autonomous \<and> t \<noteq> T_NewSystemState SS_ReadyToRun
     \<and> (\<forall>reason. t \<noteq> T_Call O_ReadyToRun reason)"

locale pending_tasks =
  fixes P :: "lifecycle_task \<Rightarrow> bool"
  assumes P_Call: "op \<noteq> O_ReadyToRun \<Longrightarrow> P (T_Call op reason)"
    and P_communication: "P (T_SetStateAndForwardIntent L_CommunicationInitializing O_ServicesCreated reason)"
      "P (T_SetStateAndForwardIntent L_CommunicationInitialized O_CommunicationInitializing reason)"
    and P_forward: "P (T_SetStateAndForwardIntent s op reason) \<Longrightarrow> P (T_Call op reason)"
    and P_Replies: "P (T_Replies t) \<longleftrightarrow> P t"
    and P_other: "P (T_FinishShutdown reason)" "P (T_HandlerDone s)" "P T_BarrierDone" "P T_SubscriptionsDone"
      "P (T_AbortSimulation reason)" "P T_WarnIfError" "P T_AbortedBeforeStart" "P T_StartLifecycle"
      "P (T_ReportError reason)" "P (T_Pause reason)" "P T_Continue" "P T_RequestNextStep" "P (T_SendStatus st)"
      "P (T_NewSystemState ss)" "P (T_NewParticipantStatus st)" "P (T_SetWorkflowConfiguration wc)"
begin

lemmas P_rules = P_Call P_communication P_Replies P_other

lemma call_keeps: "all_tasks P l \<Longrightarrow> all_tasks P (lifecycle_call_step c l)"
  by (cases c) (auto simp: lc_ReportError_def lc_Pause_def lc_Continue_def lc_Stop_def
      CompleteCommunicationReadyHandlerAsync_def lc_AbortSimulation_def P_rules)

lemma calls_keep: "all_tasks P l \<Longrightarrow> all_tasks P (fold lifecycle_call_step cs l)"
  by (induction cs arbitrary: l) (simp_all add: call_keeps)

lemma run_handler_keeps: "all_tasks P l \<Longrightarrow> all_tasks P (fst (run_handler k h l))"
  by (simp add: run_handler_def abort_during_handler_def Let_def calls_keep)

lemma handled_keeps: "all_tasks P l \<Longrightarrow> handled (trigger k h l) = (l1, b) \<Longrightarrow> all_tasks P l1"
  using run_handler_keeps [of l]
  by (auto simp: handled_def trigger_def split: prod.splits if_splits option.splits) (metis fst_conv)+

lemma comm_ready_keeps: "all_tasks P l \<Longrightarrow> HandleCommunicationReady l = (l1, r) \<Longrightarrow> all_tasks P l1"
proof -
  assume a: "all_tasks P l" "HandleCommunicationReady l = (l1, r)"
  have "all_tasks P (fst (TriggerCommunicationReadyHandler l))"
    using a(1) by (simp add: TriggerCommunicationReadyHandler_def case_prod_beta run_handler_keeps split: option.splits)
  with a(2) show ?thesis
    by (auto simp: HandleCommunicationReady_def split: prod.splits option.splits)
qed

lemma handle_keeps:
  "all_tasks P l \<Longrightarrow> HandleStarting l = (l1, b) \<Longrightarrow> all_tasks P l1"
  "all_tasks P l \<Longrightarrow> HandleStop l = (l1, b) \<Longrightarrow> all_tasks P l1"
  "all_tasks P l \<Longrightarrow> HandleShutdown l = (l1, b) \<Longrightarrow> all_tasks P l1"
  "all_tasks P l \<Longrightarrow> HandleAbort l = Inr (l1, b) \<Longrightarrow> all_tasks P l1"
  by (auto simp: HandleStarting_def HandleStop_def HandleShutdown_def HandleAbort_def
      dest: handled_keeps split: option.splits)

lemma throw_keeps: "all_tasks P l \<Longrightarrow> all_tasks P (throw e l)"
  by (auto simp: throw_def all_tasks_def tasks_of_def emits_def)

lemma state_keeps:
  "all_tasks P l \<Longrightarrow> all_tasks P (SetState sr s reason l)"
  "all_tasks P l \<Longrightarrow> P (T_Call op reason) \<Longrightarrow> all_tasks P (SetStateAndForwardIntent sr s op reason l)"
  "all_tasks P l \<Longrightarrow> all_tasks P (ProcessAbortCommand sr reason l)"
  "all_tasks P l \<Longrightarrow> all_tasks P (ProcessAbortCommandInCallback sr l)"
  "all_tasks P l \<Longrightarrow> all_tasks P (InvalidStateTransition op2 b reason l)"
  by (auto simp: lifecycle_defs P_rules)

lemma base_keeps: "all_tasks P l \<Longrightarrow> all_tasks P (BaseState sr op reason l)"
  by (cases op) (simp_all add: BaseState_def state_keeps)

lemma subscription_keeps: "all_tasks P l \<Longrightarrow> P t \<Longrightarrow> all_tasks P (AddAsyncSubscriptionsCompletionHandler t l)"
  by (auto simp: AddAsyncSubscriptionsCompletionHandler_def all_tasks_def tasks_of_def push_def)

lemma begin_handler_keeps: "all_tasks P (begin_handler l) = all_tasks P l"
  by (simp add: begin_handler_def)

lemmas keeps_rules = state_keeps base_keeps subscription_keeps throw_keeps P_rules CallAfterAllParticipantsReplied_def
  begin_handler_keeps

lemma call_state_keeps:
  assumes "all_tasks P l" "(\<forall>reason. P (T_Call O_ReadyToRun reason)) \<or> calm l (T_Call op reason)"
  shows "all_tasks P (call_state sr op reason l)"
proof (cases "lc_currentState l")
  case L_CommunicationInitialized
  with assms show ?thesis
    by (cases op) (auto simp: call_state_def CommunicationInitializedState_def Let_def keeps_rules calm_def
        dest: comm_ready_keeps [rotated] split: prod.splits callback_result.splits)
next
  case L_ReadyToRun
  with assms show ?thesis
    by (cases op) (auto simp: call_state_def ReadyToRunState_def Let_def keeps_rules calm_def
        dest: handle_keeps [rotated] split: prod.splits)
next
  case L_Stopping
  with assms show ?thesis
    by (cases op) (auto simp: call_state_def StoppingState_def Let_def keeps_rules
        dest: handle_keeps [rotated] split: prod.splits)
next
  case L_ShuttingDown
  with assms show ?thesis
    by (cases op) (auto simp: call_state_def ShuttingDownState_def Let_def keeps_rules
        dest: handle_keeps [rotated] split: prod.splits)
next
  case L_Aborting
  with assms show ?thesis
    by (cases op) (auto simp: call_state_def AbortingState_def Let_def keeps_rules
        dest: handle_keeps [rotated] split: prod.splits sum.splits)
qed (use assms in \<open>(cases op; simp add: call_state_def InvalidState_def ServicesCreatedState_def
      CommunicationInitializingState_def RunningState_def PausedState_def StoppedState_def ShutdownState_def
      ErrorState_def keeps_rules)\<close>)+

lemma monitor_tasks: "monitor_event_task states statuses ev = Some t \<Longrightarrow> P t"
  by (cases ev) (auto simp: P_rules split: if_splits)

lemma emits_all_keep: "all_tasks P (fold (\<lambda>ev. emits (f ev)) evs l) = all_tasks P l"
  by (induction evs arbitrary: l) simp_all

lemma after_monitor_keeps: "all_tasks P l \<Longrightarrow> all_tasks P (after_monitor out l)"
  by (auto simp: after_monitor_def Let_def emits_all_keep List.map_filter_def intro: monitor_tasks
      split: prod.splits option.splits)

lemma configuration_keeps: "all_tasks P l \<Longrightarrow> CheckForValidConfiguration l = (l1, b) \<Longrightarrow> all_tasks P l1"
  by (auto simp: CheckForValidConfiguration_def lc_ReportError_def P_rules split: if_splits)

lemma replies_keep:
  "all_tasks P l \<Longrightarrow> P f \<Longrightarrow> all_tasks P (RequestReplies sr f l)"
  "all_tasks P l \<Longrightarrow> all_tasks P (ReceiveCallReturn name uuid l)"
  "all_tasks P l \<Longrightarrow> all_tasks P (AsyncSubscriptionsCompleted l)"
  by (auto simp: RequestReplies_def ReceiveCallReturn_def AsyncSubscriptionsCompleted_def Let_def all_tasks_def tasks_of_def
      push_def emits_def P_rules split: option.splits)

lemma exec_keeps:
  assumes "all_tasks P l" "P t" "(\<forall>reason. P (T_Call O_ReadyToRun reason)) \<or> calm l t"
  shows "all_tasks P (exec sr t l)"
proof (cases t)
  case (T_Call op reason)
  with assms call_state_keeps show ?thesis by simp
next
  case (T_SetStateAndForwardIntent s op reason)
  with assms show ?thesis by (simp add: state_keeps P_forward)
next
  case (T_Replies f)
  with assms show ?thesis by (simp add: replies_keep P_Replies)
next
  case T_SubscriptionsDone
  with assms show ?thesis by (auto simp: all_tasks_def tasks_of_def)
next
  case (T_SendStatus st)
  with assms show ?thesis by (simp add: DistributeStatus_def Let_def after_monitor_keeps)
next
  case (T_NewSystemState ss)
  with assms show ?thesis
    by (auto simp: NewSystemState_def Let_def calm_def P_rules split: operation_mode.splits system_state.splits)
next
  case (T_SetWorkflowConfiguration wc)
  with assms show ?thesis
    using configuration_keeps [OF _ surjective_pairing] by (simp add: SetWorkflowConfiguration_def Let_def)
qed (use assms in \<open>auto simp: FinishShutdown_def SetFinalStatePromise_def NewParticipantStatus_def StartLifecycle_rest_def
      ReportError_deferred_def Pause_deferred_def Continue_deferred_def lm_AbortSimulation_def lc_ReportError_def Let_def
      P_rules intro!: throw_keeps split: option.splits operation_mode.splits\<close>)

lemma input_keeps:
  assumes "all_tasks P l"
  shows "all_tasks P (lifecycle_input_step i l)"
proof (cases i)
  case LI_StartLifecycle
  with assms show ?thesis
    by (auto simp: StartLifecycle_def Let_def P_rules intro!: after_monitor_keeps
        dest: configuration_keeps [rotated] split: prod.splits if_splits)
next
  case (LI_SystemCommand kind)
  with assms show ?thesis
    by (auto simp: ReceiveSystemCommand_def lc_AbortSimulation_def lc_ReportError_def P_rules
        split: system_command_kind.splits)
next
  case (LI_Setting setting)
  with assms show ?thesis
    by (cases setting) (simp_all add: SetCommunicationReadyHandler_def SetCommunicationReadyHandlerAsync_def SetStartingHandler_def
        SetStopHandler_def SetShutdownHandler_def SetAbortHandler_def CreateTimeSyncService_def)
qed (use assms in \<open>simp_all add: after_monitor_keeps replies_keep\<close>)

lemma step_keeps:
  assumes "lc_step l ts l'" "all_tasks P l" "(\<forall>reason. P (T_Call O_ReadyToRun reason)) \<or> (\<forall>t \<in> set ts. calm l t)"
  shows "all_tasks P l'"
  using assms(1)
proof (cases rule: lc_step.cases)
  case (step_exec t rest sr)
  with assms(2) have "all_tasks P (l\<lparr>lc_stack := rest\<rparr>)" "P t"
    by (auto simp: all_tasks_def tasks_of_def)
  with step_exec assms(3) show ?thesis by (auto simp: calm_def intro!: exec_keeps)
next
  case (step_take t q)
  with assms(2) show ?thesis by (auto simp: all_tasks_def tasks_of_def)
next
  case (step_call c)
  with assms(2) show ?thesis by (simp add: call_keeps)
next
  case (step_input i)
  with assms(2) show ?thesis by (simp add: input_keeps)
qed

lemma init_tasks: "all_tasks P (lc_init name mode)"
  by (simp add: all_tasks_def tasks_of_def lc_init_def SetLifecycleConfiguration_def LifecycleService_new_def)

end

text \<open>The completion functions that set the state are those of the two communication states.\<close>

fun ok_task :: "lifecycle_task \<Rightarrow> bool" where
  "ok_task (T_SetStateAndForwardIntent s op reason) \<longleftrightarrow>
     s = L_CommunicationInitializing \<and> op = O_ServicesCreated \<or> s = L_CommunicationInitialized \<and> op = O_CommunicationInitializing"
| "ok_task (T_Replies t) = ok_task t"
| "ok_task _ = True"

interpretation okt: pending_tasks ok_task
  by unfold_locales auto

text \<open>No pending task starts the simulation.\<close>

fun not_ready_task :: "lifecycle_task \<Rightarrow> bool" where
  "not_ready_task (T_Call op reason) \<longleftrightarrow> op \<noteq> O_ReadyToRun"
| "not_ready_task (T_SetStateAndForwardIntent s op reason) \<longleftrightarrow> op \<noteq> O_ReadyToRun"
| "not_ready_task (T_Replies t) = not_ready_task t"
| "not_ready_task _ = True"

interpretation nrt: pending_tasks not_ready_task
  by unfold_locales auto

section \<open>Invariants of runs\<close>

lemma run_tasks: "lc_run l0 ts l \<Longrightarrow> l0 = lc_init name mode \<Longrightarrow> all_tasks ok_task l"
  by (induction rule: lc_run.induct) (auto intro: okt.init_tasks okt.step_keeps)

text \<open>What one step does to the state.\<close>

lemma step_state:
  assumes "lc_step l ts l'" "all_tasks ok_task l"
  shows "identity l' = identity l
    \<or> (\<exists>sr op reason. ts = [T_Call op reason] \<and> settles sr l l')
    \<or> (\<exists>sr s op reason. ts = [T_SetStateAndForwardIntent s op reason] \<and> ok_task (T_SetStateAndForwardIntent s op reason) \<and> moves sr s l l')"
  using assms(1)
proof (cases rule: lc_step.cases)
  case (step_exec t rest sr)
  let ?l = "l\<lparr>lc_stack := rest\<rparr>"
  have same: "settles sr ?l x = settles sr l x" "moves sr s ?l x = moves sr s l x" for x s
    by (simp_all add: settles_def moves_def)
  show ?thesis
  proof (cases "\<exists>s op reason. t = T_SetStateAndForwardIntent s op reason")
    case True
    then obtain s op reason where t: "t = T_SetStateAndForwardIntent s op reason" by blast
    with step_exec assms(2) have "ok_task t" by (simp add: all_tasks_def tasks_of_def)
    with t step_exec same(2) [of s l'] show ?thesis by fastforce
  next
    case False
    show ?thesis
    proof (cases "\<exists>op reason. t = T_Call op reason")
      case True
      with step_exec call_state_settles [of sr ?l] same(1) show ?thesis by fastforce
    next
      case False2: False
      with False step_exec show ?thesis by (cases t) auto
    qed
  qed
qed auto

text \<open>The published status is that of the state, and an abort always knows the state it interrupted.\<close>

definition lc_inv :: "lifecycle \<Rightarrow> bool" where
  "lc_inv l \<longleftrightarrow> State l = GetParticipantState (lc_currentState l)
     \<and> (lc_currentState l \<noteq> L_Invalid \<longrightarrow> pst_participantName (lc_status l) = lc_participantName l)
     \<and> (lc_currentState l = L_Aborting \<longrightarrow> lc_lastBeforeAbortingState l \<noteq> None)"

lemma lc_inv_moves: "moves sr s l l' \<Longrightarrow> lc_inv l'"
  by (auto simp: moves_def lc_inv_def)

lemma lc_inv_identity: "identity l' = identity l \<Longrightarrow> lc_inv l' = lc_inv l"
  by (simp add: lc_inv_def identity_def State_def)

lemma lc_inv_step: "lc_step l ts l' \<Longrightarrow> all_tasks ok_task l \<Longrightarrow> lc_inv l \<Longrightarrow> lc_inv l'"
  using step_state [of l ts l'] unfolding settles_def by (metis lc_inv_moves lc_inv_identity)

lemma lc_inv_run: "lc_run l0 ts l \<Longrightarrow> l0 = lc_init name mode \<Longrightarrow> lc_inv l"
proof (induction rule: lc_run.induct)
  case (run_init l)
  then show ?case
    by (simp add: lc_inv_def State_def lc_init_def SetLifecycleConfiguration_def LifecycleService_new_def ParticipantStatus_default_def)
next
  case (run_step l ts l1 us l2)
  then show ?case using lc_inv_step run_tasks by blast
qed

text \<open>Executable runs, for concrete inputs.\<close>

datatype lifecycle_act = Act_io nat | Act_input lifecycle_input | Act_call lifecycle_call

fun lc_act :: "surroundings \<Rightarrow> lifecycle_act \<Rightarrow> lifecycle \<Rightarrow> lifecycle" where
  "lc_act sr (Act_io n) l = (io_step sr ^^ n) l"
| "lc_act sr (Act_input i) l = (if lc_stack l = [] then lifecycle_input_step i l else l)"
| "lc_act sr (Act_call c) l = lifecycle_call_step c l"

lemma lc_run_trans: "lc_run l1 us l2 \<Longrightarrow> lc_run l0 ts l1 \<Longrightarrow> lc_run l0 (ts @ us) l2"
proof (induction rule: lc_run.induct)
  case (run_init l)
  then show ?case by simp
next
  case (run_step l ts' l1 us l2)
  from lc_run.run_step [OF run_step.IH [OF run_step.prems] run_step.hyps(2)] show ?case by simp
qed

lemma io_step_run: "\<exists>ts. lc_run l ts (io_step sr l)"
proof (cases "lc_stack l")
  case Nil
  show ?thesis
  proof (cases "lc_queue l")
    case Nil
    with \<open>lc_stack l = []\<close> show ?thesis by (auto simp: io_step_def intro: run_init)
  next
    case (Cons t q)
    with \<open>lc_stack l = []\<close> run_step [OF run_init step_take] show ?thesis by (fastforce simp: io_step_def)
  qed
next
  case (Cons t ts)
  with run_step [OF run_init step_exec, of l t ts sr] show ?thesis by (auto simp: io_step_def)
qed

lemma lc_act_run: "\<exists>ts. lc_run l ts (lc_act sr a l)"
proof (cases a)
  case (Act_io n)
  have "\<exists>ts. lc_run l ts ((io_step sr ^^ n) l)"
  proof (induction n)
    case 0
    then show ?case by (auto intro: run_init)
  next
    case (Suc n)
    with io_step_run lc_run_trans show ?case by (metis comp_apply funpow.simps(2))
  qed
  with Act_io show ?thesis by simp
next
  case (Act_input i)
  with run_step [OF run_init step_input, of l i] run_init show ?thesis by fastforce
next
  case (Act_call c)
  with run_step [OF run_init step_call, of l c] show ?thesis by fastforce
qed

lemma lc_acts_run: "\<exists>ts. lc_run l ts (fold (lc_act sr) as l)"
proof (induction "as" arbitrary: l)
  case Nil
  then show ?case by (auto intro: run_init)
next
  case (Cons a "as")
  with lc_act_run lc_run_trans show ?case by (metis fold_simps(2))
qed

definition example_surroundings :: surroundings where
  "example_surroundings = \<lparr>sr_now = 0, sr_uuid = \<lparr>uuid_ab = 1, uuid_cd = 2\<rparr>\<rparr>"

text \<open>Before the system is ready to run, a coordinated participant stays in the states of the start-up or fails.\<close>

definition early :: "lifecycle_state set" where
  "early = {L_Invalid, L_ServicesCreated, L_CommunicationInitializing, L_CommunicationInitialized, L_ReadyToRun,
     L_ShuttingDown, L_Shutdown, L_Aborting, L_Error}"

lemma successors_early: "s \<in> early \<Longrightarrow> s' \<in> set (successors s) \<Longrightarrow> s' \<noteq> L_Running \<Longrightarrow> s' \<in> early"
  by (cases s) (auto simp: early_def)

lemma ReadyToRun_waits:
  "lc_currentState l = L_ReadyToRun \<Longrightarrow> op \<noteq> O_ReadyToRun \<Longrightarrow> lc_currentState (call_state sr op reason l) \<noteq> L_Running"
  by (cases op) (auto simp: lifecycle_defs ReadyToRunState_def push_def ExecuteDeferred_def emits_def)

definition waiting :: "lifecycle \<Rightarrow> bool" where
  "waiting l \<longleftrightarrow> lc_operationMode l = OM_Coordinated \<and> lc_currentState l \<in> early \<and> all_tasks not_ready_task l"

lemma Running_successor: "s \<in> early \<Longrightarrow> L_Running \<in> set (successors s) \<Longrightarrow> s = L_ReadyToRun"
  by (cases s) (auto simp: early_def)

lemma waiting_state:
  assumes "lc_step l ts l'" "waiting l" "all_tasks ok_task l"
  shows "lc_currentState l' \<in> early \<and> lc_operationMode l' = OM_Coordinated"
  using assms(1)
proof (cases rule: lc_step.cases)
  case (step_exec t rest sr)
  let ?l = "l\<lparr>lc_stack := rest\<rparr>"
  have t: "ok_task t" "not_ready_task t" using step_exec assms by (auto simp: waiting_def all_tasks_def tasks_of_def)
  show ?thesis
  proof (cases "\<exists>s op reason. t = T_SetStateAndForwardIntent s op reason")
    case True
    then obtain s op reason where "t = T_SetStateAndForwardIntent s op reason" by blast
    with t step_exec moves_SetStateAndForwardIntent [OF refl, of sr s ?l op reason] assms(2)
    show ?thesis by (auto simp: moves_def early_def waiting_def)
  next
    case False
    with exec_settles [of t sr ?l] step_exec have "settles sr ?l l'" by simp
    moreover have "lc_currentState l' \<noteq> L_Running" if "lc_currentState l = L_ReadyToRun" "lc_currentState l' \<noteq> lc_currentState l"
    proof (cases "\<exists>op reason. t = T_Call op reason")
      case True
      with t that(1) step_exec ReadyToRun_waits [of ?l] show ?thesis by auto
    next
      case False2: False
      with False step_exec have "identity l' = identity ?l" by (cases t) auto
      with that(2) show ?thesis by (auto dest: identity_current(1))
    qed
    moreover from calculation have
      "lc_currentState l' = lc_currentState l \<or> lc_currentState l' \<in> set (successors (lc_currentState l))"
      "lc_operationMode l' = lc_operationMode l"
      by (auto simp: settles_def moves_def identity_def)
    ultimately show ?thesis
      using assms(2) successors_early Running_successor unfolding waiting_def
      by metis
  qed
next
  case (step_take t q)
  with assms(2) show ?thesis by (simp add: waiting_def)
next
  case (step_call c)
  with assms(2) identity_call [of c l] show ?thesis by (simp add: waiting_def identity_def)
next
  case (step_input i)
  with assms(2) identity_input [of i l] show ?thesis by (simp add: waiting_def identity_def)
qed

lemma waiting_step:
  assumes step: "lc_step l ts l'" and w: "waiting l" "all_tasks ok_task l" "T_NewSystemState SS_ReadyToRun \<notin> set ts"
  shows "waiting l'"
proof -
  have "\<forall>t \<in> set ts. calm l t"
    using step
  proof (cases rule: lc_step.cases)
    case (step_exec t rest sr)
    with w have "not_ready_task t" "t \<noteq> T_NewSystemState SS_ReadyToRun"
      by (auto simp: waiting_def all_tasks_def tasks_of_def)
    with step_exec w(1) show ?thesis by (auto simp: calm_def waiting_def)
  qed simp_all
  with nrt.step_keeps [OF step] w(1) waiting_state [OF step w(1,2)] show ?thesis by (simp add: waiting_def)
qed

lemma waiting_run: "lc_run l0 ts l \<Longrightarrow> l0 = lc_init name OM_Coordinated \<Longrightarrow>
    T_NewSystemState SS_ReadyToRun \<notin> set ts \<Longrightarrow> waiting l"
proof (induction rule: lc_run.induct)
  case (run_init l)
  then show ?case
    using nrt.init_tasks [of name OM_Coordinated]
    by (simp add: waiting_def early_def lc_init_def SetLifecycleConfiguration_def LifecycleService_new_def)
next
  case (run_step l ts l1 us l2)
  then show ?case using waiting_step run_tasks by auto
qed

section \<open>Properties\<close>


definition example_start :: lifecycle where
  "example_start = fold (lc_act example_surroundings) [Act_input LI_StartLifecycle, Act_io 3] (lc_init ''P'' OM_Autonomous)"

lemma example_start_facts:
  "lc_currentState example_start = L_Invalid"
  "lc_stack example_start = [T_Call O_Initialize ''LifecycleService::StartLifecycle was called.'']"
  by code_simp+


text \<open>
  C20: the status a participant has published is that of its state, under its own name, and
  whenever it is aborting it knows the state it came from, so the abort handler can be called.
\<close>

theorem lifecycle_status_agrees:
  assumes "lc_run (lc_init name mode) trace l"
  shows "State l = GetParticipantState (lc_currentState l)
    \<and> (lc_currentState l \<noteq> L_Invalid \<longrightarrow> pst_participantName (lc_status l) = lc_participantName l)
    \<and> (lc_currentState l = L_Aborting \<longrightarrow> (\<exists>r. HandleAbort l = Inr r))"
  using lc_inv_run [OF assms refl] by (auto simp: lc_inv_def HandleAbort_def)

theorem lifecycle_status_agrees_witness:
  "State (io_step example_surroundings example_start) = PS_ServicesCreated"
proof -
  let ?l = "fold (lc_act example_surroundings) [Act_input LI_StartLifecycle, Act_io 3, Act_io 1] (lc_init ''P'' OM_Autonomous)"
  have eq: "?l = io_step example_surroundings example_start" by (simp add: example_start_def)
  obtain ts where run: "lc_run (lc_init ''P'' OM_Autonomous) ts ?l" using lc_acts_run by blast
  have "lc_currentState (io_step example_surroundings example_start) = L_ServicesCreated" by code_simp
  with lifecycle_status_agrees [OF run] eq show ?thesis by simp
qed

text \<open>
  C8: a coordinated participant does not run, pause or stop before its system monitor has reported
  the system state \<^verbatim>\<open>ReadyToRun\<close>, which it does when every required participant is ready.
\<close>

theorem coordinated_waits_for_system:
  assumes "lc_run (lc_init name OM_Coordinated) trace l" "T_NewSystemState SS_ReadyToRun \<notin> set trace"
  shows "lc_currentState l \<notin> {L_Running, L_Paused, L_Stopping, L_Stopped} \<and> lc_operationMode l = OM_Coordinated"
  using waiting_run [OF assms(1) refl assms(2)] by (auto simp: waiting_def early_def)

theorem coordinated_waits_for_system_witness:
  "lc_operationMode (lifecycle_input_step LI_StartLifecycle (lc_init ''P'' OM_Coordinated)) = OM_Coordinated"
proof -
  have empty: "lc_stack (lc_init ''P'' OM_Coordinated) = []" by code_simp
  have "lc_run (lc_init ''P'' OM_Coordinated) ([] @ []) (lifecycle_input_step LI_StartLifecycle (lc_init ''P'' OM_Coordinated))"
    by (rule run_step [OF run_init step_input [OF empty]])
  from coordinated_waits_for_system [OF this] show ?thesis by simp
qed

end
