(* ===== verification/LifecycleProgress.thy ===== *)
theory LifecycleProgress
  imports LifecycleSystem
begin

text \<open>
  Progress of the life cycle: every task of the I/O thread ends, and what an abort, a stop and the
  completion of the start-up lead to. \<open>steps\<close> executes calls of the task that runs and stops when the
  task has ended.
\<close>

section \<open>The call stack\<close>

fun steps :: "surroundings \<Rightarrow> nat \<Rightarrow> lifecycle \<Rightarrow> lifecycle" where
  "steps sr 0 l = l"
| "steps sr (Suc n) l = (case lc_stack l of [] \<Rightarrow> l | t # ts \<Rightarrow> steps sr n (exec sr t (l\<lparr>lc_stack := ts\<rparr>)))"

lemma steps_Nil [simp]: "lc_stack l = [] \<Longrightarrow> steps sr n l = l"
  by (cases n) simp_all

lemma steps_add: "steps sr (n + m) l = steps sr m (steps sr n l)"
  by (induction sr n l rule: steps.induct) (auto split: list.splits)

lemma stack_simps [simp]:
  "lc_stack (push ts l) = ts @ lc_stack l" "lc_stack (ExecuteDeferred t l) = lc_stack l"
  "lc_stack (emits ev l) = lc_stack l" "lc_stack (throw e l) = []"
  "lc_stack (SetState sr s reason l) = lc_stack l"
  "lc_stack (SetStateAndForwardIntent sr s op reason l) = T_Call op reason # lc_stack l"
  "lc_stack (CallAfterAllParticipantsReplied t l) = lc_stack l"
  "lc_stack (begin_handler l) = lc_stack l" "lc_stack (abort_during_handler l) = lc_stack l"
  by (auto simp: lifecycle_defs push_def ExecuteDeferred_def emits_def throw_def abort_during_handler_def)

lemma current_simps [simp]:
  "lc_currentState (push ts l) = lc_currentState l" "lc_currentState (ExecuteDeferred t l) = lc_currentState l"
  "lc_currentState (emits ev l) = lc_currentState l"
  "lc_currentState (SetState sr s reason l) = s"
  "lc_currentState (SetStateAndForwardIntent sr s op reason l) = s"
  "lc_currentState (begin_handler l) = lc_currentState l"
  by (auto simp: lifecycle_defs push_def ExecuteDeferred_def emits_def)

lemma stack_call [simp]: "lc_stack (lifecycle_call_step c l) = lc_stack l"
  by (cases c) (auto simp: lc_ReportError_def lc_Pause_def lc_Continue_def lc_Stop_def
      CompleteCommunicationReadyHandlerAsync_def lc_AbortSimulation_def)

lemma stack_calls [simp]: "lc_stack (fold lifecycle_call_step cs l) = lc_stack l"
  by (induction cs arbitrary: l) simp_all

lemma stack_handled: "handled (trigger k h l) = (l1, b) \<Longrightarrow> lc_stack l1 = lc_stack l"
  by (auto simp: handled_def trigger_def run_handler_def Let_def split: option.splits if_splits)

lemma stack_Handle:
  "HandleCommunicationReady l = (l1, r) \<Longrightarrow> lc_stack l1 = lc_stack l"
  "HandleStarting l = (l1, b) \<Longrightarrow> lc_stack l1 = lc_stack l"
  "HandleStop l = (l1, b) \<Longrightarrow> lc_stack l1 = lc_stack l"
  "HandleShutdown l = (l1, b) \<Longrightarrow> lc_stack l1 = lc_stack l"
  "HandleAbort l = Inr (l1, b) \<Longrightarrow> lc_stack l1 = lc_stack l"
  by (auto simp: HandleCommunicationReady_def TriggerCommunicationReadyHandler_def run_handler_def Let_def HandleStarting_def
      HandleStop_def HandleShutdown_def HandleAbort_def dest: stack_handled split: option.splits if_splits)

section \<open>Every task ends\<close>

text \<open>After at most \<open>n\<close> calls, the stack is back at \<open>rest\<close>, or an exception has ended the task.\<close>

definition ends :: "surroundings \<Rightarrow> nat \<Rightarrow> lifecycle \<Rightarrow> lifecycle_task list \<Rightarrow> bool" where
  "ends sr n l rest \<longleftrightarrow> (\<exists>k \<le> n. lc_stack (steps sr k l) = rest \<or> lc_stack (steps sr k l) = [])"

lemma ends_now: "lc_stack l = rest \<Longrightarrow> ends sr n l rest" "lc_stack l = [] \<Longrightarrow> ends sr n l rest"
  by (auto simp: ends_def intro: exI [of _ 0])

lemma ends_mono: "ends sr n l rest \<Longrightarrow> n \<le> m \<Longrightarrow> ends sr m l rest"
  by (auto simp: ends_def intro: order_trans)

lemma ends_step:
  "lc_stack l = t # ts \<Longrightarrow> ends sr n (exec sr t (l\<lparr>lc_stack := ts\<rparr>)) rest \<Longrightarrow> ends sr (Suc n) l rest"
  unfolding ends_def by (metis Suc_le_mono list.simps(5) steps.simps(2))

lemma ends_then:
  assumes "ends sr n l mid" "\<And>l'. lc_stack l' = mid \<Longrightarrow> ends sr m l' rest"
  shows "ends sr (n + m) l rest"
proof -
  obtain k where k: "k \<le> n" "lc_stack (steps sr k l) = mid \<or> lc_stack (steps sr k l) = []"
    using assms(1) by (auto simp: ends_def)
  then have "ends sr m (steps sr k l) rest" using assms(2) ends_now(2) by blast
  then obtain j where "j \<le> m" "lc_stack (steps sr (k + j) l) = rest \<or> lc_stack (steps sr (k + j) l) = []"
    by (auto simp: ends_def steps_add)
  with k(1) show ?thesis unfolding ends_def by (intro exI [of _ "k + j"]) auto
qed

text \<open>
  \<open>calls_in sr n s op\<close>: after the method \<open>op\<close> of the state \<open>s\<close> has returned, the calls it has pushed end after at
  most \<open>n\<close> more. The bounds add up along the calls.
\<close>

definition calls_in :: "surroundings \<Rightarrow> nat \<Rightarrow> lifecycle_state \<Rightarrow> lifecycle_op \<Rightarrow> bool" where
  "calls_in sr n s op \<longleftrightarrow> (\<forall>l reason. lc_currentState l = s \<longrightarrow> ends sr n (call_state sr op reason l) (lc_stack l))"

lemma calls_inI: "(\<And>l reason. lc_currentState l = s \<Longrightarrow> ends sr n (call_state sr op reason l) (lc_stack l)) \<Longrightarrow> calls_in sr n s op"
  by (simp add: calls_in_def)

lemma calls_in_mono: "calls_in sr n s op \<Longrightarrow> n \<le> m \<Longrightarrow> calls_in sr m s op"
  by (auto simp: calls_in_def intro: ends_mono)

lemma pushed_ends:
  assumes "calls_in sr n s op" "lc_currentState l = s" "lc_stack l = T_Call op reason # rest" "Suc n \<le> m"
  shows "ends sr m l rest"
proof -
  have "ends sr n (call_state sr op reason (l\<lparr>lc_stack := rest\<rparr>)) (lc_stack (l\<lparr>lc_stack := rest\<rparr>))"
    using assms(1) [unfolded calls_in_def, rule_format, of "l\<lparr>lc_stack := rest\<rparr>" reason] assms(2) by simp
  then show ?thesis using ends_step [OF assms(3), of sr n] assms(4) by (auto intro: ends_mono)
qed

lemma forward_ends:
  "calls_in sr n s op \<Longrightarrow> Suc n \<le> m \<Longrightarrow> lc_stack l = rest \<Longrightarrow> ends sr m (SetStateAndForwardIntent sr s op reason l) rest"
  "calls_in sr n (lc_currentState l) op \<Longrightarrow> Suc n \<le> m \<Longrightarrow> lc_stack l = rest \<Longrightarrow> ends sr m (push [T_Call op reason] l) rest"
  by (rule pushed_ends; simp)+

lemma done_after:
  assumes "ends sr n l (T_HandlerDone s # rest)" "Suc n \<le> m"
  shows "ends sr m l rest"
proof -
  have "ends sr (n + Suc 0) l rest"
  proof (rule ends_then [OF assms(1)])
    fix l' :: lifecycle assume l': "lc_stack l' = T_HandlerDone s # rest"
    show "ends sr (Suc 0) l' rest" by (rule ends_step [OF l']) (simp add: ends_now)
  qed
  with assms(2) show ?thesis by (auto intro: ends_mono)
qed

lemmas methods = call_state_def InvalidState_def ServicesCreatedState_def CommunicationInitializingState_def
  CommunicationInitializedState_def ReadyToRunState_def RunningState_def PausedState_def StoppingState_def
  StoppedState_def ShuttingDownState_def ShutdownState_def AbortingState_def ErrorState_def ProcessAbortCommandInCallback_def
  ProcessAbortCommand_def

lemma Error_calls: "calls_in sr 0 s O_Error"
  by (rule calls_inI, cases s) (simp_all add: methods BaseState_def ends_now)

lemma Invalid_ends:
  "Suc 0 \<le> n \<Longrightarrow> lc_stack l = rest \<Longrightarrow> ends sr n (InvalidStateTransition op b reason l) rest"
  by (simp add: InvalidStateTransition_def Let_def ends_now forward_ends [OF Error_calls])

lemma Base_ends: "Suc 0 \<le> n \<Longrightarrow> lc_stack l = rest \<Longrightarrow> ends sr n (BaseState sr op reason l) rest"
  by (cases op) (simp_all add: BaseState_def Invalid_ends ends_now)

lemmas method_ends = methods Base_ends Invalid_ends ends_now

lemma Shutdown_calls_Shutdown: "calls_in sr 0 L_Shutdown O_ShutdownParticipant"
  by (rule calls_inI) (simp add: method_ends)

lemma Shutdown_calls_before: "s \<in> {L_Aborting, L_ShuttingDown} \<Longrightarrow> calls_in sr 1 s O_ShutdownParticipant"
  by (rule calls_inI)
    (auto simp: method_ends Let_def forward_ends(1) [OF Shutdown_calls_Shutdown] split: prod.splits dest!: stack_Handle)

lemma Shutdown_calls: "calls_in sr 2 s O_ShutdownParticipant"
proof (cases "s \<in> {L_Shutdown, L_Aborting, L_ShuttingDown}")
  case True
  then show ?thesis using Shutdown_calls_Shutdown [of sr] Shutdown_calls_before [of s sr] by (auto intro: calls_in_mono)
next
  case False
  then show ?thesis
    by (intro calls_inI, cases s) (auto simp: method_ends forward_ends(1) [OF Shutdown_calls_before [of L_ShuttingDown]])
qed

lemma Resolve_calls_Aborting: "calls_in sr 3 L_Aborting O_ResolveAbortSimulation"
  by (rule calls_inI)
    (auto simp: method_ends forward_ends [OF Shutdown_calls] split: sum.splits prod.splits dest!: stack_Handle)

lemmas abort_ends = forward_ends(1) [OF Resolve_calls_Aborting]

lemma Abort_calls: "op \<in> {O_AbortSimulation, O_ResolveAbortSimulation} \<Longrightarrow> calls_in sr 4 s op"
  using Resolve_calls_Aborting [of sr]
  by (intro calls_inI, cases s) (auto simp: method_ends abort_ends forward_ends(2) [OF Shutdown_calls]
      split: sum.splits prod.splits dest!: stack_Handle)

lemma Stop_calls_Stopped: "calls_in sr 0 L_Stopped O_StopSimulation"
  by (rule calls_inI) (simp add: method_ends)

lemma Stop_calls_Stopping: "calls_in sr 4 L_Stopping O_StopSimulation"
  by (rule calls_inI)
    (auto simp: method_ends Let_def abort_ends forward_ends(1) [OF Stop_calls_Stopped] split: prod.splits dest!: stack_Handle)

lemma Stop_calls: "calls_in sr 5 s O_StopSimulation"
proof (cases "s = L_Stopping")
  case True
  then show ?thesis using calls_in_mono [OF Stop_calls_Stopping] by simp
next
  case False
  then show ?thesis
    by (intro calls_inI, cases s)
      (auto simp: method_ends forward_ends(1) [OF Stop_calls_Stopping] forward_ends(2) [OF Shutdown_calls])
qed

lemma ReadyToRun_calls_Running: "calls_in sr 0 L_Running O_ReadyToRun"
  by (rule calls_inI) (simp add: method_ends)

lemma ReadyToRun_calls: "calls_in sr 5 s O_ReadyToRun"
proof (cases "s = L_ReadyToRun")
  case True
  show ?thesis unfolding True
  proof (rule calls_inI)
    fix l :: lifecycle and reason assume l: "lc_currentState l = L_ReadyToRun"
    obtain l1 ok where h: "HandleStarting (begin_handler l) = (l1, ok)" by (cases "HandleStarting (begin_handler l)")
    then have "lc_stack l1 = lc_stack l" by (auto dest: stack_Handle)
    then have "ends sr 4 (ProcessAbortCommandInCallback sr (push [T_HandlerDone L_ReadyToRun] l1)) (T_HandlerDone L_ReadyToRun # lc_stack l)"
      "ends sr 4 (SetState sr s' r (push [T_HandlerDone L_ReadyToRun] l1)) (T_HandlerDone L_ReadyToRun # lc_stack l)" for s' r
      by (simp_all add: method_ends abort_ends)
    note after = this [THEN done_after, of 5]
    show "ends sr 5 (call_state sr O_ReadyToRun reason l) (lc_stack l)"
      using l h after by (simp add: call_state_def ReadyToRunState_def Let_def forward_ends(1) [OF ReadyToRun_calls_Running]
          ProcessAbortCommandInCallback_def ProcessAbortCommand_def abort_ends)
  qed
next
  case False
  then show ?thesis by (intro calls_inI, cases s) (auto simp: method_ends)
qed

lemma Initialized_calls_ReadyToRun: "calls_in sr 6 L_ReadyToRun O_CommunicationInitialized"
  by (rule calls_inI) (auto simp: method_ends forward_ends(2) [OF ReadyToRun_calls])

lemma Initialized_calls: "calls_in sr 8 s O_CommunicationInitialized"
proof (cases "s = L_CommunicationInitialized")
  case True
  show ?thesis unfolding True
  proof (rule calls_inI)
    fix l :: lifecycle and reason assume l: "lc_currentState l = L_CommunicationInitialized"
    obtain l1 res where h: "HandleCommunicationReady (begin_handler l) = (l1, res)"
      by (cases "HandleCommunicationReady (begin_handler l)")
    let ?l2 = "push [T_HandlerDone L_CommunicationInitialized] l1"
    from h have "lc_stack l1 = lc_stack l" by (auto dest: stack_Handle)
    then have "ends sr 7 (ProcessAbortCommandInCallback sr ?l2) (T_HandlerDone L_CommunicationInitialized # lc_stack l)"
      "ends sr 7 (SetState sr s' r ?l2) (T_HandlerDone L_CommunicationInitialized # lc_stack l)"
      "ends sr 7 (SetStateAndForwardIntent sr L_ReadyToRun O_CommunicationInitialized r ?l2)
         (T_HandlerDone L_CommunicationInitialized # lc_stack l)"
      "ends sr 7 ?l2 (T_HandlerDone L_CommunicationInitialized # lc_stack l)" for s' r
      by (simp_all add: method_ends abort_ends forward_ends(1) [OF Initialized_calls_ReadyToRun])
    note after = this [THEN done_after, of 8]
    show "ends sr 8 (call_state sr O_CommunicationInitialized reason l) (lc_stack l)"
      using l h after by (simp add: call_state_def CommunicationInitializedState_def Let_def split: callback_result.splits)
  qed
next
  case False
  then show ?thesis
    by (intro calls_inI, cases s) (auto simp: method_ends forward_ends(2) [OF ReadyToRun_calls])
qed

lemma Initializing_calls_Initialized: "calls_in sr 9 L_CommunicationInitialized O_CommunicationInitializing"
  by (rule calls_inI) (auto simp: method_ends forward_ends(2) [OF Initialized_calls])

lemma completion_ends:
  "Suc 10 \<le> m \<Longrightarrow> lc_stack l = T_SetStateAndForwardIntent L_CommunicationInitialized O_CommunicationInitializing reason # rest \<Longrightarrow>
     ends sr m l rest"
  by (rule ends_mono [OF ends_step [of l _ rest sr 10]])
    (auto simp: forward_ends(1) [OF Initializing_calls_Initialized])

lemma Initializing_calls: "calls_in sr 11 s O_CommunicationInitializing"
proof (cases "s = L_CommunicationInitialized")
  case True
  then show ?thesis using calls_in_mono [OF Initializing_calls_Initialized] by simp
next
  case False
  have "ends sr 11 (AddAsyncSubscriptionsCompletionHandler
      (T_SetStateAndForwardIntent L_CommunicationInitialized O_CommunicationInitializing reason) l) (lc_stack l)" for l reason
    by (auto simp: AddAsyncSubscriptionsCompletionHandler_def ends_now intro: completion_ends)
  then show ?thesis using False by (intro calls_inI, cases s) (auto simp: method_ends)
qed

lemma every_call_ends: "calls_in sr 12 s op"
proof (cases op)
  case O_ServicesCreated
  then show ?thesis by (intro calls_inI, cases s) (auto simp: method_ends forward_ends(2) [OF Initializing_calls])
next
  case O_CommunicationInitializing
  then show ?thesis using calls_in_mono [OF Initializing_calls] by simp
next
  case O_CommunicationInitialized
  then show ?thesis using calls_in_mono [OF Initialized_calls] by simp
next
  case O_CompleteCommunicationReadyHandler
  then show ?thesis
    by (intro calls_inI, cases s) (auto simp: method_ends forward_ends(1) [OF Initialized_calls_ReadyToRun])
next
  case O_ReadyToRun
  then show ?thesis using calls_in_mono [OF ReadyToRun_calls] by simp
next
  case O_StopSimulation
  then show ?thesis using calls_in_mono [OF Stop_calls] by simp
next
  case O_ShutdownParticipant
  then show ?thesis using calls_in_mono [OF Shutdown_calls] by simp
next
  case O_Error
  then show ?thesis using calls_in_mono [OF Error_calls] by simp
next
  case O_AbortSimulation
  then show ?thesis using calls_in_mono [OF Abort_calls [of op]] by simp
next
  case O_ResolveAbortSimulation
  then show ?thesis using calls_in_mono [OF Abort_calls [of op]] by simp
qed (intro calls_inI, cases s, auto simp: method_ends)+

definition ending :: "surroundings \<Rightarrow> lifecycle_task \<Rightarrow> bool" where
  "ending sr t \<longleftrightarrow> (\<forall>l rest. lc_stack l = t # rest \<longrightarrow> (\<exists>n. ends sr n l rest))"

lemma endingI:
  "(\<And>l :: lifecycle. \<exists>n. ends sr n (exec sr t l) (lc_stack l)) \<Longrightarrow> ending sr t"
  unfolding ending_def
proof (intro allI impI)
  fix l :: lifecycle and rest
  assume a: "\<And>l :: lifecycle. \<exists>n. ends sr n (exec sr t l) (lc_stack l)" and l: "lc_stack l = t # rest"
  obtain n where "ends sr n (exec sr t (l\<lparr>lc_stack := rest\<rparr>)) rest" using a [of "l\<lparr>lc_stack := rest\<rparr>"] by auto
  then show "\<exists>n. ends sr n l rest" using ends_step [OF l] by blast
qed

lemma stack_ends: "\<forall>t \<in> set ts. ending sr t \<Longrightarrow> lc_stack l = ts @ rest \<Longrightarrow> \<exists>n. ends sr n l rest"
proof (induction ts arbitrary: l)
  case Nil
  then show ?case by (auto intro: ends_now)
next
  case (Cons t ts)
  then have "\<exists>n. ends sr n l (ts @ rest)" unfolding ending_def by auto
  then obtain n where n: "ends sr n l (ts @ rest)" ..
  obtain k where k: "lc_stack (steps sr k l) = ts @ rest \<or> lc_stack (steps sr k l) = []"
    using n by (auto simp: ends_def)
  then obtain m where "ends sr m (steps sr k l) rest" using Cons.IH Cons.prems(1) ends_now(2) by (metis list.set_intros(2))
  then obtain j where "lc_stack (steps sr (k + j) l) = rest \<or> lc_stack (steps sr (k + j) l) = []"
    by (auto simp: ends_def steps_add)
  then show ?case by (auto simp: ends_def)
qed

lemma pushing_ends:
  "lc_stack l' = ts @ lc_stack l \<Longrightarrow> \<forall>t \<in> set ts. ending sr t \<Longrightarrow> \<exists>n. ends sr n l' (lc_stack l)"
  by (rule stack_ends) auto

lemma push_ends: "\<forall>t \<in> set ts. ending sr t \<Longrightarrow> \<exists>n. ends sr n (push ts l) (lc_stack l)"
  by (rule pushing_ends) simp_all

lemma ends_ex: "lc_stack l' = lc_stack l \<or> lc_stack l' = [] \<Longrightarrow> \<exists>n. ends sr n l' (lc_stack l)"
  using ends_now by blast

lemma ending_Call: "ending sr (T_Call op reason)"
  unfolding ending_def using pushed_ends [OF every_call_ends] by blast

lemma ending_leaf:
  assumes "\<And>l :: lifecycle. lc_stack (exec sr t l) = lc_stack l"
  shows "ending sr t"
  by (rule endingI) (use assms in \<open>auto intro: ends_now\<close>)

lemma ending_handler_tasks: "ending sr (T_NewParticipantStatus st)" "ending sr (T_SetWorkflowConfiguration wc)"
  "ending sr (T_FinishShutdown reason)" "ending sr (T_HandlerDone s)" "ending sr T_BarrierDone" "ending sr T_SubscriptionsDone"
  "ending sr T_WarnIfError" "ending sr T_RequestNextStep"
  by (rule ending_leaf; auto simp: NewParticipantStatus_def SetWorkflowConfiguration_def CheckForValidConfiguration_def
      lc_ReportError_def FinishShutdown_def SetFinalStatePromise_def Let_def split: option.splits)+

lemma ending_NewSystemState: "ending sr (T_NewSystemState ss)"
proof (rule endingI)
  fix l :: lifecycle
  have "\<exists>ts. lc_stack (NewSystemState ss l) = ts @ lc_stack l \<and> (\<forall>t \<in> set ts. ending sr t)"
    by (auto simp: NewSystemState_def Let_def ending_Call split: operation_mode.splits system_state.splits)
  then show "\<exists>n. ends sr n (exec sr (T_NewSystemState ss) l) (lc_stack l)" using pushing_ends by auto
qed

lemma monitor_tasks_end: "monitor_event_task states statuses ev = Some t \<Longrightarrow> ending sr t"
  by (cases ev) (auto simp: ending_NewSystemState ending_handler_tasks split: if_splits)

lemma stack_emits_all [simp]: "lc_stack (fold (\<lambda>ev. emits (f ev)) evs l) = lc_stack l"
  by (induction evs arbitrary: l) simp_all

lemma after_monitor_stack:
  "\<exists>ts. lc_stack (after_monitor out l) = ts @ lc_stack l \<and> (\<forall>t \<in> set ts. ending sr t)"
proof -
  obtain m evs e where out: "out = (m, evs, e)" by (cases out)
  let ?ts = "List.map_filter (monitor_event_task (lc_stateHandlerIds l) (lc_statusHandlerIds l)) evs"
  have "lc_stack (after_monitor out l) = ?ts @ lc_stack l"
    by (simp add: after_monitor_def out Let_def split: option.splits)
  moreover have "\<forall>t \<in> set ?ts. ending sr t"
    by (auto simp: List.map_filter_def intro: monitor_tasks_end)
  ultimately show ?thesis by blast
qed

lemma every_task_ends: "ending sr t"
proof (induction t)
  case (T_SetStateAndForwardIntent s op reason)
  show ?case by (rule endingI) (auto intro!: pushing_ends [of _ "[T_Call op reason]"] simp: ending_Call)
next
  case (T_Replies f)
  show ?case
  proof (rule endingI)
    fix l :: lifecycle
    have "lc_stack (RequestReplies sr f l) \<in> {[f] @ lc_stack l, [] @ lc_stack l}"
      by (auto simp: RequestReplies_def Let_def)
    with T_Replies.IH show "\<exists>n. ends sr n (exec sr (T_Replies f) l) (lc_stack l)" by (auto intro: pushing_ends ends_ex)
  qed
next
  case (T_AbortSimulation reason)
  show ?case by (rule endingI, rule pushing_ends [of _ "[T_Call O_AbortSimulation reason, T_WarnIfError]"])
      (auto simp: lm_AbortSimulation_def ending_Call ending_handler_tasks)
next
  case T_AbortedBeforeStart
  show ?case
    by (rule endingI, rule pushing_ends
        [of _ "[T_Call O_AbortSimulation ''Lifecycle was aborted by SystemCommand::AbortSimulation'', T_WarnIfError]"])
      (auto simp: lm_AbortSimulation_def ending_Call ending_handler_tasks)
next
  case T_StartLifecycle
  show ?case
    by (rule endingI, rule ends_ex) (auto simp: StartLifecycle_rest_def Let_def split: operation_mode.splits)
next
  case (T_ReportError msg)
  show ?case
    by (rule endingI) (auto simp: ReportError_deferred_def ending_Call
        intro: ends_ex pushing_ends [of _ "[T_Call O_Error msg]"])
next
  case (T_Pause reason)
  show ?case
    by (rule endingI) (auto simp: Pause_deferred_def Let_def lc_ReportError_def ending_Call
        intro: ends_ex pushing_ends [of _ "[T_Call O_PauseSimulation reason]"])
next
  case T_Continue
  show ?case
    by (rule endingI) (auto simp: Continue_deferred_def Let_def lc_ReportError_def ending_Call ending_handler_tasks
        intro: ends_ex intro!: push_ends)
next
  case (T_SendStatus st)
  show ?case
  proof (rule endingI)
    fix l :: lifecycle
    obtain ts where "lc_stack (DistributeStatus st l) = ts @ lc_stack l" "\<forall>t \<in> set ts. ending sr t"
      using after_monitor_stack [of "sm_ReceiveParticipantStatus st (lc_monitor (emits (LE_Transmit st) l))" "emits (LE_Transmit st) l" sr]
      by (auto simp: DistributeStatus_def Let_def)
    then show "\<exists>n. ends sr n (exec sr (T_SendStatus st) l) (lc_stack l)" by (simp add: pushing_ends)
  qed
qed (simp_all add: ending_Call ending_handler_tasks ending_NewSystemState)

section \<open>What an abort leads to\<close>

lemma State_simps [simp]:
  "State (SetStateAndForwardIntent sr s op reason l) = GetParticipantState s" "State (push ts l) = State l"
  "State (ExecuteDeferred t l) = State l" "State (emits ev l) = State l"
  by (simp_all add: State_def lifecycle_defs push_def ExecuteDeferred_def emits_def)

lemma log_simps [simp]:
  "lc_log (SetStateAndForwardIntent sr s op reason l) = lc_log l" "lc_log (push ts l) = lc_log l"
  "lc_log (ExecuteDeferred t l) = lc_log l" "lc_log (emits ev l) = lc_log l @ [ev]"
  "lc_log (abort_during_handler l) = lc_log l" "lc_log (CallAfterAllParticipantsReplied t l) = lc_log l"
  by (simp_all add: lifecycle_defs push_def ExecuteDeferred_def emits_def abort_during_handler_def)

lemma queue_simps [simp]:
  "lc_queue (CallAfterAllParticipantsReplied t l) = lc_queue l @ [T_Replies t]" "lc_queue (emits ev l) = lc_queue l"
  "lc_queue (push ts l) = lc_queue l"
  by (simp_all add: CallAfterAllParticipantsReplied_def ExecuteDeferred_def emits_def push_def)

lemma log_call: "set (lc_log l) \<subseteq> set (lc_log (lifecycle_call_step c l))"
  by (cases c) (auto simp: lc_ReportError_def lc_Pause_def lc_Continue_def lc_Stop_def
      CompleteCommunicationReadyHandlerAsync_def lc_AbortSimulation_def)

lemma log_calls: "set (lc_log l) \<subseteq> set (lc_log (fold lifecycle_call_step cs l))"
proof (induction cs arbitrary: l)
  case (Cons c cs)
  from log_call [of l c] Cons.IH [of "lifecycle_call_step c l"] show ?case by auto
qed simp

lemma trigger_logs: "handled (trigger k (Some h) l) = (l1, b) \<Longrightarrow> LE_Handler k \<in> set (lc_log l1)"
  using log_calls [of "emits (LE_Handler k) l" "uh_calls h"]
  by (auto simp: handled_def trigger_def run_handler_def Let_def split: if_splits)

text \<open>The three calls an abort consists of.\<close>

lemma abort_call:
  assumes "lc_currentState l \<notin> {L_Stopping, L_ShuttingDown, L_Shutdown, L_Aborting}" "\<not> handlerExecuting l"
  obtains m r where "call_state sr O_AbortSimulation reason l = SetStateAndForwardIntent sr L_Aborting O_ResolveAbortSimulation r m"
    "lc_currentState m = lc_currentState l" "lc_stack m = lc_stack l" "lc_abortHandler m = lc_abortHandler l"
  using assms by (cases "lc_currentState l") (auto simp: methods emits_def)

lemma resolve_call:
  assumes "lc_currentState l = L_Aborting" "lc_lastBeforeAbortingState l = Some s"
  obtains m where "call_state sr O_ResolveAbortSimulation reason l = push [T_Call O_ShutdownParticipant reason] m"
    "lc_currentState m = L_Aborting" "lc_stack m = lc_stack l"
    "lc_abortHandler l \<noteq> None \<longrightarrow> LE_Handler (HK_Abort (GetParticipantState s)) \<in> set (lc_log m)"
proof -
  obtain l1 b where h: "handled (trigger (HK_Abort (GetParticipantState s)) (lc_abortHandler l) l) = (l1, b)"
    by (cases "handled (trigger (HK_Abort (GetParticipantState s)) (lc_abortHandler l) l)")
  then have "lc_currentState l1 = L_Aborting" "lc_stack l1 = lc_stack l"
    "lc_abortHandler l \<noteq> None \<longrightarrow> LE_Handler (HK_Abort (GetParticipantState s)) \<in> set (lc_log l1)"
    using identity_current(1) [OF identity_handled_trigger [OF h]] stack_handled [OF h] assms(1) trigger_logs by auto
  then show thesis
    using assms h by (intro that [of "if b then l1 else emits (LE_Warn
        ''ShutdownHandler threw an exception. This is ignored. The participant will now shut down.'') l1"])
      (auto simp: call_state_def AbortingState_def HandleAbort_def)
qed

lemma shutdown_calls:
  assumes "lc_currentState l = L_Aborting" "lc_stack l = T_Call O_ShutdownParticipant reason # rest"
  obtains l' where "l' = steps sr 2 l" "lc_stack l' = rest" "lc_currentState l' = L_Shutdown" "State l' = PS_Shutdown"
    "lc_log l' = lc_log l" "T_Replies (T_FinishShutdown reason) \<in> set (lc_queue l')"
proof
  let ?l1 = "SetStateAndForwardIntent sr L_Shutdown O_ShutdownParticipant reason (l\<lparr>lc_stack := rest\<rparr>)"
  let ?l' = "CallAfterAllParticipantsReplied (T_FinishShutdown reason) (?l1\<lparr>lc_stack := rest\<rparr>)"
  show "?l' = steps sr 2 l"
    using assms(1,2) by (simp add: numeral_2_eq_2 call_state_def AbortingState_def ShutdownState_def)
  show "lc_stack ?l' = rest" by simp
  show "lc_currentState ?l' = L_Shutdown" "State ?l' = PS_Shutdown" "lc_log ?l' = lc_log l"
    by (simp_all add: State_def lifecycle_defs push_def ExecuteDeferred_def)
  show "T_Replies (T_FinishShutdown reason) \<in> set (lc_queue ?l')" by simp
qed

lemma abortRequested_call [simp]: "lc_abortRequested (lifecycle_call_step c l) = lc_abortRequested l"
  by (cases c) (auto simp: lc_ReportError_def lc_Pause_def lc_Continue_def lc_Stop_def ExecuteDeferred_def emits_def
      CompleteCommunicationReadyHandlerAsync_def lc_AbortSimulation_def)

lemma abortRequested_calls [simp]: "lc_abortRequested (fold lifecycle_call_step cs l) = lc_abortRequested l"
  by (induction cs arbitrary: l) simp_all

lemma current_replied [simp]: "lc_currentState (CallAfterAllParticipantsReplied t l) = lc_currentState l"
  by (simp add: CallAfterAllParticipantsReplied_def)

lemma abortRequested_emits [simp]: "lc_abortRequested (emits ev l) = lc_abortRequested l"
  by (simp add: emits_def)

section \<open>Properties\<close>

text \<open>
  C10: the I/O thread never hangs in the life cycle: whatever is to be executed, every task ends
  after finitely many calls, and a single call of a method of the current state after at most thirteen.
\<close>

theorem lifecycle_tasks_end:
  "(\<exists>n. lc_stack (steps sr n l) = []) \<and> lc_stack (steps sr 13 (l\<lparr>lc_stack := [T_Call op reason]\<rparr>)) = []"
proof
  obtain n where "ends sr n l []" using stack_ends [of "lc_stack l" sr l "[]"] every_task_ends by auto
  then show "\<exists>n. lc_stack (steps sr n l) = []" by (auto simp: ends_def)
  have "ends sr 13 (l\<lparr>lc_stack := [T_Call op reason]\<rparr>) []" by (rule pushed_ends [OF every_call_ends refl]) simp_all
  then obtain k where "k \<le> 13" "lc_stack (steps sr k (l\<lparr>lc_stack := [T_Call op reason]\<rparr>)) = []" by (auto simp: ends_def)
  then show "lc_stack (steps sr 13 (l\<lparr>lc_stack := [T_Call op reason]\<rparr>)) = []"
    using steps_add [of sr k "13 - k" "l\<lparr>lc_stack := [T_Call op reason]\<rparr>"] by simp
qed

text \<open>
  C11: an abort that reaches a participant outside its handlers brings it to \<^verbatim>\<open>Shutdown\<close> within the same task,
  from every state before the shut-down. The abort handler has been called with the state that was
  interrupted, and the end of the life cycle waits for the replies of the other participants.
\<close>

theorem abort_reaches_shutdown:
  assumes "lc_stack l = [T_AbortSimulation reason]" "\<not> handlerExecuting l"
    "lc_currentState l \<notin> {L_Stopping, L_ShuttingDown, L_Shutdown, L_Aborting}"
  shows "lc_stack (steps sr 6 l) = [] \<and> lc_currentState (steps sr 6 l) = L_Shutdown \<and> State (steps sr 6 l) = PS_Shutdown
    \<and> (lc_abortHandler l \<noteq> None \<longrightarrow>
         LE_Handler (HK_Abort (GetParticipantState (lc_currentState l))) \<in> set (lc_log (steps sr 6 l)))
    \<and> (\<exists>r. T_Replies (T_FinishShutdown r) \<in> set (lc_queue (steps sr 6 l)))"
proof -
  let ?l0 = "l\<lparr>lc_stack := [T_WarnIfError]\<rparr>"
  have "\<not> handlerExecuting ?l0" "lc_currentState ?l0 \<notin> {L_Stopping, L_ShuttingDown, L_Shutdown, L_Aborting}"
    using assms by (simp_all add: handlerExecuting_def)
  then obtain m r where m: "call_state sr O_AbortSimulation reason ?l0 = SetStateAndForwardIntent sr L_Aborting O_ResolveAbortSimulation r m"
    "lc_currentState m = lc_currentState ?l0" "lc_stack m = lc_stack ?l0" "lc_abortHandler m = lc_abortHandler ?l0"
    using abort_call [of ?l0 sr reason] by metis
  let ?l2 = "(SetStateAndForwardIntent sr L_Aborting O_ResolveAbortSimulation r m)\<lparr>lc_stack := [T_WarnIfError]\<rparr>"
  have l2: "lc_currentState ?l2 = L_Aborting" "lc_lastBeforeAbortingState ?l2 = Some (lc_currentState l)"
    "lc_abortHandler ?l2 = lc_abortHandler l"
    using m(2,4) by (simp_all add: lifecycle_defs push_def ExecuteDeferred_def)
  from resolve_call [OF l2(1,2)] obtain m2 where m2:
    "call_state sr O_ResolveAbortSimulation r ?l2 = push [T_Call O_ShutdownParticipant r] m2"
    "lc_currentState m2 = L_Aborting" "lc_stack m2 = [T_WarnIfError]"
    "lc_abortHandler l \<noteq> None \<longrightarrow> LE_Handler (HK_Abort (GetParticipantState (lc_currentState l))) \<in> set (lc_log m2)"
    using l2(3) by (metis lifecycle.select_convs(32) lifecycle.surjective lifecycle.update_convs(32))
  let ?l3 = "push [T_Call O_ShutdownParticipant r] m2"
  have "steps sr 3 l = ?l3"
    using assms(1) m(1,3) m2(1) by (simp add: numeral_3_eq_3 lm_AbortSimulation_def push_def)
  then have "steps sr 6 l = steps sr 1 (steps sr 2 ?l3)"
    using steps_add [of sr 3 3 l] steps_add [of sr 2 1 ?l3] by simp
  moreover obtain l5 where l5: "l5 = steps sr 2 ?l3" "lc_stack l5 = [T_WarnIfError]" "lc_currentState l5 = L_Shutdown"
    "State l5 = PS_Shutdown" "lc_log l5 = lc_log m2" "T_Replies (T_FinishShutdown r) \<in> set (lc_queue l5)"
    using shutdown_calls [of ?l3 r "[T_WarnIfError]" sr] m2(2,3) by auto
  ultimately have "steps sr 6 l = l5\<lparr>lc_stack := []\<rparr>" by simp
  with l5 m2(4) show ?thesis by (auto simp: State_def)
qed

theorem abort_reaches_shutdown_witness:
  "lc_currentState (steps example_surroundings 6
     ((lc_init ''P'' OM_Autonomous)\<lparr>lc_stack := [T_AbortSimulation ''x''], lc_currentState := L_Running\<rparr>)) = L_Shutdown"
  using abort_reaches_shutdown [of "(lc_init ''P'' OM_Autonomous)\<lparr>lc_stack := [T_AbortSimulation ''x''], lc_currentState := L_Running\<rparr>"
      "''x''" example_surroundings]
  by (simp add: handlerExecuting_def lc_init_def LifecycleService_new_def SetLifecycleConfiguration_def)

text \<open>
  C22: the functions that complete the start-up do not look at the state they find. A participant that waits for
  the acknowledgements of its subscriptions, is aborted and reaches \<^verbatim>\<open>Shutdown\<close> is brought back to
  \<^verbatim>\<open>CommunicationInitialized\<close> when the acknowledgements arrive.
\<close>

theorem late_completion_leaves_shutdown:
  assumes "lc_currentState l = L_CommunicationInitializing" "lc_hasPendingAsyncSubscriptions l"
    "lc_subscriptionHandlers l = []" "\<not> handlerExecuting l" "lc_abortHandler l = None"
    "lc_stack l = [T_Call O_CommunicationInitializing reason]"
    "down = steps sr 6 ((steps sr 1 l)\<lparr>lc_stack := [T_AbortSimulation r]\<rparr>)"
  shows "lc_currentState down = L_Shutdown
    \<and> lc_currentState (steps sr 1 (AsyncSubscriptionsCompleted down)) = L_CommunicationInitialized"
  using assms by (simp add: eval_nat_numeral methods lifecycle_defs push_def ExecuteDeferred_def 
    AsyncSubscriptionsCompleted_def AddAsyncSubscriptionsCompletionHandler_def lm_AbortSimulation_def HandleAbort_def handled_def trigger_def
    CallAfterAllParticipantsReplied_def emits_def handlerExecuting_def)

definition waiting_participant :: lifecycle where
  "waiting_participant = (lc_init ''P'' OM_Autonomous)\<lparr>lc_currentState := L_CommunicationInitializing,
     lc_hasPendingAsyncSubscriptions := True, lc_stack := [T_Call O_CommunicationInitializing ''r'']\<rparr>"

theorem late_completion_leaves_shutdown_witness:
  "lc_currentState (steps example_surroundings 1 (AsyncSubscriptionsCompleted
     (steps example_surroundings 6 ((steps example_surroundings 1 waiting_participant)\<lparr>lc_stack := [T_AbortSimulation ''x'']\<rparr>))))
   = L_CommunicationInitialized"
  using late_completion_leaves_shutdown [of waiting_participant "''r''"
      "steps example_surroundings 6 ((steps example_surroundings 1 waiting_participant)\<lparr>lc_stack := [T_AbortSimulation ''x'']\<rparr>)"
      example_surroundings "''x''"]
  by (simp add: waiting_participant_def handlerExecuting_def lc_init_def LifecycleService_new_def SetLifecycleConfiguration_def)

text \<open>
  C12: a stop of a running or paused participant, when no abort comes in between: the stop handler decides. If it
  throws, the participant ends in \<^verbatim>\<open>Error\<close>; otherwise it is \<^verbatim>\<open>Stopped\<close> and shuts down once all other participants
  have replied.
\<close>

theorem stop_outcome:
  assumes "lc_stack l = [T_Call O_StopSimulation reason]" "lc_currentState l \<in> {L_Running, L_Paused}"
    "L_Stopping \<notin> set (lc_abortRequested l)" "\<forall>h. lc_stopHandler l = Some h \<longrightarrow> \<not> uh_abort h"
  shows "lc_stack (steps sr 3 l) = [] \<and>
    (if \<exists>h. lc_stopHandler l = Some h \<and> uh_throws h then lc_currentState (steps sr 3 l) = L_Error
     else lc_currentState (steps sr 3 l) = L_Stopped \<and> T_Replies (T_Call O_ShutdownParticipant reason) \<in> set (lc_queue (steps sr 3 l)))"
proof -
  obtain m where m: "steps sr 1 l = SetStateAndForwardIntent sr L_Stopping O_StopSimulation reason m" "lc_stack m = []"
    "lc_abortRequested m = lc_abortRequested l" "lc_stopHandler m = lc_stopHandler l"
    using assms(1,2) by (auto simp: methods emits_def)
  let ?l2 = "(SetStateAndForwardIntent sr L_Stopping O_StopSimulation reason m)\<lparr>lc_stack := []\<rparr>"
  obtain l1 ok where h: "HandleStop ?l2 = (l1, ok)" by (cases "HandleStop ?l2")
  have l2: "lc_abortRequested ?l2 = lc_abortRequested l" "lc_stopHandler ?l2 = lc_stopHandler l"
    using m(3,4) by (simp_all add: lifecycle_defs push_def ExecuteDeferred_def)
  have l1: "lc_stack l1 = []" "lc_currentState l1 = L_Stopping" 
    using stack_Handle(3) [OF h] identity_current(1) [OF identity_handled_trigger [OF h [unfolded HandleStop_def]]] by simp_all
  have "\<not> abortRequested l1" "ok \<longleftrightarrow> \<not> (\<exists>h. lc_stopHandler l = Some h \<and> uh_throws h)"
    using h l1(2) l2 assms(3,4) by (auto simp: HandleStop_def abortRequested_def handled_def trigger_def run_handler_def Let_def
      split: option.splits if_splits)
  moreover have "steps sr 3 l = steps sr 2 (SetStateAndForwardIntent sr L_Stopping O_StopSimulation reason m)"
    using steps_add [of sr 1 2 l] unfolding m(1) by (simp add: numeral_3_eq_3)
  then have "steps sr 3 l = steps sr 1 (call_state sr O_StopSimulation reason ?l2)"
    using m(2) by (simp add: numeral_2_eq_2)
  ultimately show ?thesis using h l1 by (auto simp: call_state_def StoppingState_def StoppedState_def)
qed

theorem stop_outcome_witness:
  "lc_currentState (steps example_surroundings 3
     ((lc_init ''P'' OM_Autonomous)\<lparr>lc_stack := [T_Call O_StopSimulation ''x''], lc_currentState := L_Running\<rparr>)) = L_Stopped"
  using stop_outcome [of "(lc_init ''P'' OM_Autonomous)\<lparr>lc_stack := [T_Call O_StopSimulation ''x''], lc_currentState := L_Running\<rparr>"
      "''x''" example_surroundings]
  by (simp add: lc_init_def LifecycleService_new_def SetLifecycleConfiguration_def)

end
