(* ===== verification/DiscoveryStore.thy ===== *)
theory DiscoveryStore
  imports ServiceSerdes "HOL-Library.AList"
begin

text \<open>
  The matching of labels (\<^verbatim>\<open>util/LabelMatching.cpp\<close>) and the store that finds the services a discovery
  handler asks for (\<^verbatim>\<open>core/service/SpecificDiscoveryStore.cpp\<close>). The store keeps services and handlers in clusters
  by label and visits only one cluster per label; the label is chosen so that the cluster is small. An
  \<^verbatim>\<open>std::unordered_map\<close> is an association list in the order of insertion; no result depends on the order but
  that of the calls of handlers. Handlers are numbers, and what an operation does to them is the list of the calls
  it makes. \<^verbatim>\<open>Config::Deserialize\<close> reads YAML with a third-party parser: it is the parameter \<open>deserialize\<close>.

  The handlers may create services while they run. The controllers they create have another type or another key
  than the service that is announced, so the entry the store goes through is not changed.
\<close>

section \<open>Labels\<close>

datatype label_kind = LK_Optional | LK_Mandatory | LK_Other "32 word"

record MatchingLabel =
  ml_key :: string
  ml_value :: string
  ml_kind :: label_kind

fun TryFindLabelByKey :: "string \<Rightarrow> MatchingLabel list \<Rightarrow> MatchingLabel option" where
  "TryFindLabelByKey key [] = None"
| "TryFindLabelByKey key (it # labels) = (if ml_key it = key then Some it else TryFindLabelByKey key labels)"

definition LabelMatchesLabelList :: "MatchingLabel \<Rightarrow> MatchingLabel list \<Rightarrow> bool" where
  "LabelMatchesLabelList label labels =
     (case TryFindLabelByKey (ml_key label) labels of
        None \<Rightarrow> ml_kind label \<noteq> LK_Mandatory
      | Some found \<Rightarrow> ml_value label = ml_value found)"

definition MatchLabels :: "MatchingLabel list \<Rightarrow> MatchingLabel list \<Rightarrow> bool" where
  "MatchLabels labels1 labels2 \<longleftrightarrow>
     list_all (\<lambda>label. LabelMatchesLabelList label labels2) labels1
     \<and> list_all (\<lambda>label. LabelMatchesLabelList label labels1) labels2"

section \<open>The store\<close>

record discovery_cluster =
  dc_nodes :: "ServiceDescriptor list"
  dc_handlers :: "nat list"

definition cluster_empty :: discovery_cluster where
  "cluster_empty = \<lparr>dc_nodes = [], dc_handlers = []\<rparr>"

record discovery_key_node =
  kn_labelMap :: "((string \<times> string) \<times> discovery_cluster) list"
  kn_notLabelMap :: "(string \<times> discovery_cluster) list"
  kn_noLabelCluster :: discovery_cluster
  kn_allCluster :: discovery_cluster

definition key_node_empty :: discovery_key_node where
  "key_node_empty = \<lparr>kn_labelMap = [], kn_notLabelMap = [], kn_noLabelCluster = cluster_empty, kn_allCluster = cluster_empty\<rparr>"

type_synonym filter_type = "string \<times> string"
type_synonym discovery_lookup = "(filter_type \<times> discovery_key_node) list"

text \<open>The value \<^verbatim>\<open>m[k]\<close> refers to, and the map after \<^verbatim>\<open>m[k]\<close>, which inserts the value \<open>d\<close> for a new key.\<close>

definition umap_at :: "'v \<Rightarrow> 'k \<Rightarrow> ('k \<times> 'v) list \<Rightarrow> 'v" where
  "umap_at d k m = (case map_of m k of None \<Rightarrow> d | Some v \<Rightarrow> v)"

definition umap_touch :: "'v \<Rightarrow> 'k \<Rightarrow> ('k \<times> 'v) list \<Rightarrow> ('k \<times> 'v) list" where
  "umap_touch d k m = (case map_of m k of None \<Rightarrow> m @ [(k, d)] | Some _ \<Rightarrow> m)"

abbreviation label_cluster :: "discovery_key_node \<Rightarrow> string \<times> string \<Rightarrow> discovery_cluster" where
  "label_cluster kn k \<equiv> umap_at cluster_empty k (kn_labelMap kn)"

abbreviation not_label_cluster :: "discovery_key_node \<Rightarrow> string \<Rightarrow> discovery_cluster" where
  "not_label_cluster kn k \<equiv> umap_at cluster_empty k (kn_notLabelMap kn)"

definition touch_label :: "string \<times> string \<Rightarrow> discovery_key_node \<Rightarrow> discovery_key_node" where
  "touch_label k kn = kn\<lparr>kn_labelMap := umap_touch cluster_empty k (kn_labelMap kn)\<rparr>"

definition touch_not_label :: "string \<Rightarrow> discovery_key_node \<Rightarrow> discovery_key_node" where
  "touch_not_label k kn = kn\<lparr>kn_notLabelMap := umap_touch cluster_empty k (kn_notLabelMap kn)\<rparr>"

text \<open>
  The search for the label with the smallest cluster, with the number of entries of a cluster as an argument. Looking
  a label up inserts it.
\<close>

fun minimal_label :: "(discovery_cluster \<Rightarrow> nat) \<Rightarrow> MatchingLabel list \<Rightarrow> nat \<Rightarrow> MatchingLabel option
    \<Rightarrow> discovery_key_node \<Rightarrow> discovery_key_node \<times> MatchingLabel option" where
  "minimal_label count [] matchCount outGreedyLabel kn = (kn, outGreedyLabel)"
| "minimal_label count (l # labels) matchCount outGreedyLabel kn =
     (if matchCount \<le> 1 then (kn, outGreedyLabel)
      else case ml_kind l of
        LK_Mandatory \<Rightarrow>
          let kn1 = touch_label (ml_key l, ml_value l) kn;
              relevantNodeCount = count (label_cluster kn1 (ml_key l, ml_value l))
          in if relevantNodeCount < matchCount then minimal_label count labels relevantNodeCount (Some l) kn1
             else minimal_label count labels matchCount outGreedyLabel kn1
      | LK_Optional \<Rightarrow>
          let kn1 = touch_not_label (ml_key l) (touch_label (ml_key l, ml_value l) kn);
              relevantNodeCount = count (label_cluster kn1 (ml_key l, ml_value l)) + count (not_label_cluster kn1 (ml_key l))
          in if relevantNodeCount < matchCount then minimal_label count labels relevantNodeCount (Some l) kn1
             else minimal_label count labels matchCount outGreedyLabel kn1
      | LK_Other _ \<Rightarrow> minimal_label count labels matchCount outGreedyLabel kn)"

definition GetLabelWithMinimalHandlerSet ::
    "MatchingLabel list \<Rightarrow> discovery_key_node \<Rightarrow> discovery_key_node \<times> MatchingLabel option" where
  "GetLabelWithMinimalHandlerSet labels kn =
     minimal_label (\<lambda>c. length (dc_handlers c)) labels (length (dc_handlers (kn_allCluster kn))) None kn"

definition GetLabelWithMinimalNodeSet ::
    "MatchingLabel list \<Rightarrow> discovery_key_node \<Rightarrow> discovery_key_node \<times> MatchingLabel option" where
  "GetLabelWithMinimalNodeSet labels kn =
     minimal_label (\<lambda>c. length (dc_nodes c)) labels (length (dc_nodes (kn_allCluster kn))) None kn"

text \<open>What a search for the greedy label selects from the clusters, in the order of the calls.\<close>

definition selected :: "(discovery_cluster \<Rightarrow> 'a list) \<Rightarrow> MatchingLabel option \<Rightarrow> discovery_key_node \<Rightarrow> discovery_key_node \<times> 'a list" where
  "selected entries greedyLabel kn =
     (case greedyLabel of
        None \<Rightarrow> (kn, entries (kn_allCluster kn))
      | Some g \<Rightarrow>
          let kn1 = (if ml_kind g = LK_Optional then touch_not_label (ml_key g) kn else kn);
              others = (if ml_kind g = LK_Optional
                then entries (not_label_cluster kn1 (ml_key g)) @ entries (kn_noLabelCluster kn1) else []);
              kn2 = touch_label (ml_key g, ml_value g) kn1
          in (kn2, others @ entries (label_cluster kn2 (ml_key g, ml_value g))))"

definition ServiceCreated :: "32 word" where "ServiceCreated = 1"
definition ServiceRemoved :: "32 word" where "ServiceRemoved = 2"

text \<open>A call of a handler with a type of event and a service.\<close>

type_synonym discovery_call = "nat \<times> 32 word \<times> ServiceDescriptor"

definition CallHandlerOnHandlerRegistration ::
    "nat \<Rightarrow> string \<Rightarrow> string \<Rightarrow> MatchingLabel list \<Rightarrow> discovery_lookup \<Rightarrow> discovery_lookup \<times> discovery_call list" where
  "CallHandlerOnHandlerRegistration handler controllerType key labels lookup =
     (let entry = umap_at key_node_empty (controllerType, key) lookup;
          (entry1, greedyLabel) = GetLabelWithMinimalNodeSet labels entry;
          (entry2, nodes) = selected dc_nodes greedyLabel entry1
      in (AList.update (controllerType, key) entry2 lookup, map (\<lambda>sd. (handler, ServiceCreated, sd)) nodes))"

definition CallHandlersOnServiceChange ::
    "32 word \<Rightarrow> string \<Rightarrow> string \<Rightarrow> MatchingLabel list \<Rightarrow> ServiceDescriptor \<Rightarrow> discovery_lookup \<Rightarrow> discovery_lookup \<times> discovery_call list" where
  "CallHandlersOnServiceChange eventType controllerType key labels serviceDescriptor lookup =
     (let entry = umap_at key_node_empty (controllerType, key) lookup;
          (entry1, greedyLabel) = GetLabelWithMinimalHandlerSet labels entry;
          (entry2, handlers) = selected dc_handlers greedyLabel entry1
      in (AList.update (controllerType, key) entry2 lookup, map (\<lambda>h. (h, eventType, serviceDescriptor)) handlers))"

text \<open>
  \<^verbatim>\<open>UpdateDiscoveryClusters\<close>: \<open>represent_label\<close> is the body of its first loop, \<open>update_label\<close> that of its second one.
\<close>

definition represent_label :: "MatchingLabel \<Rightarrow> discovery_key_node \<Rightarrow> discovery_key_node" where
  "represent_label l kn =
     (let kn1 = touch_label (ml_key l, ml_value l) kn;
          firstTimeLabel = (map_of (kn_notLabelMap kn1) (ml_key l) = None);
          kn2 = touch_not_label (ml_key l) kn1
      in if firstTimeLabel
         then let c = not_label_cluster kn2 (ml_key l);
                  c1 = c\<lparr>dc_nodes := dc_nodes c @ dc_nodes (kn_allCluster kn2),
                         dc_handlers := dc_handlers c @ dc_handlers (kn_allCluster kn2)\<rparr>
           in kn2\<lparr>kn_notLabelMap := AList.update (ml_key l) c1 (kn_notLabelMap kn2)\<rparr>
         else kn2)"

definition update_label :: "(discovery_cluster \<Rightarrow> discovery_cluster) \<Rightarrow> MatchingLabel list \<Rightarrow> string
    \<Rightarrow> discovery_key_node \<Rightarrow> discovery_key_node" where
  "update_label updater labels labelKey kn =
     (case TryFindLabelByKey labelKey labels of
        Some foundLabel \<Rightarrow>
          let k = (labelKey, ml_value foundLabel)
          in kn\<lparr>kn_labelMap := AList.update k (updater (label_cluster kn k)) (kn_labelMap kn)\<rparr>
      | None \<Rightarrow> kn\<lparr>kn_notLabelMap := AList.update labelKey (updater (not_label_cluster kn labelKey)) (kn_notLabelMap kn)\<rparr>)"

definition update_clusters :: "(discovery_cluster \<Rightarrow> discovery_cluster) \<Rightarrow> MatchingLabel list
    \<Rightarrow> discovery_key_node \<Rightarrow> discovery_key_node" where
  "update_clusters updater labels entry0 =
     (let entry = entry0\<lparr>kn_allCluster := updater (kn_allCluster entry0)\<rparr>
      in if labels = [] then entry\<lparr>kn_noLabelCluster := updater (kn_noLabelCluster entry)\<rparr>
         else let entry1 = fold represent_label labels entry
           in fold (update_label updater labels) (map fst (kn_notLabelMap entry1)) entry1)"

definition UpdateDiscoveryClusters ::
    "string \<Rightarrow> string \<Rightarrow> MatchingLabel list \<Rightarrow> (discovery_cluster \<Rightarrow> discovery_cluster) \<Rightarrow> discovery_lookup \<Rightarrow> discovery_lookup" where
  "UpdateDiscoveryClusters controllerType key labels updater lookup =
     AList.update (controllerType, key)
       (update_clusters updater labels (umap_at key_node_empty (controllerType, key) lookup)) lookup"

definition InsertLookupNode ::
    "string \<Rightarrow> string \<Rightarrow> MatchingLabel list \<Rightarrow> ServiceDescriptor \<Rightarrow> discovery_lookup \<Rightarrow> discovery_lookup" where
  "InsertLookupNode controllerType key labels serviceDescriptor =
     UpdateDiscoveryClusters controllerType key labels (\<lambda>cluster. cluster\<lparr>dc_nodes := dc_nodes cluster @ [serviceDescriptor]\<rparr>)"

definition InsertLookupHandler ::
    "string \<Rightarrow> string \<Rightarrow> MatchingLabel list \<Rightarrow> nat \<Rightarrow> discovery_lookup \<Rightarrow> discovery_lookup" where
  "InsertLookupHandler controllerType key labels handler =
     UpdateDiscoveryClusters controllerType key labels (\<lambda>cluster. cluster\<lparr>dc_handlers := dc_handlers cluster @ [handler]\<rparr>)"

text \<open>\<^verbatim>\<open>operator==\<close> of service descriptors.\<close>

definition sd_equal :: "ServiceDescriptor \<Rightarrow> ServiceDescriptor \<Rightarrow> bool" where
  "sd_equal a b \<longleftrightarrow> sd_participantId a = sd_participantId b \<and> sd_networkName a = sd_networkName b
     \<and> sd_serviceType a = sd_serviceType b \<and> sd_serviceId a = sd_serviceId b"

definition remove_node :: "ServiceDescriptor \<Rightarrow> discovery_cluster \<Rightarrow> discovery_cluster" where
  "remove_node serviceDescriptor cluster =
     cluster\<lparr>dc_nodes := filter (\<lambda>n. \<not> sd_equal n serviceDescriptor) (dc_nodes cluster)\<rparr>"

definition remove_from_node :: "ServiceDescriptor \<Rightarrow> discovery_key_node \<Rightarrow> discovery_key_node" where
  "remove_from_node sd entry = entry\<lparr>kn_allCluster := remove_node sd (kn_allCluster entry),
     kn_noLabelCluster := remove_node sd (kn_noLabelCluster entry),
     kn_notLabelMap := map (\<lambda>(k, c). (k, remove_node sd c)) (kn_notLabelMap entry),
     kn_labelMap := map (\<lambda>(k, c). (k, remove_node sd c)) (kn_labelMap entry)\<rparr>"

definition RemoveLookupNode :: "string \<Rightarrow> string \<Rightarrow> ServiceDescriptor \<Rightarrow> discovery_lookup \<Rightarrow> discovery_lookup" where
  "RemoveLookupNode controllerType key serviceDescriptor lookup =
     AList.update (controllerType, key)
       (remove_from_node serviceDescriptor (umap_at key_node_empty (controllerType, key) lookup)) lookup"

definition store_RegisterSpecificServiceDiscoveryHandler ::
    "nat \<Rightarrow> string \<Rightarrow> string \<Rightarrow> MatchingLabel list \<Rightarrow> discovery_lookup \<Rightarrow> discovery_lookup \<times> discovery_call list" where
  "store_RegisterSpecificServiceDiscoveryHandler handler controllerType key labels lookup =
     (let (lookup1, calls) = CallHandlerOnHandlerRegistration handler controllerType key labels lookup
      in (InsertLookupHandler controllerType key labels handler lookup1, calls))"

text \<open>The keys and values of the supplemental data.\<close>

definition controllerType :: string where "controllerType = ''controller.type''"
definition controllerTypeDataPublisher :: string where "controllerTypeDataPublisher = ''DataPublisher''"
definition controllerTypeRpcServerInternal :: string where "controllerTypeRpcServerInternal = ''RpcServerInternal''"
definition controllerTypeRpcClient :: string where "controllerTypeRpcClient = ''RpcClient''"
definition controllerTypeServiceDiscovery :: string where "controllerTypeServiceDiscovery = ''ServiceDiscovery''"
definition supplKeyDataPublisherTopic :: string where "supplKeyDataPublisherTopic = ''PubSub::topic''"
definition supplKeyDataPublisherPubUUID :: string where "supplKeyDataPublisherPubUUID = ''PubSub::pubUUID''"
definition supplKeyDataPublisherMediaType :: string where "supplKeyDataPublisherMediaType = ''PubSub::pubMediaType''"
definition supplKeyDataPublisherPubLabels :: string where "supplKeyDataPublisherPubLabels = ''PubSub::pubLabels''"
definition supplKeyRpcServerInternalClientUUID :: string where "supplKeyRpcServerInternalClientUUID = ''Rpc::serverinternal::clientUUID''"
definition supplKeyRpcClientFunctionName :: string where "supplKeyRpcClientFunctionName = ''Rpc::client::functionName''"
definition supplKeyRpcClientMediaType :: string where "supplKeyRpcClientMediaType = ''Rpc::client::mediaType''"
definition supplKeyRpcClientLabels :: string where "supplKeyRpcClientLabels = ''Rpc::client::labels''"
definition supplKeyRpcClientUUID :: string where "supplKeyRpcClientUUID = ''Rpc::client::UUID''"

lemmas discovery_keys = controllerType_def controllerTypeDataPublisher_def controllerTypeRpcServerInternal_def
  controllerTypeRpcClient_def controllerTypeServiceDiscovery_def supplKeyDataPublisherTopic_def
  supplKeyDataPublisherPubUUID_def supplKeyDataPublisherMediaType_def supplKeyDataPublisherPubLabels_def
  supplKeyRpcServerInternalClientUUID_def supplKeyRpcClientFunctionName_def supplKeyRpcClientMediaType_def
  supplKeyRpcClientLabels_def supplKeyRpcClientUUID_def

definition GetSupplementalDataItem :: "string \<Rightarrow> ServiceDescriptor \<Rightarrow> string option" where
  "GetSupplementalDataItem key sd = map_of (sd_supplementalData sd) key"

definition item_or_empty :: "string \<Rightarrow> ServiceDescriptor \<Rightarrow> string" where
  "item_or_empty key sd = (case GetSupplementalDataItem key sd of None \<Rightarrow> '''' | Some v \<Rightarrow> v)"

definition labels_item :: "(string \<Rightarrow> MatchingLabel list result) \<Rightarrow> string \<Rightarrow> ServiceDescriptor \<Rightarrow> MatchingLabel list result" where
  "labels_item deserialize key sd = (case GetSupplementalDataItem key sd of None \<Rightarrow> Inr [] | Some s \<Rightarrow> deserialize s)"

text \<open>The type, key and labels \<^verbatim>\<open>ServiceChange\<close> extracts; \<open>None\<close> for a service the store does not keep.\<close>

definition relevant_information ::
    "(string \<Rightarrow> MatchingLabel list result) \<Rightarrow> ServiceDescriptor \<Rightarrow> (string \<times> string \<times> MatchingLabel list result) option" where
  "relevant_information deserialize sd =
     (case GetSupplementalDataItem controllerType sd of
        None \<Rightarrow> None
      | Some ty \<Rightarrow>
          if ty = controllerTypeRpcServerInternal
          then Some (ty, item_or_empty supplKeyRpcServerInternalClientUUID sd, Inr [])
          else if ty = controllerTypeRpcClient
          then Some (ty, item_or_empty supplKeyRpcClientFunctionName sd, labels_item deserialize supplKeyRpcClientLabels sd)
          else if ty = controllerTypeDataPublisher
          then Some (ty, item_or_empty supplKeyDataPublisherTopic sd, labels_item deserialize supplKeyDataPublisherPubLabels sd)
          else None)"

definition ServiceChange :: "(string \<Rightarrow> MatchingLabel list result) \<Rightarrow> 32 word \<Rightarrow> ServiceDescriptor \<Rightarrow> discovery_lookup
    \<Rightarrow> discovery_lookup \<times> discovery_call list \<times> error option" where
  "ServiceChange deserialize changeType serviceDescriptor lookup =
     (case relevant_information deserialize serviceDescriptor of
        None \<Rightarrow> (lookup, [], None)
      | Some (ty, key, Inl e) \<Rightarrow> (lookup, [], Some e)
      | Some (ty, key, Inr labels) \<Rightarrow>
          let (lookup1, calls) = CallHandlersOnServiceChange changeType ty key labels serviceDescriptor lookup;
              lookup2 = (if changeType = ServiceCreated then InsertLookupNode ty key labels serviceDescriptor lookup1
                else if changeType = ServiceRemoved then RemoveLookupNode ty key serviceDescriptor lookup1
                else lookup1)
          in (lookup2, calls, None))"

section \<open>Clusters after an update\<close>

lemma umap_at_update [simp]: "umap_at d k (AList.update k' v m) = (if k = k' then v else umap_at d k m)"
  by (simp add: umap_at_def update_conv')

lemma umap_at_touch [simp]: "umap_at d k (umap_touch d k' m) = umap_at d k m"
  by (auto simp: umap_at_def umap_touch_def map_add_def split: option.splits)

lemma map_of_touch: "map_of (umap_touch d k' m) k = None \<longleftrightarrow> map_of m k = None \<and> k \<noteq> k'"
  by (auto simp: umap_touch_def map_add_def split: option.splits)

definition known_key :: "discovery_key_node \<Rightarrow> string \<Rightarrow> bool" where
  "known_key kn k \<longleftrightarrow> map_of (kn_notLabelMap kn) k \<noteq> None"

text \<open>Entries that are looked up the same way.\<close>

definition same_clusters :: "discovery_key_node \<Rightarrow> discovery_key_node \<Rightarrow> bool" where
  "same_clusters kn kn' \<longleftrightarrow> kn_allCluster kn' = kn_allCluster kn \<and> kn_noLabelCluster kn' = kn_noLabelCluster kn
     \<and> (\<forall>k. label_cluster kn' k = label_cluster kn k) \<and> (\<forall>k. not_label_cluster kn' k = not_label_cluster kn k)
     \<and> (\<forall>k. known_key kn' k = known_key kn k)"

lemma same_clusters_refl [simp]: "same_clusters kn kn"
  by (simp add: same_clusters_def)

lemma same_clusters_trans: "same_clusters a b \<Longrightarrow> same_clusters b c \<Longrightarrow> same_clusters a c"
  by (simp add: same_clusters_def)

lemma same_touch_label [simp]: "same_clusters kn (touch_label k kn)"
  by (simp add: same_clusters_def touch_label_def known_key_def)

lemma same_touch_not_label: "known_key kn k \<Longrightarrow> same_clusters kn (touch_not_label k kn)"
  by (auto simp: same_clusters_def touch_not_label_def known_key_def umap_touch_def split: option.splits)

text \<open>
  The labels of a request do no harm when there is at most one entry to choose from or when the keys of the optional ones
  are known.
\<close>

definition harmless :: "nat \<Rightarrow> MatchingLabel list \<Rightarrow> discovery_key_node \<Rightarrow> bool" where
  "harmless n labels kn \<longleftrightarrow> n \<le> 1 \<or> (\<forall>l \<in> set labels. ml_kind l = LK_Optional \<longrightarrow> known_key kn (ml_key l))"

lemma harmless_Cons: "harmless n (l # labels) kn \<Longrightarrow> harmless n labels kn"
  by (auto simp: harmless_def)

lemma harmless_same: "same_clusters kn kn' \<Longrightarrow> harmless n labels kn' = harmless n labels kn"
  by (simp add: harmless_def same_clusters_def)

lemma harmless_less: "harmless n labels kn \<Longrightarrow> m \<le> n \<Longrightarrow> harmless m labels kn"
  by (auto simp: harmless_def)

definition candidate :: "MatchingLabel list \<Rightarrow> discovery_key_node \<Rightarrow> MatchingLabel option \<Rightarrow> bool" where
  "candidate labels kn g \<longleftrightarrow> (case g of None \<Rightarrow> True | Some l \<Rightarrow>
     l \<in> set labels \<and> (ml_kind l = LK_Mandatory \<or> ml_kind l = LK_Optional \<and> known_key kn (ml_key l)))"

lemma minimal_label_keeps:
  assumes "minimal_label count labels n g kn = (kn', g')" "harmless n labels kn" "candidate all kn g" "set labels \<subseteq> set all"
  shows "same_clusters kn kn' \<and> candidate all kn g'"
  using assms
proof (induction count labels n g kn rule: minimal_label.induct)
  case (1 count n g kn)
  then show ?case by simp
next
  case (2 count l labels n g kn)
  show ?case
  proof (cases "n \<le> 1")
    case True
    with "2.prems" show ?thesis by simp
  next
    case False
    note IH = "2.IH" [OF False]
    have step: "same_clusters kn kn' \<and> candidate all kn g'"
      if "same_clusters kn kn1" "same_clusters kn1 kn' \<and> candidate all kn1 g'" for kn1
      using that by (auto simp: candidate_def same_clusters_def split: option.splits)
    show ?thesis
    proof (cases "ml_kind l")
      case LK_Mandatory
      let ?kn1 = "touch_label (ml_key l, ml_value l) kn"
      let ?r = "count (label_cluster ?kn1 (ml_key l, ml_value l))"
      have kn1: "same_clusters kn ?kn1" by simp
      have hm: "harmless m labels ?kn1" if "m \<le> n" for m
        using "2.prems"(2) harmless_Cons harmless_less that harmless_same [OF kn1] by blast
      have c: "candidate all ?kn1 g" "candidate all ?kn1 (Some l)"
        using "2.prems"(3,4) LK_Mandatory kn1 by (auto simp: candidate_def same_clusters_def split: option.splits)
      show ?thesis
        using "2.prems"(1,4) False LK_Mandatory IH(3) [OF LK_Mandatory refl refl] IH(4) [OF LK_Mandatory refl refl] hm c step [OF kn1]
        by (auto simp: Let_def split: if_splits)
    next
      case LK_Optional
      let ?kn1 = "touch_not_label (ml_key l) (touch_label (ml_key l, ml_value l) kn)"
      have k: "known_key kn (ml_key l)" using "2.prems"(2) False LK_Optional by (auto simp: harmless_def)
      then have "known_key (touch_label (ml_key l, ml_value l) kn) (ml_key l)"
        by (simp add: known_key_def touch_label_def)
      then have kn1: "same_clusters kn ?kn1" using same_clusters_trans same_touch_label same_touch_not_label by blast
      have hm: "harmless m labels ?kn1" if "m \<le> n" for m
        using "2.prems"(2) harmless_Cons harmless_less that harmless_same [OF kn1] by blast
      have c: "candidate all ?kn1 g" "candidate all ?kn1 (Some l)"
        using "2.prems"(3,4) LK_Optional kn1 k by (auto simp: candidate_def same_clusters_def split: option.splits)
      show ?thesis
        using "2.prems"(1,4) False LK_Optional IH(1) [OF LK_Optional refl refl] IH(2) [OF LK_Optional refl refl] hm c step [OF kn1]
        by (auto simp: Let_def split: if_splits)
    next
      case (LK_Other w)
      then show ?thesis using "2.prems" False IH(5) harmless_Cons by auto
    qed
  qed
qed

lemma selected_keeps:
  assumes "selected entries g kn = (kn', xs)" "candidate labels kn g"
  shows "same_clusters kn kn'"
proof (cases g)
  case None
  with assms show ?thesis by (simp add: selected_def)
next
  case (Some l)
  with assms have "ml_kind l = LK_Optional \<Longrightarrow> same_clusters kn (touch_not_label (ml_key l) kn)"
    by (auto simp: candidate_def intro: same_touch_not_label)
  with assms(1) Some show ?thesis
    using same_clusters_trans [OF _ same_touch_label] by (auto simp: selected_def Let_def split: if_splits)
qed

section \<open>Where entries are found\<close>

text \<open>
  \<open>placed entries kn xs\<close>: the entries that have been inserted with their labels, \<open>xs\<close>, are in the clusters in which a
  search for a label finds them, and nothing else is.
\<close>

definition cluster_for :: "discovery_key_node \<Rightarrow> string \<Rightarrow> MatchingLabel list \<Rightarrow> discovery_cluster" where
  "cluster_for kn k ls = (case TryFindLabelByKey k ls of
     Some l \<Rightarrow> label_cluster kn (k, ml_value l) | None \<Rightarrow> not_label_cluster kn k)"

lemma cluster_for_same: "same_clusters kn kn' \<Longrightarrow> cluster_for kn' k ls = cluster_for kn k ls"
  by (simp add: cluster_for_def same_clusters_def split: option.splits)

definition placed_entry :: "(discovery_cluster \<Rightarrow> 'a list) \<Rightarrow> discovery_key_node \<Rightarrow> 'a \<Rightarrow> MatchingLabel list \<Rightarrow> bool" where
  "placed_entry entries kn x ls \<longleftrightarrow>
     (if ls = [] then x \<in> set (entries (kn_noLabelCluster kn))
      else (\<forall>l \<in> set ls. known_key kn (ml_key l))
        \<and> (\<forall>k. known_key kn k \<longrightarrow> x \<in> set (entries (cluster_for kn k ls))))"

definition placed :: "(discovery_cluster \<Rightarrow> 'a list) \<Rightarrow> discovery_key_node \<Rightarrow> ('a \<times> MatchingLabel list) list \<Rightarrow> bool" where
  "placed entries kn xs \<longleftrightarrow> entries (kn_allCluster kn) = map fst xs \<and> (\<forall>(x, ls) \<in> set xs. placed_entry entries kn x ls)
     \<and> set (entries (kn_noLabelCluster kn)) \<subseteq> fst ` set xs
     \<and> (\<forall>k. set (entries (label_cluster kn k)) \<subseteq> fst ` set xs) \<and> (\<forall>k. set (entries (not_label_cluster kn k)) \<subseteq> fst ` set xs)"

lemma placed_entry_same: "same_clusters kn kn' \<Longrightarrow> placed_entry entries kn' x ls = placed_entry entries kn x ls"
  by (simp add: placed_entry_def cluster_for_same) (simp add: same_clusters_def)

lemma placed_same: "same_clusters kn kn' \<Longrightarrow> placed entries kn xs \<Longrightarrow> placed entries kn' xs"
  by (simp add: placed_def placed_entry_same) (simp add: same_clusters_def)

lemma placed_entry_in:
  "placed_entry entries kn x ls \<Longrightarrow> known_key kn k \<Longrightarrow> ls \<noteq> [] \<Longrightarrow> x \<in> set (entries (cluster_for kn k ls))"
  by (simp add: placed_entry_def)

lemma placed_all: "placed entries kn xs \<Longrightarrow> set (entries (kn_allCluster kn)) = fst ` set xs"
  by (simp add: placed_def)

lemma find_label: "TryFindLabelByKey k ls = Some l \<Longrightarrow> l \<in> set ls \<and> ml_key l = k"
  by (induction k ls rule: TryFindLabelByKey.induct) (auto split: if_splits)

lemma selected_complete:
  assumes "placed entries kn xs" "(x, ls) \<in> set xs" "MatchLabels labels ls" "candidate labels kn g"
    "selected entries g kn = (kn', ys)"
  shows "x \<in> set ys"
proof (cases g)
  case None
  then have "set ys = fst ` set xs" using assms(5) placed_all [OF assms(1)] by (auto simp: selected_def)
  with assms(2) show ?thesis by force
next
  case (Some l)
  have e: "placed_entry entries kn x ls" using assms(1,2) by (auto simp: placed_def)
  have l: "l \<in> set labels" "ml_kind l = LK_Mandatory \<or> ml_kind l = LK_Optional \<and> known_key kn (ml_key l)"
    using assms(4) Some by (auto simp: candidate_def)
  have m: "LabelMatchesLabelList l ls" using assms(3) l(1) by (auto simp: MatchLabels_def list_all_iff)
  have ys: "set (entries (label_cluster kn (ml_key l, ml_value l))) \<subseteq> set ys"
    "ml_kind l = LK_Optional \<Longrightarrow> set (entries (not_label_cluster kn (ml_key l))) \<union> set (entries (kn_noLabelCluster kn)) \<subseteq> set ys"
    using assms(5) Some by (auto simp: selected_def Let_def touch_label_def touch_not_label_def split: if_splits)
  show ?thesis
  proof (cases "TryFindLabelByKey (ml_key l) ls")
    case None
    then have "ml_kind l = LK_Optional" "known_key kn (ml_key l)" using m l(2) by (auto simp: LabelMatchesLabelList_def)
    moreover from this have "x \<in> set (entries (not_label_cluster kn (ml_key l))) \<union> set (entries (kn_noLabelCluster kn))"
      using e None placed_entry_in [OF e] by (cases "ls = []") (auto simp: placed_entry_def cluster_for_def)
    ultimately show ?thesis using ys(2) by auto
  next
    case (Some f)
    then have f: "f \<in> set ls" "ml_key f = ml_key l" "ml_value f = ml_value l"
      using m find_label by (auto simp: LabelMatchesLabelList_def)
    then have "known_key kn (ml_key l)" "ls \<noteq> []" using e by (auto simp: placed_entry_def split: if_splits)
    then have "x \<in> set (entries (label_cluster kn (ml_key l, ml_value l)))"
      using placed_entry_in [OF e] Some f(3) by (force simp: cluster_for_def)
    then show ?thesis using ys(1) by auto
  qed
qed

lemma selected_sound:
  assumes "placed entries kn xs" "selected entries g kn = (kn', ys)"
  shows "set ys \<subseteq> fst ` set xs"
proof (cases g)
  case None
  with assms(2) placed_all [OF assms(1)] show ?thesis by (auto simp: selected_def)
next
  case (Some l)
  have "set ys \<subseteq> set (entries (not_label_cluster kn (ml_key l))) \<union> set (entries (kn_noLabelCluster kn))
      \<union> set (entries (label_cluster kn (ml_key l, ml_value l)))"
    using assms(2) Some by (auto simp: selected_def Let_def touch_label_def touch_not_label_def split: if_splits)
  with assms(1) show ?thesis unfolding placed_def by blast
qed

lemma placedI:
  assumes "entries (kn_allCluster kn) = map fst xs" "\<And>x ls. (x, ls) \<in> set xs \<Longrightarrow> placed_entry entries kn x ls"
    "\<And>x. x \<in> set (entries (kn_noLabelCluster kn)) \<Longrightarrow> x \<in> fst ` set xs"
    "\<And>x c. x \<in> set (entries (label_cluster kn c)) \<Longrightarrow> x \<in> fst ` set xs"
    "\<And>x k. x \<in> set (entries (not_label_cluster kn k)) \<Longrightarrow> x \<in> fst ` set xs"
  shows "placed entries kn xs"
  using assms unfolding placed_def by blast

lemma placedD:
  assumes "placed entries kn xs"
  shows "entries (kn_allCluster kn) = map fst xs" "(x, ls) \<in> set xs \<Longrightarrow> placed_entry entries kn x ls"
    "x \<in> set (entries (kn_noLabelCluster kn)) \<Longrightarrow> x \<in> fst ` set xs"
    "x \<in> set (entries (label_cluster kn c)) \<Longrightarrow> x \<in> fst ` set xs"
    "x \<in> set (entries (not_label_cluster kn k)) \<Longrightarrow> x \<in> fst ` set xs"
  using assms unfolding placed_def by blast+

section \<open>Insertions and removals\<close>

text \<open>The first loop of \<^verbatim>\<open>UpdateDiscoveryClusters\<close>: what is new about an entry are its labels.\<close>

lemma umap_at_none: "map_of m k = None \<Longrightarrow> umap_at d k m = d"
  by (simp add: umap_at_def)

lemma cluster_append: "cluster_empty\<lparr>dc_nodes := dc_nodes cluster_empty @ dc_nodes c, dc_handlers := dc_handlers cluster_empty @ dc_handlers c\<rparr> = c"
  by (simp add: cluster_empty_def)

lemma represent_label_keeps:
  "kn_allCluster (represent_label l kn) = kn_allCluster kn"
  "kn_noLabelCluster (represent_label l kn) = kn_noLabelCluster kn"
  "label_cluster (represent_label l kn) k = label_cluster kn k"
  "known_key (represent_label l kn) k' \<longleftrightarrow> known_key kn k' \<or> k' = ml_key l"
  "not_label_cluster (represent_label l kn) k' =
     (if k' = ml_key l \<and> \<not> known_key kn k' then kn_allCluster kn else not_label_cluster kn k')"
  by (auto simp: represent_label_def touch_label_def touch_not_label_def Let_def known_key_def map_of_touch update_conv'
      umap_at_none cluster_append simp flip: not_None_eq)

lemma represent_labels_keep:
  "kn_allCluster (fold represent_label ls kn) = kn_allCluster kn"
  "kn_noLabelCluster (fold represent_label ls kn) = kn_noLabelCluster kn"
  "label_cluster (fold represent_label ls kn) k = label_cluster kn k"
  "known_key (fold represent_label ls kn) k' \<longleftrightarrow> known_key kn k' \<or> k' \<in> ml_key ` set ls"
  "not_label_cluster (fold represent_label ls kn) k' =
     (if k' \<in> ml_key ` set ls \<and> \<not> known_key kn k' then kn_allCluster kn else not_label_cluster kn k')"
  by (induction ls arbitrary: kn) (auto simp: represent_label_keeps)

text \<open>The second loop adds to clusters.\<close>

lemma update_label_keeps:
  "kn_allCluster (update_label f ls key kn) = kn_allCluster kn"
  "kn_noLabelCluster (update_label f ls key kn) = kn_noLabelCluster kn"
  "known_key kn key \<Longrightarrow> known_key (update_label f ls key kn) k = known_key kn k"
  by (auto simp: update_label_def Let_def known_key_def update_conv' split: option.splits)

lemma update_label_clusters:
  "label_cluster (update_label f ls key kn) k = label_cluster kn k
     \<or> label_cluster (update_label f ls key kn) k = f (label_cluster kn k)"
  "not_label_cluster (update_label f ls key kn) k' = not_label_cluster kn k'
     \<or> not_label_cluster (update_label f ls key kn) k' = f (not_label_cluster kn k')"
  "cluster_for (update_label f ls key kn) key ls = f (cluster_for kn key ls)"
  by (auto simp: update_label_def Let_def cluster_for_def split: option.splits)

definition grows :: "(discovery_cluster \<Rightarrow> 'a list) \<Rightarrow> 'a list \<Rightarrow> discovery_key_node \<Rightarrow> discovery_key_node \<Rightarrow> bool" where
  "grows entries new kn kn' \<longleftrightarrow> kn_allCluster kn' = kn_allCluster kn \<and> kn_noLabelCluster kn' = kn_noLabelCluster kn
     \<and> (\<forall>k. known_key kn' k = known_key kn k)
     \<and> (\<forall>c. set (entries (label_cluster kn c)) \<subseteq> set (entries (label_cluster kn' c))
          \<and> set (entries (label_cluster kn' c)) \<subseteq> set (entries (label_cluster kn c)) \<union> set new)
     \<and> (\<forall>k. set (entries (not_label_cluster kn k)) \<subseteq> set (entries (not_label_cluster kn' k))
          \<and> set (entries (not_label_cluster kn' k)) \<subseteq> set (entries (not_label_cluster kn k)) \<union> set new)"

lemma grows_trans: "grows entries new a b \<Longrightarrow> grows entries new b c \<Longrightarrow> grows entries new a c"
  by (fastforce simp: grows_def)

lemma growsD:
  assumes "grows entries new kn kn'"
  shows "x \<in> set (entries (label_cluster kn' c)) \<Longrightarrow> x \<in> set (entries (label_cluster kn c)) \<union> set new"
    "x \<in> set (entries (not_label_cluster kn' k)) \<Longrightarrow> x \<in> set (entries (not_label_cluster kn k)) \<union> set new"
  using assms unfolding grows_def by blast+

lemma grows_cluster_for: "grows entries new kn kn' \<Longrightarrow> set (entries (cluster_for kn k ls)) \<subseteq> set (entries (cluster_for kn' k ls))"
  by (simp add: grows_def cluster_for_def split: option.splits)

lemma grows_update_label:
  assumes "\<And>c. entries (f c) = entries c @ new" "known_key kn key"
  shows "grows entries new kn (update_label f ls key kn)"
proof -
  have "set (entries d) \<subseteq> set (entries d')" "set (entries d') \<subseteq> set (entries d) \<union> set new" if "d' = d \<or> d' = f d" for d d'
    using that assms(1) by auto
  with assms(2) update_label_clusters(1,2) show ?thesis by (simp add: grows_def update_label_keeps)
qed

lemma grows_update_labels:
  assumes "\<And>c. entries (f c) = entries c @ new" "\<forall>k \<in> set keys. known_key kn k"
  shows "grows entries new kn (fold (update_label f ls) keys kn)"
  using assms(2)
proof (induction keys arbitrary: kn)
  case Nil
  then show ?case by (simp add: grows_def)
next
  case (Cons key keys)
  let ?kn1 = "update_label f ls key kn"
  have 1: "grows entries new kn ?kn1" using Cons.prems assms(1) by (simp add: grows_update_label)
  then have "\<forall>k \<in> set keys. known_key ?kn1 k" using Cons.prems by (simp add: grows_def)
  from grows_trans [OF 1 Cons.IH [OF this]] show ?case by simp
qed

lemma update_labels_reach:
  assumes "\<And>c. entries (f c) = entries c @ new" "\<forall>k \<in> set keys. known_key kn k" "k \<in> set keys"
  shows "set new \<subseteq> set (entries (cluster_for (fold (update_label f ls) keys kn) k ls))"
  using assms(2,3)
proof (induction keys arbitrary: kn)
  case (Cons key keys)
  let ?kn1 = "update_label f ls key kn"
  have known: "\<forall>k \<in> set keys. known_key ?kn1 k" using Cons.prems(1) by (simp add: update_label_keeps)
  show ?case
  proof (cases "k \<in> set keys")
    case True
    then show ?thesis using Cons.IH [OF known] by simp
  next
    case False
    then have "set new \<subseteq> set (entries (cluster_for ?kn1 k ls))"
      using Cons.prems(2) update_label_clusters(3) [of f ls key kn] assms(1) by simp
    then show ?thesis using grows_cluster_for [OF grows_update_labels [where entries = entries, OF assms(1) known]] by fastforce
  qed
qed simp

text \<open>Inserting with labels: \<open>f\<close> adds \<open>new\<close>, or nothing, to the entries in question.\<close>

lemma known_keys: "k \<in> set (map fst (kn_notLabelMap kn)) \<longleftrightarrow> known_key kn k"
  by (auto simp: known_key_def map_of_eq_None_iff)

lemma placed_insert:
  assumes "placed entries kn xs" "\<And>c. entries (f c) = entries c @ new"
  shows "placed entries (update_clusters f labels kn) (xs @ map (\<lambda>x. (x, labels)) new)"
proof (cases "labels = []")
  case True
  let ?kn' = "kn\<lparr>kn_allCluster := f (kn_allCluster kn), kn_noLabelCluster := f (kn_noLabelCluster kn)\<rparr>"
  have same: "cluster_for ?kn' k ls = cluster_for kn k ls" "known_key ?kn' k = known_key kn k" for k ls
    by (simp_all add: cluster_for_def known_key_def split: option.splits)
  have fst: "fst ` set (xs @ map (\<lambda>x. (x, labels)) new) = fst ` set xs \<union> set new" by (simp add: image_Un image_image)
  have "placed entries ?kn' (xs @ map (\<lambda>x. (x, labels)) new)"
  proof (rule placedI, unfold fst)
    show "entries (kn_allCluster ?kn') = map fst (xs @ map (\<lambda>x. (x, labels)) new)"
      using assms(2) placedD(1) [OF assms(1)] by (simp add: comp_def)
    have "placed_entry entries kn x ls \<Longrightarrow> placed_entry entries ?kn' x ls" for x ls
      using assms(2) by (simp add: placed_entry_def same)
    moreover have "x \<in> set new \<Longrightarrow> placed_entry entries ?kn' x labels" for x
      using True assms(2) by (simp add: placed_entry_def)
    ultimately show "(x, ls) \<in> set (xs @ map (\<lambda>x. (x, labels)) new) \<Longrightarrow> placed_entry entries ?kn' x ls" for x ls
      using placedD(2) [OF assms(1)] by auto
  qed (use placedD(3-5) [OF assms(1)] assms(2) in auto)
  with True show ?thesis by (simp add: update_clusters_def)
next
  case False
  let ?kn0 = "kn\<lparr>kn_allCluster := f (kn_allCluster kn)\<rparr>"
  let ?kn1 = "fold represent_label labels ?kn0"
  let ?kn' = "fold (update_label f labels) (map fst (kn_notLabelMap ?kn1)) ?kn1"
  have known0: "known_key ?kn0 k = known_key kn k" for k by (simp add: known_key_def)
  have known: "\<forall>k \<in> set (map fst (kn_notLabelMap ?kn1)). known_key ?kn1 k" by (metis known_keys)
  note g = grows_update_labels [where entries = entries, OF assms(2) known, of labels]
  have known': "known_key ?kn' k \<longleftrightarrow> known_key kn k \<or> k \<in> ml_key ` set labels" for k
    using g represent_labels_keep(4) [of labels ?kn0 k] known0 by (simp add: grows_def)
  have nolabel: "kn_noLabelCluster ?kn' = kn_noLabelCluster kn" using g by (simp add: grows_def represent_labels_keep)
  have all1: "entries (kn_allCluster ?kn1) = map fst xs @ new"
    using assms by (simp add: represent_labels_keep(1) placed_def)
  have not1: "set (entries (not_label_cluster ?kn1 k)) \<subseteq> fst ` set xs \<union> set new" for k
    using assms(1) all1 by (auto simp: represent_labels_keep placed_def assms(2))
  have lab1: "set (entries (label_cluster ?kn1 c)) \<subseteq> fst ` set xs" for c
    using placedD(4) [OF assms(1), of _ c] by (auto simp: represent_labels_keep)
  have new: "placed_entry entries ?kn' x labels" if "x \<in> set new" for x
    using False that known' update_labels_reach [where entries = entries, OF assms(2) known, of _ labels] known_keys
      represent_labels_keep(4) [of labels ?kn0] known0
    by (auto simp: placed_entry_def)
  have old: "placed_entry entries ?kn' x ls" if "(x, ls) \<in> set xs" for x ls
  proof -
    have e: "placed_entry entries kn x ls" using that assms(1) by (auto simp: placed_def)
    have in1: "x \<in> set (entries (cluster_for ?kn1 k ls))" if "known_key ?kn' k" "ls \<noteq> []" for k
    proof (cases "known_key kn k")
      case True
      then show ?thesis using e that(2) placed_entry_in [OF e True] known0
        by (auto simp: cluster_for_def represent_labels_keep split: option.splits)
    next
      case False
      then have "TryFindLabelByKey k ls = None" using e that(2) find_label [of k ls]
        by (cases "TryFindLabelByKey k ls") (auto simp: placed_entry_def)
      moreover have "k \<in> ml_key ` set labels" using that(1) known' False by simp
      moreover have "x \<in> fst ` set xs" using \<open>(x, ls) \<in> set xs\<close> by force
      ultimately show ?thesis using False known0 all1 by (auto simp: cluster_for_def represent_labels_keep)
    qed
    show ?thesis
    proof (cases "ls = []")
      case True
      then show ?thesis using e nolabel by (simp add: placed_entry_def)
    next
      case False
      then have "known_key ?kn' k \<Longrightarrow> x \<in> set (entries (cluster_for ?kn' k ls))" for k
        using in1 grows_cluster_for [OF g] by blast
      then show ?thesis using e False known' by (simp add: placed_entry_def)
    qed
  qed
  have fst: "fst ` set (xs @ map (\<lambda>x. (x, labels)) new) = fst ` set xs \<union> set new" by (simp add: image_Un image_image)
  have "placed entries ?kn' (xs @ map (\<lambda>x. (x, labels)) new)"
  proof (rule placedI, unfold fst)
    show "entries (kn_allCluster ?kn') = map fst (xs @ map (\<lambda>x. (x, labels)) new)"
      using g all1 by (simp add: grows_def comp_def)
    show "(x, ls) \<in> set (xs @ map (\<lambda>x. (x, labels)) new) \<Longrightarrow> placed_entry entries ?kn' x ls" for x ls
      using new old by auto
    show "x \<in> set (entries (kn_noLabelCluster ?kn')) \<Longrightarrow> x \<in> fst ` set xs \<union> set new" for x
      unfolding nolabel using placedD(3) [OF assms(1)] by blast
    show "x \<in> set (entries (label_cluster ?kn' c)) \<Longrightarrow> x \<in> fst ` set xs \<union> set new" for x c
      using growsD(1) [OF g] lab1 by blast
    show "x \<in> set (entries (not_label_cluster ?kn' k)) \<Longrightarrow> x \<in> fst ` set xs \<union> set new" for x k
      using growsD(2) [OF g] not1 by blast
  qed
  with False show ?thesis by (simp add: update_clusters_def Let_def)
qed

text \<open>Removal filters every cluster.\<close>

lemma umap_at_remove: "umap_at cluster_empty k (map (\<lambda>(k, c). (k, remove_node sd c)) m) = remove_node sd (umap_at cluster_empty k m)"
  by (auto simp: umap_at_def map_of_map remove_node_def cluster_empty_def split: option.splits)

lemma remove_from_node_keeps:
  "label_cluster (remove_from_node sd kn) k = remove_node sd (label_cluster kn k)"
  "not_label_cluster (remove_from_node sd kn) k' = remove_node sd (not_label_cluster kn k')"
  "cluster_for (remove_from_node sd kn) k' ls = remove_node sd (cluster_for kn k' ls)"
  "known_key (remove_from_node sd kn) k' = known_key kn k'"
  "kn_allCluster (remove_from_node sd kn) = remove_node sd (kn_allCluster kn)"
  "kn_noLabelCluster (remove_from_node sd kn) = remove_node sd (kn_noLabelCluster kn)"
  by (auto simp: remove_from_node_def umap_at_remove known_key_def cluster_for_def map_of_map split: option.splits)

lemma placed_remove:
  assumes "placed dc_nodes kn xs"
  shows "placed dc_nodes (remove_from_node sd kn) (filter (\<lambda>(n, ls). \<not> sd_equal n sd) xs)"
proof -
  have entry: "placed_entry dc_nodes (remove_from_node sd kn) x ls"
    if "placed_entry dc_nodes kn x ls" "\<not> sd_equal x sd" for x ls
    using that by (simp add: placed_entry_def remove_from_node_keeps) (simp add: remove_node_def)
  have "map fst (filter (\<lambda>(n, ls). \<not> sd_equal n sd) xs) = filter (\<lambda>n. \<not> sd_equal n sd) (map fst xs)"
    by (induction xs) auto
  moreover have "fst ` set (filter (\<lambda>(n, ls). \<not> sd_equal n sd) xs) = {n \<in> fst ` set xs. \<not> sd_equal n sd}" by force
  ultimately show ?thesis
    using placedD [OF assms] entry by (intro placedI) (auto simp: remove_from_node_keeps remove_node_def)
qed

lemma placed_remove_handlers:
  assumes "placed dc_handlers kn hs"
  shows "placed dc_handlers (remove_from_node sd kn) hs"
proof -
  have "placed_entry dc_handlers kn x ls \<Longrightarrow> placed_entry dc_handlers (remove_from_node sd kn) x ls" for x ls
    by (simp add: placed_entry_def remove_from_node_keeps) (simp add: remove_node_def)
  then show ?thesis
    using placedD [OF assms] by (intro placedI) (auto simp: remove_from_node_keeps remove_node_def)
qed

section \<open>Histories of a store\<close>

text \<open>
  A request is careful when at most one entry can match it or when the keys of its optional labels have been used before for the
  same type and key.
\<close>

definition careful :: "MatchingLabel list \<Rightarrow> 'a list \<Rightarrow> MatchingLabel list list \<Rightarrow> bool" where
  "careful labels others used \<longleftrightarrow> length others \<le> 1 \<or>
     (\<forall>l \<in> set labels. ml_kind l = LK_Optional \<longrightarrow> (\<exists>ls \<in> set used. ml_key l \<in> ml_key ` set ls))"

text \<open>The handlers and the services of a store with their labels, by type and key.\<close>

type_synonym 'a filed = "filter_type \<Rightarrow> ('a \<times> MatchingLabel list) list"

inductive discovery_run :: "(string \<Rightarrow> MatchingLabel list result) \<Rightarrow> discovery_lookup \<Rightarrow> nat filed \<Rightarrow> ServiceDescriptor filed \<Rightarrow> bool"
  for deserialize where
  run_init: "discovery_run deserialize [] (\<lambda>_. []) (\<lambda>_. [])"
| run_register: "discovery_run deserialize L hs ns \<Longrightarrow>
    careful labels (ns (ty, key)) (map snd (hs (ty, key)) @ map snd (ns (ty, key))) \<Longrightarrow>
    store_RegisterSpecificServiceDiscoveryHandler h ty key labels L = (L', calls) \<Longrightarrow>
    discovery_run deserialize L' (hs((ty, key) := hs (ty, key) @ [(h, labels)])) ns"
| run_created: "discovery_run deserialize L hs ns \<Longrightarrow>
    relevant_information deserialize sd = Some (ty, key, Inr labels) \<Longrightarrow>
    careful labels (hs (ty, key)) (map snd (hs (ty, key)) @ map snd (ns (ty, key))) \<Longrightarrow>
    ServiceChange deserialize ServiceCreated sd L = (L', calls, None) \<Longrightarrow>
    discovery_run deserialize L' hs (ns((ty, key) := ns (ty, key) @ [(sd, labels)]))"
| run_removed: "discovery_run deserialize L hs ns \<Longrightarrow>
    relevant_information deserialize sd = Some (ty, key, Inr labels) \<Longrightarrow>
    careful labels (hs (ty, key)) (map snd (hs (ty, key)) @ map snd (ns (ty, key))) \<Longrightarrow>
    ServiceChange deserialize ServiceRemoved sd L = (L', calls, None) \<Longrightarrow>
    discovery_run deserialize L' hs (ns((ty, key) := filter (\<lambda>(n, ls). \<not> sd_equal n sd) (ns (ty, key))))"

definition store_inv :: "discovery_lookup \<Rightarrow> nat filed \<Rightarrow> ServiceDescriptor filed \<Rightarrow> bool" where
  "store_inv L hs ns \<longleftrightarrow> (\<forall>k. placed dc_handlers (umap_at key_node_empty k L) (hs k) \<and> placed dc_nodes (umap_at key_node_empty k L) (ns k))"

lemma placed_empty: "placed dc_nodes key_node_empty []" "placed dc_handlers key_node_empty []"
  by (auto intro!: placedI simp: key_node_empty_def cluster_empty_def umap_at_def)

lemma store_inv_init: "store_inv [] (\<lambda>_. []) (\<lambda>_. [])"
  by (simp add: store_inv_def umap_at_none placed_empty)

lemma store_inv_update:
  assumes "store_inv L hs ns" "placed dc_handlers kn hs'" "placed dc_nodes kn ns'"
  shows "store_inv (AList.update k kn L) (hs(k := hs')) (ns(k := ns'))"
  using assms by (simp add: store_inv_def)

lemma placed_known: "placed entries kn xs \<Longrightarrow> ls \<in> snd ` set xs \<Longrightarrow> l \<in> set ls \<Longrightarrow> known_key kn (ml_key l)"
  by (auto dest!: placedD(2) simp: placed_entry_def split: if_splits)

lemma careful_harmless:
  assumes "placed dc_handlers kn hs" "placed dc_nodes kn ns" "careful labels others (map snd hs @ map snd ns)"
  shows "harmless (length others) labels kn"
  unfolding harmless_def
proof (intro disjCI ballI impI)
  fix l assume l: "\<not> (\<forall>l \<in> set labels. ml_kind l = LK_Optional \<longrightarrow> known_key kn (ml_key l))"
  have "known_key kn (ml_key l)" if "ls \<in> snd ` set hs \<union> snd ` set ns" "ml_key l \<in> ml_key ` set ls" for l ls
    using that placed_known [OF assms(1)] placed_known [OF assms(2)] by (metis UnE imageE)
  with assms(3) l show "length others \<le> 1" unfolding careful_def by (metis image_set set_append)
qed

text \<open>A search in an entry: it leaves the clusters as they are, finds only what has been inserted, and finds every match.\<close>

lemma search:
  assumes "placed entries kn xs" "harmless (length xs) labels kn"
    "minimal_label (\<lambda>c. length (entries c)) labels (length (entries (kn_allCluster kn))) None kn = (kn1, g)"
    "selected entries g kn1 = (kn2, found)"
  shows "same_clusters kn kn2" "set found \<subseteq> fst ` set xs" "(x, ls) \<in> set xs \<Longrightarrow> MatchLabels labels ls \<Longrightarrow> x \<in> set found"
proof -
  have "harmless (length (entries (kn_allCluster kn))) labels kn" using assms(2) placedD(1) [OF assms(1)] by simp
  from minimal_label_keeps [OF assms(3) this, of labels]
  have m: "same_clusters kn kn1" "candidate labels kn g" by (simp_all add: candidate_def)
  then have c: "candidate labels kn1 g" by (auto simp: candidate_def same_clusters_def split: option.splits)
  from m(1) selected_keeps [OF assms(4) c] show "same_clusters kn kn2" by (rule same_clusters_trans)
  from placed_same [OF m(1) assms(1)] selected_sound [OF _ assms(4)] selected_complete [OF _ _ _ c assms(4)]
  show "set found \<subseteq> fst ` set xs" "(x, ls) \<in> set xs \<Longrightarrow> MatchLabels labels ls \<Longrightarrow> x \<in> set found" by blast+
qed

lemma register_step:
  assumes inv: "store_inv L hs ns" and safe: "careful labels (ns (ty, key)) (map snd (hs (ty, key)) @ map snd (ns (ty, key)))"
    and step: "store_RegisterSpecificServiceDiscoveryHandler h ty key labels L = (L', calls)"
  shows "store_inv L' (hs((ty, key) := hs (ty, key) @ [(h, labels)])) ns"
    "set calls \<subseteq> {(h, ServiceCreated, sd) |sd. sd \<in> fst ` set (ns (ty, key))}"
    "(sd, ls) \<in> set (ns (ty, key)) \<Longrightarrow> MatchLabels labels ls \<Longrightarrow> (h, ServiceCreated, sd) \<in> set calls"
proof -
  let ?kn = "umap_at key_node_empty (ty, key) L"
  have p: "placed dc_handlers ?kn (hs (ty, key))" "placed dc_nodes ?kn (ns (ty, key))" using inv by (auto simp: store_inv_def)
  obtain kn1 g kn2 found where s: "GetLabelWithMinimalNodeSet labels ?kn = (kn1, g)" "selected dc_nodes g kn1 = (kn2, found)"
    by (metis surj_pair)
  note f = search [where entries = dc_nodes, OF p(2) careful_harmless [OF p safe] s [unfolded GetLabelWithMinimalNodeSet_def]]
  have calls: "calls = map (\<lambda>sd. (h, ServiceCreated, sd)) found"
    and L': "L' = AList.update (ty, key) (update_clusters (\<lambda>c. c\<lparr>dc_handlers := dc_handlers c @ [h]\<rparr>) labels kn2) (AList.update (ty, key) kn2 L)"
    using step s by (simp_all add: store_RegisterSpecificServiceDiscoveryHandler_def CallHandlerOnHandlerRegistration_def
        InsertLookupHandler_def UpdateDiscoveryClusters_def)
  let ?f = "\<lambda>c. c\<lparr>dc_handlers := dc_handlers c @ [h]\<rparr>"
  have p2: "placed dc_handlers kn2 (hs (ty, key))" "placed dc_nodes kn2 (ns (ty, key))"
    using placed_same [OF f(1) p(1)] placed_same [OF f(1) p(2)] by auto
  have "placed dc_handlers (update_clusters ?f labels kn2) (hs (ty, key) @ [(h, labels)])"
    using placed_insert [OF p2(1), of ?f "[h]" labels] by simp
  moreover have "placed dc_nodes (update_clusters ?f labels kn2) (ns (ty, key))"
    using placed_insert [OF p2(2), of ?f "[]" labels] by simp
  ultimately show "store_inv L' (hs((ty, key) := hs (ty, key) @ [(h, labels)])) ns"
    using inv unfolding L' store_inv_def by simp
  show "set calls \<subseteq> {(h, ServiceCreated, sd) |sd. sd \<in> fst ` set (ns (ty, key))}"
    "(sd, ls) \<in> set (ns (ty, key)) \<Longrightarrow> MatchLabels labels ls \<Longrightarrow> (h, ServiceCreated, sd) \<in> set calls"
    using f(2,3) by (auto simp: calls)
qed

lemma change_step:
  assumes inv: "store_inv L hs ns" and safe: "careful labels (hs (ty, key)) (map snd (hs (ty, key)) @ map snd (ns (ty, key)))"
    and info: "relevant_information deserialize sd = Some (ty, key, Inr labels)"
    and step: "ServiceChange deserialize changeType sd L = (L', calls, err)"
  shows "changeType = ServiceCreated \<Longrightarrow> store_inv L' hs (ns((ty, key) := ns (ty, key) @ [(sd, labels)]))"
    "changeType = ServiceRemoved \<Longrightarrow> store_inv L' hs (ns((ty, key) := filter (\<lambda>(n, ls). \<not> sd_equal n sd) (ns (ty, key))))"
    "set calls \<subseteq> {(h, changeType, sd) |h. h \<in> fst ` set (hs (ty, key))}"
    "(h, ls) \<in> set (hs (ty, key)) \<Longrightarrow> MatchLabels labels ls \<Longrightarrow> (h, changeType, sd) \<in> set calls"
proof -
  let ?kn = "umap_at key_node_empty (ty, key) L"
  have p: "placed dc_handlers ?kn (hs (ty, key))" "placed dc_nodes ?kn (ns (ty, key))" using inv by (auto simp: store_inv_def)
  obtain kn1 g kn2 found where s: "GetLabelWithMinimalHandlerSet labels ?kn = (kn1, g)" "selected dc_handlers g kn1 = (kn2, found)"
    by (metis surj_pair)
  note f = search [where entries = dc_handlers, OF p(1) careful_harmless [OF p safe] s [unfolded GetLabelWithMinimalHandlerSet_def]]
  have calls: "calls = map (\<lambda>h. (h, changeType, sd)) found"
    and created: "changeType = ServiceCreated \<Longrightarrow> L' = AList.update (ty, key)
      (update_clusters (\<lambda>c. c\<lparr>dc_nodes := dc_nodes c @ [sd]\<rparr>) labels kn2) (AList.update (ty, key) kn2 L)"
    and removed: "changeType = ServiceRemoved \<Longrightarrow> L' = AList.update (ty, key) (remove_from_node sd kn2) (AList.update (ty, key) kn2 L)"
    using step s info by (auto simp: ServiceChange_def CallHandlersOnServiceChange_def InsertLookupNode_def RemoveLookupNode_def
        UpdateDiscoveryClusters_def ServiceCreated_def ServiceRemoved_def)
  let ?f = "\<lambda>c. c\<lparr>dc_nodes := dc_nodes c @ [sd]\<rparr>"
  have p2: "placed dc_handlers kn2 (hs (ty, key))" "placed dc_nodes kn2 (ns (ty, key))"
    using placed_same [OF f(1) p(1)] placed_same [OF f(1) p(2)] by auto
  have "placed dc_nodes (update_clusters ?f labels kn2) (ns (ty, key) @ [(sd, labels)])"
    using placed_insert [OF p2(2), of ?f "[sd]" labels] by simp
  moreover have "placed dc_handlers (update_clusters ?f labels kn2) (hs (ty, key))"
    using placed_insert [OF p2(1), of ?f "[]" labels] by simp
  ultimately show "changeType = ServiceCreated \<Longrightarrow> store_inv L' hs (ns((ty, key) := ns (ty, key) @ [(sd, labels)]))"
    using inv created unfolding store_inv_def by simp
  show "changeType = ServiceRemoved \<Longrightarrow> store_inv L' hs (ns((ty, key) := filter (\<lambda>(n, ls). \<not> sd_equal n sd) (ns (ty, key))))"
    using inv removed placed_remove [OF p2(2)] placed_remove_handlers [OF p2(1)] unfolding store_inv_def by simp
  show "set calls \<subseteq> {(h, changeType, sd) |h. h \<in> fst ` set (hs (ty, key))}"
    "(h, ls) \<in> set (hs (ty, key)) \<Longrightarrow> MatchLabels labels ls \<Longrightarrow> (h, changeType, sd) \<in> set calls"
    using f(2,3) by (auto simp: calls)
qed

lemma discovery_run_inv: "discovery_run deserialize L hs ns \<Longrightarrow> store_inv L hs ns"
proof (induction rule: discovery_run.induct)
  case run_init
  show ?case by (rule store_inv_init)
next
  case (run_register L hs ns labels ty key h L' calls)
  then show ?case using register_step(1) by blast
next
  case (run_created L hs ns sd ty key labels L' calls)
  then show ?case using change_step(1) by blast
next
  case (run_removed L hs ns sd ty key labels L' calls)
  then show ?case using change_step(2) by blast
qed

section \<open>Properties\<close>



text \<open>Publishers with one label, for examples.\<close>

definition example_label :: "label_kind \<Rightarrow> string \<Rightarrow> MatchingLabel" where
  "example_label kind k = \<lparr>ml_key = k, ml_value = ''1'', ml_kind = kind\<rparr>"

definition example_publisher :: "64 word \<Rightarrow> string \<Rightarrow> ServiceDescriptor" where
  "example_publisher i label = \<lparr>sd_participantName = ''P'', sd_participantId = 1, sd_serviceType = 2, sd_networkName = ''N'',
     sd_networkType = 0, sd_serviceName = ''S'', sd_serviceId = i,
     sd_supplementalData = [(controllerType, controllerTypeDataPublisher), (supplKeyDataPublisherPubLabels, label),
       (supplKeyDataPublisherTopic, ''T'')]\<rparr>"

definition example_deserialize :: "label_kind \<Rightarrow> string \<Rightarrow> MatchingLabel list result" where
  "example_deserialize kind s = Inr [example_label kind s]"


lemma example_information:
  "relevant_information (example_deserialize kind) (example_publisher i label) =
     Some (controllerTypeDataPublisher, ''T'', Inr [example_label kind label])"
  by (simp add: relevant_information_def example_publisher_def GetSupplementalDataItem_def item_or_empty_def labels_item_def
      example_deserialize_def discovery_keys)

definition example_store :: discovery_lookup where
  "example_store = fst (ServiceChange (example_deserialize LK_Mandatory) ServiceCreated (example_publisher 1 ''x'') [])"

lemma example_store_run:
  "discovery_run (example_deserialize LK_Mandatory) example_store (\<lambda>_. [])
     ((\<lambda>_. [])((controllerTypeDataPublisher, ''T'') := [(example_publisher 1 ''x'', [example_label LK_Mandatory ''x''])]))"
proof -
  obtain L' calls err where s: "ServiceChange (example_deserialize LK_Mandatory) ServiceCreated (example_publisher 1 ''x'') [] = (L', calls, err)"
    by (metis surj_pair)
  moreover have "err = None" using s by (auto simp: ServiceChange_def example_information split: prod.splits)
  ultimately show ?thesis
    using discovery_run.run_created [OF run_init example_information [of LK_Mandatory 1 "''x''"], of L' calls]
    by (simp add: example_store_def careful_def)
qed



end
