(* ===== verification/ServiceDiscovery.thy ===== *)
theory ServiceDiscovery
  imports DiscoveryStore
begin

text \<open>
  The service discovery of a participant (\<^verbatim>\<open>core/service/ServiceDiscovery.cpp\<close>): the services of all participants, the
  handlers that are told about them and the messages that keep participants informed. An operation returns the new state, the
  calls and messages in their order, and the exception if one is thrown. Handlers do not throw.
\<close>

section \<open>Service descriptors\<close>

definition service_type_name :: "8 word \<Rightarrow> string" where
  "service_type_name t = (if t = 0 then ''Undefined'' else if t = 1 then ''Link'' else if t = 2 then ''Controller''
     else if t = 3 then ''SimulatedController'' else if t = 4 then ''InternalController'' else ''Unknown'')"

definition network_type_name :: "32 word \<Rightarrow> string" where
  "network_type_name t = (if t = 0 then ''Undefined'' else if t = 1 then ''Invalid'' else if t = 2 then ''CAN''
     else if t = 3 then ''LIN'' else if t = 4 then ''Ethernet'' else if t = 5 then ''FlexRay'' else if t = 6 then ''Data''
     else if t = 7 then ''RPC'' else ''Unknown'')"

definition sd_to_string :: "ServiceDescriptor \<Rightarrow> string result" where
  "sd_to_string sd =
     (let common = sd_participantName sd @ ''/'' @ service_type_name (sd_serviceType sd); t = sd_serviceType sd
      in if t = 1 then Inr (common @ ''/'' @ network_type_name (sd_networkType sd) @ ''/'' @ sd_networkName sd)
         else if t = 2 \<or> t = 3
         then (case GetSupplementalDataItem controllerType sd of
                 None \<Rightarrow> Inl (LogicError ''ServiceDescriptor::to_string() failed: No controller type defined in supplemental data.'')
               | Some ty \<Rightarrow> Inr (common @ ''/'' @ ty @ ''/'' @ sd_networkName sd @ ''/'' @ sd_serviceName sd))
         else if t = 4 then Inr (common @ ''/'' @ sd_serviceName sd)
         else if t = 0 then Inr (common @ ''/'' @ sd_networkName sd @ ''/'' @ sd_serviceName sd)
         else Inr common)"

section \<open>State and operations\<close>

type_synonym service_map = "(string \<times> ServiceDescriptor) list"

record service_discovery =
  svd_participantName :: string
  svd_handlers :: "nat list"
  svd_servicesByParticipant :: "(string \<times> service_map) list"
  svd_specificDiscoveryStore :: discovery_lookup
  svd_shuttingDown :: bool

definition ServiceDiscovery_new :: "string \<Rightarrow> service_discovery" where
  "ServiceDiscovery_new name = \<lparr>svd_participantName = name, svd_handlers = [], svd_servicesByParticipant = [],
     svd_specificDiscoveryStore = [], svd_shuttingDown = False\<rparr>"

datatype discovery_event =
    DE_Handler nat "32 word" ServiceDescriptor
  | DE_SpecificHandler nat "32 word" ServiceDescriptor
  | DE_Broadcast ServiceDiscoveryEvent
  | DE_SendTo string ParticipantDiscoveryEvent

type_synonym discovery_outcome = "service_discovery \<times> discovery_event list \<times> error option"

abbreviation services_of :: "service_discovery \<Rightarrow> string \<Rightarrow> service_map" where
  "services_of s p \<equiv> umap_at [] p (svd_servicesByParticipant s)"

definition set_services :: "string \<Rightarrow> service_map \<Rightarrow> service_discovery \<Rightarrow> service_discovery" where
  "set_services p m s = s\<lparr>svd_servicesByParticipant := AList.update p m (svd_servicesByParticipant s)\<rparr>"

definition CallHandlers :: "32 word \<Rightarrow> ServiceDescriptor \<Rightarrow> service_discovery \<Rightarrow> discovery_event list" where
  "CallHandlers eventType sd s = map (\<lambda>h. DE_Handler h eventType sd) (svd_handlers s)"

definition store_change :: "(string \<Rightarrow> MatchingLabel list result) \<Rightarrow> 32 word \<Rightarrow> ServiceDescriptor \<Rightarrow> service_discovery \<Rightarrow> discovery_outcome" where
  "store_change deserialize eventType sd s =
     (case ServiceChange deserialize eventType sd (svd_specificDiscoveryStore s) of
        (L, calls, err) \<Rightarrow> (s\<lparr>svd_specificDiscoveryStore := L\<rparr>, map (\<lambda>(h, t, n). DE_SpecificHandler h t n) calls, err))"

text \<open>Sequencing: an exception ends the operation.\<close>

definition and_do :: "discovery_outcome \<Rightarrow> (service_discovery \<Rightarrow> discovery_outcome) \<Rightarrow> discovery_outcome" where
  "and_do out f = (case out of (s, evs, Some e) \<Rightarrow> (s, evs, Some e)
     | (s, evs, None) \<Rightarrow> (case f s of (s', evs', err) \<Rightarrow> (s', evs @ evs', err)))"

fun add_services :: "(string \<Rightarrow> MatchingLabel list result) \<Rightarrow> string \<Rightarrow> ServiceDescriptor list \<Rightarrow> service_discovery \<Rightarrow> discovery_outcome" where
  "add_services deserialize p [] s = (s, [], None)"
| "add_services deserialize p (sd # sds) s =
     (case sd_to_string sd of
        Inl e \<Rightarrow> (s, [], Some e)
      | Inr serviceName \<Rightarrow>
          if map_of (services_of s p) serviceName \<noteq> None then add_services deserialize p sds s
          else and_do (store_change deserialize ServiceCreated sd s) (\<lambda>s1.
            let s2 = set_services p (AList.update serviceName sd (services_of s1 p)) s1
            in and_do (s2, CallHandlers ServiceCreated sd s2, None) (add_services deserialize p sds)))"

definition OnParticpantAddition :: "(string \<Rightarrow> MatchingLabel list result) \<Rightarrow> ParticipantDiscoveryEvent \<Rightarrow> service_discovery \<Rightarrow> discovery_outcome" where
  "OnParticpantAddition deserialize msg s =
     (let p = pde_participantName msg
      in add_services deserialize p (pde_services msg) (set_services p (services_of s p) s))"

fun remove_services :: "(string \<Rightarrow> MatchingLabel list result) \<Rightarrow> service_map \<Rightarrow> service_discovery \<Rightarrow> discovery_outcome" where
  "remove_services deserialize [] s = (s, [], None)"
| "remove_services deserialize ((_, sd) # m) s =
     and_do (store_change deserialize ServiceRemoved sd s) (\<lambda>s1.
       and_do (s1, CallHandlers ServiceRemoved sd s1, None) (remove_services deserialize m))"

definition OnParticpantRemoval :: "(string \<Rightarrow> MatchingLabel list result) \<Rightarrow> string \<Rightarrow> service_discovery \<Rightarrow> discovery_outcome" where
  "OnParticpantRemoval deserialize p s =
     (if p = svd_participantName s then (s, [], None)
      else case map_of (svd_servicesByParticipant s) p of
        None \<Rightarrow> (s, [], None)
      | Some m \<Rightarrow> and_do (remove_services deserialize m s) (\<lambda>s1.
          (s1\<lparr>svd_servicesByParticipant := AList.delete p (svd_servicesByParticipant s1)\<rparr>, [], None)))"

definition AnnounceLocalParticipantTo :: "string \<Rightarrow> service_discovery \<Rightarrow> discovery_outcome" where
  "AnnounceLocalParticipantTo other s =
     (let own = services_of s (svd_participantName s);
          localServices = \<lparr>pde_participantName = svd_participantName s, pde_version = 1, pde_services = map snd own\<rparr>
      in (set_services (svd_participantName s) own s, [DE_SendTo other localServices], None))"

definition OnServiceAddition :: "(string \<Rightarrow> MatchingLabel list result) \<Rightarrow> ServiceDescriptor \<Rightarrow> service_discovery \<Rightarrow> discovery_outcome" where
  "OnServiceAddition deserialize sd s0 =
     (let p = sd_participantName sd; s = set_services p (services_of s0 p) s0
      in case sd_to_string sd of
           Inl e \<Rightarrow> (s, [], Some e)
         | Inr cachedServiceKey \<Rightarrow>
             if map_of (services_of s p) cachedServiceKey \<noteq> None then (s, [], None)
             else and_do
               (if p \<noteq> svd_participantName s \<and> item_or_empty controllerType sd = controllerTypeServiceDiscovery
                then AnnounceLocalParticipantTo p s else (s, [], None))
               (\<lambda>s1. let s2 = set_services p (AList.update cachedServiceKey sd (services_of s1 p)) s1
                 in and_do (store_change deserialize ServiceCreated sd s2) (\<lambda>s3. (s3, CallHandlers ServiceCreated sd s3, None))))"

definition OnServiceRemoval :: "(string \<Rightarrow> MatchingLabel list result) \<Rightarrow> ServiceDescriptor \<Rightarrow> service_discovery \<Rightarrow> discovery_outcome" where
  "OnServiceRemoval deserialize sd s0 =
     (let p = sd_participantName sd; s = set_services p (services_of s0 p) s0
      in case sd_to_string sd of
           Inl e \<Rightarrow> (s, [], Some e)
         | Inr key \<Rightarrow>
             if map_of (services_of s p) key = None then (s, [], None)
             else and_do (store_change deserialize ServiceRemoved sd (set_services p (AList.delete key (services_of s p)) s))
               (\<lambda>s1. (s1, CallHandlers ServiceRemoved sd s1, None)))"

definition service_event :: "32 word \<Rightarrow> ServiceDescriptor \<Rightarrow> ServiceDiscoveryEvent" where
  "service_event t sd = \<lparr>sde_type = t, sde_serviceDescriptor = sd\<rparr>"

definition NotifyServiceCreated :: "(string \<Rightarrow> MatchingLabel list result) \<Rightarrow> ServiceDescriptor \<Rightarrow> service_discovery \<Rightarrow> discovery_outcome" where
  "NotifyServiceCreated deserialize sd s =
     (if svd_shuttingDown s then (s, [], None)
      else and_do (OnServiceAddition deserialize sd s) (\<lambda>s1. (s1, [DE_Broadcast (service_event ServiceCreated sd)], None)))"

definition NotifyServiceRemoved :: "(string \<Rightarrow> MatchingLabel list result) \<Rightarrow> ServiceDescriptor \<Rightarrow> service_discovery \<Rightarrow> discovery_outcome" where
  "NotifyServiceRemoved deserialize sd s =
     (if svd_shuttingDown s then (s, [], None)
      else and_do (OnServiceRemoval deserialize sd s) (\<lambda>s1. (s1, [DE_Broadcast (service_event ServiceRemoved sd)], None)))"

definition svd_ReceiveParticipant :: "(string \<Rightarrow> MatchingLabel list result) \<Rightarrow> ParticipantDiscoveryEvent \<Rightarrow> service_discovery \<Rightarrow> discovery_outcome" where
  "svd_ReceiveParticipant deserialize msg s =
     (if svd_shuttingDown s then (s, [], None) else OnParticpantAddition deserialize msg s)"

definition svd_ReceiveService :: "(string \<Rightarrow> MatchingLabel list result) \<Rightarrow> ServiceDiscoveryEvent \<Rightarrow> service_discovery \<Rightarrow> discovery_outcome" where
  "svd_ReceiveService deserialize msg s =
     (if svd_shuttingDown s then (s, [], None)
      else if sde_type msg = ServiceCreated then OnServiceAddition deserialize (sde_serviceDescriptor msg) s
      else OnServiceRemoval deserialize (sde_serviceDescriptor msg) s)"

definition GetServices :: "service_discovery \<Rightarrow> ServiceDescriptor list" where
  "GetServices s = concat (map (\<lambda>(_, m). map snd m) (svd_servicesByParticipant s))"

definition RegisterServiceDiscoveryHandler :: "nat \<Rightarrow> service_discovery \<Rightarrow> discovery_outcome" where
  "RegisterServiceDiscoveryHandler h s =
     (if svd_shuttingDown s then (s, [], None)
      else (s\<lparr>svd_handlers := svd_handlers s @ [h]\<rparr>, map (DE_Handler h ServiceCreated) (GetServices s), None))"

definition RegisterSpecificServiceDiscoveryHandler ::
    "nat \<Rightarrow> string \<Rightarrow> string \<Rightarrow> MatchingLabel list \<Rightarrow> service_discovery \<Rightarrow> discovery_outcome" where
  "RegisterSpecificServiceDiscoveryHandler h ty topic labels s =
     (if svd_shuttingDown s then (s, [], None)
      else case store_RegisterSpecificServiceDiscoveryHandler h ty topic labels (svd_specificDiscoveryStore s) of
        (L, calls) \<Rightarrow> (s\<lparr>svd_specificDiscoveryStore := L\<rparr>, map (\<lambda>(h, t, n). DE_SpecificHandler h t n) calls, None))"

section \<open>What a handler hears\<close>

text \<open>The services that are known, by participant and name.\<close>

definition known_services :: "service_discovery \<Rightarrow> (string \<times> string) set" where
  "known_services s = {(p, k). map_of (services_of s p) k \<noteq> None}"

fun heard :: "nat \<Rightarrow> discovery_event list \<Rightarrow> (32 word \<times> ServiceDescriptor) list" where
  "heard h [] = []"
| "heard h (DE_Handler h' t sd # evs) = (if h' = h then (t, sd) # heard h evs else heard h evs)"
| "heard h (_ # evs) = heard h evs"

text \<open>
  The services a handler knows from its calls. It is not told of the creation of a service it knows or of the removal of one it
  does not know: then the result is \<open>None\<close>.
\<close>

fun follow :: "(32 word \<times> ServiceDescriptor) list \<Rightarrow> (string \<times> string) set \<Rightarrow> (string \<times> string) set option" where
  "follow [] V = Some V"
| "follow ((t, sd) # calls) V =
     (case sd_to_string sd of Inl _ \<Rightarrow> None
      | Inr k \<Rightarrow> let x = (sd_participantName sd, k)
          in if t = ServiceCreated then if x \<in> V then None else follow calls (insert x V)
             else if x \<in> V then follow calls (V - {x}) else None)"

lemma heard_append [simp]: "heard h (a @ b) = heard h a @ heard h b"
  by (induction h a rule: heard.induct) simp_all

lemma follow_append: "follow (a @ b) V = Option.bind (follow a V) (follow b)"
  by (induction a V rule: follow.induct) (auto simp: Let_def split: sum.splits)

lemma heard_calls [simp]: "distinct (svd_handlers s) \<Longrightarrow> h \<in> set (svd_handlers s) \<Longrightarrow> heard h (CallHandlers t sd s) = [(t, sd)]"
proof -
  have "distinct hs \<Longrightarrow> heard h (map (\<lambda>h. DE_Handler h t sd) hs) = (if h \<in> set hs then [(t, sd)] else [])" for hs
    by (induction hs) auto
  then show "distinct (svd_handlers s) \<Longrightarrow> h \<in> set (svd_handlers s) \<Longrightarrow> ?thesis" by (simp add: CallHandlers_def)
qed

lemma heard_specific [simp]: "heard h (map (\<lambda>(h, t, n). DE_SpecificHandler h t n) calls) = []"
  by (induction calls) auto

text \<open>The cache holds every service under its participant and its name.\<close>

definition map_ok :: "string \<Rightarrow> service_map \<Rightarrow> bool" where
  "map_ok p m \<longleftrightarrow> distinct (map fst m) \<and> (\<forall>(k, sd) \<in> set m. sd_to_string sd = Inr k \<and> sd_participantName sd = p)"

definition cache_ok :: "service_discovery \<Rightarrow> bool" where
  "cache_ok s \<longleftrightarrow> distinct (map fst (svd_servicesByParticipant s)) \<and> distinct (svd_handlers s)
     \<and> (\<forall>(p, m) \<in> set (svd_servicesByParticipant s). map_ok p m)"

lemma map_ok_Nil [simp]: "map_ok p []"
  by (simp add: map_ok_def)

lemma map_ok_update: "map_ok p m \<Longrightarrow> sd_to_string sd = Inr k \<Longrightarrow> sd_participantName sd = p \<Longrightarrow> map_ok p (AList.update k sd m)"
proof -
  have "set (AList.update k sd m) \<subseteq> insert (k, sd) (set m)" by (induction m) auto
  then show "map_ok p m \<Longrightarrow> sd_to_string sd = Inr k \<Longrightarrow> sd_participantName sd = p \<Longrightarrow> ?thesis"
    by (auto simp: map_ok_def distinct_update)
qed

lemma set_delete: "set (AList.delete k m) \<subseteq> set m"
  by (auto simp: AList.delete_eq)

lemma map_ok_delete: "map_ok p m \<Longrightarrow> map_ok p (AList.delete k m)"
  using distinct_delete [of m k] set_delete [of k m] by (auto simp: map_ok_def)

lemma services_ok: "cache_ok s \<Longrightarrow> map_ok p (services_of s p)"
  by (auto simp: cache_ok_def umap_at_def split: option.splits dest: map_of_SomeD)

lemma services_set [simp]: "services_of (set_services p m s) q = (if q = p then m else services_of s q)"
  by (simp add: set_services_def)

lemma set_services_keeps [simp]:
  "svd_handlers (set_services p m s) = svd_handlers s" "svd_participantName (set_services p m s) = svd_participantName s"
  "svd_shuttingDown (set_services p m s) = svd_shuttingDown s"
  by (simp_all add: set_services_def)

lemma cache_ok_set: "cache_ok s \<Longrightarrow> map_ok p m \<Longrightarrow> cache_ok (set_services p m s)"
proof -
  have "set (AList.update p m xs) \<subseteq> insert (p, m) (set xs)" for xs by (induction xs) auto
  then show "cache_ok s \<Longrightarrow> map_ok p m \<Longrightarrow> ?thesis"
    unfolding cache_ok_def set_services_def by (force simp: distinct_update)
qed

section \<open>Steps\<close>

text \<open>\<open>keeps_track s out\<close>: an operation that ends without an exception tells the handlers exactly what has changed.\<close>

definition keeps_track :: "service_discovery \<Rightarrow> discovery_outcome \<Rightarrow> bool" where
  "keeps_track s out \<longleftrightarrow> (case out of (s', evs, err) \<Rightarrow> err = None \<longrightarrow>
     cache_ok s' \<and> svd_participantName s' = svd_participantName s \<and> svd_handlers s' = svd_handlers s
     \<and> svd_shuttingDown s' = svd_shuttingDown s
     \<and> (\<forall>h \<in> set (svd_handlers s). follow (heard h evs) (known_services s) = Some (known_services s')))"

lemma keeps_track_error: "keeps_track s (s', evs, Some e)"
  by (simp add: keeps_track_def)

lemma keeps_track_none:
  "cache_ok s' \<Longrightarrow> svd_participantName s' = svd_participantName s \<Longrightarrow> svd_handlers s' = svd_handlers s \<Longrightarrow>
     svd_shuttingDown s' = svd_shuttingDown s \<Longrightarrow> known_services s' = known_services s \<Longrightarrow> (\<And>h. heard h evs = []) \<Longrightarrow>
     keeps_track s (s', evs, None)"
  by (simp add: keeps_track_def)

lemma keeps_track_do:
  assumes "keeps_track s out" "\<And>s'. cache_ok s' \<Longrightarrow> svd_participantName s' = svd_participantName s \<Longrightarrow>
      svd_handlers s' = svd_handlers s \<Longrightarrow> svd_shuttingDown s' = svd_shuttingDown s \<Longrightarrow> keeps_track s' (f s')"
  shows "keeps_track s (and_do out f)"
proof (cases out)
  case (fields s1 evs err)
  show ?thesis
  proof (cases err)
    case None
    with assms(1) fields have 1: "cache_ok s1" "svd_participantName s1 = svd_participantName s" "svd_handlers s1 = svd_handlers s"
      "svd_shuttingDown s1 = svd_shuttingDown s"
      "\<forall>h \<in> set (svd_handlers s). follow (heard h evs) (known_services s) = Some (known_services s1)"
      by (auto simp: keeps_track_def)
    obtain s2 evs2 err2 where 2: "f s1 = (s2, evs2, err2)" by (metis surj_pair)
    with assms(2) [OF 1(1-4)] have "keeps_track s1 (s2, evs2, err2)" by simp
    with 1 2 None fields show ?thesis by (auto simp: keeps_track_def and_do_def follow_append)
  qed (use fields in \<open>simp add: and_do_def keeps_track_error\<close>)
qed

lemma known_store [simp]: "known_services (s\<lparr>svd_specificDiscoveryStore := L\<rparr>) = known_services s"
  by (simp add: known_services_def)

lemma cache_ok_store [simp]: "cache_ok (s\<lparr>svd_specificDiscoveryStore := L\<rparr>) = cache_ok s"
  by (simp add: cache_ok_def)

lemma CallHandlers_store [simp]: "CallHandlers t sd (s\<lparr>svd_specificDiscoveryStore := L\<rparr>) = CallHandlers t sd s"
  "CallHandlers t sd (set_services p m s) = CallHandlers t sd s"
  by (simp_all add: CallHandlers_def)

lemma store_changeE:
  obtains L evs err where "store_change deserialize t sd s = (s\<lparr>svd_specificDiscoveryStore := L\<rparr>, evs, err)" "\<And>h. heard h evs = []"
proof -
  obtain L calls err where "ServiceChange deserialize t sd (svd_specificDiscoveryStore s) = (L, calls, err)" by (metis surj_pair)
  with that show thesis by (simp add: store_change_def)
qed

lemma same_services: "cache_ok s \<Longrightarrow> keeps_track s (set_services p (services_of s p) s, [], None)"
  by (rule keeps_track_none) (auto simp: cache_ok_set services_ok known_services_def split: if_splits)

text \<open>A service is added to the cache or removed from it and the handlers are called, with the store in between.\<close>

lemma track_created:
  assumes "cache_ok s" "sd_to_string sd = Inr k" "sd_participantName sd = p" "map_of (services_of s p) k = None"
    "\<And>h. heard h evs = []"
  shows "keeps_track s ((set_services p (AList.update k sd (services_of s p)) s)\<lparr>svd_specificDiscoveryStore := L\<rparr>,
    evs @ CallHandlers ServiceCreated sd s, None)"
proof -
  have "distinct (svd_handlers s)" using assms(1) by (simp add: cache_ok_def)
  moreover have "known_services (set_services p (AList.update k sd (services_of s p)) s) = insert (p, k) (known_services s)"
    by (auto simp: known_services_def update_conv' split: if_splits)
  moreover have "(p, k) \<notin> known_services s" using assms(4) by (simp add: known_services_def)
  ultimately show ?thesis
    using assms(1-3,5) by (simp add: keeps_track_def cache_ok_set map_ok_update services_ok)
qed

lemma track_removed:
  assumes "cache_ok s" "sd_to_string sd = Inr k" "sd_participantName sd = p" "map_of (services_of s p) k \<noteq> None"
    "\<And>h. heard h evs = []"
  shows "keeps_track s ((set_services p (AList.delete k (services_of s p)) s)\<lparr>svd_specificDiscoveryStore := L\<rparr>,
    evs @ CallHandlers ServiceRemoved sd s, None)"
proof -
  have "distinct (svd_handlers s)" using assms(1) by (simp add: cache_ok_def)
  moreover have "known_services (set_services p (AList.delete k (services_of s p)) s) = known_services s - {(p, k)}"
    by (auto simp: known_services_def delete_conv' split: if_splits)
  moreover have "(p, k) \<in> known_services s" using assms(4) by (simp add: known_services_def)
  ultimately show ?thesis
    using assms(1-3,5) by (simp add: keeps_track_def cache_ok_set map_ok_delete services_ok ServiceCreated_def ServiceRemoved_def)
qed

lemma store_overwrite [simp]:
  "(set_services p m s)\<lparr>svd_specificDiscoveryStore := L\<rparr> = set_services p m (s\<lparr>svd_specificDiscoveryStore := L\<rparr>)"
  "services_of (s\<lparr>svd_specificDiscoveryStore := L\<rparr>) q = services_of s q"
  by (simp_all add: set_services_def)

lemma add_services_track: "cache_ok s \<Longrightarrow> \<forall>sd \<in> set sds. sd_participantName sd = p \<Longrightarrow> keeps_track s (add_services deserialize p sds s)"
proof (induction deserialize p sds s rule: add_services.induct)
  case (1 deserialize p s)
  then show ?case by (simp add: keeps_track_none)
next
  case (2 deserialize p sd sds s)
  show ?case
  proof (cases "sd_to_string sd")
    case (Inl e)
    then show ?thesis by (simp add: keeps_track_error)
  next
    case (Inr k)
    show ?thesis
    proof (cases "map_of (services_of s p) k = None")
      case False
      with 2 Inr show ?thesis by simp
    next
      case True
      obtain L evs err where c: "store_change deserialize ServiceCreated sd s = (s\<lparr>svd_specificDiscoveryStore := L\<rparr>, evs, err)"
        "\<And>h. heard h evs = []" by (rule store_changeE) blast
      let ?s2 = "set_services p (AList.update k sd (services_of s p)) (s\<lparr>svd_specificDiscoveryStore := L\<rparr>)"
      have "keeps_track s (?s2, evs @ CallHandlers ServiceCreated sd s, None)"
        using track_created [OF "2.prems"(1) Inr _ True c(2), of L] "2.prems"(2) by simp
      then have "keeps_track s (and_do (?s2, evs @ CallHandlers ServiceCreated sd s, None) (add_services deserialize p sds))"
        by (rule keeps_track_do) (use 2 Inr True in \<open>auto\<close>)
      then show ?thesis using Inr True c(1)
        by (cases err) (auto simp: and_do_def keeps_track_error Let_def split: prod.splits option.splits)
    qed
  qed
qed

lemma OnServiceRemoval_track: "cache_ok s \<Longrightarrow> keeps_track s (OnServiceRemoval deserialize sd s)"
proof -
  assume ok: "cache_ok s"
  let ?p = "sd_participantName sd" and ?s = "set_services (sd_participantName sd) (services_of s (sd_participantName sd)) s"
  note s = same_services [OF ok, of ?p]
  have ok': "cache_ok ?s" using ok by (simp add: cache_ok_set services_ok)
  show ?thesis
  proof (cases "sd_to_string sd")
    case (Inr k)
    show ?thesis
    proof (cases "map_of (services_of s ?p) k = None")
      case False
      let ?s1 = "set_services ?p (AList.delete k (services_of ?s ?p)) ?s"
      obtain L evs err where c: "store_change deserialize ServiceRemoved sd ?s1 = (?s1\<lparr>svd_specificDiscoveryStore := L\<rparr>, evs, err)"
        "\<And>h. heard h evs = []" by (rule store_changeE) blast
      from track_removed [OF ok' Inr refl _ c(2), of L] False
      have "keeps_track ?s (?s1\<lparr>svd_specificDiscoveryStore := L\<rparr>, evs @ CallHandlers ServiceRemoved sd ?s, None)" by simp
      then have "keeps_track s (and_do (?s, [], None) (\<lambda>_. (?s1\<lparr>svd_specificDiscoveryStore := L\<rparr>, evs @ CallHandlers ServiceRemoved sd ?s, None)))"
        using s by (auto simp: keeps_track_def and_do_def)
      then show ?thesis using Inr False c(1)
        by (cases err) (auto simp: OnServiceRemoval_def and_do_def keeps_track_error Let_def)
    qed (use Inr s in \<open>simp add: OnServiceRemoval_def Let_def\<close>)
  qed (simp add: OnServiceRemoval_def Let_def keeps_track_error)
qed

text \<open>States with the same services, handlers and flags.\<close>

definition unchanged :: "service_discovery \<Rightarrow> service_discovery \<Rightarrow> bool" where
  "unchanged s s' \<longleftrightarrow> cache_ok s' \<and> (\<forall>q. services_of s' q = services_of s q) \<and> svd_handlers s' = svd_handlers s
     \<and> svd_participantName s' = svd_participantName s \<and> svd_shuttingDown s' = svd_shuttingDown s"

lemma unchanged_known: "unchanged s s' \<Longrightarrow> known_services s' = known_services s"
  by (simp add: unchanged_def known_services_def)

lemma unchanged_trans: "unchanged a b \<Longrightarrow> unchanged b c \<Longrightarrow> unchanged a c"
  by (simp add: unchanged_def)

lemma unchanged_touch: "cache_ok s \<Longrightarrow> unchanged s (set_services p (services_of s p) s)"
  by (simp add: unchanged_def cache_ok_set services_ok)

lemma keeps_track_after:
  assumes "unchanged s s1" "keeps_track s1 (s2, evs2, err)" "\<And>h. heard h evs1 = []"
  shows "keeps_track s (s2, evs1 @ evs2, err)"
  using assms unchanged_known [OF assms(1)] by (simp add: keeps_track_def unchanged_def)

lemma announce_unchanged:
  "cache_ok s \<Longrightarrow> \<exists>s1 evs. AnnounceLocalParticipantTo q s = (s1, evs, None) \<and> unchanged s s1 \<and> (\<forall>h. heard h evs = [])"
  by (simp add: AnnounceLocalParticipantTo_def Let_def unchanged_touch)

lemma OnServiceAddition_track: "cache_ok s \<Longrightarrow> keeps_track s (OnServiceAddition deserialize sd s)"
proof -
  assume ok: "cache_ok s"
  let ?p = "sd_participantName sd" and ?s = "set_services (sd_participantName sd) (services_of s (sd_participantName sd)) s"
  note s = same_services [OF ok, of ?p]
  have ok': "cache_ok ?s" using ok by (simp add: cache_ok_set services_ok)
  show ?thesis
  proof (cases "sd_to_string sd")
    case (Inr k)
    show ?thesis
    proof (cases "map_of (services_of s ?p) k = None")
      case True
      let ?announce = "if ?p \<noteq> svd_participantName ?s \<and> item_or_empty controllerType sd = controllerTypeServiceDiscovery
        then AnnounceLocalParticipantTo ?p ?s else (?s, [], None)"
      let ?rest = "\<lambda>s1. let s2 = set_services ?p (AList.update k sd (services_of s1 ?p)) s1
        in and_do (store_change deserialize ServiceCreated sd s2) (\<lambda>s3. (s3, CallHandlers ServiceCreated sd s3, None))"
      obtain s1 evs1 where a: "?announce = (s1, evs1, None)" "unchanged ?s s1" "\<And>h. heard h evs1 = []"
        using announce_unchanged [OF ok', of ?p] unchanged_trans [OF unchanged_touch [OF ok']] ok' unchanged_touch [OF ok', of ?p]
        by (cases "?p \<noteq> svd_participantName ?s \<and> item_or_empty controllerType sd = controllerTypeServiceDiscovery")
          (auto simp: unchanged_def)
      have a1: "cache_ok s1" "services_of s1 ?p = services_of s ?p" using a(2) by (simp_all add: unchanged_def)
      have "keeps_track s1 (?rest s1)"
      proof -
        let ?s2 = "set_services ?p (AList.update k sd (services_of s1 ?p)) s1"
        obtain L evs err where c: "store_change deserialize ServiceCreated sd ?s2 = (?s2\<lparr>svd_specificDiscoveryStore := L\<rparr>, evs, err)"
          "\<And>h. heard h evs = []" by (rule store_changeE) blast
        have "map_of (services_of s1 ?p) k = None" using True a1(2) by simp
        from track_created [OF a1(1) Inr refl this c(2), of L] c(1) show ?thesis
          by (cases err) (auto simp: and_do_def keeps_track_error Let_def)
      qed
      then have "keeps_track s (and_do ?announce ?rest)"
        unfolding a(1) using keeps_track_after [OF unchanged_trans [OF unchanged_touch [OF ok] a(2)] _ a(3)]
        by (auto simp: and_do_def split: prod.splits)
      with Inr True show ?thesis by (simp add: OnServiceAddition_def Let_def)
    qed (use Inr s in \<open>simp add: OnServiceAddition_def Let_def\<close>)
  qed (simp add: OnServiceAddition_def Let_def keeps_track_error)
qed

lemma umap_at_delete [simp]: "umap_at d k (AList.delete k' m) = (if k = k' then d else umap_at d k m)"
  by (simp add: umap_at_def delete_conv')

lemma map_of_known: "map_of m k \<noteq> None \<longleftrightarrow> k \<in> fst ` set m"
  by (simp add: map_of_eq_None_iff)

lemma remove_services_store:
  "remove_services deserialize m s = (s', evs, err) \<Longrightarrow> \<exists>L. s' = s\<lparr>svd_specificDiscoveryStore := L\<rparr>"
proof (induction m arbitrary: s evs)
  case Nil
  then show ?case by (auto intro: exI [of _ "svd_specificDiscoveryStore s"])
next
  case (Cons x m)
  obtain k sd where x: "x = (k, sd)" by (cases x)
  obtain L evs1 err1 where c: "store_change deserialize ServiceRemoved sd s = (s\<lparr>svd_specificDiscoveryStore := L\<rparr>, evs1, err1)"
    by (rule store_changeE) blast
  with Cons.prems x have "(\<exists>evs. remove_services deserialize m (s\<lparr>svd_specificDiscoveryStore := L\<rparr>) = (s', evs, err))
      \<or> s' = s\<lparr>svd_specificDiscoveryStore := L\<rparr>"
    by (cases err1) (auto simp: and_do_def split: prod.splits)
  then show ?case using Cons.IH [of "s\<lparr>svd_specificDiscoveryStore := L\<rparr>"] by auto
qed

lemma remove_services_heard:
  assumes "map_ok p m" "distinct (svd_handlers s)" "remove_services deserialize m s = (s', evs, None)" "h \<in> set (svd_handlers s)"
    "{p} \<times> fst ` set m \<subseteq> V"
  shows "follow (heard h evs) V = Some (V - {p} \<times> fst ` set m)"
  using assms
proof (induction m arbitrary: s evs V)
  case Nil
  then show ?case by auto
next
  case (Cons x m)
  obtain k sd where x: "x = (k, sd)" by (cases x)
  obtain L evs1 err where c: "store_change deserialize ServiceRemoved sd s = (s\<lparr>svd_specificDiscoveryStore := L\<rparr>, evs1, err)"
    "\<And>h. heard h evs1 = []" by (rule store_changeE) blast
  let ?s1 = "s\<lparr>svd_specificDiscoveryStore := L\<rparr>"
  obtain evs2 where r: "remove_services deserialize m ?s1 = (s', evs2, None)" "evs = evs1 @ CallHandlers ServiceRemoved sd ?s1 @ evs2"
    using Cons.prems(3) c(1) x by (cases err) (auto simp: and_do_def split: prod.splits)
  have sd: "sd_to_string sd = Inr k" "sd_participantName sd = p" "k \<notin> fst ` set m" "map_ok p m"
    using Cons.prems(1) x by (auto simp: map_ok_def)
  have V: "{p} \<times> fst ` set m \<subseteq> V - {(p, k)}" "(p, k) \<in> V" "V - {(p, k)} - {p} \<times> fst ` set m = V - {p} \<times> fst ` set (x # m)"
    using Cons.prems(5) sd(3) x by auto
  from Cons.IH [OF sd(4) _ r(1) _ V(1)] Cons.prems(2,4) show ?case
    unfolding V(3) [symmetric] using sd(1,2) r(2) c(2) V(2) by (simp add: ServiceCreated_def ServiceRemoved_def)
qed

lemma OnParticpantRemoval_track:
  assumes ok: "cache_ok s"
  shows "keeps_track s (OnParticpantRemoval deserialize p s)"
proof (cases "p = svd_participantName s \<or> map_of (svd_servicesByParticipant s) p = None")
  case True
  then show ?thesis using ok by (auto simp: OnParticpantRemoval_def keeps_track_none split: option.splits)
next
  case False
  then obtain m where m: "map_of (svd_servicesByParticipant s) p = Some m" by blast
  then have mok: "map_ok p m" "services_of s p = m" using services_ok [OF ok, of p] by (simp_all add: umap_at_def)
  obtain s1 evs err where r: "remove_services deserialize m s = (s1, evs, err)" by (metis surj_pair)
  then obtain L where s1: "s1 = s\<lparr>svd_specificDiscoveryStore := L\<rparr>" using remove_services_store by blast
  let ?s' = "s1\<lparr>svd_servicesByParticipant := AList.delete p (svd_servicesByParticipant s1)\<rparr>"
  show ?thesis
  proof (cases err)
    case None
    have d: "distinct (svd_handlers s)" using ok by (simp add: cache_ok_def)
    have sub: "{p} \<times> fst ` set m \<subseteq> known_services s" using mok(2) by (auto simp: known_services_def map_of_known simp del: not_None_eq)
    have "services_of ?s' q = (if q = p then [] else services_of s q)" for q by (simp add: s1)
    then have "known_services ?s' = known_services s - {p} \<times> fst ` set m"
      unfolding known_services_def map_of_known using mok(2) by (force split: if_splits)
    moreover have "cache_ok ?s'"
      using ok set_delete [of p "svd_servicesByParticipant s"] by (auto simp: cache_ok_def s1 distinct_delete)
    ultimately have "keeps_track s (?s', evs, None)"
      using remove_services_heard [OF mok(1) d r [unfolded None] _ sub] by (simp add: keeps_track_def s1)
    then show ?thesis using False m r None by (simp add: OnParticpantRemoval_def and_do_def)
  qed (use False m r in \<open>simp add: OnParticpantRemoval_def and_do_def keeps_track_error\<close>)
qed

section \<open>Runs\<close>

datatype discovery_input =
    DI_NotifyServiceCreated ServiceDescriptor
  | DI_NotifyServiceRemoved ServiceDescriptor
  | DI_Participant ParticipantDiscoveryEvent
  | DI_Service ServiceDiscoveryEvent
  | DI_ParticipantRemoval string
  | DI_RegisterHandler nat
  | DI_RegisterSpecificHandler nat string string "MatchingLabel list"

fun discovery_step :: "(string \<Rightarrow> MatchingLabel list result) \<Rightarrow> discovery_input \<Rightarrow> service_discovery \<Rightarrow> discovery_outcome" where
  "discovery_step deserialize (DI_NotifyServiceCreated sd) s = NotifyServiceCreated deserialize sd s"
| "discovery_step deserialize (DI_NotifyServiceRemoved sd) s = NotifyServiceRemoved deserialize sd s"
| "discovery_step deserialize (DI_Participant msg) s = svd_ReceiveParticipant deserialize msg s"
| "discovery_step deserialize (DI_Service msg) s = svd_ReceiveService deserialize msg s"
| "discovery_step deserialize (DI_ParticipantRemoval p) s = OnParticpantRemoval deserialize p s"
| "discovery_step deserialize (DI_RegisterHandler h) s = RegisterServiceDiscoveryHandler h s"
| "discovery_step deserialize (DI_RegisterSpecificHandler h ty topic labels) s =
     RegisterSpecificServiceDiscoveryHandler h ty topic labels s"

fun discovery_steps :: "(string \<Rightarrow> MatchingLabel list result) \<Rightarrow> discovery_input list \<Rightarrow> service_discovery \<Rightarrow> discovery_outcome" where
  "discovery_steps deserialize [] s = (s, [], None)"
| "discovery_steps deserialize (i # is) s = and_do (discovery_step deserialize i s) (discovery_steps deserialize is)"

text \<open>An announcement lists services of its sender; every handler is registered once.\<close>

fun input_ok :: "discovery_input \<Rightarrow> service_discovery \<Rightarrow> bool" where
  "input_ok (DI_Participant msg) s = (\<forall>sd \<in> set (pde_services msg). sd_participantName sd = pde_participantName msg)"
| "input_ok (DI_RegisterHandler h) s = (h \<notin> set (svd_handlers s))"
| "input_ok _ s = True"

fun inputs_ok :: "(string \<Rightarrow> MatchingLabel list result) \<Rightarrow> discovery_input list \<Rightarrow> service_discovery \<Rightarrow> bool" where
  "inputs_ok deserialize [] s = True"
| "inputs_ok deserialize (i # is) s = (input_ok i s \<and> inputs_ok deserialize is (fst (discovery_step deserialize i s)))"

text \<open>As \<open>keeps_track\<close>, with new handlers allowed.\<close>

definition informs :: "service_discovery \<Rightarrow> discovery_outcome \<Rightarrow> bool" where
  "informs s out \<longleftrightarrow> (case out of (s', evs, err) \<Rightarrow> err = None \<longrightarrow> cache_ok s' \<and> set (svd_handlers s) \<subseteq> set (svd_handlers s')
     \<and> (\<forall>h \<in> set (svd_handlers s). follow (heard h evs) (known_services s) = Some (known_services s')))"

lemma keeps_track_informs: "keeps_track s out \<Longrightarrow> informs s out"
  by (auto simp: keeps_track_def informs_def)

lemma and_send: "keeps_track s out \<Longrightarrow> keeps_track s (and_do out (\<lambda>s1. (s1, [DE_Broadcast m], None)))"
  by (rule keeps_track_do) (auto simp: keeps_track_none)

lemma step_informs:
  assumes ok: "cache_ok s" and i: "input_ok i s"
  shows "informs s (discovery_step deserialize i s)"
proof (cases i)
  case (DI_NotifyServiceCreated sd)
  have "keeps_track s (NotifyServiceCreated deserialize sd s)"
    using ok by (auto simp: NotifyServiceCreated_def keeps_track_none intro: and_send OnServiceAddition_track)
  with DI_NotifyServiceCreated show ?thesis by (simp add: keeps_track_informs)
next
  case (DI_NotifyServiceRemoved sd)
  have "keeps_track s (NotifyServiceRemoved deserialize sd s)"
    using ok by (auto simp: NotifyServiceRemoved_def keeps_track_none intro: and_send OnServiceRemoval_track)
  with DI_NotifyServiceRemoved show ?thesis by (simp add: keeps_track_informs)
next
  case (DI_Participant msg)
  let ?p = "pde_participantName msg"
  let ?s = "set_services ?p (services_of s ?p) s"
  obtain s2 evs err where a: "add_services deserialize ?p (pde_services msg) ?s = (s2, evs, err)" by (metis surj_pair)
  have "keeps_track ?s (s2, evs, err)"
    using add_services_track [of ?s "pde_services msg" ?p deserialize] unchanged_touch [OF ok, of ?p] i DI_Participant a
    by (simp add: unchanged_def)
  from keeps_track_after [OF unchanged_touch [OF ok] this, of "[]"] have "keeps_track s (svd_ReceiveParticipant deserialize msg s)"
    using ok a by (auto simp: svd_ReceiveParticipant_def OnParticpantAddition_def Let_def keeps_track_none)
  with DI_Participant show ?thesis by (simp add: keeps_track_informs)
next
  case (DI_Service msg)
  have "keeps_track s (svd_ReceiveService deserialize msg s)"
    using ok by (auto simp: svd_ReceiveService_def keeps_track_none OnServiceAddition_track OnServiceRemoval_track)
  with DI_Service show ?thesis by (simp add: keeps_track_informs)
next
  case (DI_ParticipantRemoval p)
  then show ?thesis using OnParticpantRemoval_track [OF ok] by (simp add: keeps_track_informs)
next
  case (DI_RegisterHandler h)
  have "heard h' (map (DE_Handler h ServiceCreated) sds) = []" if "h' \<in> set (svd_handlers s)" for h' sds
    using that i DI_RegisterHandler by (induction sds) auto
  with DI_RegisterHandler ok i show ?thesis
    by (auto simp: informs_def RegisterServiceDiscoveryHandler_def cache_ok_def known_services_def)
next
  case (DI_RegisterSpecificHandler h ty topic labels)
  obtain L calls where r: "store_RegisterSpecificServiceDiscoveryHandler h ty topic labels (svd_specificDiscoveryStore s) = (L, calls)"
    by (metis surj_pair)
  have "keeps_track s (RegisterSpecificServiceDiscoveryHandler h ty topic labels s)"
    using ok r by (auto simp: RegisterSpecificServiceDiscoveryHandler_def keeps_track_none)
  with DI_RegisterSpecificHandler show ?thesis by (simp add: keeps_track_informs)
qed

lemma steps_inform:
  "cache_ok s \<Longrightarrow> inputs_ok deserialize is s \<Longrightarrow> informs s (discovery_steps deserialize is s)"
proof (induction "is" arbitrary: s)
  case Nil
  then show ?case by (simp add: informs_def)
next
  case (Cons i "is")
  obtain s1 evs1 err1 where 1: "discovery_step deserialize i s = (s1, evs1, err1)" by (metis surj_pair)
  obtain s2 evs2 err2 where 2: "discovery_steps deserialize is s1 = (s2, evs2, err2)" by (metis surj_pair)
  have i1: "informs s (s1, evs1, err1)" using step_informs Cons.prems 1 by (metis inputs_ok.simps(2))
  show ?case
  proof (cases err1)
    case None
    with i1 Cons.prems 1 have "informs s1 (s2, evs2, err2)" using Cons.IH [of s1] 2 by (simp add: informs_def)
    with i1 None 1 2 show ?thesis by (auto simp: informs_def and_do_def follow_append)
  qed (use 1 in \<open>simp add: informs_def and_do_def\<close>)
qed

text \<open>The calls that tell a new handler of everything that is known.\<close>

lemma follow_map:
  "map_ok p m \<Longrightarrow> ({p} \<times> fst ` set m) \<inter> V = {} \<Longrightarrow>
     follow (map (Pair ServiceCreated) (map snd m)) V = Some (V \<union> {p} \<times> fst ` set m)"
proof (induction m arbitrary: V)
  case (Cons x m)
  obtain k sd where x: "x = (k, sd)" by (cases x)
  have sd: "sd_to_string sd = Inr k" "sd_participantName sd = p" "k \<notin> fst ` set m" "map_ok p m"
    using Cons.prems(1) x by (auto simp: map_ok_def)
  have "({p} \<times> fst ` set m) \<inter> insert (p, k) V = {}" "(p, k) \<notin> V" using Cons.prems(2) sd(3) x by auto
  with Cons.IH [OF sd(4) this(1)] sd(1,2) x show ?case by auto
qed simp

definition cached :: "(string \<times> service_map) list \<Rightarrow> (string \<times> string) set" where
  "cached ps = {(p, k). \<exists>m. (p, m) \<in> set ps \<and> k \<in> fst ` set m}"

lemma follow_maps:
  "distinct (map fst ps) \<Longrightarrow> \<forall>(p, m) \<in> set ps. map_ok p m \<Longrightarrow> (fst ` set ps \<times> UNIV) \<inter> V = {} \<Longrightarrow>
     follow (map (Pair ServiceCreated) (concat (map (\<lambda>(_, m). map snd m) ps))) V = Some (V \<union> cached ps)"
proof (induction ps arbitrary: V)
  case Nil
  then show ?case by (simp add: cached_def)
next
  case (Cons x ps)
  obtain p m where x: "x = (p, m)" by (cases x)
  have 1: "follow (map (Pair ServiceCreated) (map snd m)) V = Some (V \<union> {p} \<times> fst ` set m)"
    using Cons.prems x by (intro follow_map) auto
  have "(fst ` set ps \<times> UNIV) \<inter> (V \<union> {p} \<times> fst ` set m) = {}" using Cons.prems(1,3) x by auto
  with Cons.IH Cons.prems(1,2) have "follow (map (Pair ServiceCreated) (concat (map (\<lambda>(_, m). map snd m) ps))) (V \<union> {p} \<times> fst ` set m)
      = Some (V \<union> {p} \<times> fst ` set m \<union> cached ps)" by simp
  moreover have "V \<union> {p} \<times> fst ` set m \<union> cached ps = V \<union> cached (x # ps)" using x by (auto simp: cached_def)
  ultimately show ?case using 1 x by (simp add: follow_append)
qed

lemma cached_known:
  assumes "cache_ok s"
  shows "cached (svd_servicesByParticipant s) = known_services s"
proof -
  have "(p, m) \<in> set (svd_servicesByParticipant s) \<longleftrightarrow> map_of (svd_servicesByParticipant s) p = Some m" for p m
    using assms by (simp add: cache_ok_def map_of_eq_Some_iff)
  then have "(\<exists>m. (p, m) \<in> set (svd_servicesByParticipant s) \<and> k \<in> fst ` set m) \<longleftrightarrow> k \<in> fst ` set (services_of s p)" for p k
    by (cases "map_of (svd_servicesByParticipant s) p") (simp_all add: umap_at_def)
  then show ?thesis unfolding cached_def known_services_def map_of_known by auto
qed

lemma known_GetServices:
  assumes "cache_ok s"
  shows "known_services s = {(sd_participantName sd, k) |sd k. sd \<in> set (GetServices s) \<and> sd_to_string sd = Inr k}"
proof -
  have *: "sd_to_string sd = Inr k \<and> sd_participantName sd = p"
    if "(p, m) \<in> set (svd_servicesByParticipant s)" "(k, sd) \<in> set m" for p m k sd
    using assms that by (auto simp: cache_ok_def map_ok_def)
  have "(p, k) \<in> cached (svd_servicesByParticipant s) \<longleftrightarrow>
      (\<exists>sd. p = sd_participantName sd \<and> sd \<in> set (GetServices s) \<and> sd_to_string sd = Inr k)" for p k
  proof
    assume "(p, k) \<in> cached (svd_servicesByParticipant s)"
    then obtain m sd where m: "(p, m) \<in> set (svd_servicesByParticipant s)" "(k, sd) \<in> set m" by (auto simp: cached_def)
    then have "sd \<in> set (GetServices s)" by (force simp: GetServices_def)
    with * [OF m] show "\<exists>sd. p = sd_participantName sd \<and> sd \<in> set (GetServices s) \<and> sd_to_string sd = Inr k" by blast
  next
    assume "\<exists>sd. p = sd_participantName sd \<and> sd \<in> set (GetServices s) \<and> sd_to_string sd = Inr k"
    then obtain sd q m k' where m: "(q, m) \<in> set (svd_servicesByParticipant s)" "(k', sd) \<in> set m"
      and sd: "p = sd_participantName sd" "sd_to_string sd = Inr k" by (auto simp: GetServices_def)
    with * [OF m] show "(p, k) \<in> cached (svd_servicesByParticipant s)" by (force simp: cached_def)
  qed
  then show ?thesis unfolding cached_known [OF assms, symmetric] by auto
qed

lemma heard_registration: "heard h (map (DE_Handler h t) sds) = map (Pair t) sds"
  by (induction sds) simp_all

lemma registration_informs:
  "cache_ok s \<Longrightarrow> follow (heard h (map (DE_Handler h ServiceCreated) (GetServices s))) {} = Some (known_services s)"
  using follow_maps [of "svd_servicesByParticipant s" "{}"] cached_known [of s]
  by (simp add: heard_registration GetServices_def cache_ok_def)

section \<open>Properties\<close>

text \<open>
  C25: a discovery handler knows what the participant knows. From its registration on, which announces the services that are known
  already, it is called once for every service that appears or disappears, in whatever way the participant learns of it, so that
  the services it has been told of and that have not been withdrawn are at any time those \<^verbatim>\<open>GetServices\<close> returns.
\<close>

theorem discovery_handler_knows_all:
  assumes "cache_ok s" "h \<notin> set (svd_handlers s)" "RegisterServiceDiscoveryHandler h s = (s1, evs1, None)" "\<not> svd_shuttingDown s"
    "inputs_ok deserialize is s1" "discovery_steps deserialize is s1 = (s2, evs2, None)"
  shows "follow (heard h (evs1 @ evs2)) {} = Some (known_services s2)
    \<and> known_services s2 = {(sd_participantName sd, k) |sd k. sd \<in> set (GetServices s2) \<and> sd_to_string sd = Inr k}"
proof -
  have s1: "cache_ok s1" "h \<in> set (svd_handlers s1)" "known_services s1 = known_services s"
    "evs1 = map (DE_Handler h ServiceCreated) (GetServices s)"
    using assms(1-4) by (auto simp: RegisterServiceDiscoveryHandler_def cache_ok_def known_services_def)
  from steps_inform [OF s1(1) assms(5)] s1(2) assms(6)
  have 2: "follow (heard h evs2) (known_services s1) = Some (known_services s2)" "cache_ok s2" by (auto simp: informs_def)
  note known_GetServices [OF 2(2)]
  moreover have "follow (heard h (evs1 @ evs2)) {} = Some (known_services s2)"
    using 2(1) registration_informs [OF assms(1), of h] s1(3,4) by (simp add: follow_append)
  ultimately show ?thesis by blast
qed

definition example_discovery :: service_discovery where
  "example_discovery = fst (RegisterServiceDiscoveryHandler 3 (ServiceDiscovery_new ''P''))"

theorem discovery_handler_knows_all_witness:
  "follow (heard 3 (fst (snd (discovery_steps (example_deserialize LK_Mandatory) [DI_NotifyServiceCreated (example_publisher 1 ''x'')] example_discovery)))) {}
   = Some (known_services (fst (discovery_steps (example_deserialize LK_Mandatory) [DI_NotifyServiceCreated (example_publisher 1 ''x'')] example_discovery)))"
proof -
  let ?is = "[DI_NotifyServiceCreated (example_publisher 1 ''x'')]"
  have new: "cache_ok (ServiceDiscovery_new ''P'')" "3 \<notin> set (svd_handlers (ServiceDiscovery_new ''P''))"
    "\<not> svd_shuttingDown (ServiceDiscovery_new ''P'')"
    "RegisterServiceDiscoveryHandler 3 (ServiceDiscovery_new ''P'') = (example_discovery, [], None)"
    by (simp_all add: ServiceDiscovery_new_def cache_ok_def example_discovery_def RegisterServiceDiscoveryHandler_def GetServices_def)
  have none: "snd (snd (discovery_steps (example_deserialize LK_Mandatory) ?is example_discovery)) = None" by code_simp
  obtain s2 evs2 where run: "discovery_steps (example_deserialize LK_Mandatory) ?is example_discovery = (s2, evs2, None)"
    using none by (metis prod.collapse)
  from discovery_handler_knows_all [OF new(1,2,4,3) _ run] run show ?thesis by simp
qed

end
