(* ===== verification/DiscoverySystem.thy ===== *)
theory DiscoverySystem
  imports ServiceDiscovery
begin

text \<open>
  Service discovery between two participants: what the messages mean for the services a participant knows of the other, and
  that both know all services of each other once the messages have arrived.
\<close>

section \<open>Two participants\<close>

text \<open>
  A participant \<open>A\<close> joins a participant \<open>B\<close>. Messages between them arrive in the order in which they are sent. \<open>effect\<close> is what a
  message of a participant means for the names of its services.
\<close>

datatype discovery_message = M_Participant ParticipantDiscoveryEvent | M_Service ServiceDiscoveryEvent

fun effect :: "discovery_message \<Rightarrow> string set \<Rightarrow> string set" where
  "effect (M_Participant msg) V = V \<union> {k. \<exists>sd \<in> set (pde_services msg). sd_to_string sd = Inr k}"
| "effect (M_Service msg) V =
     (case sd_to_string (sde_serviceDescriptor msg) of Inl _ \<Rightarrow> V
      | Inr k \<Rightarrow> if sde_type msg = ServiceCreated then insert k V else V - {k})"

fun deliver :: "(string \<Rightarrow> MatchingLabel list result) \<Rightarrow> discovery_message \<Rightarrow> service_discovery \<Rightarrow> discovery_outcome" where
  "deliver deserialize (M_Participant msg) s = svd_ReceiveParticipant deserialize msg s"
| "deliver deserialize (M_Service msg) s = svd_ReceiveService deserialize msg s"

text \<open>The messages an operation sends to the participant \<open>other\<close>.\<close>

fun sent_to :: "string \<Rightarrow> discovery_event list \<Rightarrow> discovery_message list" where
  "sent_to other [] = []"
| "sent_to other (DE_Broadcast msg # evs) = M_Service msg # sent_to other evs"
| "sent_to other (DE_SendTo p msg # evs) = (if p = other then M_Participant msg # sent_to other evs else sent_to other evs)"
| "sent_to other (_ # evs) = sent_to other evs"

lemma sent_to_append [simp]: "sent_to other (a @ b) = sent_to other a @ sent_to other b"
  by (induction other a rule: sent_to.induct) simp_all

lemma sent_to_calls [simp]: "sent_to other (CallHandlers t sd s) = []" "sent_to other (map (\<lambda>(h, t, n). DE_SpecificHandler h t n) calls) = []"
proof -
  have "sent_to other (map (\<lambda>h. DE_Handler h t sd) hs) = []" for hs by (induction hs) auto
  then show "sent_to other (CallHandlers t sd s) = []" by (simp add: CallHandlers_def)
  show "sent_to other (map (\<lambda>(h, t, n). DE_SpecificHandler h t n) calls) = []" by (induction calls) auto
qed

definition names_of :: "service_discovery \<Rightarrow> string \<Rightarrow> string set" where
  "names_of s p = fst ` set (services_of s p)"

text \<open>The labels of all services can be read.\<close>

definition readable :: "(string \<Rightarrow> MatchingLabel list result) \<Rightarrow> bool" where
  "readable deserialize \<longleftrightarrow> (\<forall>s. \<exists>ls. deserialize s = Inr ls)"

lemma store_change_readable:
  assumes "readable deserialize"
  obtains L evs where "store_change deserialize t sd s = (s\<lparr>svd_specificDiscoveryStore := L\<rparr>, evs, None)" "\<And>other. sent_to other evs = []"
proof -
  have "\<exists>ty key ls. relevant_information deserialize sd = None \<or> relevant_information deserialize sd = Some (ty, key, Inr ls)"
    using assms by (auto simp: relevant_information_def labels_item_def readable_def split: option.splits)
  then have "snd (snd (ServiceChange deserialize t sd (svd_specificDiscoveryStore s))) = None"
    by (auto simp: ServiceChange_def Let_def split: prod.splits)
  then obtain L calls where "ServiceChange deserialize t sd (svd_specificDiscoveryStore s) = (L, calls, None)"
    by (metis prod.collapse)
  with that show thesis by (simp add: store_change_def)
qed

lemma names_set [simp]: "names_of (set_services p m s) q = (if q = p then fst ` set m else names_of s q)"
  "names_of (s\<lparr>svd_specificDiscoveryStore := L\<rparr>) q = names_of s q"
  by (simp_all add: names_of_def)

lemma names_known: "map_of (services_of s p) k = None \<longleftrightarrow> k \<notin> names_of s p"
  by (simp add: names_of_def map_of_eq_None_iff)

lemma fst_update: "fst ` set (AList.update k v m) = insert k (fst ` set m)"
  by (simp add: dom_update)

lemma fst_delete: "fst ` set (AList.delete k m) = fst ` set m - {k}"
  using arg_cong [OF delete_keys [of k m], of set] by simp

text \<open>What the operations do to the names, when all labels can be read.\<close>

lemma addition_effect:
  assumes ok: "cache_ok s" and de: "readable deserialize" and k: "sd_to_string sd = Inr k"
    and out: "OnServiceAddition deserialize sd s = (s', evs, err)"
  defines "p \<equiv> sd_participantName sd"
  shows "err = None" "names_of s' q = (if q = p then insert k (names_of s q) else names_of s q)"
    "sent_to other evs = (if p \<noteq> svd_participantName s \<and> item_or_empty controllerType sd = controllerTypeServiceDiscovery
       \<and> k \<notin> names_of s p \<and> other = p
       then [M_Participant \<lparr>pde_participantName = svd_participantName s, pde_version = 1, pde_services = map snd (services_of s (svd_participantName s))\<rparr>]
       else [])"
proof -
  let ?s = "set_services p (services_of s p) s"
  have "err = None \<and> names_of s' q = (if q = p then insert k (names_of s q) else names_of s q) \<and>
    sent_to other evs = (if p \<noteq> svd_participantName s \<and> item_or_empty controllerType sd = controllerTypeServiceDiscovery
       \<and> k \<notin> names_of s p \<and> other = p
       then [M_Participant \<lparr>pde_participantName = svd_participantName s, pde_version = 1, pde_services = map snd (services_of s (svd_participantName s))\<rparr>]
       else [])"
  proof (cases "k \<in> names_of s p")
    case True
    then have "map_of (services_of s p) k \<noteq> None" by (simp add: names_known)
    then have "s' = ?s" "evs = []" "err = None" using out k by (auto simp: OnServiceAddition_def Let_def p_def)
    with True show ?thesis by (auto simp: names_of_def p_def)
  next
    case False
    let ?announce = "p \<noteq> svd_participantName s \<and> item_or_empty controllerType sd = controllerTypeServiceDiscovery"
    let ?s1 = "if ?announce then set_services (svd_participantName s) (services_of s (svd_participantName s)) ?s else ?s"
    let ?s2 = "set_services p (AList.update k sd (services_of s p)) ?s1"
    obtain L evs2 where c: "store_change deserialize ServiceCreated sd ?s2 = (?s2\<lparr>svd_specificDiscoveryStore := L\<rparr>, evs2, None)"
      "\<And>other. sent_to other evs2 = []" using store_change_readable [OF de] by metis
    have *: "map_of (services_of s p) k = None" using False by (simp add: names_known)
    show ?thesis
    proof (cases ?announce)
      case True
      with out k * c(1) have "err = None" "s' = ?s2\<lparr>svd_specificDiscoveryStore := L\<rparr>"
        "evs = DE_SendTo p \<lparr>pde_participantName = svd_participantName s, pde_version = 1, pde_services = map snd (services_of s (svd_participantName s))\<rparr>
           # evs2 @ CallHandlers ServiceCreated sd ?s2"
        by (auto simp: OnServiceAddition_def Let_def p_def [symmetric] AnnounceLocalParticipantTo_def and_do_def)
      with True False c(2) show ?thesis by (auto simp: fst_update names_of_def)
    next
      case not: False
      with out k * c(1) have "err = None" "s' = ?s2\<lparr>svd_specificDiscoveryStore := L\<rparr>" "evs = evs2 @ CallHandlers ServiceCreated sd ?s2"
        by (auto simp: OnServiceAddition_def Let_def p_def [symmetric] and_do_def split: if_splits)
      with not c(2) show ?thesis by (auto simp: fst_update names_of_def)
    qed
  qed
  then show "err = None" "names_of s' q = (if q = p then insert k (names_of s q) else names_of s q)"
    "sent_to other evs = (if p \<noteq> svd_participantName s \<and> item_or_empty controllerType sd = controllerTypeServiceDiscovery
       \<and> k \<notin> names_of s p \<and> other = p
       then [M_Participant \<lparr>pde_participantName = svd_participantName s, pde_version = 1, pde_services = map snd (services_of s (svd_participantName s))\<rparr>]
       else [])"
    by blast+
qed

lemma removal_effect:
  assumes ok: "cache_ok s" and de: "readable deserialize" and k: "sd_to_string sd = Inr k"
    and out: "OnServiceRemoval deserialize sd s = (s', evs, err)"
  defines "p \<equiv> sd_participantName sd"
  shows "err = None" "names_of s' q = (if q = p then names_of s q - {k} else names_of s q)" "sent_to other evs = []"
proof -
  let ?s = "set_services p (services_of s p) s"
  have "err = None \<and> names_of s' q = (if q = p then names_of s q - {k} else names_of s q) \<and> sent_to other evs = []"
  proof (cases "k \<in> names_of s p")
    case False
    then have "map_of (services_of s p) k = None" by (simp add: names_known)
    then have "s' = ?s" "evs = []" "err = None" using out k by (auto simp: OnServiceRemoval_def Let_def p_def)
    with False show ?thesis by (auto simp: names_of_def)
  next
    case True
    let ?s2 = "set_services p (AList.delete k (services_of s p)) ?s"
    obtain L evs2 where c: "store_change deserialize ServiceRemoved sd ?s2 = (?s2\<lparr>svd_specificDiscoveryStore := L\<rparr>, evs2, None)"
      "\<And>other. sent_to other evs2 = []" using store_change_readable [OF de] by metis
    have "map_of (services_of s p) k \<noteq> None" using True by (simp add: names_known)
    with out k c(1) have "err = None" "s' = ?s2\<lparr>svd_specificDiscoveryStore := L\<rparr>" "evs = evs2 @ CallHandlers ServiceRemoved sd ?s2"
      by (auto simp: OnServiceRemoval_def Let_def p_def [symmetric] and_do_def)
    with c(2) show ?thesis by (auto simp: fst_delete names_of_def)
  qed
  then show "err = None" "names_of s' q = (if q = p then names_of s q - {k} else names_of s q)" "sent_to other evs = []" by blast+
qed

lemma add_services_effect:
  assumes "readable deserialize" "\<forall>sd \<in> set sds. \<exists>k. sd_to_string sd = Inr k" "add_services deserialize p sds s = (s', evs, err)"
  shows "err = None \<and> sent_to other evs = [] \<and>
    names_of s' q = (if q = p then names_of s q \<union> {k. \<exists>sd \<in> set sds. sd_to_string sd = Inr k} else names_of s q)"
  using assms(2,3)
proof (induction sds arbitrary: s evs)
  case Nil
  then show ?case by simp
next
  case (Cons sd sds)
  obtain k where k: "sd_to_string sd = Inr k" using Cons.prems(1) by auto
  show ?case
  proof (cases "k \<in> names_of s p")
    case True
    then have "map_of (services_of s p) k \<noteq> None" by (simp add: names_known)
    with Cons.prems k have "add_services deserialize p sds s = (s', evs, err)" by simp
    from Cons.IH [OF _ this] Cons.prems(1) k True show ?thesis by auto
  next
    case False
    then have n: "map_of (services_of s p) k = None" by (simp add: names_known)
    obtain L evs1 where c: "store_change deserialize ServiceCreated sd s = (s\<lparr>svd_specificDiscoveryStore := L\<rparr>, evs1, None)"
      "\<And>other. sent_to other evs1 = []" using store_change_readable [OF assms(1)] by metis
    let ?s2 = "set_services p (AList.update k sd (services_of s p)) (s\<lparr>svd_specificDiscoveryStore := L\<rparr>)"
    obtain evs2 where r: "add_services deserialize p sds ?s2 = (s', evs2, err)" "evs = evs1 @ CallHandlers ServiceCreated sd ?s2 @ evs2"
      using Cons.prems(2) k n c(1) by (auto simp: and_do_def split: prod.splits)
    from Cons.IH [OF _ r(1)] Cons.prems(1) k r(2) c(2) show ?thesis by (auto simp: fst_update names_of_def)
  qed
qed

record discovery_pair =
  dp_joining :: service_discovery
  dp_present :: service_discovery
  dp_toPresent :: "discovery_message list"
  dp_toJoining :: "discovery_message list"

text \<open>
  A participant that joins announces its service discovery, the service \<open>own\<close>, and other services with other names; the one that
  is present announces no new service discovery.
\<close>

definition ordinary :: "ServiceDescriptor \<Rightarrow> ServiceDescriptor \<Rightarrow> bool" where
  "ordinary own sd \<longleftrightarrow> (\<exists>k. sd_to_string sd = Inr k) \<and> sd_to_string sd \<noteq> sd_to_string own
     \<and> item_or_empty controllerType sd \<noteq> controllerTypeServiceDiscovery"

definition discovery_service :: "ServiceDescriptor \<Rightarrow> bool" where
  "discovery_service own \<longleftrightarrow> (\<exists>k. sd_to_string own = Inr k) \<and> item_or_empty controllerType own = controllerTypeServiceDiscovery"

inductive joins :: "(string \<Rightarrow> MatchingLabel list result) \<Rightarrow> ServiceDescriptor \<Rightarrow> discovery_pair \<Rightarrow> bool" for deserialize own where
  join_start: "cache_ok b \<Longrightarrow> \<not> svd_shuttingDown b \<Longrightarrow> svd_participantName b \<noteq> sd_participantName own \<Longrightarrow>
    services_of b (sd_participantName own) = [] \<Longrightarrow>
    joins deserialize own \<lparr>dp_joining = ServiceDiscovery_new (sd_participantName own), dp_present = b, dp_toPresent = [], dp_toJoining = []\<rparr>"
| join_create: "joins deserialize own d \<Longrightarrow> sd = own \<or> ordinary own sd \<Longrightarrow> sd_participantName sd = sd_participantName own \<Longrightarrow>
    NotifyServiceCreated deserialize sd (dp_joining d) = (a, evs, None) \<Longrightarrow>
    joins deserialize own (d\<lparr>dp_joining := a, dp_toPresent := dp_toPresent d @ sent_to (svd_participantName (dp_present d)) evs\<rparr>)"
| join_remove: "joins deserialize own d \<Longrightarrow> ordinary own sd \<Longrightarrow> sd_participantName sd = sd_participantName own \<Longrightarrow>
    NotifyServiceRemoved deserialize sd (dp_joining d) = (a, evs, None) \<Longrightarrow>
    joins deserialize own (d\<lparr>dp_joining := a, dp_toPresent := dp_toPresent d @ sent_to (svd_participantName (dp_present d)) evs\<rparr>)"
| present_create: "joins deserialize own d \<Longrightarrow> ordinary own sd \<Longrightarrow> sd_participantName sd = svd_participantName (dp_present d) \<Longrightarrow>
    NotifyServiceCreated deserialize sd (dp_present d) = (b, evs, None) \<Longrightarrow>
    joins deserialize own (d\<lparr>dp_present := b, dp_toJoining := dp_toJoining d @ sent_to (sd_participantName own) evs\<rparr>)"
| present_remove: "joins deserialize own d \<Longrightarrow> ordinary own sd \<Longrightarrow> sd_participantName sd = svd_participantName (dp_present d) \<Longrightarrow>
    NotifyServiceRemoved deserialize sd (dp_present d) = (b, evs, None) \<Longrightarrow>
    joins deserialize own (d\<lparr>dp_present := b, dp_toJoining := dp_toJoining d @ sent_to (sd_participantName own) evs\<rparr>)"
| present_receives: "joins deserialize own d \<Longrightarrow> dp_toPresent d = m # ms \<Longrightarrow> deliver deserialize m (dp_present d) = (b, evs, err) \<Longrightarrow>
    joins deserialize own (d\<lparr>dp_present := b, dp_toPresent := ms, dp_toJoining := dp_toJoining d @ sent_to (sd_participantName own) evs\<rparr>)"
| joining_receives: "joins deserialize own d \<Longrightarrow> dp_toJoining d = m # ms \<Longrightarrow> deliver deserialize m (dp_joining d) = (a, evs, err) \<Longrightarrow>
    joins deserialize own (d\<lparr>dp_joining := a, dp_toJoining := ms,
      dp_toPresent := dp_toPresent d @ sent_to (svd_participantName (dp_present d)) evs\<rparr>)"

text \<open>The messages on the way.\<close>

definition service_message :: "string \<Rightarrow> (ServiceDescriptor \<Rightarrow> bool) \<Rightarrow> discovery_message \<Rightarrow> bool" where
  "service_message p P m \<longleftrightarrow> (\<exists>t sd. m = M_Service (service_event t sd) \<and> sd_participantName sd = p
     \<and> (P sd \<and> t = ServiceCreated \<or> P sd \<and> t = ServiceRemoved))"

definition from_joining :: "ServiceDescriptor \<Rightarrow> discovery_message \<Rightarrow> bool" where
  "from_joining own m \<longleftrightarrow> service_message (sd_participantName own) (ordinary own) m \<or> m = M_Service (service_event ServiceCreated own)"

definition from_present :: "ServiceDescriptor \<Rightarrow> string \<Rightarrow> discovery_message \<Rightarrow> bool" where
  "from_present own p m \<longleftrightarrow> service_message p (ordinary own) m \<or>
     (\<exists>msg. m = M_Participant msg \<and> pde_participantName msg = p
        \<and> (\<forall>sd \<in> set (pde_services msg). sd_participantName sd = p \<and> (\<exists>k. sd_to_string sd = Inr k)))"

definition pair_inv :: "ServiceDescriptor \<Rightarrow> discovery_pair \<Rightarrow> bool" where
  "pair_inv own d \<longleftrightarrow> (let a = dp_joining d; b = dp_present d; A = sd_participantName own; B = svd_participantName (dp_present d) in
     cache_ok a \<and> cache_ok b \<and> \<not> svd_shuttingDown a \<and> \<not> svd_shuttingDown b \<and> svd_participantName a = A \<and> A \<noteq> B
     \<and> list_all (from_joining own) (dp_toPresent d) \<and> list_all (from_present own B) (dp_toJoining d)
     \<and> fold effect (dp_toPresent d) (names_of b A) = names_of a A
     \<and> fold effect (dp_toJoining d) (names_of a B) \<subseteq> names_of b B
     \<and> ((\<exists>k \<in> names_of b A. sd_to_string own = Inr k) \<longrightarrow> fold effect (dp_toJoining d) (names_of a B) = names_of b B))"

lemma ordinary_readable: "ordinary own sd \<Longrightarrow> \<exists>k. sd_to_string sd = Inr k"
  by (simp add: ordinary_def)

text \<open>A local change: the names change as the message says, and the message is all that is sent.\<close>

lemma notify_created_effect:
  assumes "cache_ok s" "readable deserialize" "sd_to_string sd = Inr k" "\<not> svd_shuttingDown s" "sd_participantName sd = svd_participantName s"
    "NotifyServiceCreated deserialize sd s = (s', evs, err)"
  shows "cache_ok s'" "svd_participantName s' = svd_participantName s" "\<not> svd_shuttingDown s'" "svd_handlers s' = svd_handlers s"
    "names_of s' q = (if q = svd_participantName s then effect (M_Service (service_event ServiceCreated sd)) (names_of s q) else names_of s q)"
    "sent_to other evs = [M_Service (service_event ServiceCreated sd)]"
proof -
  obtain s1 evs1 err1 where a: "OnServiceAddition deserialize sd s = (s1, evs1, err1)" by (metis surj_pair)
  note e = addition_effect [OF assms(1-3) a]
  have out: "s' = s1" "evs = evs1 @ [DE_Broadcast (service_event ServiceCreated sd)]"
    using assms(4,6) a e(1) by (auto simp: NotifyServiceCreated_def and_do_def)
  have "keeps_track s (s1, evs1, None)" using OnServiceAddition_track [OF assms(1)] a e(1) by metis
  then show "cache_ok s'" "svd_participantName s' = svd_participantName s" "\<not> svd_shuttingDown s'" "svd_handlers s' = svd_handlers s"
    using assms(4) out(1) by (auto simp: keeps_track_def)
  show "names_of s' q = (if q = svd_participantName s then effect (M_Service (service_event ServiceCreated sd)) (names_of s q) else names_of s q)"
    using e(2) out(1) assms(3,5) by (simp add: service_event_def)
  show "sent_to other evs = [M_Service (service_event ServiceCreated sd)]" using e(3) out(2) assms(5) by simp
qed

lemma notify_removed_effect:
  assumes "cache_ok s" "readable deserialize" "sd_to_string sd = Inr k" "\<not> svd_shuttingDown s" "sd_participantName sd = svd_participantName s"
    "NotifyServiceRemoved deserialize sd s = (s', evs, err)"
  shows "cache_ok s'" "svd_participantName s' = svd_participantName s" "\<not> svd_shuttingDown s'" "svd_handlers s' = svd_handlers s"
    "names_of s' q = (if q = svd_participantName s then effect (M_Service (service_event ServiceRemoved sd)) (names_of s q) else names_of s q)"
    "sent_to other evs = [M_Service (service_event ServiceRemoved sd)]"
proof -
  obtain s1 evs1 err1 where a: "OnServiceRemoval deserialize sd s = (s1, evs1, err1)" by (metis surj_pair)
  note e = removal_effect [OF assms(1-3) a]
  have out: "s' = s1" "evs = evs1 @ [DE_Broadcast (service_event ServiceRemoved sd)]"
    using assms(4,6) a e(1) by (auto simp: NotifyServiceRemoved_def and_do_def)
  have "keeps_track s (s1, evs1, None)" using OnServiceRemoval_track [OF assms(1)] a e(1) by metis
  then show "cache_ok s'" "svd_participantName s' = svd_participantName s" "\<not> svd_shuttingDown s'" "svd_handlers s' = svd_handlers s"
    using assms(4) out(1) by (auto simp: keeps_track_def)
  show "names_of s' q = (if q = svd_participantName s then effect (M_Service (service_event ServiceRemoved sd)) (names_of s q) else names_of s q)"
    using e(2) out(1) assms(3,5) by (simp add: service_event_def ServiceCreated_def ServiceRemoved_def)
  show "sent_to other evs = [M_Service (service_event ServiceRemoved sd)]" using e(3) out(2) by simp
qed

text \<open>The arrival of a message of another participant.\<close>

lemma deliver_service_effect:
  assumes "cache_ok s" "readable deserialize" "sd_to_string sd = Inr k" "\<not> svd_shuttingDown s" "sd_participantName sd \<noteq> svd_participantName s"
    "t = ServiceCreated \<or> t = ServiceRemoved" "deliver deserialize (M_Service (service_event t sd)) s = (s', evs, err)"
  shows "cache_ok s'" "svd_participantName s' = svd_participantName s" "\<not> svd_shuttingDown s'"
    "names_of s' q = (if q = sd_participantName sd then effect (M_Service (service_event t sd)) (names_of s q) else names_of s q)"
    "sent_to other evs = (if t = ServiceCreated \<and> item_or_empty controllerType sd = controllerTypeServiceDiscovery
       \<and> k \<notin> names_of s (sd_participantName sd) \<and> other = sd_participantName sd
       then [M_Participant \<lparr>pde_participantName = svd_participantName s, pde_version = 1, pde_services = map snd (services_of s (svd_participantName s))\<rparr>]
       else [])"
proof -
  have "cache_ok s' \<and> svd_participantName s' = svd_participantName s \<and> \<not> svd_shuttingDown s' \<and>
    names_of s' q = (if q = sd_participantName sd then effect (M_Service (service_event t sd)) (names_of s q) else names_of s q) \<and>
    sent_to other evs = (if t = ServiceCreated \<and> item_or_empty controllerType sd = controllerTypeServiceDiscovery
       \<and> k \<notin> names_of s (sd_participantName sd) \<and> other = sd_participantName sd
       then [M_Participant \<lparr>pde_participantName = svd_participantName s, pde_version = 1, pde_services = map snd (services_of s (svd_participantName s))\<rparr>]
       else [])"
  proof (cases "t = ServiceCreated")
    case True
    then have a: "OnServiceAddition deserialize sd s = (s', evs, err)"
      using assms(4,7) by (simp add: svd_ReceiveService_def service_event_def)
    note e = addition_effect [OF assms(1-3) a]
    have "keeps_track s (s', evs, None)" using OnServiceAddition_track [OF assms(1)] a e(1) by metis
    with e(2) [of q] e(3) [of other] True assms(3,4,5) show ?thesis by (auto simp: keeps_track_def service_event_def)
  next
    case False
    then have a: "OnServiceRemoval deserialize sd s = (s', evs, err)"
      using assms(4,7) by (simp add: svd_ReceiveService_def service_event_def)
    note e = removal_effect [OF assms(1-3) a]
    have "keeps_track s (s', evs, None)" using OnServiceRemoval_track [OF assms(1)] a e(1) by metis
    with e(2) [of q] e(3) [of other] False assms(3,4) show ?thesis by (auto simp: keeps_track_def service_event_def)
  qed
  then show "cache_ok s'" "svd_participantName s' = svd_participantName s" "\<not> svd_shuttingDown s'"
    "names_of s' q = (if q = sd_participantName sd then effect (M_Service (service_event t sd)) (names_of s q) else names_of s q)"
    "sent_to other evs = (if t = ServiceCreated \<and> item_or_empty controllerType sd = controllerTypeServiceDiscovery
       \<and> k \<notin> names_of s (sd_participantName sd) \<and> other = sd_participantName sd
       then [M_Participant \<lparr>pde_participantName = svd_participantName s, pde_version = 1, pde_services = map snd (services_of s (svd_participantName s))\<rparr>]
       else [])"
    by blast+
qed

lemma deliver_participant_effect:
  assumes "cache_ok s" "readable deserialize" "\<not> svd_shuttingDown s" "pde_participantName msg = p"
    "\<forall>sd \<in> set (pde_services msg). sd_participantName sd = p \<and> (\<exists>k. sd_to_string sd = Inr k)"
    "deliver deserialize (M_Participant msg) s = (s', evs, err)"
  shows "cache_ok s'" "svd_participantName s' = svd_participantName s" "\<not> svd_shuttingDown s'"
    "names_of s' q = (if q = p then effect (M_Participant msg) (names_of s q) else names_of s q)" "sent_to other evs = []"
proof -
  let ?s = "set_services p (services_of s p) s"
  have a: "add_services deserialize p (pde_services msg) ?s = (s', evs, err)"
    using assms(3,4,6) by (simp add: svd_ReceiveParticipant_def OnParticpantAddition_def)
  have e: "err = None \<and> sent_to other evs = [] \<and>
      names_of s' q = (if q = p then names_of ?s q \<union> {k. \<exists>sd \<in> set (pde_services msg). sd_to_string sd = Inr k} else names_of ?s q)"
    by (rule add_services_effect [OF assms(2) _ a]) (use assms(5) in blast)
  have "keeps_track ?s (s', evs, None)"
    using add_services_track [of ?s "pde_services msg" p deserialize] unchanged_touch [OF assms(1), of p] assms(5) a e
    by (metis unchanged_def)
  then show "cache_ok s'" "svd_participantName s' = svd_participantName s" "\<not> svd_shuttingDown s'"
    using assms(3) by (auto simp: keeps_track_def)
  show "names_of s' q = (if q = p then effect (M_Participant msg) (names_of s q) else names_of s q)" "sent_to other evs = []"
    using e by (auto simp: names_of_def)
qed

section \<open>The invariant\<close>

lemma invD:
  assumes "pair_inv own d"
  shows "cache_ok (dp_joining d)" "cache_ok (dp_present d)" "\<not> svd_shuttingDown (dp_joining d)" "\<not> svd_shuttingDown (dp_present d)"
    "svd_participantName (dp_joining d) = sd_participantName own" "svd_participantName (dp_present d) \<noteq> sd_participantName own"
    "list_all (from_joining own) (dp_toPresent d)" "list_all (from_present own (svd_participantName (dp_present d))) (dp_toJoining d)"
    "fold effect (dp_toPresent d) (names_of (dp_present d) (sd_participantName own)) = names_of (dp_joining d) (sd_participantName own)"
    "fold effect (dp_toJoining d) (names_of (dp_joining d) (svd_participantName (dp_present d)))
       \<subseteq> names_of (dp_present d) (svd_participantName (dp_present d))"
    "\<exists>k \<in> names_of (dp_present d) (sd_participantName own). sd_to_string own = Inr k \<Longrightarrow>
       fold effect (dp_toJoining d) (names_of (dp_joining d) (svd_participantName (dp_present d)))
       = names_of (dp_present d) (svd_participantName (dp_present d))"
  using assms by (auto simp: pair_inv_def Let_def)

lemma pair_inv_start:
  assumes "cache_ok b" "\<not> svd_shuttingDown b" "svd_participantName b \<noteq> sd_participantName own" "services_of b (sd_participantName own) = []"
  shows "pair_inv own \<lparr>dp_joining = ServiceDiscovery_new (sd_participantName own), dp_present = b, dp_toPresent = [], dp_toJoining = []\<rparr>"
  using assms by (auto simp: pair_inv_def Let_def ServiceDiscovery_new_def cache_ok_def names_of_def umap_at_def)

lemma pair_inv_joining_changes:
  assumes inv: "pair_inv own d" and a: "cache_ok a" "svd_participantName a = sd_participantName own" "\<not> svd_shuttingDown a"
    "\<And>q. names_of a q = (if q = sd_participantName own then effect m (names_of (dp_joining d) q) else names_of (dp_joining d) q)"
    and m: "from_joining own m"
  shows "pair_inv own (d\<lparr>dp_joining := a, dp_toPresent := dp_toPresent d @ [m]\<rparr>)"
  using invD [OF inv] a m by (auto simp: pair_inv_def Let_def)

lemma effect_mono: "V \<subseteq> W \<Longrightarrow> effect m V \<subseteq> effect m W"
  by (cases m) (auto split: sum.splits)

lemma pair_inv_present_changes:
  assumes inv: "pair_inv own d" and b: "cache_ok b" "svd_participantName b = svd_participantName (dp_present d)" "\<not> svd_shuttingDown b"
    "\<And>q. names_of b q = (if q = svd_participantName (dp_present d) then effect m (names_of (dp_present d) q) else names_of (dp_present d) q)"
    and m: "from_present own (svd_participantName (dp_present d)) m"
  shows "pair_inv own (d\<lparr>dp_present := b, dp_toJoining := dp_toJoining d @ [m]\<rparr>)"
  using invD [OF inv] b m effect_mono [OF invD(10) [OF inv], of m] by (auto simp: pair_inv_def Let_def)

lemma pair_inv_joining_receives:
  assumes inv: "pair_inv own d" and q: "dp_toJoining d = m # ms"
    and a: "cache_ok a" "svd_participantName a = sd_participantName own" "\<not> svd_shuttingDown a"
    "\<And>q. names_of a q = (if q = svd_participantName (dp_present d) then effect m (names_of (dp_joining d) q) else names_of (dp_joining d) q)"
  shows "pair_inv own (d\<lparr>dp_joining := a, dp_toJoining := ms, dp_toPresent := dp_toPresent d @ []\<rparr>)"
  using invD [OF inv] a q by (auto simp: pair_inv_def Let_def)

lemma pair_inv_present_receives:
  assumes inv: "pair_inv own d" and q: "dp_toPresent d = m # ms"
    and b: "cache_ok b" "svd_participantName b = svd_participantName (dp_present d)" "\<not> svd_shuttingDown b"
    "\<And>q. names_of b q = (if q = sd_participantName own then effect m (names_of (dp_present d) q) else names_of (dp_present d) q)"
    and known: "\<And>k. sd_to_string own = Inr k \<Longrightarrow> k \<in> effect m (names_of (dp_present d) (sd_participantName own)) \<Longrightarrow>
      k \<in> names_of (dp_present d) (sd_participantName own)"
  shows "pair_inv own (d\<lparr>dp_present := b, dp_toPresent := ms, dp_toJoining := dp_toJoining d @ []\<rparr>)"
  using invD [OF inv] b q known by (auto simp: pair_inv_def Let_def)

lemma pair_inv_announcement:
  assumes inv: "pair_inv own d" and q: "dp_toPresent d = m # ms"
    and b: "cache_ok b" "svd_participantName b = svd_participantName (dp_present d)" "\<not> svd_shuttingDown b"
    "\<And>q. names_of b q = (if q = sd_participantName own then effect m (names_of (dp_present d) q) else names_of (dp_present d) q)"
    and msg: "pde_participantName msg = svd_participantName (dp_present d)"
      "pde_services msg = map snd (services_of (dp_present d) (svd_participantName (dp_present d)))"
  shows "pair_inv own (d\<lparr>dp_present := b, dp_toPresent := ms, dp_toJoining := dp_toJoining d @ [M_Participant msg]\<rparr>)"
proof -
  let ?B = "svd_participantName (dp_present d)"
  have ok: "map_ok ?B (services_of (dp_present d) ?B)" using services_ok invD(2) [OF inv] by blast
  then have "from_present own ?B (M_Participant msg)" using msg by (force simp: from_present_def map_ok_def)
  moreover have "effect (M_Participant msg) V = names_of (dp_present d) ?B" if "V \<subseteq> names_of (dp_present d) ?B" for V
  proof -
    have "{k. \<exists>sd \<in> set (pde_services msg). sd_to_string sd = Inr k} = names_of (dp_present d) ?B"
      using ok msg(2) by (force simp: map_ok_def names_of_def)
    with that show ?thesis by auto
  qed
  from this [OF invD(10) [OF inv]] calculation show ?thesis using invD [OF inv] b q by (auto simp: pair_inv_def Let_def)
qed

lemma from_joiningE:
  assumes "from_joining own m" "discovery_service own"
  obtains t sd k where "m = M_Service (service_event t sd)" "sd_participantName sd = sd_participantName own"
    "sd_to_string sd = Inr k" "t = ServiceCreated \<or> t = ServiceRemoved" "sd = own \<and> t = ServiceCreated \<or> ordinary own sd"
  using assms unfolding from_joining_def service_message_def discovery_service_def ordinary_def by blast

lemma joins_inv:
  assumes "readable deserialize" "discovery_service own"
  shows "joins deserialize own d \<Longrightarrow> pair_inv own d"
proof (induction rule: joins.induct)
  case (join_start b)
  then show ?case by (rule pair_inv_start)
next
  case (join_create d sd a evs)
  obtain k where k: "sd_to_string sd = Inr k" using join_create(2) assms(2) by (auto simp: ordinary_def discovery_service_def)
  note i = invD [OF join_create.IH]
  note e = notify_created_effect [OF i(1) assms(1) k i(3) _ join_create(4)]
  have "from_joining own (M_Service (service_event ServiceCreated sd))"
    using join_create(2,3) by (auto simp: from_joining_def service_message_def)
  from pair_inv_joining_changes [OF join_create.IH _ _ _ _ this, of a] e i(5) join_create(3) show ?case by simp
next
  case (join_remove d sd a evs)
  obtain k where k: "sd_to_string sd = Inr k" using join_remove(2) by (auto simp: ordinary_def)
  note i = invD [OF join_remove.IH]
  note e = notify_removed_effect [OF i(1) assms(1) k i(3) _ join_remove(4)]
  have "from_joining own (M_Service (service_event ServiceRemoved sd))"
    using join_remove(2,3) by (auto simp: from_joining_def service_message_def)
  from pair_inv_joining_changes [OF join_remove.IH _ _ _ _ this, of a] e i(5) join_remove(3) show ?case by simp
next
  case (present_create d sd b evs)
  obtain k where k: "sd_to_string sd = Inr k" using present_create(2) by (auto simp: ordinary_def)
  note i = invD [OF present_create.IH]
  note e = notify_created_effect [OF i(2) assms(1) k i(4) _ present_create(4)]
  have "from_present own (svd_participantName (dp_present d)) (M_Service (service_event ServiceCreated sd))"
    using present_create(2,3) by (auto simp: from_present_def service_message_def)
  from pair_inv_present_changes [OF present_create.IH _ _ _ _ this, of b] e present_create(3) show ?case by simp
next
  case (present_remove d sd b evs)
  obtain k where k: "sd_to_string sd = Inr k" using present_remove(2) by (auto simp: ordinary_def)
  note i = invD [OF present_remove.IH]
  note e = notify_removed_effect [OF i(2) assms(1) k i(4) _ present_remove(4)]
  have "from_present own (svd_participantName (dp_present d)) (M_Service (service_event ServiceRemoved sd))"
    using present_remove(2,3) by (auto simp: from_present_def service_message_def)
  from pair_inv_present_changes [OF present_remove.IH _ _ _ _ this, of b] e present_remove(3) show ?case by simp
next
  case (present_receives d m ms b evs err)
  note i = invD [OF present_receives.IH]
  have "from_joining own m" using i(7) present_receives(2) by simp
  then obtain t sd k where m: "m = M_Service (service_event t sd)" "sd_participantName sd = sd_participantName own"
    "sd_to_string sd = Inr k" "t = ServiceCreated \<or> t = ServiceRemoved" "sd = own \<and> t = ServiceCreated \<or> ordinary own sd"
    using from_joiningE [OF _ assms(2)] by blast
  have "sd_participantName sd \<noteq> svd_participantName (dp_present d)" using m(2) i(6) by simp
  note e = deliver_service_effect [OF i(2) assms(1) m(3) i(4) this m(4) present_receives(3) [unfolded m(1)]]
  have names: "names_of b q = (if q = sd_participantName own then effect m (names_of (dp_present d) q) else names_of (dp_present d) q)" for q
    using e(4) m(1,2) by simp
  show ?case
  proof (cases "sd = own \<and> k \<notin> names_of (dp_present d) (sd_participantName own)")
    case True
    then have "t = ServiceCreated" using m(5) by (auto simp: ordinary_def)
    then show ?thesis
      using pair_inv_announcement [OF present_receives.IH present_receives(2) e(1,2,3) names] e(5) True assms(2)
      by (simp add: discovery_service_def)
  next
    case False
    have "sent_to (sd_participantName own) evs = []" using e(5) False m(2,5) by (auto simp: ordinary_def)
    moreover have "sd_to_string own = Inr k' \<Longrightarrow> k' \<in> effect m (names_of (dp_present d) (sd_participantName own)) \<Longrightarrow>
        k' \<in> names_of (dp_present d) (sd_participantName own)" for k'
      using False m(1,3,5) by (auto simp: ordinary_def service_event_def split: if_splits)
    ultimately show ?thesis using pair_inv_present_receives [OF present_receives.IH present_receives(2) e(1,2,3) names] by simp
  qed
next
  case (joining_receives d m ms a evs err)
  note i = invD [OF joining_receives.IH]
  let ?B = "svd_participantName (dp_present d)"
  have "from_present own ?B m" using i(8) joining_receives(2) by simp
  then consider (service) t sd k where "m = M_Service (service_event t sd)" "sd_participantName sd = ?B" "sd_to_string sd = Inr k"
      "t = ServiceCreated \<or> t = ServiceRemoved" "ordinary own sd"
    | (participant) msg where "m = M_Participant msg" "pde_participantName msg = ?B"
      "\<forall>sd \<in> set (pde_services msg). sd_participantName sd = ?B \<and> (\<exists>k. sd_to_string sd = Inr k)"
    unfolding from_present_def service_message_def ordinary_def by blast
  then show ?case
  proof cases
    case service
    have "sd_participantName sd \<noteq> svd_participantName (dp_joining d)" using service(2) i(5,6) by simp
    note e = deliver_service_effect [OF i(1) assms(1) service(3) i(3) this service(4) joining_receives(3) [unfolded service(1)]]
    have "sent_to ?B evs = []" using e(5) service(5) by (simp add: ordinary_def)
    then show ?thesis
      using pair_inv_joining_receives [OF joining_receives.IH joining_receives(2), of a] e(1-4) i(5) service(1,2) by simp
  next
    case participant
    note e = deliver_participant_effect [OF i(1) assms(1) i(3) participant(2,3) joining_receives(3) [unfolded participant(1)]]
    then show ?thesis
      using pair_inv_joining_receives [OF joining_receives.IH joining_receives(2), of a] i(5) participant(1) by simp
  qed
qed

section \<open>Properties\<close>


definition example_own :: ServiceDescriptor where
  "example_own = \<lparr>sd_participantName = ''A'', sd_participantId = 2, sd_serviceType = 4, sd_networkName = ''N'', sd_networkType = 0,
     sd_serviceName = ''ServiceDiscovery'', sd_serviceId = 3, sd_supplementalData = [(controllerType, controllerTypeServiceDiscovery)]\<rparr>"

definition example_present :: service_discovery where
  "example_present = fst (NotifyServiceCreated (example_deserialize LK_Mandatory) (example_publisher 1 ''x'') (ServiceDiscovery_new ''P''))"

definition example_joining :: discovery_outcome where
  "example_joining = NotifyServiceCreated (example_deserialize LK_Mandatory) example_own (ServiceDiscovery_new ''A'')"

definition example_announced :: discovery_outcome where
  "example_announced = deliver (example_deserialize LK_Mandatory) (M_Service (service_event ServiceCreated example_own)) example_present"

definition example_informed :: discovery_outcome where
  "example_informed = deliver (example_deserialize LK_Mandatory)
     (M_Participant \<lparr>pde_participantName = ''P'', pde_version = 1, pde_services = [example_publisher 1 ''x'']\<rparr>) (fst example_joining)"

definition example_joined :: discovery_pair where
  "example_joined = \<lparr>dp_joining = fst example_informed, dp_present = fst example_announced, dp_toPresent = [], dp_toJoining = []\<rparr>"

lemma example_joins: "joins (example_deserialize LK_Mandatory) example_own example_joined"
proof -
  let ?de = "example_deserialize LK_Mandatory"
  let ?d0 = "\<lparr>dp_joining = ServiceDiscovery_new (sd_participantName example_own), dp_present = example_present, dp_toPresent = [], dp_toJoining = []\<rparr>"
  have "cache_ok example_present" "\<not> svd_shuttingDown example_present" "svd_participantName example_present \<noteq> sd_participantName example_own"
    "services_of example_present (sd_participantName example_own) = []" by code_simp+
  then have 0: "joins ?de example_own ?d0" by (rule join_start)
  have o: "sd_participantName example_own = ''A''" "svd_participantName example_present = ''P''" by code_simp+
  have j: "example_joining = (fst example_joining, [DE_Broadcast (service_event ServiceCreated example_own)], None)" by code_simp
  have 1: "joins ?de example_own \<lparr>dp_joining = fst example_joining, dp_present = example_present,
      dp_toPresent = [M_Service (service_event ServiceCreated example_own)], dp_toJoining = []\<rparr>"
    using join_create [OF 0, of example_own "fst example_joining"] j o unfolding example_joining_def by fastforce
  have a: "fst (snd example_announced) = [DE_SendTo ''A'' \<lparr>pde_participantName = ''P'', pde_version = 1, pde_services = [example_publisher 1 ''x'']\<rparr>]"
    by code_simp
  obtain err where a': "example_announced = (fst example_announced, fst (snd example_announced), err)" by (metis prod.collapse)
  have 2: "joins ?de example_own \<lparr>dp_joining = fst example_joining, dp_present = fst example_announced, dp_toPresent = [],
      dp_toJoining = [M_Participant \<lparr>pde_participantName = ''P'', pde_version = 1, pde_services = [example_publisher 1 ''x'']\<rparr>]\<rparr>"
    using present_receives [OF 1, of _ "[]"] a' a o unfolding example_announced_def by fastforce
  have i: "fst (snd example_informed) = []" by code_simp
  obtain err' where i': "example_informed = (fst example_informed, fst (snd example_informed), err')" by (metis prod.collapse)
  show ?thesis using joining_receives [OF 2, of _ "[]"] i i' unfolding example_joined_def example_informed_def by fastforce
qed


end
