(* ===== verification/Rpc.thy ===== *)
theory Rpc
  imports DiscoveryStore DataRpcSerdes
begin

text \<open>
  Remote procedure calls: \<^verbatim>\<open>services/rpc/RpcClient.cpp\<close>, \<^verbatim>\<open>RpcServer.cpp\<close> and \<^verbatim>\<open>RpcServerInternal.cpp\<close>. The time and the
  random identifiers are arguments. The handlers of the user are events; a call they make to the client or the server takes effect
  after the event, which is what the code does with them: it holds no lock and uses nothing afterwards that such a call changes
  but the entry of the call itself.
\<close>

section \<open>Client\<close>

datatype rpc_call_status = RCS_Success | RCS_ServerNotReachable | RCS_UndefinedError | RCS_InternalServerError | RCS_Timeout

definition ToRpcCallStatus :: "32 word \<Rightarrow> rpc_call_status" where
  "ToRpcCallStatus status = (if status = 0 then RCS_Success else if status = 1 then RCS_InternalServerError else RCS_UndefinedError)"

record rpc_call_info =
  rci_remainingReturnCount :: int
  rci_userContext :: nat

record timeout_entry =
  te_timeLeft :: int
  te_callUuid :: uuid

record rpc_client =
  rc_clientUUID :: string
  rc_labels :: "MatchingLabel list"
  rc_handler :: bool
  rc_numCounterparts :: "32 word"
  rc_activeCalls :: "(uuid \<times> rpc_call_info) list"
  rc_timeoutEntries :: "timeout_entry list"
  rc_isTimeoutHandlerSet :: bool

datatype rpc_client_event =
    RE_Result int nat rpc_call_status "byte list"
  | RE_Send FunctionCall
  | RE_AddNextSimStepHandler
  | RE_Warn string

type_synonym rpc_client_outcome = "rpc_client \<times> rpc_client_event list \<times> error option"

definition RpcClient_new :: "string \<Rightarrow> MatchingLabel list \<Rightarrow> bool \<Rightarrow> rpc_client" where
  "RpcClient_new clientUUID labels handler = \<lparr>rc_clientUUID = clientUUID, rc_labels = labels, rc_handler = handler, rc_numCounterparts = 0,
     rc_activeCalls = [], rc_timeoutEntries = [], rc_isTimeoutHandlerSet = False\<rparr>"

text \<open>The handler that \<^verbatim>\<open>RegisterServiceDiscovery\<close> registers, and the registration.\<close>

definition client_matchHandler :: "32 word \<Rightarrow> ServiceDescriptor \<Rightarrow> rpc_client \<Rightarrow> rpc_client_outcome" where
  "client_matchHandler discoveryType sd c =
     (case GetSupplementalDataItem supplKeyRpcServerInternalClientUUID sd of
        None \<Rightarrow> (c, [], Some (StateError ''Unknown key in supplementalData''))
      | Some clientUUID \<Rightarrow>
          if clientUUID = rc_clientUUID c
          then if discoveryType = ServiceCreated then (c\<lparr>rc_numCounterparts := rc_numCounterparts c + 1\<rparr>, [], None)
               else if discoveryType = ServiceRemoved then (c\<lparr>rc_numCounterparts := rc_numCounterparts c - 1\<rparr>, [], None)
               else (c, [], None)
          else (c, [], None))"

definition client_RegisterServiceDiscovery :: "nat \<Rightarrow> rpc_client \<Rightarrow> discovery_lookup \<Rightarrow> discovery_lookup \<times> discovery_call list" where
  "client_RegisterServiceDiscovery handler c lookup =
     store_RegisterSpecificServiceDiscoveryHandler handler controllerTypeRpcServerInternal (rc_clientUUID c) (rc_labels c) lookup"

definition result_event :: "int \<Rightarrow> nat \<Rightarrow> rpc_call_status \<Rightarrow> byte list \<Rightarrow> rpc_client \<Rightarrow> rpc_client_event list" where
  "result_event timestamp userContext status data c = (if rc_handler c then [RE_Result timestamp userContext status data] else [])"

definition TriggerCall :: "int \<Rightarrow> uuid \<Rightarrow> byte list \<Rightarrow> int option \<Rightarrow> nat \<Rightarrow> rpc_client \<Rightarrow> rpc_client_outcome" where
  "TriggerCall now callUuid data timeout userContext c =
     (if rc_numCounterparts c = 0 then (c, result_event now userContext RCS_ServerNotReachable [] c, None)
      else let info = \<lparr>rci_remainingReturnCount = sint (rc_numCounterparts c), rci_userContext = userContext\<rparr>;
               c1 = (if map_of (rc_activeCalls c) callUuid = None then c\<lparr>rc_activeCalls := (callUuid, info) # rc_activeCalls c\<rparr> else c);
               msg = \<lparr>fc_timestamp = now, fc_callUuid = callUuid, fc_data = data\<rparr>
        in case timeout of
             None \<Rightarrow> (c1, [RE_Send msg], None)
           | Some t \<Rightarrow>
               let c2 = c1\<lparr>rc_timeoutEntries := rc_timeoutEntries c1 @ [\<lparr>te_timeLeft = t, te_callUuid = callUuid\<rparr>]\<rparr>
               in if rc_isTimeoutHandlerSet c2 then (c2, [RE_Send msg], None)
                  else (c2\<lparr>rc_isTimeoutHandlerSet := True\<rparr>, [RE_AddNextSimStepHandler, RE_Send msg], None))"

definition rpc_Call :: "int \<Rightarrow> uuid \<Rightarrow> byte list \<Rightarrow> nat \<Rightarrow> rpc_client \<Rightarrow> rpc_client_outcome" where
  "rpc_Call now callUuid data userContext c = TriggerCall now callUuid data None userContext c"

definition CallWithTimeout :: "int \<Rightarrow> uuid \<Rightarrow> byte list \<Rightarrow> int \<Rightarrow> nat \<Rightarrow> rpc_client \<Rightarrow> rpc_client_outcome" where
  "CallWithTimeout now callUuid data timeout userContext c = TriggerCall now callUuid data (Some timeout) userContext c"

text \<open>
  The second loop of \<^verbatim>\<open>TimeHandler\<close>. The iterator is dereferenced before it is compared with the end, and the handler
  is called without a test that it is set: an empty \<^verbatim>\<open>std::function\<close> throws \<^verbatim>\<open>std::bad_function_call\<close>.
\<close>

fun time_out :: "int \<Rightarrow> timeout_entry list \<Rightarrow> rpc_client \<Rightarrow> rpc_client_outcome" where
  "time_out now [] c = (c, [], None)"
| "time_out now (entry # entries) c =
     (case map_of (rc_activeCalls c) (te_callUuid entry) of
        None \<Rightarrow> (c, [], Some (Undefined_behaviour ''dereferenced end iterator''))
      | Some info \<Rightarrow>
          let c1 = c\<lparr>rc_activeCalls := AList.delete (te_callUuid entry) (rc_activeCalls c)\<rparr>
          in if rc_handler c1
             then (case time_out now entries c1 of (c2, evs, err) \<Rightarrow>
                     (c2, RE_Result now (rci_userContext info) RCS_Timeout [] # evs, err))
             else (c1, [], Some (LogicError ''std::bad_function_call'')))"

definition TimeHandler :: "int \<Rightarrow> int \<Rightarrow> rpc_client \<Rightarrow> rpc_client_outcome" where
  "TimeHandler now duration c =
     (let entries = map (\<lambda>e. e\<lparr>te_timeLeft := te_timeLeft e - duration\<rparr>) (rc_timeoutEntries c)
      in time_out now (filter (\<lambda>e. te_timeLeft e \<le> 0) entries) (c\<lparr>rc_timeoutEntries := filter (\<lambda>e. te_timeLeft e > 0) entries\<rparr>))"

definition SetCallResultHandler :: "bool \<Rightarrow> rpc_client \<Rightarrow> rpc_client" where
  "SetCallResultHandler handler c = c\<lparr>rc_handler := handler\<rparr>"

definition client_ReceiveMessage :: "FunctionCallResponse \<Rightarrow> rpc_client \<Rightarrow> rpc_client_outcome" where
  "client_ReceiveMessage msg c =
     (case map_of (rc_activeCalls c) (fcr_callUuid msg) of
        None \<Rightarrow> (c, [RE_Warn ''RpcClient: Received function call response with an unknown/deleted uuid. Might be a call reply that ran into a timeout.''], None)
      | Some info \<Rightarrow>
          let evs = result_event (fcr_timestamp msg) (rci_userContext info) (ToRpcCallStatus (fcr_status msg)) (fcr_data msg) c;
              info1 = info\<lparr>rci_remainingReturnCount := rci_remainingReturnCount info - 1\<rparr>
          in (c\<lparr>rc_activeCalls := (if rci_remainingReturnCount info1 \<le> 0 then AList.delete (fcr_callUuid msg) (rc_activeCalls c)
                else AList.update (fcr_callUuid msg) info1 (rc_activeCalls c))\<rparr>, evs, None))"

section \<open>Server\<close>

record rpc_server_internal =
  rsi_mediaType :: string
  rsi_labels :: "MatchingLabel list"
  rsi_handler :: bool
  rsi_activeCalls :: "uuid list"

record rpc_server =
  rs_functionName :: string
  rs_mediaType :: string
  rs_labels :: "MatchingLabel list"
  rs_handler :: bool
  rs_internalRpcServers :: "(string \<times> rpc_server_internal) list"

datatype rpc_server_event =
    RSE_Handler int uuid "byte list"
  | RSE_Send string FunctionCallResponse
  | RSE_Error string

type_synonym rpc_server_outcome = "rpc_server \<times> rpc_server_event list \<times> error option"

definition RpcServer_new :: "string \<Rightarrow> string \<Rightarrow> MatchingLabel list \<Rightarrow> bool \<Rightarrow> rpc_server" where
  "RpcServer_new functionName mediaType labels handler = \<lparr>rs_functionName = functionName, rs_mediaType = mediaType, rs_labels = labels,
     rs_handler = handler, rs_internalRpcServers = []\<rparr>"

definition rpc_MatchMediaType :: "string \<Rightarrow> string \<Rightarrow> bool" where
  "rpc_MatchMediaType clientMediaType serverMediaType \<longleftrightarrow> clientMediaType = '''' \<or> clientMediaType = serverMediaType"

definition AddInternalRpcServer :: "string \<Rightarrow> string \<Rightarrow> MatchingLabel list \<Rightarrow> rpc_server \<Rightarrow> rpc_server" where
  "AddInternalRpcServer clientUUID joinedMediaType clientLabels s =
     (if map_of (rs_internalRpcServers s) clientUUID = None
      then s\<lparr>rs_internalRpcServers := rs_internalRpcServers s @ [(clientUUID,
        \<lparr>rsi_mediaType = joinedMediaType, rsi_labels = clientLabels, rsi_handler = rs_handler s, rsi_activeCalls = []\<rparr>)]\<rparr>
      else s)"

definition server_matchHandler ::
    "(string \<Rightarrow> MatchingLabel list result) \<Rightarrow> 32 word \<Rightarrow> ServiceDescriptor \<Rightarrow> rpc_server \<Rightarrow> rpc_server_outcome" where
  "server_matchHandler deserialize discoveryType sd s =
     (if discoveryType \<noteq> ServiceCreated then (s, [], None)
      else let unknown = StateError ''Unknown key in supplementalData''
        in case GetSupplementalDataItem supplKeyRpcClientUUID sd of None \<Rightarrow> (s, [], Some unknown) | Some clientUUID \<Rightarrow>
           if map_of (rs_internalRpcServers s) clientUUID \<noteq> None then (s, [], None)
           else case GetSupplementalDataItem supplKeyRpcClientFunctionName sd of None \<Rightarrow> (s, [], Some unknown) | Some functionName \<Rightarrow>
             case GetSupplementalDataItem supplKeyRpcClientMediaType sd of None \<Rightarrow> (s, [], Some unknown) | Some clientMediaType \<Rightarrow>
             case GetSupplementalDataItem supplKeyRpcClientLabels sd of None \<Rightarrow> (s, [], Some unknown) | Some labelsStr \<Rightarrow>
             case deserialize labelsStr of Inl e \<Rightarrow> (s, [], Some e) | Inr clientLabels \<Rightarrow>
             if functionName = rs_functionName s \<and> rpc_MatchMediaType clientMediaType (rs_mediaType s) \<and> MatchLabels (rs_labels s) clientLabels
             then (AddInternalRpcServer clientUUID clientMediaType clientLabels s, [], None) else (s, [], None))"

text \<open>\<^verbatim>\<open>RpcServerInternal::ReceiveMessage\<close> of the internal server of a client.\<close>

definition server_ReceiveMessage :: "int \<Rightarrow> string \<Rightarrow> FunctionCall \<Rightarrow> rpc_server \<Rightarrow> rpc_server_outcome" where
  "server_ReceiveMessage now clientUUID msg s =
     (case map_of (rs_internalRpcServers s) clientUUID of
        None \<Rightarrow> (s, [], None)
      | Some i \<Rightarrow>
          let refusal = RSE_Send clientUUID \<lparr>fcr_timestamp = now, fcr_callUuid = fc_callUuid msg, fcr_data = [], fcr_status = 1\<rparr>
          in if \<not> rsi_handler i
             then (s, [refusal, RSE_Error ''RpcServerInternal: FunctionCall received but no handler has been set''], None)
             else if fc_callUuid msg \<in> set (rsi_activeCalls i)
             then (s, [refusal, RSE_Error ''RpcServerInternal: Received FunctionCall with already active callUuid''], None)
             else (s\<lparr>rs_internalRpcServers := AList.update clientUUID (i\<lparr>rsi_activeCalls := fc_callUuid msg # rsi_activeCalls i\<rparr>)
                     (rs_internalRpcServers s)\<rparr>, [RSE_Handler (fc_timestamp msg) (fc_callUuid msg) (fc_data msg)], None))"

text \<open>\<open>submit_all\<close> is the loop of \<^verbatim>\<open>RpcServer::SubmitResult\<close> over the internal servers.\<close>

definition internal_SubmitResult :: "int \<Rightarrow> string \<Rightarrow> uuid \<Rightarrow> byte list \<Rightarrow> rpc_server_internal \<Rightarrow> rpc_server_internal \<times> rpc_server_event list \<times> bool" where
  "internal_SubmitResult now clientUUID callUuid resultData i =
     (if callUuid \<notin> set (rsi_activeCalls i) then (i, [], False)
      else (i\<lparr>rsi_activeCalls := removeAll callUuid (rsi_activeCalls i)\<rparr>,
        [RSE_Send clientUUID \<lparr>fcr_timestamp = now, fcr_callUuid = callUuid, fcr_data = resultData, fcr_status = 0\<rparr>], True))"

fun submit_all :: "int \<Rightarrow> uuid \<Rightarrow> byte list \<Rightarrow> (string \<times> rpc_server_internal) list
    \<Rightarrow> (string \<times> rpc_server_internal) list \<times> rpc_server_event list \<times> nat" where
  "submit_all now callUuid resultData [] = ([], [], 0)"
| "submit_all now callUuid resultData ((clientUUID, i) # is) =
     (case internal_SubmitResult now clientUUID callUuid resultData i of (i1, evs1, submitted) \<Rightarrow>
      case submit_all now callUuid resultData is of (is1, evs2, n) \<Rightarrow>
        ((clientUUID, i1) # is1, evs1 @ evs2, (if submitted then 1 else 0) + n))"

definition server_SubmitResult :: "int \<Rightarrow> uuid option \<Rightarrow> byte list \<Rightarrow> rpc_server \<Rightarrow> rpc_server_outcome" where
  "server_SubmitResult now callHandle resultData s =
     (case callHandle of
        None \<Rightarrow> (s, [RSE_Error ''RpcServer::SubmitResult() must not be called with an invalid call handle!''],
          Some (StateError ''RpcServer::SubmitResult() must not be called with an invalid call handle!''))
      | Some callUuid \<Rightarrow>
          (case submit_all now callUuid resultData (rs_internalRpcServers s) of (internals, evs, submitResultCounter) \<Rightarrow>
             let s1 = s\<lparr>rs_internalRpcServers := internals\<rparr>
             in if submitResultCounter \<noteq> 1
                then (s1, evs @ [RSE_Error ''RpcServer::SubmitResult() returned to multiple clients''],
                  Some (StateError ''RpcServer::SubmitResult() returned to multiple clients''))
                else (s1, evs, None)))"

definition SetCallHandler :: "bool \<Rightarrow> rpc_server \<Rightarrow> rpc_server" where
  "SetCallHandler handler s = s\<lparr>rs_handler := handler,
     rs_internalRpcServers := map (\<lambda>(u, i). (u, i\<lparr>rsi_handler := handler\<rparr>)) (rs_internalRpcServers s)\<rparr>"

section \<open>Runs of a client\<close>

datatype rpc_client_input =
    RI_Call int uuid "byte list" "int option" nat
  | RI_Response FunctionCallResponse
  | RI_Time int int
  | RI_Discovered "32 word" ServiceDescriptor
  | RI_SetHandler bool

fun client_step :: "rpc_client_input \<Rightarrow> rpc_client \<Rightarrow> rpc_client_outcome" where
  "client_step (RI_Call now u data timeout ctx) c = TriggerCall now u data timeout ctx c"
| "client_step (RI_Response msg) c = client_ReceiveMessage msg c"
| "client_step (RI_Time now duration) c = TimeHandler now duration c"
| "client_step (RI_Discovered t sd) c = client_matchHandler t sd c"
| "client_step (RI_SetHandler h) c = (SetCallResultHandler h c, [], None)"

fun client_run :: "rpc_client_input list \<Rightarrow> rpc_client \<Rightarrow> rpc_client_outcome" where
  "client_run [] c = (c, [], None)"
| "client_run (i # is) c =
     (case client_step i c of
        (c1, evs1, Some e) \<Rightarrow> (c1, evs1, Some e)
      | (c1, evs1, None) \<Rightarrow> (case client_run is c1 of (c2, evs2, err) \<Rightarrow> (c2, evs1 @ evs2, err)))"

text \<open>The results with a context, and the returns a call still waits for.\<close>

fun has_context :: "nat \<Rightarrow> rpc_client_event \<Rightarrow> bool" where
  "has_context ctx (RE_Result _ x _ _) = (x = ctx)"
| "has_context ctx _ = False"

definition results :: "nat \<Rightarrow> rpc_client_event list \<Rightarrow> int" where
  "results ctx evs = int (length (filter (has_context ctx) evs))"

definition remaining :: "uuid \<Rightarrow> rpc_client \<Rightarrow> int" where
  "remaining u c = (case map_of (rc_activeCalls c) u of None \<Rightarrow> 0 | Some i \<Rightarrow> rci_remainingReturnCount i)"

lemma results_simps [simp]: "results ctx [] = 0" "results ctx (a @ b) = results ctx a + results ctx b"
  "results ctx (e # evs) = (if has_context ctx e then 1 else 0) + results ctx evs"
  by (simp_all add: results_def)

lemma results_nonneg [simp]: "0 \<le> results ctx evs"
  by (simp add: results_def)

text \<open>
  What is known of a call \<open>u\<close> with the context \<open>ctx\<close> that went to \<open>n\<close> servers, after \<open>r\<close> results; \<open>untimed\<close>: it has no timeout.
\<close>

definition call_inv :: "uuid \<Rightarrow> nat \<Rightarrow> int \<Rightarrow> bool \<Rightarrow> int \<Rightarrow> rpc_client \<Rightarrow> bool" where
  "call_inv u ctx n untimed r c \<longleftrightarrow> rc_handler c \<and> 0 \<le> r
     \<and> (\<forall>(u', i) \<in> set (rc_activeCalls c). rci_userContext i = ctx \<longleftrightarrow> u' = u)
     \<and> (case map_of (rc_activeCalls c) u of
          None \<Rightarrow> 1 \<le> r \<and> r \<le> n
        | Some i \<Rightarrow> 1 \<le> rci_remainingReturnCount i \<and> rci_remainingReturnCount i + r \<le> n)
     \<and> (untimed \<longrightarrow> u \<notin> te_callUuid ` set (rc_timeoutEntries c) \<and> remaining u c + r = n)"

fun other_input :: "uuid \<Rightarrow> nat \<Rightarrow> rpc_client_input \<Rightarrow> bool" where
  "other_input u ctx (RI_Call _ u' _ _ ctx') = (u' \<noteq> u \<and> ctx' \<noteq> ctx)"
| "other_input u ctx (RI_SetHandler h) = h"
| "other_input u ctx _ = True"

lemma call_inv_context: "call_inv u ctx n untimed r c \<Longrightarrow> map_of (rc_activeCalls c) u' = Some i \<Longrightarrow> rci_userContext i = ctx \<longleftrightarrow> u' = u"
  by (auto simp: call_inv_def dest: map_of_SomeD)

lemma set_update_subset: "set (AList.update k v m) \<subseteq> insert (k, v) (set m)"
  by (induction m) auto

lemma set_delete_subset: "set (AList.delete k m) \<subseteq> set m"
  by (auto simp: AList.delete_eq)

lemma TriggerCall_inv:
  assumes "call_inv u ctx n untimed r c" "u' \<noteq> u" "ctx' \<noteq> ctx" "TriggerCall now u' data timeout ctx' c = (c', evs, err)"
  shows "call_inv u ctx n untimed (r + results ctx evs) c'"
  using assms by (auto simp: TriggerCall_def Let_def result_event_def call_inv_def remaining_def split: option.splits if_splits)

lemma ReceiveMessage_inv:
  assumes inv: "call_inv u ctx n untimed r c" and out: "client_ReceiveMessage msg c = (c', evs, err)"
  shows "call_inv u ctx n untimed (r + results ctx evs) c'"
proof (cases "map_of (rc_activeCalls c) (fcr_callUuid msg)")
  case None
  with out inv show ?thesis by (auto simp: client_ReceiveMessage_def)
next
  case (Some i)
  have h: "rc_handler c" using inv by (simp add: call_inv_def)
  let ?i = "i\<lparr>rci_remainingReturnCount := rci_remainingReturnCount i - 1\<rparr>"
  let ?calls = "if rci_remainingReturnCount i \<le> 1 then AList.delete (fcr_callUuid msg) (rc_activeCalls c)
    else AList.update (fcr_callUuid msg) ?i (rc_activeCalls c)"
  have c': "c' = c\<lparr>rc_activeCalls := ?calls\<rparr>" and r: "results ctx evs = (if fcr_callUuid msg = u then 1 else 0)"
    using out Some h call_inv_context [OF inv Some] by (auto simp: client_ReceiveMessage_def Let_def result_event_def)
  have "set ?calls \<subseteq> insert (fcr_callUuid msg, ?i) (set (rc_activeCalls c))"
    using set_update_subset [of "fcr_callUuid msg" ?i "rc_activeCalls c"] set_delete_subset [of "fcr_callUuid msg" "rc_activeCalls c"] by auto
  then have ctx: "\<forall>(u', i) \<in> set ?calls. rci_userContext i = ctx \<longleftrightarrow> u' = u"
    using inv call_inv_context [OF inv Some] unfolding call_inv_def by fastforce
  have m: "map_of ?calls u = (if fcr_callUuid msg = u then if rci_remainingReturnCount i \<le> 1 then None else Some ?i
      else map_of (rc_activeCalls c) u)"
    by (auto simp: update_conv' delete_conv')
  show ?thesis
    using inv ctx m Some unfolding call_inv_def c' r by (auto simp: remaining_def split: option.splits if_splits)
qed

lemma time_out_inv:
  "call_inv u ctx n untimed r c \<Longrightarrow> untimed \<longrightarrow> u \<notin> te_callUuid ` set entries \<Longrightarrow> time_out now entries c = (c', evs, err) \<Longrightarrow>
     call_inv u ctx n untimed (r + results ctx evs) c'"
proof (induction now entries c arbitrary: r evs rule: time_out.induct)
  case (1 now c)
  then show ?case by simp
next
  case (2 now entry entries c)
  show ?case
  proof (cases "map_of (rc_activeCalls c) (te_callUuid entry)")
    case None
    with 2 show ?thesis by simp
  next
    case (Some info)
    let ?c1 = "c\<lparr>rc_activeCalls := AList.delete (te_callUuid entry) (rc_activeCalls c)\<rparr>"
    have h: "rc_handler ?c1" using "2.prems"(1) by (simp add: call_inv_def)
    obtain evs2 where r: "time_out now entries ?c1 = (c', evs2, err)" "evs = RE_Result now (rci_userContext info) RCS_Timeout [] # evs2"
      using "2.prems"(3) Some h by (auto split: prod.splits)
    let ?r = "if te_callUuid entry = u then 1 else 0"
    have "has_context ctx (RE_Result now (rci_userContext info) RCS_Timeout []) \<longleftrightarrow> te_callUuid entry = u"
      using call_inv_context [OF "2.prems"(1) Some] by simp
    moreover have "call_inv u ctx n untimed (r + ?r) ?c1"
    proof -
      have "\<forall>(u', i) \<in> set (rc_activeCalls ?c1). rci_userContext i = ctx \<longleftrightarrow> u' = u"
        using "2.prems"(1) set_delete_subset [of "te_callUuid entry" "rc_activeCalls c"] unfolding call_inv_def by fastforce
      then show ?thesis
        using "2.prems"(1,2) Some unfolding call_inv_def
        by (auto simp: delete_conv' remaining_def split: option.splits if_splits)
    qed
    from "2.IH" [OF Some refl h this _ r(1)] "2.prems"(2) have "call_inv u ctx n untimed (r + ?r + results ctx evs2) c'" by simp
    ultimately show ?thesis using r(2) by (simp add: add.assoc)
  qed
qed

lemma TimeHandler_inv:
  assumes "call_inv u ctx n untimed r c" "TimeHandler now duration c = (c', evs, err)"
  shows "call_inv u ctx n untimed (r + results ctx evs) c'"
proof -
  let ?entries = "map (\<lambda>e. e\<lparr>te_timeLeft := te_timeLeft e - duration\<rparr>) (rc_timeoutEntries c)"
  let ?c = "c\<lparr>rc_timeoutEntries := filter (\<lambda>e. te_timeLeft e > 0) ?entries\<rparr>"
  have "te_callUuid ` set ?entries = te_callUuid ` set (rc_timeoutEntries c)" by (simp add: image_image)
  then have uuids: "u \<notin> te_callUuid ` set (rc_timeoutEntries c) \<Longrightarrow> u \<notin> te_callUuid ` set (filter P ?entries)" for P by fastforce
  then have "call_inv u ctx n untimed r ?c" using assms(1) unfolding call_inv_def remaining_def by simp
  moreover have "untimed \<longrightarrow> u \<notin> te_callUuid ` set (filter (\<lambda>e. te_timeLeft e \<le> 0) ?entries)"
    using assms(1) uuids by (auto simp: call_inv_def)
  moreover have "time_out now (filter (\<lambda>e. te_timeLeft e \<le> 0) ?entries) ?c = (c', evs, err)"
    using assms(2) by (simp add: TimeHandler_def Let_def)
  ultimately show ?thesis by (rule time_out_inv)
qed

lemma client_step_inv:
  assumes "call_inv u ctx n untimed r c" "other_input u ctx i" "client_step i c = (c', evs, err)"
  shows "call_inv u ctx n untimed (r + results ctx evs) c'"
proof (cases i)
  case (RI_Call now u' data timeout ctx')
  then show ?thesis using assms TriggerCall_inv by auto
next
  case (RI_Response msg)
  then show ?thesis using assms ReceiveMessage_inv by auto
next
  case (RI_Time now duration)
  then show ?thesis using assms TimeHandler_inv by auto
next
  case (RI_Discovered t sd)
  then show ?thesis using assms
    by (auto simp: client_matchHandler_def call_inv_def remaining_def split: option.splits if_splits)
next
  case (RI_SetHandler h)
  then show ?thesis using assms by (auto simp: SetCallResultHandler_def call_inv_def remaining_def)
qed

lemma client_run_inv:
  "call_inv u ctx n untimed r c \<Longrightarrow> \<forall>i \<in> set is. other_input u ctx i \<Longrightarrow> client_run is c = (c', evs, err) \<Longrightarrow>
     call_inv u ctx n untimed (r + results ctx evs) c'"
proof (induction "is" arbitrary: c r evs)
  case Nil
  then show ?case by simp
next
  case (Cons i "is")
  obtain c1 evs1 err1 where 1: "client_step i c = (c1, evs1, err1)" by (metis surj_pair)
  have inv: "call_inv u ctx n untimed (r + results ctx evs1) c1" using client_step_inv [OF Cons.prems(1) _ 1] Cons.prems(2) by simp
  show ?case
  proof (cases err1)
    case (Some e)
    with Cons.prems(3) 1 inv show ?thesis by simp
  next
    case None
    then obtain evs2 where "client_run is c1 = (c', evs2, err)" "evs = evs1 @ evs2"
      using Cons.prems(3) 1 by (auto split: prod.splits)
    then show ?thesis using Cons.IH [OF inv] Cons.prems(2) by (simp add: add.assoc)
  qed
qed

lemma TriggerCall_starts:
  assumes "TriggerCall now u data timeout ctx c = (c1, evs, err)" "rc_handler c" "0 < sint (rc_numCounterparts c)"
    "map_of (rc_activeCalls c) u = None" "\<forall>(u', i) \<in> set (rc_activeCalls c). rci_userContext i \<noteq> ctx"
    "u \<notin> te_callUuid ` set (rc_timeoutEntries c)"
  shows "call_inv u ctx (sint (rc_numCounterparts c)) (timeout = None) 0 c1"
proof -
  have "rc_numCounterparts c \<noteq> 0" using assms(3) by auto
  moreover have "\<forall>(u', i) \<in> set (rc_activeCalls c). rci_userContext i \<noteq> ctx \<and> u' \<noteq> u"
    using assms(4,5) by (force simp: map_of_eq_None_iff)
  ultimately show ?thesis using assms
    by (auto simp: TriggerCall_def Let_def call_inv_def remaining_def split: option.splits if_splits)
qed

section \<open>Properties\<close>

text \<open>
  C29: the results of a call. A call that is sent to \<open>n\<close> servers gives the handler at most \<open>n\<close> results with the context of the call, and
  at least one before the call is forgotten, whatever responses, other calls, timeouts and changes of the servers follow. Without a
  timeout, the results and the returns the call still waits for add up to \<open>n\<close>: nothing is lost or reported twice.
\<close>

theorem rpc_results_of_a_call:
  assumes "TriggerCall now u data timeout ctx c = (c1, evs1, None)" "rc_handler c" "0 < sint (rc_numCounterparts c)"
    and "map_of (rc_activeCalls c) u = None" "\<forall>(u', i) \<in> set (rc_activeCalls c). rci_userContext i \<noteq> ctx"
      "u \<notin> te_callUuid ` set (rc_timeoutEntries c)"
    and "\<forall>i \<in> set is. other_input u ctx i" "client_run is c1 = (c2, evs2, err)"
  shows "results ctx evs2 \<le> sint (rc_numCounterparts c)
    \<and> (map_of (rc_activeCalls c2) u = None \<longrightarrow> 1 \<le> results ctx evs2)
    \<and> (timeout = None \<longrightarrow> results ctx evs2 + remaining u c2 = sint (rc_numCounterparts c))"
  using client_run_inv [OF TriggerCall_starts [OF assms(1-6)] assms(7,8)]
  by (auto simp: call_inv_def split: option.splits)


text \<open>A call to two servers without a timeout: two results come back.\<close>

definition example_uuid :: uuid where
  "example_uuid = \<lparr>uuid_ab = 1, uuid_cd = 2\<rparr>"

definition example_client :: rpc_client where
  "example_client = (RpcClient_new ''c'' [] True)\<lparr>rc_numCounterparts := 2\<rparr>"

definition example_response :: "uuid \<Rightarrow> byte list \<Rightarrow> FunctionCallResponse" where
  "example_response u data = \<lparr>fcr_timestamp = 1, fcr_callUuid = u, fcr_data = data, fcr_status = 0\<rparr>"

theorem rpc_results_of_a_call_witness:
  "results 7 (fst (snd (client_run [RI_Response (example_response example_uuid [5]), RI_Response (example_response example_uuid [6])]
     (fst (rpc_Call 0 example_uuid [] 7 example_client))))) = 2"
proof -
  let ?is = "[RI_Response (example_response example_uuid [5]), RI_Response (example_response example_uuid [6])]"
  obtain c1 evs1 where 1: "TriggerCall 0 example_uuid [] None 7 example_client = (c1, evs1, None)"
    by (simp add: TriggerCall_def example_client_def RpcClient_new_def Let_def)
  obtain c2 evs2 err where 2: "client_run ?is c1 = (c2, evs2, err)" by (metis surj_pair)
  have "map_of (rc_activeCalls c2) example_uuid = None"
    using 1 2 by (auto simp: TriggerCall_def example_client_def RpcClient_new_def Let_def client_ReceiveMessage_def example_response_def)
  then have "results 7 evs2 = 2"
    using rpc_results_of_a_call [OF 1 _ _ _ _ _ _ 2] by (simp add: example_client_def RpcClient_new_def remaining_def)
  then show ?thesis using 1 2 by (simp add: rpc_Call_def)
qed

lemma delete_fresh: "map_of m k = None \<Longrightarrow> AList.delete k m = m"
  by (induction m) (auto split: if_splits)

text \<open>
  C31: a call that was answered in time leaves its timeout behind. When the timeout runs out, \<^verbatim>\<open>TimeHandler\<close> looks up the
  forgotten call and reads through the end iterator: the behaviour is undefined.
\<close>

theorem answered_call_times_out:
  assumes "CallWithTimeout now u data t ctx c = (c1, evs1, err1)" "rc_numCounterparts c = 1"
    and "map_of (rc_activeCalls c) u = None" "rc_timeoutEntries c = []"
    and "client_ReceiveMessage msg c1 = (c2, evs2, err2)" "fcr_callUuid msg = u" "t \<le> duration"
  shows "TimeHandler now2 duration c2 = (c2\<lparr>rc_timeoutEntries := []\<rparr>, [], Some (Undefined_behaviour ''dereferenced end iterator''))"
  using assms
  by (auto simp: CallWithTimeout_def TriggerCall_def Let_def client_ReceiveMessage_def TimeHandler_def delete_fresh
      split: if_splits)

theorem answered_call_times_out_witness:
  "snd (snd (TimeHandler 5 3 (fst (client_ReceiveMessage (example_response example_uuid [])
     (fst (CallWithTimeout 0 example_uuid [] 2 7 (example_client\<lparr>rc_numCounterparts := 1\<rparr>)))))))
   = Some (Undefined_behaviour ''dereferenced end iterator'')"
proof -
  obtain c1 evs1 err1 where 1: "CallWithTimeout 0 example_uuid [] 2 7 (example_client\<lparr>rc_numCounterparts := 1\<rparr>) = (c1, evs1, err1)"
    by (metis surj_pair)
  obtain c2 evs2 err2 where 2: "client_ReceiveMessage (example_response example_uuid []) c1 = (c2, evs2, err2)" by (metis surj_pair)
  have "TimeHandler 5 3 c2 = (c2\<lparr>rc_timeoutEntries := []\<rparr>, [], Some (Undefined_behaviour ''dereferenced end iterator''))"
    by (rule answered_call_times_out [OF 1 _ _ _ 2]) (simp_all add: example_client_def RpcClient_new_def example_response_def)
  then show ?thesis using 1 2 by simp
qed

lemma submit_all_none:
  "\<forall>(k, i) \<in> set is. u \<notin> set (rsi_activeCalls i) \<Longrightarrow> submit_all now u res is = (is, [], 0)"
  by (induction "is") (auto simp: internal_SubmitResult_def)

lemma submit_all_one:
  "map_of is k = Some i \<Longrightarrow> distinct (map fst is) \<Longrightarrow> \<forall>(k, i) \<in> set is. u \<notin> set (rsi_activeCalls i) \<Longrightarrow>
     submit_all now u res (AList.update k (i\<lparr>rsi_activeCalls := u # rsi_activeCalls i\<rparr>) is) =
       (is, [RSE_Send k \<lparr>fcr_timestamp = now, fcr_callUuid = u, fcr_data = res, fcr_status = 0\<rparr>], 1)"
proof (induction "is")
  case (Cons p "is")
  obtain k' i' where p: "p = (k', i')" by (metis surj_pair)
  show ?case
  proof (cases "k' = k")
    case True
    with Cons.prems p show ?thesis by (auto simp: internal_SubmitResult_def submit_all_none)
  next
    case False
    with Cons p show ?thesis by (auto simp: internal_SubmitResult_def)
  qed
qed simp

text \<open>
  C30: a call to one server and back. The server's handler gets the data of the call; the result it submits reaches the handler of the
  client with the context of the call; client and server are then as before the call, and a second result for it is an error.
\<close>

theorem rpc_round_trip:
  assumes "rc_handler c" "rc_numCounterparts c = 1" "map_of (rc_activeCalls c) u = None"
    and "map_of (rs_internalRpcServers s) clientUUID = Some i" "rsi_handler i" "distinct (map fst (rs_internalRpcServers s))"
      "\<forall>(k, j) \<in> set (rs_internalRpcServers s). u \<notin> set (rsi_activeCalls j)"
  shows "\<exists>c1 msg s1 resp. rpc_Call now u data ctx c = (c1, [RE_Send msg], None)
    \<and> server_ReceiveMessage now1 clientUUID msg s = (s1, [RSE_Handler now u data], None)
    \<and> server_SubmitResult now2 (Some u) res s1 = (s, [RSE_Send clientUUID resp], None)
    \<and> client_ReceiveMessage resp c1 = (c, [RE_Result now2 ctx RCS_Success res], None)
    \<and> server_SubmitResult now3 (Some u) res2 s = (s, [RSE_Error ''RpcServer::SubmitResult() returned to multiple clients''],
        Some (StateError ''RpcServer::SubmitResult() returned to multiple clients''))"
proof -
  have "u \<notin> set (rsi_activeCalls i)" using assms(4,7) map_of_SomeD by fastforce
  then have 1: "server_ReceiveMessage now1 clientUUID \<lparr>fc_timestamp = now, fc_callUuid = u, fc_data = data\<rparr> s =
      (s\<lparr>rs_internalRpcServers := AList.update clientUUID (i\<lparr>rsi_activeCalls := u # rsi_activeCalls i\<rparr>) (rs_internalRpcServers s)\<rparr>,
       [RSE_Handler now u data], None)"
    using assms(4,5) by (simp add: server_ReceiveMessage_def Let_def)
  have 2: "server_SubmitResult now3 (Some u) res2 s = (s, [RSE_Error ''RpcServer::SubmitResult() returned to multiple clients''],
        Some (StateError ''RpcServer::SubmitResult() returned to multiple clients''))"
    using assms(7) by (simp add: server_SubmitResult_def submit_all_none Let_def)
  show ?thesis
    using 1 2 assms(1-3) submit_all_one [OF assms(4,6,7)]
    by (simp add: rpc_Call_def TriggerCall_def Let_def server_SubmitResult_def client_ReceiveMessage_def result_event_def delete_fresh ToRpcCallStatus_def)
qed

definition example_server :: rpc_server where
  "example_server = AddInternalRpcServer ''c'' '''' [] (RpcServer_new ''f'' '''' [] True)"

theorem rpc_round_trip_witness:
  "\<exists>c1 msg s1 resp. rpc_Call 0 example_uuid [1, 2] 7 (example_client\<lparr>rc_numCounterparts := 1\<rparr>) = (c1, [RE_Send msg], None)
    \<and> server_ReceiveMessage 1 ''c'' msg example_server = (s1, [RSE_Handler 0 example_uuid [1, 2]], None)
    \<and> server_SubmitResult 2 (Some example_uuid) [3] s1 = (example_server, [RSE_Send ''c'' resp], None)
    \<and> client_ReceiveMessage resp c1 = (example_client\<lparr>rc_numCounterparts := 1\<rparr>, [RE_Result 2 7 RCS_Success [3]], None)
    \<and> server_SubmitResult 3 (Some example_uuid) [] example_server =
        (example_server, [RSE_Error ''RpcServer::SubmitResult() returned to multiple clients''],
         Some (StateError ''RpcServer::SubmitResult() returned to multiple clients''))"
  by (rule rpc_round_trip [where i = "\<lparr>rsi_mediaType = '''', rsi_labels = [], rsi_handler = True, rsi_activeCalls = []\<rparr>"])
    (simp_all add: example_client_def RpcClient_new_def example_server_def AddInternalRpcServer_def RpcServer_new_def)

text \<open>
  a client registers for the services of its servers with its own labels, but these services have none. When two servers have answered
  to the announcement of the client before it registers, a client with a mandatory label learns of neither and stays without counterparts.
\<close>

definition example_internal :: "64 word \<Rightarrow> ServiceDescriptor" where
  "example_internal n = \<lparr>sd_participantName = ''P'', sd_participantId = 1, sd_serviceType = 2, sd_networkName = ''N'',
     sd_networkType = 0, sd_serviceName = ''S'', sd_serviceId = n,
     sd_supplementalData = [(controllerType, controllerTypeRpcServerInternal), (supplKeyRpcServerInternalClientUUID, ''c'')]\<rparr>"

theorem labelled_client_misses_servers:
  "let created = (\<lambda>n L. fst (ServiceChange (example_deserialize LK_Mandatory) ServiceCreated (example_internal n) L));
       known = created 2 (created 1 [])
   in snd (client_RegisterServiceDiscovery 7 (RpcClient_new ''c'' [example_label LK_Mandatory ''x''] True) known) = []
    \<and> snd (client_RegisterServiceDiscovery 7 (RpcClient_new ''c'' [] True) known) =
        [(7, ServiceCreated, example_internal 1), (7, ServiceCreated, example_internal 2)]"
  by code_simp

end
