(* ===== verification/Action.thy ===== *)
theory Action
  imports Prelude
begin

text \<open>
  Methods that change a state, call the outside and may throw, as functions from the state to the new state, the calls in their order
  and the exception, with the sequencing of statements. The locale \<open>trace_relation\<close> carries a property of the states before and
  after and of the calls between them through such methods.
\<close>

type_synonym ('s, 'e) action = "'s \<Rightarrow> 's \<times> 'e list \<times> error option"

definition act_skip :: "('s, 'e) action" where
  "act_skip s = (s, [], None)"

definition act_emit :: "'e list \<Rightarrow> ('s, 'e) action" where
  "act_emit evs s = (s, evs, None)"

definition act_throw :: "error \<Rightarrow> ('s, 'e) action" where
  "act_throw e s = (s, [], Some e)"

definition act_modify :: "('s \<Rightarrow> 's) \<Rightarrow> ('s, 'e) action" where
  "act_modify f s = (f s, [], None)"

definition act_read :: "('s \<Rightarrow> ('s, 'e) action) \<Rightarrow> ('s, 'e) action" where
  "act_read f s = f s s"

definition act_when :: "bool \<Rightarrow> ('s, 'e) action \<Rightarrow> ('s, 'e) action" where
  "act_when b a = (if b then a else act_skip)"

definition act_seq :: "('s, 'e) action \<Rightarrow> ('s, 'e) action \<Rightarrow> ('s, 'e) action" where
  "act_seq a b s =
     (case a s of
        (s1, evs1, Some e) \<Rightarrow> (s1, evs1, Some e)
      | (s1, evs1, None) \<Rightarrow> (case b s1 of (s2, evs2, err) \<Rightarrow> (s2, evs1 @ evs2, err)))"

fun act_all :: "('s, 'e) action list \<Rightarrow> ('s, 'e) action" where
  "act_all [] = act_skip"
| "act_all [a] = a"
| "act_all (a # b # as) = act_seq a (act_all (b # as))"

fun act_each :: "('a \<Rightarrow> ('s, 'e) action) \<Rightarrow> 'a list \<Rightarrow> ('s, 'e) action" where
  "act_each f [] = act_skip"
| "act_each f (x # xs) = act_seq (f x) (act_each f xs)"

lemma act_simps [simp]:
  "act_skip s = (s, [], None)"
  "act_emit evs s = (s, evs, None)"
  "act_throw e s = (s, [], Some e)"
  "act_modify f s = (f s, [], None)"
  "act_read g s = g s s"
  "act_when True a = a"
  "act_when False a = act_skip"
  by (simp_all add: act_skip_def act_emit_def act_throw_def act_modify_def act_read_def act_when_def)

lemma act_seq_simps [simp]:
  "act_seq act_skip b s = b s"
  "act_seq (act_throw e) b s = (s, [], Some e)"
  "act_seq (act_modify f) b s = b (f s)"
  "act_seq (act_emit evs) b s = (case b s of (s', evs', err) \<Rightarrow> (s', evs @ evs', err))"
  "act_seq (act_read g) b s = act_seq (g s) b s"
  by (simp_all add: act_seq_def split: prod.splits)

lemma act_seq_step: "a s = (s1, evs1, None) \<Longrightarrow> act_seq a b s = (case b s1 of (s2, evs2, err) \<Rightarrow> (s2, evs1 @ evs2, err))"
  by (simp add: act_seq_def)

lemma act_seq_throws: "a s = (s1, evs1, Some e) \<Longrightarrow> act_seq a b s = (s1, evs1, Some e)"
  by (simp add: act_seq_def)

section \<open>Relations along a method\<close>

definition holds :: "('s \<Rightarrow> 'e list \<Rightarrow> error option \<Rightarrow> 's \<Rightarrow> bool) \<Rightarrow> ('s, 'e) action \<Rightarrow> 's \<Rightarrow> bool" where
  "holds R a s \<longleftrightarrow> (case a s of (s', evs, err) \<Rightarrow> R s evs err s')"

lemma holdsD: "holds R a s \<Longrightarrow> a s = (s', evs, err) \<Longrightarrow> R s evs err s'"
  by (simp add: holds_def)

lemma holdsI: "(\<And>s' evs err. a s = (s', evs, err) \<Longrightarrow> R s evs err s') \<Longrightarrow> holds R a s"
  by (auto simp: holds_def split: prod.splits)

locale trace_relation =
  fixes R :: "'s \<Rightarrow> 'e list \<Rightarrow> error option \<Rightarrow> 's \<Rightarrow> bool"
  assumes none: "R s [] None s"
    and join: "R s evs1 None s1 \<Longrightarrow> R s1 evs2 err s2 \<Longrightarrow> R s (evs1 @ evs2) err s2"
begin

lemma along_seq: "holds R a s \<Longrightarrow> (\<And>s'. holds R b s') \<Longrightarrow> holds R (act_seq a b) s"
  by (fastforce simp: holds_def act_seq_def intro: join split: prod.splits option.splits)

lemma along_step: "holds R a s \<Longrightarrow> (\<And>s' evs. a s = (s', evs, None) \<Longrightarrow> holds R b s') \<Longrightarrow> holds R (act_seq a b) s"
  by (fastforce simp: holds_def act_seq_def intro: join split: prod.splits option.splits)

lemma along_skip: "holds R act_skip s"
  by (simp add: holds_def none)

lemma along_throw: "R s [] (Some e) s \<Longrightarrow> holds R (act_throw e) s"
  by (simp add: holds_def)

lemma along_emit: "R s evs None s \<Longrightarrow> holds R (act_emit evs) s"
  by (simp add: holds_def)

lemma along_modify: "R s [] None (f s) \<Longrightarrow> holds R (act_modify f) s"
  by (simp add: holds_def)

lemma along_read: "holds R (f s) s \<Longrightarrow> holds R (act_read f) s"
  by (simp add: holds_def)

lemma along_when: "(b \<Longrightarrow> holds R a s) \<Longrightarrow> holds R (act_when b a) s"
  by (cases b) (simp_all add: along_skip)

lemma along_if: "(b \<Longrightarrow> holds R a1 s) \<Longrightarrow> (\<not> b \<Longrightarrow> holds R a2 s) \<Longrightarrow> holds R (if b then a1 else a2) s"
  by simp

lemma along_each: "(\<And>x s. x \<in> set xs \<Longrightarrow> holds R (f x) s) \<Longrightarrow> holds R (act_each f xs) s"
  by (induction xs arbitrary: s) (auto intro: along_skip along_seq)

lemmas along = along_skip along_throw along_emit along_modify along_read along_when along_if along_seq along_each

end

text \<open>A part of the state that a method does not change.\<close>

definition keeps :: "('s \<Rightarrow> 'v) \<Rightarrow> 's \<Rightarrow> 'e list \<Rightarrow> error option \<Rightarrow> 's \<Rightarrow> bool" where
  "keeps f s evs err s' \<longleftrightarrow> f s' = f s"

interpretation keeping: trace_relation "keeps f" for f
  by unfold_locales (simp_all add: keeps_def)

lemma keeps_simps [simp]:
  "holds (keeps f) act_skip s"
  "holds (keeps f) (act_emit evs) s"
  "holds (keeps f) (act_throw e) s"
  "f (g s) = f s \<Longrightarrow> holds (keeps f) (act_modify g) s"
  by (simp_all add: holds_def keeps_def)

end
