(* ===== verification/Endpoint.thy ===== *)
theory Endpoint
  imports Action DiscoveryStore VAsioSerdes
begin

text \<open>
  The address of a service (\<^verbatim>\<open>core/internal/ServiceDescriptor.hpp\<close>, \<^verbatim>\<open>EndpointAddress.hpp\<close>) and the use of a method of a part in a method of the
  whole.
\<close>

definition to_endpointAddress :: "ServiceDescriptor \<Rightarrow> EndpointAddress" where
  "to_endpointAddress sd = \<lparr>ea_participant = sd_participantId sd, ea_endpoint = sd_serviceId sd\<rparr>"

definition ServiceDescriptor_new :: ServiceDescriptor where
  "ServiceDescriptor_new = \<lparr>sd_participantName = '''', sd_participantId = 0, sd_serviceType = 0, sd_networkName = '''',
     sd_networkType = 0, sd_serviceName = '''', sd_serviceId = 0, sd_supplementalData = []\<rparr>"

fun error_what :: "error \<Rightarrow> string" where
  "error_what End_of_buffer = ''end_of_buffer''"
| "error_what (SilKitError text) = text"
| "error_what (ProtocolError text) = text"
| "error_what (AssertionError text) = text"
| "error_what (StateError text) = text"
| "error_what (LogicError text) = text"
| "error_what (ConfigurationError text) = text"
| "error_what (OutOfRangeError text) = text"
| "error_what (Undefined_behaviour text) = text"

definition act_within :: "('s \<Rightarrow> 'p) \<Rightarrow> ('p \<Rightarrow> 's \<Rightarrow> 's) \<Rightarrow> ('e \<Rightarrow> 'f) \<Rightarrow> ('p, 'e) action \<Rightarrow> ('s, 'f) action" where
  "act_within get put tag a s = (case a (get s) of (p, evs, err) \<Rightarrow> (put p s, map tag evs, err))"

end
