(* ===== verification/LinController.thy ===== *)
theory LinController
  imports Endpoint Handlers LinSerdes
begin

text \<open>
  The LIN controller, \<^verbatim>\<open>services/lin/LinController.cpp\<close>, with its two behaviours: \<^verbatim>\<open>SimBehaviorTrivial.cpp\<close>, in which the
  controllers of a network answer each other directly, and \<^verbatim>\<open>SimBehaviorDetailed.cpp\<close>, in which a network simulator decides what
  happens. The clock is an argument. Handlers of the user are events; they do not call the controller before the operation that calls
  them has returned. Messages to other participants are events too. Warnings are events without their formatted text; the log line that goes
  with every exception is left out, and numbers in the texts of exceptions are not formatted.
\<close>

section \<open>Constants\<close>

abbreviation (input) LIN_Inactive :: "8 word" where "LIN_Inactive \<equiv> 0"
abbreviation (input) LIN_Master :: "8 word" where "LIN_Master \<equiv> 1"
abbreviation (input) LIN_Slave :: "8 word" where "LIN_Slave \<equiv> 2"
abbreviation (input) LIN_Unknown :: "32 word" where "LIN_Unknown \<equiv> 0"
abbreviation (input) LIN_Operational :: "32 word" where "LIN_Operational \<equiv> 1"
abbreviation (input) LIN_Sleep :: "32 word" where "LIN_Sleep \<equiv> 2"
abbreviation (input) LIN_SleepPending :: "32 word" where "LIN_SleepPending \<equiv> 3"
abbreviation (input) LIN_Default :: "8 word" where "LIN_Default \<equiv> 0"
abbreviation (input) LIN_Dynamic :: "8 word" where "LIN_Dynamic \<equiv> 1"
abbreviation (input) LIN_Unused :: "8 word" where "LIN_Unused \<equiv> 0"
abbreviation (input) LIN_Rx :: "8 word" where "LIN_Rx \<equiv> 1"
abbreviation (input) LIN_TxUnconditional :: "8 word" where "LIN_TxUnconditional \<equiv> 2"
abbreviation (input) LIN_MasterResponse :: "8 word" where "LIN_MasterResponse \<equiv> 0"
abbreviation (input) LIN_SlaveResponse :: "8 word" where "LIN_SlaveResponse \<equiv> 1"
abbreviation (input) LIN_SlaveToSlave :: "8 word" where "LIN_SlaveToSlave \<equiv> 2"
abbreviation (input) LIN_NOT_OK :: "8 word" where "LIN_NOT_OK \<equiv> 0"
abbreviation (input) LIN_TX_OK :: "8 word" where "LIN_TX_OK \<equiv> 1"
abbreviation (input) LIN_TX_BUSY :: "8 word" where "LIN_TX_BUSY \<equiv> 2"
abbreviation (input) LIN_TX_ERROR :: "8 word" where "LIN_TX_ERROR \<equiv> 4"
abbreviation (input) LIN_RX_OK :: "8 word" where "LIN_RX_OK \<equiv> 5"
abbreviation (input) LIN_RX_BUSY :: "8 word" where "LIN_RX_BUSY \<equiv> 6"
abbreviation (input) LIN_RX_ERROR :: "8 word" where "LIN_RX_ERROR \<equiv> 7"
abbreviation (input) LIN_RX_NO_RESPONSE :: "8 word" where "LIN_RX_NO_RESPONSE \<equiv> 8"
abbreviation (input) LIN_ChecksumUnknown :: "8 word" where "LIN_ChecksumUnknown \<equiv> 0"
abbreviation (input) LinDataLengthUnknown :: "8 word" where "LinDataLengthUnknown \<equiv> 255"

definition LinFrame_new :: LinFrame where
  "LinFrame_new = \<lparr>lf_id = 0, lf_checksumModel = 0, lf_dataLength = 0, lf_data = replicate 8 0\<rparr>"

definition LinFrameResponse_new :: LinFrameResponse where
  "LinFrameResponse_new = \<lparr>lfr_frame = LinFrame_new, lfr_responseMode = LIN_Unused\<rparr>"

definition GoToSleepFrame :: LinFrame where
  "GoToSleepFrame = \<lparr>lf_id = 60, lf_checksumModel = 2, lf_dataLength = 8, lf_data = [0, 255, 255, 255, 255, 255, 255, 255]\<rparr>"

section \<open>State\<close>

record lin_node =
  ln_address :: EndpointAddress
  ln_controllerMode :: "8 word"
  ln_controllerStatus :: "32 word"
  ln_simulationMode :: "8 word"
  ln_responses :: "LinFrameResponse list"

definition LinNode_new :: "EndpointAddress \<Rightarrow> lin_node" where
  "LinNode_new address = \<lparr>ln_address = address, ln_controllerMode = LIN_Inactive, ln_controllerStatus = LIN_Unknown,
     ln_simulationMode = LIN_Default, ln_responses = replicate 64 LinFrameResponse_new\<rparr>"

datatype lin_behavior = LB_Trivial | LB_Detailed

record lin_controller =
  lin_serviceDescriptor :: ServiceDescriptor
  lin_currentBehavior :: lin_behavior
  lin_simulatedLink :: ServiceDescriptor
  lin_controllerMode :: "8 word"
  lin_controllerStatus :: "32 word"
  lin_frameStatusHandlers :: handlers
  lin_goToSleepHandlers :: handlers
  lin_wakeupHandlers :: handlers
  lin_slaveConfigurationHandlers :: handlers
  lin_frameHeaderHandlers :: handlers
  lin_replayActive :: bool
  lin_replaySend :: bool
  lin_linNodes :: "lin_node list"
  lin_linIdsRespondedBySlaves :: "8 word list"
  lin_triggerLinSlaveConfigurationHandlers :: bool
  lin_receptionTimeLinSlaveConfiguration :: int
  lin_useDynamicResponse :: bool

definition LinController_new :: "ServiceDescriptor \<Rightarrow> bool \<Rightarrow> bool \<Rightarrow> lin_controller" where
  "LinController_new sd replayActive replaySend = \<lparr>lin_serviceDescriptor = sd, lin_currentBehavior = LB_Trivial, lin_simulatedLink = sd,
     lin_controllerMode = LIN_Inactive, lin_controllerStatus = LIN_Unknown, lin_frameStatusHandlers = handlers_new,
     lin_goToSleepHandlers = handlers_new, lin_wakeupHandlers = handlers_new, lin_slaveConfigurationHandlers = handlers_new,
     lin_frameHeaderHandlers = handlers_new, lin_replayActive = replayActive, lin_replaySend = replaySend, lin_linNodes = [],
     lin_linIdsRespondedBySlaves = [], lin_triggerLinSlaveConfigurationHandlers = False,
     lin_receptionTimeLinSlaveConfiguration = 0, lin_useDynamicResponse = False\<rparr>"

datatype lin_message =
    LM_SendFrameRequest LinSendFrameRequest
  | LM_SendFrameHeaderRequest LinSendFrameHeaderRequest
  | LM_Transmission LinTransmission
  | LM_WakeupPulse LinWakeupPulse
  | LM_ControllerConfig WireLinControllerConfig
  | LM_ControllerStatusUpdate LinControllerStatusUpdate
  | LM_FrameResponseUpdate LinFrameResponseUpdate

datatype lin_warning =
    LW_InvalidResponseId "8 word"
  | LW_WrongDataLength LinFrame LinFrame
  | LW_WrongChecksum LinFrame LinFrame
  | LW_ReceptionWithInvalidDataLength "8 word"
  | LW_ReceptionWithInvalidLinId "8 word"
  | LW_ReceptionWhileInactive
  | LW_UnneededStatusChange "32 word"
  | LW_InvalidLinId "8 word" string
  | LW_UnusedResponseMode string
  | LW_ResponseModeReconfiguration "8 word" "8 word"
  | LW_UnconfiguredSlaveResponse "8 word"
  | LW_SendFrameSlaveResponseWithMasterTx "8 word"
  | LW_UnknownHandlerId string

datatype lin_direction = LD_TX | LD_RX

datatype lin_event =
    LN_Send lin_message
  | LN_SendTo string lin_message
  | LN_FrameStatus nat int LinFrame "8 word"
  | LN_GoToSleep nat int
  | LN_Wakeup nat int "8 word"
  | LN_SlaveConfiguration nat int
  | LN_FrameHeader nat int "8 word"
  | LN_Trace lin_direction int LinFrame
  | LN_Warn lin_warning

type_synonym lin_action = "(lin_controller, lin_event) action"

section \<open>Node bookkeeping\<close>

definition address_less :: "EndpointAddress \<Rightarrow> EndpointAddress \<Rightarrow> bool" where
  "address_less a b \<longleftrightarrow> ea_participant a < ea_participant b \<or> (ea_participant a = ea_participant b \<and> ea_endpoint a < ea_endpoint b)"

text \<open>\<^verbatim>\<open>GetLinNode\<close> returns a reference: the position of the node and the nodes with it inserted.\<close>

definition GetLinNode :: "EndpointAddress \<Rightarrow> lin_node list \<Rightarrow> nat \<times> lin_node list" where
  "GetLinNode addr nodes =
     (let iter = length (takeWhile (\<lambda>n. address_less (ln_address n) addr) nodes)
      in if iter = length nodes \<or> ln_address (nodes ! iter) \<noteq> addr
         then (iter, take iter nodes @ LinNode_new addr # drop iter nodes) else (iter, nodes))"

definition with_node :: "EndpointAddress \<Rightarrow> (lin_node \<Rightarrow> lin_action) \<Rightarrow> lin_action" where
  "with_node addr f c =
     (case GetLinNode addr (lin_linNodes c) of (i, nodes) \<Rightarrow> f (nodes ! i) (c\<lparr>lin_linNodes := nodes\<rparr>))"

definition update_node :: "EndpointAddress \<Rightarrow> (lin_node \<Rightarrow> lin_node) \<Rightarrow> lin_action" where
  "update_node addr f = act_modify (\<lambda>c. case GetLinNode addr (lin_linNodes c) of (i, nodes) \<Rightarrow>
     c\<lparr>lin_linNodes := nodes[i := f (nodes ! i)]\<rparr>)"

definition this_address :: "lin_controller \<Rightarrow> EndpointAddress" where
  "this_address c = to_endpointAddress (lin_serviceDescriptor c)"

definition with_this_node :: "(lin_node \<Rightarrow> lin_action) \<Rightarrow> lin_action" where
  "with_this_node f = act_read (\<lambda>c. with_node (this_address c) f)"

definition update_this_node :: "(lin_node \<Rightarrow> lin_node) \<Rightarrow> lin_action" where
  "update_this_node f = act_read (\<lambda>c. update_node (this_address c) f)"

text \<open>\<^verbatim>\<open>responses[id]\<close>: the index operator of \<^verbatim>\<open>std::array\<close> does not check the index.\<close>

definition with_response :: "8 word \<Rightarrow> lin_node \<Rightarrow> (LinFrameResponse \<Rightarrow> lin_action) \<Rightarrow> lin_action" where
  "with_response linId n f =
     (if unat linId < length (ln_responses n) then f (ln_responses n ! unat linId)
      else act_throw (Undefined_behaviour ''index out of range''))"

definition UpdateResponse :: "LinFrameResponse \<Rightarrow> lin_node \<Rightarrow> lin_node" where
  "UpdateResponse response n =
     (let linId = unat (lf_id (lfr_frame response))
      in if linId \<ge> length (ln_responses n) then n else n\<lparr>ln_responses := (ln_responses n)[linId := response]\<rparr>)"

definition invalid_ids :: "LinFrameResponse list \<Rightarrow> lin_event list" where
  "invalid_ids responses = map (\<lambda>r. LN_Warn (LW_InvalidResponseId (lf_id (lfr_frame r)))) (filter (\<lambda>r. unat (lf_id (lfr_frame r)) \<ge> 64) responses)"

definition UpdateResponses :: "LinFrameResponse list \<Rightarrow> lin_node \<Rightarrow> lin_node" where
  "UpdateResponses responsesToUpdate n = fold UpdateResponse responsesToUpdate n"

definition node_UpdateTxBuffer :: "8 word \<Rightarrow> byte list \<Rightarrow> lin_node \<Rightarrow> lin_node" where
  "node_UpdateTxBuffer linId data n =
     (if unat linId \<ge> length (ln_responses n) then n
      else let r = ln_responses n ! unat linId
        in n\<lparr>ln_responses := (ln_responses n)[unat linId := r\<lparr>lfr_frame := (lfr_frame r)\<lparr>lf_data := data\<rparr>\<rparr>]\<rparr>)"

section \<open>Helpers\<close>

definition HasRespondingSlave :: "8 word \<Rightarrow> lin_controller \<Rightarrow> bool" where
  "HasRespondingSlave linId c \<longleftrightarrow> linId \<in> set (lin_linIdsRespondedBySlaves c)"

definition HasDynamicNode :: "lin_controller \<Rightarrow> bool" where
  "HasDynamicNode c \<longleftrightarrow> (\<exists>n \<in> set (lin_linNodes c). ln_simulationMode n = LIN_Dynamic)"

fun UpdateLinIdsRespondedBySlaves :: "LinFrameResponse list \<Rightarrow> 8 word list \<Rightarrow> 8 word list" where
  "UpdateLinIdsRespondedBySlaves [] ids = ids"
| "UpdateLinIdsRespondedBySlaves (r # rs) ids =
     UpdateLinIdsRespondedBySlaves rs
       (if lfr_responseMode r = LIN_TxUnconditional \<and> lf_id (lfr_frame r) \<notin> set ids then ids @ [lf_id (lfr_frame r)] else ids)"

text \<open>The loop of \<^verbatim>\<open>GetResponse\<close>: the number of responses and the last one.\<close>

fun get_response :: "8 word \<Rightarrow> lin_node list \<Rightarrow> nat \<times> LinFrame \<Rightarrow> (nat \<times> LinFrame) result" where
  "get_response linId [] acc = Inr acc"
| "get_response linId (n # ns) (numResponses, responseFrame) =
     (if ln_controllerMode n = LIN_Inactive \<or> ln_controllerStatus n \<noteq> LIN_Operational then get_response linId ns (numResponses, responseFrame)
      else if unat linId \<ge> length (ln_responses n) then Inl (Undefined_behaviour ''index out of range'')
      else let response = ln_responses n ! unat linId
        in if lfr_responseMode response = LIN_TxUnconditional
           then get_response linId ns (numResponses + 1, lfr_frame response)
           else get_response linId ns (numResponses, responseFrame))"

definition GetResponse :: "8 word \<Rightarrow> lin_controller \<Rightarrow> (nat \<times> LinFrame) result" where
  "GetResponse linId c = get_response linId (lin_linNodes c) (0, LinFrame_new\<lparr>lf_id := linId\<rparr>)"

definition call_frame_status :: "int \<Rightarrow> LinFrame \<Rightarrow> 8 word \<Rightarrow> lin_action" where
  "call_frame_status timestamp frame status =
     act_read (\<lambda>c. act_emit (h_InvokeAll (\<lambda>h. LN_FrameStatus h timestamp frame status) (lin_frameStatusHandlers c)))"

definition warn :: "lin_warning \<Rightarrow> lin_action" where
  "warn w = act_emit [LN_Warn w]"

definition ThrowIfUninitialized :: "string \<Rightarrow> lin_action" where
  "ThrowIfUninitialized method = act_read (\<lambda>c. act_when (lin_controllerStatus c = LIN_Unknown)
     (act_throw (StateError (method @ '' must only be called when the controller is initialized! Check whether a call to LinController::Init is missing.''))))"

definition ThrowIfNotMaster :: "string \<Rightarrow> lin_action" where
  "ThrowIfNotMaster method = act_read (\<lambda>c. act_when (lin_controllerMode c \<noteq> LIN_Master)
     (act_throw (SilKitError (method @ '' must only be called in master mode!''))))"

definition ThrowIfDynamic :: "string \<Rightarrow> lin_action" where
  "ThrowIfDynamic method = act_read (\<lambda>c. act_when (lin_useDynamicResponse c)
     (act_throw (SilKitError (method @ '' can not be called if the node was initialized using InitDynamic!''))))"

definition ThrowIfNotDynamic :: "string \<Rightarrow> lin_action" where
  "ThrowIfNotDynamic method = act_read (\<lambda>c. act_when (lin_useDynamicResponse c)
     (act_throw (SilKitError (method @ '' can only be called if the node was initialized using InitDynamic!''))))"

definition ThrowIfNotConfiguredTxUnconditional :: "8 word \<Rightarrow> lin_action" where
  "ThrowIfNotConfiguredTxUnconditional linId = with_this_node (\<lambda>n. with_response linId n (\<lambda>r.
     act_when (lfr_responseMode r \<noteq> LIN_TxUnconditional)
       (act_throw (ConfigurationError ''This node must be configured with LinFrameResponseMode::TxUnconditional to update the TxBuffer''))))"

section \<open>Trivial behaviour\<close>

definition ToTxFrameStatus :: "8 word \<Rightarrow> 8 word" where
  "ToTxFrameStatus status =
     (if status = LIN_RX_BUSY then LIN_TX_BUSY else if status = LIN_RX_ERROR then LIN_TX_ERROR
      else if status = LIN_RX_NO_RESPONSE then LIN_RX_NO_RESPONSE else if status = LIN_RX_OK then LIN_TX_OK else status)"

definition ToTracingDir :: "8 word \<Rightarrow> lin_direction" where
  "ToTracingDir status =
     (if status = LIN_RX_ERROR \<or> status = LIN_RX_BUSY \<or> status = LIN_RX_NO_RESPONSE \<or> status = LIN_RX_OK then LD_RX else LD_TX)"

definition SendErrorTransmissionOnHeaderRequest :: "int \<Rightarrow> nat \<Rightarrow> LinFrame \<Rightarrow> lin_action" where
  "SendErrorTransmissionOnHeaderRequest now numResponses frame =
     (let status = (if numResponses = 0 then LIN_RX_NO_RESPONSE else if numResponses > 1 then LIN_RX_ERROR else LIN_NOT_OK)
      in act_all
        [act_emit [LN_Send (LM_Transmission \<lparr>lt_timestamp = now, lt_frame = frame, lt_status = status\<rparr>)],
         with_this_node (\<lambda>n. with_response (lf_id frame) n (\<lambda>r.
           let masterFrameStatus = (if lfr_responseMode r = LIN_TxUnconditional then LIN_TX_ERROR else status)
           in act_seq (act_emit [LN_Trace (ToTracingDir masterFrameStatus) now frame]) (call_frame_status now frame masterFrameStatus)))])"

definition trivial_SendFrameHeaderRequest :: "int \<Rightarrow> LinSendFrameHeaderRequest \<Rightarrow> lin_action" where
  "trivial_SendFrameHeaderRequest now msg = act_read (\<lambda>c.
     case GetResponse (lsfhr_id msg) c of
       Inl e \<Rightarrow> act_throw e
     | Inr (numResponses, frame) \<Rightarrow>
         if numResponses = 1 \<or> (numResponses = 0 \<and> HasDynamicNode c) then act_emit [LN_Send (LM_SendFrameHeaderRequest msg)]
         else SendErrorTransmissionOnHeaderRequest now numResponses frame)"

definition trivial_ProcessFrameHeaderRequest :: "int \<Rightarrow> LinSendFrameHeaderRequest \<Rightarrow> lin_action" where
  "trivial_ProcessFrameHeaderRequest now header = with_this_node (\<lambda>n. with_response (lsfhr_id header) n (\<lambda>response.
     act_when (lfr_responseMode response = LIN_TxUnconditional)
       (if lf_dataLength (lfr_frame response) = LinDataLengthUnknown then act_throw (StateError ''LinFrame has an undefined data length.'')
        else let frame = lfr_frame response in act_all
          [act_emit [LN_Send (LM_Transmission \<lparr>lt_timestamp = now, lt_frame = frame, lt_status = LIN_RX_OK\<rparr>)],
           with_this_node (\<lambda>n. act_emit
             [LN_Trace (ToTracingDir (if ln_controllerMode n = LIN_Master then LIN_TX_OK else LIN_RX_OK)) now frame]),
           call_frame_status now frame LIN_TX_OK])))"

text \<open>The status a receiver reports; \<open>f\<close> is what the caller does with it.\<close>

definition trivial_CalcFrameStatus :: "LinTransmission \<Rightarrow> (8 word \<Rightarrow> lin_action) \<Rightarrow> lin_action" where
  "trivial_CalcFrameStatus msg f = with_this_node (\<lambda>n.
     if ln_simulationMode n = LIN_Dynamic then f (lt_status msg)
     else with_response (lf_id (lt_frame msg)) n (\<lambda>response.
       let mode = lfr_responseMode response; frame = lt_frame msg; configured = lfr_frame response
       in if mode = LIN_Unused then f LIN_NOT_OK
          else if mode = LIN_Rx
          then if lf_dataLength configured \<noteq> LinDataLengthUnknown \<and> lf_dataLength configured \<noteq> lf_dataLength frame
               then act_seq (warn (LW_WrongDataLength frame configured)) (f LIN_RX_ERROR)
               else if lf_checksumModel frame \<noteq> LIN_ChecksumUnknown \<and> lf_checksumModel configured \<noteq> LIN_ChecksumUnknown
                 \<and> lf_checksumModel configured \<noteq> lf_checksumModel frame
               then act_seq (warn (LW_WrongChecksum frame configured)) (f LIN_RX_ERROR)
               else f (lt_status msg)
          else if mode = LIN_TxUnconditional then f (ToTxFrameStatus (lt_status msg))
          else f (lt_status msg)))"

section \<open>Detailed behaviour\<close>

definition link_name :: "lin_controller \<Rightarrow> string" where
  "link_name c = sd_participantName (lin_simulatedLink c)"

definition SendTargettedMsgImpl :: "lin_message \<Rightarrow> lin_action" where
  "SendTargettedMsgImpl msg = act_read (\<lambda>c. act_emit [LN_SendTo (link_name c) msg])"

definition detailed_CalcFrameStatus :: "LinTransmission \<Rightarrow> bool \<Rightarrow> (8 word \<Rightarrow> lin_action) \<Rightarrow> lin_action" where
  "detailed_CalcFrameStatus msg isGoToSleepFrame f = with_this_node (\<lambda>n.
     if ln_simulationMode n = LIN_Dynamic then f (lt_status msg)
     else if isGoToSleepFrame \<and> lt_status msg = LIN_RX_OK
     then with_response (lf_id (lt_frame msg)) n (\<lambda>response.
       if lfr_responseMode response \<noteq> LIN_Rx then f LIN_RX_NO_RESPONSE else f (lt_status msg))
     else f (lt_status msg))"

definition lin_AllowReception :: "ServiceDescriptor \<Rightarrow> lin_controller \<Rightarrow> bool" where
  "lin_AllowReception sender c =
     (case lin_currentBehavior c of
        LB_Trivial \<Rightarrow> True
      | LB_Detailed \<Rightarrow> link_name c = sd_participantName sender \<and> sd_serviceId (lin_serviceDescriptor c) = sd_serviceId sender)"

section \<open>Messages by behaviour\<close>

definition by_behavior :: "lin_action \<Rightarrow> lin_action \<Rightarrow> lin_action" where
  "by_behavior trivial detailed = act_read (\<lambda>c. case lin_currentBehavior c of LB_Trivial \<Rightarrow> trivial | LB_Detailed \<Rightarrow> detailed)"

text \<open>In the trivial behaviour only slaves distribute their configuration and their responses.\<close>

definition send_if_slave :: "lin_message \<Rightarrow> lin_action" where
  "send_if_slave msg = act_read (\<lambda>c. act_when (lin_controllerMode c = LIN_Slave) (act_emit [LN_Send msg]))"

definition SendMsg_ControllerConfig :: "WireLinControllerConfig \<Rightarrow> lin_action" where
  "SendMsg_ControllerConfig msg = by_behavior (send_if_slave (LM_ControllerConfig msg)) (act_emit [LN_Send (LM_ControllerConfig msg)])"

definition SendMsg_FrameResponseUpdate :: "LinFrameResponseUpdate \<Rightarrow> lin_action" where
  "SendMsg_FrameResponseUpdate msg = by_behavior (send_if_slave (LM_FrameResponseUpdate msg)) (act_emit [LN_Send (LM_FrameResponseUpdate msg)])"

definition SendMsg_ControllerStatusUpdate :: "LinControllerStatusUpdate \<Rightarrow> lin_action" where
  "SendMsg_ControllerStatusUpdate msg = act_emit [LN_Send (LM_ControllerStatusUpdate msg)]"

definition SendMsg_SendFrameHeaderRequest :: "int \<Rightarrow> LinSendFrameHeaderRequest \<Rightarrow> lin_action" where
  "SendMsg_SendFrameHeaderRequest now msg =
     by_behavior (trivial_SendFrameHeaderRequest now msg) (SendTargettedMsgImpl (LM_SendFrameHeaderRequest msg))"

definition SendFrameHeader :: "int \<Rightarrow> 8 word \<Rightarrow> lin_action" where
  "SendFrameHeader now linId = act_all
     [ThrowIfUninitialized ''SendFrameHeader'', ThrowIfNotMaster ''SendFrameHeader'',
      SendMsg_SendFrameHeaderRequest now \<lparr>lsfhr_timestamp = now, lsfhr_id = linId\<rparr>]"

definition SendMsg_SendFrameRequest :: "int \<Rightarrow> LinSendFrameRequest \<Rightarrow> lin_action" where
  "SendMsg_SendFrameRequest now msg =
     by_behavior (SendFrameHeader now (lf_id (lsfr_frame msg))) (SendTargettedMsgImpl (LM_SendFrameRequest msg))"

definition ProcessFrameHeaderRequest :: "int \<Rightarrow> LinSendFrameHeaderRequest \<Rightarrow> lin_action" where
  "ProcessFrameHeaderRequest now header = by_behavior (trivial_ProcessFrameHeaderRequest now header) act_skip"

section \<open>Operations\<close>

record lin_config =
  lcfg_controllerMode :: "8 word"
  lcfg_baudRate :: "32 word"
  lcfg_frameResponses :: "LinFrameResponse list"

definition to_wire :: "lin_config \<Rightarrow> WireLinControllerConfig" where
  "to_wire config = \<lparr>wlcc_controllerMode = lcfg_controllerMode config, wlcc_baudRate = lcfg_baudRate config,
     wlcc_frameResponses = lcfg_frameResponses config, wlcc_simulationMode = LIN_Default\<rparr>"

definition to_wire_dynamic :: "8 word \<Rightarrow> 32 word \<Rightarrow> WireLinControllerConfig" where
  "to_wire_dynamic mode baudRate = \<lparr>wlcc_controllerMode = mode, wlcc_baudRate = baudRate, wlcc_frameResponses = [], wlcc_simulationMode = LIN_Dynamic\<rparr>"

definition check_initialization :: "8 word \<Rightarrow> lin_action" where
  "check_initialization mode = act_read (\<lambda>c.
     if mode = LIN_Inactive then act_throw (StateError ''A LinController can't be initialized with LinControllerMode::Inactive!'')
     else if lin_controllerStatus c \<noteq> LIN_Unknown then act_throw (StateError ''LinController::Init() must only be called once!'')
     else act_skip)"

definition lin_Init :: "lin_config \<Rightarrow> lin_action" where
  "lin_Init config = act_all
     [check_initialization (lcfg_controllerMode config),
      update_this_node (\<lambda>n. UpdateResponses (lcfg_frameResponses config)
        (n\<lparr>ln_controllerMode := lcfg_controllerMode config, ln_controllerStatus := LIN_Operational\<rparr>)),
      act_emit (invalid_ids (lcfg_frameResponses config)),
      act_modify (\<lambda>c. c\<lparr>lin_controllerMode := lcfg_controllerMode config, lin_controllerStatus := LIN_Operational\<rparr>),
      SendMsg_ControllerConfig (to_wire config)]"

definition lin_InitDynamic :: "8 word \<Rightarrow> 32 word \<Rightarrow> lin_action" where
  "lin_InitDynamic mode baudRate = act_all
     [check_initialization mode,
      update_this_node (\<lambda>n. n\<lparr>ln_controllerMode := mode, ln_controllerStatus := LIN_Operational, ln_simulationMode := LIN_Dynamic\<rparr>),
      act_modify (\<lambda>c. c\<lparr>lin_controllerMode := mode, lin_controllerStatus := LIN_Operational, lin_useDynamicResponse := True\<rparr>),
      SendMsg_ControllerConfig (to_wire_dynamic mode baudRate)]"

definition UpdateFrameResponse :: "LinFrameResponse \<Rightarrow> lin_action" where
  "UpdateFrameResponse response = act_all
     [update_this_node (UpdateResponses [response]),
      act_emit (invalid_ids [response]),
      SendMsg_FrameResponseUpdate \<lparr>lfru_frameResponses = [response]\<rparr>]"

definition SendDynamicResponse :: "int \<Rightarrow> LinFrame \<Rightarrow> lin_action" where
  "SendDynamicResponse now frame = act_all
     [act_read (\<lambda>c. act_when (\<not> lin_useDynamicResponse c) (ThrowIfNotDynamic ''SendDynamicResponse'')),
      UpdateFrameResponse \<lparr>lfr_frame = frame, lfr_responseMode = LIN_TxUnconditional\<rparr>,
      ProcessFrameHeaderRequest now \<lparr>lsfhr_timestamp = now, lsfhr_id = lf_id frame\<rparr>]"

text \<open>
  The branches of \<^verbatim>\<open>SendFrameInternal\<close> end in the request for the frame or return before it.
\<close>

definition SendFrameInternal :: "int \<Rightarrow> LinFrame \<Rightarrow> 8 word \<Rightarrow> lin_action" where
  "SendFrameInternal now frame responseType =
     (let request = SendMsg_SendFrameRequest now \<lparr>lsfr_frame = frame, lsfr_responseType = responseType\<rparr>
      in if responseType = LIN_MasterResponse
         then act_seq (UpdateFrameResponse \<lparr>lfr_frame = frame, lfr_responseMode = LIN_TxUnconditional\<rparr>) request
         else act_read (\<lambda>c.
           if \<not> HasRespondingSlave (lf_id frame) c \<and> \<not> HasDynamicNode c
           then act_seq (warn (LW_UnconfiguredSlaveResponse (lf_id frame))) (call_frame_status now frame LIN_RX_NO_RESPONSE)
           else if responseType = LIN_SlaveResponse
           then with_this_node (\<lambda>n. with_response (lf_id frame) n (\<lambda>current.
             if lfr_responseMode current = LIN_Unused
             then act_seq (UpdateFrameResponse \<lparr>lfr_frame = frame, lfr_responseMode = LIN_Rx\<rparr>) request
             else if lfr_responseMode current = LIN_TxUnconditional then warn (LW_SendFrameSlaveResponseWithMasterTx (lf_id frame))
             else request))
           else if responseType = LIN_SlaveToSlave then act_seq (call_frame_status now frame LIN_TX_OK) request
           else request))"

definition lin_SendFrame :: "int \<Rightarrow> LinFrame \<Rightarrow> 8 word \<Rightarrow> lin_action" where
  "lin_SendFrame now frame responseType = act_all
     [ThrowIfUninitialized ''SendFrame'', ThrowIfNotMaster ''SendFrame'', ThrowIfDynamic ''SendFrame'',
      act_read (\<lambda>c. act_when (\<not> lin_replaySend c) (SendFrameInternal now frame responseType))]"

definition lin_UpdateTxBuffer :: "LinFrame \<Rightarrow> lin_action" where
  "lin_UpdateTxBuffer frame = act_all
     [ThrowIfUninitialized ''UpdateTxBuffer'', ThrowIfDynamic ''UpdateTxBuffer'', ThrowIfNotConfiguredTxUnconditional (lf_id frame),
      update_this_node (node_UpdateTxBuffer (lf_id frame) (lf_data frame)),
      by_behavior act_skip (act_emit [LN_Send (LM_FrameResponseUpdate \<lparr>lfru_frameResponses =
        [\<lparr>lfr_frame = frame, lfr_responseMode = LIN_TxUnconditional\<rparr>]\<rparr>)])]"

definition SetFrameResponse :: "LinFrameResponse \<Rightarrow> lin_action" where
  "SetFrameResponse response = act_all
     [ThrowIfUninitialized ''SetFrameResponse'', ThrowIfDynamic ''SetFrameResponse'',
      if unat (lf_id (lfr_frame response)) \<ge> 64 then warn (LW_InvalidLinId (lf_id (lfr_frame response)) ''SetFrameResponse'')
      else if lfr_responseMode response = LIN_Unused then warn (LW_UnusedResponseMode ''SetFrameResponse'')
      else with_this_node (\<lambda>n. with_response (lf_id (lfr_frame response)) n (\<lambda>current.
        if lfr_responseMode current \<noteq> LIN_Unused
        then warn (LW_ResponseModeReconfiguration (lf_id (lfr_frame response)) (lfr_responseMode current))
        else act_read (\<lambda>c. act_when (\<not> lin_replaySend c) (UpdateFrameResponse response))))]"

definition SetControllerStatusInternal :: "int \<Rightarrow> 32 word \<Rightarrow> lin_action" where
  "SetControllerStatusInternal now status = act_all
     [act_read (\<lambda>c. act_when (lin_controllerStatus c = status) (warn (LW_UnneededStatusChange status))),
      act_modify (\<lambda>c. c\<lparr>lin_controllerStatus := status\<rparr>),
      SendMsg_ControllerStatusUpdate \<lparr>lcsu_timestamp = now, lcsu_status = status\<rparr>]"

definition GoToSleepInternal :: "int \<Rightarrow> lin_action" where
  "GoToSleepInternal now = act_seq (ThrowIfUninitialized ''GoToSleepInternal'') (SetControllerStatusInternal now LIN_Sleep)"

definition WakeupInternal :: "int \<Rightarrow> lin_action" where
  "WakeupInternal now = act_seq (ThrowIfUninitialized ''WakeupInternal'') (SetControllerStatusInternal now LIN_Operational)"

definition trivial_GoToSleep :: "int \<Rightarrow> lin_action" where
  "trivial_GoToSleep now = act_all
     [act_emit [LN_Trace (ToTracingDir LIN_RX_OK) now GoToSleepFrame,
        LN_Send (LM_Transmission \<lparr>lt_timestamp = now, lt_frame = GoToSleepFrame, lt_status = LIN_RX_OK\<rparr>)],
      call_frame_status now GoToSleepFrame LIN_TX_OK,
      GoToSleepInternal now]"

definition detailed_GoToSleep :: "int \<Rightarrow> lin_action" where
  "detailed_GoToSleep now = act_seq
     (SendTargettedMsgImpl (LM_SendFrameRequest \<lparr>lsfr_frame = GoToSleepFrame, lsfr_responseType = LIN_MasterResponse\<rparr>))
     (SetControllerStatusInternal now LIN_SleepPending)"

definition behavior_GoToSleep :: "int \<Rightarrow> lin_action" where
  "behavior_GoToSleep now = by_behavior (trivial_GoToSleep now) (detailed_GoToSleep now)"

definition lin_GoToSleep :: "int \<Rightarrow> lin_action" where
  "lin_GoToSleep now = act_all
     [ThrowIfUninitialized ''GoToSleep'', ThrowIfNotMaster ''GoToSleep'',
      act_read (\<lambda>c. act_when (\<not> lin_replaySend c)
        (act_seq (behavior_GoToSleep now) (act_modify (\<lambda>c. c\<lparr>lin_controllerStatus := LIN_Sleep\<rparr>))))]"

definition call_wakeup :: "LinWakeupPulse \<Rightarrow> lin_action" where
  "call_wakeup msg = act_read (\<lambda>c. act_emit (h_InvokeAll (\<lambda>h. LN_Wakeup h (lwp_timestamp msg) (lwp_direction msg)) (lin_wakeupHandlers c)))"

definition trivial_Wakeup :: "int \<Rightarrow> lin_action" where
  "trivial_Wakeup now = act_all
     [act_emit [LN_Send (LM_WakeupPulse \<lparr>lwp_timestamp = now, lwp_direction = 2\<rparr>)],
      call_wakeup \<lparr>lwp_timestamp = now, lwp_direction = 1\<rparr>,
      WakeupInternal now]"

definition detailed_Wakeup :: "int \<Rightarrow> lin_action" where
  "detailed_Wakeup now = act_seq (SendTargettedMsgImpl (LM_WakeupPulse \<lparr>lwp_timestamp = 0, lwp_direction = 0\<rparr>)) (WakeupInternal now)"

definition lin_Wakeup :: "int \<Rightarrow> lin_action" where
  "lin_Wakeup now = act_seq (ThrowIfUninitialized ''Wakeup'') (by_behavior (trivial_Wakeup now) (detailed_Wakeup now))"

definition GetSlaveConfiguration :: "lin_controller \<Rightarrow> 8 word list result" where
  "GetSlaveConfiguration c = (if lin_controllerMode c \<noteq> LIN_Master then Inl (SilKitError ''GetSlaveConfiguration must only be called in master mode!'')
     else Inr (lin_linIdsRespondedBySlaves c))"

section \<open>Reception\<close>

definition HandleResponsesUpdate :: "int \<Rightarrow> ServiceDescriptor \<Rightarrow> LinFrameResponse list \<Rightarrow> lin_action" where
  "HandleResponsesUpdate now sender responsesToUpdate = act_all
     [update_node (to_endpointAddress sender) (UpdateResponses responsesToUpdate),
      act_emit (invalid_ids responsesToUpdate),
      with_node (to_endpointAddress sender) (\<lambda>n. act_when (ln_controllerMode n = LIN_Slave) (act_modify (\<lambda>c.
        c\<lparr>lin_linIdsRespondedBySlaves := UpdateLinIdsRespondedBySlaves responsesToUpdate (lin_linIdsRespondedBySlaves c)\<rparr>))),
      act_read (\<lambda>c. if h_entries (lin_slaveConfigurationHandlers c) = []
        then act_modify (\<lambda>c. c\<lparr>lin_triggerLinSlaveConfigurationHandlers := True, lin_receptionTimeLinSlaveConfiguration := now\<rparr>)
        else act_emit (h_InvokeAll (\<lambda>h. LN_SlaveConfiguration h now) (lin_slaveConfigurationHandlers c)))]"

definition Receive_SendFrameHeaderRequest :: "int \<Rightarrow> ServiceDescriptor \<Rightarrow> LinSendFrameHeaderRequest \<Rightarrow> lin_action" where
  "Receive_SendFrameHeaderRequest now sender msg = act_read (\<lambda>c. act_when (lin_AllowReception sender c)
     (if lin_useDynamicResponse c
      then act_emit (h_InvokeAll (\<lambda>h. LN_FrameHeader h (lsfhr_timestamp msg) (lsfhr_id msg)) (lin_frameHeaderHandlers c))
      else ProcessFrameHeaderRequest now msg))"

definition is_go_to_sleep :: "LinFrame \<Rightarrow> bool" where
  "is_go_to_sleep frame \<longleftrightarrow> lf_id frame = lf_id GoToSleepFrame \<and> lf_data frame = lf_data GoToSleepFrame"

definition CalcFrameStatus :: "LinTransmission \<Rightarrow> bool \<Rightarrow> (8 word \<Rightarrow> lin_action) \<Rightarrow> lin_action" where
  "CalcFrameStatus msg isGoToSleepFrame f = by_behavior (trivial_CalcFrameStatus msg f) (detailed_CalcFrameStatus msg isGoToSleepFrame f)"

definition Receive_Transmission :: "ServiceDescriptor \<Rightarrow> LinTransmission \<Rightarrow> lin_action" where
  "Receive_Transmission sender msg = act_read (\<lambda>c. act_when (lin_AllowReception sender c)
     (let frame = lt_frame msg; isGoToSleepFrame = is_go_to_sleep frame
      in if lin_controllerMode c = LIN_Inactive then warn LW_ReceptionWhileInactive
         else if lf_dataLength frame \<noteq> LinDataLengthUnknown \<and> lf_dataLength frame > 8
         then warn (LW_ReceptionWithInvalidDataLength (lf_dataLength frame))
         else if unat (lf_id frame) \<ge> 64 then warn (LW_ReceptionWithInvalidLinId (lf_id frame))
         else act_all
           [act_emit [LN_Trace LD_RX (lt_timestamp msg) frame],
            CalcFrameStatus msg isGoToSleepFrame (\<lambda>msgStatus.
              act_when (msgStatus \<noteq> LIN_NOT_OK) (call_frame_status (lt_timestamp msg) frame msgStatus)),
            act_when (isGoToSleepFrame \<and> lin_controllerMode c = LIN_Slave)
              (act_emit (h_InvokeAll (\<lambda>h. LN_GoToSleep h (lt_timestamp msg)) (lin_goToSleepHandlers c)))]))"

definition Receive_WakeupPulse :: "ServiceDescriptor \<Rightarrow> LinWakeupPulse \<Rightarrow> lin_action" where
  "Receive_WakeupPulse sender msg = act_read (\<lambda>c. act_when (lin_AllowReception sender c) (call_wakeup msg))"

definition Receive_FrameResponseUpdate :: "int \<Rightarrow> ServiceDescriptor \<Rightarrow> LinFrameResponseUpdate \<Rightarrow> lin_action" where
  "Receive_FrameResponseUpdate now sender msg = act_read (\<lambda>c. act_when (\<not> sd_equal sender (lin_serviceDescriptor c))
     (HandleResponsesUpdate now sender (lfru_frameResponses msg)))"

definition Receive_ControllerConfig :: "int \<Rightarrow> ServiceDescriptor \<Rightarrow> WireLinControllerConfig \<Rightarrow> lin_action" where
  "Receive_ControllerConfig now sender msg = act_read (\<lambda>c. act_when (\<not> sd_equal sender (lin_serviceDescriptor c))
     (act_seq
       (update_node (to_endpointAddress sender) (\<lambda>n. n\<lparr>ln_controllerMode := wlcc_controllerMode msg, ln_controllerStatus := LIN_Operational,
          ln_simulationMode := wlcc_simulationMode msg\<rparr>))
       (HandleResponsesUpdate now sender (wlcc_frameResponses msg))))"

definition Receive_ControllerStatusUpdate :: "ServiceDescriptor \<Rightarrow> LinControllerStatusUpdate \<Rightarrow> lin_action" where
  "Receive_ControllerStatusUpdate sender msg =
     update_node (to_endpointAddress sender) (\<lambda>n. n\<lparr>ln_controllerStatus := lcsu_status msg\<rparr>)"

text \<open>\<^verbatim>\<open>ReceiveMsg\<close> by the type of the message; a controller does not receive \<^verbatim>\<open>LinSendFrameRequest\<close>.\<close>

fun lin_ReceiveMsg :: "int \<Rightarrow> ServiceDescriptor \<Rightarrow> lin_message \<Rightarrow> lin_action" where
  "lin_ReceiveMsg now sender (LM_SendFrameRequest msg) = act_skip"
| "lin_ReceiveMsg now sender (LM_SendFrameHeaderRequest msg) = Receive_SendFrameHeaderRequest now sender msg"
| "lin_ReceiveMsg now sender (LM_Transmission msg) = Receive_Transmission sender msg"
| "lin_ReceiveMsg now sender (LM_WakeupPulse msg) = Receive_WakeupPulse sender msg"
| "lin_ReceiveMsg now sender (LM_ControllerConfig msg) = Receive_ControllerConfig now sender msg"
| "lin_ReceiveMsg now sender (LM_ControllerStatusUpdate msg) = Receive_ControllerStatusUpdate sender msg"
| "lin_ReceiveMsg now sender (LM_FrameResponseUpdate msg) = Receive_FrameResponseUpdate now sender msg"

section \<open>Network simulator and replay\<close>

definition lin_IsRelevantNetwork :: "ServiceDescriptor \<Rightarrow> lin_controller \<Rightarrow> bool" where
  "lin_IsRelevantNetwork remote c \<longleftrightarrow> sd_serviceType remote = 1 \<and> sd_networkName remote = sd_networkName (lin_serviceDescriptor c)"

definition lin_discovery :: "32 word \<Rightarrow> ServiceDescriptor \<Rightarrow> lin_action" where
  "lin_discovery discoveryType remote = act_modify (\<lambda>c.
     case lin_currentBehavior c of
       LB_Trivial \<Rightarrow> if discoveryType = ServiceCreated \<and> lin_IsRelevantNetwork remote c
         then c\<lparr>lin_simulatedLink := remote, lin_currentBehavior := LB_Detailed\<rparr> else c
     | LB_Detailed \<Rightarrow> if discoveryType = ServiceRemoved \<and> lin_IsRelevantNetwork remote c
         then c\<lparr>lin_currentBehavior := LB_Trivial\<rparr> else c)"

definition lin_ReplayMessage :: "int \<Rightarrow> bool \<Rightarrow> LinFrame \<Rightarrow> lin_action" where
  "lin_ReplayMessage now isReceive frame = act_read (\<lambda>c. act_when (lin_replayActive c \<and> lin_controllerMode c = LIN_Master)
     (act_seq
       (UpdateFrameResponse \<lparr>lfr_frame = frame, lfr_responseMode = (if isReceive then LIN_Rx else LIN_TxUnconditional)\<rparr>)
       (if is_go_to_sleep frame
        then act_seq (behavior_GoToSleep now) (act_modify (\<lambda>c. c\<lparr>lin_controllerStatus := LIN_Sleep\<rparr>))
        else SendFrameInternal now frame (if isReceive then LIN_SlaveResponse else LIN_MasterResponse))))"

section \<open>Handlers\<close>

datatype lin_handler_kind = LH_FrameStatus | LH_GoToSleep | LH_Wakeup | LH_SlaveConfiguration | LH_FrameHeader

definition lin_handlers :: "lin_handler_kind \<Rightarrow> lin_controller \<Rightarrow> handlers" where
  "lin_handlers k c = (case k of LH_FrameStatus \<Rightarrow> lin_frameStatusHandlers c | LH_GoToSleep \<Rightarrow> lin_goToSleepHandlers c
     | LH_Wakeup \<Rightarrow> lin_wakeupHandlers c | LH_SlaveConfiguration \<Rightarrow> lin_slaveConfigurationHandlers c | LH_FrameHeader \<Rightarrow> lin_frameHeaderHandlers c)"

definition set_lin_handlers :: "lin_handler_kind \<Rightarrow> handlers \<Rightarrow> lin_controller \<Rightarrow> lin_controller" where
  "set_lin_handlers k h c = (case k of LH_FrameStatus \<Rightarrow> c\<lparr>lin_frameStatusHandlers := h\<rparr> | LH_GoToSleep \<Rightarrow> c\<lparr>lin_goToSleepHandlers := h\<rparr>
     | LH_Wakeup \<Rightarrow> c\<lparr>lin_wakeupHandlers := h\<rparr> | LH_SlaveConfiguration \<Rightarrow> c\<lparr>lin_slaveConfigurationHandlers := h\<rparr>
     | LH_FrameHeader \<Rightarrow> c\<lparr>lin_frameHeaderHandlers := h\<rparr>)"

definition lin_AddHandler :: "lin_handler_kind \<Rightarrow> lin_action" where
  "lin_AddHandler k = act_seq
     (act_modify (\<lambda>c. set_lin_handlers k (snd (h_Add (lin_handlers k c))) c))
     (act_read (\<lambda>c. act_when (k = LH_SlaveConfiguration \<and> lin_triggerLinSlaveConfigurationHandlers c)
       (act_seq (act_modify (\<lambda>c. c\<lparr>lin_triggerLinSlaveConfigurationHandlers := False\<rparr>))
         (act_emit (h_InvokeAll (\<lambda>h. LN_SlaveConfiguration h (lin_receptionTimeLinSlaveConfiguration c)) (lin_slaveConfigurationHandlers c))))))"

definition lin_RemoveHandler :: "lin_handler_kind \<Rightarrow> nat \<Rightarrow> lin_action" where
  "lin_RemoveHandler k h = act_read (\<lambda>c.
     case h_Remove h (lin_handlers k c) of (removed, hs) \<Rightarrow>
       act_seq (act_modify (set_lin_handlers k hs)) (act_when (\<not> removed) (warn (LW_UnknownHandlerId ''Unknown HandlerId.''))))"

section \<open>The nodes as a table\<close>

text \<open>A node has 64 responses, and a response in use is filed under the identifier of its frame.\<close>

definition filed :: "LinFrameResponse list \<Rightarrow> bool" where
  "filed rs \<longleftrightarrow> (\<forall>i < length rs. lfr_responseMode (rs ! i) \<noteq> LIN_Unused \<longrightarrow> unat (lf_id (lfr_frame (rs ! i))) = i)"

definition node_ok :: "lin_node \<Rightarrow> bool" where
  "node_ok n \<longleftrightarrow> length (ln_responses n) = 64 \<and> filed (ln_responses n)"

definition nodes_ok :: "lin_node list \<Rightarrow> bool" where
  "nodes_ok nodes \<longleftrightarrow> sorted_wrt address_less (map ln_address nodes) \<and> (\<forall>n \<in> set nodes. node_ok n)"

definition node_view :: "EndpointAddress \<Rightarrow> lin_node list \<Rightarrow> lin_node" where
  "node_view addr nodes = (case find (\<lambda>n. ln_address n = addr) nodes of None \<Rightarrow> LinNode_new addr | Some n \<Rightarrow> n)"

lemma address_less_irrefl [simp]: "\<not> address_less a a"
  by (simp add: address_less_def)

lemma address_less_trans: "address_less a b \<Longrightarrow> address_less b c \<Longrightarrow> address_less a c"
  by (auto simp: address_less_def)

lemma address_less_total: "\<not> address_less a b \<Longrightarrow> a \<noteq> b \<Longrightarrow> address_less b a"
  by (auto simp: address_less_def not_less intro: EndpointAddress.equality)

lemma node_ok_new [simp]: "node_ok (LinNode_new a)" "ln_address (LinNode_new a) = a"
  by (simp_all add: node_ok_def LinNode_new_def filed_def LinFrameResponse_new_def)

lemma nodes_ok_Cons: "nodes_ok (n # ns) \<longleftrightarrow> node_ok n \<and> nodes_ok ns \<and> (\<forall>m \<in> set ns. address_less (ln_address n) (ln_address m))"
  by (auto simp: nodes_ok_def)

lemma node_view_Cons: "node_view a (n # ns) = (if ln_address n = a then n else node_view a ns)"
  by (simp add: node_view_def)

lemma node_view_Nil [simp]: "node_view a [] = LinNode_new a"
  by (simp add: node_view_def)

lemma node_view_absent: "\<forall>n \<in> set ns. ln_address n \<noteq> a \<Longrightarrow> node_view a ns = LinNode_new a"
  by (induction ns) (simp_all add: node_view_Cons)

lemma node_view_address [simp]: "ln_address (node_view a ns) = a"
  by (induction ns) (simp_all add: node_view_Cons)

lemma node_view_ok: "nodes_ok ns \<Longrightarrow> node_ok (node_view a ns)"
  by (induction ns) (simp_all add: node_view_Cons nodes_ok_Cons)

lemma GetLinNode_Nil: "GetLinNode a [] = (0, [LinNode_new a])"
  by (simp add: GetLinNode_def)

lemma GetLinNode_Cons:
  "GetLinNode a (n # ns) =
     (if address_less (ln_address n) a then (case GetLinNode a ns of (i, ns') \<Rightarrow> (Suc i, n # ns'))
      else if ln_address n = a then (0, n # ns) else (0, LinNode_new a # n # ns))"
  by (simp add: GetLinNode_def Let_def)

lemma GetLinNode_sound:
  "nodes_ok nodes \<Longrightarrow> GetLinNode a nodes = (i, nodes') \<Longrightarrow>
     i < length nodes' \<and> nodes' ! i = node_view a nodes \<and> nodes_ok nodes' \<and> (\<forall>b. node_view b nodes' = node_view b nodes)
     \<and> ln_address ` set nodes' = insert a (ln_address ` set nodes)"
proof (induction nodes arbitrary: i nodes')
  case Nil
  then show ?case by (auto simp: GetLinNode_Nil node_view_Cons nodes_ok_def)
next
  case (Cons n ns)
  have ok: "nodes_ok ns" "node_ok n" "\<forall>m \<in> set ns. address_less (ln_address n) (ln_address m)"
    using Cons.prems(1) by (simp_all add: nodes_ok_Cons)
  consider (later) "address_less (ln_address n) a" | (found) "ln_address n = a" | (before) "address_less a (ln_address n)"
    using address_less_total by metis
  then show ?case
  proof cases
    case later
    obtain j ns' where r: "GetLinNode a ns = (j, ns')" by (metis surj_pair)
    with later Cons.prems(2) have i: "i = Suc j" "nodes' = n # ns'" by (simp_all add: GetLinNode_Cons)
    have 1: "j < length ns'" "ns' ! j = node_view a ns" "nodes_ok ns'" "\<forall>b. node_view b ns' = node_view b ns"
        "ln_address ` set ns' = insert a (ln_address ` set ns)"
      using Cons.IH [OF ok(1) r] by simp_all
    have "\<forall>m \<in> set ns'. address_less (ln_address n) (ln_address m)"
      using 1(5) ok(3) later by (metis (no_types, lifting) image_iff insert_iff)
    with 1 i ok later show ?thesis by (auto simp: nodes_ok_Cons node_view_Cons)
  next
    case found
    with Cons.prems show ?thesis by (auto simp: GetLinNode_Cons node_view_Cons)
  next
    case before
    then have "\<not> address_less (ln_address n) a" "ln_address n \<noteq> a"
      using address_less_trans address_less_irrefl by metis+
    with Cons.prems(2) have i: "i = 0" "nodes' = LinNode_new a # n # ns" by (simp_all add: GetLinNode_Cons)
    have less: "\<forall>m \<in> set (n # ns). address_less a (ln_address m)"
      using before ok(3) address_less_trans by auto
    then have "node_view a (n # ns) = LinNode_new a" by (intro node_view_absent) auto
    with less i Cons.prems(1) show ?thesis by (auto simp: nodes_ok_Cons node_view_Cons [of _ "LinNode_new a"])
  qed
qed

lemma node_view_set:
  "nodes_ok nodes \<Longrightarrow> i < length nodes \<Longrightarrow> ln_address n = ln_address (nodes ! i) \<Longrightarrow>
     node_view b (nodes[i := n]) = (if b = ln_address n then n else node_view b nodes)"
proof (induction nodes arbitrary: i)
  case (Cons m ns)
  show ?case
  proof (cases i)
    case 0
    with Cons.prems show ?thesis by (simp add: node_view_Cons)
  next
    case (Suc j)
    then have "ns ! j \<in> set ns" using Cons.prems(2) by simp
    then have "ln_address m \<noteq> ln_address n" using Cons.prems(1,3) Suc by (auto simp: nodes_ok_Cons)
    moreover have "node_view b (ns[j := n]) = (if b = ln_address n then n else node_view b ns)"
      using Cons.IH [of j] Cons.prems Suc by (simp add: nodes_ok_Cons)
    ultimately show ?thesis using Suc by (auto simp: node_view_Cons)
  qed
qed simp

lemma nodes_ok_set:
  assumes "nodes_ok nodes" "i < length nodes" "ln_address n = ln_address (nodes ! i)" "node_ok n"
  shows "nodes_ok (nodes[i := n])"
proof -
  have "map ln_address (nodes[i := n]) = map ln_address nodes"
    using assms(2,3) by (simp add: map_update list_update_same_conv)
  then show ?thesis using assms(1,4) set_update_subset_insert [of nodes i n] unfolding nodes_ok_def by auto
qed

section \<open>What an operation may touch\<close>

definition lin_ok :: "lin_controller \<Rightarrow> bool" where
  "lin_ok c \<longleftrightarrow> nodes_ok (lin_linNodes c)"

abbreviation view :: "lin_controller \<Rightarrow> EndpointAddress \<Rightarrow> lin_node" where
  "view c a \<equiv> node_view a (lin_linNodes c)"

definition own_node :: "lin_controller \<Rightarrow> lin_node" where
  "own_node c = view c (this_address c)"

fun is_undefined :: "error option \<Rightarrow> bool" where
  "is_undefined (Some (Undefined_behaviour _)) = True"
| "is_undefined _ = False"

text \<open>The operation keeps the table of nodes, has a defined result, and changes only the nodes in \<open>A\<close> and its own.\<close>

definition touches :: "EndpointAddress set \<Rightarrow> lin_controller \<Rightarrow> lin_event list \<Rightarrow> error option \<Rightarrow> lin_controller \<Rightarrow> bool" where
  "touches A c evs err c' \<longleftrightarrow> (lin_ok c \<longrightarrow> lin_ok c' \<and> lin_serviceDescriptor c' = lin_serviceDescriptor c \<and> \<not> is_undefined err
     \<and> (\<forall>b. b \<notin> A \<and> b \<noteq> this_address c \<longrightarrow> view c' b = view c b))"

interpretation tch: trace_relation "touches A" for A
  by unfold_locales (auto simp: touches_def this_address_def)

definition touch :: "EndpointAddress \<Rightarrow> lin_controller \<Rightarrow> lin_controller" where
  "touch a c = c\<lparr>lin_linNodes := snd (GetLinNode a (lin_linNodes c))\<rparr>"

lemma touch_ok:
  assumes "lin_ok c"
  shows "lin_ok (touch a c)" "view (touch a c) b = view c b" "own_node (touch a c) = own_node c"
  using GetLinNode_sound [of "lin_linNodes c" a] assms
  by (auto simp: lin_ok_def touch_def own_node_def this_address_def split: prod.splits) (metis prod.collapse)+

lemma touch_fields [simp]:
  "lin_serviceDescriptor (touch a c) = lin_serviceDescriptor c" "lin_controllerMode (touch a c) = lin_controllerMode c"
  "lin_controllerStatus (touch a c) = lin_controllerStatus c" "lin_useDynamicResponse (touch a c) = lin_useDynamicResponse c"
  "lin_currentBehavior (touch a c) = lin_currentBehavior c" "lin_replaySend (touch a c) = lin_replaySend c"
  "lin_frameStatusHandlers (touch a c) = lin_frameStatusHandlers c" "this_address (touch a c) = this_address c"
  by (simp_all add: touch_def this_address_def)

lemma with_node_view: "lin_ok c \<Longrightarrow> with_node a f c = f (view c a) (touch a c)"
  using GetLinNode_sound [of "lin_linNodes c" a] by (auto simp: with_node_def lin_ok_def touch_def split: prod.splits)

lemma with_this_node_view: "lin_ok c \<Longrightarrow> with_this_node f c = f (own_node c) (touch (this_address c) c)"
  by (simp add: with_this_node_def with_node_view own_node_def)

definition node_update :: "(lin_node \<Rightarrow> lin_node) \<Rightarrow> bool" where
  "node_update f \<longleftrightarrow> (\<forall>n. ln_address (f n) = ln_address n \<and> (node_ok n \<longrightarrow> node_ok (f n)))"

lemma update_node_view:
  assumes "lin_ok c" "node_update f"
  obtains N where "update_node a f c = (c\<lparr>lin_linNodes := N\<rparr>, [], None)" "nodes_ok N"
    "\<And>b. node_view b N = (if b = a then f (view c a) else view c b)"
proof -
  obtain i ns where g: "GetLinNode a (lin_linNodes c) = (i, ns)" by (metis surj_pair)
  have s: "i < length ns" "ns ! i = view c a" "nodes_ok ns" "\<forall>b. node_view b ns = view c b"
    using GetLinNode_sound [OF assms(1) [unfolded lin_ok_def] g] by simp_all
  have n: "ln_address (f (ns ! i)) = ln_address (ns ! i)" "node_ok (f (ns ! i))"
    using assms(2) s(1,3) by (simp_all add: node_update_def nodes_ok_def)
  have "nodes_ok (ns[i := f (ns ! i)])" by (rule nodes_ok_set [OF s(3,1) n])
  moreover have "node_view b (ns[i := f (ns ! i)]) = (if b = a then f (view c a) else view c b)" for b
    using node_view_set [OF s(3,1) n(1), of b] n(1) s(2,4) by simp
  ultimately show ?thesis using that g by (simp add: update_node_def)
qed

lemma node_update_mode [simp]:
  "node_update (\<lambda>n. n\<lparr>ln_controllerMode := m, ln_controllerStatus := st\<rparr>)"
  "node_update (\<lambda>n. n\<lparr>ln_controllerMode := m, ln_controllerStatus := st, ln_simulationMode := sim\<rparr>)"
  "node_update (\<lambda>n. n\<lparr>ln_controllerStatus := st\<rparr>)"
  by (simp_all add: node_update_def node_ok_def)

lemma UpdateResponse_fields [simp]:
  "ln_address (UpdateResponse r n) = ln_address n" "ln_controllerMode (UpdateResponse r n) = ln_controllerMode n"
  "ln_controllerStatus (UpdateResponse r n) = ln_controllerStatus n" "ln_simulationMode (UpdateResponse r n) = ln_simulationMode n"
  "length (ln_responses (UpdateResponse r n)) = length (ln_responses n)"
  by (simp_all add: UpdateResponse_def Let_def)

lemma UpdateResponses_fields [simp]:
  "ln_address (UpdateResponses rs n) = ln_address n" "ln_controllerMode (UpdateResponses rs n) = ln_controllerMode n"
  "ln_controllerStatus (UpdateResponses rs n) = ln_controllerStatus n" "ln_simulationMode (UpdateResponses rs n) = ln_simulationMode n"
  "length (ln_responses (UpdateResponses rs n)) = length (ln_responses n)"
  unfolding UpdateResponses_def by (induction rs arbitrary: n; simp)+

lemma UpdateResponse_ok: "node_ok n \<Longrightarrow> node_ok (UpdateResponse r n)"
  by (auto simp: node_ok_def filed_def UpdateResponse_def Let_def nth_list_update)

lemma UpdateResponses_ok: "node_ok n \<Longrightarrow> node_ok (UpdateResponses rs n)"
  unfolding UpdateResponses_def by (induction rs arbitrary: n) (simp_all add: UpdateResponse_ok)

lemma node_UpdateTxBuffer_ok: "node_ok n \<Longrightarrow> node_ok (node_UpdateTxBuffer linId data n)"
  by (auto simp: node_ok_def filed_def node_UpdateTxBuffer_def Let_def nth_list_update)

lemma node_update_responses [simp]: "node_update (UpdateResponses rs)" "node_update (node_UpdateTxBuffer linId data)"
  by (simp_all add: node_update_def UpdateResponses_ok node_UpdateTxBuffer_ok) (simp add: node_UpdateTxBuffer_def Let_def)

lemma node_update_comp: "node_update f \<Longrightarrow> node_update g \<Longrightarrow> node_update (\<lambda>n. g (f n))"
  by (simp add: node_update_def)

section \<open>Rules for the operations\<close>

named_theorems lin_touches

lemma touches_refl [simp]: "touches A c evs err c \<longleftrightarrow> (lin_ok c \<longrightarrow> \<not> is_undefined err)"
  by (simp add: touches_def)

lemma touches_update_node: "node_update f \<Longrightarrow> a \<in> A \<or> a = this_address c \<Longrightarrow> holds (touches A) (update_node a f) c"
proof (rule holdsI)
  fix c' evs err
  assume f: "node_update f" "a \<in> A \<or> a = this_address c" and r: "update_node a f c = (c', evs, err)"
  show "touches A c evs err c'"
  proof (cases "lin_ok c")
    case True
    obtain N where "update_node a f c = (c\<lparr>lin_linNodes := N\<rparr>, [], None)" "nodes_ok N"
        "\<And>b. node_view b N = (if b = a then f (view c a) else view c b)"
      using update_node_view [OF True f(1)] by blast
    with r f(2) show ?thesis by (auto simp: touches_def lin_ok_def)
  qed (simp add: touches_def)
qed

lemma touches_update_this_node [lin_touches]: "node_update f \<Longrightarrow> holds (touches A) (update_this_node f) c"
  unfolding update_this_node_def by (intro tch.along_read touches_update_node) auto

lemma touches_with_node: "(\<And>n c'. node_ok n \<Longrightarrow> holds (touches A) (f n) c') \<Longrightarrow> holds (touches A) (with_node a f) c"
proof (rule holdsI)
  fix c' evs err
  assume f: "\<And>n c'. node_ok n \<Longrightarrow> holds (touches A) (f n) c'" and r: "with_node a f c = (c', evs, err)"
  show "touches A c evs err c'"
  proof (cases "lin_ok c")
    case True
    then have "f (view c a) (touch a c) = (c', evs, err)" using r by (simp add: with_node_view)
    then have "touches A (touch a c) evs err c'" using f [of "view c a"] True node_view_ok
      by (auto simp: lin_ok_def dest: holdsD)
    with True show ?thesis by (simp add: touches_def touch_ok)
  qed (simp add: touches_def)
qed

lemma touches_with_this_node [lin_touches]:
  "(\<And>n c'. node_ok n \<Longrightarrow> holds (touches A) (f n) c') \<Longrightarrow> holds (touches A) (with_this_node f) c"
  unfolding with_this_node_def by (intro tch.along_read touches_with_node)

lemma touches_with_response [lin_touches]:
  "node_ok n \<Longrightarrow> unat linId < 64 \<Longrightarrow> (\<And>r. holds (touches A) (f r) c) \<Longrightarrow> holds (touches A) (with_response linId n f) c"
  by (simp add: with_response_def node_ok_def)

lemma touches_by_behavior [lin_touches]:
  "holds (touches A) a c \<Longrightarrow> holds (touches A) b c \<Longrightarrow> holds (touches A) (by_behavior a b) c"
  unfolding by_behavior_def by (rule tch.along_read) (simp split: lin_behavior.splits)

lemma touches_modify:
  "(\<And>c. lin_linNodes (f c) = lin_linNodes c \<and> lin_serviceDescriptor (f c) = lin_serviceDescriptor c) \<Longrightarrow>
     holds (touches A) (act_modify f) c"
  by (rule tch.along_modify) (simp add: touches_def lin_ok_def)

lemma filed_id:
  assumes "node_ok n" "unat linId < 64" "lfr_responseMode (ln_responses n ! unat linId) \<noteq> LIN_Unused"
  shows "lf_id (lfr_frame (ln_responses n ! unat linId)) = linId"
proof -
  have "unat (lf_id (lfr_frame (ln_responses n ! unat linId))) = unat linId"
    using assms by (simp add: node_ok_def filed_def)
  then show ?thesis by (rule unsigned_word_eqI)
qed

lemma get_response_defined:
  "\<forall>n \<in> set ns. node_ok n \<Longrightarrow> unat linId < 64 \<Longrightarrow> lf_id (snd acc) = linId \<Longrightarrow>
     \<exists>k frame. get_response linId ns acc = Inr (k, frame) \<and> lf_id frame = linId"
proof (induction linId ns acc rule: get_response.induct)
  case (2 linId n ns numResponses responseFrame)
  let ?r = "ln_responses n ! unat linId"
  have ok: "unat linId < length (ln_responses n)" "lfr_responseMode ?r \<noteq> LIN_Unused \<Longrightarrow> lf_id (lfr_frame ?r) = linId"
    using "2.prems"(1,2) filed_id by (auto simp: node_ok_def)
  show ?case
  proof (cases "ln_controllerMode n = LIN_Inactive \<or> ln_controllerStatus n \<noteq> LIN_Operational")
    case True
    with "2.IH"(1) "2.prems" show ?thesis by simp
  next
    case False
    with "2.IH"(2,3) [OF False _ refl] "2.prems" ok show ?thesis by (auto simp: Let_def)
  qed
qed auto

lemma GetResponse_defined:
  assumes "lin_ok c" "unat linId < 64"
  obtains k frame where "GetResponse linId c = Inr (k, frame)" "lf_id frame = linId"
  using get_response_defined [of "lin_linNodes c" linId "(0, LinFrame_new\<lparr>lf_id := linId\<rparr>)"] assms
  by (auto simp: GetResponse_def lin_ok_def nodes_ok_def)

lemma touches_emit [lin_touches]: "holds (touches A) (act_emit evs) c"
  by (rule tch.along_emit) simp

lemma touches_throw [lin_touches]: "\<not> is_undefined (Some e) \<Longrightarrow> holds (touches A) (act_throw e) c"
  by (rule tch.along_throw) simp

lemmas [lin_touches] = tch.along_skip tch.along_read tch.along_when tch.along_if tch.along_seq

lemma touches_call_frame_status [lin_touches]: "holds (touches A) (call_frame_status t frame status) c"
  unfolding call_frame_status_def by (intro lin_touches)

lemma touches_warn [lin_touches]: "holds (touches A) (warn w) c"
  unfolding warn_def by (intro lin_touches)

lemma touches_checks [lin_touches]:
  "holds (touches A) (ThrowIfUninitialized m) c" "holds (touches A) (ThrowIfNotMaster m) c"
  "holds (touches A) (ThrowIfDynamic m) c" "holds (touches A) (ThrowIfNotDynamic m) c"
  unfolding ThrowIfUninitialized_def ThrowIfNotMaster_def ThrowIfDynamic_def ThrowIfNotDynamic_def
  by (intro lin_touches; simp)+

lemma touches_send [lin_touches]:
  "holds (touches A) (send_if_slave m) c" "holds (touches A) (SendTargettedMsgImpl m) c"
  "holds (touches A) (SendMsg_ControllerConfig cfg) c" "holds (touches A) (SendMsg_FrameResponseUpdate u) c"
  "holds (touches A) (SendMsg_ControllerStatusUpdate st) c"
  unfolding send_if_slave_def SendTargettedMsgImpl_def SendMsg_ControllerConfig_def SendMsg_FrameResponseUpdate_def
    SendMsg_ControllerStatusUpdate_def
  by (intro lin_touches)+

lemma touches_SendError [lin_touches]:
  "unat (lf_id frame) < 64 \<Longrightarrow> holds (touches A) (SendErrorTransmissionOnHeaderRequest now k frame) c"
  unfolding SendErrorTransmissionOnHeaderRequest_def Let_def act_all.simps by (intro lin_touches)

lemma touches_header_request [lin_touches]:
  assumes "unat (lsfhr_id msg) < 64"
  shows "holds (touches A) (trivial_SendFrameHeaderRequest now msg) c"
proof (cases "lin_ok c")
  case True
  obtain k frame where "GetResponse (lsfhr_id msg) c = Inr (k, frame)" "lf_id frame = lsfhr_id msg"
    using GetResponse_defined [OF True assms] .
  with assms show ?thesis unfolding trivial_SendFrameHeaderRequest_def
    by (intro tch.along_read) (simp; intro conjI impI lin_touches; simp)
next
  case False
  then show ?thesis by (simp add: holds_def touches_def split: prod.splits)
qed

lemma touches_SendFrameHeader [lin_touches]: "unat linId < 64 \<Longrightarrow> holds (touches A) (SendFrameHeader now linId) c"
  unfolding SendFrameHeader_def SendMsg_SendFrameHeaderRequest_def act_all.simps by (intro lin_touches; simp)

lemma touches_SendFrameRequest [lin_touches]:
  "unat (lf_id (lsfr_frame msg)) < 64 \<Longrightarrow> holds (touches A) (SendMsg_SendFrameRequest now msg) c"
  unfolding SendMsg_SendFrameRequest_def by (intro lin_touches)

lemma touches_ProcessFrameHeaderRequest [lin_touches]:
  "unat (lsfhr_id msg) < 64 \<Longrightarrow> holds (touches A) (ProcessFrameHeaderRequest now msg) c"
  unfolding ProcessFrameHeaderRequest_def trivial_ProcessFrameHeaderRequest_def Let_def act_all.simps by (intro lin_touches; simp)

lemma touches_UpdateFrameResponse [lin_touches]: "holds (touches A) (UpdateFrameResponse r) c"
  unfolding UpdateFrameResponse_def act_all.simps by (intro lin_touches; simp)

lemma touches_SendFrameInternal [lin_touches]:
  "unat (lf_id frame) < 64 \<Longrightarrow> holds (touches A) (SendFrameInternal now frame ty) c"
  unfolding SendFrameInternal_def Let_def by (intro lin_touches; simp)

lemma touches_status [lin_touches]:
  "holds (touches A) (SetControllerStatusInternal now st) c" "holds (touches A) (GoToSleepInternal now) c"
  "holds (touches A) (WakeupInternal now) c" "holds (touches A) (behavior_GoToSleep now) c"
  unfolding SetControllerStatusInternal_def GoToSleepInternal_def WakeupInternal_def behavior_GoToSleep_def trivial_GoToSleep_def
    detailed_GoToSleep_def act_all.simps
  by (intro lin_touches touches_modify; simp)+

lemma touches_checks_response [lin_touches]: "unat linId < 64 \<Longrightarrow> holds (touches A) (ThrowIfNotConfiguredTxUnconditional linId) c"
  unfolding ThrowIfNotConfiguredTxUnconditional_def by (intro lin_touches; simp)

lemma touches_check_initialization [lin_touches]: "holds (touches A) (check_initialization mode) c"
  unfolding check_initialization_def by (intro lin_touches; simp)

lemma touches_call_wakeup [lin_touches]: "holds (touches A) (call_wakeup msg) c"
  unfolding call_wakeup_def by (intro lin_touches)

lemma touches_CalcFrameStatus [lin_touches]:
  "unat (lf_id (lt_frame msg)) < 64 \<Longrightarrow> (\<And>st c. holds (touches A) (f st) c) \<Longrightarrow> holds (touches A) (CalcFrameStatus msg b f) c"
  unfolding CalcFrameStatus_def trivial_CalcFrameStatus_def detailed_CalcFrameStatus_def Let_def by (intro lin_touches)

lemma touches_HandleResponsesUpdate:
  "to_endpointAddress sender \<in> A \<Longrightarrow> holds (touches A) (HandleResponsesUpdate now sender rs) c"
  unfolding HandleResponsesUpdate_def act_all.simps
  by (intro lin_touches touches_update_node touches_with_node touches_modify; simp)

section \<open>Inputs of a controller\<close>

datatype lin_input =
    LI_Init lin_config
  | LI_InitDynamic "8 word" "32 word"
  | LI_SendFrame LinFrame "8 word"
  | LI_SendFrameHeader "8 word"
  | LI_SendDynamicResponse LinFrame
  | LI_UpdateTxBuffer LinFrame
  | LI_SetFrameResponse LinFrameResponse
  | LI_GoToSleep
  | LI_GoToSleepInternal
  | LI_Wakeup
  | LI_WakeupInternal
  | LI_Receive ServiceDescriptor lin_message
  | LI_Discovery "32 word" ServiceDescriptor
  | LI_Replay bool LinFrame
  | LI_AddHandler lin_handler_kind
  | LI_RemoveHandler lin_handler_kind nat

fun lin_step :: "int \<Rightarrow> lin_input \<Rightarrow> lin_action" where
  "lin_step now (LI_Init config) = lin_Init config"
| "lin_step now (LI_InitDynamic mode baudRate) = lin_InitDynamic mode baudRate"
| "lin_step now (LI_SendFrame frame ty) = lin_SendFrame now frame ty"
| "lin_step now (LI_SendFrameHeader linId) = SendFrameHeader now linId"
| "lin_step now (LI_SendDynamicResponse frame) = SendDynamicResponse now frame"
| "lin_step now (LI_UpdateTxBuffer frame) = lin_UpdateTxBuffer frame"
| "lin_step now (LI_SetFrameResponse response) = SetFrameResponse response"
| "lin_step now LI_GoToSleep = lin_GoToSleep now"
| "lin_step now LI_GoToSleepInternal = GoToSleepInternal now"
| "lin_step now LI_Wakeup = lin_Wakeup now"
| "lin_step now LI_WakeupInternal = WakeupInternal now"
| "lin_step now (LI_Receive sender msg) = lin_ReceiveMsg now sender msg"
| "lin_step now (LI_Discovery ty remote) = lin_discovery ty remote"
| "lin_step now (LI_Replay isReceive frame) = lin_ReplayMessage now isReceive frame"
| "lin_step now (LI_AddHandler k) = lin_AddHandler k"
| "lin_step now (LI_RemoveHandler k h) = lin_RemoveHandler k h"

text \<open>The identifiers the code uses as an index without a check of its own.\<close>

fun used_id :: "lin_input \<Rightarrow> 8 word option" where
  "used_id (LI_SendFrame frame ty) = Some (lf_id frame)"
| "used_id (LI_SendFrameHeader linId) = Some linId"
| "used_id (LI_SendDynamicResponse frame) = Some (lf_id frame)"
| "used_id (LI_UpdateTxBuffer frame) = Some (lf_id frame)"
| "used_id (LI_Receive sender (LM_SendFrameHeaderRequest msg)) = Some (lsfhr_id msg)"
| "used_id (LI_Replay isReceive frame) = Some (lf_id frame)"
| "used_id _ = None"

definition id_ok :: "lin_input \<Rightarrow> bool" where
  "id_ok i \<longleftrightarrow> (case used_id i of None \<Rightarrow> True | Some linId \<Rightarrow> unat linId < 64)"

fun touched :: "lin_input \<Rightarrow> EndpointAddress set" where
  "touched (LI_Receive sender msg) = {to_endpointAddress sender}"
| "touched _ = {}"

lemma touches_Receive_Transmission [lin_touches]: "holds (touches A) (Receive_Transmission sender msg) c"
  unfolding Receive_Transmission_def Let_def act_all.simps by (intro lin_touches; simp)

lemma touches_receive: "id_ok (LI_Receive sender msg) \<Longrightarrow> holds (touches {to_endpointAddress sender}) (lin_ReceiveMsg now sender msg) c"
  unfolding id_ok_def
  by (cases msg; simp add: Receive_SendFrameHeaderRequest_def Receive_WakeupPulse_def
      Receive_FrameResponseUpdate_def Receive_ControllerConfig_def Receive_ControllerStatusUpdate_def;
    intro lin_touches touches_HandleResponsesUpdate touches_update_node; simp)

lemma touches_api:
  "unat (lf_id frame) < 64 \<Longrightarrow> holds (touches A) (lin_SendFrame now frame ty) c"
  "unat (lf_id frame) < 64 \<Longrightarrow> holds (touches A) (SendDynamicResponse now frame) c"
  "unat (lf_id frame) < 64 \<Longrightarrow> holds (touches A) (lin_UpdateTxBuffer frame) c"
  "unat (lf_id frame) < 64 \<Longrightarrow> holds (touches A) (lin_ReplayMessage now isReceive frame) c"
  "holds (touches A) (lin_GoToSleep now) c" "holds (touches A) (lin_Wakeup now) c"
  unfolding lin_SendFrame_def SendDynamicResponse_def lin_UpdateTxBuffer_def lin_ReplayMessage_def lin_GoToSleep_def lin_Wakeup_def
    trivial_Wakeup_def detailed_Wakeup_def act_all.simps
  by (intro lin_touches touches_modify; simp)+

lemma node_update_init [simp]: "node_update (\<lambda>n. UpdateResponses rs (n\<lparr>ln_controllerMode := m, ln_controllerStatus := st\<rparr>))"
  by (rule node_update_comp [OF node_update_mode(1) node_update_responses(1)])

lemma touches_configure:
  "holds (touches A) (lin_Init config) c" "holds (touches A) (lin_InitDynamic mode baudRate) c" "holds (touches A) (SetFrameResponse response) c"
  "holds (touches A) (lin_AddHandler k) c" "holds (touches A) (lin_RemoveHandler k h) c" "holds (touches A) (lin_discovery ty remote) c"
  unfolding lin_Init_def lin_InitDynamic_def SetFrameResponse_def lin_AddHandler_def lin_RemoveHandler_def lin_discovery_def h_Remove_def
    act_all.simps prod.case
  by (intro lin_touches touches_modify;
      simp add: set_lin_handlers_def split: lin_handler_kind.splits lin_behavior.splits)+

lemma lin_step_touches: "id_ok i \<Longrightarrow> holds (touches (touched i)) (lin_step now i) c"
  by (cases i) (auto simp: id_ok_def intro: touches_api touches_configure touches_receive [unfolded id_ok_def] lin_touches)

section \<open>Properties\<close>

text \<open>The states a controller reaches with identifiers that exist on a LIN bus.\<close>

inductive lin_reachable :: "lin_controller \<Rightarrow> bool" where
  lin_start: "lin_reachable (LinController_new sd replayActive replaySend)"
| lin_next: "lin_reachable c \<Longrightarrow> id_ok i \<Longrightarrow> lin_step now i c = (c', evs, err) \<Longrightarrow> lin_reachable c'"

lemma lin_ok_new: "lin_ok (LinController_new sd replayActive replaySend)"
  by (simp add: lin_ok_def nodes_ok_def LinController_new_def)

lemma lin_step_ok:
  assumes "lin_ok c" "id_ok i" "lin_step now i c = (c', evs, err)"
  shows "lin_ok c'" "\<not> is_undefined err"
  using holdsD [OF lin_step_touches [OF assms(2)] assms(3)] assms(1) by (simp_all add: touches_def)

lemma lin_reachable_ok: "lin_reachable c \<Longrightarrow> lin_ok c"
  by (induction rule: lin_reachable.induct) (auto intro: lin_ok_new lin_step_ok)


definition example_sd :: "64 word \<Rightarrow> ServiceDescriptor" where
  "example_sd p = \<lparr>sd_participantName = ''P'', sd_participantId = p, sd_serviceType = 2, sd_networkName = ''N'',
     sd_networkType = 3, sd_serviceName = ''L'', sd_serviceId = 1, sd_supplementalData = []\<rparr>"

definition example_frame :: "8 word \<Rightarrow> LinFrame" where
  "example_frame linId = \<lparr>lf_id = linId, lf_checksumModel = 1, lf_dataLength = 8, lf_data = [1, 2, 3, 4, 5, 6, 7, 8]\<rparr>"


text \<open>
  The identifier of a received header is not checked. A controller in the trivial behaviour that receives a header with an identifier of 64
  or more reads beyond the array of its responses.
\<close>

theorem lin_header_id_unchecked:
  assumes "lin_ok c" "lin_currentBehavior c = LB_Trivial" "\<not> lin_useDynamicResponse c" "64 \<le> unat (lsfhr_id msg)"
  shows "snd (snd (lin_ReceiveMsg now sender (LM_SendFrameHeaderRequest msg) c)) = Some (Undefined_behaviour ''index out of range'')"
proof -
  have "node_ok (own_node c)" using assms(1) by (simp add: own_node_def lin_ok_def node_view_ok)
  with assms show ?thesis
    by (simp add: Receive_SendFrameHeaderRequest_def lin_AllowReception_def ProcessFrameHeaderRequest_def by_behavior_def
        trivial_ProcessFrameHeaderRequest_def with_this_node_view with_response_def node_ok_def)
qed

text \<open>How a controller in the trivial behaviour answers a header.\<close>

definition answer_dir :: "lin_controller \<Rightarrow> lin_direction" where
  "answer_dir c = (if ln_controllerMode (own_node c) = LIN_Master then LD_TX else LD_RX)"

lemma answer_header:
  assumes "lin_ok c" "lin_currentBehavior c = LB_Trivial" "unat (lsfhr_id header) < 64"
    and "ln_responses (own_node c) ! unat (lsfhr_id header) = r" "lfr_responseMode r = LIN_TxUnconditional"
      "lf_dataLength (lfr_frame r) \<noteq> LinDataLengthUnknown"
  obtains c' where "ProcessFrameHeaderRequest now header c = (c',
    [LN_Send (LM_Transmission \<lparr>lt_timestamp = now, lt_frame = lfr_frame r, lt_status = LIN_RX_OK\<rparr>), LN_Trace (answer_dir c) now (lfr_frame r)]
    @ h_InvokeAll (\<lambda>h. LN_FrameStatus h now (lfr_frame r) LIN_TX_OK) (lin_frameStatusHandlers c), None)"
proof -
  have n: "length (ln_responses (own_node c)) = 64"
    using assms(1) node_view_ok by (simp add: own_node_def lin_ok_def node_ok_def)
  have t: "lin_ok (touch (this_address c) c)" "own_node (touch (this_address c) c) = own_node c"
    using touch_ok [OF assms(1)] by simp_all
  show thesis
    by (rule that [of "touch (this_address c) (touch (this_address c) c)"]) (use assms n t in \<open>simp add: Let_def ProcessFrameHeaderRequest_def by_behavior_def trivial_ProcessFrameHeaderRequest_def
        with_this_node_view with_response_def ToTracingDir_def call_frame_status_def answer_dir_def act_seq_def\<close>)
qed

lemma no_answer_header:
  assumes "lin_ok c" "lin_currentBehavior c = LB_Trivial" "unat (lsfhr_id header) < 64"
    and "lfr_responseMode (ln_responses (own_node c) ! unat (lsfhr_id header)) \<noteq> LIN_TxUnconditional"
  shows "ProcessFrameHeaderRequest now header c = (touch (this_address c) c, [], None)"
proof -
  have "length (ln_responses (own_node c)) = 64"
    using assms(1) node_view_ok by (simp add: own_node_def lin_ok_def node_ok_def)
  with assms show ?thesis
    by (simp add: ProcessFrameHeaderRequest_def by_behavior_def trivial_ProcessFrameHeaderRequest_def with_this_node_view with_response_def)
qed

text \<open>
  \<^verbatim>\<open>SendDynamicResponse\<close> is meant for controllers that were initialized with \<^verbatim>\<open>InitDynamic\<close>, but the check has the wrong sign: a
  controller that was not initialized at all answers.
\<close>

theorem dynamic_response_never_refused:
  assumes "c = LinController_new sd False False" "unat (lf_id frame) < 64" "lf_dataLength frame \<noteq> LinDataLengthUnknown"
  shows "fst (snd (SendDynamicResponse now frame c)) =
    [LN_Send (LM_Transmission \<lparr>lt_timestamp = now, lt_frame = frame, lt_status = LIN_RX_OK\<rparr>), LN_Trace LD_RX now frame]
    \<and> snd (snd (SendDynamicResponse now frame c)) = None"
proof -
  have ok: "lin_ok c" using assms(1) by (simp add: lin_ok_new)
  let ?r = "\<lparr>lfr_frame = frame, lfr_responseMode = LIN_TxUnconditional\<rparr>"
  obtain N where N: "update_node (this_address c) (UpdateResponses [?r]) c = (c\<lparr>lin_linNodes := N\<rparr>, [], None)" "nodes_ok N"
      "\<And>b. node_view b N = (if b = this_address c then UpdateResponses [?r] (view c (this_address c)) else view c b)"
    using update_node_view [OF ok node_update_responses(1)] by metis
  let ?c = "c\<lparr>lin_linNodes := N\<rparr>"
  have okc: "lin_ok ?c" using N(2) by (simp add: lin_ok_def)
  have own: "own_node ?c = UpdateResponse ?r (LinNode_new (this_address c))"
    using N(3) assms(1) by (simp add: own_node_def this_address_def UpdateResponses_def LinController_new_def)
  have upd: "UpdateFrameResponse ?r c = (?c, [], None)"
    using N(1) assms(1,2)
    by (simp add: UpdateFrameResponse_def update_this_node_def invalid_ids_def act_seq_def SendMsg_FrameResponseUpdate_def by_behavior_def
        send_if_slave_def LinController_new_def)
  have rs: "length (ln_responses (own_node ?c)) = 64" "ln_responses (own_node ?c) ! unat (lf_id frame) = ?r"
      "ln_controllerMode (own_node ?c) = LIN_Inactive"
    using assms(2) own by (simp_all add: UpdateResponse_def LinNode_new_def Let_def)
  have c: "lin_currentBehavior ?c = LB_Trivial" "\<not> lin_useDynamicResponse c" "h_entries (lin_frameStatusHandlers ?c) = []"
    using assms(1) by (simp_all add: LinController_new_def handlers_new_def)
  obtain c' where p: "ProcessFrameHeaderRequest now \<lparr>lsfhr_timestamp = now, lsfhr_id = lf_id frame\<rparr> ?c = (c',
      [LN_Send (LM_Transmission \<lparr>lt_timestamp = now, lt_frame = frame, lt_status = LIN_RX_OK\<rparr>), LN_Trace (answer_dir ?c) now frame], None)"
    using answer_header [OF okc c(1), of "\<lparr>lsfhr_timestamp = now, lsfhr_id = lf_id frame\<rparr>" ?r now] assms(2,3) rs(2) c(3)
    by (auto simp: h_InvokeAll_def)
  show ?thesis
    using upd p c(2) rs(3) by (simp add: SendDynamicResponse_def ThrowIfNotDynamic_def act_seq_def answer_dir_def)
qed

end
