(* ===== verification/LinNetwork.thy ===== *)
theory LinNetwork
  imports LinController
begin

text \<open>
  A LIN network in which controllers answer each other: a master and its slaves. The master decides from its own record of the slaves what
  happens on the bus; this theory shows that the record agrees with the slaves once their messages have arrived, and that a header
  then leads to the frame of the one slave that responds.
\<close>

section \<open>What others know of a controller\<close>

record lin_view =
  lv_mode :: "8 word"
  lv_status :: "32 word"
  lv_simulationMode :: "8 word"
  lv_responseModes :: "8 word list"

definition peer_view :: "lin_node \<Rightarrow> lin_view" where
  "peer_view n = \<lparr>lv_mode = ln_controllerMode n, lv_status = ln_controllerStatus n, lv_simulationMode = ln_simulationMode n,
     lv_responseModes = map lfr_responseMode (ln_responses n)\<rparr>"

definition summary :: "lin_controller \<Rightarrow> lin_view" where
  "summary c = \<lparr>lv_mode = lin_controllerMode c, lv_status = lin_controllerStatus c, lv_simulationMode = ln_simulationMode (own_node c),
     lv_responseModes = map lfr_responseMode (ln_responses (own_node c))\<rparr>"

definition set_modes :: "LinFrameResponse list \<Rightarrow> 8 word list \<Rightarrow> 8 word list" where
  "set_modes rs modes = fold (\<lambda>r ms. ms[unat (lf_id (lfr_frame r)) := lfr_responseMode r]) rs modes"

fun view_effect :: "lin_message \<Rightarrow> lin_view \<Rightarrow> lin_view" where
  "view_effect (LM_ControllerConfig cfg) v = \<lparr>lv_mode = wlcc_controllerMode cfg, lv_status = LIN_Operational,
     lv_simulationMode = wlcc_simulationMode cfg, lv_responseModes = set_modes (wlcc_frameResponses cfg) (lv_responseModes v)\<rparr>"
| "view_effect (LM_ControllerStatusUpdate u) v = v\<lparr>lv_status := lcsu_status u\<rparr>"
| "view_effect (LM_FrameResponseUpdate u) v = v\<lparr>lv_responseModes := set_modes (lfru_frameResponses u) (lv_responseModes v)\<rparr>"
| "view_effect _ v = v"

fun broadcasts :: "lin_event list \<Rightarrow> lin_message list" where
  "broadcasts [] = []"
| "broadcasts (LN_Send m # evs) = m # broadcasts evs"
| "broadcasts (_ # evs) = broadcasts evs"

lemma broadcasts_append [simp]: "broadcasts (a @ b) = broadcasts a @ broadcasts b"
  by (induction a rule: broadcasts.induct) simp_all

lemma broadcasts_map: "(\<And>x m. f x \<noteq> LN_Send m) \<Longrightarrow> broadcasts (map f xs) = []"
proof (induction xs)
  case (Cons x xs)
  then show ?case by (cases "f x") auto
qed simp

lemma broadcasts_none [simp]:
  "broadcasts (h_InvokeAll (\<lambda>h. LN_FrameStatus h t f st) hs) = []" "broadcasts (h_InvokeAll (\<lambda>h. LN_GoToSleep h t) hs) = []"
  "broadcasts (h_InvokeAll (\<lambda>h. LN_Wakeup h t w) hs) = []" "broadcasts (h_InvokeAll (\<lambda>h. LN_SlaveConfiguration h t) hs) = []"
  "broadcasts (h_InvokeAll (\<lambda>h. LN_FrameHeader h t i) hs) = []" "broadcasts (invalid_ids rs) = []"
  unfolding h_InvokeAll_def invalid_ids_def by (simp_all add: broadcasts_map)

lemma map_UpdateResponse: "map lfr_responseMode (ln_responses (UpdateResponse r n)) =
    (map lfr_responseMode (ln_responses n))[unat (lf_id (lfr_frame r)) := lfr_responseMode r]"
  by (simp add: UpdateResponse_def Let_def map_update list_update_beyond)

lemma map_UpdateResponses: "map lfr_responseMode (ln_responses (UpdateResponses rs n)) = set_modes rs (map lfr_responseMode (ln_responses n))"
  unfolding UpdateResponses_def set_modes_def by (induction rs arbitrary: n) (simp_all add: map_UpdateResponse)

section \<open>A slave tells others what changes\<close>

definition slave_ok :: "EndpointAddress \<Rightarrow> 8 word \<Rightarrow> lin_controller \<Rightarrow> bool" where
  "slave_ok me mode c \<longleftrightarrow> lin_ok c \<and> this_address c = me \<and> lin_controllerMode c = mode \<and> (mode = LIN_Inactive \<or> mode = LIN_Slave)
     \<and> (lin_controllerStatus c = LIN_Unknown \<longleftrightarrow> mode = LIN_Inactive)
     \<and> (mode = LIN_Inactive \<longrightarrow> ln_simulationMode (own_node c) = LIN_Default)"

definition reports :: "EndpointAddress \<Rightarrow> 8 word \<Rightarrow> lin_controller \<Rightarrow> lin_event list \<Rightarrow> error option \<Rightarrow> lin_controller \<Rightarrow> bool" where
  "reports me mode c evs err c' \<longleftrightarrow>
     (slave_ok me mode c \<longrightarrow> slave_ok me mode c' \<and> summary c' = fold view_effect (broadcasts evs) (summary c))"

interpretation rep: trace_relation "reports me mode" for me mode
  by unfold_locales (auto simp: reports_def)

named_theorems lin_reports

lemma reports_refl: "broadcasts evs = [] \<Longrightarrow> reports me mode c evs err c"
  by (simp add: reports_def)

lemma summary_touch: "lin_ok c \<Longrightarrow> summary (touch a c) = summary c"
  by (simp add: summary_def touch_ok)

lemma slave_ok_touch: "slave_ok me mode c \<Longrightarrow> slave_ok me mode (touch a c)"
  by (simp add: slave_ok_def touch_ok)

lemma reports_with_node [lin_reports]:
  assumes "\<And>n c'. holds (reports me mode) (f n) c'"
  shows "holds (reports me mode) (with_node a f) c"
proof (rule holdsI)
  fix c' evs err
  assume r: "with_node a f c = (c', evs, err)"
  show "reports me mode c evs err c'"
  proof (cases "slave_ok me mode c")
    case True
    then have ok: "lin_ok c" by (simp add: slave_ok_def)
    then have "f (view c a) (touch a c) = (c', evs, err)" using r by (simp add: with_node_view)
    then have "reports me mode (touch a c) evs err c'" using holdsD [OF assms] by blast
    then show ?thesis using True ok by (simp add: reports_def summary_touch slave_ok_touch)
  qed (simp add: reports_def)
qed

lemma reports_with_this_node [lin_reports]:
  "(\<And>n c'. holds (reports me mode) (f n) c') \<Longrightarrow> holds (reports me mode) (with_this_node f) c"
  unfolding with_this_node_def by (intro rep.along_read reports_with_node)

lemma reports_update_node [lin_reports]:
  assumes "node_update f" "a \<noteq> me"
  shows "holds (reports me mode) (update_node a f) c"
proof (rule holdsI)
  fix c' evs err
  assume r: "update_node a f c = (c', evs, err)"
  show "reports me mode c evs err c'"
  proof (cases "slave_ok me mode c")
    case True
    then have ok: "lin_ok c" by (simp add: slave_ok_def)
    obtain N where N: "update_node a f c = (c\<lparr>lin_linNodes := N\<rparr>, [], None)" "nodes_ok N"
        "\<And>b. node_view b N = (if b = a then f (view c a) else view c b)"
      using update_node_view [OF ok assms(1)] by blast
    have "this_address (c\<lparr>lin_linNodes := N\<rparr>) = this_address c" by (simp add: this_address_def)
    with N(3) assms(2) True have "own_node (c\<lparr>lin_linNodes := N\<rparr>) = own_node c" by (simp add: own_node_def slave_ok_def)
    with True N(1,2) r show ?thesis by (auto simp: reports_def slave_ok_def summary_def lin_ok_def this_address_def)
  qed (simp add: reports_def)
qed

lemma reports_with_response [lin_reports]:
  "(\<And>r. holds (reports me mode) (f r) c) \<Longrightarrow> holds (reports me mode) (with_response linId n f) c"
  unfolding with_response_def by (intro rep.along_if rep.along_throw reports_refl) simp_all

lemma reports_by_behavior [lin_reports]:
  "holds (reports me mode) a c \<Longrightarrow> holds (reports me mode) b c \<Longrightarrow> holds (reports me mode) (by_behavior a b) c"
  unfolding by_behavior_def by (rule rep.along_read) (simp split: lin_behavior.splits)

lemma reports_modify:
  assumes "\<And>c. lin_linNodes (f c) = lin_linNodes c \<and> lin_serviceDescriptor (f c) = lin_serviceDescriptor c
    \<and> lin_controllerMode (f c) = lin_controllerMode c \<and> lin_controllerStatus (f c) = lin_controllerStatus c"
  shows "holds (reports me mode) (act_modify f) c"
  using assms [of c] by (intro rep.along_modify)
    (auto simp: reports_def slave_ok_def summary_def own_node_def this_address_def lin_ok_def)

lemma fold_no_effect: "\<forall>m \<in> set ms. \<forall>v. view_effect m v = v \<Longrightarrow> fold view_effect ms v = v"
  by (induction ms) simp_all

lemma reports_emit [lin_reports]: "\<forall>m \<in> set (broadcasts evs). \<forall>v. view_effect m v = v \<Longrightarrow> holds (reports me mode) (act_emit evs) c"
  by (rule rep.along_emit) (simp add: reports_def fold_no_effect)

lemma reports_case: "(slave_ok me mode c \<Longrightarrow> holds (reports me mode) a c) \<Longrightarrow> holds (reports me mode) a c"
  by (cases "slave_ok me mode c") (simp_all add: holds_def reports_def split: prod.splits)

lemma reports_throw [lin_reports]: "holds (reports me mode) (act_throw e) c"
  by (rule rep.along_throw) (simp add: reports_refl)

lemmas [lin_reports] = rep.along_skip rep.along_read rep.along_when rep.along_if rep.along_seq

lemma reports_helpers [lin_reports]:
  "holds (reports me mode) (call_frame_status t frame st) c" "holds (reports me mode) (warn w) c" "holds (reports me mode) (call_wakeup p) c"
  "holds (reports me mode) (SendTargettedMsgImpl m) c"
  "holds (reports me mode) (ThrowIfUninitialized s) c" "holds (reports me mode) (ThrowIfNotMaster s) c"
  "holds (reports me mode) (ThrowIfDynamic s) c" "holds (reports me mode) (ThrowIfNotDynamic s) c"
  unfolding call_frame_status_def warn_def call_wakeup_def SendTargettedMsgImpl_def ThrowIfUninitialized_def ThrowIfNotMaster_def
    ThrowIfDynamic_def ThrowIfNotDynamic_def
  by (intro lin_reports; simp)+

lemma reports_process [lin_reports]: "holds (reports me mode) (ProcessFrameHeaderRequest now msg) c"
  unfolding ProcessFrameHeaderRequest_def trivial_ProcessFrameHeaderRequest_def Let_def act_all.simps by (intro lin_reports; simp)

lemma reports_CalcFrameStatus [lin_reports]:
  "(\<And>st c. holds (reports me mode) (f st) c) \<Longrightarrow> holds (reports me mode) (CalcFrameStatus msg b f) c"
  unfolding CalcFrameStatus_def trivial_CalcFrameStatus_def detailed_CalcFrameStatus_def Let_def by (intro lin_reports)

lemma reports_HandleResponsesUpdate [lin_reports]:
  "to_endpointAddress sender \<noteq> me \<Longrightarrow> holds (reports me mode) (HandleResponsesUpdate now sender rs) c"
  unfolding HandleResponsesUpdate_def act_all.simps by (intro lin_reports reports_modify; simp)

lemma reports_Receive_Transmission [lin_reports]: "holds (reports me mode) (Receive_Transmission sender msg) c"
  unfolding Receive_Transmission_def Let_def act_all.simps by (intro lin_reports; simp)

lemma reports_receive:
  "to_endpointAddress sender \<noteq> me \<Longrightarrow> holds (reports me mode) (lin_ReceiveMsg now sender msg) c"
  by (cases msg; simp add: Receive_SendFrameHeaderRequest_def Receive_WakeupPulse_def
      Receive_FrameResponseUpdate_def Receive_ControllerConfig_def Receive_ControllerStatusUpdate_def;
    intro lin_reports; simp)

lemma reports_other [lin_reports]:
  "holds (reports me mode) (lin_AddHandler k) c" "holds (reports me mode) (lin_RemoveHandler k h) c"
  "holds (reports me mode) (lin_discovery ty remote) c"
  unfolding lin_AddHandler_def lin_RemoveHandler_def lin_discovery_def h_Remove_def prod.case
  by (intro lin_reports reports_modify; simp add: set_lin_handlers_def split: lin_handler_kind.splits lin_behavior.splits)+

text \<open>The operations that change what others know.\<close>

lemma own_update:
  assumes "lin_ok c" "node_update f"
  obtains N where "update_this_node f c = (c\<lparr>lin_linNodes := N\<rparr>, [], None)" "nodes_ok N" "node_view (this_address c) N = f (own_node c)"
proof -
  obtain N where "update_node (this_address c) f c = (c\<lparr>lin_linNodes := N\<rparr>, [], None)" "nodes_ok N"
      "\<And>b. node_view b N = (if b = this_address c then f (view c (this_address c)) else view c b)"
    using update_node_view [OF assms] by metis
  then show ?thesis using that by (simp add: update_this_node_def own_node_def)
qed

lemma reports_UpdateFrameResponse [lin_reports]: "holds (reports me LIN_Slave) (UpdateFrameResponse r) c"
proof (rule holdsI)
  fix c' evs err
  assume r: "UpdateFrameResponse r c = (c', evs, err)"
  show "reports me LIN_Slave c evs err c'"
  proof (cases "slave_ok me LIN_Slave c")
    case True
    then have ok: "lin_ok c" "this_address c = me" "lin_controllerMode c = LIN_Slave" by (simp_all add: slave_ok_def)
    obtain N where N: "update_this_node (UpdateResponses [r]) c = (c\<lparr>lin_linNodes := N\<rparr>, [], None)" "nodes_ok N"
        "node_view me N = UpdateResponses [r] (own_node c)"
      using own_update [OF ok(1) node_update_responses(1)] ok(2) by metis
    have out: "c' = c\<lparr>lin_linNodes := N\<rparr>" "broadcasts evs = [LM_FrameResponseUpdate \<lparr>lfru_frameResponses = [r]\<rparr>]"
      using r N(1) ok(3) by (auto simp: UpdateFrameResponse_def act_seq_def SendMsg_FrameResponseUpdate_def by_behavior_def send_if_slave_def
          split: lin_behavior.splits)
    have "own_node c' = UpdateResponses [r] (own_node c)" "this_address c' = me" "lin_ok c'"
      using N(2,3) out(1) ok(2) by (simp_all add: own_node_def this_address_def lin_ok_def)
    with True out show ?thesis by (simp add: reports_def slave_ok_def summary_def map_UpdateResponses)
  qed (simp add: reports_def)
qed

lemma reports_status [lin_reports]: "st \<noteq> LIN_Unknown \<Longrightarrow> holds (reports me LIN_Slave) (SetControllerStatusInternal now st) c"
proof (rule holdsI)
  fix c' evs err
  assume st: "st \<noteq> LIN_Unknown" and r: "SetControllerStatusInternal now st c = (c', evs, err)"
  have out: "c' = c\<lparr>lin_controllerStatus := st\<rparr>" "broadcasts evs = [LM_ControllerStatusUpdate \<lparr>lcsu_timestamp = now, lcsu_status = st\<rparr>]"
    using r by (auto simp: SetControllerStatusInternal_def SendMsg_ControllerStatusUpdate_def act_seq_def act_when_def warn_def split: if_splits)
  then show "reports me LIN_Slave c evs err c'"
    using st by (auto simp: reports_def slave_ok_def summary_def own_node_def this_address_def lin_ok_def)
qed

lemma map_mode_data: "map lfr_responseMode (ln_responses (node_UpdateTxBuffer linId data n)) = map lfr_responseMode (ln_responses n)"
proof (cases "length (ln_responses n) \<le> unat linId")
  case False
  then show ?thesis by (intro nth_equalityI) (auto simp: node_UpdateTxBuffer_def Let_def nth_list_update)
qed (simp add: node_UpdateTxBuffer_def)

lemma reports_tx_data [lin_reports]: "holds (reports me mode) (update_this_node (node_UpdateTxBuffer linId data)) c"
proof (rule reports_case, rule holdsI)
  fix c' evs err
  assume ok: "slave_ok me mode c" and r: "update_this_node (node_UpdateTxBuffer linId data) c = (c', evs, err)"
  obtain N where N: "update_this_node (node_UpdateTxBuffer linId data) c = (c\<lparr>lin_linNodes := N\<rparr>, [], None)" "nodes_ok N"
      "node_view me N = node_UpdateTxBuffer linId data (own_node c)"
    using own_update [OF _ node_update_responses(2)] ok by (metis slave_ok_def)
  then have "own_node c' = node_UpdateTxBuffer linId data (own_node c)" "this_address c' = me" "lin_ok c'"
    using r ok by (auto simp: own_node_def this_address_def lin_ok_def slave_ok_def)
  moreover have "ln_simulationMode (node_UpdateTxBuffer linId data n) = ln_simulationMode n" for n
    by (simp add: node_UpdateTxBuffer_def Let_def)
  ultimately show "reports me mode c evs err c'" using ok r N(1) by (auto simp: reports_def slave_ok_def summary_def map_mode_data)
qed

lemma reports_tx_update:
  assumes "lv_responseModes (summary c) ! unat (lf_id frame) = LIN_TxUnconditional"
  shows "holds (reports me mode) (act_emit [LN_Send (LM_FrameResponseUpdate \<lparr>lfru_frameResponses =
    [\<lparr>lfr_frame = frame, lfr_responseMode = LIN_TxUnconditional\<rparr>]\<rparr>)]) c"
proof (rule rep.along_emit)
  let ?ms = "lv_responseModes (summary c)"
  have "?ms[unat (lf_id frame) := LIN_TxUnconditional] = ?ms" using assms by (metis list_update_id)
  then show "reports me mode c [LN_Send (LM_FrameResponseUpdate \<lparr>lfru_frameResponses =
      [\<lparr>lfr_frame = frame, lfr_responseMode = LIN_TxUnconditional\<rparr>]\<rparr>)] None c"
    by (simp add: reports_def set_modes_def)
qed

lemma configured_tx:
  assumes "lin_ok c" "ThrowIfNotConfiguredTxUnconditional linId c = (c', evs, None)"
  shows "lv_responseModes (summary c') ! unat linId = LIN_TxUnconditional"
  using assms by (auto simp: ThrowIfNotConfiguredTxUnconditional_def with_this_node_view with_response_def act_when_def summary_touch
      summary_def touch_ok split: if_splits)

lemma reports_configured [lin_reports]: "holds (reports me mode) (ThrowIfNotConfiguredTxUnconditional linId) c"
  unfolding ThrowIfNotConfiguredTxUnconditional_def by (intro lin_reports)

lemma reports_tx_buffer [lin_reports]:
  "holds (reports me mode) (act_seq (ThrowIfNotConfiguredTxUnconditional (lf_id frame))
     (act_seq (update_this_node (node_UpdateTxBuffer (lf_id frame) (lf_data frame)))
       (by_behavior act_skip (act_emit [LN_Send (LM_FrameResponseUpdate \<lparr>lfru_frameResponses =
         [\<lparr>lfr_frame = frame, lfr_responseMode = LIN_TxUnconditional\<rparr>]\<rparr>)])))) c"
proof (rule reports_case, rule rep.along_step [OF reports_configured], rule rep.along_step [OF reports_tx_data])
  fix c1 c2 evs1 evs2
  assume ok: "slave_ok me mode c" and 1: "ThrowIfNotConfiguredTxUnconditional (lf_id frame) c = (c1, evs1, None)"
    and 2: "update_this_node (node_UpdateTxBuffer (lf_id frame) (lf_data frame)) c1 = (c2, evs2, None)"
  have tx: "lv_responseModes (summary c1) ! unat (lf_id frame) = LIN_TxUnconditional"
    using configured_tx [OF _ 1] ok by (simp add: slave_ok_def)
  have "slave_ok me mode c1" using holdsD [OF reports_configured 1] ok by (simp add: reports_def)
  moreover have "evs2 = []" using 2 by (simp add: update_this_node_def update_node_def)
  ultimately have "summary c2 = summary c1" using holdsD [OF reports_tx_data 2] by (simp add: reports_def)
  with tx show "holds (reports me mode) (by_behavior act_skip (act_emit [LN_Send (LM_FrameResponseUpdate \<lparr>lfru_frameResponses =
      [\<lparr>lfr_frame = frame, lfr_responseMode = LIN_TxUnconditional\<rparr>]\<rparr>)])) c2"
    by (intro reports_by_behavior reports_tx_update rep.along_skip) simp
qed

lemma reports_api:
  "holds (reports me LIN_Slave) (lin_UpdateTxBuffer frame) c" "holds (reports me LIN_Slave) (SetFrameResponse r) c"
  "holds (reports me LIN_Slave) (SendDynamicResponse now frame) c" "holds (reports me LIN_Slave) (GoToSleepInternal now) c"
  "holds (reports me LIN_Slave) (WakeupInternal now) c" "holds (reports me LIN_Slave) (lin_Wakeup now) c"
  unfolding lin_UpdateTxBuffer_def SetFrameResponse_def SendDynamicResponse_def GoToSleepInternal_def WakeupInternal_def lin_Wakeup_def
    trivial_Wakeup_def detailed_Wakeup_def act_all.simps
  by (intro lin_reports; simp)+

text \<open>The inputs of a slave: it is initialized as a slave, answers dynamically only after that, and gets messages from others.\<close>

fun slave_input :: "lin_controller \<Rightarrow> lin_input \<Rightarrow> bool" where
  "slave_input c (LI_Init config) = (lcfg_controllerMode config = LIN_Slave)"
| "slave_input c (LI_InitDynamic mode baudRate) = (mode = LIN_Slave)"
| "slave_input c (LI_SendDynamicResponse frame) = (lin_controllerMode c = LIN_Slave)"
| "slave_input c (LI_Receive sender msg) = (to_endpointAddress sender \<noteq> this_address c)"
| "slave_input c _ = True"

definition any_slave :: "EndpointAddress \<Rightarrow> lin_controller \<Rightarrow> bool" where
  "any_slave me c \<longleftrightarrow> slave_ok me LIN_Inactive c \<or> slave_ok me LIN_Slave c"

definition told :: "EndpointAddress \<Rightarrow> lin_controller \<Rightarrow> lin_event list \<Rightarrow> lin_controller \<Rightarrow> bool" where
  "told me c evs c' \<longleftrightarrow> any_slave me c' \<and> summary c' = fold view_effect (broadcasts evs) (summary c)"

lemma told_by_reports:
  assumes "slave_ok me mode c" "holds (reports me mode) a c" "a c = (c', evs, err)"
  shows "told me c evs c'"
  using holdsD [OF assms(2,3)] assms(1) unfolding reports_def told_def any_slave_def slave_ok_def by auto

lemma Init_told:
  assumes "any_slave me c" "lcfg_controllerMode config = LIN_Slave" "lin_Init config c = (c', evs, err)"
  shows "told me c evs c'"
proof (cases "lin_controllerStatus c = LIN_Unknown")
  case True
  then have ok: "lin_ok c" "this_address c = me" "slave_ok me LIN_Inactive c" using assms(1) by (auto simp: any_slave_def slave_ok_def)
  let ?f = "\<lambda>n. UpdateResponses (lcfg_frameResponses config) (n\<lparr>ln_controllerMode := LIN_Slave, ln_controllerStatus := LIN_Operational\<rparr>)"
  obtain N where N: "update_this_node ?f c = (c\<lparr>lin_linNodes := N\<rparr>, [], None)" "nodes_ok N" "node_view me N = ?f (own_node c)"
    using own_update [OF ok(1) node_update_init] ok(2) by metis
  have out: "c' = c\<lparr>lin_linNodes := N, lin_controllerMode := LIN_Slave, lin_controllerStatus := LIN_Operational\<rparr>"
      "broadcasts evs = [LM_ControllerConfig (to_wire config)]"
    using assms(2,3) N(1) True
    by (auto simp: lin_Init_def check_initialization_def act_seq_def SendMsg_ControllerConfig_def by_behavior_def send_if_slave_def
        split: lin_behavior.splits)
  have "own_node c' = ?f (own_node c)" "this_address c' = me" "lin_ok c'"
    using N(2,3) out(1) ok(2) by (simp_all add: own_node_def this_address_def lin_ok_def)
  with out ok(3) assms(2) show ?thesis
    by (simp add: told_def any_slave_def slave_ok_def summary_def map_UpdateResponses to_wire_def)
next
  case False
  then have "c' = c" "evs = []" using assms(2,3) by (simp_all add: lin_Init_def check_initialization_def)
  with assms(1) show ?thesis by (simp add: told_def)
qed

lemma InitDynamic_told:
  assumes "any_slave me c" "lin_InitDynamic LIN_Slave baudRate c = (c', evs, err)"
  shows "told me c evs c'"
proof (cases "lin_controllerStatus c = LIN_Unknown")
  case True
  then have ok: "lin_ok c" "this_address c = me" using assms(1) by (auto simp: any_slave_def slave_ok_def)
  let ?f = "\<lambda>n. n\<lparr>ln_controllerMode := LIN_Slave, ln_controllerStatus := LIN_Operational, ln_simulationMode := LIN_Dynamic\<rparr>"
  obtain N where N: "update_this_node ?f c = (c\<lparr>lin_linNodes := N\<rparr>, [], None)" "nodes_ok N" "node_view me N = ?f (own_node c)"
    using own_update [OF ok(1) node_update_mode(2)] ok(2) by metis
  have out: "c' = c\<lparr>lin_linNodes := N, lin_controllerMode := LIN_Slave, lin_controllerStatus := LIN_Operational, lin_useDynamicResponse := True\<rparr>"
      "broadcasts evs = [LM_ControllerConfig (to_wire_dynamic LIN_Slave baudRate)]"
    using assms(2) N(1) True
    by (auto simp: lin_InitDynamic_def check_initialization_def act_seq_def SendMsg_ControllerConfig_def by_behavior_def send_if_slave_def
        split: lin_behavior.splits)
  have "own_node c' = ?f (own_node c)" "this_address c' = me" "lin_ok c'"
    using N(2,3) out(1) ok(2) by (simp_all add: own_node_def this_address_def lin_ok_def)
  with out show ?thesis
    by (simp add: told_def any_slave_def slave_ok_def summary_def to_wire_dynamic_def set_modes_def)
next
  case False
  then have "c' = c" "evs = []" using assms(2) by (simp_all add: lin_InitDynamic_def check_initialization_def)
  with assms(1) show ?thesis by (simp add: told_def)
qed

lemma refused_told: "any_slave me c \<Longrightarrow> a c = (c, [], err) \<Longrightarrow> a c = (c', evs, err') \<Longrightarrow> told me c evs c'"
  by (simp add: told_def)

lemma slave_refuses:
  assumes "any_slave me c"
  shows "\<exists>e. lin_SendFrame now frame ty c = (c, [], e)" "\<exists>e. SendFrameHeader now linId c = (c, [], e)" "\<exists>e. lin_GoToSleep now c = (c, [], e)"
    "lin_ReplayMessage now isReceive frame c = (c, [], None)"
  using assms
  by (auto simp: any_slave_def slave_ok_def lin_SendFrame_def SendFrameHeader_def lin_GoToSleep_def lin_ReplayMessage_def
      ThrowIfUninitialized_def ThrowIfNotMaster_def act_when_def)

lemma inactive_refuses:
  assumes "slave_ok me LIN_Inactive c"
  shows "\<exists>e. lin_UpdateTxBuffer frame c = (c, [], e)" "\<exists>e. SetFrameResponse r c = (c, [], e)" "\<exists>e. GoToSleepInternal now c = (c, [], e)"
    "\<exists>e. WakeupInternal now c = (c, [], e)" "\<exists>e. lin_Wakeup now c = (c, [], e)"
  using assms
  by (auto simp: slave_ok_def lin_UpdateTxBuffer_def SetFrameResponse_def GoToSleepInternal_def WakeupInternal_def lin_Wakeup_def
      ThrowIfUninitialized_def act_when_def)

lemma api_told:
  assumes "any_slave me c" "slave_ok me LIN_Slave c \<Longrightarrow> holds (reports me LIN_Slave) a c"
    "slave_ok me LIN_Inactive c \<Longrightarrow> \<exists>e. a c = (c, [], e)" "a c = (c', evs, err)"
  shows "told me c evs c'"
proof (cases "slave_ok me LIN_Slave c")
  case True
  then show ?thesis using told_by_reports assms(2,4) by blast
next
  case False
  then obtain e where "a c = (c, [], e)" using assms(1,3) by (auto simp: any_slave_def)
  then show ?thesis using refused_told assms(1,4) by metis
qed

lemma both_told:
  assumes "any_slave me c" "\<And>mode. holds (reports me mode) a c" "a c = (c', evs, err)"
  shows "told me c evs c'"
  using assms told_by_reports unfolding any_slave_def by metis

lemma slave_step_told:
  assumes "any_slave me c" "slave_input c i" "lin_step now i c = (c', evs, err)"
  shows "told me c evs c'"
proof -
  have me: "this_address c = me" using assms(1) by (auto simp: any_slave_def slave_ok_def)
  show ?thesis
  proof (cases i)
    case (LI_Init config)
    then show ?thesis using Init_told assms by simp
  next
    case (LI_InitDynamic mode baudRate)
    then show ?thesis using InitDynamic_told assms by simp
  next
    case (LI_SendFrame frame ty)
    then show ?thesis using refused_told slave_refuses(1) assms by (metis lin_step.simps(3))
  next
    case (LI_SendFrameHeader linId)
    then show ?thesis using refused_told slave_refuses(2) assms by (metis lin_step.simps(4))
  next
    case (LI_SendDynamicResponse frame)
    with assms(1,2) have "slave_ok me LIN_Slave c" by (auto simp: any_slave_def slave_ok_def)
    from told_by_reports [OF this reports_api(3)] LI_SendDynamicResponse assms(3) show ?thesis by simp
  next
    case (LI_UpdateTxBuffer frame)
    then show ?thesis using api_told [OF assms(1) reports_api(1) inactive_refuses(1)] assms(3) by simp
  next
    case (LI_SetFrameResponse r)
    then show ?thesis using api_told [OF assms(1) reports_api(2) inactive_refuses(2)] assms(3) by simp
  next
    case LI_GoToSleep
    then show ?thesis using refused_told slave_refuses(3) assms by (metis lin_step.simps(8))
  next
    case LI_GoToSleepInternal
    then show ?thesis using api_told [OF assms(1) reports_api(4) inactive_refuses(3)] assms(3) by simp
  next
    case LI_Wakeup
    then show ?thesis using api_told [OF assms(1) reports_api(6) inactive_refuses(5)] assms(3) by simp
  next
    case LI_WakeupInternal
    then show ?thesis using api_told [OF assms(1) reports_api(5) inactive_refuses(4)] assms(3) by simp
  next
    case (LI_Receive sender msg)
    then show ?thesis using both_told [OF assms(1) reports_receive] assms(2,3) me by simp
  next
    case (LI_Replay isReceive frame)
    then show ?thesis using refused_told [where a = "lin_ReplayMessage now isReceive frame"] slave_refuses(4) assms by simp
  qed (use both_told [OF assms(1) reports_other(1)] both_told [OF assms(1) reports_other(2)] both_told [OF assms(1) reports_other(3)] assms(3) in simp_all)
qed

section \<open>The master learns what slaves tell\<close>

lemma peer_view_new: "peer_view (LinNode_new a) = \<lparr>lv_mode = LIN_Inactive, lv_status = LIN_Unknown, lv_simulationMode = LIN_Default,
    lv_responseModes = replicate 64 LIN_Unused\<rparr>"
  by (simp add: peer_view_def LinNode_new_def LinFrameResponse_new_def)

lemma touches_view:
  "holds (touches {}) a c \<Longrightarrow> a c = (c', evs, err) \<Longrightarrow> lin_ok c \<Longrightarrow> b \<noteq> this_address c \<Longrightarrow> view c' b = view c b"
  using holdsD [of "touches {}" a c c' evs err] by (simp add: touches_def)

lemma HandleResponsesUpdate_view:
  assumes "lin_ok c" "to_endpointAddress sender \<noteq> this_address c" "HandleResponsesUpdate now sender rs c = (c', evs, err)"
  shows "view c' (to_endpointAddress sender) = UpdateResponses rs (view c (to_endpointAddress sender))"
proof -
  let ?a = "to_endpointAddress sender"
  obtain N where N: "update_node ?a (UpdateResponses rs) c = (c\<lparr>lin_linNodes := N\<rparr>, [], None)" "nodes_ok N"
      "\<And>b. node_view b N = (if b = ?a then UpdateResponses rs (view c ?a) else view c b)"
    using update_node_view [OF assms(1) node_update_responses(1)] by metis
  let ?rest = "act_seq (act_emit (invalid_ids rs))
     (act_seq (with_node ?a (\<lambda>n. act_when (ln_controllerMode n = LIN_Slave) (act_modify (\<lambda>c.
        c\<lparr>lin_linIdsRespondedBySlaves := UpdateLinIdsRespondedBySlaves rs (lin_linIdsRespondedBySlaves c)\<rparr>))))
      (act_read (\<lambda>c. if h_entries (lin_slaveConfigurationHandlers c) = []
        then act_modify (\<lambda>c. c\<lparr>lin_triggerLinSlaveConfigurationHandlers := True, lin_receptionTimeLinSlaveConfiguration := now\<rparr>)
        else act_emit (h_InvokeAll (\<lambda>h. LN_SlaveConfiguration h now) (lin_slaveConfigurationHandlers c)))))"
  obtain evs2 where r: "?rest (c\<lparr>lin_linNodes := N\<rparr>) = (c', evs2, err)"
    using assms(3) N(1) by (auto simp: HandleResponsesUpdate_def act_seq_step [where a = "update_node ?a (UpdateResponses rs)"] simp del: act_seq_simps split: prod.splits)
  have "holds (touches {}) ?rest (c\<lparr>lin_linNodes := N\<rparr>)"
    by (intro lin_touches touches_with_node touches_modify; simp)
  from touches_view [OF this r] N(2,3) assms(2) show ?thesis by (simp add: lin_ok_def this_address_def)
qed

lemma not_own_message: "to_endpointAddress sender \<noteq> this_address c \<Longrightarrow> \<not> sd_equal sender (lin_serviceDescriptor c)"
  by (auto simp: sd_equal_def this_address_def to_endpointAddress_def)

lemma receive_view:
  assumes "lin_ok c" "to_endpointAddress sender \<noteq> this_address c" "id_ok (LI_Receive sender msg)" "lin_ReceiveMsg now sender msg c = (c', evs, err)"
  shows "peer_view (view c' (to_endpointAddress sender)) = view_effect msg (peer_view (view c (to_endpointAddress sender)))"
proof -
  let ?a = "to_endpointAddress sender"
  have quiet: "view c' ?a = view c ?a" if "holds (touches {}) (lin_ReceiveMsg now sender msg) c"
    using touches_view [OF that assms(4,1,2)] .
  show ?thesis
  proof (cases msg)
    case (LM_SendFrameRequest m)
    then show ?thesis using quiet by (simp add: tch.along_skip)
  next
    case (LM_SendFrameHeaderRequest m)
    then have "unat (lsfhr_id m) < 64" using assms(3) by (simp add: id_ok_def)
    then have "holds (touches {}) (lin_ReceiveMsg now sender msg) c"
      unfolding LM_SendFrameHeaderRequest lin_ReceiveMsg.simps Receive_SendFrameHeaderRequest_def by (intro lin_touches; simp)
    with quiet LM_SendFrameHeaderRequest show ?thesis by simp
  next
    case (LM_Transmission m)
    have "holds (touches {}) (Receive_Transmission sender m) c" by (rule lin_touches)
    with quiet LM_Transmission show ?thesis by simp
  next
    case (LM_WakeupPulse m)
    have "holds (touches {}) (Receive_WakeupPulse sender m) c" unfolding Receive_WakeupPulse_def by (intro lin_touches)
    with quiet LM_WakeupPulse show ?thesis by simp
  next
    case (LM_ControllerConfig cfg)
    let ?f = "\<lambda>n. n\<lparr>ln_controllerMode := wlcc_controllerMode cfg, ln_controllerStatus := LIN_Operational, ln_simulationMode := wlcc_simulationMode cfg\<rparr>"
    obtain N where N: "update_node ?a ?f c = (c\<lparr>lin_linNodes := N\<rparr>, [], None)" "nodes_ok N"
        "\<And>b. node_view b N = (if b = ?a then ?f (view c ?a) else view c b)"
      using update_node_view [OF assms(1) node_update_mode(2)] by metis
    let ?c = "c\<lparr>lin_linNodes := N\<rparr>"
    have "HandleResponsesUpdate now sender (wlcc_frameResponses cfg) ?c = (c', evs, err)"
      using assms(4) N(1) not_own_message [OF assms(2)] LM_ControllerConfig by (auto simp: Receive_ControllerConfig_def act_seq_def split: prod.splits)
    moreover have "lin_ok ?c" "?a \<noteq> this_address ?c" using N(2) assms(2) by (simp_all add: lin_ok_def this_address_def)
    ultimately have "view c' ?a = UpdateResponses (wlcc_frameResponses cfg) (?f (view c ?a))"
      using HandleResponsesUpdate_view N(3) by simp
    then show ?thesis using LM_ControllerConfig by (simp add: peer_view_def map_UpdateResponses)
  next
    case (LM_ControllerStatusUpdate u)
    obtain N where N: "update_node ?a (\<lambda>n. n\<lparr>ln_controllerStatus := lcsu_status u\<rparr>) c = (c\<lparr>lin_linNodes := N\<rparr>, [], None)"
        "\<And>b. node_view b N = (if b = ?a then (view c ?a)\<lparr>ln_controllerStatus := lcsu_status u\<rparr> else view c b)"
      using update_node_view [OF assms(1) node_update_mode(3)] by metis
    then show ?thesis using LM_ControllerStatusUpdate assms(4) by (auto simp: Receive_ControllerStatusUpdate_def peer_view_def)
  next
    case (LM_FrameResponseUpdate u)
    then have "HandleResponsesUpdate now sender (lfru_frameResponses u) c = (c', evs, err)"
      using assms(4) not_own_message [OF assms(2)] by (simp add: Receive_FrameResponseUpdate_def)
    with HandleResponsesUpdate_view [OF assms(1,2)] show ?thesis using LM_FrameResponseUpdate by (simp add: peer_view_def map_UpdateResponses)
  qed
qed

section \<open>The network\<close>

record lin_net =
  net_master :: lin_controller
  net_slave :: "nat \<Rightarrow> lin_controller"
  net_queue :: "nat \<Rightarrow> lin_message list"

text \<open>The master also gets the headers it sends itself.\<close>

fun master_input :: "ServiceDescriptor \<Rightarrow> lin_input \<Rightarrow> bool" where
  "master_input M (LI_Receive sender (LM_SendFrameHeaderRequest msg)) = (sender = M)"
| "master_input M (LI_Receive sender msg) = False"
| "master_input M _ = True"

inductive net_reachable :: "ServiceDescriptor \<Rightarrow> (nat \<Rightarrow> ServiceDescriptor) \<Rightarrow> nat \<Rightarrow> lin_net \<Rightarrow> bool" for M S n where
  net_start: "net_reachable M S n \<lparr>net_master = LinController_new M replayActive replaySend, net_slave = (\<lambda>k. LinController_new (S k) False False),
     net_queue = (\<lambda>_. [])\<rparr>"
| net_slave_step: "net_reachable M S n d \<Longrightarrow> k < n \<Longrightarrow> id_ok i \<Longrightarrow> slave_input (net_slave d k) i \<Longrightarrow> lin_step now i (net_slave d k) = (c', evs, err) \<Longrightarrow>
     net_reachable M S n (d\<lparr>net_slave := (net_slave d)(k := c'), net_queue := (net_queue d)(k := net_queue d k @ broadcasts evs)\<rparr>)"
| net_master_step: "net_reachable M S n d \<Longrightarrow> id_ok i \<Longrightarrow> master_input M i \<Longrightarrow> lin_step now i (net_master d) = (c', evs, err) \<Longrightarrow>
     net_reachable M S n (d\<lparr>net_master := c'\<rparr>)"
| net_deliver: "net_reachable M S n d \<Longrightarrow> k < n \<Longrightarrow> net_queue d k = msg # q \<Longrightarrow> id_ok (LI_Receive (S k) msg) \<Longrightarrow>
     lin_step now (LI_Receive (S k) msg) (net_master d) = (c', evs, err) \<Longrightarrow>
     net_reachable M S n (d\<lparr>net_master := c', net_queue := (net_queue d)(k := q)\<rparr>)"

definition distinct_addresses :: "ServiceDescriptor \<Rightarrow> (nat \<Rightarrow> ServiceDescriptor) \<Rightarrow> nat \<Rightarrow> bool" where
  "distinct_addresses M S n \<longleftrightarrow> inj_on (to_endpointAddress \<circ> S) {..<n} \<and> (\<forall>k < n. to_endpointAddress (S k) \<noteq> to_endpointAddress M)"

definition net_inv :: "ServiceDescriptor \<Rightarrow> (nat \<Rightarrow> ServiceDescriptor) \<Rightarrow> nat \<Rightarrow> lin_net \<Rightarrow> bool" where
  "net_inv M S n d \<longleftrightarrow> lin_ok (net_master d) \<and> this_address (net_master d) = to_endpointAddress M
     \<and> (\<forall>k < n. any_slave (to_endpointAddress (S k)) (net_slave d k)
          \<and> summary (net_slave d k) = fold view_effect (net_queue d k) (peer_view (view (net_master d) (to_endpointAddress (S k)))))
     \<and> (\<forall>a. a \<noteq> to_endpointAddress M \<longrightarrow> a \<notin> (to_endpointAddress \<circ> S) ` {..<n} \<longrightarrow> view (net_master d) a = LinNode_new a)"

lemma step_keeps_views:
  assumes "lin_ok c" "id_ok i" "lin_step now i c = (c', evs, err)"
  shows "lin_ok c'" "this_address c' = this_address c" "b \<notin> touched i \<Longrightarrow> b \<noteq> this_address c \<Longrightarrow> view c' b = view c b"
  using holdsD [OF lin_step_touches [OF assms(2)] assms(3)] assms(1) by (simp_all add: touches_def this_address_def)

lemma master_touched: "master_input M i \<Longrightarrow> touched i \<subseteq> {to_endpointAddress M}"
  by (cases "(M, i)" rule: master_input.cases) auto

lemma summary_new: "summary (LinController_new sd rA rS) = peer_view (LinNode_new a)"
  by (simp add: summary_def LinController_new_def own_node_def peer_view_def LinNode_new_def LinFrameResponse_new_def this_address_def)

lemma any_slave_new: "any_slave (to_endpointAddress sd) (LinController_new sd rA rS)"
  using lin_ok_new [of sd rA rS]
  by (simp add: any_slave_def slave_ok_def LinController_new_def own_node_def this_address_def LinNode_new_def)

lemma net_reachable_inv: "net_reachable M S n d \<Longrightarrow> distinct_addresses M S n \<Longrightarrow> net_inv M S n d"
proof (induction rule: net_reachable.induct)
  case (net_start replayActive replaySend)
  show ?case
    using lin_ok_new summary_new any_slave_new by (auto simp: net_inv_def this_address_def LinController_new_def)
next
  case (net_slave_step d k i now c' evs err)
  then have inv: "net_inv M S n d" by simp
  have "told (to_endpointAddress (S k)) (net_slave d k) evs c'"
    using slave_step_told net_slave_step.hyps(2,4,5) inv by (simp add: net_inv_def)
  with inv show ?case by (auto simp: net_inv_def told_def)
next
  case (net_master_step d i now c' evs err)
  then have inv: "net_inv M S n d" by simp
  then have ok: "lin_ok (net_master d)" "this_address (net_master d) = to_endpointAddress M" by (simp_all add: net_inv_def)
  have "view c' b = view (net_master d) b" if "b \<noteq> to_endpointAddress M" for b
    using step_keeps_views(3) [OF ok(1) net_master_step.hyps(2,4), of b] master_touched [OF net_master_step.hyps(3)] that ok(2) by auto
  with inv step_keeps_views(1,2) [OF ok(1) net_master_step.hyps(2,4)] net_master_step.prems show ?case
    by (auto simp: net_inv_def distinct_addresses_def)
next
  case (net_deliver d k msg q now c' evs err)
  then have inv: "net_inv M S n d" by simp
  then have ok: "lin_ok (net_master d)" "this_address (net_master d) = to_endpointAddress M" by (simp_all add: net_inv_def)
  let ?a = "to_endpointAddress (S k)"
  have a: "?a \<noteq> to_endpointAddress M" using net_deliver.prems net_deliver.hyps(2) by (simp add: distinct_addresses_def)
  have other: "view c' b = view (net_master d) b" if "b \<noteq> to_endpointAddress M" "b \<noteq> ?a" for b
    using step_keeps_views(3) [OF ok(1) net_deliver.hyps(4,5), of b] that ok(2) by simp
  have upd: "peer_view (view c' ?a) = view_effect msg (peer_view (view (net_master d) ?a))"
    using receive_view [OF ok(1) _ net_deliver.hyps(4)] net_deliver.hyps(5) a ok(2) by simp
  have ne: "to_endpointAddress (S j) \<noteq> ?a" "to_endpointAddress (S j) \<noteq> to_endpointAddress M" if "j \<noteq> k" "j < n" for j
    using net_deliver.prems net_deliver.hyps(2) that by (auto simp: distinct_addresses_def inj_on_def)
  have "summary (net_slave d j) = fold view_effect (((net_queue d)(k := q)) j) (peer_view (view c' (to_endpointAddress (S j))))" if "j < n" for j
    using that inv net_deliver.hyps(3) upd other ne [of j] by (cases "j = k") (simp_all add: net_inv_def)
  moreover have "view c' b = LinNode_new b" if "b \<noteq> to_endpointAddress M" "b \<notin> (to_endpointAddress \<circ> S) ` {..<n}" for b
  proof -
    have "b \<noteq> ?a" using that(2) net_deliver.hyps(2) by auto
    then show ?thesis using that inv other [of b] by (simp add: net_inv_def)
  qed
  ultimately show ?case
    using inv step_keeps_views(1,2) [OF ok(1) net_deliver.hyps(4,5)] by (simp add: net_inv_def)
qed

section \<open>Who responds\<close>

definition view_responds :: "8 word \<Rightarrow> lin_view \<Rightarrow> bool" where
  "view_responds linId v \<longleftrightarrow> lv_mode v \<noteq> LIN_Inactive \<and> lv_status v = LIN_Operational \<and> lv_responseModes v ! unat linId = LIN_TxUnconditional"

definition responds :: "8 word \<Rightarrow> lin_node \<Rightarrow> bool" where
  "responds linId n \<longleftrightarrow> view_responds linId (peer_view n)"

lemma responds_iff:
  "node_ok n \<Longrightarrow> unat linId < 64 \<Longrightarrow> responds linId n \<longleftrightarrow> ln_controllerMode n \<noteq> LIN_Inactive \<and> ln_controllerStatus n = LIN_Operational
     \<and> lfr_responseMode (ln_responses n ! unat linId) = LIN_TxUnconditional"
  by (simp add: responds_def view_responds_def peer_view_def node_ok_def)

lemma get_response_count:
  "\<forall>n \<in> set ns. node_ok n \<Longrightarrow> unat linId < 64 \<Longrightarrow>
     \<exists>f. get_response linId ns (k, frame) = Inr (k + length (filter (responds linId) ns), f) \<and> (filter (responds linId) ns = [] \<longrightarrow> f = frame)"
proof (induction ns arbitrary: k frame)
  case (Cons n ns)
  then have n: "node_ok n" "length (ln_responses n) = 64" by (simp_all add: node_ok_def)
  obtain f where "get_response linId ns (k, frame) = Inr (k + length (filter (responds linId) ns), f)"
      "filter (responds linId) ns = [] \<longrightarrow> f = frame"
    using Cons.IH [of k frame] Cons.prems by (metis list.set_intros(2))
  moreover obtain f' where "get_response linId ns (k + 1, lfr_frame (ln_responses n ! unat linId)) = Inr (k + 1 + length (filter (responds linId) ns), f')"
    using Cons.IH [of "k + 1"] Cons.prems by auto
  ultimately show ?case using n Cons.prems(2) by (auto simp: responds_iff Let_def)
qed simp

lemma count_addresses:
  assumes "\<And>a. \<not> P (LinNode_new a)"
  shows "nodes_ok ns \<Longrightarrow> finite {a. P (node_view a ns)} \<and> length (filter P ns) = card {a. P (node_view a ns)}"
proof (induction ns)
  case Nil
  then show ?case using assms by simp
next
  case (Cons n ns)
  then have IH: "finite {a. P (node_view a ns)}" "length (filter P ns) = card {a. P (node_view a ns)}" by (simp_all add: nodes_ok_Cons)
  have "\<forall>m \<in> set ns. ln_address m \<noteq> ln_address n" using Cons.prems by (auto simp: nodes_ok_Cons)
  then have new: "\<not> P (node_view (ln_address n) ns)" using node_view_absent assms by metis
  then have "{a. P (node_view a (n # ns))} = (if P n then insert (ln_address n) {a. P (node_view a ns)} else {a. P (node_view a ns)})"
    by (auto simp: node_view_Cons)
  with IH new show ?case by simp
qed

lemma new_responds_not: "unat linId < 64 \<Longrightarrow> \<not> responds linId (LinNode_new a)"
  by (simp add: responds_def view_responds_def peer_view_new)

text \<open>The slaves that respond to a header, and their number with the master.\<close>

definition responders :: "nat \<Rightarrow> 8 word \<Rightarrow> lin_net \<Rightarrow> nat set" where
  "responders n linId d = {k. k < n \<and> view_responds linId (summary (net_slave d k))}"

definition response_count :: "nat \<Rightarrow> 8 word \<Rightarrow> lin_net \<Rightarrow> nat" where
  "response_count n linId d = card (responders n linId d) + (if responds linId (own_node (net_master d)) then 1 else 0)"

lemma GetResponse_count:
  assumes "net_inv M S n d" "distinct_addresses M S n" "\<And>k. k < n \<Longrightarrow> net_queue d k = []" "unat linId < 64"
  obtains f where "GetResponse linId (net_master d) = Inr (response_count n linId d, f)"
    "response_count n linId d = 0 \<Longrightarrow> f = LinFrame_new\<lparr>lf_id := linId\<rparr>"
proof -
  let ?m = "net_master d"
  let ?A = "{a. responds linId (view ?m a)}"
  have ok: "nodes_ok (lin_linNodes ?m)" "\<forall>n \<in> set (lin_linNodes ?m). node_ok n" "this_address ?m = to_endpointAddress M"
    using assms(1) by (simp_all add: net_inv_def lin_ok_def nodes_ok_def)
  have s: "responds linId (view ?m (to_endpointAddress (S k))) \<longleftrightarrow> k \<in> responders n linId d" if "k < n" for k
    using that assms(1,3) by (simp add: net_inv_def responders_def responds_def)
  have rest: "\<not> responds linId (view ?m a)" if "a \<noteq> to_endpointAddress M" "a \<notin> (to_endpointAddress \<circ> S) ` {..<n}" for a
    using assms(1,4) that new_responds_not by (simp add: net_inv_def)
  have A: "?A = (to_endpointAddress \<circ> S) ` responders n linId d \<union> (if responds linId (own_node ?m) then {to_endpointAddress M} else {})"
  proof (intro equalityI subsetI)
    fix a
    assume "a \<in> ?A"
    then consider "a = to_endpointAddress M" | k where "k < n" "a = to_endpointAddress (S k)" using rest by fastforce
    then show "a \<in> (to_endpointAddress \<circ> S) ` responders n linId d \<union> (if responds linId (own_node ?m) then {to_endpointAddress M} else {})"
      using \<open>a \<in> ?A\<close> s ok(3) by cases (auto simp: own_node_def)
  qed (use s ok(3) in \<open>auto simp: own_node_def responders_def split: if_splits\<close>)
  have fin: "finite ?A" "length (filter (responds linId) (lin_linNodes ?m)) = card ?A"
    using count_addresses [of "responds linId", OF new_responds_not [OF assms(4)] ok(1)] by simp_all
  have inj: "inj_on (to_endpointAddress \<circ> S) (responders n linId d)" "to_endpointAddress M \<notin> (to_endpointAddress \<circ> S) ` responders n linId d"
    using assms(2) by (auto simp: distinct_addresses_def responders_def intro: inj_on_subset)
  have "finite ((to_endpointAddress \<circ> S) ` responders n linId d)" using fin(1) A by (metis finite_Un)
  then have "card ?A = response_count n linId d"
    using A inj(2) card_image [OF inj(1)] by (simp add: response_count_def comp_def)
  with fin(2) have count: "length (filter (responds linId) (lin_linNodes ?m)) = response_count n linId d" by simp
  obtain f where "get_response linId (lin_linNodes ?m) (0, LinFrame_new\<lparr>lf_id := linId\<rparr>) = Inr (response_count n linId d, f)"
      "filter (responds linId) (lin_linNodes ?m) = [] \<longrightarrow> f = LinFrame_new\<lparr>lf_id := linId\<rparr>"
    using get_response_count [OF ok(2) assms(4), of 0 "LinFrame_new\<lparr>lf_id := linId\<rparr>"] count by auto
  moreover have "filter (responds linId) (lin_linNodes ?m) = []" if "response_count n linId d = 0" using count that by simp
  ultimately show thesis using that [of f] by (auto simp: GetResponse_def)
qed

section \<open>Properties\<close>

text \<open>
  C33: once the messages of a slave have arrived, what the master has on record of it, that is its mode, its status, its simulation mode
  and its response modes, is what the slave has; whatever the slaves and the master did before.
\<close>

theorem lin_master_knows_slaves:
  assumes "net_reachable M S n d" "distinct_addresses M S n" "k < n" "net_queue d k = []"
  shows "peer_view (view (net_master d) (to_endpointAddress (S k))) = summary (net_slave d k)"
  using net_reachable_inv [OF assms(1,2)] assms(3,4) by (simp add: net_inv_def)


lemma receive_transmission:
  assumes "lin_ok c" "lin_currentBehavior c = LB_Trivial" "lin_controllerMode c \<noteq> LIN_Inactive" "ln_simulationMode (own_node c) \<noteq> LIN_Dynamic"
    and "unat (lf_id frame) < 64" "lf_dataLength frame \<le> 8" "ln_responses (own_node c) ! unat (lf_id frame) = q" "lfr_responseMode q = LIN_Rx"
      "lf_dataLength (lfr_frame q) \<in> {LinDataLengthUnknown, lf_dataLength frame}"
      "lf_checksumModel (lfr_frame q) \<in> {LIN_ChecksumUnknown, lf_checksumModel frame}"
  shows "set (h_InvokeAll (\<lambda>h. LN_FrameStatus h t frame LIN_RX_OK) (lin_frameStatusHandlers c))
    \<subseteq> set (fst (snd (Receive_Transmission sender \<lparr>lt_timestamp = t, lt_frame = frame, lt_status = LIN_RX_OK\<rparr> c)))"
proof -
  have "length (ln_responses (own_node c)) = 64"
    using assms(1) node_view_ok by (simp add: own_node_def lin_ok_def node_ok_def)
  moreover have "\<not> 8 < lf_dataLength frame" using assms(6) by simp
  ultimately show ?thesis
    using assms(1-5,7-10)
    by (auto simp: Receive_Transmission_def lin_AllowReception_def Let_def CalcFrameStatus_def by_behavior_def trivial_CalcFrameStatus_def
        with_this_node_view with_response_def call_frame_status_def act_seq_def act_when_def)
qed

text \<open>
  C34: a frame across the bus. When a slave responds to a header, everybody who is set to receive the frame is told of it with the data of the
  slave, and the slave itself that it was transmitted.
\<close>

theorem lin_frame_transfer:
  assumes "lin_reachable s" "lin_currentBehavior s = LB_Trivial" "\<not> lin_useDynamicResponse s" "unat linId < 64"
    and "ln_responses (own_node s) ! unat linId = r" "lfr_responseMode r = LIN_TxUnconditional" "lf_dataLength (lfr_frame r) \<le> 8"
    and "lin_reachable c" "lin_currentBehavior c = LB_Trivial" "lin_controllerMode c \<noteq> LIN_Inactive"
      "ln_simulationMode (own_node c) \<noteq> LIN_Dynamic" "ln_responses (own_node c) ! unat linId = q" "lfr_responseMode q = LIN_Rx"
      "lf_dataLength (lfr_frame q) \<in> {LinDataLengthUnknown, lf_dataLength (lfr_frame r)}"
      "lf_checksumModel (lfr_frame q) \<in> {LIN_ChecksumUnknown, lf_checksumModel (lfr_frame r)}"
    and "lin_ReceiveMsg now from_master (LM_SendFrameHeaderRequest \<lparr>lsfhr_timestamp = t, lsfhr_id = linId\<rparr>) s = (s', evs, err)"
  shows "\<exists>msg. broadcasts evs = [LM_Transmission msg] \<and> lf_id (lt_frame msg) = linId \<and> lt_frame msg = lfr_frame r
    \<and> {e. \<exists>h \<in> set (h_entries (lin_frameStatusHandlers s)). e = LN_FrameStatus h now (lfr_frame r) LIN_TX_OK} \<subseteq> set evs
    \<and> {e. \<exists>h \<in> set (h_entries (lin_frameStatusHandlers c)). e = LN_FrameStatus h now (lfr_frame r) LIN_RX_OK}
        \<subseteq> set (fst (snd (lin_ReceiveMsg now2 from_slave (LM_Transmission msg) c)))"
proof -
  let ?msg = "\<lparr>lt_timestamp = now, lt_frame = lfr_frame r, lt_status = LIN_RX_OK\<rparr>"
  have ok: "lin_ok s" "lin_ok c" using assms(1,8) lin_reachable_ok by simp_all
  have len: "lf_dataLength (lfr_frame r) \<noteq> LinDataLengthUnknown" using assms(7) by auto
  have "node_ok (own_node s)" using ok(1) node_view_ok by (simp add: own_node_def lin_ok_def)
  then have linId: "lf_id (lfr_frame r) = linId" using filed_id [of "own_node s" linId] assms(4-6) by simp
  obtain c' where "ProcessFrameHeaderRequest now \<lparr>lsfhr_timestamp = t, lsfhr_id = linId\<rparr> s = (c',
      [LN_Send (LM_Transmission ?msg), LN_Trace (answer_dir s) now (lfr_frame r)]
      @ h_InvokeAll (\<lambda>h. LN_FrameStatus h now (lfr_frame r) LIN_TX_OK) (lin_frameStatusHandlers s), None)"
    using answer_header [OF ok(1) assms(2), of "\<lparr>lsfhr_timestamp = t, lsfhr_id = linId\<rparr>" r now] assms(4-6) len by auto
  then have evs: "evs = [LN_Send (LM_Transmission ?msg), LN_Trace (answer_dir s) now (lfr_frame r)]
      @ h_InvokeAll (\<lambda>h. LN_FrameStatus h now (lfr_frame r) LIN_TX_OK) (lin_frameStatusHandlers s)"
    using assms(2,3,16) by (simp add: Receive_SendFrameHeaderRequest_def lin_AllowReception_def)
  have "set (h_InvokeAll (\<lambda>h. LN_FrameStatus h now (lfr_frame r) LIN_RX_OK) (lin_frameStatusHandlers c))
      \<subseteq> set (fst (snd (Receive_Transmission from_slave ?msg c)))"
    by (rule receive_transmission [OF ok(2) assms(9-11)]) (use assms linId in simp_all)
  then show ?thesis
    using evs linId by (intro exI [of _ ?msg]) (auto simp: h_InvokeAll_def broadcasts_map)
qed

text \<open>A master and a slave that has been initialized with a response for the identifier 17, and whose message has arrived.\<close>

definition example_config :: "8 word \<Rightarrow> LinFrameResponse list \<Rightarrow> lin_config" where
  "example_config mode rs = \<lparr>lcfg_controllerMode = mode, lcfg_baudRate = 0, lcfg_frameResponses = rs\<rparr>"

definition example_lin_response :: LinFrameResponse where
  "example_lin_response = \<lparr>lfr_frame = example_frame 17, lfr_responseMode = LIN_TxUnconditional\<rparr>"

definition example_message :: lin_message where
  "example_message = LM_ControllerConfig (to_wire (example_config LIN_Slave [example_lin_response]))"

definition example_slave :: lin_controller where
  "example_slave = fst (lin_step 0 (LI_Init (example_config LIN_Slave [example_lin_response])) (LinController_new (example_sd 2) False False))"

definition example_master :: lin_controller where
  "example_master = fst (lin_step 0 (LI_Init (example_config LIN_Master [])) (LinController_new (example_sd 1) False False))"

definition example_informed :: lin_controller where
  "example_informed = fst (lin_step 0 (LI_Receive (example_sd 2) example_message) example_master)"

definition example_net :: lin_net where
  "example_net = \<lparr>net_master = example_informed,
     net_slave = (\<lambda>k. LinController_new (example_sd 2) False False)(0 := example_slave), net_queue = (\<lambda>_. [])(0 := [])\<rparr>"

lemma example_slave_step:
  "lin_step 0 (LI_Init (example_config LIN_Slave [example_lin_response])) (LinController_new (example_sd 2) False False) =
     (example_slave, [LN_Send example_message], None)"
  unfolding example_slave_def by code_simp

lemma example_master_step:
  "lin_step 0 (LI_Init (example_config LIN_Master [])) (LinController_new (example_sd 1) False False) = (example_master, [], None)"
  unfolding example_master_def by code_simp

lemma example_informed_step: "lin_step 0 (LI_Receive (example_sd 2) example_message) example_master = (example_informed, [], None)"
  unfolding example_informed_def example_master_def by code_simp

lemma example_net_reachable: "net_reachable (example_sd 1) (\<lambda>_. example_sd 2) 1 example_net"
proof -
  let ?new = "LinController_new (example_sd 2) False False"
  have 0: "net_reachable (example_sd 1) (\<lambda>_. example_sd 2) 1
      \<lparr>net_master = LinController_new (example_sd 1) False False, net_slave = (\<lambda>k. ?new), net_queue = (\<lambda>_. [])\<rparr>"
    by (rule net_start)
  have 1: "net_reachable (example_sd 1) (\<lambda>_. example_sd 2) 1 \<lparr>net_master = example_master, net_slave = (\<lambda>k. ?new), net_queue = (\<lambda>_. [])\<rparr>"
    using net_master_step [OF 0, of "LI_Init (example_config LIN_Master [])"] example_master_step by (simp add: id_ok_def)
  have 2: "net_reachable (example_sd 1) (\<lambda>_. example_sd 2) 1
      \<lparr>net_master = example_master, net_slave = (\<lambda>k. ?new)(0 := example_slave), net_queue = (\<lambda>_. [])(0 := [example_message])\<rparr>"
    using net_slave_step [OF 1, of 0 "LI_Init (example_config LIN_Slave [example_lin_response])"] example_slave_step
    by (simp add: id_ok_def example_config_def)
  show ?thesis
    using net_deliver [OF 2, of 0 example_message "[]"] example_informed_step
    by (simp add: id_ok_def example_net_def example_message_def)
qed

lemma example_addresses: "distinct_addresses (example_sd 1) (\<lambda>_. example_sd 2) 1"
  by (auto simp: distinct_addresses_def inj_on_def to_endpointAddress_def example_sd_def)

lemma example_net_quiet: "\<forall>k < 1. net_queue example_net k = []"
  by (simp add: example_net_def)

theorem lin_master_knows_slaves_witness:
  "lv_responseModes (peer_view (view (net_master example_net) (to_endpointAddress (example_sd 2)))) ! 17 = LIN_TxUnconditional"
proof -
  have "peer_view (view (net_master example_net) (to_endpointAddress (example_sd 2))) = summary (net_slave example_net 0)"
    using lin_master_knows_slaves [OF example_net_reachable example_addresses, of 0] example_net_quiet by simp
  moreover have "lv_responseModes (summary example_slave) ! 17 = LIN_TxUnconditional" unfolding example_slave_def by code_simp
  ultimately show ?thesis by (simp add: example_net_def)
qed

lemma example_master_state:
  "lin_controllerMode example_informed = LIN_Master" "lin_controllerStatus example_informed = LIN_Operational"
  "lin_currentBehavior example_informed = LB_Trivial" "responds 17 (own_node example_informed) = False"
  unfolding example_informed_def example_master_def by code_simp+

lemma example_count: "response_count 1 17 example_net = 1"
proof -
  have "view_responds 17 (summary example_slave)" unfolding example_slave_def by code_simp
  then have "responders 1 17 example_net = {0}" by (auto simp: responders_def example_net_def)
  then show ?thesis using example_master_state by (simp add: response_count_def example_net_def)
qed


definition example_receiver :: lin_controller where
  "example_receiver = fst (lin_step 0 (LI_Init (example_config LIN_Slave [example_lin_response\<lparr>lfr_responseMode := LIN_Rx\<rparr>]))
     (fst (lin_step 0 (LI_AddHandler LH_FrameStatus) (LinController_new (example_sd 3) False False))))"

lemma step_reachable: "lin_reachable c \<Longrightarrow> id_ok i \<Longrightarrow> lin_reachable (fst (lin_step now i c))"
  by (metis lin_next prod.collapse)

lemma example_reachable: "lin_reachable example_slave" "lin_reachable example_receiver"
  unfolding example_slave_def example_receiver_def by (intro step_reachable lin_start; simp add: id_ok_def)+

lemma example_slave_state:
  "lin_currentBehavior example_slave = LB_Trivial" "lin_useDynamicResponse example_slave = False"
  "ln_responses (own_node example_slave) ! 17 = example_lin_response"
  unfolding example_slave_def by code_simp+

lemma example_receiver_state:
  "lin_currentBehavior example_receiver = LB_Trivial" "lin_controllerMode example_receiver = LIN_Slave"
  "ln_simulationMode (own_node example_receiver) = LIN_Default" "h_entries (lin_frameStatusHandlers example_receiver) = [0]"
  "ln_responses (own_node example_receiver) ! 17 = example_lin_response\<lparr>lfr_responseMode := LIN_Rx\<rparr>"
  unfolding example_receiver_def by code_simp+

theorem lin_frame_transfer_witness:
  "\<exists>msg. broadcasts (fst (snd (lin_ReceiveMsg 4 (example_sd 1) (LM_SendFrameHeaderRequest \<lparr>lsfhr_timestamp = 3, lsfhr_id = 17\<rparr>) example_slave)))
      = [LM_Transmission msg]
    \<and> LN_FrameStatus 0 4 (example_frame 17) LIN_RX_OK \<in> set (fst (snd (lin_ReceiveMsg 5 (example_sd 2) (LM_Transmission msg) example_receiver)))"
proof -
  obtain s' evs err where r: "lin_ReceiveMsg 4 (example_sd 1) (LM_SendFrameHeaderRequest \<lparr>lsfhr_timestamp = 3, lsfhr_id = 17\<rparr>) example_slave = (s', evs, err)"
    by (metis surj_pair)
  have "\<exists>msg. broadcasts evs = [LM_Transmission msg] \<and> lf_id (lt_frame msg) = 17 \<and> lt_frame msg = lfr_frame example_lin_response
    \<and> {e. \<exists>h \<in> set (h_entries (lin_frameStatusHandlers example_slave)). e = LN_FrameStatus h 4 (lfr_frame example_lin_response) LIN_TX_OK} \<subseteq> set evs
    \<and> {e. \<exists>h \<in> set (h_entries (lin_frameStatusHandlers example_receiver)). e = LN_FrameStatus h 4 (lfr_frame example_lin_response) LIN_RX_OK}
        \<subseteq> set (fst (snd (lin_ReceiveMsg 5 (example_sd 2) (LM_Transmission msg) example_receiver)))"
    by (rule lin_frame_transfer [where q = "example_lin_response\<lparr>lfr_responseMode := LIN_Rx\<rparr>", OF example_reachable(1) _ _ _ _ _ _ example_reachable(2) _ _ _ _ _ _ _ r])
      (use example_slave_state example_receiver_state in \<open>simp_all add: example_lin_response_def example_frame_def\<close>)
  then show ?thesis using r example_receiver_state(4) by (auto simp: example_lin_response_def)
qed

end
