(* ===== verification/SimBehavior.thy ===== *)
theory SimBehavior
  imports Endpoint Handlers
begin

text \<open>
  What the CAN and the Ethernet controller share: the choice between the trivial behaviour, in which the controllers of a network
  exchange their messages directly, and the detailed one, in which a network simulator decides (\<^verbatim>\<open>services/can/SimBehavior.cpp\<close>,
  \<^verbatim>\<open>services/can/SimBehaviorDetailed.cpp\<close>; the files of the Ethernet service are the same), and the configuration of a replay.
\<close>

datatype behavior = BH_Trivial | BH_Detailed

record sim_behavior =
  sb_currentBehavior :: behavior
  sb_simulatedLink :: ServiceDescriptor

definition SimBehavior_new :: sim_behavior where
  "SimBehavior_new = \<lparr>sb_currentBehavior = BH_Trivial, sb_simulatedLink = ServiceDescriptor_new\<rparr>"

definition SetDetailedBehavior :: "ServiceDescriptor \<Rightarrow> sim_behavior \<Rightarrow> sim_behavior" where
  "SetDetailedBehavior simulatedLink b = b\<lparr>sb_simulatedLink := simulatedLink, sb_currentBehavior := BH_Detailed\<rparr>"

definition SetTrivialBehavior :: "sim_behavior \<Rightarrow> sim_behavior" where
  "SetTrivialBehavior b = b\<lparr>sb_currentBehavior := BH_Trivial\<rparr>"

definition IsTrivial :: "sim_behavior \<Rightarrow> bool" where
  "IsTrivial b \<longleftrightarrow> sb_currentBehavior b = BH_Trivial"

definition detailed_AllowReception :: "ServiceDescriptor \<Rightarrow> ServiceDescriptor \<Rightarrow> sim_behavior \<Rightarrow> bool" where
  "detailed_AllowReception own sender b \<longleftrightarrow>
     sd_participantName (sb_simulatedLink b) = sd_participantName sender \<and> sd_serviceId own = sd_serviceId sender"

definition AllowReception :: "ServiceDescriptor \<Rightarrow> ServiceDescriptor \<Rightarrow> sim_behavior \<Rightarrow> bool" where
  "AllowReception own sender b = (case sb_currentBehavior b of BH_Trivial \<Rightarrow> True | BH_Detailed \<Rightarrow> detailed_AllowReception own sender b)"

definition IsRelevantNetwork :: "ServiceDescriptor \<Rightarrow> ServiceDescriptor \<Rightarrow> bool" where
  "IsRelevantNetwork own remote \<longleftrightarrow> sd_serviceType remote = 1 \<and> sd_networkName remote = sd_networkName own"

definition OnServiceDiscovery :: "ServiceDescriptor \<Rightarrow> 32 word \<Rightarrow> ServiceDescriptor \<Rightarrow> sim_behavior \<Rightarrow> sim_behavior" where
  "OnServiceDiscovery own discoveryType remote b =
     (if IsTrivial b
      then if discoveryType = ServiceCreated \<and> IsRelevantNetwork own remote then SetDetailedBehavior remote b else b
      else if discoveryType = ServiceRemoved \<and> IsRelevantNetwork own remote then SetTrivialBehavior b else b)"

section \<open>Replay\<close>

datatype replay_direction = RD_Undefined | RD_Send | RD_Receive | RD_Both

record replay_config =
  rc_useTraceSource :: string
  rc_direction :: replay_direction

definition IsReplayEnabledFor :: "replay_config \<Rightarrow> replay_direction \<Rightarrow> bool" where
  "IsReplayEnabledFor cfg dir =
     (if rc_direction cfg = RD_Undefined then False else rc_direction cfg = dir \<or> rc_direction cfg = RD_Both)"

definition IsValidReplayConfig :: "replay_config \<Rightarrow> bool" where
  "IsValidReplayConfig config \<longleftrightarrow> rc_direction config \<noteq> RD_Undefined \<and> rc_useTraceSource config \<noteq> []"

definition no_replay :: replay_config where
  "no_replay = \<lparr>rc_useTraceSource = '''', rc_direction = RD_Undefined\<rparr>"

abbreviation (input) DIR_Undefined :: "8 word" where "DIR_Undefined \<equiv> 0"
abbreviation (input) DIR_TX :: "8 word" where "DIR_TX \<equiv> 1"
abbreviation (input) DIR_RX :: "8 word" where "DIR_RX \<equiv> 2"
abbreviation (input) DIR_TXRX :: "8 word" where "DIR_TXRX \<equiv> 3"

lemma AllowReception_trivial [simp]: "IsTrivial b \<Longrightarrow> AllowReception own sender b"
  by (simp add: AllowReception_def IsTrivial_def)

lemma AllowReception_detailed: "\<not> IsTrivial b \<Longrightarrow> AllowReception own sender b = detailed_AllowReception own sender b"
  by (cases "sb_currentBehavior b") (simp_all add: AllowReception_def IsTrivial_def)

lemma IsTrivial_simps [simp]: "IsTrivial SimBehavior_new" "IsTrivial (SetTrivialBehavior b)" "\<not> IsTrivial (SetDetailedBehavior sd b)"
  by (simp_all add: IsTrivial_def SimBehavior_new_def SetTrivialBehavior_def SetDetailedBehavior_def)

lemma discovery_stays_trivial [simp]: "IsTrivial b \<Longrightarrow> \<not> IsRelevantNetwork own remote \<Longrightarrow> IsTrivial (OnServiceDiscovery own ty remote b)"
  by (simp add: OnServiceDiscovery_def)

lemma IsReplayEnabledFor_no_replay [simp]: "\<not> IsReplayEnabledFor no_replay dir"
  by (simp add: IsReplayEnabledFor_def no_replay_def)

end
