(* ===== verification/CanController.thy ===== *)
theory CanController
  imports SimBehavior CanSerdes
begin

text \<open>
  The CAN controller, \<^verbatim>\<open>services/can/CanController.cpp\<close>, with its two behaviours \<^verbatim>\<open>SimBehaviorTrivial.cpp\<close> and
  \<^verbatim>\<open>SimBehaviorDetailed.cpp\<close>. The clock is an argument. Handlers of the user, messages to other participants, trace
  records and warnings are events; handlers do not call the controller before the operation that calls them has returned. A frame on
  the wire and a frame of the user interface have the same members, so that one record stands for both; a frame event is the
  message that carries it.
\<close>

abbreviation (input) CAN_Uninit :: "32 word" where "CAN_Uninit \<equiv> 0"
abbreviation (input) CAN_Stopped :: "32 word" where "CAN_Stopped \<equiv> 1"
abbreviation (input) CAN_Started :: "32 word" where "CAN_Started \<equiv> 2"
abbreviation (input) CAN_Sleep :: "32 word" where "CAN_Sleep \<equiv> 3"
abbreviation (input) CAN_NotAvailable :: "32 word" where "CAN_NotAvailable \<equiv> 0"
abbreviation (input) CAN_Transmitted :: "32 word" where "CAN_Transmitted \<equiv> 1"

section \<open>State\<close>

record can_controller =
  can_serviceDescriptor :: ServiceDescriptor
  can_simulationBehavior :: sim_behavior
  can_replay :: replay_config
  can_replayActive :: bool
  can_controllerState :: "32 word"
  can_errorState :: "32 word"
  can_baudRate :: CanConfigureBaudrate
  can_frameHandlers :: "8 word masked_handlers"
  can_stateChangeHandlers :: handlers
  can_errorStateChangeHandlers :: handlers
  can_frameTransmitHandlers :: "32 word masked_handlers"

definition CanController_new :: "ServiceDescriptor \<Rightarrow> replay_config \<Rightarrow> can_controller" where
  "CanController_new sd replay = \<lparr>can_serviceDescriptor = sd, can_simulationBehavior = SimBehavior_new, can_replay = replay,
     can_replayActive = IsValidReplayConfig replay, can_controllerState = CAN_Uninit, can_errorState = CAN_NotAvailable,
     can_baudRate = \<lparr>ccb_baudRate = 0, ccb_fdBaudRate = 0, ccb_xlBaudRate = 0\<rparr>, can_frameHandlers = masked_new,
     can_stateChangeHandlers = handlers_new, can_errorStateChangeHandlers = handlers_new, can_frameTransmitHandlers = masked_new\<rparr>"

datatype can_message =
    CM_FrameEvent WireCanFrameEvent
  | CM_FrameTransmitEvent CanFrameTransmitEvent
  | CM_ControllerStatus CanControllerStatus
  | CM_ConfigureBaudrate CanConfigureBaudrate
  | CM_SetControllerMode CanSetControllerMode

datatype can_event =
    CE_Send can_message
  | CE_SendTo string can_message
  | CE_Frame nat WireCanFrameEvent
  | CE_FrameTransmit nat CanFrameTransmitEvent
  | CE_StateChange nat int "32 word"
  | CE_ErrorStateChange nat int "32 word"
  | CE_Trace "8 word" int WireCanFrameEvent
  | CE_Warn string

type_synonym can_action = "(can_controller, can_event) action"

section \<open>Reception\<close>

definition can_AllowReception :: "ServiceDescriptor \<Rightarrow> can_controller \<Rightarrow> bool" where
  "can_AllowReception sender c = AllowReception (can_serviceDescriptor c) sender (can_simulationBehavior c)"

definition can_CallFrameHandlers :: "WireCanFrameEvent \<Rightarrow> can_action" where
  "can_CallFrameHandlers e = act_read (\<lambda>c. act_emit (mh_InvokeAll (\<lambda>h. CE_Frame h e) (wcfe_direction e) (can_frameHandlers c)))"

definition can_Receive_FrameEvent :: "ServiceDescriptor \<Rightarrow> WireCanFrameEvent \<Rightarrow> can_action" where
  "can_Receive_FrameEvent sender msg = act_read (\<lambda>c.
     if \<not> can_AllowReception sender c then act_skip
     else if IsReplayEnabledFor (can_replay c) RD_Receive then act_skip
     else let canFrameEvent = (if and (wcfe_direction msg) DIR_TX \<noteq> DIR_TX then msg\<lparr>wcfe_userContext := 0\<rparr> else msg)
       in act_seq (act_emit [CE_Trace (wcfe_direction msg) (wcfe_timestamp msg) canFrameEvent]) (can_CallFrameHandlers canFrameEvent))"

definition can_Receive_FrameTransmitEvent :: "ServiceDescriptor \<Rightarrow> CanFrameTransmitEvent \<Rightarrow> can_action" where
  "can_Receive_FrameTransmitEvent sender msg = act_read (\<lambda>c.
     if \<not> can_AllowReception sender c then act_skip
     else act_emit (mh_InvokeAll (\<lambda>h. CE_FrameTransmit h msg) (cfte_status msg) (can_frameTransmitHandlers c)))"

definition can_Receive_ControllerStatus :: "ServiceDescriptor \<Rightarrow> CanControllerStatus \<Rightarrow> can_action" where
  "can_Receive_ControllerStatus sender msg = act_read (\<lambda>c.
     if \<not> can_AllowReception sender c then act_skip
     else act_seq
       (act_when (can_controllerState c \<noteq> ccs_controllerState msg)
         (act_seq (act_modify (\<lambda>c. c\<lparr>can_controllerState := ccs_controllerState msg\<rparr>))
           (act_emit (h_InvokeAll (\<lambda>h. CE_StateChange h (ccs_timestamp msg) (ccs_controllerState msg)) (can_stateChangeHandlers c)))))
       (act_when (can_errorState c \<noteq> ccs_errorState msg)
         (act_seq (act_modify (\<lambda>c. c\<lparr>can_errorState := ccs_errorState msg\<rparr>))
           (act_emit (h_InvokeAll (\<lambda>h. CE_ErrorStateChange h (ccs_timestamp msg) (ccs_errorState msg)) (can_errorStateChangeHandlers c))))))"

text \<open>\<^verbatim>\<open>ReceiveMsg\<close> by the type of the message; a controller is no receiver of the messages to the simulator.\<close>

fun can_ReceiveMsg :: "ServiceDescriptor \<Rightarrow> can_message \<Rightarrow> can_action" where
  "can_ReceiveMsg sender (CM_FrameEvent msg) = can_Receive_FrameEvent sender msg"
| "can_ReceiveMsg sender (CM_FrameTransmitEvent msg) = can_Receive_FrameTransmitEvent sender msg"
| "can_ReceiveMsg sender (CM_ControllerStatus msg) = can_Receive_ControllerStatus sender msg"
| "can_ReceiveMsg sender (CM_ConfigureBaudrate msg) = act_skip"
| "can_ReceiveMsg sender (CM_SetControllerMode msg) = act_skip"

section \<open>Behaviours\<close>

definition can_trivial_ReceiveMsg :: "can_message \<Rightarrow> can_action" where
  "can_trivial_ReceiveMsg msg = act_read (\<lambda>c. can_ReceiveMsg (can_serviceDescriptor c) msg)"

definition can_trivial_SetControllerMode :: "int \<Rightarrow> CanSetControllerMode \<Rightarrow> can_action" where
  "can_trivial_SetControllerMode now mode = can_trivial_ReceiveMsg
     (CM_ControllerStatus \<lparr>ccs_timestamp = now, ccs_controllerState = cscm_mode mode, ccs_errorState = CAN_NotAvailable\<rparr>)"

definition can_trivial_FrameEvent :: "int \<Rightarrow> WireCanFrameEvent \<Rightarrow> can_action" where
  "can_trivial_FrameEvent now canFrameEvent = act_read (\<lambda>c.
     if can_controllerState c = CAN_Started
     then let cpy = canFrameEvent\<lparr>wcfe_timestamp := now\<rparr>
       in act_all
         [act_emit [CE_Send (CM_FrameEvent (cpy\<lparr>wcfe_direction := DIR_RX\<rparr>))],
          can_trivial_ReceiveMsg (CM_FrameEvent (cpy\<lparr>wcfe_direction := DIR_TX\<rparr>)),
          can_trivial_ReceiveMsg (CM_FrameTransmitEvent \<lparr>cfte_canId = wcf_canId (wcfe_frame canFrameEvent), cfte_timestamp = now,
            cfte_status = CAN_Transmitted, cfte_userContext = wcfe_userContext canFrameEvent\<rparr>)]
     else act_emit [CE_Warn ''ICanController::SendFrame is called although can controller is not in state CanController::Started.''])"

fun can_trivial_SendMsg :: "int \<Rightarrow> can_message \<Rightarrow> can_action" where
  "can_trivial_SendMsg now (CM_FrameEvent msg) = can_trivial_FrameEvent now msg"
| "can_trivial_SendMsg now (CM_SetControllerMode msg) = can_trivial_SetControllerMode now msg"
| "can_trivial_SendMsg now msg = act_skip"

definition can_SendMsgImpl :: "can_message \<Rightarrow> can_action" where
  "can_SendMsgImpl msg = act_read (\<lambda>c. act_emit [CE_SendTo (sd_participantName (sb_simulatedLink (can_simulationBehavior c))) msg])"

fun can_detailed_SendMsg :: "can_message \<Rightarrow> can_action" where
  "can_detailed_SendMsg (CM_FrameEvent msg) =
     act_seq (act_emit [CE_Trace (wcfe_direction msg) (wcfe_timestamp msg) msg]) (can_SendMsgImpl (CM_FrameEvent msg))"
| "can_detailed_SendMsg msg = can_SendMsgImpl msg"

definition can_SendMsg :: "int \<Rightarrow> can_message \<Rightarrow> can_action" where
  "can_SendMsg now msg = act_read (\<lambda>c. case sb_currentBehavior (can_simulationBehavior c) of
     BH_Trivial \<Rightarrow> can_trivial_SendMsg now msg | BH_Detailed \<Rightarrow> can_detailed_SendMsg msg)"

section \<open>Operations\<close>

text \<open>
  The bit field of \<^verbatim>\<open>CanSetControllerMode\<close>, its first member in the lowest bit; the six bits without a name, which the code
  leaves indeterminate, are zero.
\<close>

definition can_Flags :: "bool \<Rightarrow> bool \<Rightarrow> 8 word" where
  "can_Flags resetErrorHandling cancelTransmitRequests = of_bool resetErrorHandling + 2 * of_bool cancelTransmitRequests"

definition can_SetBaudRate :: "int \<Rightarrow> 32 word \<Rightarrow> 32 word \<Rightarrow> 32 word \<Rightarrow> can_action" where
  "can_SetBaudRate now rate fdRate xlRate =
     (let baudRate = \<lparr>ccb_baudRate = rate, ccb_fdBaudRate = fdRate, ccb_xlBaudRate = xlRate\<rparr>
      in act_seq (act_modify (\<lambda>c. c\<lparr>can_baudRate := baudRate\<rparr>)) (can_SendMsg now (CM_ConfigureBaudrate baudRate)))"

definition can_Reset :: "int \<Rightarrow> can_action" where
  "can_Reset now = can_SendMsg now (CM_SetControllerMode
     \<lparr>cscm_flags = can_Flags True True, cscm_mode = CAN_Uninit\<rparr>)"

definition can_ChangeControllerMode :: "int \<Rightarrow> 32 word \<Rightarrow> can_action" where
  "can_ChangeControllerMode now state = can_SendMsg now (CM_SetControllerMode
     \<lparr>cscm_flags = can_Flags False False, cscm_mode = state\<rparr>)"

definition can_Start :: "int \<Rightarrow> can_action" where
  "can_Start now = can_ChangeControllerMode now CAN_Started"

definition can_Stop :: "int \<Rightarrow> can_action" where
  "can_Stop now = can_ChangeControllerMode now CAN_Stopped"

definition can_Sleep :: "int \<Rightarrow> can_action" where
  "can_Sleep now = can_ChangeControllerMode now CAN_Sleep"

definition can_SendFrame :: "int \<Rightarrow> WireCanFrame \<Rightarrow> 64 word \<Rightarrow> can_action" where
  "can_SendFrame now frame userContext = act_read (\<lambda>c.
     if IsReplayEnabledFor (can_replay c) RD_Send then act_skip
     else can_SendMsg now (CM_FrameEvent
       \<lparr>wcfe_timestamp = 0, wcfe_frame = frame, wcfe_direction = DIR_Undefined, wcfe_userContext = userContext\<rparr>))"

section \<open>Network simulator and replay\<close>

definition can_RegisterServiceDiscovery :: "32 word \<Rightarrow> ServiceDescriptor \<Rightarrow> can_action" where
  "can_RegisterServiceDiscovery discoveryType remote = act_modify (\<lambda>c.
     c\<lparr>can_simulationBehavior := OnServiceDiscovery (can_serviceDescriptor c) discoveryType remote (can_simulationBehavior c)\<rparr>)"

definition can_ReplaySend :: "int \<Rightarrow> WireCanFrameEvent \<Rightarrow> can_action" where
  "can_ReplaySend now e = can_SendMsg now (CM_FrameEvent (e\<lparr>wcfe_userContext := 0\<rparr>))"

definition can_ReplayReceive :: "int \<Rightarrow> WireCanFrameEvent \<Rightarrow> can_action" where
  "can_ReplayReceive timestamp e =
     (let msg = \<lparr>wcfe_timestamp = timestamp, wcfe_frame = wcfe_frame e, wcfe_direction = DIR_RX, wcfe_userContext = 0\<rparr>
      in act_seq (act_emit [CE_Trace DIR_RX timestamp msg]) (can_CallFrameHandlers msg))"

text \<open>The message of the trace file: its direction, its time and the frame event.\<close>

definition can_ReplayMessage :: "int \<Rightarrow> 8 word \<Rightarrow> int \<Rightarrow> WireCanFrameEvent \<Rightarrow> can_action" where
  "can_ReplayMessage now direction timestamp e = act_read (\<lambda>c.
     if \<not> can_replayActive c then act_skip
     else if direction = DIR_TX then act_when (IsReplayEnabledFor (can_replay c) RD_Send) (can_ReplaySend now e)
     else if direction = DIR_RX then act_when (IsReplayEnabledFor (can_replay c) RD_Receive) (can_ReplayReceive timestamp e)
     else act_throw (SilKitError ''CanController: replay message has undefined Direction''))"

section \<open>Handlers\<close>

definition can_AddFrameHandler :: "8 word \<Rightarrow> can_action" where
  "can_AddFrameHandler directionMask = act_modify (\<lambda>c. c\<lparr>can_frameHandlers := snd (mh_Add directionMask (can_frameHandlers c))\<rparr>)"

definition can_AddFrameTransmitHandler :: "32 word \<Rightarrow> can_action" where
  "can_AddFrameTransmitHandler statusMask = act_modify (\<lambda>c.
     c\<lparr>can_frameTransmitHandlers := snd (mh_Add statusMask (can_frameTransmitHandlers c))\<rparr>)"

definition can_AddStateChangeHandler :: can_action where
  "can_AddStateChangeHandler = act_modify (\<lambda>c. c\<lparr>can_stateChangeHandlers := snd (h_Add (can_stateChangeHandlers c))\<rparr>)"

definition can_AddErrorStateChangeHandler :: can_action where
  "can_AddErrorStateChangeHandler = act_modify (\<lambda>c. c\<lparr>can_errorStateChangeHandlers := snd (h_Add (can_errorStateChangeHandlers c))\<rparr>)"

definition can_RemoveFrameHandler :: "nat \<Rightarrow> can_action" where
  "can_RemoveFrameHandler handlerId = act_read (\<lambda>c. case mh_Remove handlerId (can_frameHandlers c) of (removed, hs) \<Rightarrow>
     act_seq (act_modify (\<lambda>c. c\<lparr>can_frameHandlers := hs\<rparr>))
       (act_when (\<not> removed) (act_emit [CE_Warn ''RemoveFrameHandler failed: Unknown HandlerId.''])))"

definition can_RemoveFrameTransmitHandler :: "nat \<Rightarrow> can_action" where
  "can_RemoveFrameTransmitHandler handlerId = act_read (\<lambda>c. case mh_Remove handlerId (can_frameTransmitHandlers c) of (removed, hs) \<Rightarrow>
     act_seq (act_modify (\<lambda>c. c\<lparr>can_frameTransmitHandlers := hs\<rparr>))
       (act_when (\<not> removed) (act_emit [CE_Warn ''RemoveFrameTransmitHandler failed: Unknown HandlerId.''])))"

definition can_RemoveStateChangeHandler :: "nat \<Rightarrow> can_action" where
  "can_RemoveStateChangeHandler handlerId = act_read (\<lambda>c. case h_Remove handlerId (can_stateChangeHandlers c) of (removed, hs) \<Rightarrow>
     act_seq (act_modify (\<lambda>c. c\<lparr>can_stateChangeHandlers := hs\<rparr>))
       (act_when (\<not> removed) (act_emit [CE_Warn ''RemoveStateChangeHandler failed: Unknown HandlerId.''])))"

definition can_RemoveErrorStateChangeHandler :: "nat \<Rightarrow> can_action" where
  "can_RemoveErrorStateChangeHandler handlerId = act_read (\<lambda>c. case h_Remove handlerId (can_errorStateChangeHandlers c) of (removed, hs) \<Rightarrow>
     act_seq (act_modify (\<lambda>c. c\<lparr>can_errorStateChangeHandlers := hs\<rparr>))
       (act_when (\<not> removed) (act_emit [CE_Warn ''RemoveErrorStateChangeHandler failed: Unknown HandlerId.''])))"

end
