(* ===== verification/BusNetwork.thy ===== *)
theory BusNetwork
  imports Prelude
begin

text \<open>
  Controllers on a bus without a network simulator: what a controller broadcasts reaches every other controller of the network over a
  connection that keeps the order. The locale \<open>bus_node\<close> states what a kind of controller promises, one registered frame handler
  per controller, and shows that the handler of a receiver sees what the others transmit.
\<close>

record ('c, 'm, 'f) bus_net =
  bn_node :: "nat \<Rightarrow> 'c"
  bn_wire :: "nat \<Rightarrow> nat \<Rightarrow> 'm list"
  bn_sent :: "nat \<Rightarrow> 'f list"
  bn_heard :: "nat \<Rightarrow> nat \<Rightarrow> 'f list"

text \<open>\<open>bn_wire s r\<close> are the messages from \<open>s\<close> to \<open>r\<close> on the way, \<open>bn_heard r s\<close> the frames the handler of \<open>r\<close> got from \<open>s\<close>.\<close>

definition broadcast :: "nat \<Rightarrow> 'm list \<Rightarrow> (nat \<Rightarrow> nat \<Rightarrow> 'm list) \<Rightarrow> nat \<Rightarrow> nat \<Rightarrow> 'm list" where
  "broadcast i msgs wire = (\<lambda>s r. if s = i \<and> r \<noteq> i then wire s r @ msgs else wire s r)"

inductive bus_reachable ::
    "nat \<Rightarrow> (nat \<Rightarrow> 'a) \<Rightarrow> (nat \<Rightarrow> 'c \<Rightarrow> bool) \<Rightarrow> (nat \<Rightarrow> 'op \<Rightarrow> 'c \<Rightarrow> bool) \<Rightarrow> ('op \<Rightarrow> 'c \<Rightarrow> 'c \<times> 'e list \<times> error option) \<Rightarrow>
     ('a \<Rightarrow> 'm \<Rightarrow> 'c \<Rightarrow> 'c \<times> 'e list \<times> error option) \<Rightarrow> ('op \<Rightarrow> 'c \<Rightarrow> 'f list) \<Rightarrow> ('e \<Rightarrow> 'm option) \<Rightarrow> (nat \<Rightarrow> 'e \<Rightarrow> 'f option) \<Rightarrow>
     ('c, 'm, 'f) bus_net \<Rightarrow> bool"
  for n :: nat and addr and good and allowed and operate and receive and offered and sent and handled
where
  start: "\<forall>i < n. good i (c i) \<Longrightarrow> bus_reachable n addr good allowed operate receive offered sent handled
     \<lparr>bn_node = c, bn_wire = (\<lambda>_ _. []), bn_sent = (\<lambda>_. []), bn_heard = (\<lambda>_ _. [])\<rparr>"
| operation: "bus_reachable n addr good allowed operate receive offered sent handled N \<Longrightarrow> i < n \<Longrightarrow> allowed i op (bn_node N i) \<Longrightarrow>
     operate op (bn_node N i) = (c', evs, err) \<Longrightarrow>
     bus_reachable n addr good allowed operate receive offered sent handled
       \<lparr>bn_node = (bn_node N)(i := c'), bn_wire = broadcast i (List.map_filter sent evs) (bn_wire N),
        bn_sent = (bn_sent N)(i := bn_sent N i @ offered op (bn_node N i)),
        bn_heard = (\<lambda>r s. if r = i \<and> s = i then bn_heard N r s @ List.map_filter (handled i) evs else bn_heard N r s)\<rparr>"
| delivery: "bus_reachable n addr good allowed operate receive offered sent handled N \<Longrightarrow> i < n \<Longrightarrow> j < n \<Longrightarrow> i \<noteq> j \<Longrightarrow>
     bn_wire N i j = m # ms \<Longrightarrow> receive (addr i) m (bn_node N j) = (c', evs, err) \<Longrightarrow>
     bus_reachable n addr good allowed operate receive offered sent handled
       \<lparr>bn_node = (bn_node N)(j := c'),
        bn_wire = broadcast j (List.map_filter sent evs) (\<lambda>s r. if s = i \<and> r = j then ms else bn_wire N s r),
        bn_sent = bn_sent N,
        bn_heard = (\<lambda>r s. if r = j \<and> s = i then bn_heard N r s @ List.map_filter (handled j) evs else bn_heard N r s)\<rparr>"

locale bus_node =
  fixes good :: "nat \<Rightarrow> 'c \<Rightarrow> bool"
    and allowed :: "nat \<Rightarrow> 'op \<Rightarrow> 'c \<Rightarrow> bool"
    and operate :: "'op \<Rightarrow> 'c \<Rightarrow> 'c \<times> 'e list \<times> error option"
    and receive :: "'a \<Rightarrow> 'm \<Rightarrow> 'c \<Rightarrow> 'c \<times> 'e list \<times> error option"
    and offered :: "'op \<Rightarrow> 'c \<Rightarrow> 'f list"
    and sent :: "'e \<Rightarrow> 'm option"
    and handled :: "nat \<Rightarrow> 'e \<Rightarrow> 'f option"
    and contents :: "'m \<Rightarrow> 'f list"
  assumes operate_good: "good k c \<Longrightarrow> allowed k op c \<Longrightarrow> operate op c = (c', evs, err) \<Longrightarrow> good k c'"
    and operate_sends: "good k c \<Longrightarrow> allowed k op c \<Longrightarrow> operate op c = (c', evs, err) \<Longrightarrow>
          concat (map contents (List.map_filter sent evs)) = offered op c"
    and operate_handles: "good k c \<Longrightarrow> allowed k op c \<Longrightarrow> operate op c = (c', evs, err) \<Longrightarrow> List.map_filter (handled k) evs = []"
    and receive_good: "good k c \<Longrightarrow> receive a m c = (c', evs, err) \<Longrightarrow> good k c'"
    and receive_sends: "good k c \<Longrightarrow> receive a m c = (c', evs, err) \<Longrightarrow> List.map_filter sent evs = []"
    and receive_handles: "good k c \<Longrightarrow> receive a m c = (c', evs, err) \<Longrightarrow> List.map_filter (handled k) evs = contents m"
begin

abbreviation reachable :: "nat \<Rightarrow> (nat \<Rightarrow> 'a) \<Rightarrow> ('c, 'm, 'f) bus_net \<Rightarrow> bool" where
  "reachable n addr \<equiv> bus_reachable n addr good allowed operate receive offered sent handled"

lemma stays_good: "reachable n addr N \<Longrightarrow> \<forall>i < n. good i (bn_node N i)"
  by (induction rule: bus_reachable.induct) (auto intro: operate_good receive_good)

lemma delivers:
  "reachable n addr N \<Longrightarrow> (\<forall>i < n. bn_heard N i i = []) \<and>
     (\<forall>i < n. \<forall>j < n. i \<noteq> j \<longrightarrow> bn_heard N j i @ concat (map contents (bn_wire N i j)) = bn_sent N i)"
proof (induction rule: bus_reachable.induct)
  case (operation N i op c' evs err)
  have "good i (bn_node N i)" using stays_good [OF operation(1)] operation(2) by simp
  then have e: "concat (map contents (List.map_filter sent evs)) = offered op (bn_node N i)" "List.map_filter (handled i) evs = []"
    using operation(3,4) by (simp_all add: operate_sends operate_handles)
  show ?case using operation.IH operation(2) by (simp add: broadcast_def e flip: append_assoc)
next
  case (delivery N i j m ms c' evs err)
  have "good j (bn_node N j)" using stays_good [OF delivery(1)] delivery(3) by simp
  then have e: "List.map_filter sent evs = []" "List.map_filter (handled j) evs = contents m"
    using delivery(6) by (simp_all add: receive_sends receive_handles)
  have "bn_heard N j i @ contents m @ concat (map contents ms) = bn_sent N i"
    using delivery.IH delivery(2-5) by force
  with delivery.IH delivery(4) show ?case by (simp add: broadcast_def e)
qed simp

lemma heard_prefix: "reachable n addr N \<Longrightarrow> i < n \<Longrightarrow> j < n \<Longrightarrow> i \<noteq> j \<Longrightarrow>
    bn_heard N j i @ concat (map contents (bn_wire N i j)) = bn_sent N i"
  using delivers by blast

lemma heard_all: "reachable n addr N \<Longrightarrow> i < n \<Longrightarrow> j < n \<Longrightarrow> i \<noteq> j \<Longrightarrow> bn_wire N i j = [] \<Longrightarrow> bn_heard N j i = bn_sent N i"
  using heard_prefix by force

text \<open>The messages on the way to a controller can all be delivered.\<close>

lemma drains:
  "reachable n addr N \<Longrightarrow> i < n \<Longrightarrow> j < n \<Longrightarrow> i \<noteq> j \<Longrightarrow> \<exists>N'. reachable n addr N' \<and> bn_wire N' i j = [] \<and> bn_sent N' = bn_sent N"
proof (induction "bn_wire N i j" arbitrary: N)
  case Nil
  then show ?case by auto
next
  case (Cons m ms)
  obtain c' evs err where r: "receive (addr i) m (bn_node N j) = (c', evs, err)" by (metis prod_cases3)
  have "List.map_filter sent evs = []" using receive_sends [OF _ r] stays_good [OF Cons(3)] Cons(5) by blast
  with bus_reachable.delivery [OF Cons(3-6) Cons(2) [symmetric] r]
  obtain N' where "reachable n addr N'" "bn_wire N' i j = ms" "bn_sent N' = bn_sent N"
    by (simp add: broadcast_def)
  with Cons(1) [of N'] Cons(4-6) show ?case by metis
qed

lemma transfer_possible:
  assumes "good 0 c" "good 1 c" "allowed 0 op c"
  shows "\<exists>N. reachable 2 addr N \<and> bn_wire N 0 1 = [] \<and> bn_sent N 0 = offered op c"
proof -
  let ?N = "\<lparr>bn_node = \<lambda>_. c, bn_wire = (\<lambda>_ _. []), bn_sent = (\<lambda>_. []), bn_heard = (\<lambda>_ _. [])\<rparr>"
  have "reachable 2 addr ?N" using assms(1,2) by (intro bus_reachable.start) (auto simp: less_Suc_eq numeral_2_eq_2)
  moreover obtain c' evs err where "operate op c = (c', evs, err)" by (metis prod_cases3)
  ultimately obtain N where "reachable 2 addr N" "bn_sent N 0 = offered op c"
    using bus_reachable.operation [of 2 addr good allowed operate receive offered sent handled ?N 0 op] assms(3) by force
  then show ?thesis using drains [of 2 addr N 0 1] by force
qed

end

end
