(* ===== verification/CanNetwork.thy ===== *)
theory CanNetwork
  imports CanController BusNetwork
begin

text \<open>
  CAN controllers on a network without a simulator: the calls of the user and the messages of the other controllers in any order. What
  the frame handler of a controller gets from another one is what the other one transmits.
\<close>

datatype can_operation =
    CO_SetBaudRate int "32 word" "32 word" "32 word"
  | CO_Reset int
  | CO_Start int
  | CO_Stop int
  | CO_Sleep int
  | CO_SendFrame int WireCanFrame "64 word"
  | CO_Discovery "32 word" ServiceDescriptor
  | CO_Replay int "8 word" int WireCanFrameEvent
  | CO_AddFrameHandler "8 word"
  | CO_AddFrameTransmitHandler "32 word"
  | CO_AddStateChangeHandler
  | CO_AddErrorStateChangeHandler
  | CO_RemoveFrameHandler nat
  | CO_RemoveFrameTransmitHandler nat
  | CO_RemoveStateChangeHandler nat
  | CO_RemoveErrorStateChangeHandler nat

fun can_operate :: "can_operation \<Rightarrow> can_action" where
  "can_operate (CO_SetBaudRate now rate fdRate xlRate) = can_SetBaudRate now rate fdRate xlRate"
| "can_operate (CO_Reset now) = can_Reset now"
| "can_operate (CO_Start now) = can_Start now"
| "can_operate (CO_Stop now) = can_Stop now"
| "can_operate (CO_Sleep now) = can_Sleep now"
| "can_operate (CO_SendFrame now frame userContext) = can_SendFrame now frame userContext"
| "can_operate (CO_Discovery ty sd) = can_RegisterServiceDiscovery ty sd"
| "can_operate (CO_Replay now direction timestamp e) = can_ReplayMessage now direction timestamp e"
| "can_operate (CO_AddFrameHandler m) = can_AddFrameHandler m"
| "can_operate (CO_AddFrameTransmitHandler m) = can_AddFrameTransmitHandler m"
| "can_operate CO_AddStateChangeHandler = can_AddStateChangeHandler"
| "can_operate CO_AddErrorStateChangeHandler = can_AddErrorStateChangeHandler"
| "can_operate (CO_RemoveFrameHandler h) = can_RemoveFrameHandler h"
| "can_operate (CO_RemoveFrameTransmitHandler h) = can_RemoveFrameTransmitHandler h"
| "can_operate (CO_RemoveStateChangeHandler h) = can_RemoveStateChangeHandler h"
| "can_operate (CO_RemoveErrorStateChangeHandler h) = can_RemoveErrorStateChangeHandler h"

section \<open>What is transmitted and what is received\<close>

text \<open>
  A controller transmits a frame when it is started: the one given to \<^verbatim>\<open>SendFrame\<close>, or the one of the trace when a replay
  sends. Controller \<open>k\<close> listens with the frame handler \<open>hid k\<close>; no simulator takes part and no replay replaces what it receives.
\<close>

fun can_offered :: "can_operation \<Rightarrow> can_controller \<Rightarrow> (int \<times> WireCanFrame) list" where
  "can_offered (CO_SendFrame now frame userContext) c =
     (if can_controllerState c = CAN_Started \<and> \<not> IsReplayEnabledFor (can_replay c) RD_Send then [(now, frame)] else [])"
| "can_offered (CO_Replay now direction timestamp e) c =
     (if can_controllerState c = CAN_Started \<and> can_replayActive c \<and> direction = DIR_TX \<and> IsReplayEnabledFor (can_replay c) RD_Send
      then [(now, wcfe_frame e)] else [])"
| "can_offered _ c = []"

fun can_sent :: "can_event \<Rightarrow> can_message option" where
  "can_sent (CE_Send m) = Some m"
| "can_sent _ = None"

fun can_handled :: "(nat \<Rightarrow> nat) \<Rightarrow> nat \<Rightarrow> can_event \<Rightarrow> (int \<times> WireCanFrame) option" where
  "can_handled hid k (CE_Frame h e) = (if h = hid k \<and> wcfe_direction e = DIR_RX then Some (wcfe_timestamp e, wcfe_frame e) else None)"
| "can_handled hid k _ = None"

fun can_contents :: "can_message \<Rightarrow> (int \<times> WireCanFrame) list" where
  "can_contents (CM_FrameEvent e) = (if wcfe_direction e = DIR_RX then [(wcfe_timestamp e, wcfe_frame e)] else [])"
| "can_contents _ = []"

definition can_listens :: "(nat \<Rightarrow> nat) \<Rightarrow> nat \<Rightarrow> can_controller \<Rightarrow> bool" where
  "can_listens hid k c \<longleftrightarrow> IsTrivial (can_simulationBehavior c) \<and> \<not> IsReplayEnabledFor (can_replay c) RD_Receive
     \<and> masked_ok (can_frameHandlers c) \<and> (\<exists>m. (hid k, m) \<in> set (mh_entries (can_frameHandlers c)) \<and> and DIR_RX m \<noteq> 0)"

fun can_allowed :: "(nat \<Rightarrow> nat) \<Rightarrow> nat \<Rightarrow> can_operation \<Rightarrow> can_controller \<Rightarrow> bool" where
  "can_allowed hid k (CO_RemoveFrameHandler h) c = (h \<noteq> hid k)"
| "can_allowed hid k (CO_Discovery ty sd) c = (\<not> IsRelevantNetwork (can_serviceDescriptor c) sd)"
| "can_allowed hid k _ c = True"

section \<open>The controller keeps its promises\<close>

lemma can_select_none [simp]:
  "List.map_filter can_sent (mh_InvokeAll (\<lambda>h. CE_Frame h e) d h1) = []"
  "List.map_filter can_sent (mh_InvokeAll (\<lambda>h. CE_FrameTransmit h ack) st h2) = []"
  "List.map_filter can_sent (h_InvokeAll (\<lambda>h. CE_StateChange h t s) h3) = []"
  "List.map_filter can_sent (h_InvokeAll (\<lambda>h. CE_ErrorStateChange h t s) h3) = []"
  "List.map_filter (can_handled hid k) (mh_InvokeAll (\<lambda>h. CE_FrameTransmit h ack) st h2) = []"
  "List.map_filter (can_handled hid k) (h_InvokeAll (\<lambda>h. CE_StateChange h t s) h3) = []"
  "List.map_filter (can_handled hid k) (h_InvokeAll (\<lambda>h. CE_ErrorStateChange h t s) h3) = []"
  "wcfe_direction e \<noteq> DIR_RX \<Longrightarrow> List.map_filter (can_handled hid k) (mh_InvokeAll (\<lambda>h. CE_Frame h e) d h1) = []"
  by (simp_all add: mh_InvokeAll_none h_InvokeAll_none)

lemma can_handled_once:
  assumes "can_listens hid k c" "wcfe_direction e = DIR_RX"
  shows "List.map_filter (can_handled hid k) (mh_InvokeAll (\<lambda>h. CE_Frame h e) (wcfe_direction e) (can_frameHandlers c)) =
    [(wcfe_timestamp e, wcfe_frame e)]"
proof -
  obtain m where "(hid k, m) \<in> set (mh_entries (can_frameHandlers c))" "and DIR_RX m \<noteq> 0" "masked_ok (can_frameHandlers c)"
    using assms(1) by (auto simp: can_listens_def)
  then show ?thesis using assms(2) by (intro mh_InvokeAll_once [where i = "hid k" and flagMask = m]) simp_all
qed

lemma can_SendMsg_trivial [simp]: "IsTrivial (can_simulationBehavior c) \<Longrightarrow> can_SendMsg now msg c = can_trivial_SendMsg now msg c"
  by (simp add: can_SendMsg_def IsTrivial_def)

lemma can_AllowReception_trivial [simp]: "IsTrivial (can_simulationBehavior c) \<Longrightarrow> can_AllowReception sender c"
  by (simp add: can_AllowReception_def)

text \<open>A frame leaves a started controller as a message to the others, is delivered to the own handlers, and is then acknowledged.\<close>

lemma can_transmission:
  assumes "IsTrivial (can_simulationBehavior c)" "\<not> IsReplayEnabledFor (can_replay c) RD_Receive"
  shows "can_trivial_FrameEvent now e c =
    (if can_controllerState c = CAN_Started
     then (c, CE_Send (CM_FrameEvent (e\<lparr>wcfe_timestamp := now, wcfe_direction := DIR_RX\<rparr>))
        # CE_Trace DIR_TX now (e\<lparr>wcfe_timestamp := now, wcfe_direction := DIR_TX\<rparr>)
        # mh_InvokeAll (\<lambda>h. CE_Frame h (e\<lparr>wcfe_timestamp := now, wcfe_direction := DIR_TX\<rparr>)) DIR_TX (can_frameHandlers c)
        @ mh_InvokeAll (\<lambda>h. CE_FrameTransmit h \<lparr>cfte_canId = wcf_canId (wcfe_frame e), cfte_timestamp = now,
            cfte_status = CAN_Transmitted, cfte_userContext = wcfe_userContext e\<rparr>) CAN_Transmitted (can_frameTransmitHandlers c), None)
     else (c, [CE_Warn ''ICanController::SendFrame is called although can controller is not in state CanController::Started.''], None))"
  using assms
  by (simp add: can_trivial_FrameEvent_def can_trivial_ReceiveMsg_def can_Receive_FrameEvent_def can_Receive_FrameTransmitEvent_def
      can_CallFrameHandlers_def act_seq_def Let_def)

definition can_quiet :: "(nat \<Rightarrow> nat) \<Rightarrow> nat \<Rightarrow> can_controller \<Rightarrow> can_event list \<Rightarrow> error option \<Rightarrow> can_controller \<Rightarrow> bool" where
  "can_quiet hid k c evs err c' \<longleftrightarrow> List.map_filter can_sent evs = [] \<and> List.map_filter (can_handled hid k) evs = []
     \<and> can_simulationBehavior c' = can_simulationBehavior c \<and> can_replay c' = can_replay c \<and> can_frameHandlers c' = can_frameHandlers c"

interpretation cq: trace_relation "can_quiet hid k" for hid k
  by unfold_locales (auto simp: can_quiet_def)

lemma can_status_quiet: "holds (can_quiet hid k) (can_Receive_ControllerStatus sender msg) c"
  unfolding can_Receive_ControllerStatus_def by (intro cq.along) (simp_all add: can_quiet_def)

lemma can_ack_quiet: "holds (can_quiet hid k) (can_Receive_FrameTransmitEvent sender msg) c"
  unfolding can_Receive_FrameTransmitEvent_def by (intro cq.along) (simp_all add: can_quiet_def)

lemma can_mode_quiet: "holds (can_quiet hid k) (can_trivial_SetControllerMode now mode) c"
  unfolding can_trivial_SetControllerMode_def can_trivial_ReceiveMsg_def by (intro cq.along_read) (simp add: can_status_quiet)

lemma can_baud_quiet: "IsTrivial (can_simulationBehavior c) \<Longrightarrow> holds (can_quiet hid k) (can_SetBaudRate now r1 r2 r3) c"
  by (simp add: can_SetBaudRate_def holds_def can_quiet_def Let_def)

lemma can_handler_operations_quiet:
  "holds (can_quiet hid k) (can_AddFrameTransmitHandler m32) c"
  "holds (can_quiet hid k) can_AddStateChangeHandler c"
  "holds (can_quiet hid k) can_AddErrorStateChangeHandler c"
  "holds (can_quiet hid k) (can_RemoveFrameTransmitHandler h) c"
  "holds (can_quiet hid k) (can_RemoveStateChangeHandler h) c"
  "holds (can_quiet hid k) (can_RemoveErrorStateChangeHandler h) c"
  by (simp_all add: can_AddFrameTransmitHandler_def can_AddStateChangeHandler_def can_AddErrorStateChangeHandler_def
      can_RemoveFrameTransmitHandler_def can_RemoveStateChangeHandler_def can_RemoveErrorStateChangeHandler_def
      holds_def can_quiet_def h_Remove_def mh_Remove_def act_when_def)

lemma can_mode_changes: "IsTrivial (can_simulationBehavior c) \<Longrightarrow> can_Reset now c = can_trivial_SetControllerMode now \<lparr>cscm_flags = can_Flags True True, cscm_mode = CAN_Uninit\<rparr> c"
  "IsTrivial (can_simulationBehavior c) \<Longrightarrow> can_ChangeControllerMode now st c =
     can_trivial_SetControllerMode now \<lparr>cscm_flags = can_Flags False False, cscm_mode = st\<rparr> c"
  by (simp_all add: can_Reset_def can_ChangeControllerMode_def)

definition can_promise :: "(nat \<Rightarrow> nat) \<Rightarrow> nat \<Rightarrow> (int \<times> WireCanFrame) list \<Rightarrow> can_action \<Rightarrow> can_controller \<Rightarrow> bool" where
  "can_promise hid k out a c \<longleftrightarrow> (case a c of (c', evs, err) \<Rightarrow> can_listens hid k c'
     \<and> concat (map can_contents (List.map_filter can_sent evs)) = out \<and> List.map_filter (can_handled hid k) evs = [])"

lemma can_promise_quiet: "can_listens hid k c \<Longrightarrow> holds (can_quiet hid k) a c \<Longrightarrow> can_promise hid k [] a c"
  unfolding can_promise_def holds_def by (auto simp: can_quiet_def can_listens_def split: prod.splits)

lemma can_promise_frame:
  assumes "can_listens hid k c"
  shows "can_promise hid k (if can_controllerState c = CAN_Started then [(now, wcfe_frame e)] else []) (can_trivial_FrameEvent now e) c"
  using assms by (simp add: can_promise_def can_transmission can_listens_def)

lemma can_promise_SendFrame:
  assumes "can_listens hid k c"
  shows "can_promise hid k (can_offered (CO_SendFrame now frame userContext) c) (can_SendFrame now frame userContext) c"
  using assms can_promise_frame [OF assms, of now "\<lparr>wcfe_timestamp = 0, wcfe_frame = frame, wcfe_direction = DIR_Undefined, wcfe_userContext = userContext\<rparr>"]
  by (auto simp: can_promise_def can_SendFrame_def can_listens_def)

lemma can_promise_Replay:
  assumes "can_listens hid k c"
  shows "can_promise hid k (can_offered (CO_Replay now direction timestamp e) c) (can_ReplayMessage now direction timestamp e) c"
  using assms can_promise_frame [OF assms, of now "e\<lparr>wcfe_userContext := 0\<rparr>"]
  by (auto simp: can_promise_def can_ReplayMessage_def can_ReplaySend_def act_when_def can_listens_def)

lemma can_promise_frame_handlers:
  assumes "can_listens hid k c"
  shows "can_promise hid k [] (can_AddFrameHandler m) c" "h \<noteq> hid k \<Longrightarrow> can_promise hid k [] (can_RemoveFrameHandler h) c"
    "\<not> IsRelevantNetwork (can_serviceDescriptor c) sd \<Longrightarrow> can_promise hid k [] (can_RegisterServiceDiscovery ty sd) c"
proof -
  have ok: "masked_ok (snd (mh_Add m (can_frameHandlers c)))" "masked_ok (snd (mh_Remove h (can_frameHandlers c)))"
    using assms by (simp_all add: can_listens_def)
  show "can_promise hid k [] (can_AddFrameHandler m) c"
    using assms ok(1) by (auto simp: can_promise_def can_AddFrameHandler_def can_listens_def mh_Add_def)
  show "h \<noteq> hid k \<Longrightarrow> can_promise hid k [] (can_RemoveFrameHandler h) c"
    using assms ok(2) by (auto simp: can_promise_def can_RemoveFrameHandler_def can_listens_def mh_Remove_def act_when_def)
  show "\<not> IsRelevantNetwork (can_serviceDescriptor c) sd \<Longrightarrow> can_promise hid k [] (can_RegisterServiceDiscovery ty sd) c"
    using assms by (simp add: can_promise_def can_RegisterServiceDiscovery_def can_listens_def)
qed

lemma can_operate_promise: "can_listens hid k c \<Longrightarrow> can_allowed hid k op c \<Longrightarrow> can_promise hid k (can_offered op c) (can_operate op) c"
proof -
  assume good: "can_listens hid k c" and allowed: "can_allowed hid k op c"
  then have trivial: "IsTrivial (can_simulationBehavior c)" by (simp add: can_listens_def)
  note quiet = can_promise_quiet [OF good]
  have mode: "can_promise hid k [] (can_Reset now) c" "can_promise hid k [] (can_ChangeControllerMode now st) c" for now st
    using quiet [OF can_mode_quiet] trivial by (simp_all add: can_promise_def can_mode_changes)
  show ?thesis using good allowed mode
    by (cases op) (simp_all del: can_offered.simps(1,2) add: can_promise_SendFrame can_promise_Replay can_promise_frame_handlers
        can_Start_def can_Stop_def can_Sleep_def can_promise_quiet can_handler_operations_quiet can_baud_quiet trivial)
qed

lemma can_receive_promise:
  assumes "can_listens hid k c" "can_ReceiveMsg sender m c = (c', evs, err)"
  shows "can_listens hid k c' \<and> List.map_filter can_sent evs = [] \<and> List.map_filter (can_handled hid k) evs = can_contents m"
proof (cases m)
  case (CM_FrameEvent e)
  have "IsTrivial (can_simulationBehavior c)" "\<not> IsReplayEnabledFor (can_replay c) RD_Receive"
    using assms(1) by (simp_all add: can_listens_def)
  then show ?thesis using assms CM_FrameEvent can_handled_once [OF assms(1), of e]
    can_handled_once [OF assms(1), of "e\<lparr>wcfe_userContext := 0\<rparr>"]
    by (auto simp: can_Receive_FrameEvent_def can_CallFrameHandlers_def Let_def split: if_splits)
next
  case (CM_FrameTransmitEvent a)
  then show ?thesis using assms holdsD [OF can_ack_quiet [of hid k sender a c]]
    by (auto simp: can_quiet_def can_listens_def)
next
  case (CM_ControllerStatus a)
  then show ?thesis using assms holdsD [OF can_status_quiet [of hid k sender a c]]
    by (auto simp: can_quiet_def can_listens_def)
qed (use assms in simp_all)

interpretation can: bus_node "can_listens hid" "can_allowed hid" can_operate can_ReceiveMsg can_offered can_sent "can_handled hid" can_contents
  for hid
  by unfold_locales (use can_operate_promise can_receive_promise in \<open>fastforce simp: can_promise_def\<close>)+

section \<open>Frames between controllers\<close>


definition example_can_controller :: can_controller where
  "example_can_controller = (CanController_new ServiceDescriptor_new no_replay)
     \<lparr>can_controllerState := CAN_Started, can_frameHandlers := \<lparr>mh_entries = [(0, DIR_RX)], mh_nextHandlerId = 1\<rparr>\<rparr>"

definition example_can_frame :: WireCanFrame where
  "example_can_frame = \<lparr>wcf_canId = 3, wcf_flags = 0, wcf_dlc = 2, wcf_sdt = 0, wcf_vcid = 0, wcf_af = 0, wcf_dataField = [7, 9]\<rparr>"

lemma example_can_listens: "can_listens (\<lambda>_. 0) k example_can_controller"
  by (simp add: can_listens_def example_can_controller_def CanController_new_def masked_ok_def)


text \<open>
  The interface says that a controller must be started to transmit and to receive. Only the transmission looks at the state: a
  controller that was never started calls its handlers with the frames of the others.
\<close>

lemma can_receives_without_start:
  "let c = example_can_controller\<lparr>can_controllerState := CAN_Uninit\<rparr>;
       e = \<lparr>wcfe_timestamp = 5, wcfe_frame = example_can_frame, wcfe_direction = DIR_RX, wcfe_userContext = 0\<rparr>
   in can_ReceiveMsg ServiceDescriptor_new (CM_FrameEvent e) c = (c, [CE_Trace DIR_RX 5 e, CE_Frame 0 e], None)"
  by code_simp

end
