(* ===== verification/EthernetController.thy ===== *)
theory EthernetController
  imports SimBehavior EthernetSerdes
begin

text \<open>
  The Ethernet controller, \<^verbatim>\<open>services/ethernet/EthController.cpp\<close>, with its two behaviours \<^verbatim>\<open>SimBehaviorTrivial.cpp\<close> and
  \<^verbatim>\<open>SimBehaviorDetailed.cpp\<close>. The clock is an argument, read once per operation. Handlers of the user, messages to other
  participants, trace records and warnings are events; handlers do not call the controller before the operation that calls them
  has returned. A frame is the list of its bytes; an event with a frame has the members of the message that carries it.
\<close>

abbreviation (input) ETH_Inactive :: "32 word" where "ETH_Inactive \<equiv> 0"
abbreviation (input) ETH_LinkDown :: "32 word" where "ETH_LinkDown \<equiv> 1"
abbreviation (input) ETH_LinkUp :: "32 word" where "ETH_LinkUp \<equiv> 2"
abbreviation (input) ETH_Transmitted :: "32 word" where "ETH_Transmitted \<equiv> 1"
abbreviation (input) ETH_ControllerInactive :: "32 word" where "ETH_ControllerInactive \<equiv> 2"
abbreviation (input) ETH_StatusLinkDown :: "32 word" where "ETH_StatusLinkDown \<equiv> 4"
abbreviation (input) ETH_ModeInactive :: "8 word" where "ETH_ModeInactive \<equiv> 0"
abbreviation (input) ETH_ModeActive :: "8 word" where "ETH_ModeActive \<equiv> 1"

section \<open>State\<close>

record eth_controller =
  eth_serviceDescriptor :: ServiceDescriptor
  eth_simulationBehavior :: sim_behavior
  eth_replay :: replay_config
  eth_replayActive :: bool
  eth_ethState :: "32 word"
  eth_ethBitRate :: "32 word"
  eth_frameHandlers :: "8 word masked_handlers"
  eth_frameTransmitHandlers :: "32 word masked_handlers"
  eth_stateChangeHandlers :: handlers
  eth_bitrateChangeHandlers :: handlers

definition EthController_new :: "ServiceDescriptor \<Rightarrow> replay_config \<Rightarrow> eth_controller" where
  "EthController_new sd replay = \<lparr>eth_serviceDescriptor = sd, eth_simulationBehavior = SimBehavior_new, eth_replay = replay,
     eth_replayActive = IsValidReplayConfig replay, eth_ethState = ETH_Inactive, eth_ethBitRate = 0, eth_frameHandlers = masked_new,
     eth_frameTransmitHandlers = masked_new, eth_stateChangeHandlers = handlers_new, eth_bitrateChangeHandlers = handlers_new\<rparr>"

datatype eth_message =
    EM_FrameEvent WireEthernetFrameEvent
  | EM_FrameTransmitEvent EthernetFrameTransmitEvent
  | EM_Status EthernetStatus
  | EM_SetMode EthernetSetMode

datatype eth_event =
    EE_Send eth_message
  | EE_SendTo string eth_message
  | EE_Frame nat WireEthernetFrameEvent
  | EE_FrameTransmit nat EthernetFrameTransmitEvent
  | EE_StateChange nat int "32 word"
  | EE_BitrateChange nat int "32 word"
  | EE_Trace "8 word" int "byte list"
  | EE_Warn string

type_synonym eth_action = "(eth_controller, eth_event) action"

section \<open>Frames\<close>

text \<open>\<^verbatim>\<open>SharedVector(span, minimumSize)\<close> copies the bytes and appends zeros up to the size.\<close>

definition SharedVector_padded :: "byte list \<Rightarrow> nat \<Rightarrow> byte list" where
  "SharedVector_padded raw minimumSize = raw @ replicate (max (length raw) minimumSize - length raw) 0"

definition MakeWireEthernetFrame :: "byte list \<Rightarrow> WireEthernetFrame" where
  "MakeWireEthernetFrame raw = \<lparr>wef_raw = SharedVector_padded raw 60\<rparr>"

text \<open>The padding of \<^verbatim>\<open>ReceiveMsgInternal\<close>: \<^verbatim>\<open>resize\<close> of a vector that holds the short frame.\<close>

definition pad_received :: "byte list \<Rightarrow> byte list" where
  "pad_received raw = (if length raw < 60 then raw @ replicate (60 - length raw) 0 else raw)"

section \<open>Reception\<close>

definition eth_AllowReception :: "ServiceDescriptor \<Rightarrow> eth_controller \<Rightarrow> bool" where
  "eth_AllowReception sender c = AllowReception (eth_serviceDescriptor c) sender (eth_simulationBehavior c)"

definition eth_ReceiveMsgInternal :: "bool \<Rightarrow> WireEthernetFrameEvent \<Rightarrow> eth_action" where
  "eth_ReceiveMsgInternal fromSelf msg =
     (let padded = msg\<lparr>wefe_frame := \<lparr>wef_raw = pad_received (wef_raw (wefe_frame msg))\<rparr>\<rparr>;
          e = (if and (wefe_direction padded) DIR_TX \<noteq> DIR_TX then padded\<lparr>wefe_userContext := 0\<rparr> else padded)
      in act_seq
        (act_when (\<not> fromSelf) (act_emit [EE_Trace (wefe_direction e) (wefe_timestamp e) (wef_raw (wefe_frame e))]))
        (act_read (\<lambda>c. act_emit (mh_InvokeAll (\<lambda>h. EE_Frame h e) (wefe_direction e) (eth_frameHandlers c)))))"

text \<open>\<open>fromSelf\<close> says that the sender is this controller itself.\<close>

definition eth_Receive_FrameEvent :: "bool \<Rightarrow> ServiceDescriptor \<Rightarrow> WireEthernetFrameEvent \<Rightarrow> eth_action" where
  "eth_Receive_FrameEvent fromSelf sender msg = act_read (\<lambda>c.
     if \<not> eth_AllowReception sender c then act_skip
     else if IsReplayEnabledFor (eth_replay c) RD_Receive then act_skip
     else eth_ReceiveMsgInternal fromSelf msg)"

definition eth_Receive_FrameTransmitEvent :: "ServiceDescriptor \<Rightarrow> EthernetFrameTransmitEvent \<Rightarrow> eth_action" where
  "eth_Receive_FrameTransmitEvent sender msg = act_read (\<lambda>c.
     if \<not> eth_AllowReception sender c then act_skip
     else act_emit (mh_InvokeAll (\<lambda>h. EE_FrameTransmit h msg) (efte_status msg) (eth_frameTransmitHandlers c)))"

definition eth_Receive_Status :: "ServiceDescriptor \<Rightarrow> EthernetStatus \<Rightarrow> eth_action" where
  "eth_Receive_Status sender msg = act_read (\<lambda>c.
     if \<not> eth_AllowReception sender c then act_skip
     else act_seq
       (act_when (es_bitrate msg \<noteq> eth_ethBitRate c)
         (act_seq (act_modify (\<lambda>c. c\<lparr>eth_ethBitRate := es_bitrate msg\<rparr>))
           (act_emit (h_InvokeAll (\<lambda>h. EE_BitrateChange h (es_timestamp msg) (es_bitrate msg)) (eth_bitrateChangeHandlers c)))))
       (act_when (es_state msg \<noteq> eth_ethState c)
         (act_seq (act_modify (\<lambda>c. c\<lparr>eth_ethState := es_state msg\<rparr>))
           (act_emit (h_InvokeAll (\<lambda>h. EE_StateChange h (es_timestamp msg) (es_state msg)) (eth_stateChangeHandlers c))))))"

fun eth_ReceiveMsg :: "bool \<Rightarrow> ServiceDescriptor \<Rightarrow> eth_message \<Rightarrow> eth_action" where
  "eth_ReceiveMsg fromSelf sender (EM_FrameEvent msg) = eth_Receive_FrameEvent fromSelf sender msg"
| "eth_ReceiveMsg fromSelf sender (EM_FrameTransmitEvent msg) = eth_Receive_FrameTransmitEvent sender msg"
| "eth_ReceiveMsg fromSelf sender (EM_Status msg) = eth_Receive_Status sender msg"
| "eth_ReceiveMsg fromSelf sender (EM_SetMode msg) = act_skip"

section \<open>Behaviours\<close>

definition ControllerStateToTransmitStatus :: "32 word \<Rightarrow> 32 word result" where
  "ControllerStateToTransmitStatus ethernetState =
     (if ethernetState = ETH_LinkUp then Inr ETH_Transmitted
      else if ethernetState = ETH_LinkDown then Inr ETH_StatusLinkDown
      else if ethernetState = ETH_Inactive then Inr ETH_ControllerInactive
      else Inl (StateError ''unknown EthernetState value''))"

definition eth_trivial_ReceiveMsg :: "eth_message \<Rightarrow> eth_action" where
  "eth_trivial_ReceiveMsg msg = act_read (\<lambda>c. eth_ReceiveMsg True (eth_serviceDescriptor c) msg)"

definition eth_trivial_FrameEvent :: "int \<Rightarrow> WireEthernetFrameEvent \<Rightarrow> eth_action" where
  "eth_trivial_FrameEvent now ethFrameEvent = act_read (\<lambda>c.
     let controllerState = eth_ethState c; e = ethFrameEvent\<lparr>wefe_timestamp := now\<rparr>
     in act_seq
       (act_when (controllerState = ETH_LinkUp)
         (act_seq (act_emit [EE_Send (EM_FrameEvent (e\<lparr>wefe_direction := DIR_RX\<rparr>))])
           (eth_trivial_ReceiveMsg (EM_FrameEvent (e\<lparr>wefe_direction := DIR_TX\<rparr>)))))
       (case ControllerStateToTransmitStatus controllerState of
          Inl err \<Rightarrow> act_throw err
        | Inr status \<Rightarrow> eth_trivial_ReceiveMsg (EM_FrameTransmitEvent
            \<lparr>efte_timestamp = now, efte_status = status, efte_userContext = wefe_userContext e\<rparr>)))"

definition eth_trivial_SetMode :: "int \<Rightarrow> EthernetSetMode \<Rightarrow> eth_action" where
  "eth_trivial_SetMode now ethSetMode = eth_trivial_ReceiveMsg (EM_Status
     \<lparr>es_timestamp = now, es_state = (if esm_mode ethSetMode = ETH_ModeActive then ETH_LinkUp else ETH_Inactive), es_bitrate = 0\<rparr>)"

fun eth_trivial_SendMsg :: "int \<Rightarrow> eth_message \<Rightarrow> eth_action" where
  "eth_trivial_SendMsg now (EM_FrameEvent msg) = eth_trivial_FrameEvent now msg"
| "eth_trivial_SendMsg now (EM_SetMode msg) = eth_trivial_SetMode now msg"
| "eth_trivial_SendMsg now msg = act_skip"

definition eth_detailed_SendMsg :: "eth_message \<Rightarrow> eth_action" where
  "eth_detailed_SendMsg msg = act_read (\<lambda>c. act_emit [EE_SendTo (sd_participantName (sb_simulatedLink (eth_simulationBehavior c))) msg])"

definition eth_SendMsg :: "int \<Rightarrow> eth_message \<Rightarrow> eth_action" where
  "eth_SendMsg now msg = act_read (\<lambda>c. case sb_currentBehavior (eth_simulationBehavior c) of
     BH_Trivial \<Rightarrow> eth_trivial_SendMsg now msg | BH_Detailed \<Rightarrow> eth_detailed_SendMsg msg)"

section \<open>Operations\<close>

definition eth_Activate :: "int \<Rightarrow> eth_action" where
  "eth_Activate now = act_read (\<lambda>c. if eth_ethState c \<noteq> ETH_Inactive then act_skip
     else eth_SendMsg now (EM_SetMode \<lparr>esm_mode = ETH_ModeActive\<rparr>))"

definition eth_Deactivate :: "int \<Rightarrow> eth_action" where
  "eth_Deactivate now = act_read (\<lambda>c. if eth_ethState c = ETH_Inactive then act_skip
     else eth_SendMsg now (EM_SetMode \<lparr>esm_mode = ETH_ModeInactive\<rparr>))"

definition eth_SendFrameInternal :: "int \<Rightarrow> byte list \<Rightarrow> 64 word \<Rightarrow> eth_action" where
  "eth_SendFrameInternal now raw userContext = act_seq
     (act_emit [EE_Trace DIR_TX now raw])
     (eth_SendMsg now (EM_FrameEvent
       \<lparr>wefe_timestamp = now, wefe_frame = MakeWireEthernetFrame raw, wefe_direction = DIR_Undefined, wefe_userContext = userContext\<rparr>))"

definition eth_SendFrame :: "int \<Rightarrow> byte list \<Rightarrow> 64 word \<Rightarrow> eth_action" where
  "eth_SendFrame now raw userContext = act_read (\<lambda>c.
     if IsReplayEnabledFor (eth_replay c) RD_Send then act_skip else eth_SendFrameInternal now raw userContext)"

section \<open>Network simulator and replay\<close>

definition eth_RegisterServiceDiscovery :: "32 word \<Rightarrow> ServiceDescriptor \<Rightarrow> eth_action" where
  "eth_RegisterServiceDiscovery discoveryType remote = act_modify (\<lambda>c.
     c\<lparr>eth_simulationBehavior := OnServiceDiscovery (eth_serviceDescriptor c) discoveryType remote (eth_simulationBehavior c)\<rparr>)"

definition eth_ReplaySend :: "int \<Rightarrow> WireEthernetFrame \<Rightarrow> eth_action" where
  "eth_ReplaySend now frame = eth_SendFrameInternal now (wef_raw frame) 0"

definition eth_ReplayReceive :: "int \<Rightarrow> WireEthernetFrame \<Rightarrow> eth_action" where
  "eth_ReplayReceive timestamp frame = eth_ReceiveMsgInternal False
     \<lparr>wefe_timestamp = timestamp, wefe_frame = frame, wefe_direction = DIR_RX, wefe_userContext = 0\<rparr>"

definition eth_ReplayMessage :: "int \<Rightarrow> 8 word \<Rightarrow> int \<Rightarrow> WireEthernetFrame \<Rightarrow> eth_action" where
  "eth_ReplayMessage now direction timestamp frame = act_read (\<lambda>c.
     let replaySend = act_when (IsReplayEnabledFor (eth_replay c) RD_Send) (eth_ReplaySend now frame);
         replayReceive = act_when (IsReplayEnabledFor (eth_replay c) RD_Receive) (eth_ReplayReceive timestamp frame)
     in if \<not> eth_replayActive c then act_skip
        else if direction = DIR_TX then replaySend
        else if direction = DIR_RX then replayReceive
        else if direction = DIR_TXRX then act_seq replayReceive replaySend
        else act_throw (SilKitError ''EthController: replay message has undefined Direction''))"

section \<open>Handlers\<close>

definition eth_AddFrameHandler :: "8 word \<Rightarrow> eth_action" where
  "eth_AddFrameHandler directionMask = act_modify (\<lambda>c. c\<lparr>eth_frameHandlers := snd (mh_Add directionMask (eth_frameHandlers c))\<rparr>)"

definition eth_AddFrameTransmitHandler :: "32 word \<Rightarrow> eth_action" where
  "eth_AddFrameTransmitHandler transmitStatusMask = act_modify (\<lambda>c.
     c\<lparr>eth_frameTransmitHandlers := snd (mh_Add transmitStatusMask (eth_frameTransmitHandlers c))\<rparr>)"

definition eth_AddStateChangeHandler :: eth_action where
  "eth_AddStateChangeHandler = act_modify (\<lambda>c. c\<lparr>eth_stateChangeHandlers := snd (h_Add (eth_stateChangeHandlers c))\<rparr>)"

definition eth_AddBitrateChangeHandler :: eth_action where
  "eth_AddBitrateChangeHandler = act_modify (\<lambda>c. c\<lparr>eth_bitrateChangeHandlers := snd (h_Add (eth_bitrateChangeHandlers c))\<rparr>)"

definition eth_RemoveFrameHandler :: "nat \<Rightarrow> eth_action" where
  "eth_RemoveFrameHandler handlerId = act_read (\<lambda>c. case mh_Remove handlerId (eth_frameHandlers c) of (removed, hs) \<Rightarrow>
     act_seq (act_modify (\<lambda>c. c\<lparr>eth_frameHandlers := hs\<rparr>))
       (act_when (\<not> removed) (act_emit [EE_Warn ''RemoveFrameHandler failed: Unknown HandlerId.''])))"

definition eth_RemoveFrameTransmitHandler :: "nat \<Rightarrow> eth_action" where
  "eth_RemoveFrameTransmitHandler handlerId = act_read (\<lambda>c. case mh_Remove handlerId (eth_frameTransmitHandlers c) of (removed, hs) \<Rightarrow>
     act_seq (act_modify (\<lambda>c. c\<lparr>eth_frameTransmitHandlers := hs\<rparr>))
       (act_when (\<not> removed) (act_emit [EE_Warn ''RemoveFrameTransmitHandler failed: Unknown HandlerId.''])))"

definition eth_RemoveStateChangeHandler :: "nat \<Rightarrow> eth_action" where
  "eth_RemoveStateChangeHandler handlerId = act_read (\<lambda>c. case h_Remove handlerId (eth_stateChangeHandlers c) of (removed, hs) \<Rightarrow>
     act_seq (act_modify (\<lambda>c. c\<lparr>eth_stateChangeHandlers := hs\<rparr>))
       (act_when (\<not> removed) (act_emit [EE_Warn ''RemoveStateChangeHandler failed: Unknown HandlerId.''])))"

definition eth_RemoveBitrateChangeHandler :: "nat \<Rightarrow> eth_action" where
  "eth_RemoveBitrateChangeHandler handlerId = act_read (\<lambda>c. case h_Remove handlerId (eth_bitrateChangeHandlers c) of (removed, hs) \<Rightarrow>
     act_seq (act_modify (\<lambda>c. c\<lparr>eth_bitrateChangeHandlers := hs\<rparr>))
       (act_when (\<not> removed) (act_emit [EE_Warn ''RemoveBitrateChangeHandler failed: Unknown HandlerId.''])))"

end
