(* ===== verification/EthernetNetwork.thy ===== *)
theory EthernetNetwork
  imports EthernetController BusNetwork
begin

text \<open>
  Ethernet controllers on a network without a simulator. What the frame handler of a controller gets from another one is what the
  other one transmits, padded to the minimal length of a frame.
\<close>

datatype eth_operation =
    EO_Activate int
  | EO_Deactivate int
  | EO_SendFrame int "byte list" "64 word"
  | EO_Discovery "32 word" ServiceDescriptor
  | EO_Replay int "8 word" int WireEthernetFrame
  | EO_AddFrameHandler "8 word"
  | EO_AddFrameTransmitHandler "32 word"
  | EO_AddStateChangeHandler
  | EO_AddBitrateChangeHandler
  | EO_RemoveFrameHandler nat
  | EO_RemoveFrameTransmitHandler nat
  | EO_RemoveStateChangeHandler nat
  | EO_RemoveBitrateChangeHandler nat

fun eth_operate :: "eth_operation \<Rightarrow> eth_action" where
  "eth_operate (EO_Activate now) = eth_Activate now"
| "eth_operate (EO_Deactivate now) = eth_Deactivate now"
| "eth_operate (EO_SendFrame now raw userContext) = eth_SendFrame now raw userContext"
| "eth_operate (EO_Discovery ty sd) = eth_RegisterServiceDiscovery ty sd"
| "eth_operate (EO_Replay now direction timestamp frame) = eth_ReplayMessage now direction timestamp frame"
| "eth_operate (EO_AddFrameHandler m) = eth_AddFrameHandler m"
| "eth_operate (EO_AddFrameTransmitHandler m) = eth_AddFrameTransmitHandler m"
| "eth_operate EO_AddStateChangeHandler = eth_AddStateChangeHandler"
| "eth_operate EO_AddBitrateChangeHandler = eth_AddBitrateChangeHandler"
| "eth_operate (EO_RemoveFrameHandler h) = eth_RemoveFrameHandler h"
| "eth_operate (EO_RemoveFrameTransmitHandler h) = eth_RemoveFrameTransmitHandler h"
| "eth_operate (EO_RemoveStateChangeHandler h) = eth_RemoveStateChangeHandler h"
| "eth_operate (EO_RemoveBitrateChangeHandler h) = eth_RemoveBitrateChangeHandler h"

section \<open>What is transmitted and what is received\<close>

definition padded_frame :: "byte list \<Rightarrow> byte list" where
  "padded_frame raw = raw @ replicate (60 - length raw) 0"

fun eth_offered :: "eth_operation \<Rightarrow> eth_controller \<Rightarrow> (int \<times> byte list) list" where
  "eth_offered (EO_SendFrame now raw userContext) c =
     (if eth_ethState c = ETH_LinkUp \<and> \<not> IsReplayEnabledFor (eth_replay c) RD_Send then [(now, padded_frame raw)] else [])"
| "eth_offered (EO_Replay now direction timestamp frame) c =
     (if eth_ethState c = ETH_LinkUp \<and> eth_replayActive c \<and> (direction = DIR_TX \<or> direction = DIR_TXRX) \<and> IsReplayEnabledFor (eth_replay c) RD_Send
      then [(now, padded_frame (wef_raw frame))] else [])"
| "eth_offered _ c = []"

fun eth_sent :: "eth_event \<Rightarrow> eth_message option" where
  "eth_sent (EE_Send m) = Some m"
| "eth_sent _ = None"

fun eth_handled :: "(nat \<Rightarrow> nat) \<Rightarrow> nat \<Rightarrow> eth_event \<Rightarrow> (int \<times> byte list) option" where
  "eth_handled hid k (EE_Frame h e) = (if h = hid k \<and> wefe_direction e = DIR_RX then Some (wefe_timestamp e, wef_raw (wefe_frame e)) else None)"
| "eth_handled hid k _ = None"

fun eth_contents :: "eth_message \<Rightarrow> (int \<times> byte list) list" where
  "eth_contents (EM_FrameEvent e) = (if wefe_direction e = DIR_RX then [(wefe_timestamp e, padded_frame (wef_raw (wefe_frame e)))] else [])"
| "eth_contents _ = []"

definition eth_listens :: "(nat \<Rightarrow> nat) \<Rightarrow> nat \<Rightarrow> eth_controller \<Rightarrow> bool" where
  "eth_listens hid k c \<longleftrightarrow> IsTrivial (eth_simulationBehavior c) \<and> \<not> IsReplayEnabledFor (eth_replay c) RD_Receive
     \<and> masked_ok (eth_frameHandlers c) \<and> (\<exists>m. (hid k, m) \<in> set (mh_entries (eth_frameHandlers c)) \<and> and DIR_RX m \<noteq> 0)"

fun eth_allowed :: "(nat \<Rightarrow> nat) \<Rightarrow> nat \<Rightarrow> eth_operation \<Rightarrow> eth_controller \<Rightarrow> bool" where
  "eth_allowed hid k (EO_RemoveFrameHandler h) c = (h \<noteq> hid k)"
| "eth_allowed hid k (EO_Discovery ty sd) c = (\<not> IsRelevantNetwork (eth_serviceDescriptor c) sd)"
| "eth_allowed hid k _ c = True"

section \<open>The controller keeps its promises\<close>

lemma padding [simp]:
  "wef_raw (MakeWireEthernetFrame raw) = padded_frame raw" "pad_received raw = padded_frame raw" "padded_frame (padded_frame raw) = padded_frame raw"
  by (auto simp: MakeWireEthernetFrame_def SharedVector_padded_def pad_received_def padded_frame_def max_def)

lemma eth_select_none [simp]:
  "List.map_filter eth_sent (mh_InvokeAll (\<lambda>h. EE_Frame h e) d h1) = []"
  "List.map_filter eth_sent (mh_InvokeAll (\<lambda>h. EE_FrameTransmit h ack) st h2) = []"
  "List.map_filter eth_sent (h_InvokeAll (\<lambda>h. EE_StateChange h t s) h3) = []"
  "List.map_filter eth_sent (h_InvokeAll (\<lambda>h. EE_BitrateChange h t s) h3) = []"
  "List.map_filter (eth_handled hid k) (mh_InvokeAll (\<lambda>h. EE_FrameTransmit h ack) st h2) = []"
  "List.map_filter (eth_handled hid k) (h_InvokeAll (\<lambda>h. EE_StateChange h t s) h3) = []"
  "List.map_filter (eth_handled hid k) (h_InvokeAll (\<lambda>h. EE_BitrateChange h t s) h3) = []"
  "wefe_direction e \<noteq> DIR_RX \<Longrightarrow> List.map_filter (eth_handled hid k) (mh_InvokeAll (\<lambda>h. EE_Frame h e) d h1) = []"
  by (simp_all add: mh_InvokeAll_none h_InvokeAll_none)

lemma eth_handled_once:
  assumes "eth_listens hid k c" "wefe_direction e = DIR_RX"
  shows "List.map_filter (eth_handled hid k) (mh_InvokeAll (\<lambda>h. EE_Frame h e) DIR_RX (eth_frameHandlers c)) =
    [(wefe_timestamp e, wef_raw (wefe_frame e))]"
proof -
  obtain m where "(hid k, m) \<in> set (mh_entries (eth_frameHandlers c))" "and DIR_RX m \<noteq> 0" "masked_ok (eth_frameHandlers c)"
    using assms(1) by (auto simp: eth_listens_def)
  then show ?thesis using assms(2) by (intro mh_InvokeAll_once [where i = "hid k" and flagMask = m]) simp_all
qed

lemma eth_SendMsg_trivial [simp]: "IsTrivial (eth_simulationBehavior c) \<Longrightarrow> eth_SendMsg now msg c = eth_trivial_SendMsg now msg c"
  by (simp add: eth_SendMsg_def IsTrivial_def)

lemma eth_AllowReception_trivial [simp]: "IsTrivial (eth_simulationBehavior c) \<Longrightarrow> eth_AllowReception sender c"
  by (simp add: eth_AllowReception_def)

definition eth_quiet :: "(nat \<Rightarrow> nat) \<Rightarrow> nat \<Rightarrow> eth_controller \<Rightarrow> eth_event list \<Rightarrow> error option \<Rightarrow> eth_controller \<Rightarrow> bool" where
  "eth_quiet hid k c evs err c' \<longleftrightarrow> List.map_filter eth_sent evs = [] \<and> List.map_filter (eth_handled hid k) evs = []
     \<and> eth_simulationBehavior c' = eth_simulationBehavior c \<and> eth_replay c' = eth_replay c \<and> eth_frameHandlers c' = eth_frameHandlers c"

interpretation eq: trace_relation "eth_quiet hid k" for hid k
  by unfold_locales (auto simp: eth_quiet_def)

lemma eth_status_quiet: "holds (eth_quiet hid k) (eth_Receive_Status sender msg) c"
  unfolding eth_Receive_Status_def by (intro eq.along) (simp_all add: eth_quiet_def)

lemma eth_ack_quiet: "holds (eth_quiet hid k) (eth_Receive_FrameTransmitEvent sender msg) c"
  unfolding eth_Receive_FrameTransmitEvent_def by (intro eq.along) (simp_all add: eth_quiet_def)

lemma eth_own_frame_quiet: "wefe_direction e = DIR_TX \<Longrightarrow> holds (eth_quiet hid k) (eth_Receive_FrameEvent b sender e) c"
  unfolding eth_Receive_FrameEvent_def eth_ReceiveMsgInternal_def Let_def
  by (intro eq.along) (simp_all add: eth_quiet_def)

lemma eth_mode_quiet:
  "IsTrivial (eth_simulationBehavior c) \<Longrightarrow> holds (eth_quiet hid k) (eth_Activate now) c"
  "IsTrivial (eth_simulationBehavior c) \<Longrightarrow> holds (eth_quiet hid k) (eth_Deactivate now) c"
  unfolding eth_Activate_def eth_Deactivate_def
  by (intro eq.along; simp add: holds_def eth_trivial_SetMode_def eth_trivial_ReceiveMsg_def
      eth_status_quiet [unfolded holds_def])+

lemma eth_handler_operations_quiet:
  "holds (eth_quiet hid k) (eth_AddFrameTransmitHandler m32) c"
  "holds (eth_quiet hid k) eth_AddStateChangeHandler c"
  "holds (eth_quiet hid k) eth_AddBitrateChangeHandler c"
  "holds (eth_quiet hid k) (eth_RemoveFrameTransmitHandler h) c"
  "holds (eth_quiet hid k) (eth_RemoveStateChangeHandler h) c"
  "holds (eth_quiet hid k) (eth_RemoveBitrateChangeHandler h) c"
  by (simp_all add: eth_AddFrameTransmitHandler_def eth_AddStateChangeHandler_def eth_AddBitrateChangeHandler_def
      eth_RemoveFrameTransmitHandler_def eth_RemoveStateChangeHandler_def eth_RemoveBitrateChangeHandler_def
      holds_def eth_quiet_def h_Remove_def mh_Remove_def act_when_def)


text \<open>A frame that is sent while the link is up goes to the others and to the own handlers; every frame is acknowledged, with the reason when it is not sent.\<close>

lemma eth_transmission:
  assumes "IsTrivial (eth_simulationBehavior c)" "\<not> IsReplayEnabledFor (eth_replay c) RD_Receive"
  shows "eth_trivial_FrameEvent now e c =
    (let own = e\<lparr>wefe_timestamp := now, wefe_direction := DIR_TX, wefe_frame := \<lparr>wef_raw = padded_frame (wef_raw (wefe_frame e))\<rparr>\<rparr>;
         ack = (\<lambda>status. mh_InvokeAll (\<lambda>h. EE_FrameTransmit h \<lparr>efte_timestamp = now, efte_status = status, efte_userContext = wefe_userContext e\<rparr>)
            status (eth_frameTransmitHandlers c))
     in if eth_ethState c = ETH_LinkUp
        then (c, EE_Send (EM_FrameEvent (e\<lparr>wefe_timestamp := now, wefe_direction := DIR_RX\<rparr>))
          # mh_InvokeAll (\<lambda>h. EE_Frame h own) DIR_TX (eth_frameHandlers c) @ ack ETH_Transmitted, None)
        else if eth_ethState c = ETH_LinkDown then (c, ack ETH_StatusLinkDown, None)
        else if eth_ethState c = ETH_Inactive then (c, ack ETH_ControllerInactive, None)
        else (c, [], Some (StateError ''unknown EthernetState value'')))"
  using assms
  by (simp add: eth_trivial_FrameEvent_def eth_trivial_ReceiveMsg_def eth_Receive_FrameEvent_def eth_ReceiveMsgInternal_def
      eth_Receive_FrameTransmitEvent_def ControllerStateToTransmitStatus_def act_seq_def act_when_def Let_def)

definition eth_promise :: "(nat \<Rightarrow> nat) \<Rightarrow> nat \<Rightarrow> (int \<times> byte list) list \<Rightarrow> eth_action \<Rightarrow> eth_controller \<Rightarrow> bool" where
  "eth_promise hid k out a c \<longleftrightarrow> (case a c of (c', evs, err) \<Rightarrow> eth_listens hid k c'
     \<and> concat (map eth_contents (List.map_filter eth_sent evs)) = out \<and> List.map_filter (eth_handled hid k) evs = [])"

lemma eth_promise_quiet: "eth_listens hid k c \<Longrightarrow> holds (eth_quiet hid k) a c \<Longrightarrow> eth_promise hid k [] a c"
  unfolding eth_promise_def holds_def by (auto simp: eth_quiet_def eth_listens_def split: prod.splits)

lemma eth_promise_frame:
  assumes "eth_listens hid k c"
  shows "eth_promise hid k (if eth_ethState c = ETH_LinkUp then [(now, padded_frame raw)] else []) (eth_SendFrameInternal now raw userContext) c"
  using assms
  by (simp add: eth_promise_def eth_SendFrameInternal_def eth_transmission eth_listens_def Let_def)

lemma eth_promise_SendFrame:
  assumes "eth_listens hid k c"
  shows "eth_promise hid k (eth_offered (EO_SendFrame now raw userContext) c) (eth_SendFrame now raw userContext) c"
  using assms eth_promise_frame [OF assms, of now raw userContext] by (auto simp: eth_promise_def eth_SendFrame_def eth_listens_def)

lemma eth_promise_Replay:
  assumes "eth_listens hid k c"
  shows "eth_promise hid k (eth_offered (EO_Replay now direction timestamp frame) c) (eth_ReplayMessage now direction timestamp frame) c"
  using assms eth_promise_frame [OF assms, of now "wef_raw frame" 0]
  by (auto simp: eth_promise_def eth_ReplayMessage_def eth_ReplaySend_def act_when_def eth_listens_def)

lemma eth_promise_frame_handlers:
  assumes "eth_listens hid k c"
  shows "eth_promise hid k [] (eth_AddFrameHandler m) c" "h \<noteq> hid k \<Longrightarrow> eth_promise hid k [] (eth_RemoveFrameHandler h) c"
    "\<not> IsRelevantNetwork (eth_serviceDescriptor c) sd \<Longrightarrow> eth_promise hid k [] (eth_RegisterServiceDiscovery ty sd) c"
proof -
  have ok: "masked_ok (snd (mh_Add m (eth_frameHandlers c)))" "masked_ok (snd (mh_Remove h (eth_frameHandlers c)))"
    using assms by (simp_all add: eth_listens_def)
  show "eth_promise hid k [] (eth_AddFrameHandler m) c"
    using assms ok(1) by (auto simp: eth_promise_def eth_AddFrameHandler_def eth_listens_def mh_Add_def)
  show "h \<noteq> hid k \<Longrightarrow> eth_promise hid k [] (eth_RemoveFrameHandler h) c"
    using assms ok(2) by (auto simp: eth_promise_def eth_RemoveFrameHandler_def eth_listens_def mh_Remove_def act_when_def)
  show "\<not> IsRelevantNetwork (eth_serviceDescriptor c) sd \<Longrightarrow> eth_promise hid k [] (eth_RegisterServiceDiscovery ty sd) c"
    using assms by (simp add: eth_promise_def eth_RegisterServiceDiscovery_def eth_listens_def)
qed

lemma eth_operate_promise: "eth_listens hid k c \<Longrightarrow> eth_allowed hid k op c \<Longrightarrow> eth_promise hid k (eth_offered op c) (eth_operate op) c"
proof -
  assume good: "eth_listens hid k c" and allowed: "eth_allowed hid k op c"
  then have trivial: "IsTrivial (eth_simulationBehavior c)" by (simp add: eth_listens_def)
  show ?thesis using good allowed
    by (cases op) (simp_all del: eth_offered.simps(1,2) add: eth_promise_SendFrame eth_promise_Replay eth_promise_frame_handlers
        eth_promise_quiet eth_handler_operations_quiet eth_mode_quiet trivial)
qed

lemma eth_receive_promise:
  assumes "eth_listens hid k c" "eth_ReceiveMsg False sender m c = (c', evs, err)"
  shows "eth_listens hid k c' \<and> List.map_filter eth_sent evs = [] \<and> List.map_filter (eth_handled hid k) evs = eth_contents m"
proof (cases m)
  case (EM_FrameEvent e)
  have "IsTrivial (eth_simulationBehavior c)" "\<not> IsReplayEnabledFor (eth_replay c) RD_Receive"
    using assms(1) by (simp_all add: eth_listens_def)
  then show ?thesis using assms EM_FrameEvent eth_handled_once [OF assms(1)]
    by (auto simp: eth_Receive_FrameEvent_def eth_ReceiveMsgInternal_def Let_def split: if_splits)
next
  case (EM_FrameTransmitEvent a)
  then show ?thesis using assms holdsD [OF eth_ack_quiet [of hid k sender a c]] by (auto simp: eth_quiet_def eth_listens_def)
next
  case (EM_Status a)
  then show ?thesis using assms holdsD [OF eth_status_quiet [of hid k sender a c]] by (auto simp: eth_quiet_def eth_listens_def)
qed (use assms in simp_all)

interpretation eth: bus_node "eth_listens hid" "eth_allowed hid" eth_operate "eth_ReceiveMsg False" eth_offered eth_sent "eth_handled hid" eth_contents
  for hid
  by unfold_locales (use eth_operate_promise eth_receive_promise in \<open>fastforce simp: eth_promise_def\<close>)+

section \<open>Frames between controllers\<close>


definition example_eth_controller :: eth_controller where
  "example_eth_controller = (EthController_new ServiceDescriptor_new no_replay)
     \<lparr>eth_ethState := ETH_LinkUp, eth_frameHandlers := \<lparr>mh_entries = [(0, DIR_RX)], mh_nextHandlerId = 1\<rparr>\<rparr>"

lemma example_eth_listens: "eth_listens (\<lambda>_. 0) k example_eth_controller"
  by (simp add: eth_listens_def example_eth_controller_def EthController_new_def masked_ok_def)


text \<open>
  The documentation says that without a network simulator the status of a transmission is always \<^verbatim>\<open>Transmitted\<close>. A controller
  that is not active reports \<^verbatim>\<open>ControllerInactive\<close>, and the frame it does not send is traced as transmitted.
\<close>

lemma eth_inactive_traces_frame:
  "let c = example_eth_controller\<lparr>eth_ethState := ETH_Inactive, eth_frameTransmitHandlers := \<lparr>mh_entries = [(0, 255)], mh_nextHandlerId = 1\<rparr>\<rparr>
   in eth_SendFrame 5 [7] 3 c = (c, [EE_Trace DIR_TX 5 [7],
        EE_FrameTransmit 0 \<lparr>efte_timestamp = 5, efte_status = ETH_ControllerInactive, efte_userContext = 3\<rparr>], None)"
  by code_simp

end
