(* ===== verification/FlexrayController.thy ===== *)
theory FlexrayController
  imports SimBehavior FlexraySerdes
begin

text \<open>
  The FlexRay controller, \<^verbatim>\<open>services/flexray/FlexrayController.cpp\<close>, and the checks of its configuration,
  \<^verbatim>\<open>services/flexray/Validation.cpp\<close>. A FlexRay controller works only with a network simulator. Handlers of the user, messages,
  trace records and log lines are events; numbers in log lines are not formatted.
\<close>

section \<open>Checks of the configuration\<close>

text \<open>The checks are done in order, each with its own message. Micro ticks are signed.\<close>

fun check_in_order :: "(bool \<times> string) list \<Rightarrow> unit result" where
  "check_in_order [] = Inr ()"
| "check_in_order ((bad, message) # checks) = (if bad then Inl (ConfigurationError message) else check_in_order checks)"

definition Validate_cluster :: "FlexrayClusterParameters \<Rightarrow> unit result" where
  "Validate_cluster p = check_in_order
     [(fcp_gColdstartAttempts p < 2 \<or> fcp_gColdstartAttempts p > 31, ''gColdstartAttempts must be in range 2 - 31''),
      (fcp_gCycleCountMax p mod 2 \<noteq> 1, ''gCycleCountMax must be an odd value''),
      (fcp_gCycleCountMax p < 7 \<or> fcp_gCycleCountMax p > 63, ''gCycleCountMax must be in range 7, 9, ..., 63''),
      (fcp_gdActionPointOffset p < 1 \<or> fcp_gdActionPointOffset p > 63, ''gdActionPointOffset must be in range 1 - 63''),
      (fcp_gdDynamicSlotIdlePhase p > 2, ''gdDynamicSlotIdlePhase must be in range 0 - 2''),
      (fcp_gdMiniSlot p < 2 \<or> fcp_gdMiniSlot p > 63, ''gdMiniSlot must be in range 2 - 63''),
      (fcp_gdMiniSlotActionPointOffset p < 1 \<or> fcp_gdMiniSlotActionPointOffset p > 31, ''gdMiniSlotActionPointOffset must be in range 1 - 31''),
      (fcp_gdStaticSlot p < 3 \<or> fcp_gdStaticSlot p > 664, ''gdStaticSlot must be in range 3 - 664''),
      (fcp_gdSymbolWindow p > 162, ''gdSymbolWindow must be in range 0 - 162''),
      (fcp_gdSymbolWindowActionPointOffset p < 1 \<or> fcp_gdSymbolWindowActionPointOffset p > 63, ''gdSymbolWindowActionPointOffset must be in range 1 - 63''),
      (fcp_gdTSSTransmitter p < 1 \<or> fcp_gdTSSTransmitter p > 15, ''gdTSSTransmitter must be in range 1 - 15''),
      (fcp_gdWakeupTxActive p < 15 \<or> fcp_gdWakeupTxActive p > 60, ''gdWakeupTxActive must be in range 15 - 60''),
      (fcp_gdWakeupTxIdle p < 45 \<or> fcp_gdWakeupTxIdle p > 180, ''gdWakeupTxIdle must be in range 45 - 180''),
      (fcp_gListenNoise p < 2 \<or> fcp_gListenNoise p > 16, ''gListenNoise must be in range 2 - 16''),
      (fcp_gMacroPerCycle p < 8 \<or> fcp_gMacroPerCycle p > 16000, ''gMacroPerCycle must be in range 8 - 16000''),
      (fcp_gMaxWithoutClockCorrectionFatal p < 1 \<or> fcp_gMaxWithoutClockCorrectionFatal p > 15, ''gMaxWithoutClockCorrectionFatal must be in range 1 - 15''),
      (fcp_gMaxWithoutClockCorrectionPassive p < 1 \<or> fcp_gMaxWithoutClockCorrectionPassive p > 15, ''gMaxWithoutClockCorrectionPassive must be in range 1 - 15''),
      (fcp_gNumberOfMiniSlots p > 7988, ''gNumberOfMiniSlots must be in range 0 - 7988''),
      (fcp_gNumberOfStaticSlots p < 2 \<or> fcp_gNumberOfStaticSlots p > 1023, ''gNumberOfStaticSlots must be in range 2 - 1023''),
      (fcp_gPayloadLengthStatic p > 127, ''gPayloadLengthStatic must be in range 0 - 127''),
      (fcp_gSyncFrameIDCountMax p < 2 \<or> fcp_gSyncFrameIDCountMax p > 15, ''gSyncFrameIDCountMax must be in range 2 - 15'')]"

definition Validate_node :: "FlexrayNodeParameters \<Rightarrow> unit result" where
  "Validate_node p = check_in_order
     [(fnp_pAllowHaltDueToClock p > 1, ''pAllowHaltDueToClock must be 0 or 1''),
      (fnp_pAllowPassiveToActive p > 31, ''pAllowPassiveToActive must be in range 0 - 31''),
      (fnp_pClusterDriftDamping p > 10, ''pClusterDriftDamping must be in range 0 - 10''),
      (sint (fnp_pdAcceptedStartupRange p) < 29 \<or> sint (fnp_pdAcceptedStartupRange p) > 2743, ''pdAcceptedStartupRange must be in range 29 - 2743''),
      (sint (fnp_pdListenTimeout p) < 1926 \<or> sint (fnp_pdListenTimeout p) > 2567692, ''pdListenTimeout must be in range 1926 - 2567692''),
      (fnp_pKeySlotId p > 1023, ''pKeySlotId must be in range 0 - 1023''),
      (fnp_pKeySlotOnlyEnabled p > 1, ''pKeySlotOnlyEnabled must be 0 or 1''),
      (fnp_pKeySlotUsedForStartup p > 1, ''pKeySlotUsedForStartup must be 0 or 1''),
      (fnp_pKeySlotUsedForSync p > 1, ''pKeySlotUsedForSync must be 0 or 1''),
      (fnp_pLatestTx p > 7988, ''pLatestTx must be in range 0 - 7988''),
      (fnp_pMacroInitialOffsetA p < 2 \<or> fnp_pMacroInitialOffsetA p > 68, ''pMacroInitialOffsetA must be in range 2 - 68''),
      (fnp_pMacroInitialOffsetB p < 2 \<or> fnp_pMacroInitialOffsetB p > 68, ''pMacroInitialOffsetB must be in range 2 - 68''),
      (sint (fnp_pMicroInitialOffsetA p) < 0 \<or> sint (fnp_pMicroInitialOffsetA p) > 239, ''pMicroInitialOffsetA must be in range 0 - 239''),
      (sint (fnp_pMicroInitialOffsetB p) < 0 \<or> sint (fnp_pMicroInitialOffsetB p) > 239, ''pMicroInitialOffsetB must be in range 0 - 239''),
      (sint (fnp_pMicroPerCycle p) < 960 \<or> sint (fnp_pMicroPerCycle p) > 1280000, ''pMicroPerCycle must be in range 960 - 1280000''),
      (sint (fnp_pOffsetCorrectionOut p) < 15 \<or> sint (fnp_pOffsetCorrectionOut p) > 16082, ''pOffsetCorrectionOut must be in range 15 - 16082''),
      (fnp_pOffsetCorrectionStart p < 7 \<or> fnp_pOffsetCorrectionStart p > 15999, ''pOffsetCorrectionStart must be in range 7 - 15999''),
      (sint (fnp_pRateCorrectionOut p) < 3 \<or> sint (fnp_pRateCorrectionOut p) > 3846, ''pRateCorrectionOut must be in range 3 - 3846''),
      (fnp_pWakeupChannel p \<noteq> 1 \<and> fnp_pWakeupChannel p \<noteq> 2, ''pWakeupChannel must be either FlexrayChannel A or FlexrayChannel B''),
      (fnp_pWakeupPattern p > 63, ''pWakeupPattern must be in range 0 - 63''),
      (fnp_pSamplesPerMicrotick p < 1 \<or> fnp_pSamplesPerMicrotick p > 2, ''pSamplesPerMicrotick must be 1 or 2'')]"

section \<open>State\<close>

record fr_config =
  frc_clusterParameters :: "FlexrayClusterParameters option"
  frc_nodeParameters :: "FlexrayNodeParameters option"
  frc_txBufferConfigurations :: "FlexrayTxBufferConfig list"

record fr_controller =
  fr_config :: fr_config
  fr_serviceDescriptor :: ServiceDescriptor
  fr_bufferConfigs :: "FlexrayTxBufferConfig list"
  fr_simulatedLinkDetected :: bool
  fr_simulatedLink :: ServiceDescriptor
  fr_frameHandlers :: handlers
  fr_frameTransmitHandlers :: handlers
  fr_symbolHandlers :: handlers
  fr_symbolTransmitHandlers :: handlers
  fr_cycleStartHandlers :: handlers
  fr_pocStatusHandlers :: handlers
  fr_wakeupHandlers :: handlers

definition FlexrayController_new :: "ServiceDescriptor \<Rightarrow> fr_config \<Rightarrow> fr_controller" where
  "FlexrayController_new sd config = \<lparr>fr_config = config, fr_serviceDescriptor = sd, fr_bufferConfigs = [], fr_simulatedLinkDetected = False,
     fr_simulatedLink = ServiceDescriptor_new, fr_frameHandlers = handlers_new, fr_frameTransmitHandlers = handlers_new,
     fr_symbolHandlers = handlers_new, fr_symbolTransmitHandlers = handlers_new, fr_cycleStartHandlers = handlers_new,
     fr_pocStatusHandlers = handlers_new, fr_wakeupHandlers = handlers_new\<rparr>"

datatype fr_message =
    FM_HostCommand FlexrayHostCommand
  | FM_ControllerConfig FlexrayControllerConfig
  | FM_TxBufferConfigUpdate FlexrayTxBufferConfigUpdate
  | FM_TxBufferUpdate WireFlexrayTxBufferUpdate
  | FM_FrameEvent WireFlexrayFrameEvent
  | FM_FrameTransmitEvent WireFlexrayFrameTransmitEvent
  | FM_SymbolEvent FlexraySymbolEvent
  | FM_SymbolTransmitEvent FlexraySymbolEvent
  | FM_CycleStartEvent FlexrayCycleStartEvent
  | FM_PocStatusEvent FlexrayPocStatusEvent

datatype fr_event =
    FE_SendTo string fr_message
  | FE_Frame nat WireFlexrayFrameEvent
  | FE_FrameTransmit nat WireFlexrayFrameTransmitEvent
  | FE_Symbol nat FlexraySymbolEvent
  | FE_SymbolTransmit nat FlexraySymbolEvent
  | FE_CycleStart nat FlexrayCycleStartEvent
  | FE_PocStatus nat FlexrayPocStatusEvent
  | FE_Wakeup nat FlexraySymbolEvent
  | FE_Trace "8 word" int WireFlexrayFrameEvent
  | FE_Warn string
  | FE_Error string

type_synonym fr_action = "(fr_controller, fr_event) action"

section \<open>Network simulator\<close>

definition fr_IsRelevantNetwork :: "ServiceDescriptor \<Rightarrow> fr_controller \<Rightarrow> bool" where
  "fr_IsRelevantNetwork remote c \<longleftrightarrow> sd_serviceType remote = 1 \<and> sd_networkName remote = sd_networkName (fr_serviceDescriptor c)"

definition fr_SetDetailedBehavior :: "ServiceDescriptor \<Rightarrow> fr_action" where
  "fr_SetDetailedBehavior remote = act_modify (\<lambda>c. c\<lparr>fr_simulatedLinkDetected := True, fr_simulatedLink := remote\<rparr>)"

definition fr_RegisterServiceDiscovery :: "32 word \<Rightarrow> ServiceDescriptor \<Rightarrow> fr_action" where
  "fr_RegisterServiceDiscovery discoveryType remote = act_read (\<lambda>c.
     if \<not> fr_simulatedLinkDetected c
     then act_when (discoveryType = ServiceCreated \<and> fr_IsRelevantNetwork remote c) (fr_SetDetailedBehavior remote)
     else act_when (discoveryType = ServiceRemoved \<and> fr_IsRelevantNetwork remote c)
       (act_emit [FE_Error ''The network simulator left the simulation. FlexRay controllers require a running network simulator to operate.'']))"

definition fr_AllowReception :: "ServiceDescriptor \<Rightarrow> fr_controller \<Rightarrow> bool" where
  "fr_AllowReception sender c \<longleftrightarrow> fr_simulatedLinkDetected c \<and> sd_participantName (fr_simulatedLink c) = sd_participantName sender
     \<and> sd_serviceId (fr_serviceDescriptor c) = sd_serviceId sender"

definition fr_SendMsg :: "fr_message \<Rightarrow> fr_action" where
  "fr_SendMsg msg = act_read (\<lambda>c. act_emit [FE_SendTo (sd_participantName (fr_simulatedLink c)) msg])"

section \<open>Operations\<close>

definition IsClusterParametersConfigurable :: "fr_controller \<Rightarrow> bool" where
  "IsClusterParametersConfigurable c \<longleftrightarrow> frc_clusterParameters (fr_config c) = None"

definition IsNodeParametersConfigurable :: "fr_controller \<Rightarrow> bool" where
  "IsNodeParametersConfigurable c \<longleftrightarrow> frc_nodeParameters (fr_config c) = None"

definition IsTxBufferConfigsConfigurable :: "fr_controller \<Rightarrow> bool" where
  "IsTxBufferConfigsConfigurable c \<longleftrightarrow> frc_txBufferConfigurations (fr_config c) = []"

definition WarnOverride :: "string \<Rightarrow> fr_action" where
  "WarnOverride parameterName = act_emit [FE_Warn (''Discarded user-defined configuration of '' @ parameterName
     @ '', as it was already set in the predefined configuration.'')]"

definition fr_Validate :: "unit result \<Rightarrow> fr_action" where
  "fr_Validate r = (case r of Inl e \<Rightarrow> act_throw e | Inr _ \<Rightarrow> act_skip)"

definition fr_Configure :: "FlexrayControllerConfig \<Rightarrow> fr_action" where
  "fr_Configure config = act_read (\<lambda>c.
     let cluster = (case frc_clusterParameters (fr_config c) of None \<Rightarrow> fcc_clusterParams config | Some p \<Rightarrow> p);
         node = (case frc_nodeParameters (fr_config c) of None \<Rightarrow> fcc_nodeParams config | Some p \<Rightarrow> p);
         buffers = (if IsTxBufferConfigsConfigurable c then fcc_bufferConfigs config else frc_txBufferConfigurations (fr_config c));
         cfg = config\<lparr>fcc_clusterParams := cluster, fcc_nodeParams := node, fcc_bufferConfigs := buffers\<rparr>
     in act_all
       [act_when (\<not> IsClusterParametersConfigurable c) (WarnOverride ''clusterParameters''),
        act_when (\<not> IsNodeParametersConfigurable c) (WarnOverride ''NodeParamters''),
        act_when (\<not> IsTxBufferConfigsConfigurable c) (WarnOverride ''TxBufferConfigs''),
        fr_Validate (Validate_cluster (fcc_clusterParams cfg)),
        fr_Validate (Validate_node (fcc_nodeParams cfg)),
        act_modify (\<lambda>c. c\<lparr>fr_bufferConfigs := fcc_bufferConfigs cfg\<rparr>),
        fr_SendMsg (FM_ControllerConfig cfg)])"

definition ReconfigureTxBuffer :: "16 word \<Rightarrow> FlexrayTxBufferConfig \<Rightarrow> fr_action" where
  "ReconfigureTxBuffer txBufferIdx config = act_read (\<lambda>c.
     if unat txBufferIdx \<ge> length (fr_bufferConfigs c)
     then act_seq (act_emit [FE_Error ''FlexrayController::ReconfigureTxBuffer() was called with unconfigured txBufferIdx''])
       (act_throw (OutOfRangeError ''Unconfigured txBufferIdx!''))
     else if \<not> IsTxBufferConfigsConfigurable c
     then act_emit [FE_Error ''ReconfigureTxBuffer() was called on a preconfigured txBuffer. This is not allowed and the reconfiguration will be discarded.'']
     else fr_SendMsg (FM_TxBufferConfigUpdate \<lparr>ftbcu_txBufferIndex = txBufferIdx, ftbcu_txBufferConfig = config\<rparr>))"

definition warn_payload :: "FlexrayClusterParameters \<Rightarrow> FlexrayTxBufferConfig \<Rightarrow> byte list \<Rightarrow> fr_action" where
  "warn_payload p buffer payload =
     (let maxLength = unat (fcp_gPayloadLengthStatic p) * 2
      in act_when (ftbc_slotId buffer \<le> fcp_gNumberOfStaticSlots p) (act_seq
        (act_when (length payload > maxLength) (act_emit [FE_Warn ''The payload will be truncated.'']))
        (act_when (length payload < maxLength) (act_emit [FE_Warn ''The payload will be zero padded.'']))))"

definition fr_UpdateTxBuffer :: "WireFlexrayTxBufferUpdate \<Rightarrow> fr_action" where
  "fr_UpdateTxBuffer update = act_read (\<lambda>c.
     if unat (wftbu_txBufferIndex update) \<ge> length (fr_bufferConfigs c)
     then act_seq (act_emit [FE_Error ''FlexrayController::UpdateTxBuffer() was called with unconfigured txBufferIndex''])
       (act_throw (OutOfRangeError ''Unconfigured txBufferIndex!''))
     else act_seq
       (case frc_clusterParameters (fr_config c) of None \<Rightarrow> act_skip
        | Some p \<Rightarrow> warn_payload p (fr_bufferConfigs c ! unat (wftbu_txBufferIndex update)) (wftbu_payload update))
       (fr_SendMsg (FM_TxBufferUpdate update)))"

definition fr_Command :: "8 word \<Rightarrow> fr_action" where
  "fr_Command command = fr_SendMsg (FM_HostCommand \<lparr>fhc_command = command\<rparr>)"

definition fr_Run :: fr_action where "fr_Run = fr_Command 0"
definition fr_DeferredHalt :: fr_action where "fr_DeferredHalt = fr_Command 1"
definition fr_Freeze :: fr_action where "fr_Freeze = fr_Command 2"
definition fr_AllowColdstart :: fr_action where "fr_AllowColdstart = fr_Command 3"
definition fr_AllSlots :: fr_action where "fr_AllSlots = fr_Command 4"
definition fr_Wakeup :: fr_action where "fr_Wakeup = fr_Command 5"

section \<open>Reception\<close>

abbreviation (input) FR_Wus :: "8 word" where "FR_Wus \<equiv> 1"
abbreviation (input) FR_Wudop :: "8 word" where "FR_Wudop \<equiv> 2"

definition fr_call :: "(fr_controller \<Rightarrow> handlers) \<Rightarrow> (nat \<Rightarrow> fr_event) \<Rightarrow> fr_action" where
  "fr_call callbacks e = act_read (\<lambda>c. act_emit (h_InvokeAll e (callbacks c)))"

definition fr_Receive_FrameEvent :: "WireFlexrayFrameEvent \<Rightarrow> fr_action" where
  "fr_Receive_FrameEvent msg = act_seq (act_emit [FE_Trace DIR_RX (wffe_timestamp msg) msg]) (fr_call fr_frameHandlers (\<lambda>h. FE_Frame h msg))"

definition fr_Receive_FrameTransmitEvent :: "WireFlexrayFrameTransmitEvent \<Rightarrow> fr_action" where
  "fr_Receive_FrameTransmitEvent msg = act_seq
     (act_emit [FE_Trace DIR_TX (wffte_timestamp msg)
       \<lparr>wffe_timestamp = wffte_timestamp msg, wffe_channel = wffte_channel msg, wffe_frame = wffte_frame msg\<rparr>])
     (fr_call fr_frameTransmitHandlers (\<lambda>h. FE_FrameTransmit h msg))"

definition fr_Receive_SymbolEvent :: "FlexraySymbolEvent \<Rightarrow> fr_action" where
  "fr_Receive_SymbolEvent msg = act_seq
     (act_when (fse_pattern msg = FR_Wus \<or> fse_pattern msg = FR_Wudop) (fr_call fr_wakeupHandlers (\<lambda>h. FE_Wakeup h msg)))
     (fr_call fr_symbolHandlers (\<lambda>h. FE_Symbol h msg))"

fun fr_received :: "fr_message \<Rightarrow> fr_action" where
  "fr_received (FM_FrameEvent msg) = fr_Receive_FrameEvent msg"
| "fr_received (FM_FrameTransmitEvent msg) = fr_Receive_FrameTransmitEvent msg"
| "fr_received (FM_SymbolEvent msg) = fr_Receive_SymbolEvent msg"
| "fr_received (FM_SymbolTransmitEvent msg) = fr_call fr_symbolTransmitHandlers (\<lambda>h. FE_SymbolTransmit h msg)"
| "fr_received (FM_CycleStartEvent msg) = fr_call fr_cycleStartHandlers (\<lambda>h. FE_CycleStart h msg)"
| "fr_received (FM_PocStatusEvent msg) = fr_call fr_pocStatusHandlers (\<lambda>h. FE_PocStatus h msg)"
| "fr_received _ = act_skip"

definition fr_ReceiveMsg :: "ServiceDescriptor \<Rightarrow> fr_message \<Rightarrow> fr_action" where
  "fr_ReceiveMsg sender msg = act_read (\<lambda>c. if \<not> fr_AllowReception sender c then act_skip else fr_received msg)"

section \<open>Handlers\<close>

datatype fr_handler_kind = FH_Frame | FH_FrameTransmit | FH_Wakeup | FH_PocStatus | FH_Symbol | FH_SymbolTransmit | FH_CycleStart

fun fr_handlers :: "fr_handler_kind \<Rightarrow> fr_controller \<Rightarrow> handlers" where
  "fr_handlers FH_Frame c = fr_frameHandlers c"
| "fr_handlers FH_FrameTransmit c = fr_frameTransmitHandlers c"
| "fr_handlers FH_Wakeup c = fr_wakeupHandlers c"
| "fr_handlers FH_PocStatus c = fr_pocStatusHandlers c"
| "fr_handlers FH_Symbol c = fr_symbolHandlers c"
| "fr_handlers FH_SymbolTransmit c = fr_symbolTransmitHandlers c"
| "fr_handlers FH_CycleStart c = fr_cycleStartHandlers c"

fun set_fr_handlers :: "fr_handler_kind \<Rightarrow> handlers \<Rightarrow> fr_controller \<Rightarrow> fr_controller" where
  "set_fr_handlers FH_Frame hs c = c\<lparr>fr_frameHandlers := hs\<rparr>"
| "set_fr_handlers FH_FrameTransmit hs c = c\<lparr>fr_frameTransmitHandlers := hs\<rparr>"
| "set_fr_handlers FH_Wakeup hs c = c\<lparr>fr_wakeupHandlers := hs\<rparr>"
| "set_fr_handlers FH_PocStatus hs c = c\<lparr>fr_pocStatusHandlers := hs\<rparr>"
| "set_fr_handlers FH_Symbol hs c = c\<lparr>fr_symbolHandlers := hs\<rparr>"
| "set_fr_handlers FH_SymbolTransmit hs c = c\<lparr>fr_symbolTransmitHandlers := hs\<rparr>"
| "set_fr_handlers FH_CycleStart hs c = c\<lparr>fr_cycleStartHandlers := hs\<rparr>"

fun fr_handler_name :: "fr_handler_kind \<Rightarrow> string" where
  "fr_handler_name FH_Frame = ''RemoveFrameHandler''"
| "fr_handler_name FH_FrameTransmit = ''RemoveFrameTransmitHandler''"
| "fr_handler_name FH_Wakeup = ''RemoveWakeupHandler''"
| "fr_handler_name FH_PocStatus = ''RemovePocStatusHandler''"
| "fr_handler_name FH_Symbol = ''RemoveSymbolHandler''"
| "fr_handler_name FH_SymbolTransmit = ''RemoveSymbolTransmitHandler''"
| "fr_handler_name FH_CycleStart = ''RemoveCycleStartHandler''"

definition fr_AddHandler :: "fr_handler_kind \<Rightarrow> fr_action" where
  "fr_AddHandler k = act_modify (\<lambda>c. set_fr_handlers k (snd (h_Add (fr_handlers k c))) c)"

definition fr_RemoveHandler :: "fr_handler_kind \<Rightarrow> nat \<Rightarrow> fr_action" where
  "fr_RemoveHandler k handlerId = act_read (\<lambda>c. case h_Remove handlerId (fr_handlers k c) of (removed, hs) \<Rightarrow>
     act_seq (act_modify (set_fr_handlers k hs))
       (act_when (\<not> removed) (act_emit [FE_Warn (fr_handler_name k @ '' failed: Unknown HandlerId.'')])))"


section \<open>The ranges of the parameters\<close>

text \<open>
  The ranges that \<^verbatim>\<open>FlexrayDatatypes.hpp\<close> documents for the parameters the checks look at, as a value with its bounds.
\<close>

definition in_ranges :: "(int \<times> int \<times> int) list \<Rightarrow> bool" where
  "in_ranges rs \<longleftrightarrow> (\<forall>(v, lo, hi) \<in> set rs. lo \<le> v \<and> v \<le> hi)"

definition cluster_in_range :: "FlexrayClusterParameters \<Rightarrow> bool" where
  "cluster_in_range p \<longleftrightarrow> in_ranges
     [(uint (fcp_gColdstartAttempts p), 2, 31), (uint (fcp_gCycleCountMax p), 7, 63), (uint (fcp_gdActionPointOffset p), 1, 63),
      (uint (fcp_gdDynamicSlotIdlePhase p), 0, 2), (uint (fcp_gdMiniSlot p), 2, 63), (uint (fcp_gdMiniSlotActionPointOffset p), 1, 31),
      (uint (fcp_gdStaticSlot p), 3, 664), (uint (fcp_gdSymbolWindow p), 0, 162), (uint (fcp_gdSymbolWindowActionPointOffset p), 1, 63),
      (uint (fcp_gdTSSTransmitter p), 1, 15), (uint (fcp_gdWakeupTxActive p), 15, 60), (uint (fcp_gdWakeupTxIdle p), 45, 180),
      (uint (fcp_gListenNoise p), 2, 16), (uint (fcp_gMacroPerCycle p), 8, 16000), (uint (fcp_gMaxWithoutClockCorrectionFatal p), 1, 15),
      (uint (fcp_gMaxWithoutClockCorrectionPassive p), 1, 15), (uint (fcp_gNumberOfMiniSlots p), 0, 7988),
      (uint (fcp_gNumberOfStaticSlots p), 2, 1023), (uint (fcp_gPayloadLengthStatic p), 0, 127), (uint (fcp_gSyncFrameIDCountMax p), 2, 15)]
     \<and> odd (uint (fcp_gCycleCountMax p))"

definition node_in_range :: "FlexrayNodeParameters \<Rightarrow> bool" where
  "node_in_range p \<longleftrightarrow> in_ranges
     [(uint (fnp_pAllowHaltDueToClock p), 0, 1), (uint (fnp_pAllowPassiveToActive p), 0, 31), (uint (fnp_pClusterDriftDamping p), 0, 10),
      (sint (fnp_pdAcceptedStartupRange p), 29, 2743), (sint (fnp_pdListenTimeout p), 1926, 2567692), (uint (fnp_pKeySlotId p), 0, 1023),
      (uint (fnp_pKeySlotOnlyEnabled p), 0, 1), (uint (fnp_pKeySlotUsedForStartup p), 0, 1), (uint (fnp_pKeySlotUsedForSync p), 0, 1),
      (uint (fnp_pLatestTx p), 0, 7988), (uint (fnp_pMacroInitialOffsetA p), 2, 68), (uint (fnp_pMacroInitialOffsetB p), 2, 68),
      (sint (fnp_pMicroInitialOffsetA p), 0, 239), (sint (fnp_pMicroInitialOffsetB p), 0, 239), (sint (fnp_pMicroPerCycle p), 960, 1280000),
      (sint (fnp_pOffsetCorrectionOut p), 15, 16082), (uint (fnp_pOffsetCorrectionStart p), 7, 15999), (sint (fnp_pRateCorrectionOut p), 3, 3846),
      (uint (fnp_pWakeupChannel p), 1, 2), (uint (fnp_pWakeupPattern p), 0, 63), (uint (fnp_pSamplesPerMicrotick p), 1, 2)]"

lemma in_ranges_simps [simp]: "in_ranges []" "in_ranges ((v, lo, hi) # rs) \<longleftrightarrow> lo \<le> v \<and> v \<le> hi \<and> in_ranges rs"
  by (auto simp: in_ranges_def)

lemma check_in_order_ok: "check_in_order checks = Inr u \<longleftrightarrow> (\<forall>(bad, message) \<in> set checks. \<not> bad)"
  by (induction checks rule: check_in_order.induct) auto

lemma Validate_cluster_iff: "Validate_cluster p = Inr u \<longleftrightarrow> cluster_in_range p"
  unfolding Validate_cluster_def cluster_in_range_def
  by (simp add: check_in_order_ok word_less_def not_less word_le_def) (auto simp: word_uint_eq_iff uint_mod odd_iff_mod_2_eq_one)

lemma Validate_node_iff: "Validate_node p = Inr u \<longleftrightarrow> node_in_range p"
proof -
  have "w = 1 \<or> w = 2 \<longleftrightarrow> 1 \<le> uint w \<and> uint w \<le> 2" for w :: "32 word"
    by (auto simp: word_uint_eq_iff)
  then show ?thesis unfolding Validate_node_def node_in_range_def
    by (simp add: check_in_order_ok word_less_def not_less word_le_def) auto
qed

section \<open>What the simulator gets\<close>

datatype fr_operation =
    FO_Configure FlexrayControllerConfig
  | FO_ReconfigureTxBuffer "16 word" FlexrayTxBufferConfig
  | FO_UpdateTxBuffer WireFlexrayTxBufferUpdate
  | FO_Run | FO_DeferredHalt | FO_Freeze | FO_AllowColdstart | FO_AllSlots | FO_Wakeup
  | FO_Discovery "32 word" ServiceDescriptor
  | FO_Receive ServiceDescriptor fr_message
  | FO_AddHandler fr_handler_kind
  | FO_RemoveHandler fr_handler_kind nat

fun fr_operate :: "fr_operation \<Rightarrow> fr_action" where
  "fr_operate (FO_Configure config) = fr_Configure config"
| "fr_operate (FO_ReconfigureTxBuffer i config) = ReconfigureTxBuffer i config"
| "fr_operate (FO_UpdateTxBuffer update) = fr_UpdateTxBuffer update"
| "fr_operate FO_Run = fr_Run"
| "fr_operate FO_DeferredHalt = fr_DeferredHalt"
| "fr_operate FO_Freeze = fr_Freeze"
| "fr_operate FO_AllowColdstart = fr_AllowColdstart"
| "fr_operate FO_AllSlots = fr_AllSlots"
| "fr_operate FO_Wakeup = fr_Wakeup"
| "fr_operate (FO_Discovery ty sd) = fr_RegisterServiceDiscovery ty sd"
| "fr_operate (FO_Receive sender msg) = fr_ReceiveMsg sender msg"
| "fr_operate (FO_AddHandler k) = fr_AddHandler k"
| "fr_operate (FO_RemoveHandler k h) = fr_RemoveHandler k h"

text \<open>What a message to the simulator promises, given the state of the controller after it was sent.\<close>

fun fr_promised :: "fr_controller \<Rightarrow> fr_message \<Rightarrow> bool" where
  "fr_promised c (FM_ControllerConfig cfg) \<longleftrightarrow> cluster_in_range (fcc_clusterParams cfg) \<and> node_in_range (fcc_nodeParams cfg)
     \<and> fcc_bufferConfigs cfg = fr_bufferConfigs c
     \<and> (\<forall>p. frc_clusterParameters (fr_config c) = Some p \<longrightarrow> fcc_clusterParams cfg = p)
     \<and> (\<forall>p. frc_nodeParameters (fr_config c) = Some p \<longrightarrow> fcc_nodeParams cfg = p)
     \<and> (frc_txBufferConfigurations (fr_config c) \<noteq> [] \<longrightarrow> fcc_bufferConfigs cfg = frc_txBufferConfigurations (fr_config c))"
| "fr_promised c (FM_TxBufferConfigUpdate u) \<longleftrightarrow> unat (ftbcu_txBufferIndex u) < length (fr_bufferConfigs c) \<and> frc_txBufferConfigurations (fr_config c) = []"
| "fr_promised c (FM_TxBufferUpdate u) \<longleftrightarrow> unat (wftbu_txBufferIndex u) < length (fr_bufferConfigs c)"
| "fr_promised c (FM_HostCommand cmd) \<longleftrightarrow> fhc_command cmd \<le> 5"
| "fr_promised c _ \<longleftrightarrow> False"

definition fr_sound :: "fr_controller \<Rightarrow> fr_event list \<Rightarrow> error option \<Rightarrow> fr_controller \<Rightarrow> bool" where
  "fr_sound c evs err c' \<longleftrightarrow> (\<forall>link msg. FE_SendTo link msg \<in> set evs \<longrightarrow> err = None \<and> link = sd_participantName (fr_simulatedLink c') \<and> fr_promised c' msg)
     \<and> (err \<noteq> None \<longrightarrow> c' = c)"

lemma fr_Configure_outcome:
  assumes "fr_Configure config c = (c', evs, err)"
  obtains cfg warnings where "set warnings \<subseteq> range FE_Warn"
    "fcc_clusterParams cfg = (case frc_clusterParameters (fr_config c) of None \<Rightarrow> fcc_clusterParams config | Some p \<Rightarrow> p)"
    "fcc_nodeParams cfg = (case frc_nodeParameters (fr_config c) of None \<Rightarrow> fcc_nodeParams config | Some p \<Rightarrow> p)"
    "fcc_bufferConfigs cfg = (if frc_txBufferConfigurations (fr_config c) = [] then fcc_bufferConfigs config else frc_txBufferConfigurations (fr_config c))"
    "cluster_in_range (fcc_clusterParams cfg) \<and> node_in_range (fcc_nodeParams cfg) \<and> c' = c\<lparr>fr_bufferConfigs := fcc_bufferConfigs cfg\<rparr>
       \<and> evs = warnings @ [FE_SendTo (sd_participantName (fr_simulatedLink c)) (FM_ControllerConfig cfg)] \<and> err = None
     \<or> c' = c \<and> evs = warnings \<and> err \<noteq> None"
proof -
  define cfg where "cfg = config\<lparr>
    fcc_clusterParams := (case frc_clusterParameters (fr_config c) of None \<Rightarrow> fcc_clusterParams config | Some p \<Rightarrow> p),
    fcc_nodeParams := (case frc_nodeParameters (fr_config c) of None \<Rightarrow> fcc_nodeParams config | Some p \<Rightarrow> p),
    fcc_bufferConfigs := (if IsTxBufferConfigsConfigurable c then fcc_bufferConfigs config else frc_txBufferConfigurations (fr_config c))\<rparr>"
  define w where "w = (\<lambda>b name. if b then [] else [FE_Warn (''Discarded user-defined configuration of '' @ name
     @ '', as it was already set in the predefined configuration.'')])"
  have warn: "act_when (\<not> b) (WarnOverride name) = act_emit (w b name)" for b name
    by (rule ext) (simp add: act_when_def WarnOverride_def w_def)
  define warnings where "warnings = w (IsClusterParametersConfigurable c) ''clusterParameters'' @ w (IsNodeParametersConfigurable c) ''NodeParamters''
    @ w (IsTxBufferConfigsConfigurable c) ''TxBufferConfigs''"
  have "fr_Configure config c = (case Validate_cluster (fcc_clusterParams cfg) of Inl e \<Rightarrow> (c, warnings, Some e)
      | Inr _ \<Rightarrow> (case Validate_node (fcc_nodeParams cfg) of Inl e \<Rightarrow> (c, warnings, Some e)
      | Inr _ \<Rightarrow> (c\<lparr>fr_bufferConfigs := fcc_bufferConfigs cfg\<rparr>,
          warnings @ [FE_SendTo (sd_participantName (fr_simulatedLink c)) (FM_ControllerConfig cfg)], None)))"
    unfolding fr_Configure_def Let_def act_read_def cfg_def [symmetric]
    by (simp add: warn warnings_def fr_Validate_def fr_SendMsg_def split: sum.split)
  moreover have "set warnings \<subseteq> range FE_Warn" by (simp add: warnings_def w_def)
  ultimately show ?thesis using assms Validate_cluster_iff Validate_node_iff
    by (intro that [of warnings cfg]) (auto simp: cfg_def IsTxBufferConfigsConfigurable_def split: sum.splits)
qed

lemma fr_sound_Configure: "holds fr_sound (fr_Configure config) c"
proof (rule holdsI)
  fix c' evs err
  assume "fr_Configure config c = (c', evs, err)"
  then show "fr_sound c evs err c'"
    by (rule fr_Configure_outcome) (auto simp: fr_sound_def)
qed

lemma fr_sound_buffers:
  "holds fr_sound (ReconfigureTxBuffer i config) c" "holds fr_sound (fr_UpdateTxBuffer update) c"
  by (auto simp: holds_def fr_sound_def ReconfigureTxBuffer_def fr_UpdateTxBuffer_def warn_payload_def fr_SendMsg_def act_when_def act_seq_def Let_def
      IsTxBufferConfigsConfigurable_def split: option.split)

lemma fr_sound_commands:
  "holds fr_sound fr_Run c" "holds fr_sound fr_DeferredHalt c" "holds fr_sound fr_Freeze c" "holds fr_sound fr_AllowColdstart c"
  "holds fr_sound fr_AllSlots c" "holds fr_sound fr_Wakeup c"
  by (simp_all add: holds_def fr_sound_def fr_Run_def fr_DeferredHalt_def fr_Freeze_def fr_AllowColdstart_def fr_AllSlots_def fr_Wakeup_def
      fr_Command_def fr_SendMsg_def word_le_def)

lemma fr_sound_other:
  "holds fr_sound (fr_RegisterServiceDiscovery ty sd) c" "holds fr_sound (fr_ReceiveMsg sender msg) c"
  "holds fr_sound (fr_AddHandler k) c" "holds fr_sound (fr_RemoveHandler k h) c"
proof -
  show "holds fr_sound (fr_RegisterServiceDiscovery ty sd) c" "holds fr_sound (fr_AddHandler k) c" "holds fr_sound (fr_RemoveHandler k h) c"
    by (auto simp: holds_def fr_sound_def fr_RegisterServiceDiscovery_def fr_SetDetailedBehavior_def fr_AddHandler_def fr_RemoveHandler_def
        act_when_def h_Remove_def)
  show "holds fr_sound (fr_ReceiveMsg sender msg) c"
    by (cases msg) (auto simp: holds_def fr_sound_def fr_ReceiveMsg_def fr_Receive_FrameEvent_def fr_Receive_FrameTransmitEvent_def
        fr_Receive_SymbolEvent_def fr_call_def h_InvokeAll_def act_when_def)
qed

lemma fr_sound_operate: "holds fr_sound (fr_operate op) c"
  by (cases op) (simp_all add: fr_sound_Configure fr_sound_buffers fr_sound_commands fr_sound_other)

text \<open>
  C38: Whatever is called on a FlexRay controller in whatever state, the simulator gets only configurations whose cluster and node
  parameters are in the ranges of the FlexRay specification and agree with the predefined ones, and only updates of buffers that are
  configured; a call that throws sends nothing and leaves the controller as it was.
\<close>

theorem flexray_messages_valid:
  assumes "fr_operate op c = (c', evs, err)"
  shows "fr_sound c evs err c'"
  using holdsD [OF fr_sound_operate assms] .


definition example_cluster :: FlexrayClusterParameters where
  "example_cluster = \<lparr>fcp_gColdstartAttempts = 2, fcp_gCycleCountMax = 7, fcp_gdActionPointOffset = 1, fcp_gdDynamicSlotIdlePhase = 0,
     fcp_gdMiniSlot = 2, fcp_gdMiniSlotActionPointOffset = 1, fcp_gdStaticSlot = 3, fcp_gdSymbolWindow = 0,
     fcp_gdSymbolWindowActionPointOffset = 1, fcp_gdTSSTransmitter = 1, fcp_gdWakeupTxActive = 15, fcp_gdWakeupTxIdle = 45,
     fcp_gListenNoise = 2, fcp_gMacroPerCycle = 8, fcp_gMaxWithoutClockCorrectionFatal = 1, fcp_gMaxWithoutClockCorrectionPassive = 1,
     fcp_gNumberOfMiniSlots = 0, fcp_gNumberOfStaticSlots = 2, fcp_gPayloadLengthStatic = 0, fcp_gSyncFrameIDCountMax = 2\<rparr>"

definition example_node :: FlexrayNodeParameters where
  "example_node = \<lparr>fnp_pAllowHaltDueToClock = 0, fnp_pAllowPassiveToActive = 0, fnp_pChannels = 1, fnp_pClusterDriftDamping = 0,
     fnp_pdAcceptedStartupRange = 29, fnp_pdListenTimeout = 1926, fnp_pKeySlotId = 0, fnp_pKeySlotOnlyEnabled = 0,
     fnp_pKeySlotUsedForStartup = 0, fnp_pKeySlotUsedForSync = 0, fnp_pLatestTx = 0, fnp_pMacroInitialOffsetA = 2,
     fnp_pMacroInitialOffsetB = 2, fnp_pMicroInitialOffsetA = 0, fnp_pMicroInitialOffsetB = 0, fnp_pMicroPerCycle = 960,
     fnp_pOffsetCorrectionOut = 15, fnp_pOffsetCorrectionStart = 7, fnp_pRateCorrectionOut = 3, fnp_pWakeupChannel = 1,
     fnp_pWakeupPattern = 0, fnp_pdMicrotick = 1, fnp_pSamplesPerMicrotick = 1, fnp_pSecondKeySlotId = 0, fnp_pTwoKeySlotMode = 0\<rparr>"

definition example_flexray :: fr_controller where
  "example_flexray = FlexrayController_new ServiceDescriptor_new
     \<lparr>frc_clusterParameters = Some example_cluster, frc_nodeParameters = None, frc_txBufferConfigurations = []\<rparr>"

definition example_buffer :: FlexrayTxBufferConfig where
  "example_buffer = \<lparr>ftbc_channels = 1, ftbc_slotId = 1, ftbc_offset = 0, ftbc_repetition = 1, ftbc_hasPayloadPreambleIndicator = False,
     ftbc_headerCrc = 5, ftbc_transmissionMode = 0\<rparr>"

definition example_flexray_config :: FlexrayControllerConfig where
  "example_flexray_config = \<lparr>fcc_clusterParams = example_cluster\<lparr>fcp_gdMiniSlot := 9\<rparr>, fcc_nodeParams = example_node, fcc_bufferConfigs = [example_buffer]\<rparr>"

theorem flexray_messages_valid_witness:
  "let c' = example_flexray\<lparr>fr_bufferConfigs := [example_buffer]\<rparr>;
       evs = [FE_Warn ''Discarded user-defined configuration of clusterParameters, as it was already set in the predefined configuration.'',
              FE_SendTo [] (FM_ControllerConfig (example_flexray_config\<lparr>fcc_clusterParams := example_cluster\<rparr>))]
   in fr_operate (FO_Configure example_flexray_config) example_flexray = (c', evs, None) \<and> fr_sound example_flexray evs None c'"
proof -
  have "fr_operate (FO_Configure example_flexray_config) example_flexray =
     (example_flexray\<lparr>fr_bufferConfigs := [example_buffer]\<rparr>,
      [FE_Warn ''Discarded user-defined configuration of clusterParameters, as it was already set in the predefined configuration.'',
       FE_SendTo [] (FM_ControllerConfig (example_flexray_config\<lparr>fcc_clusterParams := example_cluster\<rparr>))], None)"
    by code_simp
  with flexray_messages_valid show ?thesis unfolding Let_def by blast
qed

text \<open>
  The documented ranges of \<^verbatim>\<open>pChannels\<close>, \<^verbatim>\<open>pSecondKeySlotId\<close> and \<^verbatim>\<open>pTwoKeySlotMode\<close> are not checked.
\<close>

lemma flexray_unchecked_parameters:
  "Validate_node (example_node\<lparr>fnp_pChannels := 9, fnp_pSecondKeySlotId := 5000, fnp_pTwoKeySlotMode := 7\<rparr>) = Inr ()"
  by code_simp

text \<open>
  A reconfigured buffer keeps its old slot on record: after buffer 0 has moved out of the static segment an update of it is still warned
  about as one of the static segment.
\<close>

lemma flexray_stale_buffer_config:
  "let c = example_flexray\<lparr>fr_bufferConfigs := [example_buffer]\<rparr>;
       update = \<lparr>wftbu_txBufferIndex = 0, wftbu_payloadDataValid = True, wftbu_payload = [1, 2]\<rparr>
   in fst (fr_operate (FO_ReconfigureTxBuffer 0 (example_buffer\<lparr>ftbc_slotId := 9\<rparr>)) c) = c
      \<and> fr_operate (FO_UpdateTxBuffer update) c = (c, [FE_Warn ''The payload will be truncated.'', FE_SendTo [] (FM_TxBufferUpdate update)], None)"
  by code_simp

end
