(* ===== verification/Link.thy ===== *)
theory Link
  imports Endpoint
begin

text \<open>
  The links of a participant (\<^verbatim>\<open>core/vasio/SilKitLink.hpp\<close>, \<^verbatim>\<open>VAsioTransmitter.hpp\<close>): for every message type and network name one link hands
  the messages of local services to remote and local receivers, and those of remote services to local receivers. A remote receiver is a
  peer, known by its number, with the index of the receiver there. Local receivers are user code: they are known by the
  number of the object and its descriptor, and \<open>thrown\<close> says which exception a receiver throws for a message. The messages of a type
  without time stamp have the stamp \<open>None\<close>. The traits of the message types are those of \<^verbatim>\<open>core/internal/traits\<close>.
\<close>

section \<open>Message types\<close>

record msg_traits =
  mt_TypeName :: string
  mt_SerdesName :: string
  mt_Version :: nat
  mt_HistSize :: nat
  mt_IsSelfDeliveryEnforced :: bool
  mt_IsSelfDeliveryForbidden :: bool

definition plain_traits :: "string \<Rightarrow> string \<Rightarrow> nat \<Rightarrow> msg_traits" where
  "plain_traits typeName serdesName version = \<lparr>mt_TypeName = typeName, mt_SerdesName = serdesName, mt_Version = version, mt_HistSize = 0,
     mt_IsSelfDeliveryEnforced = False, mt_IsSelfDeliveryForbidden = False\<rparr>"

definition SilKitMessageTypes :: "msg_traits list" where
  "SilKitMessageTypes =
     [plain_traits ''SilKit::Services::Logging::LogMsg'' ''LOGMSG'' 1,
      plain_traits ''SilKit::Services::Orchestration::NextSimTask'' ''NEXTSIMTASK'' 1,
      (plain_traits ''SilKit::Services::Orchestration::SystemCommand'' ''SYSTEMCOMMAND'' 1)\<lparr>mt_IsSelfDeliveryForbidden := True\<rparr>,
      (plain_traits ''SilKit::Services::Orchestration::ParticipantStatus'' ''PARTICIPANTSTATUS'' 1)\<lparr>mt_HistSize := 1, mt_IsSelfDeliveryEnforced := True\<rparr>,
      (plain_traits ''SilKit::Services::Orchestration::WorkflowConfiguration'' ''WORKFLOWCONFIGURATION'' 1)\<lparr>mt_HistSize := 1\<rparr>,
      (plain_traits ''SilKit::Services::PubSub::WireDataMessageEvent'' ''DATAMESSAGEEVENT'' 1)\<lparr>mt_HistSize := 1\<rparr>,
      plain_traits ''SilKit::Services::Rpc::FunctionCall'' ''FUNCTIONCALL'' 1,
      plain_traits ''SilKit::Services::Rpc::FunctionCallResponse'' ''FUNCTIONCALLRESPONSE'' 1,
      plain_traits ''SilKit::Services::Can::WireCanFrameEvent'' ''CANFRAMEEVENT'' 1,
      plain_traits ''SilKit::Services::Can::CanFrameTransmitEvent'' ''CANFRAMETRANSMITEVENT'' 1,
      plain_traits ''SilKit::Services::Can::CanControllerStatus'' ''CANCONTROLLERSTATUS'' 1,
      plain_traits ''SilKit::Services::Can::CanConfigureBaudrate'' ''CANCONFIGUREBAUDRATE'' 1,
      plain_traits ''SilKit::Services::Can::CanSetControllerMode'' ''CANSETCONTROLLERMODE'' 1,
      plain_traits ''SilKit::Services::Ethernet::WireEthernetFrameEvent'' ''ETHERNETFRAMEEVENT'' 1,
      plain_traits ''SilKit::Services::Ethernet::EthernetFrameTransmitEvent'' ''ETHERNETFRAMETRANSMITEVENT'' 1,
      plain_traits ''SilKit::Services::Ethernet::EthernetStatus'' ''ETHERNETSTATUS'' 1,
      plain_traits ''SilKit::Services::Ethernet::EthernetSetMode'' ''ETHERNETSETMODE'' 1,
      plain_traits ''SilKit::Services::Lin::LinSendFrameRequest'' ''SENDFRAMEREQUEST'' 1,
      (plain_traits ''SilKit::Services::Lin::LinSendFrameHeaderRequest'' ''SENDFRAMEHEADERREQUEST'' 1)\<lparr>mt_IsSelfDeliveryEnforced := True\<rparr>,
      plain_traits ''SilKit::Services::Lin::LinTransmission'' ''TRANSMISSION'' 1,
      plain_traits ''SilKit::Services::Lin::LinWakeupPulse'' ''WAKEUPPULSE'' 1,
      (plain_traits ''SilKit::Services::Lin::WireLinControllerConfig'' ''CONTROLLERCONFIG'' 1)\<lparr>mt_HistSize := 1\<rparr>,
      plain_traits ''SilKit::Services::Lin::LinControllerStatusUpdate'' ''CONTROLLERSTATUSUPDATE'' 1,
      plain_traits ''SilKit::Services::Lin::LinFrameResponseUpdate'' ''FRAMERESPONSEUPDATE'' 1,
      plain_traits ''SilKit::Services::Flexray::WireFlexrayFrameEvent'' ''FRMESSAGE'' 1,
      plain_traits ''SilKit::Services::Flexray::WireFlexrayFrameTransmitEvent'' ''FRMESSAGEACK'' 1,
      plain_traits ''SilKit::Services::Flexray::FlexraySymbolEvent'' ''FRSYMBOL'' 1,
      plain_traits ''SilKit::Services::Flexray::FlexraySymbolTransmitEvent'' ''FRSYMBOLACK'' 1,
      plain_traits ''SilKit::Services::Flexray::FlexrayCycleStartEvent'' ''CYCLESTART'' 1,
      plain_traits ''SilKit::Services::Flexray::FlexrayHostCommand'' ''HOSTCOMMAND'' 1,
      plain_traits ''SilKit::Services::Flexray::FlexrayControllerConfig'' ''CONTROLLERCONFIG'' 1,
      plain_traits ''SilKit::Services::Flexray::FlexrayTxBufferConfigUpdate'' ''TXBUFFERCONFIGUPDATE'' 1,
      plain_traits ''SilKit::Services::Flexray::WireFlexrayTxBufferUpdate'' ''TXBUFFERUPDATE'' 1,
      plain_traits ''SilKit::Services::Flexray::FlexrayPocStatusEvent'' ''POCSTATUS'' 1,
      (plain_traits ''SilKit::Core::Discovery::ParticipantDiscoveryEvent'' ''SERVICEANNOUNCEMENT'' 1)\<lparr>mt_HistSize := 1\<rparr>,
      plain_traits ''SilKit::Core::Discovery::ServiceDiscoveryEvent'' ''SERVICEDISCOVERYEVENT'' 1,
      plain_traits ''SilKit::Core::RequestReply::RequestReplyCall'' ''REQUESTREPLYCALL'' 1,
      plain_traits ''SilKit::Core::RequestReply::RequestReplyCallReturn'' ''REQUESTREPLYCALLRETURN'' 1,
      plain_traits ''VSilKit::MetricsUpdate'' ''METRICSUPDATE'' 1,
      plain_traits ''SilKit::Core::Tests::Version1::TestMessage'' ''TESTMESSAGE'' 1,
      plain_traits ''SilKit::Core::Tests::Version2::TestMessage'' ''TESTMESSAGE'' 2,
      plain_traits ''SilKit::Core::Tests::TestFrameEvent'' ''TESTMESSAGE'' 3]"

record 'm silkit_message =
  sk_timestamp :: "int option"
  sk_content :: 'm

definition nanoseconds_min :: int where
  "nanoseconds_min = - (2 ^ 63)"

definition SetTimestamp :: "int \<Rightarrow> 'm silkit_message \<Rightarrow> 'm silkit_message" where
  "SetTimestamp value msg = (if sk_timestamp msg = Some nanoseconds_min then msg\<lparr>sk_timestamp := Some value\<rparr> else msg)"

section \<open>State\<close>

record 'm message_history =
  hy_last :: "(EndpointAddress \<times> 'm silkit_message) option"
  hy_hasHistory :: bool

record remote_receiver =
  rr_peer :: nat
  rr_remoteIdx :: "64 word"

record 'm transmitter =
  tx_hist :: "'m message_history"
  tx_remoteReceivers :: "remote_receiver list"

record local_receiver =
  lr_object :: nat
  lr_serviceDescriptor :: ServiceDescriptor

record 'm silkit_link =
  lk_localReceivers :: "local_receiver list"
  lk_transmitter :: "'m transmitter"

definition SilKitLink_new :: "'m silkit_link" where
  "SilKitLink_new = \<lparr>lk_localReceivers = [],
     lk_transmitter = \<lparr>tx_hist = \<lparr>hy_last = None, hy_hasHistory = True\<rparr>, tx_remoteReceivers = []\<rparr>\<rparr>"

datatype 'm link_event =
    KE_Send nat "64 word" EndpointAddress "'m silkit_message"
  | KE_Receive nat ServiceDescriptor "'m silkit_message"
  | KE_Warn string

datatype exception_text = Std_exception string | Unknown_exception

type_synonym 'm receiver_code = "nat \<Rightarrow> 'm silkit_message \<Rightarrow> exception_text option"
type_synonym 'm link_action = "('m silkit_link, 'm link_event) action"

section \<open>History\<close>

definition hist_SetHistoryLength :: "msg_traits \<Rightarrow> nat \<Rightarrow> 'm message_history \<Rightarrow> 'm message_history" where
  "hist_SetHistoryLength mt historyLength h = (if mt_HistSize mt = 0 then h else h\<lparr>hy_hasHistory := historyLength \<noteq> 0\<rparr>)"

definition hist_Save :: "msg_traits \<Rightarrow> ServiceDescriptor \<Rightarrow> 'm silkit_message \<Rightarrow> 'm message_history \<Rightarrow> 'm message_history" where
  "hist_Save mt sender msg h =
     (if mt_HistSize mt = 0 \<or> \<not> hy_hasHistory h then h else h\<lparr>hy_last := Some (to_endpointAddress sender, msg)\<rparr>)"

definition hist_NotifyPeer :: "msg_traits \<Rightarrow> nat \<Rightarrow> 64 word \<Rightarrow> 'm message_history \<Rightarrow> 'm link_event list" where
  "hist_NotifyPeer mt peer remoteIdx h =
     (case hy_last h of
        Some (sender, msg) \<Rightarrow> if mt_HistSize mt = 0 \<or> \<not> hy_hasHistory h then [] else [KE_Send peer remoteIdx sender msg]
      | None \<Rightarrow> [])"

section \<open>Transmitter\<close>

definition update_tx :: "('m transmitter \<Rightarrow> 'm transmitter) \<Rightarrow> 'm silkit_link \<Rightarrow> 'm silkit_link" where
  "update_tx f l = l\<lparr>lk_transmitter := f (lk_transmitter l)\<rparr>"

definition AddRemoteReceiver :: "msg_traits \<Rightarrow> nat \<Rightarrow> 64 word \<Rightarrow> 'm link_action" where
  "AddRemoteReceiver mt peer remoteIdx = act_read (\<lambda>l.
     let r = \<lparr>rr_peer = peer, rr_remoteIdx = remoteIdx\<rparr>
     in act_when (r \<notin> set (tx_remoteReceivers (lk_transmitter l))) (act_all
       [act_modify (update_tx (\<lambda>t. t\<lparr>tx_remoteReceivers := tx_remoteReceivers t @ [r]\<rparr>)),
        act_emit (hist_NotifyPeer mt peer remoteIdx (tx_hist (lk_transmitter l)))]))"

fun erase_first :: "('a \<Rightarrow> bool) \<Rightarrow> 'a list \<Rightarrow> 'a list" where
  "erase_first P [] = []"
| "erase_first P (x # xs) = (if P x then xs else x # erase_first P xs)"

text \<open>\<open>participantId\<close> gives the identifier in the \<^verbatim>\<open>VAsioPeerInfo\<close> of a peer, \<open>name\<close> the name.\<close>

definition RemoveRemoteReceiver :: "(nat \<Rightarrow> 64 word) \<Rightarrow> nat \<Rightarrow> 'm silkit_link \<Rightarrow> 'm silkit_link" where
  "RemoveRemoteReceiver participantId peer = update_tx (\<lambda>t. t\<lparr>tx_remoteReceivers :=
     erase_first (\<lambda>r. participantId (rr_peer r) = participantId peer) (tx_remoteReceivers t)\<rparr>)"

definition link_GetNumberOfRemoteReceivers :: "'m silkit_link \<Rightarrow> nat" where
  "link_GetNumberOfRemoteReceivers l = length (tx_remoteReceivers (lk_transmitter l))"

definition link_GetParticipantNamesOfRemoteReceivers :: "(nat \<Rightarrow> string) \<Rightarrow> 'm silkit_link \<Rightarrow> string list" where
  "link_GetParticipantNamesOfRemoteReceivers name l = map (\<lambda>r. name (rr_peer r)) (tx_remoteReceivers (lk_transmitter l))"

definition tx_Save :: "msg_traits \<Rightarrow> ServiceDescriptor \<Rightarrow> 'm silkit_message \<Rightarrow> 'm silkit_link \<Rightarrow> 'm silkit_link" where
  "tx_Save mt sender msg = update_tx (\<lambda>t. t\<lparr>tx_hist := hist_Save mt sender msg (tx_hist t)\<rparr>)"

definition tx_ReceiveMsg :: "msg_traits \<Rightarrow> ServiceDescriptor \<Rightarrow> 'm silkit_message \<Rightarrow> 'm link_action" where
  "tx_ReceiveMsg mt sender msg = act_seq (act_modify (tx_Save mt sender msg)) (act_read (\<lambda>l. act_emit
     (map (\<lambda>r. KE_Send (rr_peer r) (rr_remoteIdx r) (to_endpointAddress sender) msg) (tx_remoteReceivers (lk_transmitter l)))))"

definition SendMessageToTarget :: "msg_traits \<Rightarrow> (nat \<Rightarrow> string) \<Rightarrow> ServiceDescriptor \<Rightarrow> string \<Rightarrow> 'm silkit_message \<Rightarrow> 'm link_action" where
  "SendMessageToTarget mt name sender targetParticipantName msg = act_seq (act_modify (tx_Save mt sender msg)) (act_read (\<lambda>l.
     case find (\<lambda>r. name (rr_peer r) = targetParticipantName) (tx_remoteReceivers (lk_transmitter l)) of
       None \<Rightarrow> act_throw (SilKitError ''Error: Attempt to send targeted message to a participant, which is not a valid remote receiver.'')
     | Some r \<Rightarrow> act_emit [KE_Send (rr_peer r) (rr_remoteIdx r) (to_endpointAddress sender) msg]))"

section \<open>Link\<close>

definition AddLocalReceiver :: "local_receiver \<Rightarrow> 'm silkit_link \<Rightarrow> 'm silkit_link" where
  "AddLocalReceiver receiver l =
     (if lr_object receiver \<in> lr_object ` set (lk_localReceivers l) then l
      else l\<lparr>lk_localReceivers := lk_localReceivers l @ [receiver]\<rparr>)"

definition DispatchSilKitMessage :: "'m receiver_code \<Rightarrow> local_receiver \<Rightarrow> ServiceDescriptor \<Rightarrow> 'm silkit_message \<Rightarrow> 'm link_action" where
  "DispatchSilKitMessage thrown to sender msg = act_emit (KE_Receive (lr_object to) sender msg #
     (case thrown (lr_object to) msg of
        None \<Rightarrow> []
      | Some (Std_exception what) \<Rightarrow> [KE_Warn (''Callback threw an exception: '' @ what)]
      | Some Unknown_exception \<Rightarrow> [KE_Warn ''Callback threw an unknown exception'']))"

definition DistributeRemoteSilKitMessage :: "'m receiver_code \<Rightarrow> int option \<Rightarrow> ServiceDescriptor \<Rightarrow> 'm silkit_message \<Rightarrow> 'm link_action" where
  "DistributeRemoteSilKitMessage thrown virtualTime sender msg = act_read (\<lambda>l.
     let msg1 = (case virtualTime of None \<Rightarrow> msg | Some now \<Rightarrow> SetTimestamp now msg)
     in act_each (\<lambda>receiver. DispatchSilKitMessage thrown receiver sender msg1) (lk_localReceivers l))"

definition DistributeToSelf :: "msg_traits \<Rightarrow> 'm receiver_code \<Rightarrow> ServiceDescriptor \<Rightarrow> 'm silkit_message \<Rightarrow> 'm link_action" where
  "DistributeToSelf mt thrown sender msg = act_read (\<lambda>l.
     act_when (\<not> mt_IsSelfDeliveryForbidden mt) (act_each (\<lambda>receiver.
       if \<not> mt_IsSelfDeliveryEnforced mt \<and> sd_equal (lr_serviceDescriptor receiver) sender then act_skip
       else DispatchSilKitMessage thrown receiver sender msg) (lk_localReceivers l)))"

definition DistributeLocalSilKitMessage :: "msg_traits \<Rightarrow> 'm receiver_code \<Rightarrow> ServiceDescriptor \<Rightarrow> 'm silkit_message \<Rightarrow> 'm link_action" where
  "DistributeLocalSilKitMessage mt thrown sender msg = act_all
     [tx_ReceiveMsg mt sender msg,
      DistributeToSelf mt thrown sender msg]"

definition DispatchSilKitMessageToTarget ::
    "msg_traits \<Rightarrow> 'm receiver_code \<Rightarrow> (nat \<Rightarrow> string) \<Rightarrow> ServiceDescriptor \<Rightarrow> string \<Rightarrow> 'm silkit_message \<Rightarrow> 'm link_action" where
  "DispatchSilKitMessageToTarget mt thrown name sender targetParticipantName msg =
     (if sd_participantName sender = targetParticipantName then DistributeToSelf mt thrown sender msg
      else SendMessageToTarget mt name sender targetParticipantName msg)"

definition link_SetHistoryLength :: "msg_traits \<Rightarrow> nat \<Rightarrow> 'm silkit_link \<Rightarrow> 'm silkit_link" where
  "link_SetHistoryLength mt history = update_tx (\<lambda>t. t\<lparr>tx_hist := hist_SetHistoryLength mt history (tx_hist t)\<rparr>)"

end
