(* ===== verification/Connection.thy ===== *)
theory Connection
  imports Link VAsioHandshake
begin

text \<open>
  The connection of a participant to all others (\<^verbatim>\<open>core/vasio/VAsioConnection.hpp\<close> and \<^verbatim>\<open>.cpp\<close>): registration of services and
  subscriptions, the handshake, the dispatch of received messages, peers that are reached through the registry as a proxy, and the loss of
  a peer. Peer objects are numbers; \<open>vc_peer\<close> gives the members of each (\<^verbatim>\<open>VAsioPeer\<close>, \<^verbatim>\<open>VAsioProxyPeer\<close>). A message is the
  value that \<open>SerializedMessage\<close> puts on the wire; a message of one type that is read as another type gives whatever \<open>vh_misread\<close> says. What is
  outside of the class is in the record \<open>vasio_host\<close>: the code of the receivers, the virtual time, the address of an object allocated in a
  call, the YAML reader of the capabilities, the acceptor URIs the registry tells. All methods run on the I/O thread and are one
  step. The texts of diagnostics and log messages are shortened; what is only logged below the level of warnings is left out. The tasks handed to \<^verbatim>\<open>ConnectKnownParticipants\<close> and \<^verbatim>\<open>RemoteConnectionManager\<close> are events.
\<close>

section \<open>Messages and peers\<close>

datatype 'm vmsg =
    VM_Invalid
  | VM_Data nat "64 word" EndpointAddress "'m silkit_message"
  | VM_Subscription VAsioMsgSubscriber
  | VM_Acknowledge SubscriptionAcknowledge
  | VM_RegistryInvalid RegistryMsgHeader
  | VM_Announcement ParticipantAnnouncement
  | VM_Reply ParticipantAnnouncementReply
  | VM_Known KnownParticipants
  | VM_ConnectRequest RemoteParticipantConnectRequest
  | VM_Proxy "8 word" string string "'m vmsg option"

record peer_object =
  po_info :: VAsioPeerInfo
  po_simulationName :: string
  po_protocolVersion :: protocol_version
  po_serviceDescriptor :: ServiceDescriptor
  po_proxies :: "nat list"

definition fresh_peer :: "VAsioPeerInfo \<Rightarrow> nat list \<Rightarrow> peer_object" where
  "fresh_peer info proxies = \<lparr>po_info = info, po_simulationName = [], po_protocolVersion = \<lparr>pv_major = 0, pv_minor = 0\<rparr>,
     po_serviceDescriptor = ServiceDescriptor_new, po_proxies = proxies\<rparr>"

datatype peer_event =
    REMOTE_PARTICIPANT_IS_CONNECTING | REMOTE_PARTICIPANT_ANNOUNCEMENT | REMOTE_PARTICIPANT_FAILED_TO_CONNECT
  | PARTICIPANT_ANNOUNCEMENT_REPLY

datatype 'm vasio_event =
    VE_Send nat "'m vmsg"
  | VE_Receive nat string nat ServiceDescriptor "'m silkit_message"
  | VE_PeerEvent string peer_event
  | VE_SetKnownParticipants "VAsioPeerInfo list"
  | VE_StartConnectingTo VAsioPeerInfo
  | VE_RegistryHandshakeComplete "error option"
  | VE_SubscriptionsComplete
  | VE_AsyncCompletion nat
  | VE_StartAsyncRead nat
  | VE_EnableAggregation nat
  | VE_Shutdown nat
  | VE_Log string

record 'm vasio_host =
  vh_thrown :: "'m receiver_code"
  vh_virtualTime :: "int option"
  vh_misread :: "nat \<Rightarrow> nat \<Rightarrow> 'm silkit_message \<Rightarrow> 'm silkit_message result"
  vh_newPeer :: nat
  vh_HasCapability :: "string \<Rightarrow> string \<Rightarrow> bool result"
  vh_TransformAcceptorUris :: "nat \<Rightarrow> nat \<Rightarrow> string list"

record 'm connection =
  vc_participantName :: string
  vc_participantId :: "64 word"
  vc_simulationName :: string
  vc_allowAnySimulationName :: bool
  vc_version :: protocol_version
  vc_capabilities :: "string list"
  vc_capabilitiesString :: string
  vc_acceptors :: "(bool \<times> string) list"
  vc_links :: "nat \<Rightarrow> string \<Rightarrow> 'm silkit_link option"
  vc_serviceToLinkMap :: "nat \<Rightarrow> string \<Rightarrow> bool"
  vc_vasioReceivers :: "(VAsioMsgSubscriber \<times> nat) list"
  vc_vasioUniqueReceiverIds :: "string list"
  vc_peer :: "nat \<Rightarrow> peer_object"
  vc_registry :: nat
  vc_peers :: "nat list"
  vc_pendingSubscriptionAcknowledges :: "(nat \<times> VAsioMsgSubscriber) list"
  vc_receivedAllSubscriptionAcknowledges :: bool
  vc_pendingAsyncSubscriptionAcknowledges :: "(nat \<times> VAsioMsgSubscriber) list"
  vc_asyncSubscriptionsCompletionHandlers :: "nat list"
  vc_hasPendingAsyncSubscriptions :: bool
  vc_isShuttingDown :: bool
  vc_participantNameToPeer :: "string \<Rightarrow> string \<Rightarrow> nat option"
  vc_proxySourceToDestinations :: "string \<Rightarrow> string \<Rightarrow> string list"
  vc_peerToProxyPeers :: "(nat \<times> nat list) list"
  vc_useAggregation :: bool

type_synonym ('m, 'z) connection_action = "(('m, 'z) connection_scheme, 'm vasio_event) action"

abbreviation REGISTRY_PARTICIPANT_ID :: "64 word" where "REGISTRY_PARTICIPANT_ID \<equiv> 0"

abbreviation (input) peer_name :: "('m, 'z) connection_scheme \<Rightarrow> nat \<Rightarrow> string" where
  "peer_name c p \<equiv> vpi_participantName (po_info (vc_peer c p))"

abbreviation (input) peer_participantId :: "('m, 'z) connection_scheme \<Rightarrow> nat \<Rightarrow> 64 word" where
  "peer_participantId c p \<equiv> vpi_participantId (po_info (vc_peer c p))"

definition update_peer :: "nat \<Rightarrow> (peer_object \<Rightarrow> peer_object) \<Rightarrow> ('m, 'z) connection_action" where
  "update_peer p f = act_modify (\<lambda>c. c\<lparr>vc_peer := (vc_peer c)(p := f (vc_peer c p))\<rparr>)"

definition vc_log :: "string \<Rightarrow> ('m, 'z) connection_action" where
  "vc_log text = act_emit [VE_Log text]"

text \<open>\<^verbatim>\<open>SendSilKitMsg\<close> of a peer: a proxy peer wraps the message for the peer it goes through.\<close>

fun send_via :: "(nat \<Rightarrow> string) \<Rightarrow> string \<Rightarrow> nat \<Rightarrow> nat list \<Rightarrow> 'm vmsg \<Rightarrow> 'm vasio_event" where
  "send_via name self p [] msg = VE_Send p msg"
| "send_via name self p (q # qs) msg = send_via name self q qs (VM_Proxy 0 self (name p) (Some msg))"

definition peer_SendSilKitMsg :: "nat \<Rightarrow> 'm vmsg \<Rightarrow> ('m, 'z) connection_action" where
  "peer_SendSilKitMsg p msg = act_read (\<lambda>c.
     act_emit [send_via (peer_name c) (vc_participantName c) p (po_proxies (vc_peer c p)) msg])"

section \<open>Hashes of names\<close>

text \<open>\<open>char_value\<close> is the conversion of a \<^verbatim>\<open>char\<close> to an integer, which depends on the signedness of \<^verbatim>\<open>char\<close> on the platform; the model
  has that of x86.\<close>

definition char_value :: "bool \<Rightarrow> char \<Rightarrow> 64 word" where
  "char_value char_signed ch = (if char_signed then scast (of_char ch :: 8 word) else ucast (of_char ch :: 8 word))"

definition Hash :: "bool \<Rightarrow> string \<Rightarrow> 64 word" where
  "Hash char_signed s = fold (\<lambda>ch h. push_bit 5 h + h + char_value char_signed ch) s 5381"

definition SetParticipantNameAndComputeId :: "string \<Rightarrow> ServiceDescriptor \<Rightarrow> ServiceDescriptor" where
  "SetParticipantNameAndComputeId val sd = sd\<lparr>sd_participantId := Hash True val, sd_participantName := val\<rparr>"

section \<open>Links\<close>

definition traits :: "nat \<Rightarrow> msg_traits" where
  "traits t = SilKitMessageTypes ! t"

definition types_named :: "string \<Rightarrow> nat list" where
  "types_named serdesName = filter (\<lambda>t. mt_SerdesName (traits t) = serdesName) [0..<length SilKitMessageTypes]"

definition link_at :: "nat \<Rightarrow> string \<Rightarrow> ('m, 'z) connection_scheme \<Rightarrow> 'm silkit_link" where
  "link_at t networkName c = (case vc_links c t networkName of None \<Rightarrow> SilKitLink_new | Some l \<Rightarrow> l)"

definition put_link :: "nat \<Rightarrow> string \<Rightarrow> 'm silkit_link \<Rightarrow> ('m, 'z) connection_scheme \<Rightarrow> ('m, 'z) connection_scheme" where
  "put_link t networkName l c = c\<lparr>vc_links := (vc_links c)(t := (vc_links c t)(networkName \<mapsto> l))\<rparr>"

fun link_event :: "nat \<Rightarrow> string \<Rightarrow> 'm link_event \<Rightarrow> 'm vasio_event" where
  "link_event t networkName (KE_Send peer idx sender msg) = VE_Send peer (VM_Data t idx sender msg)"
| "link_event t networkName (KE_Receive object sender msg) = VE_Receive t networkName object sender msg"
| "link_event t networkName (KE_Warn text) = VE_Log text"

text \<open>
  A method of the link of a type and a network; \<^verbatim>\<open>GetLinkByName\<close> creates the link when there is none. What the link sends to a proxy peer
  is wrapped.
\<close>

fun route_event :: "('m, 'z) connection_scheme \<Rightarrow> 'm vasio_event \<Rightarrow> 'm vasio_event" where
  "route_event c (VE_Send p msg) = send_via (peer_name c) (vc_participantName c) p (po_proxies (vc_peer c p)) msg"
| "route_event c ev = ev"

definition on_link :: "nat \<Rightarrow> string \<Rightarrow> 'm link_action \<Rightarrow> ('m, 'z) connection_action" where
  "on_link t networkName a = act_read (\<lambda>c.
     act_within (link_at t networkName) (put_link t networkName) (route_event c \<circ> link_event t networkName) a)"

definition SetHistoryLengthForLink :: "nat \<Rightarrow> string \<Rightarrow> nat list \<Rightarrow> ('m, 'z) connection_action" where
  "SetHistoryLengthForLink historyLength networkName sendTypes =
     act_each (\<lambda>t. on_link t networkName (act_modify (link_SetHistoryLength (traits t) historyLength))) sendTypes"

section \<open>Registration of services\<close>

definition SyncSubscriptionsCompleted :: "('m, 'z) connection_action" where
  "SyncSubscriptionsCompleted = act_read (\<lambda>c.
     if vc_receivedAllSubscriptionAcknowledges c then act_throw (LogicError ''promise already satisfied'')
     else act_all
       [act_modify (\<lambda>c. c\<lparr>vc_receivedAllSubscriptionAcknowledges := True\<rparr>),
        act_emit [VE_SubscriptionsComplete]])"

definition AsyncSubscriptionsCompleted_vc :: "('m, 'z) connection_action" where
  "AsyncSubscriptionsCompleted_vc = act_read (\<lambda>c. act_all
     [act_emit (map VE_AsyncCompletion (vc_asyncSubscriptionsCompletionHandlers c)),
      act_modify (\<lambda>c. c\<lparr>vc_asyncSubscriptionsCompletionHandlers := [], vc_hasPendingAsyncSubscriptions := False\<rparr>)])"

definition vc_AddAsyncSubscriptionsCompletionHandler :: "nat \<Rightarrow> ('m, 'z) connection_action" where
  "vc_AddAsyncSubscriptionsCompletionHandler handler = act_read (\<lambda>c.
     if vc_hasPendingAsyncSubscriptions c
     then act_modify (\<lambda>c. c\<lparr>vc_asyncSubscriptionsCompletionHandlers := vc_asyncSubscriptionsCompletionHandlers c @ [handler]\<rparr>)
     else act_emit [VE_AsyncCompletion handler])"

definition add_pending :: "bool \<Rightarrow> nat \<times> VAsioMsgSubscriber \<Rightarrow> ('m, 'z) connection_scheme \<Rightarrow> ('m, 'z) connection_scheme" where
  "add_pending async ackPair c =
     (if async then c\<lparr>vc_pendingAsyncSubscriptionAcknowledges := vc_pendingAsyncSubscriptionAcknowledges c @ [ackPair]\<rparr>
      else c\<lparr>vc_pendingSubscriptionAcknowledges := vc_pendingSubscriptionAcknowledges c @ [ackPair]\<rparr>)"

definition new_subscription :: "nat \<Rightarrow> string \<Rightarrow> ('m, 'z) connection_scheme \<Rightarrow> VAsioMsgSubscriber" where
  "new_subscription t networkName c = \<lparr>vms_receiverIdx = of_nat (length (vc_vasioReceivers c)), vms_networkName = networkName,
     vms_msgTypeName = mt_SerdesName (traits t), vms_version = of_nat (mt_Version (traits t))\<rparr>"

definition uniqueReceiverId :: "nat \<Rightarrow> string \<Rightarrow> string" where
  "uniqueReceiverId t networkName = networkName @ ''/'' @ mt_SerdesName (traits t)"

definition RegisterSilKitMsgReceiver :: "bool \<Rightarrow> local_receiver \<Rightarrow> nat \<Rightarrow> ('m, 'z) connection_action" where
  "RegisterSilKitMsgReceiver async receiver t =
     (let networkName = sd_networkName (lr_serviceDescriptor receiver)
      in act_seq (on_link t networkName (act_modify (AddLocalReceiver receiver))) (act_read (\<lambda>c.
        act_when (uniqueReceiverId t networkName \<notin> set (vc_vasioUniqueReceiverIds c))
          (let subscriptionInfo = new_subscription t networkName c
           in act_all
             [act_modify (\<lambda>c. c\<lparr>vc_vasioUniqueReceiverIds := vc_vasioUniqueReceiverIds c @ [uniqueReceiverId t networkName],
                vc_vasioReceivers := vc_vasioReceivers c @ [(subscriptionInfo, t)]\<rparr>),
              act_each (\<lambda>peer. act_seq (act_modify (add_pending async (peer, subscriptionInfo)))
                  (peer_SendSilKitMsg peer (VM_Subscription subscriptionInfo))) (vc_peers c)]))))"

definition RegisterSilKitMsgSender :: "string \<Rightarrow> nat \<Rightarrow> ('m, 'z) connection_action" where
  "RegisterSilKitMsgSender networkName t = act_all
     [on_link t networkName act_skip,
      act_modify (\<lambda>c. c\<lparr>vc_serviceToLinkMap := (vc_serviceToLinkMap c)(t := (vc_serviceToLinkMap c t)(networkName := True))\<rparr>)]"

definition RegisterSilKitServiceImpl :: "bool \<Rightarrow> local_receiver \<Rightarrow> nat list \<Rightarrow> nat list \<Rightarrow> ('m, 'z) connection_action" where
  "RegisterSilKitServiceImpl async service receiveTypes sendTypes = act_all
     [act_each (RegisterSilKitMsgReceiver async service) receiveTypes,
      act_each (RegisterSilKitMsgSender (sd_networkName (lr_serviceDescriptor service))) sendTypes,
      act_read (\<lambda>c. if \<not> async then act_when (vc_pendingSubscriptionAcknowledges c = []) SyncSubscriptionsCompleted
        else act_when (vc_pendingAsyncSubscriptionAcknowledges c = []) AsyncSubscriptionsCompleted_vc)]"

text \<open>The part of \<^verbatim>\<open>RegisterSilKitService\<close> that runs on the thread of the caller before the task is posted.\<close>

definition RegisterSilKitService_begin :: "bool \<Rightarrow> ('m, 'z) connection_action" where
  "RegisterSilKitService_begin async = act_read (\<lambda>c.
     if async then act_modify (\<lambda>c. c\<lparr>vc_hasPendingAsyncSubscriptions := True\<rparr>)
     else if vc_pendingSubscriptionAcknowledges c \<noteq> [] then act_throw (AssertionError ''_pendingSubscriptionAcknowledges.empty()'')
     else act_modify (\<lambda>c. c\<lparr>vc_receivedAllSubscriptionAcknowledges := False\<rparr>))"

section \<open>Sending\<close>

definition SendMsgImpl :: "'m vasio_host \<Rightarrow> nat \<Rightarrow> ServiceDescriptor \<Rightarrow> 'm silkit_message \<Rightarrow> ('m, 'z) connection_action" where
  "SendMsgImpl h t sender msg = act_read (\<lambda>c.
     if \<not> vc_serviceToLinkMap c t (sd_networkName sender)
     then act_throw (SilKitError (''SendMsgImpl: sending on empty link for '' @ sd_networkName sender))
     else on_link t (sd_networkName sender) (DistributeLocalSilKitMessage (traits t) (vh_thrown h) sender msg))"

definition SendMsgToTargetImpl ::
    "'m vasio_host \<Rightarrow> nat \<Rightarrow> ServiceDescriptor \<Rightarrow> string \<Rightarrow> 'm silkit_message \<Rightarrow> ('m, 'z) connection_action" where
  "SendMsgToTargetImpl h t sender targetParticipantName msg = act_read (\<lambda>c.
     if \<not> vc_serviceToLinkMap c t (sd_networkName sender)
     then act_throw (SilKitError (''SendMsgToTargetImpl: sending on empty link for '' @ sd_networkName sender))
     else on_link t (sd_networkName sender)
       (DispatchSilKitMessageToTarget (traits t) (vh_thrown h) (peer_name c) sender targetParticipantName msg))"

section \<open>Subscriptions of the peers\<close>

definition TryAddRemoteSubscriber :: "nat \<Rightarrow> VAsioMsgSubscriber \<Rightarrow> ('m, 'z) connection_action" where
  "TryAddRemoteSubscriber p subscriber = act_all
     [act_each (\<lambda>t. on_link t (vms_networkName subscriber) (AddRemoteReceiver (traits t) p (vms_receiverIdx subscriber)))
        (types_named (vms_msgTypeName subscriber)),
      act_when (types_named (vms_msgTypeName subscriber) = []) (vc_log ''Participant could not be registered as receiver'')]"

definition getVersionForSerdes :: "string \<Rightarrow> 32 word \<Rightarrow> 32 word" where
  "getVersionForSerdes typeName remoteVersion = fold (\<lambda>mt subscriptionVersion.
     if typeName = mt_SerdesName mt \<and> of_nat (mt_Version mt) \<le> remoteVersion then of_nat (mt_Version mt) else subscriptionVersion)
     SilKitMessageTypes 0"

definition ReceiveSubscriptionAnnouncement :: "nat \<Rightarrow> VAsioMsgSubscriber \<Rightarrow> ('m, 'z) connection_action" where
  "ReceiveSubscriptionAnnouncement p subscriber =
     (let wasAdded = (types_named (vms_msgTypeName subscriber) \<noteq> []);
          myMessageVersion = getVersionForSerdes (vms_msgTypeName subscriber) (vms_version subscriber);
          subscriber1 = (if myMessageVersion = 0 then subscriber else subscriber\<lparr>vms_version := myMessageVersion\<rparr>)
      in act_all
        [TryAddRemoteSubscriber p subscriber,
         act_when (myMessageVersion = 0) (vc_log ''Received SubscriptionAnnouncement for an unknown subscriber version''),
         peer_SendSilKitMsg p (VM_Acknowledge \<lparr>sa_status = (if wasAdded then 1 else 0), sa_subscriber = subscriber1\<rparr>)])"

text \<open>\<^verbatim>\<open>operator==\<close> of subscribers does not look at the version.\<close>

definition subscriber_equal :: "VAsioMsgSubscriber \<Rightarrow> VAsioMsgSubscriber \<Rightarrow> bool" where
  "subscriber_equal a b \<longleftrightarrow> vms_receiverIdx a = vms_receiverIdx b \<and> vms_networkName a = vms_networkName b
     \<and> vms_msgTypeName a = vms_msgTypeName b"

definition ack_equal :: "nat \<times> VAsioMsgSubscriber \<Rightarrow> nat \<times> VAsioMsgSubscriber \<Rightarrow> bool" where
  "ack_equal a b \<longleftrightarrow> fst a = fst b \<and> subscriber_equal (snd a) (snd b)"

definition RemovePendingSubscription :: "nat \<times> VAsioMsgSubscriber \<Rightarrow> ('m, 'z) connection_action" where
  "RemovePendingSubscription ackId = act_all
     [act_read (\<lambda>c. act_when (list_ex (ack_equal ackId) (vc_pendingSubscriptionAcknowledges c)) (act_all
        [act_modify (\<lambda>c. c\<lparr>vc_pendingSubscriptionAcknowledges := erase_first (ack_equal ackId) (vc_pendingSubscriptionAcknowledges c)\<rparr>),
         act_read (\<lambda>c. act_when (vc_pendingSubscriptionAcknowledges c = []) SyncSubscriptionsCompleted)])),
      act_read (\<lambda>c. act_when (list_ex (ack_equal ackId) (vc_pendingAsyncSubscriptionAcknowledges c)) (act_all
        [act_modify (\<lambda>c. c\<lparr>vc_pendingAsyncSubscriptionAcknowledges := erase_first (ack_equal ackId) (vc_pendingAsyncSubscriptionAcknowledges c)\<rparr>),
         act_read (\<lambda>c. act_when (vc_pendingAsyncSubscriptionAcknowledges c = []) AsyncSubscriptionsCompleted_vc)]))]"

definition ReceiveSubscriptionAcknowledge :: "nat \<Rightarrow> SubscriptionAcknowledge \<Rightarrow> ('m, 'z) connection_action" where
  "ReceiveSubscriptionAcknowledge p ack = act_all
     [act_when (sa_status ack \<noteq> 1) (vc_log ''Failed to subscribe''),
      RemovePendingSubscription (p, sa_subscriber ack)]"

section \<open>Data\<close>

definition ReceiveRawMsg ::
    "'m vasio_host \<Rightarrow> VAsioMsgSubscriber \<times> nat \<Rightarrow> ServiceDescriptor \<Rightarrow> nat \<Rightarrow> 'm silkit_message \<Rightarrow> ('m, 'z) connection_action" where
  "ReceiveRawMsg h r descriptor t msg =
     (case if t = snd r then Inr msg else vh_misread h t (snd r) msg of
        Inl e \<Rightarrow> act_throw e
      | Inr msg1 \<Rightarrow> on_link (snd r) (vms_networkName (fst r))
          (DistributeRemoteSilKitMessage (vh_thrown h) (vh_virtualTime h) descriptor msg1))"

definition ReceiveRawSilKitMessage ::
    "'m vasio_host \<Rightarrow> nat \<Rightarrow> nat \<Rightarrow> 64 word \<Rightarrow> EndpointAddress \<Rightarrow> 'm silkit_message \<Rightarrow> ('m, 'z) connection_action" where
  "ReceiveRawSilKitMessage h p t receiverIdx endpoint msg = act_read (\<lambda>c.
     if unat receiverIdx \<ge> length (vc_vasioReceivers c) then vc_log ''Ignoring RawSilKitMessage for unknown receiverIdx''
     else ReceiveRawMsg h (vc_vasioReceivers c ! unat receiverIdx)
       ((po_serviceDescriptor (vc_peer c p))\<lparr>sd_serviceId := ea_endpoint endpoint\<rparr>) t msg)"

section \<open>Handshake\<close>

definition MakePeerInfo :: "('m, 'z) connection_scheme \<Rightarrow> VAsioPeerInfo" where
  "MakePeerInfo c = \<lparr>vpi_participantName = vc_participantName c, vpi_participantId = vc_participantId c,
     vpi_acceptorUris = map snd (filter fst (vc_acceptors c)) @ map snd (filter (\<lambda>a. \<not> fst a) (vc_acceptors c)),
     vpi_capabilities = vc_capabilitiesString c\<rparr>"

definition SendParticipantAnnouncement :: "nat \<Rightarrow> ('m, 'z) connection_action" where
  "SendParticipantAnnouncement p = act_read (\<lambda>c.
     if vpi_acceptorUris (MakePeerInfo c) = []
     then act_throw (SilKitError ''SendParticipantAnnouncement: Cannot send announcement: All acceptors (both Local-Domain and TCP) are missing'')
     else peer_SendSilKitMsg p (VM_Announcement \<lparr>pa_messageHeader = MakeRegistryMsgHeader (vc_version c), pa_peerInfo = MakePeerInfo c,
       pa_simulationName = vc_simulationName c\<rparr>))"

definition AssociateParticipantNameAndPeer :: "string \<Rightarrow> string \<Rightarrow> nat \<Rightarrow> ('m, 'z) connection_action" where
  "AssociateParticipantNameAndPeer simulationName participantName p = act_modify (\<lambda>c.
     case vc_participantNameToPeer c simulationName participantName of
       Some _ \<Rightarrow> c
     | None \<Rightarrow> c\<lparr>vc_participantNameToPeer := (vc_participantNameToPeer c)(simulationName :=
         (vc_participantNameToPeer c simulationName)(participantName \<mapsto> p))\<rparr>)"

definition FindPeerByName :: "string \<Rightarrow> string \<Rightarrow> ('m, 'z) connection_scheme \<Rightarrow> nat option" where
  "FindPeerByName simulationName participantName c = vc_participantNameToPeer c simulationName participantName"

definition SendParticipantAnnouncementReply :: "nat \<Rightarrow> ('m, 'z) connection_action" where
  "SendParticipantAnnouncementReply p = act_read (\<lambda>c. peer_SendSilKitMsg p (VM_Reply
     \<lparr>par_remoteHeader = MakeRegistryMsgHeader (po_protocolVersion (vc_peer c p)), par_status = 1,
      par_subscribers = map fst (vc_vasioReceivers c), par_diagnostic = []\<rparr>))"

definition SendFailedParticipantAnnouncementReply :: "nat \<Rightarrow> protocol_version \<Rightarrow> string \<Rightarrow> ('m, 'z) connection_action" where
  "SendFailedParticipantAnnouncementReply p version diagnostic = peer_SendSilKitMsg p (VM_Reply
     \<lparr>par_remoteHeader = MakeRegistryMsgHeader version, par_status = 0, par_subscribers = [], par_diagnostic = diagnostic\<rparr>)"

text \<open>
  An exception of a handler of announcements is turned into a failed reply. \<^verbatim>\<open>SilKitError\<close> and its subclasses are caught; the handlers
  throw no others.
\<close>

definition act_try :: "('s, 'e) action \<Rightarrow> (error \<Rightarrow> ('s, 'e) action) \<Rightarrow> ('s, 'e) action \<Rightarrow> ('s, 'e) action" where
  "act_try a handler otherwise s =
     (case a s of
        (s1, evs, Some e) \<Rightarrow> (case handler e s1 of (s2, evs2, err) \<Rightarrow> (s2, evs @ evs2, err))
      | (s1, evs, None) \<Rightarrow> (case otherwise s1 of (s2, evs2, err) \<Rightarrow> (s2, evs @ evs2, err)))"

definition ReceiveParticipantAnnouncement ::
    "(nat \<Rightarrow> ParticipantAnnouncement \<Rightarrow> ('m, 'z) connection_action) list \<Rightarrow> nat \<Rightarrow> ParticipantAnnouncement \<Rightarrow> ('m, 'z) connection_action" where
  "ReceiveParticipantAnnouncement receivers p announcement = act_read (\<lambda>c.
     if \<not> ProtocolVersionSupported (pa_messageHeader announcement)
     then SendFailedParticipantAnnouncementReply p (vc_version c) ''protocol version is not supported''
     else act_seq (update_peer p (\<lambda>q. q\<lparr>po_protocolVersion := ExtractProtocolVersion (pa_messageHeader announcement)\<rparr>)) (act_read (\<lambda>c.
       if \<not> vc_allowAnySimulationName c \<and> pa_simulationName announcement \<noteq> vc_simulationName c
       then SendFailedParticipantAnnouncementReply p (po_protocolVersion (vc_peer c p))
         ''Announced simulation name does not match this participants simulation name''
       else act_seq (update_peer p (\<lambda>q. q\<lparr>po_info := pa_peerInfo announcement,
           po_serviceDescriptor := SetParticipantNameAndComputeId (vpi_participantName (pa_peerInfo announcement)) (po_serviceDescriptor q),
           po_simulationName := pa_simulationName announcement\<rparr>))
         (act_try (act_each (\<lambda>receiver. receiver p announcement) receivers)
           (\<lambda>e. act_read (\<lambda>c. SendFailedParticipantAnnouncementReply p (po_protocolVersion (vc_peer c p)) (error_what e)))
           (act_seq (AssociateParticipantNameAndPeer (pa_simulationName announcement) (vpi_participantName (pa_peerInfo announcement)) p)
             (SendParticipantAnnouncementReply p))))))"

definition ReceiveParticipantAnnouncementReply :: "nat \<Rightarrow> ParticipantAnnouncementReply \<Rightarrow> ('m, 'z) connection_action" where
  "ReceiveParticipantAnnouncementReply p reply = act_read (\<lambda>c.
     if par_status reply = 0
     then act_all
       [vc_log ''Received failed ParticipantAnnouncementReply'',
        act_when (peer_participantId c p = REGISTRY_PARTICIPANT_ID) (act_all
          [act_emit [VE_RegistryHandshakeComplete (Some (ProtocolError (par_diagnostic reply)))],
           act_throw (ProtocolError (par_diagnostic reply))])]
     else act_all
       [update_peer p (\<lambda>q. q\<lparr>po_protocolVersion := ExtractProtocolVersion (par_remoteHeader reply)\<rparr>),
        act_each (TryAddRemoteSubscriber p) (par_subscribers reply),
        act_emit [if peer_participantId c p = REGISTRY_PARTICIPANT_ID then VE_RegistryHandshakeComplete None
          else VE_PeerEvent (peer_name c p) PARTICIPANT_ANNOUNCEMENT_REPLY]])"

definition ReceiveKnownParticpants :: "nat \<Rightarrow> KnownParticipants \<Rightarrow> ('m, 'z) connection_action" where
  "ReceiveKnownParticpants p msg = act_read (\<lambda>c.
     if \<not> ProtocolVersionSupported (kp_messageHeader msg)
     then peer_SendSilKitMsg p (VM_Reply \<lparr>par_remoteHeader = MakeRegistryMsgHeader (vc_version c), par_status = 0,
       par_subscribers = [], par_diagnostic = []\<rparr>)
     else act_all
       [update_peer p (\<lambda>q. q\<lparr>po_protocolVersion := ExtractProtocolVersion (kp_messageHeader msg)\<rparr>),
        act_emit [VE_SetKnownParticipants (kp_peerInfos msg)]])"

definition HandleConnectedPeer :: "nat \<Rightarrow> ('m, 'z) connection_action" where
  "HandleConnectedPeer p = act_all
     [act_read (\<lambda>c. update_peer p (\<lambda>q. q\<lparr>po_simulationName := vc_simulationName c\<rparr>)),
      SendParticipantAnnouncement p,
      update_peer p (\<lambda>q. q\<lparr>po_serviceDescriptor := SetParticipantNameAndComputeId (vpi_participantName (po_info q)) ServiceDescriptor_new\<rparr>),
      act_read (\<lambda>c. AssociateParticipantNameAndPeer (vc_simulationName c) (peer_name c p) p)]"

definition AddPeer :: "nat \<Rightarrow> ('m, 'z) connection_action" where
  "AddPeer p = act_read (\<lambda>c. act_all
     [act_when (po_proxies (vc_peer c p) = []) (act_emit [VE_StartAsyncRead p]),
      act_when (vc_useAggregation c \<and> po_proxies (vc_peer c p) = []) (act_emit [VE_EnableAggregation p]),
      act_modify (\<lambda>c. case po_proxies (vc_peer c p) of
          [] \<Rightarrow> c
        | q # _ \<Rightarrow> c\<lparr>vc_peerToProxyPeers := AList.update q (umap_at [] q (vc_peerToProxyPeers c) @ [p]) (vc_peerToProxyPeers c)\<rparr>),
      act_modify (\<lambda>c. c\<lparr>vc_peers := vc_peers c @ [p]\<rparr>)])"

definition OnAsyncAcceptSuccess :: "'m vasio_host \<Rightarrow> ('m, 'z) connection_action" where
  "OnAsyncAcceptSuccess h = act_all
     [update_peer (vh_newPeer h) (\<lambda>_. fresh_peer VAsioPeerInfo_default []),
      AddPeer (vh_newPeer h)]"

definition vc_EnableAggregation :: "('m, 'z) connection_action" where
  "vc_EnableAggregation = act_all
     [act_read (\<lambda>c. act_emit (map VE_EnableAggregation (filter (\<lambda>p. po_proxies (vc_peer c p) = []) (vc_peers c)))),
      act_modify (\<lambda>c. c\<lparr>vc_useAggregation := True\<rparr>)]"

definition NotifyShutdown :: "('m, 'z) connection_action" where
  "NotifyShutdown = act_modify (\<lambda>c. c\<lparr>vc_isShuttingDown := True\<rparr>)"

section \<open>Connections requested by a remote participant\<close>

abbreviation RPCR_REQUEST :: "8 word" where "RPCR_REQUEST \<equiv> 1"
abbreviation RPCR_CONNECTING :: "8 word" where "RPCR_CONNECTING \<equiv> 2"
abbreviation RPCR_FAILED_TO_CONNECT :: "8 word" where "RPCR_FAILED_TO_CONNECT \<equiv> 3"
abbreviation RPCR_ANNOUNCEMENT :: "8 word" where "RPCR_ANNOUNCEMENT \<equiv> 4"

definition ReceiveRemoteParticipantConnectRequest_Registry ::
    "'m vasio_host \<Rightarrow> nat \<Rightarrow> RemoteParticipantConnectRequest \<Rightarrow> ('m, 'z) connection_action" where
  "ReceiveRemoteParticipantConnectRequest_Registry h p msg = act_read (\<lambda>c.
     if rpcr_status msg = RPCR_ANNOUNCEMENT then vc_log ''Ignoring RemoteParticipantConnectRequest announcement''
     else
       let simulationName = po_simulationName (vc_peer c p);
           destination =
             (if rpcr_status msg = RPCR_REQUEST then FindPeerByName simulationName (vpi_participantName (rpcr_requestTarget msg)) c
              else if rpcr_status msg = RPCR_CONNECTING \<or> rpcr_status msg = RPCR_FAILED_TO_CONNECT
              then FindPeerByName simulationName (vpi_participantName (rpcr_requestOrigin msg)) c
              else None)
       in case destination of
            None \<Rightarrow> vc_log ''Ignoring invalid RemoteParticipantConnectRequest''
          | Some d \<Rightarrow> peer_SendSilKitMsg d (VM_ConnectRequest
              (if rpcr_status msg = RPCR_REQUEST
               then msg\<lparr>rpcr_requestOrigin := (po_info (vc_peer c p))\<lparr>vpi_acceptorUris := vh_TransformAcceptorUris h p d\<rparr>\<rparr>
               else msg)))"

definition ReceiveRemoteParticipantConnectRequest_Participant :: "nat \<Rightarrow> RemoteParticipantConnectRequest \<Rightarrow> ('m, 'z) connection_action" where
  "ReceiveRemoteParticipantConnectRequest_Participant p msg = act_read (\<lambda>c.
     let isOrigin = (vpi_participantName (rpcr_requestOrigin msg) = vc_participantName c);
         isTarget = (vpi_participantName (rpcr_requestTarget msg) = vc_participantName c);
         target = vpi_participantName (rpcr_requestTarget msg)
     in if \<not> isOrigin \<and> isTarget \<and> rpcr_status msg = RPCR_REQUEST
        then act_all
          [act_emit [VE_StartConnectingTo (rpcr_requestOrigin msg)],
           peer_SendSilKitMsg p (VM_ConnectRequest (msg\<lparr>rpcr_status := RPCR_CONNECTING\<rparr>))]
        else if isOrigin \<and> \<not> isTarget \<and> rpcr_status msg = RPCR_ANNOUNCEMENT
        then act_all
          [update_peer p (\<lambda>q. q\<lparr>po_info := rpcr_requestTarget msg\<rparr>),
           act_emit [VE_PeerEvent target REMOTE_PARTICIPANT_ANNOUNCEMENT],
           HandleConnectedPeer p]
        else if isOrigin \<and> \<not> isTarget \<and> rpcr_status msg = RPCR_CONNECTING
        then act_emit [VE_PeerEvent target REMOTE_PARTICIPANT_IS_CONNECTING]
        else if isOrigin \<and> \<not> isTarget \<and> rpcr_status msg = RPCR_FAILED_TO_CONNECT
        then act_emit [VE_PeerEvent target REMOTE_PARTICIPANT_FAILED_TO_CONNECT]
        else vc_log ''Ignoring invalid RemoteParticipantConnectRequest'')"

abbreviation CAP_ProxyMessage :: string where "CAP_ProxyMessage \<equiv> ''proxy-message''"
abbreviation CAP_RequestParticipantConnection :: string where "CAP_RequestParticipantConnection \<equiv> ''request-participant-connection-v2''"

definition ReceiveRemoteParticipantConnectRequest ::
    "'m vasio_host \<Rightarrow> nat \<Rightarrow> RemoteParticipantConnectRequest \<Rightarrow> ('m, 'z) connection_action" where
  "ReceiveRemoteParticipantConnectRequest h p msg = act_read (\<lambda>c.
     if \<not> ProtocolVersionSupported (rpcr_messageHeader msg)
     then vc_log ''Received RemoteParticipantConnectRequest with unsupported protocol version''
     else act_seq
       (act_when (peer_participantId c p \<noteq> REGISTRY_PARTICIPANT_ID)
         (update_peer p (\<lambda>q. q\<lparr>po_protocolVersion := ExtractProtocolVersion (rpcr_messageHeader msg)\<rparr>)))
       (if CAP_RequestParticipantConnection \<notin> set (vc_capabilities c)
        then vc_log ''Ignoring RemoteParticipantConnectRequest because feature is disabled via configuration''
        else if vc_participantId c = REGISTRY_PARTICIPANT_ID then ReceiveRemoteParticipantConnectRequest_Registry h p msg
        else ReceiveRemoteParticipantConnectRequest_Participant p msg))"

definition connect_request :: "8 word \<Rightarrow> VAsioPeerInfo \<Rightarrow> VAsioPeerInfo \<Rightarrow> ('m, 'z) connection_scheme \<Rightarrow> RemoteParticipantConnectRequest" where
  "connect_request status origin target c = \<lparr>rpcr_messageHeader = MakeRegistryMsgHeader (vc_version c), rpcr_requestOrigin = origin,
     rpcr_requestTarget = target, rpcr_status = status\<rparr>"

definition OnRemoteConnectionSuccess :: "nat \<Rightarrow> ('m, 'z) connection_action" where
  "OnRemoteConnectionSuccess p = act_all
     [act_read (\<lambda>c. peer_SendSilKitMsg p (VM_ConnectRequest
        (connect_request RPCR_ANNOUNCEMENT (po_info (vc_peer c p)) (MakePeerInfo c) c))),
      AddPeer p]"

definition OnRemoteConnectionFailure :: "VAsioPeerInfo \<Rightarrow> ('m, 'z) connection_action" where
  "OnRemoteConnectionFailure peerInfo = act_read (\<lambda>c. peer_SendSilKitMsg (vc_registry c) (VM_ConnectRequest
     (connect_request RPCR_FAILED_TO_CONNECT peerInfo (MakePeerInfo c) c)))"

text \<open>The two methods that return whether the attempt was made return it as the argument of the continuation.\<close>

definition TryRemoteConnectRequest ::
    "'m vasio_host \<Rightarrow> VAsioPeerInfo \<Rightarrow> (bool \<Rightarrow> ('m, 'z) connection_action) \<Rightarrow> ('m, 'z) connection_action" where
  "TryRemoteConnectRequest h peerInfo result = act_read (\<lambda>c.
     if CAP_RequestParticipantConnection \<notin> set (vc_capabilities c)
     then act_seq (vc_log ''Cannot request remote connection, because it is disabled in the configuration'') (result False)
     else case vh_HasCapability h (vpi_capabilities peerInfo) CAP_RequestParticipantConnection of
         Inl e \<Rightarrow> act_seq (vc_log ''Failed to parse capabilities string'') (result False)
       | Inr False \<Rightarrow> act_seq (vc_log ''Cannot request remote connection, because the peer does not support it'') (result False)
       | Inr True \<Rightarrow> act_seq (peer_SendSilKitMsg (vc_registry c) (VM_ConnectRequest
           (connect_request RPCR_REQUEST (MakePeerInfo c) peerInfo c))) (result True))"

definition TryProxyConnect :: "'m vasio_host \<Rightarrow> VAsioPeerInfo \<Rightarrow> (bool \<Rightarrow> ('m, 'z) connection_action) \<Rightarrow> ('m, 'z) connection_action" where
  "TryProxyConnect h peerInfo result = act_read (\<lambda>c.
     if CAP_ProxyMessage \<notin> set (vc_capabilities c)
     then act_seq (vc_log ''Cannot use the registry as a proxy, because it is disabled in the configuration'') (result False)
     else case vh_HasCapability h (vpi_capabilities peerInfo) CAP_ProxyMessage of
         Inl e \<Rightarrow> act_throw e
       | Inr False \<Rightarrow> act_seq (vc_log ''Cannot use the registry as a proxy, because the peer does not support it'') (result False)
       | Inr True \<Rightarrow> act_all
           [update_peer (vh_newPeer h) (\<lambda>_. fresh_peer peerInfo (vc_registry c # po_proxies (vc_peer c (vc_registry c)))),
            HandleConnectedPeer (vh_newPeer h),
            AddPeer (vh_newPeer h),
            result True])"

section \<open>Loss of a peer\<close>

definition SendProxyPeerShutdownNotification :: "nat \<Rightarrow> ('m, 'z) connection_action" where
  "SendProxyPeerShutdownNotification p = act_read (\<lambda>c.
     let simulation = po_simulationName (vc_peer c p); source = peer_name c p
     in act_each (\<lambda>destination. case FindPeerByName simulation destination c of
            None \<Rightarrow> act_skip
          | Some d \<Rightarrow> peer_SendSilKitMsg d (VM_Proxy 0 source destination None))
        (vc_proxySourceToDestinations c simulation source))"

definition RemovePeerFromLinks :: "nat \<Rightarrow> ('m, 'z) connection_action" where
  "RemovePeerFromLinks p = act_modify (\<lambda>c. c\<lparr>vc_links := (\<lambda>t networkName.
     map_option (RemoveRemoteReceiver (peer_participantId c) p) (vc_links c t networkName))\<rparr>)"

definition RemovePeerFromConnection :: "nat \<Rightarrow> ('m, 'z) connection_action" where
  "RemovePeerFromConnection p = act_modify (\<lambda>c. c\<lparr>
     vc_participantNameToPeer := (vc_participantNameToPeer c)(po_simulationName (vc_peer c p) :=
       (vc_participantNameToPeer c (po_simulationName (vc_peer c p)))(peer_name c p := None)),
     vc_peers := erase_first ((=) p) (vc_peers c)\<rparr>)"

text \<open>
  \<^verbatim>\<open>OnPeerShutdown\<close> first shuts down the peers that were reached through the lost one. Each call takes an entry out of the table of
  proxies, so the number of its entries bounds the depth.
\<close>

fun OnPeerShutdown_within :: "nat \<Rightarrow> (nat \<Rightarrow> ('m, 'z) connection_action) list \<Rightarrow> nat \<Rightarrow> ('m, 'z) connection_action" where
  "OnPeerShutdown_within 0 callbacks p = act_throw (Undefined_behaviour ''recursion without end'')"
| "OnPeerShutdown_within (Suc n) callbacks p = act_read (\<lambda>c. act_when (\<not> vc_isShuttingDown c) (act_all
     [act_modify (\<lambda>c. c\<lparr>vc_peerToProxyPeers := AList.delete p (vc_peerToProxyPeers c)\<rparr>),
      act_each (OnPeerShutdown_within n callbacks) (umap_at [] p (vc_peerToProxyPeers c)),
      SendProxyPeerShutdownNotification p,
      act_each (\<lambda>callback. callback p) callbacks,
      RemovePeerFromLinks p,
      RemovePeerFromConnection p]))"

definition OnPeerShutdown :: "(nat \<Rightarrow> ('m, 'z) connection_action) list \<Rightarrow> nat \<Rightarrow> ('m, 'z) connection_action" where
  "OnPeerShutdown callbacks p = act_read (\<lambda>c. OnPeerShutdown_within (Suc (length (vc_peerToProxyPeers c))) callbacks p)"

section \<open>Received messages\<close>

fun PreambleIsPresent :: "protocol_version \<Rightarrow> 'm vmsg \<Rightarrow> bool" where
  "PreambleIsPresent version (VM_Reply reply) \<longleftrightarrow> version \<noteq> pv30"
| "PreambleIsPresent version (VM_ConnectRequest request) \<longleftrightarrow> version \<noteq> pv31"
| "PreambleIsPresent version msg \<longleftrightarrow> True"

record ('m, 'z) vasio_callbacks =
  vk_announcement :: "(nat \<Rightarrow> ParticipantAnnouncement \<Rightarrow> ('m, 'z) connection_action) list"
  vk_shutdown :: "(nat \<Rightarrow> ('m, 'z) connection_action) list"

fun registry_dispatch :: "'m vasio_host \<Rightarrow> ('m, 'z) vasio_callbacks \<Rightarrow> nat \<Rightarrow> 'm vmsg \<Rightarrow> ('m, 'z) connection_action" where
  "registry_dispatch h k p (VM_Announcement announcement) = ReceiveParticipantAnnouncement (vk_announcement k) p announcement"
| "registry_dispatch h k p (VM_Reply reply) = ReceiveParticipantAnnouncementReply p reply"
| "registry_dispatch h k p (VM_Known known) = ReceiveKnownParticpants p known"
| "registry_dispatch h k p (VM_ConnectRequest request) = ReceiveRemoteParticipantConnectRequest h p request"
| "registry_dispatch h k p msg = vc_log ''Received message with RegistryMessageKind::Invalid''"

definition ReceiveRegistryMessage ::
    "'m vasio_host \<Rightarrow> ('m, 'z) vasio_callbacks \<Rightarrow> RegistryMsgHeader \<Rightarrow> nat \<Rightarrow> 'm vmsg \<Rightarrow> ('m, 'z) connection_action" where
  "ReceiveRegistryMessage h k header p msg = act_read (\<lambda>c.
     if PreambleIsPresent (po_protocolVersion (vc_peer c p)) msg \<and> rmh_preamble header \<noteq> default_preamble
     then vc_log ''Ignoring registry message with invalid preamble''
     else registry_dispatch h k p msg)"

definition relay_proxy_message :: "nat \<Rightarrow> string \<Rightarrow> string \<Rightarrow> 'm vmsg option \<Rightarrow> ('m, 'z) connection_action" where
  "relay_proxy_message p source destination payload = act_read (\<lambda>c.
     let simulation = po_simulationName (vc_peer c p)
     in case FindPeerByName simulation destination c of
          None \<Rightarrow> vc_log ''Unable to deliver proxy message''
        | Some d \<Rightarrow> act_all
            [peer_SendSilKitMsg d (VM_Proxy 0 source destination payload),
             act_modify (\<lambda>c. c\<lparr>vc_proxySourceToDestinations := (vc_proxySourceToDestinations c)(simulation :=
               (vc_proxySourceToDestinations c simulation)(source :=
                 List.insert destination (vc_proxySourceToDestinations c simulation source)))\<rparr>)])"

fun OnSocketData :: "'m vasio_host \<Rightarrow> ('m, 'z) vasio_callbacks \<Rightarrow> nat \<Rightarrow> 'm vmsg \<Rightarrow> ('m, 'z) connection_action" where
  "OnSocketData h k p VM_Invalid = vc_log ''Received message with VAsioMsgKind::Invalid''"
| "OnSocketData h k p (VM_Subscription subscriber) = ReceiveSubscriptionAnnouncement p subscriber"
| "OnSocketData h k p (VM_Acknowledge ack) = ReceiveSubscriptionAcknowledge p ack"
| "OnSocketData h k p (VM_Data t receiverIdx endpoint msg) = ReceiveRawSilKitMessage h p t receiverIdx endpoint msg"
| "OnSocketData h k p (VM_Proxy version source destination payload) = act_read (\<lambda>c.
     if version \<noteq> 0 then vc_log ''Ignoring SilKitProxyMessage because message version is not supported''
     else if CAP_ProxyMessage \<notin> set (vc_capabilities c)
     then vc_log ''Ignoring SilKitProxyMessage because feature is disabled via configuration''
     else if peer_name c p = source then relay_proxy_message p source destination payload
     else if vc_participantName c = destination
     then let q = (case FindPeerByName (vc_simulationName c) source c of None \<Rightarrow> vh_newPeer h | Some q \<Rightarrow> q)
       in act_seq
         (act_when (FindPeerByName (vc_simulationName c) source c = None) (act_all
           [update_peer q (\<lambda>_. fresh_peer VAsioPeerInfo_default (p # po_proxies (vc_peer c p))),
            AddPeer q]))
         (case payload of
            None \<Rightarrow> OnPeerShutdown (vk_shutdown k) q
          | Some msg \<Rightarrow> OnSocketData h k q msg)
     else act_skip)"
| "OnSocketData h k p (VM_RegistryInvalid header) = ReceiveRegistryMessage h k header p (VM_RegistryInvalid header)"
| "OnSocketData h k p (VM_Announcement announcement) =
     ReceiveRegistryMessage h k (pa_messageHeader announcement) p (VM_Announcement announcement)"
| "OnSocketData h k p (VM_Reply reply) = ReceiveRegistryMessage h k (par_remoteHeader reply) p (VM_Reply reply)"
| "OnSocketData h k p (VM_Known known) = ReceiveRegistryMessage h k (kp_messageHeader known) p (VM_Known known)"
| "OnSocketData h k p (VM_ConnectRequest request) =
     ReceiveRegistryMessage h k (rpcr_messageHeader request) p (VM_ConnectRequest request)"

section \<open>Queries\<close>

definition GetNumberOfRemoteReceivers :: "string \<Rightarrow> string \<Rightarrow> ('m, 'z) connection_scheme \<Rightarrow> nat" where
  "GetNumberOfRemoteReceivers networkName msgTypeName c = fold (\<lambda>t result. if result \<noteq> 0 then result
     else (case vc_links c t networkName of None \<Rightarrow> 0 | Some l \<Rightarrow> link_GetNumberOfRemoteReceivers l)) (types_named msgTypeName) 0"

definition GetParticipantNamesOfRemoteReceivers :: "string \<Rightarrow> string \<Rightarrow> ('m, 'z) connection_scheme \<Rightarrow> string list" where
  "GetParticipantNamesOfRemoteReceivers networkName msgTypeName c = fold (\<lambda>t result. if result \<noteq> [] then result
     else (case vc_links c t networkName of None \<Rightarrow> [] | Some l \<Rightarrow> link_GetParticipantNamesOfRemoteReceivers (peer_name c) l))
     (types_named msgTypeName) []"

definition ParticipantHasCapability :: "'m vasio_host \<Rightarrow> string \<Rightarrow> string \<Rightarrow> ('m, 'z) connection_scheme \<Rightarrow> bool result" where
  "ParticipantHasCapability h participantName capability c =
     (case FindPeerByName (vc_simulationName c) participantName c of
        None \<Rightarrow> Inr False
      | Some p \<Rightarrow> vh_HasCapability h (vpi_capabilities (po_info (vc_peer c p))) capability)"

section \<open>What the methods do\<close>

lemma on_link_outcome:
  "a (link_at t n c) = (l, evs, err) \<Longrightarrow> on_link t n a c = (put_link t n l c, map (route_event c \<circ> link_event t n) evs, err)"
  by (simp add: on_link_def act_within_def)

lemma link_at_put [simp]: "link_at t' n' (put_link t n l c) = (if t' = t \<and> n' = n then l else link_at t' n' c)"
  by (simp add: link_at_def put_link_def)

lemma put_link_fields [simp]:
  "vc_vasioReceivers (put_link t n l c) = vc_vasioReceivers c"
  "vc_vasioUniqueReceiverIds (put_link t n l c) = vc_vasioUniqueReceiverIds c"
  "vc_peer (put_link t n l c) = vc_peer c"
  "vc_peers (put_link t n l c) = vc_peers c"
  "vc_pendingSubscriptionAcknowledges (put_link t n l c) = vc_pendingSubscriptionAcknowledges c"
  "vc_pendingAsyncSubscriptionAcknowledges (put_link t n l c) = vc_pendingAsyncSubscriptionAcknowledges c"
  "vc_receivedAllSubscriptionAcknowledges (put_link t n l c) = vc_receivedAllSubscriptionAcknowledges c"
  "vc_serviceToLinkMap (put_link t n l c) = vc_serviceToLinkMap c"
  "vc_simulationName (put_link t n l c) = vc_simulationName c"
  "vc_allowAnySimulationName (put_link t n l c) = vc_allowAnySimulationName c"
  "vc_participantName (put_link t n l c) = vc_participantName c"
  "vc_version (put_link t n l c) = vc_version c"
  by (simp_all add: put_link_def)

text \<open>Two message types have the same name on the wire.\<close>

lemma controller_config_name_clash:
  "map (mt_TypeName \<circ> traits) (types_named ''CONTROLLERCONFIG'')
     = [''SilKit::Services::Lin::WireLinControllerConfig'', ''SilKit::Services::Flexray::FlexrayControllerConfig'']"
  by code_simp

text \<open>The identifier of a participant whose name is not ASCII depends on the platform.\<close>

lemma participant_id_depends_on_platform: "Hash True [CHR 0xE9] \<noteq> Hash False [CHR 0xE9]"
  by code_simp

text \<open>A lost peer that owes an acknowledgement leaves it pending, so the registration that waits for it never returns.\<close>

definition vc_pending :: "('m, 'z) connection_scheme \<Rightarrow> (nat \<times> VAsioMsgSubscriber) list \<times> (nat \<times> VAsioMsgSubscriber) list \<times> bool" where
  "vc_pending c = (vc_pendingSubscriptionAcknowledges c, vc_pendingAsyncSubscriptionAcknowledges c, vc_receivedAllSubscriptionAcknowledges c)"

lemma peer_Send_keeps [simp]: "holds (keeps f) (peer_SendSilKitMsg p msg) c"
  by (simp add: peer_SendSilKitMsg_def holds_def keeps_def)

lemma notification_keeps [simp]: "holds (keeps f) (SendProxyPeerShutdownNotification p) c"
  unfolding SendProxyPeerShutdownNotification_def Let_def
  by (intro keeping.along_read keeping.along_each) (simp split: option.splits)

lemma shutdown_keeps_pending:
  assumes "\<And>callback p c. callback \<in> set callbacks \<Longrightarrow> holds (keeps vc_pending) (callback p) c"
  shows "holds (keeps vc_pending) (OnPeerShutdown callbacks p) c"
proof -
  have "holds (keeps vc_pending) (OnPeerShutdown_within n callbacks p) c" for n p c
  proof (induction n arbitrary: p c)
    case (Suc n)
    show ?case
      unfolding OnPeerShutdown_within.simps act_all.simps RemovePeerFromLinks_def RemovePeerFromConnection_def
      by (intro keeping.along_read keeping.along_when keeping.along_seq keeping.along_each)
        (simp add: Suc assms | simp add: vc_pending_def)+
  qed simp
  then show ?thesis unfolding OnPeerShutdown_def by (intro keeping.along_read)
qed

end
