(* ===== verification/Spec2Isabelle.thy ===== *)
theory Spec2Isabelle
  imports CanSerdes EthernetSerdes LinSerdes FlexraySerdes SyncSerdes DataRpcSerdes
    ServiceSerdes LoggingSerdes VAsioPeer TimeSyncSystem LifecycleProgress DiscoverySystem Rpc LinNetwork
    CanNetwork EthernetNetwork FlexrayController Connection
begin

text \<open>
  Verification of the SIL Kit, a library with which the participants of a distributed simulation exchange
  messages of vehicle networks, share a virtual time and go through a common life cycle. File names are relative to
  \<^verbatim>\<open>src/SilKit/source/\<close>.

  \<^bold>\<open>Parts and theories.\<close>

  \<^item> \<open>Prelude\<close>: errors as values, results, bytes, ordered association lists for \<^verbatim>\<open>std::map\<close>.

  \<^item> \<open>MessageBuffer\<close>, \<open>Codec\<close>: the serialisation buffer of \<^verbatim>\<open>core/internal/MessageBuffer.hpp\<close> and the contract
  between the two stream operators of a type, the locale \<open>codec\<close>: what is written is read back, a cut message is rejected, and
  no reader leaves the storage.

  \<^item> \<open>CanSerdes\<close>, \<open>EthernetSerdes\<close>, \<open>LinSerdes\<close>, \<open>FlexraySerdes\<close>, \<open>SyncSerdes\<close>, \<open>DataRpcSerdes\<close>, \<open>ServiceSerdes\<close>,
  \<open>LoggingSerdes\<close>, \<open>VAsioSerdes\<close>, \<open>VAsioHandshake\<close>: the messages of the services (\<^verbatim>\<open>wire/\<close>, \<^verbatim>\<open>services/*/*Serdes.cpp\<close>,
  \<^verbatim>\<open>core/service\<close>, \<^verbatim>\<open>core/requests\<close>, \<^verbatim>\<open>core/vasio/VAsioSerdes*.cpp\<close>) as records with their serialisers; every
  pair of operators interprets \<open>codec\<close>.

  \<^item> \<open>SerializedMessage\<close>: the envelope (\<^verbatim>\<open>core/vasio/SerializedMessage.cpp\<close>): handshake messages reach peers of
  protocol versions 3.0 and 3.1.

  \<^item> \<open>RingBuffer\<close>, \<open>VAsioPeer\<close>: the receive buffer refines a queue of bytes (locale \<open>byte_queue\<close>), and a connection cuts the
  byte stream into the messages that were sent, and writes what it was given to send in order.

  \<^item> \<open>Endpoint\<close>, \<open>Link\<close>, \<open>Connection\<close>: the links of the message types and networks (\<^verbatim>\<open>core/vasio/SilKitLink.hpp\<close>,
  \<^verbatim>\<open>VAsioTransmitter.hpp\<close>) and the connection of a participant to all others (\<^verbatim>\<open>VAsioConnection.hpp\<close>, \<^verbatim>\<open>.cpp\<close>).

  \<^item> \<open>TimeConfiguration\<close>, \<open>TimeSync\<close>, \<open>TimeSyncSystem\<close>: the distributed virtual time
  (\<^verbatim>\<open>services/orchestration/TimeConfiguration.cpp\<close>, \<^verbatim>\<open>TimeSyncService.cpp\<close>) of one participant and of a network of them: no
  participant runs ahead, time has no gaps, and the algorithm does not block.

  \<^item> \<open>OrchestrationDatatypes\<close>, \<open>SystemStateTracker\<close>, \<open>SystemMonitor\<close>: the system state computed from the participants' states and the
  handlers told about it.

  \<^item> \<open>Lifecycle\<close>, \<open>LifecycleSystem\<close>, \<open>LifecycleProgress\<close>: the state machine of a participant with its service, manager and the
  procedure that waits for all replies, its transitions (locale \<open>pending_tasks\<close>), and that each task of it ends.

  \<^item> \<open>DiscoveryStore\<close>, \<open>ServiceDiscovery\<close>, \<open>DiscoverySystem\<close>: label matching, the store of services and handlers, the announcements
  and their exchange between two participants.

  \<^item> \<open>Rpc\<close>: remote procedure calls, client and server.

  \<^item> \<open>Action\<close>, \<open>Handlers\<close>, \<open>SimBehavior\<close>: what the bus controllers share: methods as actions on a state (locale \<open>trace_relation\<close>),
  handler lists, the choice between the trivial and the detailed simulation (\<^verbatim>\<open>services/*/SimBehavior*.cpp\<close>), replay settings.

  \<^item> \<open>LinController\<close>, \<open>LinNetwork\<close>: the LIN controller (\<^verbatim>\<open>services/lin\<close>) and a master with its slaves: memory safety, what the
  master knows about the slaves, arbitration and the transfer of a frame.

  \<^item> \<open>BusNetwork\<close>, \<open>CanController\<close>, \<open>CanNetwork\<close>, \<open>EthernetController\<close>, \<open>EthernetNetwork\<close>: the controllers of \<^verbatim>\<open>services/can\<close> and
  \<^verbatim>\<open>services/ethernet\<close>; the locale \<open>bus_node\<close> says what a network needs of a controller so that every frame arrives once and in
  order, and both controllers interpret it.

  \<^item> \<open>FlexrayController\<close>: the FlexRay controller and the validation of its parameters (\<^verbatim>\<open>services/flexray\<close>).

  \<^bold>\<open>Conventions.\<close> A class is a record of its members; a method that has effects returns the new state, the calls it makes to the
  outside in their order, and the exception it ends with. User code, the clock, random identifiers, the socket and the label parser (a
  third-party YAML library) are arguments. Methods that hold a mutex for their whole body are one step. A dereferenced end iterator or
  an access out of range is the error value \<open>Undefined_behaviour\<close>.

  \<^bold>\<open>Bounds and fuel.\<close> The loops of the code are recursions over their lists. Receive loops are defined by a measure (the bytes
  left). Tasks of the life cycle run with a number of calls as fuel; \<open>lifecycle_tasks_end\<close> shows that finitely many are
  enough, and thirteen for one call of a state. Integers on the wire have their width; times are counts of nanoseconds without
  overflow, which needs 292 years of simulated time.

  \<^bold>\<open>Not modelled.\<close> The publish/subscribe services, the connection management of \<^verbatim>\<open>VAsioConnection\<close> and the registry,
  network simulation and replay are not modelled yet. The C interface, the dashboard, YAML conversion, sockets and logging sinks are bindings or
  input and output on top of third-party libraries.
\<close>

end
